(* ===== verification/Py_Prelude.thy ===== *)
theory Py_Prelude
  imports Complex_Main "HOL-Library.AList" "HOL-Library.Word" "HOL-Library.Sublist"
begin

unbundle bit_operations_syntax

text \<open>
  Shared ground of the development: Python's dynamic values, dicts, strings and raised
  exceptions, with the lemmas every component uses.

  \<^item> \<open>pyval\<close> is a JSON-shaped Python value. An \<open>int\<close> is unbounded; a \<open>float\<close> is kept as
    its 64-bit IEEE pattern (\<open>double\<close>), so encoding and finiteness tests are exact; a
    \<open>dict\<close> is an association list in insertion order, as Python keeps it.
  \<^item> A raising function returns a sum, \<open>Inl\<close> the exception; \<open>bindE\<close> sequences two of them.
  \<^item> Strings are lists of ASCII characters.
\<close>

section \<open>Automation\<close>

named_theorems dict_simps "lookups after dict operations"
named_theorems bind_simps "sequencing of fallible calls"

section \<open>Fallible calls\<close>

definition bindE :: "'e + 'a \<Rightarrow> ('a \<Rightarrow> 'e + 'b) \<Rightarrow> 'e + 'b" where
  "bindE m f = (case m of Inl e \<Rightarrow> Inl e | Inr a \<Rightarrow> f a)"

lemma bindE_Inl [simp, bind_simps]: "bindE (Inl e) f = Inl e"
  by (simp add: bindE_def)

lemma bindE_Inr [simp, bind_simps]: "bindE (Inr a) f = f a"
  by (simp add: bindE_def)

lemma bindE_eq_Inr: "bindE m f = Inr b \<longleftrightarrow> (\<exists>a. m = Inr a \<and> f a = Inr b)"
  by (cases m) auto

lemma bindE_eq_Inl: "bindE m f = Inl e \<longleftrightarrow> m = Inl e \<or> (\<exists>a. m = Inr a \<and> f a = Inl e)"
  by (cases m) auto

lemma bindE_assoc: "bindE (bindE m f) g = bindE m (\<lambda>a. bindE (f a) g)"
  by (cases m) auto

fun mapE :: "('a \<Rightarrow> 'e + 'b) \<Rightarrow> 'a list \<Rightarrow> 'e + 'b list" where
  "mapE f [] = Inr []"
| "mapE f (x # xs) = bindE (f x) (\<lambda>y. bindE (mapE f xs) (\<lambda>ys. Inr (y # ys)))"

lemma mapE_cong [fundef_cong]:
  "xs = ys \<Longrightarrow> (\<And>x. x \<in> set ys \<Longrightarrow> f x = g x) \<Longrightarrow> mapE f xs = mapE g ys"
proof -
  assume "xs = ys" and "\<And>x. x \<in> set ys \<Longrightarrow> f x = g x"
  then show "mapE f xs = mapE g ys" by (induction ys arbitrary: xs) auto
qed

lemma bindE_cong [fundef_cong]:
  "m = m' \<Longrightarrow> (\<And>a. m' = Inr a \<Longrightarrow> f a = g a) \<Longrightarrow> bindE m f = bindE m' g"
  by (cases m') auto

lemma mapE_Inr_length: "mapE f xs = Inr ys \<Longrightarrow> length ys = length xs"
  by (induction xs arbitrary: ys) (auto simp: bindE_eq_Inr)

lemma mapE_eq_Inr: "mapE f xs = Inr ys \<longleftrightarrow> list_all2 (\<lambda>x y. f x = Inr y) xs ys"
  by (induction xs arbitrary: ys) (auto simp: bindE_eq_Inr list_all2_Cons1)

lemma mapE_member:
  assumes "mapE f xs = Inr ys" "y \<in> set ys"
  obtains x where "x \<in> set xs" "f x = Inr y"
proof -
  have "list_all2 (\<lambda>x y. f x = Inr y) xs ys" using assms(1) by (simp add: mapE_eq_Inr)
  then show thesis using assms(2) that by (induction rule: list_all2_induct) auto
qed

lemma mapE_Inr [simp]: "mapE (\<lambda>x. Inr (f x)) xs = Inr (map f xs)"
  by (induction xs) auto

lemma mapE_map: "mapE f (map g xs) = mapE (\<lambda>x. f (g x)) xs"
  by (induction xs) auto

section \<open>Strings\<close>

definition char_lower :: "char \<Rightarrow> char" where
  "char_lower c = (let n = (of_char c :: nat) in if 65 \<le> n \<and> n \<le> 90 then char_of (n + 32) else c)"

definition char_upper :: "char \<Rightarrow> char" where
  "char_upper c = (let n = (of_char c :: nat) in if 97 \<le> n \<and> n \<le> 122 then char_of (n - 32) else c)"

definition char_is_space :: "char \<Rightarrow> bool" where
  "char_is_space c = (let n = (of_char c :: nat) in (9 \<le> n \<and> n \<le> 13) \<or> (28 \<le> n \<and> n \<le> 32))"

definition char_is_digit :: "char \<Rightarrow> bool" where
  "char_is_digit c = (let n = (of_char c :: nat) in 48 \<le> n \<and> n \<le> 57)"

definition digit_value :: "char \<Rightarrow> nat" where
  "digit_value c = of_char c - 48"

definition str_lower :: "string \<Rightarrow> string" where
  "str_lower = map char_lower"

definition str_upper :: "string \<Rightarrow> string" where
  "str_upper = map char_upper"

definition str_lstrip :: "string \<Rightarrow> string" where
  "str_lstrip = dropWhile char_is_space"

definition str_strip :: "string \<Rightarrow> string" where
  "str_strip s = rev (str_lstrip (rev (str_lstrip s)))"

definition str_replace_char :: "char \<Rightarrow> char \<Rightarrow> string \<Rightarrow> string" where
  "str_replace_char a b = map (\<lambda>c. if c = a then b else c)"

definition str_strip_chars :: "char set \<Rightarrow> string \<Rightarrow> string" where
  "str_strip_chars cs s = rev (dropWhile (\<lambda>c. c \<in> cs) (rev (dropWhile (\<lambda>c. c \<in> cs) s)))"

definition str_rstrip_chars :: "char set \<Rightarrow> string \<Rightarrow> string" where
  "str_rstrip_chars cs s = rev (dropWhile (\<lambda>c. c \<in> cs) (rev s))"

fun str_split_char :: "char \<Rightarrow> string \<Rightarrow> string list" where
  "str_split_char sep [] = [[]]"
| "str_split_char sep (c # cs) =
     (if c = sep then [] # str_split_char sep cs
      else (case str_split_char sep cs of [] \<Rightarrow> [[c]] | w # ws \<Rightarrow> (c # w) # ws))"

fun str_join :: "string \<Rightarrow> string list \<Rightarrow> string" where
  "str_join sep [] = []"
| "str_join sep [x] = x"
| "str_join sep (x # y # ys) = x @ sep @ str_join sep (y # ys)"

fun nat_digits :: "nat \<Rightarrow> string" where
  "nat_digits n = (if n < 10 then [char_of (48 + n)] else nat_digits (n div 10) @ [char_of (48 + n mod 10)])"

declare nat_digits.simps [simp del]

definition str_of_int :: "int \<Rightarrow> string" where
  "str_of_int i = (if i < 0 then CHR ''-'' # nat_digits (nat (- i)) else nat_digits (nat i))"

definition digits_value :: "string \<Rightarrow> nat" where
  "digits_value ds = foldl (\<lambda>acc c. 10 * acc + digit_value c) 0 ds"

definition str_isdigit :: "string \<Rightarrow> bool" where
  "str_isdigit s \<longleftrightarrow> s \<noteq> [] \<and> list_all char_is_digit s"

lemma digits_value_snoc: "digits_value (ds @ [c]) = 10 * digits_value ds + digit_value c"
  by (simp add: digits_value_def)

lemma digit_value_char_of: "n < (10 :: nat) \<Longrightarrow> digit_value (char_of (48 + n)) = n"
  by (simp add: digit_value_def)

lemma char_is_digit_char_of: "n < (10 :: nat) \<Longrightarrow> char_is_digit (char_of (48 + n))"
  by (simp add: char_is_digit_def Let_def)

lemma digits_value_nat_digits [simp]: "digits_value (nat_digits n) = n"
proof (induction n rule: nat_digits.induct)
  case (1 n)
  show ?case
  proof (cases "n < 10")
    case True
    then show ?thesis
      by (subst nat_digits.simps) (simp add: digits_value_def digit_value_char_of)
  next
    case False
    have "digits_value (nat_digits n) = 10 * digits_value (nat_digits (n div 10)) + n mod 10"
      using False by (subst nat_digits.simps) (simp add: digits_value_snoc digit_value_char_of)
    with 1 False show ?thesis by simp
  qed
qed

lemma nat_digits_isdigit [simp]: "list_all char_is_digit (nat_digits n)"
proof (induction n rule: nat_digits.induct)
  case (1 n)
  then show ?case
    by (cases "n < 10"; subst nat_digits.simps) (simp_all add: char_is_digit_char_of)
qed

lemma nat_digits_nonempty [simp]: "nat_digits n \<noteq> []"
  by (subst nat_digits.simps) simp

lemma str_isdigit_nat_digits [simp]: "str_isdigit (nat_digits n)"
  by (simp add: str_isdigit_def)

lemma of_char_char_lower:
  "(of_char (char_lower c) :: nat) = (if 65 \<le> (of_char c :: nat) \<and> (of_char c :: nat) \<le> 90 then of_char c + 32 else of_char c)"
  by (auto simp: char_lower_def Let_def)

lemma of_char_char_upper:
  "(of_char (char_upper c) :: nat) = (if 97 \<le> (of_char c :: nat) \<and> (of_char c :: nat) \<le> 122 then of_char c - 32 else of_char c)"
proof -
  have "97 \<le> (of_char c :: nat) \<Longrightarrow> (of_char c :: nat) \<le> 122 \<Longrightarrow>
      (of_char c - 32 :: nat) mod 256 = of_char c - 32"
    by (rule mod_less) linarith
  then show ?thesis by (auto simp: char_upper_def Let_def)
qed

text \<open>The same functions on the bits of a character, so that they evaluate on literals.\<close>

lemma of_char_bits: "(of_char (Char b0 b1 b2 b3 b4 b5 b6 b7) :: nat) =
  of_bool b0 + 2 * of_bool b1 + 4 * of_bool b2 + 8 * of_bool b3 + 16 * of_bool b4 + 32 * of_bool b5
  + 64 * of_bool b6 + 128 * of_bool b7"
  by (simp add: of_char_def)

lemma char_lower_bits [simp]: "char_lower (Char b0 b1 b2 b3 b4 b5 b6 b7) =
  (if \<not> b7 \<and> b6 \<and> \<not> b5 \<and> (b0 \<or> b1 \<or> b2 \<or> b3 \<or> b4) \<and> \<not> (b4 \<and> b3 \<and> (b2 \<or> (b1 \<and> b0)))
   then Char b0 b1 b2 b3 b4 True b6 b7 else Char b0 b1 b2 b3 b4 b5 b6 b7)"
proof -
  have "(of_char (char_lower (Char b0 b1 b2 b3 b4 b5 b6 b7)) :: nat) = of_char
  (if \<not> b7 \<and> b6 \<and> \<not> b5 \<and> (b0 \<or> b1 \<or> b2 \<or> b3 \<or> b4) \<and> \<not> (b4 \<and> b3 \<and> (b2 \<or> (b1 \<and> b0)))
   then Char b0 b1 b2 b3 b4 True b6 b7 else Char b0 b1 b2 b3 b4 b5 b6 b7)"
    unfolding of_char_char_lower of_char_bits
    by (cases b0; cases b1; cases b2; cases b3; cases b4; cases b5; cases b6; cases b7; simp add: of_char_bits)
  then show ?thesis by (simp only: of_char_eq_iff)
qed

lemma char_upper_bits [simp]: "char_upper (Char b0 b1 b2 b3 b4 b5 b6 b7) =
  (if \<not> b7 \<and> b6 \<and> b5 \<and> (b0 \<or> b1 \<or> b2 \<or> b3 \<or> b4) \<and> \<not> (b4 \<and> b3 \<and> (b2 \<or> (b1 \<and> b0)))
   then Char b0 b1 b2 b3 b4 False b6 b7 else Char b0 b1 b2 b3 b4 b5 b6 b7)"
proof -
  have "(of_char (char_upper (Char b0 b1 b2 b3 b4 b5 b6 b7)) :: nat) = of_char
  (if \<not> b7 \<and> b6 \<and> b5 \<and> (b0 \<or> b1 \<or> b2 \<or> b3 \<or> b4) \<and> \<not> (b4 \<and> b3 \<and> (b2 \<or> (b1 \<and> b0)))
   then Char b0 b1 b2 b3 b4 False b6 b7 else Char b0 b1 b2 b3 b4 b5 b6 b7)"
    unfolding of_char_char_upper of_char_bits
    by (cases b0; cases b1; cases b2; cases b3; cases b4; cases b5; cases b6; cases b7; simp add: of_char_bits)
  then show ?thesis by (simp only: of_char_eq_iff)
qed

lemma char_is_digit_bits [simp]: "char_is_digit (Char b0 b1 b2 b3 b4 b5 b6 b7) \<longleftrightarrow>
  \<not> b7 \<and> \<not> b6 \<and> b5 \<and> b4 \<and> \<not> (b3 \<and> (b2 \<or> b1))"
  unfolding char_is_digit_def of_char_bits
  by (cases b0; cases b1; cases b2; cases b3; cases b4; cases b5; cases b6; cases b7; simp)

lemma char_is_space_bits [simp]: "char_is_space (Char b0 b1 b2 b3 b4 b5 b6 b7) \<longleftrightarrow>
  \<not> b7 \<and> \<not> b6 \<and>
  ((b5 \<and> \<not> b4 \<and> \<not> b3 \<and> \<not> b2 \<and> \<not> b1 \<and> \<not> b0) \<or>
   (\<not> b5 \<and> b4 \<and> b3 \<and> b2) \<or>
   (\<not> b5 \<and> \<not> b4 \<and> b3 \<and> \<not> (b2 \<and> b1) \<and> (b2 \<or> b1 \<or> b0)))"
  unfolding char_is_space_def of_char_bits
  by (cases b0; cases b1; cases b2; cases b3; cases b4; cases b5; cases b6; cases b7; simp)

lemma char_lower_idem [simp]: "char_lower (char_lower c) = char_lower c"
  by (auto simp: char_lower_def Let_def)

lemma str_lower_idem [simp]: "str_lower (str_lower s) = str_lower s"
  by (simp add: str_lower_def)

lemma str_lower_length [simp]: "length (str_lower s) = length s"
  by (simp add: str_lower_def)

lemma char_upper_lower [simp]: "char_upper (char_lower c) = char_upper c"
  by (auto simp: char_upper_def char_lower_def Let_def)

lemma char_lower_upper [simp]: "char_lower (char_upper c) = char_lower c"
  by (auto simp: char_upper_def char_lower_def Let_def)

lemma char_upper_idem [simp]: "char_upper (char_upper c) = char_upper c"
  by (auto simp: char_upper_def Let_def)

lemma str_upper_idem [simp]: "str_upper (str_upper s) = str_upper s"
  by (simp add: str_upper_def)

lemma str_upper_lower [simp]: "str_upper (str_lower s) = str_upper s"
  by (simp add: str_upper_def str_lower_def)

section \<open>Dicts\<close>

text \<open>
  A dict is an association list; writing an existing key keeps its position, a new key
  goes last (\<open>AList.update\<close>).
\<close>

type_synonym ('k, 'v) pydict = "('k \<times> 'v) list"

definition dict_get :: "('k, 'v) pydict \<Rightarrow> 'k \<Rightarrow> 'v option" where
  "dict_get d k = map_of d k"

definition dict_set :: "('k, 'v) pydict \<Rightarrow> 'k \<Rightarrow> 'v \<Rightarrow> ('k, 'v) pydict" where
  "dict_set d k v = AList.update k v d"

definition dict_pop :: "('k, 'v) pydict \<Rightarrow> 'k \<Rightarrow> ('k, 'v) pydict" where
  "dict_pop d k = AList.delete k d"

definition dict_setdefault :: "('k, 'v) pydict \<Rightarrow> 'k \<Rightarrow> 'v \<Rightarrow> ('k, 'v) pydict" where
  "dict_setdefault d k v = (case dict_get d k of None \<Rightarrow> dict_set d k v | Some _ \<Rightarrow> d)"

definition dict_has :: "('k, 'v) pydict \<Rightarrow> 'k \<Rightarrow> bool" where
  "dict_has d k \<longleftrightarrow> dict_get d k \<noteq> None"

text \<open>Repeated writes in the order of a list of items, for any store with a write operation.\<close>

definition put_all :: "('m \<Rightarrow> 'k \<Rightarrow> 'v \<Rightarrow> 'm) \<Rightarrow> 'm \<Rightarrow> ('k \<times> 'v) list \<Rightarrow> 'm" where
  "put_all put m kvs = foldl (\<lambda>m (k, v). put m k v) m kvs"

definition dict_update :: "('k, 'v) pydict \<Rightarrow> ('k, 'v) pydict \<Rightarrow> ('k, 'v) pydict" where
  "dict_update d e = put_all dict_set d e"

definition dict_wf :: "('k, 'v) pydict \<Rightarrow> bool" where
  "dict_wf d \<longleftrightarrow> distinct (map fst d)"

definition dict_keys :: "('k, 'v) pydict \<Rightarrow> 'k list" where
  "dict_keys d = map fst d"

lemma dict_keys_Nil [simp]: "dict_keys [] = []"
  by (simp add: dict_keys_def)

lemma set_dict_keys_set [simp]: "set (dict_keys (dict_set d k v)) = insert k (set (dict_keys d))"
  by (simp add: dict_keys_def dict_set_def dom_update)

lemma set_dict_set: "set (dict_set d k v) \<subseteq> insert (k, v) (set d)"
  by (induction d) (auto simp: dict_set_def)

lemma dict_get_keys: "dict_get d k = Some v \<Longrightarrow> k \<in> set (dict_keys d)"
  by (force simp: dict_keys_def dict_get_def dest: map_of_SomeD)

lemma put_all_Nil [simp]: "put_all put m [] = m"
  by (simp add: put_all_def)

lemma put_all_Cons [simp]: "put_all put m ((k, v) # kvs) = put_all put (put m k v) kvs"
  by (simp add: put_all_def)

text \<open>The interface of a key-value store: what a lookup returns after a write.\<close>

locale kv_store =
  fixes look :: "'m \<Rightarrow> 'k \<Rightarrow> 'v option"
    and put :: "'m \<Rightarrow> 'k \<Rightarrow> 'v \<Rightarrow> 'm"
  assumes look_put: "look (put m k v) k' = (if k' = k then Some v else look m k')"
begin

lemma look_put_all:
  "look (put_all put m kvs) k = (case map_of (rev kvs) k of Some v \<Rightarrow> Some v | None \<Rightarrow> look m k)"
proof (induction kvs arbitrary: m)
  case Nil
  then show ?case by simp
next
  case (Cons kv kvs)
  obtain a b where "kv = (a, b)" by (cases kv)
  with Cons show ?case
    by (auto simp: look_put map_add_def split: option.splits)
qed

lemma look_put_all_fresh: "k \<notin> fst ` set kvs \<Longrightarrow> look (put_all put m kvs) k = look m k"
  by (simp add: look_put_all map_of_eq_None_iff split: option.splits)
     (metis map_of_eq_None_iff option.distinct(1) set_rev)

end

locale kv_default = kv_store +
  fixes setdef :: "'a \<Rightarrow> 'b \<Rightarrow> 'c \<Rightarrow> 'a"
  assumes look_setdef: "look (setdef m k v) k' =
    (if k' = k then (case look m k of None \<Rightarrow> Some v | Some w \<Rightarrow> Some w) else look m k')"
begin

lemma look_setdef_all:
  "look (put_all setdef m kvs) k = (case look m k of Some v \<Rightarrow> Some v | None \<Rightarrow> map_of kvs k)"
proof (induction kvs arbitrary: m)
  case Nil
  then show ?case by (simp split: option.splits)
next
  case (Cons kv kvs)
  obtain a b where "kv = (a, b)" by (cases kv)
  with Cons show ?case by (auto simp: look_setdef split: option.splits)
qed

lemma look_setdef_all_keeps: "look m k = Some v \<Longrightarrow> look (put_all setdef m kvs) k = Some v"
  by (simp add: look_setdef_all)

end

lemma dict_get_set [simp, dict_simps]: "dict_get (dict_set d k v) k' = (if k' = k then Some v else dict_get d k')"
  by (simp add: dict_get_def dict_set_def update_conv')

lemma dict_get_pop [simp, dict_simps]: "dict_get (dict_pop d k) k' = (if k' = k then None else dict_get d k')"
  by (simp add: dict_get_def dict_pop_def delete_conv')

lemma dict_get_setdefault [simp, dict_simps]: "dict_get (dict_setdefault d k v) k' =
    (if k' = k then (case dict_get d k of None \<Rightarrow> Some v | Some w \<Rightarrow> Some w) else dict_get d k')"
  by (auto simp: dict_setdefault_def split: option.splits)

interpretation pd: kv_default dict_get dict_set dict_setdefault
  by unfold_locales (simp_all add: dict_simps)

lemma dict_get_Nil [simp]: "dict_get [] k = None"
  by (simp add: dict_get_def)

lemma dict_get_Cons: "dict_get ((a, b) # d) k = (if k = a then Some b else dict_get d k)"
  by (simp add: dict_get_def)

lemma dict_get_update [dict_simps]:
  "dict_get (dict_update d e) k = (case map_of (rev e) k of Some v \<Rightarrow> Some v | None \<Rightarrow> dict_get d k)"
  by (simp add: dict_update_def pd.look_put_all)

lemma map_of_rev_distinct: "distinct (map fst e) \<Longrightarrow> map_of (rev e) = map_of e"
  by (rule map_of_inject_set [THEN iffD2]) (simp_all add: rev_map [symmetric])

lemma dict_get_update_wf [dict_simps]:
  "dict_wf e \<Longrightarrow> dict_get (dict_update d e) k = (case dict_get e k of Some v \<Rightarrow> Some v | None \<Rightarrow> dict_get d k)"
  unfolding dict_get_update dict_wf_def dict_get_def [of e] by (simp add: map_of_rev_distinct)

lemma dict_wf_Nil [simp]: "dict_wf []"
  by (simp add: dict_wf_def)

lemma dict_wf_set [simp, intro]: "dict_wf d \<Longrightarrow> dict_wf (dict_set d k v)"
  by (simp add: dict_wf_def dict_set_def distinct_update)

lemma dict_wf_setdefault [simp, intro]: "dict_wf d \<Longrightarrow> dict_wf (dict_setdefault d k v)"
  by (auto simp: dict_setdefault_def split: option.splits)

lemma dict_wf_pop [simp, intro]: "dict_wf d \<Longrightarrow> dict_wf (dict_pop d k)"
  by (simp add: dict_wf_def dict_pop_def distinct_delete)

lemma dict_wf_update [simp, intro]: "dict_wf d \<Longrightarrow> dict_wf (dict_update d e)"
proof (induction e arbitrary: d)
  case Nil
  then show ?case by (simp add: dict_update_def)
next
  case (Cons kv e)
  from Cons.IH [OF dict_wf_set [OF Cons.prems]] show ?case
    by (cases kv) (simp add: dict_update_def)
qed

lemma dict_has_iff: "dict_has d k \<longleftrightarrow> k \<in> fst ` set d"
  by (auto simp: dict_has_def dict_get_def map_of_eq_None_iff)

section \<open>Dynamic values\<close>

type_synonym double = "64 word"

datatype pyval =
    PNone
  | PBool bool
  | PInt int
  | PFloat double
  | PStr string
  | PBytes "8 word list"
  | PList "pyval list"
  | PTuple "pyval list"
  | PDict "(string \<times> pyval) list"

lemma size_dict_value: "(k, v) \<in> set d \<Longrightarrow> size v < size (PDict d)"
  by (induction d) auto

lemma size_item: "x \<in> set xs \<Longrightarrow> size x < size (PList xs)" "x \<in> set xs \<Longrightarrow> size x < size (PTuple xs)"
  by (auto simp: less_Suc_eq_le intro: size_list_estimation' [where f = size])

text \<open>The fields of a binary64 pattern, whether it is finite, and its exact value.\<close>

definition double_exponent :: "double \<Rightarrow> nat" where
  "double_exponent w = unat (drop_bit 52 w) mod 2048"

definition double_mantissa :: "double \<Rightarrow> nat" where
  "double_mantissa w = unat w mod 2 ^ 52"

definition double_is_finite :: "double \<Rightarrow> bool" where
  "double_is_finite w \<longleftrightarrow> double_exponent w \<noteq> 2047"

definition double_value :: "double \<Rightarrow> rat" where
  "double_value w =
     (if bit w 63 then -1 else 1) *
     (if double_exponent w = 0 then of_nat (double_mantissa w) / 2 ^ 1074
      else of_nat (2 ^ 52 + double_mantissa w) * 2 ^ double_exponent w / 2 ^ 1075)"

text \<open>\<open>bool(value)\<close>: a float is false exactly when it is a zero of either sign.\<close>

fun truthy :: "pyval \<Rightarrow> bool" where
  "truthy PNone = False"
| "truthy (PBool b) = b"
| "truthy (PInt i) = (i \<noteq> 0)"
| "truthy (PFloat w) = (double_exponent w \<noteq> 0 \<or> double_mantissa w \<noteq> 0)"
| "truthy (PStr s) = (s \<noteq> [])"
| "truthy (PBytes b) = (b \<noteq> [])"
| "truthy (PList xs) = (xs \<noteq> [])"
| "truthy (PTuple xs) = (xs \<noteq> [])"
| "truthy (PDict d) = (d \<noteq> [])"

text \<open>\<open>a or b\<close> on values, and \<open>mapping.get(key)\<close>, which is \<open>None\<close> for a missing key.\<close>

definition py_or :: "pyval \<Rightarrow> pyval \<Rightarrow> pyval" where
  "py_or a b = (if truthy a then a else b)"

definition get_or_none :: "('k, pyval) pydict \<Rightarrow> 'k \<Rightarrow> pyval" where
  "get_or_none d k = (case dict_get d k of None \<Rightarrow> PNone | Some v \<Rightarrow> v)"

definition is_str :: "pyval \<Rightarrow> bool" where
  "is_str v = (case v of PStr _ \<Rightarrow> True | _ \<Rightarrow> False)"

definition is_mapping :: "pyval \<Rightarrow> bool" where
  "is_mapping v = (case v of PDict _ \<Rightarrow> True | _ \<Rightarrow> False)"

text \<open>\<open>isinstance(value, int)\<close> holds for \<open>bool\<close> too; \<open>as_int\<close> is the integer it stands for.\<close>

definition as_int :: "pyval \<Rightarrow> int option" where
  "as_int v = (case v of PInt i \<Rightarrow> Some i | PBool b \<Rightarrow> Some (if b then 1 else 0) | _ \<Rightarrow> None)"

definition as_str :: "pyval \<Rightarrow> string option" where
  "as_str v = (case v of PStr s \<Rightarrow> Some s | _ \<Rightarrow> None)"

definition as_dict :: "pyval \<Rightarrow> (string \<times> pyval) list option" where
  "as_dict v = (case v of PDict d \<Rightarrow> Some d | _ \<Rightarrow> None)"

section \<open>Instants\<close>

text \<open>
  A \<open>datetime\<close> is its wall clock, in seconds from 1970-01-01T00:00:00, and its UTC offset
  (\<open>None\<close> for a naive value). \<open>normalize_datetime\<close> is the UTC form both
  \<open>auth._normalize_datetime\<close> and \<open>parse_retry_after\<close> compute.
\<close>

record py_datetime =
  dt_clock :: rat
  dt_offset :: "rat option"

definition datetime_instant :: "py_datetime \<Rightarrow> rat" where
  "datetime_instant d = dt_clock d - (case dt_offset d of None \<Rightarrow> 0 | Some off \<Rightarrow> off)"

section \<open>Decimal text of a float\<close>

text \<open>
  \<open>float(text)\<close> on a stripped ASCII string: an optional sign, then \<open>inf\<close>, \<open>infinity\<close> or
  \<open>nan\<close> in any case, or a decimal number whose digits may be grouped by single
  underscores. A finite result is the exact decimal value; a value that rounds beyond the
  largest binary64 is infinite (\<open>FInfinite True\<close> is the negative infinity). \<open>float_of_double\<close>
  reads a binary64 pattern as such a number.
\<close>

datatype pyfloat = FFinite rat | FInfinite bool | FNan

fun read_digits :: "string \<Rightarrow> string \<times> string" where
  "read_digits [] = ([], [])"
| "read_digits [c] = (if char_is_digit c then ([c], []) else ([], [c]))"
| "read_digits (c # d # cs) =
     (if \<not> char_is_digit c then ([], c # d # cs)
      else if d = CHR ''_'' \<and> (case cs of [] \<Rightarrow> False | e # _ \<Rightarrow> char_is_digit e)
      then (let (ds, rest) = read_digits cs in (c # ds, rest))
      else (let (ds, rest) = read_digits (d # cs) in (c # ds, rest)))"

definition read_sign :: "string \<Rightarrow> rat \<times> string" where
  "read_sign s = (case s of [] \<Rightarrow> (1, []) | c # cs \<Rightarrow>
     if c = CHR ''-'' then (-1, cs) else if c = CHR ''+'' then (1, cs) else (1, s))"

definition read_exponent :: "string \<Rightarrow> int option" where
  "read_exponent s = (case s of [] \<Rightarrow> Some 0 | c # cs \<Rightarrow>
     if c \<in> {CHR ''e'', CHR ''E''} then
       (let (sg, t) = read_sign cs; (ds, rest) = read_digits t
        in if ds = [] \<or> rest \<noteq> [] then None
           else Some ((if sg < 0 then -1 else 1) * int (digits_value ds)))
     else None)"

definition scale10 :: "rat \<Rightarrow> int \<Rightarrow> rat" where
  "scale10 v e = (if 0 \<le> e then v * 10 ^ nat e else v / 10 ^ nat (- e))"

definition float_overflows :: "rat \<Rightarrow> bool" where
  "float_overflows v \<longleftrightarrow> 2 ^ 1024 - 2 ^ 970 \<le> \<bar>v\<bar>"

definition number_of_rat :: "rat \<Rightarrow> pyfloat" where
  "number_of_rat v = (if float_overflows v then FInfinite (v < 0) else FFinite v)"

definition float_of_double :: "double \<Rightarrow> pyfloat" where
  "float_of_double w =
     (if double_is_finite w then FFinite (double_value w)
      else if double_mantissa w = 0 then FInfinite (bit w 63) else FNan)"

definition py_float :: "string \<Rightarrow> pyfloat option" where
  "py_float s =
     (let (sg, body) = read_sign s; low = str_lower body in
      if low = ''inf'' \<or> low = ''infinity'' then Some (FInfinite (sg < 0))
      else if low = ''nan'' then Some FNan
      else
        (let (ip, rest) = read_digits body;
             (fp, rest2) = (case rest of [] \<Rightarrow> ([], [])
                            | c # cs \<Rightarrow> if c = CHR ''.'' then read_digits cs else ([], rest))
         in if ip = [] \<and> fp = [] then None
            else (case read_exponent rest2 of None \<Rightarrow> None
                  | Some e \<Rightarrow>
                      (let v = sg * scale10 (of_nat (digits_value (ip @ fp))) (e - int (length fp))
                       in Some (number_of_rat v)))))"

end
