(* ===== verification/Py_Number.thy ===== *)
theory Py_Number
  imports Py_Prelude "HOL-Library.Log_Nat"
begin

unbundle bit_operations_syntax

text \<open>
  Python numbers as the request builders use them: binary64 rounding and arithmetic, the
  conversions \<open>float(x)\<close>, \<open>int(x)\<close> and \<open>str(x)\<close> of a dynamic value, iteration over a value,
  and \<open>json.dumps\<close> with compact separators.

  \<^item> \<open>double_of_rat\<close> rounds to the nearest binary64, ties to even, overflowing to an infinity;
    \<open>fl_add\<close>, \<open>fl_sub\<close>, \<open>fl_mul\<close> round the exact result of finite operands.
  \<^item> \<open>float_repr\<close> is the shortest decimal that reads back as the same number.
  \<^item> \<open>py_error\<close> is the class of a raised exception; message texts are not kept.
\<close>

datatype py_error =
  ErrValue | ErrType | ErrIndex | ErrKey | ErrOverflow | ErrAttribute | ErrRuntime

section \<open>Rounding to binary64\<close>

definition pow2 :: "int \<Rightarrow> rat" where
  "pow2 e = (if 0 \<le> e then 2 ^ nat e else 1 / 2 ^ nat (- e))"

text \<open>\<open>binade v\<close> is the \<open>e\<close> with \<open>2 ^ e \<le> v < 2 ^ (e + 1)\<close>, for a positive \<open>v\<close>.\<close>

definition binade :: "rat \<Rightarrow> int" where
  "binade v = (let (p, q) = quotient_of v;
                   e = int (floorlog 2 (nat p)) - int (floorlog 2 (nat q))
               in if pow2 e \<le> v then e else e - 1)"

definition round_even :: "rat \<Rightarrow> int" where
  "round_even q = (let f = \<lfloor>q\<rfloor>; d = q - of_int f in
     if d < 1 / 2 then f else if 1 / 2 < d then f + 1 else if even f then f else f + 1)"

definition double_bits :: "rat \<Rightarrow> nat" where
  "double_bits v = (if v = 0 then 0
     else let e = max (binade v) (-1022); m = round_even (v / pow2 (e - 52))
          in min (nat (e + 1022) * 2 ^ 52 + nat m) (2047 * 2 ^ 52))"

definition signed_double :: "bool \<Rightarrow> rat \<Rightarrow> double" where
  "signed_double neg v = word_of_nat ((if neg then 2 ^ 63 else 0) + double_bits v)"

definition double_of_rat :: "rat \<Rightarrow> double" where
  "double_of_rat v = signed_double (v < 0) \<bar>v\<bar>"

definition fl :: "rat \<Rightarrow> pyfloat" where
  "fl v = float_of_double (double_of_rat v)"

section \<open>Float arithmetic\<close>

fun fl_add :: "pyfloat \<Rightarrow> pyfloat \<Rightarrow> pyfloat" where
  "fl_add (FFinite a) (FFinite b) = fl (a + b)"
| "fl_add (FInfinite s) (FFinite b) = FInfinite s"
| "fl_add (FFinite a) (FInfinite s) = FInfinite s"
| "fl_add (FInfinite s) (FInfinite t) = (if s = t then FInfinite s else FNan)"
| "fl_add FNan y = FNan"
| "fl_add x FNan = FNan"

fun fl_neg :: "pyfloat \<Rightarrow> pyfloat" where
  "fl_neg (FFinite a) = FFinite (- a)"
| "fl_neg (FInfinite s) = FInfinite (\<not> s)"
| "fl_neg FNan = FNan"

definition fl_sub :: "pyfloat \<Rightarrow> pyfloat \<Rightarrow> pyfloat" where
  "fl_sub x y = fl_add x (fl_neg y)"

fun fl_mul :: "pyfloat \<Rightarrow> pyfloat \<Rightarrow> pyfloat" where
  "fl_mul (FFinite a) (FFinite b) = fl (a * b)"
| "fl_mul (FInfinite s) (FFinite b) = (if b = 0 then FNan else FInfinite (s \<noteq> (b < 0)))"
| "fl_mul (FFinite a) (FInfinite s) = (if a = 0 then FNan else FInfinite (s \<noteq> (a < 0)))"
| "fl_mul (FInfinite s) (FInfinite t) = FInfinite (s \<noteq> t)"
| "fl_mul FNan y = FNan"
| "fl_mul x FNan = FNan"

fun fl_half :: "pyfloat \<Rightarrow> pyfloat" where
  "fl_half (FFinite a) = fl (a / 2)"
| "fl_half x = x"

text \<open>\<open>a <= b\<close> on floats; no comparison with NaN holds.\<close>

fun fl_le :: "pyfloat \<Rightarrow> pyfloat \<Rightarrow> bool" where
  "fl_le FNan b = False"
| "fl_le a FNan = False"
| "fl_le (FInfinite s) b = (s \<or> b = FInfinite False)"
| "fl_le a (FInfinite s) = (\<not> s)"
| "fl_le (FFinite a) (FFinite b) = (a \<le> b)"

definition fl_less :: "pyfloat \<Rightarrow> pyfloat \<Rightarrow> bool" where
  "fl_less a b \<longleftrightarrow> fl_le a b \<and> \<not> fl_le b a"

lemma fl_le_mono: "fl_le D (FFinite a) \<Longrightarrow> a \<le> b \<Longrightarrow> fl_le D (FFinite b)"
  by (cases D) auto

fun fl_positive :: "pyfloat \<Rightarrow> bool" where
  "fl_positive (FFinite a) = (0 < a)"
| "fl_positive (FInfinite s) = (\<not> s)"
| "fl_positive FNan = False"

section \<open>\<open>float(x)\<close> and \<open>int(x)\<close>\<close>

fun double_of_float :: "bool \<Rightarrow> pyfloat \<Rightarrow> double" where
  "double_of_float neg (FFinite v) = signed_double neg \<bar>v\<bar>"
| "double_of_float neg (FInfinite s) = (if s then 0xFFF0000000000000 else 0x7FF0000000000000)"
| "double_of_float neg FNan = 0x7FF8000000000000"

definition to_double :: "pyval \<Rightarrow> py_error + double" where
  "to_double v = (case v of
     PFloat w \<Rightarrow> Inr w
   | PInt i \<Rightarrow> if float_overflows (of_int i) then Inl ErrOverflow else Inr (double_of_rat (of_int i))
   | PBool b \<Rightarrow> Inr (double_of_rat (if b then 1 else 0))
   | PStr s \<Rightarrow> (case py_float (str_strip s) of None \<Rightarrow> Inl ErrValue
        | Some f \<Rightarrow> Inr (double_of_float (fst (read_sign (str_strip s)) < 0) f))
   | PBytes b \<Rightarrow> (let s = str_strip (map (\<lambda>w. char_of (unat w)) b) in case py_float s of None \<Rightarrow> Inl ErrValue
        | Some f \<Rightarrow> Inr (double_of_float (fst (read_sign s) < 0) f))
   | _ \<Rightarrow> Inl ErrType)"

definition to_float :: "pyval \<Rightarrow> py_error + pyfloat" where
  "to_float v = bindE (to_double v) (\<lambda>w. Inr (float_of_double w))"

definition py_int_text :: "string \<Rightarrow> int option" where
  "py_int_text s = (let (sg, body) = read_sign (str_strip s); (ds, rest) = read_digits body
     in if ds = [] \<or> rest \<noteq> [] then None
        else Some ((if sg < 0 then - 1 else 1) * int (digits_value ds)))"

definition truncate :: "rat \<Rightarrow> int" where
  "truncate v = (if 0 \<le> v then \<lfloor>v\<rfloor> else - \<lfloor>- v\<rfloor>)"

definition to_int :: "pyval \<Rightarrow> py_error + int" where
  "to_int v = (case v of
     PInt i \<Rightarrow> Inr i
   | PBool b \<Rightarrow> Inr (if b then 1 else 0)
   | PFloat w \<Rightarrow> (case float_of_double w of FFinite x \<Rightarrow> Inr (truncate x)
        | FInfinite _ \<Rightarrow> Inl ErrOverflow | FNan \<Rightarrow> Inl ErrValue)
   | PStr s \<Rightarrow> (case py_int_text s of None \<Rightarrow> Inl ErrValue | Some i \<Rightarrow> Inr i)
   | PBytes b \<Rightarrow> (case py_int_text (map (\<lambda>w. char_of (unat w)) b) of None \<Rightarrow> Inl ErrValue | Some i \<Rightarrow> Inr i)
   | _ \<Rightarrow> Inl ErrType)"

section \<open>\<open>str(x)\<close> and \<open>repr(x)\<close>\<close>

text \<open>
  The shortest decimal: with \<open>n\<close> significant digits the two neighbours of \<open>v\<close> are tried, the
  nearer one first, for \<open>n\<close> = 1 up to 17, which always suffices for a binary64.
\<close>

fun decade_from :: "nat \<Rightarrow> rat \<Rightarrow> int" where
  "decade_from 0 v = 0"
| "decade_from (Suc k) v = (if v \<ge> 10 then decade_from k (v / 10) + 1
     else if v < 1 then decade_from k (v * 10) - 1 else 0)"

definition decade :: "rat \<Rightarrow> int" where
  "decade v = decade_from 400 v"

definition decimal_candidates :: "rat \<Rightarrow> nat \<Rightarrow> (nat \<times> int) list" where
  "decimal_candidates v n = (let e = decade v - int n + 1; q = scale10 v (- e); lo = nat \<lfloor>q\<rfloor>
     in if q - of_nat lo < 1 / 2 \<or> (q - of_nat lo = 1 / 2 \<and> even lo)
        then [(lo, e), (lo + 1, e)] else [(lo + 1, e), (lo, e)])"

definition shortest_decimal :: "rat \<Rightarrow> nat \<times> int" where
  "shortest_decimal v =
     (case filter (\<lambda>(m, e). double_bits (scale10 (of_nat m) e) = double_bits v)
             (concat (map (decimal_candidates v) [1 ..< 18])) of
        [] \<Rightarrow> (0, 0) | c # _ \<Rightarrow> c)"

definition pad2 :: "nat \<Rightarrow> string" where
  "pad2 n = (if n < 10 then CHR ''0'' # nat_digits n else nat_digits n)"

definition strip_zeros :: "string \<Rightarrow> string" where
  "strip_zeros ds = rev (dropWhile (\<lambda>c. c = CHR ''0'') (rev ds))"

definition positive_repr :: "rat \<Rightarrow> string" where
  "positive_repr v = (let (m, e) = shortest_decimal v; all = nat_digits m;
       point = int (length all) + e; ds = strip_zeros all; n = int (length ds)
     in if point > 16 \<or> point < - 3
        then (take 1 ds @ (if n > 1 then ''.'' @ drop 1 ds else [])
              @ ''e'' @ (if point - 1 < 0 then ''-'' else ''+'') @ pad2 (nat \<bar>point - 1\<bar>))
        else if point \<le> 0 then ''0.'' @ replicate (nat (- point)) CHR ''0'' @ ds
        else if n \<le> point then ds @ replicate (nat (point - n)) CHR ''0'' @ ''.0''
        else take (nat point) ds @ ''.'' @ drop (nat point) ds)"

definition float_repr :: "double \<Rightarrow> string" where
  "float_repr w = (case float_of_double w of
     FNan \<Rightarrow> ''nan'' | FInfinite s \<Rightarrow> if s then ''-inf'' else ''inf''
   | FFinite v \<Rightarrow> (if bit w 63 then ''-'' else []) @ (if v = 0 then ''0.0'' else positive_repr \<bar>v\<bar>))"

definition hex_digit :: "nat \<Rightarrow> char" where
  "hex_digit n = (if n < 10 then char_of (48 + n) else char_of (87 + n))"

definition char_repr :: "char \<Rightarrow> char \<Rightarrow> string" where
  "char_repr quote c = (let n = (of_char c :: nat) in
     if c = quote \<or> n = 92 then [char_of (92 :: nat), c]
     else if n = 10 then [char_of (92 :: nat), CHR ''n''] else if n = 13 then [char_of (92 :: nat), CHR ''r'']
     else if n = 9 then [char_of (92 :: nat), CHR ''t'']
     else if n < 32 \<or> 127 \<le> n
     then [char_of (92 :: nat), CHR ''x'', hex_digit (n div 16), hex_digit (n mod 16)] else [c])"

definition quoted_repr :: "string \<Rightarrow> string" where
  "quoted_repr s = (let q = (if char_of (39 :: nat) \<in> set s \<and> char_of (34 :: nat) \<notin> set s
        then char_of (34 :: nat) else char_of (39 :: nat)) in [q] @ concat (map (char_repr q) s) @ [q])"

fun py_repr :: "pyval \<Rightarrow> string" where
  "py_repr PNone = ''None''"
| "py_repr (PBool b) = (if b then ''True'' else ''False'')"
| "py_repr (PInt i) = str_of_int i"
| "py_repr (PFloat w) = float_repr w"
| "py_repr (PStr s) = quoted_repr s"
| "py_repr (PBytes b) = ''b'' @ quoted_repr (map (\<lambda>w. char_of (unat w)) b)"
| "py_repr (PList xs) = ''['' @ str_join '', '' (map py_repr xs) @ '']''"
| "py_repr (PTuple xs) = (case xs of [x] \<Rightarrow> ''('' @ py_repr x @ '',)''
     | _ \<Rightarrow> ''('' @ str_join '', '' (map py_repr xs) @ '')'')"
| "py_repr (PDict d) = ''{'' @ str_join '', '' (map (\<lambda>(k, v). quoted_repr k @ '': '' @ py_repr v) d) @ ''}''"

definition py_str :: "pyval \<Rightarrow> string" where
  "py_str v = (case v of PStr s \<Rightarrow> s | _ \<Rightarrow> py_repr v)"

lemma py_str_simps [simp]:
  "py_str (PStr s) = s" "py_str (PInt i) = str_of_int i" "py_str PNone = ''None''"
  by (simp_all add: py_str_def)

section \<open>Iteration, indexing and JSON text\<close>

text \<open>\<open>list(x)\<close>: the elements a \<open>for\<close> loop over the value sees.\<close>

definition py_iter :: "pyval \<Rightarrow> py_error + pyval list" where
  "py_iter v = (case v of
     PList xs \<Rightarrow> Inr xs | PTuple xs \<Rightarrow> Inr xs
   | PStr s \<Rightarrow> Inr (map (\<lambda>c. PStr [c]) s)
   | PBytes b \<Rightarrow> Inr (map (\<lambda>w. PInt (uint w)) b)
   | PDict d \<Rightarrow> Inr (map (\<lambda>(k, _). PStr k) d)
   | _ \<Rightarrow> Inl ErrType)"

lemma py_iter_simps [simp]: "py_iter (PList xs) = Inr xs" "py_iter (PTuple xs) = Inr xs"
  by (simp_all add: py_iter_def)

definition py_nth :: "'a list \<Rightarrow> nat \<Rightarrow> py_error + 'a" where
  "py_nth xs n = (if n < length xs then Inr (xs ! n) else Inl ErrIndex)"

definition json_char :: "char \<Rightarrow> string" where
  "json_char c = (let n = (of_char c :: nat); b = char_of (92 :: nat) in
     if n = 34 \<or> n = 92 then [b, c]
     else if n = 10 then [b, CHR ''n''] else if n = 13 then [b, CHR ''r''] else if n = 9 then [b, CHR ''t'']
     else if n = 8 then [b, CHR ''b''] else if n = 12 then [b, CHR ''f'']
     else if n < 32 \<or> 127 \<le> n then [b] @ ''u00'' @ [hex_digit (n div 16), hex_digit (n mod 16)] else [c])"

definition json_string :: "string \<Rightarrow> string" where
  "json_string s = [char_of (34 :: nat)] @ concat (map json_char s) @ [char_of (34 :: nat)]"

definition json_float :: "double \<Rightarrow> string" where
  "json_float w = (case float_of_double w of
     FNan \<Rightarrow> ''NaN'' | FInfinite s \<Rightarrow> if s then ''-Infinity'' else ''Infinity'' | FFinite _ \<Rightarrow> float_repr w)"

fun json_dumps :: "pyval \<Rightarrow> py_error + string" where
  "json_dumps PNone = Inr ''null''"
| "json_dumps (PBool b) = Inr (if b then ''true'' else ''false'')"
| "json_dumps (PInt i) = Inr (str_of_int i)"
| "json_dumps (PFloat w) = Inr (json_float w)"
| "json_dumps (PStr s) = Inr (json_string s)"
| "json_dumps (PBytes b) = Inl ErrType"
| "json_dumps (PList xs) = bindE (mapE json_dumps xs) (\<lambda>ts. Inr (''['' @ str_join '','' ts @ '']''))"
| "json_dumps (PTuple xs) = bindE (mapE json_dumps xs) (\<lambda>ts. Inr (''['' @ str_join '','' ts @ '']''))"
| "json_dumps (PDict d) =
     bindE (mapE (\<lambda>(k, v). bindE (json_dumps v) (\<lambda>t. Inr (json_string k @ '':'' @ t))) d)
       (\<lambda>ts. Inr (''{'' @ str_join '','' ts @ ''}''))"

section \<open>Fields of a pattern\<close>

lemma double_fields:
  fixes s :: bool
  assumes "x < 2048" "r < 2 ^ 52" "w = (word_of_nat ((if s then 2 ^ 63 else 0) + (x * 2 ^ 52 + r)) :: double)"
  shows "double_exponent w = x" "double_mantissa w = r" "bit w 63 = s"
proof -
  have w: "unat w = (if s then 2 ^ 63 else 0) + (x * 2 ^ 52 + r)"
    unfolding assms(3) unat_of_nat using assms(1,2) by (intro mod_less) auto
  show "double_mantissa w = r"
    unfolding double_mantissa_def w using assms(1,2) by (cases s) (simp_all add: mod_add_eq [symmetric])
  have d: "unat w div 2 ^ 52 = (if s then 2048 else 0) + x"
    unfolding w using assms(1,2) by (cases s) simp_all
  have "unat (drop_bit 52 w) = unat w div 2 ^ 52"
    by (simp only: unat_drop_bit_eq) (rule drop_bit_eq_div)
  with d show "double_exponent w = x"
    unfolding double_exponent_def using assms(1) by (cases s) (simp_all only: if_True if_False, simp_all)
  have "bit w 63 \<longleftrightarrow> odd (unat w div 2 ^ 63)"
    using bit_unsigned_iff [of w 63, where ?'a = nat] by (simp add: bit_iff_odd [of "unat w"])
  also have "unat w div 2 ^ 63 = (if s then 1 else 0)"
    unfolding w using assms(1,2) by (cases s) simp_all
  finally show "bit w 63 = s" by simp
qed

section \<open>Powers of two and binades\<close>

lemma pow2_powi: "pow2 e = 2 powi e"
  by (simp add: pow2_def power_int_def inverse_eq_divide power_one_over)

lemma pow2_pos [simp]: "0 < pow2 e"
  by (simp add: pow2_def)

lemma pow2_nonzero [simp]: "pow2 e \<noteq> 0"
  using pow2_pos [of e] by linarith

lemma pow2_add: "pow2 (a + b) = pow2 a * pow2 b"
  by (simp add: pow2_powi power_int_add)

lemma pow2_of_nat: "0 \<le> e \<Longrightarrow> pow2 e = 2 ^ nat e"
  by (simp add: pow2_def)

lemma pow2_mono: "a \<le> b \<Longrightarrow> pow2 a \<le> pow2 b"
  by (simp add: pow2_powi power_int_increasing)

lemma pow2_less_cancel: "pow2 a < pow2 b \<Longrightarrow> a < b"
  using pow2_mono [of b a] by (cases "a < b") auto

lemma floorlog_bounds_pow2:
  assumes "0 < p" shows "pow2 (int (floorlog 2 (nat p)) - 1) \<le> of_int p" "of_int p < pow2 (int (floorlog 2 (nat p)))"
proof -
  have b: "2 ^ (floorlog 2 (nat p) - 1) \<le> nat p" "nat p < 2 ^ floorlog 2 (nat p)" "0 < floorlog 2 (nat p)"
    using floorlog_bounds [of "nat p" 2] floorlog_eq_zero_iff [of 2 "nat p"] assms by auto
  have "rat_of_nat (nat p) < of_nat (2 ^ floorlog 2 (nat p))" using b(2) by (simp only: of_nat_less_iff)
  then show "of_int p < pow2 (int (floorlog 2 (nat p)))" using assms by (simp add: pow2_def)
  have "rat_of_nat (2 ^ (floorlog 2 (nat p) - 1)) \<le> of_nat (nat p)" using b(1) by (simp only: of_nat_le_iff)
  moreover obtain j where j: "floorlog 2 (nat p) = Suc j" using b(3) by (cases "floorlog 2 (nat p)") auto
  ultimately have "(2 :: rat) ^ j \<le> of_int p" using assms by simp
  moreover have "int (Suc j) - 1 = int j" by simp
  ultimately show "pow2 (int (floorlog 2 (nat p)) - 1) \<le> of_int p"
    unfolding j pow2_def by (simp only: nat_int of_nat_0_le_iff if_True)
qed

lemma binade_bounds:
  assumes "0 < v" shows "pow2 (binade v) \<le> v" "v < pow2 (binade v + 1)"
proof -
  obtain p q where pq: "quotient_of v = (p, q)" by (cases "quotient_of v")
  have q: "0 < q" by (rule quotient_of_denom_pos [OF pq])
  have v: "v = of_int p / of_int q" by (rule quotient_of_div [OF pq])
  have p: "0 < p" using assms q unfolding v by (simp add: zero_less_divide_iff)
  define a c where "a = int (floorlog 2 (nat p))" and "c = int (floorlog 2 (nat q))"
  note bp = floorlog_bounds_pow2 [OF p, folded a_def] and bq = floorlog_bounds_pow2 [OF q, folded c_def]
  have q': "(0 :: rat) < of_int q" using q by simp
  have "v * of_int q < pow2 a" unfolding v using bp(2) q' by simp
  also have "pow2 a = pow2 (a - c + 1) * pow2 (c - 1)" by (simp add: pow2_add [symmetric])
  also have "\<dots> \<le> pow2 (a - c + 1) * of_int q" by (rule mult_left_mono [OF bq(1)]) (simp add: less_imp_le)
  finally have u: "v < pow2 (a - c + 1)" using q' by simp
  have "pow2 (a - c - 1) * of_int q \<le> pow2 (a - c - 1) * pow2 c"
    using bq(2) by (intro mult_left_mono) (simp_all add: less_imp_le)
  also have "\<dots> = pow2 (a - 1)" by (simp add: pow2_add [symmetric])
  also have "\<dots> \<le> v * of_int q" unfolding v using bp(1) q' by simp
  finally have l: "pow2 (a - c - 1) \<le> v" using q' by simp
  have b: "binade v = (if pow2 (a - c) \<le> v then a - c else a - c - 1)"
    by (simp add: binade_def pq a_def c_def Let_def)
  show "pow2 (binade v) \<le> v" "v < pow2 (binade v + 1)" using u l unfolding b by auto
qed

section \<open>Representable numbers are fixed by rounding\<close>

definition representable :: "rat \<Rightarrow> bool" where
  "representable v \<longleftrightarrow> (\<exists>m e. v = of_int m * pow2 e \<and> \<bar>m\<bar> < 2 ^ 53 \<and> - 1074 \<le> e \<and> e \<le> 971)"

lemma round_even_of_int [simp]: "round_even (of_int k) = k"
  by (simp add: round_even_def)

lemma fl_0 [simp]: "fl 0 = FFinite 0"
  by (simp add: fl_def double_of_rat_def signed_double_def double_bits_def float_of_double_def
      double_is_finite_def double_exponent_def double_value_def double_mantissa_def)

lemma double_bits_representable:
  assumes v: "v = of_int m * pow2 e" "0 < m" "m < 2 ^ 53" "- 1074 \<le> e" "e \<le> 971"
  obtains x r where "double_bits v = x * 2 ^ 52 + r" "x < 2047" "r < 2 ^ 52"
    "v = (if x = 0 then of_nat r / 2 ^ 1074 else of_nat (2 ^ 52 + r) * 2 ^ x / 2 ^ 1075)"
proof -
  have pos: "0 < v" using v by simp
  define E where "E = max (binade v) (-1022)"
  note bb = binade_bounds [OF pos]
  have "of_int m < pow2 53" using v(3) by (simp add: pow2_def)
  then have up: "v < pow2 (53 + e)" unfolding v(1) pow2_add by simp
  then have be: "binade v < 53 + e" using bb(1) by (intro pow2_less_cancel) linarith
  have Ee: "E - 52 \<le> e" using be v(4) unfolding E_def by linarith
  define M where "M = nat (m * 2 ^ nat (e - (E - 52)))"
  have "of_nat M * pow2 (E - 52) = of_int m * (pow2 (e - (E - 52)) * pow2 (E - 52))"
    using v(2) Ee by (simp add: M_def pow2_def of_nat_nat)
  then have M: "v = of_nat M * pow2 (E - 52)" using v(1) by (simp add: pow2_add [symmetric])
  have "pow2 (binade v + 1) \<le> pow2 (53 + (E - 52))" by (rule pow2_mono) (simp add: E_def)
  with bb(2) have "v < pow2 (53 + (E - 52))" by (rule order_less_le_trans)
  then have "of_nat M < pow2 53" unfolding M pow2_add by simp
  then have M53: "M < 2 ^ 53" by (simp add: pow2_def)
  have "v / pow2 (E - 52) = of_int (int M)" using M by simp
  then have bits: "double_bits v = min (nat (E + 1022) * 2 ^ 52 + M) (2047 * 2 ^ 52)"
    using pos unfolding double_bits_def Let_def E_def [symmetric] by (simp only: round_even_of_int nat_int) simp
  have E: "- 1022 \<le> E" "E \<le> 1023" using be v(5) unfolding E_def by auto
  show thesis
  proof (cases "M < 2 ^ 52")
    case True
    have "E = - 1022"
    proof (rule ccontr)
      assume "E \<noteq> - 1022"
      then have "pow2 (52 + (E - 52)) \<le> v" using bb(1) by (simp add: E_def max_def split: if_splits)
      then have "pow2 52 \<le> of_nat M" unfolding M pow2_add by simp
      then show False using True by (simp add: pow2_def)
    qed
    then show thesis using that [of 0 M] bits True M by (simp add: pow2_def)
  next
    case False
    define r where "r = M - 2 ^ 52"
    have r: "M = 2 ^ 52 + r" "r < 2 ^ 52" using False M53 by (auto simp: r_def)
    define x where "x = nat (E + 1023)"
    have x: "x < 2047" "0 < x" "nat (E + 1022) + 1 = x" using E by (auto simp: x_def)
    have "nat (E + 1022) * 2 ^ 52 + M = x * 2 ^ 52 + r" unfolding x(3) [symmetric] r(1) by simp
    then have b: "double_bits v = x * 2 ^ 52 + r" using bits x(1) r(2) by simp
    have "pow2 (E - 52) * 2 ^ 1075 = pow2 (E - 52) * pow2 1075" by (simp only: pow2_def) simp
    also have "\<dots> = pow2 (int x)" using E by (simp add: pow2_add [symmetric] x_def add.commute)
    finally have "pow2 (E - 52) = 2 ^ x / 2 ^ 1075" by (simp add: pow2_of_nat field_simps)
    then show thesis using that [OF b x(1) r(2)] x(2) M r(1) by simp
  qed
qed

lemma fl_representable: "representable v \<Longrightarrow> fl v = FFinite v"
proof (cases "v = 0")
  case False
  assume "representable v"
  then obtain m e where me: "v = of_int m * pow2 e" "\<bar>m\<bar> < 2 ^ 53" "- 1074 \<le> e" "e \<le> 971"
    by (auto simp: representable_def)
  then have a: "\<bar>v\<bar> = of_int \<bar>m\<bar> * pow2 e" "0 < \<bar>m\<bar>" using False by (auto simp: abs_mult abs_of_pos)
  obtain x r where xr: "double_bits \<bar>v\<bar> = x * 2 ^ 52 + r" "x < 2047" "r < 2 ^ 52"
    "\<bar>v\<bar> = (if x = 0 then of_nat r / 2 ^ 1074 else of_nat (2 ^ 52 + r) * 2 ^ x / 2 ^ 1075)"
    by (rule double_bits_representable [OF a me(2-4)])
  have w: "double_of_rat v = word_of_nat ((if v < 0 then 2 ^ 63 else 0) + (x * 2 ^ 52 + r))"
    unfolding double_of_rat_def signed_double_def xr(1) ..
  have "x < 2048" using xr(2) by simp
  note f = double_fields [OF this xr(3) w]
  have "double_value (double_of_rat v) = (if v < 0 then - 1 else 1) * \<bar>v\<bar>"
    unfolding double_value_def f xr(4) ..
  then show ?thesis
    unfolding fl_def float_of_double_def double_is_finite_def f using xr(2) by simp
qed simp

lemma representable_of_int: "\<bar>k\<bar> < 2 ^ 53 \<Longrightarrow> representable (of_int k)"
  unfolding representable_def by (rule exI [of _ k], rule exI [of _ 0]) (simp add: pow2_def)

lemma representable_half: "\<bar>k\<bar> < 2 ^ 53 \<Longrightarrow> representable (of_int k / 2)"
  unfolding representable_def by (rule exI [of _ k], rule exI [of _ "-1"]) (simp add: pow2_def)

lemma fl_of_int: "\<bar>k\<bar> < 2 ^ 53 \<Longrightarrow> fl (of_int k) = FFinite (of_int k)"
  by (rule fl_representable [OF representable_of_int])

lemma small_not_overflow: "\<bar>v\<bar> < 2 ^ 53 \<Longrightarrow> \<not> float_overflows v"
proof -
  have "(2 :: rat) ^ 53 \<le> 2 ^ 1024 - 2 ^ 970" by simp
  then show "\<bar>v\<bar> < 2 ^ 53 \<Longrightarrow> \<not> float_overflows v" unfolding float_overflows_def by linarith
qed

lemma to_float_int: "\<bar>k\<bar> < 2 ^ 53 \<Longrightarrow> to_float (PInt k) = Inr (FFinite (of_int k))"
proof -
  assume k: "\<bar>k\<bar> < 2 ^ 53"
  then have "\<bar>of_int k :: rat\<bar> < 2 ^ 53"
    by (metis of_int_abs of_int_less_iff of_int_numeral of_int_power)
  then show ?thesis using fl_representable [OF representable_of_int [OF k]]
    by (simp add: to_float_def to_double_def small_not_overflow fl_def)
qed

text \<open>Rounding keeps the sign of a difference.\<close>

lemma fl_nonpos:
  assumes "v \<le> 0"
  shows "fl_le (fl v) (FFinite 0)"
proof (cases "v = 0")
  case False
  define x r where "x = double_bits \<bar>v\<bar> div 2 ^ 52" and "r = double_bits \<bar>v\<bar> mod 2 ^ 52"
  have le: "double_bits \<bar>v\<bar> \<le> 2047 * 2 ^ 52" by (simp add: double_bits_def Let_def)
  have xr: "x * 2 ^ 52 + r = double_bits \<bar>v\<bar>" "r < 2 ^ 52" by (simp_all add: x_def r_def)
  have x: "x < 2048" using div_le_mono [OF le, of "2 ^ 52"] by (simp add: x_def)
  have r0: "r = 0" if "x = 2047" using le xr(1) [unfolded that] by (metis add_le_same_cancel1 le_zero_eq)
  have w: "double_of_rat v = word_of_nat ((if v < 0 then 2 ^ 63 else 0) + (x * 2 ^ 52 + r))"
    unfolding double_of_rat_def signed_double_def xr(1) ..
  note f = double_fields [OF x xr(2) w]
  have "v < 0" using assms False by simp
  then show ?thesis using r0 unfolding fl_def float_of_double_def double_is_finite_def double_value_def f by simp
qed simp

lemma fl_le_sub: "fl_le d c \<Longrightarrow> fl_le (fl_sub d c) (FFinite 0) \<or> (\<exists>s. d = FInfinite s \<and> c = FInfinite s)"
  by (cases d; cases c) (auto simp: fl_sub_def fl_nonpos)

end
