(* ===== verification/Geoservices_Query.thy ===== *)
theory Geoservices_Query
  imports Py_Number
begin

text \<open>
  \<open>_geoservices_query.py\<close>: a spatial filter and statistics definitions become GeoServices
  query parameters. Parameters are a dict of dynamic values; a raised exception is its
  class (\<open>py_error\<close>). A geometry argument is a dynamic value or an object that exposes
  \<open>__geo_interface__\<close> (\<open>GeoObject\<close>, carrying the attribute's value).

  The main results concern ring winding: on rings whose shoelace sum is exact, the emitted
  exterior rings are clockwise and the holes counter-clockwise, whatever the input.
\<close>

section \<open>Spatial relationships\<close>

definition spatial_rel :: "(string \<times> string) list" where
  "spatial_rel =
    [(''intersects'', ''esriSpatialRelIntersects''),
     (''envelope-intersects'', ''esriSpatialRelEnvelopeIntersects''),
     (''envelopeintersects'', ''esriSpatialRelEnvelopeIntersects''),
     (''contains'', ''esriSpatialRelContains''),
     (''within'', ''esriSpatialRelWithin''),
     (''crosses'', ''esriSpatialRelCrosses''),
     (''touches'', ''esriSpatialRelTouches''),
     (''overlaps'', ''esriSpatialRelOverlaps''),
     (''relation'', ''esriSpatialRelRelation''),
     (''within-distance'', ''esriSpatialRelIntersects''),
     (''withindistance'', ''esriSpatialRelIntersects'')]"

definition distance_relationships :: "string list" where
  "distance_relationships = [''within-distance'', ''withindistance'']"

definition normalize_spatial_relationship :: "string \<Rightarrow> py_error + string" where
  "normalize_spatial_relationship value =
     (let text = str_strip value in
      if prefix ''esriSpatialRel'' text then Inr text
      else (case dict_get spatial_rel (str_replace_char CHR ''_'' CHR ''-'' (str_lower text)) of
              None \<Rightarrow> Inl ErrValue | Some token \<Rightarrow> Inr token))"

definition is_distance_relationship :: "string \<Rightarrow> bool" where
  "is_distance_relationship value \<longleftrightarrow>
     str_replace_char CHR ''_'' CHR ''-'' (str_lower (str_strip value)) \<in> set distance_relationships"

section \<open>Ring winding\<close>

text \<open>A copied ring is the list of its copied vertices. \<open>point_xy\<close> reads \<open>float(c[0]), float(c[1])\<close>.\<close>

definition point_xy :: "pyval list \<Rightarrow> py_error + pyfloat \<times> pyfloat" where
  "point_xy c =
     bindE (py_nth c 0) (\<lambda>vx. bindE (to_float vx) (\<lambda>x.
     bindE (py_nth c 1) (\<lambda>vy. bindE (to_float vy) (\<lambda>y. Inr (x, y)))))"

fun area_loop :: "pyval list list \<Rightarrow> nat list \<Rightarrow> pyfloat \<Rightarrow> py_error + pyfloat" where
  "area_loop ring [] area = Inr area"
| "area_loop ring (idx # rest) area =
     bindE (point_xy (ring ! idx)) (\<lambda>(x1, y1).
     bindE (point_xy (ring ! ((idx + 1) mod length ring))) (\<lambda>(x2, y2).
     area_loop ring rest (fl_add area (fl_sub (fl_mul x1 y2) (fl_mul x2 y1)))))"

definition ring_signed_area :: "pyval list list \<Rightarrow> py_error + pyfloat" where
  "ring_signed_area ring =
     bindE (area_loop ring [0 ..< length ring] (FFinite 0)) (\<lambda>area. Inr (fl_half area))"

definition copy_points :: "pyval \<Rightarrow> py_error + pyval list list" where
  "copy_points v = bindE (py_iter v) (mapE py_iter)"

definition geoservices_ring :: "bool \<Rightarrow> pyval \<Rightarrow> py_error + pyval" where
  "geoservices_ring exterior ring =
     bindE (copy_points ring) (\<lambda>coords.
     bindE (ring_signed_area coords) (\<lambda>area.
       Inr (PList (map PList
         (if area = FFinite 0 then coords
          else let is_ccw = fl_positive area; want_ccw = (\<not> exterior)
               in if is_ccw \<noteq> want_ccw then rev coords else coords)))))"

fun rings_from :: "nat \<Rightarrow> pyval list \<Rightarrow> py_error + pyval list" where
  "rings_from idx [] = Inr []"
| "rings_from idx (ring # rest) =
     bindE (geoservices_ring (idx = 0) ring) (\<lambda>r.
     bindE (rings_from (idx + 1) rest) (\<lambda>rs. Inr (r # rs)))"

definition polygon_rings :: "pyval \<Rightarrow> py_error + pyval list" where
  "polygon_rings polygon = bindE (py_iter polygon) (rings_from 0)"

fun multi_rings :: "pyval list \<Rightarrow> py_error + pyval list" where
  "multi_rings [] = Inr []"
| "multi_rings (polygon # rest) =
     bindE (polygon_rings polygon) (\<lambda>rs. bindE (multi_rings rest) (\<lambda>ss. Inr (rs @ ss)))"

definition geojson_geometry_to_geoservices :: "(string, pyval) pydict \<Rightarrow> py_error + (string, pyval) pydict" where
  "geojson_geometry_to_geoservices geometry =
     (let gtype = py_str (get_or_none geometry ''type'');
          coords = get_or_none geometry ''coordinates'';
          items = (if truthy coords then py_iter coords else Inr [])
      in if gtype = ''Point'' then
           bindE items (\<lambda>point. bindE (py_nth point 0) (\<lambda>x. bindE (py_nth point 1) (\<lambda>y.
             Inr ([(''x'', x), (''y'', y)] @ (if 2 < length point then [(''z'', point ! 2)] else [])))))
         else if gtype = ''MultiPoint'' then
           bindE (bindE items (mapE py_iter)) (\<lambda>ps. Inr [(''points'', PList (map PList ps))])
         else if gtype = ''LineString'' then
           bindE (bindE items (mapE py_iter)) (\<lambda>ps. Inr [(''paths'', PList [PList (map PList ps)])])
         else if gtype = ''MultiLineString'' then
           bindE (bindE items (mapE copy_points))
             (\<lambda>ls. Inr [(''paths'', PList (map (\<lambda>l. PList (map PList l)) ls))])
         else if gtype = ''Polygon'' then
           bindE (bindE items (rings_from 0)) (\<lambda>rs. Inr [(''rings'', PList rs)])
         else if gtype = ''MultiPolygon'' then
           bindE (bindE items multi_rings) (\<lambda>rs. Inr [(''rings'', PList rs)])
         else Inl ErrValue)"

section \<open>Geometry coercion\<close>

datatype geometry_input = GeoValue pyval | GeoObject pyval

definition geojson_to_geoservices_type :: "(string \<times> string) list" where
  "geojson_to_geoservices_type =
    [(''Point'', ''esriGeometryPoint''), (''MultiPoint'', ''esriGeometryMultipoint''),
     (''LineString'', ''esriGeometryPolyline''), (''MultiLineString'', ''esriGeometryPolyline''),
     (''Polygon'', ''esriGeometryPolygon''), (''MultiPolygon'', ''esriGeometryPolygon'')]"

definition geoservices_geometry_type :: "(string, pyval) pydict \<Rightarrow> py_error + string" where
  "geoservices_geometry_type g =
     (if dict_has g ''x'' \<and> dict_has g ''y'' then Inr ''esriGeometryPoint''
      else if dict_has g ''rings'' then Inr ''esriGeometryPolygon''
      else if dict_has g ''paths'' then Inr ''esriGeometryPolyline''
      else if dict_has g ''points'' then Inr ''esriGeometryMultipoint''
      else if list_all (dict_has g) [''xmin'', ''ymin'', ''xmax'', ''ymax''] then Inr ''esriGeometryEnvelope''
      else Inl ErrValue)"

definition coerce_geometry ::
  "geometry_input \<Rightarrow> pyval \<Rightarrow> py_error + (string, pyval) pydict \<times> pyval" where
  "coerce_geometry g default_type =
     (if g = GeoValue PNone then Inl ErrValue
      else case as_dict (case g of GeoValue v \<Rightarrow> v | GeoObject v \<Rightarrow> v) of
        None \<Rightarrow> Inl ErrType
      | Some d \<Rightarrow>
          if dict_has d ''type'' \<and> dict_has d ''coordinates'' then
            bindE (geojson_geometry_to_geoservices d) (\<lambda>r.
              Inr (r, PStr (case dict_get geojson_to_geoservices_type (py_str (get_or_none d ''type'')) of
                              None \<Rightarrow> ''esriGeometryPolygon'' | Some t \<Rightarrow> t)))
          else if default_type \<noteq> PNone then Inr (d, default_type)
          else bindE (geoservices_geometry_type d) (\<lambda>t. Inr (d, PStr t)))"

section \<open>Spatial filter parameters\<close>

fun first_value :: "(string, pyval) pydict \<Rightarrow> string list \<Rightarrow> pyval" where
  "first_value m [] = PNone"
| "first_value m (k # ks) = (if get_or_none m k \<noteq> PNone then get_or_none m k else first_value m ks)"

definition sr_wkid :: "pyval \<Rightarrow> py_error + pyval" where
  "sr_wkid v = (case v of
     PNone \<Rightarrow> Inr PNone
   | PDict d \<Rightarrow>
       (let wkid = first_value d [''wkid'', ''latestWkid'', ''latest_wkid''] in
        if wkid \<noteq> PNone then
          (case wkid of PBool _ \<Rightarrow> Inr PNone | _ \<Rightarrow> bindE (to_int wkid) (\<lambda>i. Inr (PInt i)))
        else (let wkt = get_or_none d ''wkt'' in
              Inr (if truthy wkt then PStr (py_str wkt) else PNone)))
   | PBool _ \<Rightarrow> Inr PNone
   | PInt i \<Rightarrow> Inr (PInt i)
   | PStr s \<Rightarrow> Inr (PStr s)
   | _ \<Rightarrow> Inr (PStr (py_str v)))"

definition distance_unit_names :: "(string \<times> string) list" where
  "distance_unit_names =
    [(''meters'', ''esriSRUnit_Meter''), (''meter'', ''esriSRUnit_Meter''), (''m'', ''esriSRUnit_Meter''),
     (''kilometers'', ''esriSRUnit_Kilometer''), (''kilometer'', ''esriSRUnit_Kilometer''),
     (''km'', ''esriSRUnit_Kilometer''),
     (''feet'', ''esriSRUnit_Foot''), (''foot'', ''esriSRUnit_Foot''), (''ft'', ''esriSRUnit_Foot''),
     (''miles'', ''esriSRUnit_StatuteMile''), (''mile'', ''esriSRUnit_StatuteMile''),
     (''mi'', ''esriSRUnit_StatuteMile'')]"

definition distance_units :: "pyval \<Rightarrow> py_error + string" where
  "distance_units value =
     (let text = str_strip (py_str value) in
      if prefix ''esriSRUnit'' text then Inr text
      else (case dict_get distance_unit_names (str_lower text) of
              None \<Rightarrow> Inl ErrValue | Some u \<Rightarrow> Inr u))"

definition filter_relationship :: "(string, pyval) pydict \<Rightarrow> string" where
  "filter_relationship sf = py_str (py_or
     (first_value sf [''relationship'', ''spatial_relationship'', ''spatialRelationship'', ''relation''])
     (PStr ''intersects''))"

definition filter_sr :: "(string, pyval) pydict \<Rightarrow> (string, pyval) pydict \<Rightarrow> py_error + pyval" where
  "filter_sr sf geom =
     bindE (sr_wkid (first_value sf [''in_sr'', ''inSR'', ''sr'', ''spatial_reference'', ''spatialReference''])) (\<lambda>sr.
     bindE (if sr = PNone then sr_wkid (get_or_none geom ''spatialReference'') else Inr sr) (\<lambda>sr2.
     Inr (if sr2 = PNone then PInt 4326 else sr2)))"

text \<open>The statements on \<open>distance\<close> and \<open>units\<close> at the end of \<open>spatial_filter_params\<close>.\<close>

definition filter_distance :: "(string, pyval) pydict \<Rightarrow> py_error + (string, pyval) pydict" where
  "filter_distance sf =
     (let distance = first_value sf [''distance''];
          units = first_value sf [''units'', ''distance_unit'', ''distanceUnit'']
      in if is_distance_relationship (filter_relationship sf) \<and> distance = PNone then Inl ErrValue
         else if distance = PNone then Inr []
         else if units = PNone then Inr [(''distance'', distance)]
         else bindE (distance_units units) (\<lambda>u. Inr [(''distance'', distance), (''units'', PStr u)]))"

definition spatial_filter_params ::
  "geometry_input \<Rightarrow> (string, pyval) pydict \<Rightarrow> py_error + (string, pyval) pydict" where
  "spatial_filter_params geometry_value sf =
     (let explicit_type = first_value sf [''geometry_type'', ''geometryType''] in
      bindE (coerce_geometry geometry_value explicit_type) (\<lambda>(geom, inferred_type).
      bindE (normalize_spatial_relationship (filter_relationship sf)) (\<lambda>rel.
      bindE (json_dumps (PDict geom)) (\<lambda>text.
      bindE (filter_sr sf geom) (\<lambda>sr.
      bindE (filter_distance sf) (\<lambda>dist.
        Inr ([(''geometry'', PStr text), (''geometryType'', py_or explicit_type inferred_type),
              (''spatialRel'', PStr rel), (''inSR'', sr)] @ dist)))))))"

text \<open>The geometry slot read from the filter itself, for a filter whose geometry is a plain value.\<close>

definition filter_geometry :: "(string, pyval) pydict \<Rightarrow> geometry_input" where
  "filter_geometry sf = GeoValue (first_value sf [''geometry'', ''geom'', ''shape''])"

section \<open>Statistics parameters\<close>

definition statistic_types :: "string list" where
  "statistic_types = [''count'', ''sum'', ''min'', ''max'', ''avg'', ''stddev'', ''var'']"

definition statistic_definition :: "(string, pyval) pydict \<Rightarrow> py_error + (string, pyval) pydict" where
  "statistic_definition stat =
     (let stat_type = first_value stat [''statisticType'', ''statistic_type'', ''type''];
          on_field = first_value stat [''onStatisticField'', ''on_statistic_field'', ''field'', ''on''];
          out_name = first_value stat [''outStatisticFieldName'', ''out_statistic_field_name'', ''out'', ''as'', ''alias'']
      in if stat_type = PNone \<or> on_field = PNone then Inl ErrValue
         else let normalized_type = str_lower (str_strip (py_str stat_type)) in
           if normalized_type \<notin> set statistic_types then Inl ErrValue
           else Inr [(''statisticType'', PStr normalized_type),
                     (''onStatisticField'', PStr (py_str on_field)),
                     (''outStatisticFieldName'',
                       PStr (if truthy out_name then py_str out_name
                             else normalized_type @ ''_'' @ py_str on_field))])"

text \<open>Absent keyword arguments are \<open>None\<close>; the group-by fields are a string or a sequence of names.\<close>

datatype text_or_seq = OneText string | ManyValues "pyval list"

definition joined_text :: "text_or_seq \<Rightarrow> string" where
  "joined_text v = (case v of OneText s \<Rightarrow> s | ManyValues vs \<Rightarrow> str_join '','' (map py_str vs))"

definition statistics_params ::
  "(string, pyval) pydict list option \<Rightarrow> text_or_seq option \<Rightarrow> bool \<Rightarrow> bool \<Rightarrow> py_error + (string, pyval) pydict" where
  "statistics_params out_statistics group_by return_distinct_values return_count_only =
     bindE (case out_statistics of
              Some (s # ss) \<Rightarrow> bindE (mapE statistic_definition (s # ss)) (\<lambda>defs.
                 bindE (json_dumps (PList (map PDict defs))) (\<lambda>text. Inr [(''outStatistics'', PStr text)]))
            | _ \<Rightarrow> Inr [])
       (\<lambda>stats. Inr (stats
          @ (case group_by of None \<Rightarrow> [] | Some g \<Rightarrow> [(''groupByFieldsForStatistics'', PStr (joined_text g))])
          @ (if return_distinct_values then [(''returnDistinctValues'', PStr ''true'')] else [])
          @ (if return_count_only then [(''returnCountOnly'', PStr ''true'')] else [])))"

section \<open>The exact area of a ring\<close>

text \<open>
  The reference: twice the signed area of a closed polygon of integer points, positive when
  counter-clockwise. \<open>path_weight\<close> bounds every partial sum of the shoelace terms; below
  \<open>2 ^ 53\<close> no operation of the float computation rounds.
\<close>

type_synonym point = "int \<times> int"

definition cross :: "point \<Rightarrow> point \<Rightarrow> int" where
  "cross p q = fst p * snd q - fst q * snd p"

fun path_sum :: "point list \<Rightarrow> int" where
  "path_sum (p # q # ps) = cross p q + path_sum (q # ps)"
| "path_sum _ = 0"

fun path_weight :: "point list \<Rightarrow> int" where
  "path_weight (p # q # ps) = \<bar>fst p * snd q\<bar> + \<bar>fst q * snd p\<bar> + path_weight (q # ps)"
| "path_weight _ = 0"

definition shoelace :: "point list \<Rightarrow> int" where
  "shoelace ps = path_sum (ps @ take 1 ps)"

definition exact_area :: "point list \<Rightarrow> bool" where
  "exact_area ps \<longleftrightarrow> path_weight (ps @ take 1 ps) < 2 ^ 53"

lemma path_sum_snoc: "path_sum (xs @ [a, b]) = path_sum (xs @ [a]) + cross a b"
  by (induction xs rule: path_sum.induct) auto

lemma cross_swap: "cross a b = - cross b a"
  by (simp add: cross_def)

lemma path_sum_rev: "path_sum (rev xs) = - path_sum xs"
proof (induction xs rule: path_sum.induct)
  case (1 p q ps)
  then show ?case
    using path_sum_snoc [of "rev ps" q p] by (simp add: cross_swap [of q p])
qed simp_all

lemma path_sum_close: "path_sum (a # xs @ [b]) = cross a (hd (xs @ [b])) + path_sum (xs @ [b])"
  by (cases xs) auto

lemma shoelace_rev: "shoelace (rev ps) = - shoelace ps"
proof (cases ps rule: rev_cases)
  case (snoc xs z)
  show ?thesis
  proof (cases xs)
    case (Cons a ys)
    have "shoelace (rev ps) = path_sum (rev (z # ps))"
      using snoc Cons by (simp add: shoelace_def)
    also have "\<dots> = - path_sum (z # a # ys @ [z])" using snoc Cons by (simp only: path_sum_rev) simp
    also have "path_sum (z # a # ys @ [z]) = cross z a + path_sum (a # ys @ [z])" by simp
    also have "\<dots> = path_sum (a # ys @ [z, a])"
      using path_sum_snoc [of "a # ys" z a] by simp
    finally show ?thesis using snoc Cons by (simp add: shoelace_def)
  qed (use snoc in \<open>simp add: shoelace_def cross_def\<close>)
qed (simp add: shoelace_def)

lemma path_weight_nonneg: "0 \<le> path_weight ps"
  by (induction ps rule: path_weight.induct) auto

text \<open>\<open>grid_point c p\<close>: the first two ordinates of the vertex \<open>c\<close> read as the integers of \<open>p\<close>.\<close>

definition grid_point :: "pyval list \<Rightarrow> point \<Rightarrow> bool" where
  "grid_point c p \<longleftrightarrow> point_xy c = Inr (FFinite (of_int (fst p)), FFinite (of_int (snd p)))"

lemma area_step:
  fixes a :: int
  assumes "\<bar>a\<bar> + (\<bar>fst p * snd q\<bar> + \<bar>fst q * snd p\<bar>) < 2 ^ 53"
  shows "fl_add (FFinite (of_int a)) (fl_sub (fl_mul (FFinite (of_int (fst p))) (FFinite (of_int (snd q))))
      (fl_mul (FFinite (of_int (fst q))) (FFinite (of_int (snd p))))) = FFinite (of_int (a + cross p q))"
proof -
  have m: "\<bar>fst p * snd q\<bar> < 2 ^ 53" "\<bar>fst q * snd p\<bar> < 2 ^ 53" "\<bar>fst p * snd q + - (fst q * snd p)\<bar> < 2 ^ 53"
     "\<bar>a + (fst p * snd q + - (fst q * snd p))\<bar> < 2 ^ 53"
    using assms by linarith+
  show ?thesis
    unfolding fl_sub_def fl_mul.simps of_int_mult [symmetric] fl_of_int [OF m(1)] fl_of_int [OF m(2)]
      fl_neg.simps of_int_minus [symmetric] fl_add.simps of_int_add [symmetric] fl_of_int [OF m(3)]
      fl_of_int [OF m(4)] cross_def by simp
qed

lemma area_loop_exact:
  assumes "list_all2 grid_point coords ps" "k \<le> length ps"
    and "\<bar>a\<bar> + path_weight (drop k ps @ take 1 ps) < 2 ^ 53"
  shows "area_loop coords [k ..< length coords] (FFinite (of_int a))
    = Inr (FFinite (of_int (a + path_sum (drop k ps @ take 1 ps))))"
  using assms(2,3)
proof (induction "length ps - k" arbitrary: k a)
  case 0
  have "length coords = length ps" by (rule list_all2_lengthD [OF assms(1)])
  moreover have "path_sum (take 1 ps) = 0" by (cases ps) auto
  ultimately show ?case using 0 by simp
next
  case (Suc n)
  have len: "length coords = length ps" by (rule list_all2_lengthD [OF assms(1)])
  have k: "k < length ps" using Suc by simp
  define q where "q = ps ! ((k + 1) mod length ps)"
  have pt: "grid_point (coords ! i) (ps ! i)" if "i < length ps" for i
    using list_all2_nthD2 [OF assms(1) that] .
  have split: "drop k ps @ take 1 ps = ps ! k # q # tl (drop (Suc k) ps @ take 1 ps)"
    "drop (Suc k) ps @ take 1 ps = q # tl (drop (Suc k) ps @ take 1 ps)"
  proof -
    have "drop (Suc k) ps @ take 1 ps \<noteq> []" using k by (cases ps) auto
    moreover have "hd (drop (Suc k) ps @ take 1 ps) = q"
    proof (cases "Suc k < length ps")
      case True
      then show ?thesis by (simp add: q_def hd_append hd_drop_conv_nth)
    next
      case False
      then have "Suc k = length ps" using k by simp
      then show ?thesis by (cases ps) (auto simp: q_def)
    qed
    ultimately show "drop (Suc k) ps @ take 1 ps = q # tl (drop (Suc k) ps @ take 1 ps)"
      by (metis list.collapse)
    then show "drop k ps @ take 1 ps = ps ! k # q # tl (drop (Suc k) ps @ take 1 ps)"
      using Cons_nth_drop_Suc [OF k] by (metis append_Cons)
  qed
  have w: "path_weight (drop k ps @ take 1 ps) = \<bar>fst (ps ! k) * snd q\<bar> + \<bar>fst q * snd (ps ! k)\<bar>
      + path_weight (drop (Suc k) ps @ take 1 ps)"
    by (subst split(1), subst split(2)) simp
  have s: "path_sum (drop k ps @ take 1 ps) = cross (ps ! k) q + path_sum (drop (Suc k) ps @ take 1 ps)"
    by (subst split(1), subst split(2)) simp
  have nn: "0 \<le> path_weight (drop (Suc k) ps @ take 1 ps)" by (rule path_weight_nonneg)
  have rec: "\<bar>a + cross (ps ! k) q\<bar> + path_weight (drop (Suc k) ps @ take 1 ps) < 2 ^ 53"
    using Suc.prems(2) unfolding w cross_def by linarith
  have step: "\<bar>a\<bar> + (\<bar>fst (ps ! k) * snd q\<bar> + \<bar>fst q * snd (ps ! k)\<bar>) < 2 ^ 53"
    using Suc.prems(2) nn unfolding w by linarith
  have "grid_point (coords ! k) (ps ! k)" "grid_point (coords ! ((k + 1) mod length ps)) q"
    unfolding q_def using k by (auto intro!: pt mod_less_divisor)
  then have xy: "point_xy (coords ! k) = Inr (FFinite (of_int (fst (ps ! k))), FFinite (of_int (snd (ps ! k))))"
    "point_xy (coords ! ((k + 1) mod length ps)) = Inr (FFinite (of_int (fst q)), FFinite (of_int (snd q)))"
    by (simp_all only: grid_point_def)
  have "area_loop coords [k ..< length coords] (FFinite (of_int a))
      = area_loop coords [Suc k ..< length coords] (FFinite (of_int (a + cross (ps ! k) q)))"
    unfolding len upt_conv_Cons [OF k] area_loop.simps xy bindE_Inr prod.case area_step [OF step] ..
  also have "\<dots> = Inr (FFinite (of_int (a + cross (ps ! k) q + path_sum (drop (Suc k) ps @ take 1 ps))))"
    using k Suc.hyps(2) by (intro Suc.hyps(1) rec) simp_all
  finally show ?case unfolding s by (simp only: add.assoc)
qed

lemma ring_signed_area_exact:
  assumes "list_all2 grid_point coords ps" "exact_area ps"
  shows "ring_signed_area coords = Inr (FFinite (of_int (shoelace ps) / 2))"
proof -
  have w: "path_weight (ps @ take 1 ps) < 2 ^ 53" using assms(2) by (simp add: exact_area_def)
  have "\<bar>path_sum xs\<bar> \<le> path_weight xs" for xs
    by (induction xs rule: path_sum.induct) (auto simp: cross_def)
  then have "\<bar>shoelace ps\<bar> < 2 ^ 53" using w unfolding shoelace_def by (rule order_le_less_trans)
  then have "fl (of_int (shoelace ps) / 2) = FFinite (of_int (shoelace ps) / 2)"
    by (rule fl_representable [OF representable_half])
  then show ?thesis
    using area_loop_exact [OF assms(1), of 0 0] w
    by (simp add: ring_signed_area_def shoelace_def)
qed

text \<open>A ring value whose vertices are the integer points \<open>ps\<close>.\<close>

definition grid_ring :: "pyval \<Rightarrow> point list \<Rightarrow> bool" where
  "grid_ring v ps \<longleftrightarrow> (\<exists>coords. v = PList (map PList coords) \<and> list_all2 grid_point coords ps)"

definition wound :: "bool \<Rightarrow> point list \<Rightarrow> bool" where
  "wound exterior ps \<longleftrightarrow> (if exterior then shoelace ps \<le> 0 else 0 \<le> shoelace ps)"

lemma copy_points_PList [simp]: "copy_points (PList (map PList coords)) = Inr coords"
  by (simp add: copy_points_def mapE_map)

lemma geoservices_ring_wound:
  assumes "grid_ring ring ps" "exact_area ps"
  shows "\<exists>out ps'. geoservices_ring exterior ring = Inr out \<and> grid_ring out ps' \<and> ps' \<in> {ps, rev ps} \<and>
    out \<in> {ring, (case ring of PList cs \<Rightarrow> PList (rev cs))} \<and> wound exterior ps'"
proof -
  obtain coords where c: "ring = PList (map PList coords)" "list_all2 grid_point coords ps"
    using assms(1) by (auto simp: grid_ring_def)
  have area: "ring_signed_area coords = Inr (FFinite (of_int (shoelace ps) / 2))"
    by (rule ring_signed_area_exact [OF c(2) assms(2)])
  define flip where "flip \<longleftrightarrow> shoelace ps \<noteq> 0 \<and> (0 < shoelace ps) \<noteq> (\<not> exterior)"
  have "geoservices_ring exterior ring = Inr (PList (map PList (if flip then rev coords else coords)))"
    unfolding geoservices_ring_def c(1) copy_points_PList bindE_Inr area
    by (auto simp: flip_def Let_def zero_less_divide_iff)
  moreover have "wound exterior (if flip then rev ps else ps)"
    by (auto simp: wound_def flip_def shoelace_rev)
  moreover have "grid_ring (PList (map PList (if flip then rev coords else coords))) (if flip then rev ps else ps)"
    using c(2) unfolding grid_ring_def by (auto simp: list_all2_rev)
  ultimately show ?thesis
    by (intro exI [of _ "PList (map PList (if flip then rev coords else coords))"] exI [of _ "if flip then rev ps else ps"])
       (auto simp: c(1) rev_map)
qed


definition wound_rings :: "point list list \<Rightarrow> pyval list \<Rightarrow> bool" where
  "wound_rings pss outs \<longleftrightarrow> (\<exists>pss'. list_all2 grid_ring outs pss' \<and>
     list_all2 (\<lambda>ps ps'. ps' \<in> {ps, rev ps}) pss pss' \<and> (\<forall>i < length pss'. wound (i = 0) (pss' ! i)))"

definition polygon_of :: "pyval \<Rightarrow> point list list \<Rightarrow> bool" where
  "polygon_of v pss \<longleftrightarrow> (\<exists>rings. v = PList rings \<and> list_all2 grid_ring rings pss) \<and> (\<forall>ps \<in> set pss. exact_area ps)"

lemma rings_from_wound:
  assumes "list_all2 grid_ring rings pss" "\<forall>ps \<in> set pss. exact_area ps"
  shows "\<exists>outs pss'. rings_from n rings = Inr outs \<and> list_all2 grid_ring outs pss' \<and>
    list_all2 (\<lambda>ps ps'. ps' \<in> {ps, rev ps}) pss pss' \<and> (\<forall>i < length pss'. wound (i + n = 0) (pss' ! i))"
  using assms
proof (induction rings pss arbitrary: n rule: list_all2_induct)
  case Nil
  then show ?case by simp
next
  case (Cons ring rings ps pss)
  obtain out ps' where o: "geoservices_ring (n = 0) ring = Inr out" "grid_ring out ps'" "ps' \<in> {ps, rev ps}"
    "wound (n = 0) ps'"
    using geoservices_ring_wound [of ring ps "n = 0"] Cons by auto
  obtain outs pss' where r: "rings_from (n + 1) rings = Inr outs" "list_all2 grid_ring outs pss'"
    "list_all2 (\<lambda>ps ps'. ps' \<in> {ps, rev ps}) pss pss'" "\<forall>i < length pss'. wound (i + (n + 1) = 0) (pss' ! i)"
    using Cons.IH [of "n + 1"] Cons.prems by auto
  have "\<forall>i < length (ps' # pss'). wound (i + n = 0) ((ps' # pss') ! i)"
    using o(4) r(4) by (auto simp: nth_Cons split: nat.splits)
  then show ?case using o r by (intro exI [of _ "out # outs"] exI [of _ "ps' # pss'"]) simp
qed

lemma polygon_rings_wound:
  assumes "polygon_of v pss" shows "\<exists>outs. polygon_rings v = Inr outs \<and> wound_rings pss outs"
  using assms rings_from_wound [of _ pss 0]
  by (fastforce simp: polygon_of_def polygon_rings_def wound_rings_def)

lemma multi_rings_wound:
  assumes "list_all2 polygon_of polys psss"
  shows "\<exists>outss. multi_rings polys = Inr (concat outss) \<and> list_all2 wound_rings psss outss \<and>
    list_all2 (\<lambda>v outs. polygon_rings v = Inr outs) polys outss"
  using assms
proof (induction rule: list_all2_induct)
  case (Cons v vs pss psss)
  obtain outs where "polygon_rings v = Inr outs" "wound_rings pss outs"
    using polygon_rings_wound [OF Cons.hyps(1)] by auto
  moreover obtain outss where "multi_rings vs = Inr (concat outss)" "list_all2 wound_rings psss outss"
     "list_all2 (\<lambda>v outs. polygon_rings v = Inr outs) vs outss"
    using Cons.IH by auto
  ultimately show ?case by (intro exI [of _ "outs # outss"]) simp
qed simp

text \<open>On rings whose shoelace sum is exact, GeoJSON polygons become GeoServices rings with a
  clockwise exterior and counter-clockwise holes; every ring keeps its vertices, in the given or
  in reverse order, and a MultiPolygon is the concatenation of its polygons' rings.\<close>

theorem geojson_polygons_wound:
  assumes "list_all2 polygon_of polys psss"
  shows "\<exists>outss. list_all2 wound_rings psss outss \<and>
    geojson_geometry_to_geoservices [(''type'', PStr ''MultiPolygon''), (''coordinates'', PList polys)]
      = Inr [(''rings'', PList (concat outss))] \<and>
    (\<forall>i < length polys.
       geojson_geometry_to_geoservices [(''type'', PStr ''Polygon''), (''coordinates'', polys ! i)]
         = Inr [(''rings'', PList (outss ! i))])"
proof -
  obtain outss where o: "multi_rings polys = Inr (concat outss)" "list_all2 wound_rings psss outss"
     "list_all2 (\<lambda>v outs. polygon_rings v = Inr outs) polys outss"
    using multi_rings_wound [OF assms] by auto
  have "geojson_geometry_to_geoservices [(''type'', PStr ''MultiPolygon''), (''coordinates'', PList polys)]
      = Inr [(''rings'', PList (concat outss))]"
    using o(1) by (auto simp: geojson_geometry_to_geoservices_def get_or_none_def dict_get_Cons)
  moreover have "geojson_geometry_to_geoservices [(''type'', PStr ''Polygon''), (''coordinates'', polys ! i)]
         = Inr [(''rings'', PList (outss ! i))]" if i: "i < length polys" for i
  proof -
    have "polygon_rings (polys ! i) = Inr (outss ! i)" by (rule list_all2_nthD [OF o(3) i])
    moreover obtain rings where "polys ! i = PList rings"
      using list_all2_nthD [OF assms i] by (auto simp: polygon_of_def)
    ultimately show ?thesis
      by (auto simp: geojson_geometry_to_geoservices_def get_or_none_def dict_get_Cons polygon_rings_def)
  qed
  ultimately show ?thesis using o(2) by auto
qed

definition square :: "point list" where
  "square = [(0, 0), (4, 0), (4, 4), (0, 4), (0, 0)]"

definition points_value :: "point list \<Rightarrow> pyval" where
  "points_value ps = PList (map PList (map (\<lambda>(x, y). [PInt x, PInt y]) ps))"

lemma grid_ring_points:
  "(\<forall>(x, y) \<in> set ps. \<bar>x\<bar> < 2 ^ 53 \<and> \<bar>y\<bar> < 2 ^ 53) \<Longrightarrow> grid_ring (points_value ps) ps"
  unfolding grid_ring_def points_value_def
  by (rule exI, rule conjI [OF refl])
     (auto simp: list_all2_conv_all_nth grid_point_def point_xy_def py_nth_def to_float_int
        dest!: nth_mem split: prod.splits)

theorem geojson_polygons_wound_witness:
  "\<exists>outss. list_all2 wound_rings [[square, rev square]] outss \<and>
    geojson_geometry_to_geoservices
      [(''type'', PStr ''MultiPolygon''), (''coordinates'', PList [PList [points_value square, points_value (rev square)]])]
      = Inr [(''rings'', PList (concat outss))]"
proof -
  have "grid_ring (points_value square) square" "grid_ring (points_value (rev square)) (rev square)"
    by (rule grid_ring_points; simp add: square_def)+
  moreover have "exact_area square" "exact_area (rev square)"
    by (simp_all add: exact_area_def square_def)
  ultimately have "list_all2 polygon_of [PList [points_value square, points_value (rev square)]] [[square, rev square]]"
    by (simp add: polygon_of_def)
  from geojson_polygons_wound [OF this] show ?thesis by blast
qed

section \<open>Spatial filter parameters are complete\<close>

lemma normalize_spatial_relationship_prefix:
  "normalize_spatial_relationship v = Inr rel \<Longrightarrow> prefix ''esriSpatialRel'' rel"
  unfolding normalize_spatial_relationship_def Let_def
  by (auto split: if_splits option.splits simp: spatial_rel_def dict_get_def)

text \<open>Translated spatial filters always carry a geometry, its type, a GeoServices spatial
  relation and a spatial reference, in that order and at most followed by a distance and its
  units; a distance relationship never goes out without a distance.\<close>

theorem spatial_filter_params_complete:
  assumes "spatial_filter_params g sf = Inr params"
  shows "\<exists>rel sr rest. dict_keys params = [''geometry'', ''geometryType'', ''spatialRel'', ''inSR''] @ rest \<and>
      rest \<in> {[], [''distance''], [''distance'', ''units'']} \<and>
      dict_get params ''spatialRel'' = Some (PStr rel) \<and> prefix ''esriSpatialRel'' rel \<and>
      dict_get params ''inSR'' = Some sr \<and> sr \<noteq> PNone \<and>
      (is_distance_relationship (filter_relationship sf) \<longrightarrow> rest \<noteq> [])"
proof -
  obtain geom ty rel tx sr dist where p:
    "normalize_spatial_relationship (filter_relationship sf) = Inr rel"
    "filter_sr sf geom = Inr sr" "filter_distance sf = Inr dist"
    "params = [(''geometry'', PStr tx), (''geometryType'', ty), (''spatialRel'', PStr rel), (''inSR'', sr)] @ dist"
    using assms by (fastforce simp: spatial_filter_params_def Let_def bindE_eq_Inr split: prod.splits)
  have "sr \<noteq> PNone" using p(2) by (auto simp: filter_sr_def bindE_eq_Inr split: if_splits)
  moreover have "dict_keys dist \<in> {[], [''distance''], [''distance'', ''units'']} \<and>
      (is_distance_relationship (filter_relationship sf) \<longrightarrow> dict_keys dist \<noteq> [])"
    using p(3) by (auto simp: filter_distance_def Let_def bindE_eq_Inr dict_keys_def split: if_splits)
  ultimately show ?thesis
    using normalize_spatial_relationship_prefix [OF p(1)]
    by (intro exI [of _ rel] exI [of _ sr] exI [of _ "dict_keys dist"])
       (auto simp: p(4) dict_keys_def dict_get_Cons)
qed

definition near_filter :: "(string, pyval) pydict" where
  "near_filter = [(''geometry'', PDict [(''x'', PInt 1), (''y'', PInt 2)]), (''relation'', PStr ''WITHIN_DISTANCE''),
     (''distance'', PInt 5), (''units'', PStr ''KM'')]"

lemma near_filter_params: "\<exists>t. spatial_filter_params (filter_geometry near_filter) near_filter = Inr
   [(''geometry'', PStr t), (''geometryType'', PStr ''esriGeometryPoint''),
    (''spatialRel'', PStr ''esriSpatialRelIntersects''), (''inSR'', PInt 4326),
    (''distance'', PInt 5), (''units'', PStr ''esriSRUnit_Kilometer'')]"
  by (simp add: near_filter_def filter_geometry_def spatial_filter_params_def get_or_none_def dict_get_Cons
     coerce_geometry_def as_dict_def dict_has_def geoservices_geometry_type_def filter_relationship_def py_or_def
     normalize_spatial_relationship_def str_strip_def str_lstrip_def str_lower_def str_replace_char_def
     spatial_rel_def filter_sr_def sr_wkid_def filter_distance_def is_distance_relationship_def
     distance_relationships_def distance_units_def distance_unit_names_def)

theorem spatial_filter_params_complete_witness:
  "\<exists>params rel. spatial_filter_params (filter_geometry near_filter) near_filter = Inr params \<and>
     dict_get params ''spatialRel'' = Some (PStr rel) \<and> prefix ''esriSpatialRel'' rel"
proof -
  obtain params where p: "spatial_filter_params (filter_geometry near_filter) near_filter = Inr params"
    using near_filter_params by blast
  from spatial_filter_params_complete [OF this] p show ?thesis by blast
qed

end
