(* ===== verification/Protocols.thy ===== *)
theory Protocols
  imports Py_Number
begin

text \<open>
  \<open>models/_protocols.py\<close>: the canonical protocol and capability names, their aliases, and
  the reading of capability lists and flags a server advertises. Python sets are HOL sets.
\<close>

section \<open>Canonical names\<close>

definition protocols :: "string list" where
  "protocols = [''grpc'', ''geoservices-feature-service'', ''geoservices-map-service'',
     ''geoservices-image-service'', ''geoservices-geometry-service'', ''geoservices-gp-service'',
     ''ogc-features'', ''ogc-tiles'', ''ogc-maps'', ''stac'', ''wfs'', ''wms'', ''wmts'', ''odata'',
     ''maplibre-vector'', ''maplibre-raster'', ''maplibre-geojson'']"

definition protocol_aliases :: "(string \<times> string) list" where
  "protocol_aliases =
    [(''feature-server'', ''geoservices-feature-service''),
     (''featureserver'', ''geoservices-feature-service''),
     (''feature-service'', ''geoservices-feature-service''),
     (''geoservices-featureserver'', ''geoservices-feature-service''),
     (''map-server'', ''geoservices-map-service''),
     (''mapserver'', ''geoservices-map-service''),
     (''image-server'', ''geoservices-image-service''),
     (''imageserver'', ''geoservices-image-service''),
     (''geometry-server'', ''geoservices-geometry-service''),
     (''geometryserver'', ''geoservices-geometry-service''),
     (''gp-server'', ''geoservices-gp-service''),
     (''gpserver'', ''geoservices-gp-service''),
     (''ogc-api-features'', ''ogc-features''),
     (''ogc_features'', ''ogc-features''),
     (''odata-v4'', ''odata''),
     (''wfs-2.0'', ''wfs''),
     (''wms-1.3.0'', ''wms''),
     (''wmts-1.0.0'', ''wmts'')]"

definition capabilities :: "string list" where
  "capabilities = [''query'', ''queryAggregate'', ''queryExtent'', ''queryObjectIds'', ''queryRelated'',
     ''applyEdits'', ''attachments'', ''render'', ''tiles'', ''sql'', ''stream'', ''pbf'', ''connect'',
     ''image'', ''geometry'', ''geoprocess'', ''processes'']"

definition default_capability_table :: "(string \<times> string list) list" where
  "default_capability_table =
    [(''grpc'', [''query'', ''queryAggregate'', ''queryExtent'', ''queryObjectIds'', ''applyEdits'', ''stream'']),
     (''geoservices-feature-service'', [''query'', ''queryAggregate'', ''queryExtent'', ''queryObjectIds'',
        ''queryRelated'', ''applyEdits'', ''attachments'', ''sql'', ''stream'', ''pbf'', ''connect'']),
     (''geoservices-map-service'', [''query'', ''queryAggregate'', ''queryExtent'', ''queryObjectIds'',
        ''queryRelated'', ''render'', ''tiles'', ''sql'', ''stream'']),
     (''geoservices-image-service'', [''query'', ''queryExtent'', ''queryObjectIds'', ''image'', ''render'',
        ''tiles'', ''connect'']),
     (''geoservices-geometry-service'', [''geometry'', ''connect'']),
     (''geoservices-gp-service'', [''geoprocess'', ''connect'']),
     (''ogc-features'', [''query'', ''queryObjectIds'', ''applyEdits'', ''stream'']),
     (''ogc-tiles'', [''render'', ''tiles'']),
     (''ogc-maps'', [''render'']),
     (''stac'', [''query'', ''queryObjectIds'', ''stream'']),
     (''wfs'', [''query'', ''queryExtent'', ''queryObjectIds'', ''applyEdits'', ''stream'']),
     (''wms'', [''render'', ''tiles'', ''query'']),
     (''wmts'', [''render'', ''tiles'']),
     (''odata'', [''query'', ''queryObjectIds'', ''stream'', ''applyEdits'']),
     (''maplibre-vector'', [''render'', ''tiles'']),
     (''maplibre-raster'', [''render'', ''tiles'']),
     (''maplibre-geojson'', [''render''])]"

section \<open>Normalisation\<close>

definition dashed :: "string \<Rightarrow> string" where
  "dashed s = str_replace_char CHR ''_'' CHR ''-'' (str_lower s)"

definition normalized_protocol_aliases :: "(string \<times> string) list" where
  "normalized_protocol_aliases = put_all dict_set [] (map (\<lambda>(key, value). (dashed key, value)) protocol_aliases)"

definition char_is_alnum :: "char \<Rightarrow> bool" where
  "char_is_alnum c \<longleftrightarrow> char_is_digit c \<or> char_lower c \<noteq> c \<or> char_upper c \<noteq> c"

definition alnum_key :: "string \<Rightarrow> string" where
  "alnum_key s = filter char_is_alnum (str_lower s)"

definition capability_by_key :: "(string \<times> string) list" where
  "capability_by_key = put_all dict_set [] (map (\<lambda>c. (alnum_key c, c)) capabilities)"

definition normalize_protocol :: "string \<Rightarrow> py_error + string" where
  "normalize_protocol value =
     (let normalized = dashed (str_strip value);
          protocol = (case dict_get normalized_protocol_aliases normalized of None \<Rightarrow> normalized | Some p \<Rightarrow> p)
      in if protocol \<in> set protocols then Inr protocol else Inl ErrValue)"

definition normalize_capability :: "string \<Rightarrow> py_error + string" where
  "normalize_capability value =
     (case dict_get capability_by_key (alnum_key (str_strip value)) of
        None \<Rightarrow> Inl ErrValue | Some c \<Rightarrow> Inr c)"

definition capability_set :: "string list option \<Rightarrow> py_error + string set" where
  "capability_set names = (case names of None \<Rightarrow> Inr {}
     | Some ns \<Rightarrow> bindE (mapE normalize_capability ns) (\<lambda>cs. Inr (set cs)))"

definition default_capabilities :: "string \<Rightarrow> py_error + string set" where
  "default_capabilities protocol = bindE (normalize_protocol protocol) (\<lambda>p.
     Inr (case dict_get default_capability_table p of None \<Rightarrow> {} | Some cs \<Rightarrow> set cs))"

section \<open>Advertised capabilities\<close>

definition capability_name_aliases :: "(string \<times> string) list" where
  "capability_name_aliases =
    [(''feature-server'', ''featureserver''), (''feature-service'', ''featureserver''),
     (''geo-services'', ''geoservices''), (''geocode-server'', ''geocodeserver''),
     (''geocoding'', ''geocodeserver''), (''geometry-server'', ''geometryserver''),
     (''image-server'', ''imageserver''), (''map-server'', ''mapserver''),
     (''ogc-features'', ''ogc-features''), (''ogc-api-features'', ''ogc-features''),
     (''ogc-maps'', ''ogc-maps''), (''ogc-api-maps'', ''ogc-maps''),
     (''ogc-tiles'', ''ogc-tiles''), (''ogc-api-tiles'', ''ogc-tiles''),
     (''ogc-coverages'', ''ogc-coverages''), (''ogc-api-coverages'', ''ogc-coverages''),
     (''ogc-processes'', ''ogc-processes''), (''ogc-api-processes'', ''ogc-processes'')]"

definition normalize_capability_name :: "string \<Rightarrow> string" where
  "normalize_capability_name value =
     (let normalized = str_replace_char CHR '' '' CHR ''-''
            (str_replace_char CHR ''/'' CHR ''-'' (dashed (str_strip value)))
      in case dict_get capability_name_aliases normalized of None \<Rightarrow> normalized | Some a \<Rightarrow> a)"

definition normalize_advertised_name :: "string \<Rightarrow> string" where
  "normalize_advertised_name value = (case normalize_protocol value of Inr p \<Rightarrow> p
     | Inl _ \<Rightarrow> (case normalize_capability value of Inr c \<Rightarrow> c | Inl _ \<Rightarrow> normalize_capability_name value))"

definition normalized_surface_keys :: "string \<Rightarrow> string set" where
  "normalized_surface_keys value = {normalize_capability_name value}
     \<union> (case normalize_protocol value of Inr p \<Rightarrow> {p} | Inl _ \<Rightarrow> {})
     \<union> (case normalize_capability value of Inr c \<Rightarrow> {c} | Inl _ \<Rightarrow> {})"

definition capability_flags :: "pyval \<Rightarrow> (string, bool) pydict" where
  "capability_flags v = (case v of
     PDict d \<Rightarrow> put_all dict_set [] (map (\<lambda>(key, flag). (normalize_advertised_name key, truthy flag)) d)
   | _ \<Rightarrow> [])"

definition capability_enabled :: "pyval \<Rightarrow> bool" where
  "capability_enabled v = (case v of
     PDict d \<Rightarrow> (case dict_get d ''enabled'' of None \<Rightarrow> True | Some e \<Rightarrow> truthy e)
   | _ \<Rightarrow> truthy v)"

text \<open>\<open>models/_helpers._first_present\<close>: the first key that is present, even with a \<open>None\<close> value.\<close>

fun first_key_present :: "(string, pyval) pydict \<Rightarrow> string list \<Rightarrow> pyval" where
  "first_key_present d [] = PNone"
| "first_key_present d (k # ks) = (case dict_get d k of Some v \<Rightarrow> v | None \<Rightarrow> first_key_present d ks)"

fun advertised_item :: "pyval \<Rightarrow> string set" where
  "advertised_item (PStr s) = {normalize_advertised_name s}"
| "advertised_item (PDict d) =
     (if \<not> capability_enabled (PDict d) then {}
      else let name = first_key_present d [''id'', ''name'', ''protocol'', ''surface'']
           in if name \<noteq> PNone then {normalize_advertised_name (py_str name)} else {})"
| "advertised_item _ = {}"

definition capability_names :: "pyval \<Rightarrow> string set" where
  "capability_names v = (case v of
     PList items \<Rightarrow> \<Union> (set (map advertised_item items))
   | PTuple items \<Rightarrow> \<Union> (set (map advertised_item items))
   | PDict d \<Rightarrow> set (map (\<lambda>(key, _). normalize_advertised_name key) (filter (\<lambda>(_, e). capability_enabled e) d))
   | _ \<Rightarrow> {})"

section \<open>Canonical names are fixed points\<close>

lemma normalized_protocol_aliases_eval: "normalized_protocol_aliases =
    [(''feature-server'', ''geoservices-feature-service''),
     (''featureserver'', ''geoservices-feature-service''),
     (''feature-service'', ''geoservices-feature-service''),
     (''geoservices-featureserver'', ''geoservices-feature-service''),
     (''map-server'', ''geoservices-map-service''),
     (''mapserver'', ''geoservices-map-service''),
     (''image-server'', ''geoservices-image-service''),
     (''imageserver'', ''geoservices-image-service''),
     (''geometry-server'', ''geoservices-geometry-service''),
     (''geometryserver'', ''geoservices-geometry-service''),
     (''gp-server'', ''geoservices-gp-service''),
     (''gpserver'', ''geoservices-gp-service''),
     (''ogc-api-features'', ''ogc-features''),
     (''ogc-features'', ''ogc-features''),
     (''odata-v4'', ''odata''),
     (''wfs-2.0'', ''wfs''),
     (''wms-1.3.0'', ''wms''),
     (''wmts-1.0.0'', ''wmts'')]"
  by (simp add: normalized_protocol_aliases_def protocol_aliases_def dashed_def str_replace_char_def
      str_lower_def dict_set_def)

lemma capability_by_key_eval: "capability_by_key =
    [(''query'', ''query''), (''queryaggregate'', ''queryAggregate''), (''queryextent'', ''queryExtent''),
     (''queryobjectids'', ''queryObjectIds''), (''queryrelated'', ''queryRelated''),
     (''applyedits'', ''applyEdits''), (''attachments'', ''attachments''), (''render'', ''render''),
     (''tiles'', ''tiles''), (''sql'', ''sql''), (''stream'', ''stream''), (''pbf'', ''pbf''),
     (''connect'', ''connect''), (''image'', ''image''), (''geometry'', ''geometry''),
     (''geoprocess'', ''geoprocess''), (''processes'', ''processes'')]"
  by (simp add: capability_by_key_def capabilities_def alnum_key_def str_lower_def char_is_alnum_def dict_set_def)

lemma protocols_stripped: "map (\<lambda>p. dashed (str_strip p)) protocols = protocols"
  by (simp add: protocols_def dashed_def str_replace_char_def str_lower_def str_strip_def str_lstrip_def)

lemma protocols_not_aliased: "list_all (\<lambda>p. dict_get normalized_protocol_aliases p \<in> {None, Some p}) protocols"
  by (simp add: protocols_def normalized_protocol_aliases_eval dict_get_Cons)

lemma normalize_protocol_canonical: "p \<in> set protocols \<Longrightarrow> normalize_protocol p = Inr p"
proof -
  assume p: "p \<in> set protocols"
  have "dashed (str_strip p) = p"
    using protocols_stripped p by (metis list.map_ident map_eq_conv)
  moreover have "dict_get normalized_protocol_aliases p \<in> {None, Some p}"
    using protocols_not_aliased p by (auto simp add: list_all_iff)
  ultimately show ?thesis using p by (auto simp: normalize_protocol_def Let_def split: option.splits)
qed

lemma capabilities_keyed:
  "map (\<lambda>c. (alnum_key (str_strip c), c)) capabilities = capability_by_key"
  by (simp add: capability_by_key_eval capabilities_def alnum_key_def str_lower_def char_is_alnum_def
      str_strip_def str_lstrip_def)

lemma capability_keys_distinct: "distinct (map fst capability_by_key)"
  by (simp add: capability_by_key_eval)

lemma normalize_capability_canonical: "c \<in> set capabilities \<Longrightarrow> normalize_capability c = Inr c"
proof -
  assume "c \<in> set capabilities"
  then have "(alnum_key (str_strip c), c) \<in> set capability_by_key"
    by (simp add: capabilities_keyed [symmetric])
  then show ?thesis
    using capability_keys_distinct by (simp add: normalize_capability_def dict_get_def)
qed

lemma default_capabilities_known:
  "list_all (\<lambda>p. case dict_get default_capability_table p of None \<Rightarrow> False
     | Some cs \<Rightarrow> cs \<noteq> [] \<and> list_all (\<lambda>c. c \<in> set capabilities) cs) protocols"
  by (simp add: protocols_def default_capability_table_def dict_get_Cons capabilities_def)

lemma default_capability_table_known: "p \<in> set protocols \<Longrightarrow>
    \<exists>cs. dict_get default_capability_table p = Some cs \<and> cs \<noteq> [] \<and> set cs \<subseteq> set capabilities"
  using default_capabilities_known
  by (fastforce simp: list_all_iff split: option.splits)

text \<open>Every accepted protocol name or alias maps to a canonical protocol, which
  normalisation then leaves alone and which has a non-empty set of default capabilities, each of
  them a canonical capability name that normalisation leaves alone.\<close>

theorem protocol_names_canonical:
  assumes "normalize_protocol v = Inr p"
  shows "p \<in> set protocols \<and> normalize_protocol p = Inr p \<and>
    (\<exists>caps. default_capabilities v = Inr caps \<and> default_capabilities p = Inr caps \<and> caps \<noteq> {} \<and>
       (\<forall>c \<in> caps. c \<in> set capabilities \<and> normalize_capability c = Inr c))"
proof -
  have p: "p \<in> set protocols"
    using assms by (auto simp: normalize_protocol_def Let_def split: if_splits)
  note canon = normalize_protocol_canonical [OF p]
  obtain cs where cs: "dict_get default_capability_table p = Some cs" "cs \<noteq> []" "set cs \<subseteq> set capabilities"
    using default_capability_table_known [OF p] by blast
  have "default_capabilities v = Inr (set cs)" "default_capabilities p = Inr (set cs)"
    using assms canon cs(1) by (simp_all add: default_capabilities_def)
  moreover have "\<forall>c \<in> set cs. c \<in> set capabilities \<and> normalize_capability c = Inr c"
    using cs(3) normalize_capability_canonical by blast
  ultimately show ?thesis using p canon cs(2) by (auto intro!: exI [of _ "set cs"])
qed

theorem protocol_names_canonical_witness:
  "normalize_protocol '' FeatureServer '' = Inr ''geoservices-feature-service'' \<and>
   normalize_protocol ''geoservices-feature-service'' = Inr ''geoservices-feature-service''"
proof -
  have "normalize_protocol '' FeatureServer '' = Inr ''geoservices-feature-service''"
    by (simp add: normalize_protocol_def normalized_protocol_aliases_eval dashed_def str_replace_char_def
        str_lower_def str_strip_def str_lstrip_def dict_get_Cons protocols_def Let_def)
  then show ?thesis using protocol_names_canonical by blast
qed

end
