(* ===== verification/Features.thy ===== *)
theory Features
  imports Geoservices_Query Protocols
begin

text \<open>
  \<open>models/_features.py\<close>: the feature models and their readers. A dataclass is a record; a
  spatial filter is the value of its geometry slot together with its mapping, so that a
  geometry object with \<open>__geo_interface__\<close> is representable. The Shapely bridge is third-party
  and not modelled.
\<close>

section \<open>Features\<close>

record feature =
  ft_attributes :: "(string, pyval) pydict"
  ft_geometry :: "(string, pyval) pydict option"
  ft_raw :: "(string, pyval) pydict"

definition dict_or_empty :: "pyval \<Rightarrow> (string, pyval) pydict" where
  "dict_or_empty v = (case as_dict v of None \<Rightarrow> [] | Some d \<Rightarrow> d)"

definition feature_from_dict :: "(string, pyval) pydict \<Rightarrow> feature" where
  "feature_from_dict payload =
     \<lparr>ft_attributes = dict_or_empty (get_or_none payload ''attributes''),
      ft_geometry = as_dict (get_or_none payload ''geometry''),
      ft_raw = payload\<rparr>"

text \<open>The first id attribute that is present and not \<open>None\<close>, read with \<open>int(value)\<close>.\<close>

definition object_id :: "feature \<Rightarrow> py_error + int option" where
  "object_id f =
     (let v = first_value (ft_attributes f) [''objectid'', ''objectId'', ''OBJECTID'']
      in if v = PNone then Inr None else bindE (to_int v) (\<lambda>i. Inr (Some i)))"

record feature_set =
  fs_features :: "feature list"
  fs_fields :: "(string, pyval) pydict list"
  fs_geometry_type :: "string option"
  fs_spatial_reference :: "(string, pyval) pydict option"
  fs_exceeded :: bool
  fs_raw :: "(string, pyval) pydict"

text \<open>The mappings among the items of \<open>value or []\<close>.\<close>

definition mappings_of :: "pyval \<Rightarrow> py_error + (string, pyval) pydict list" where
  "mappings_of v = bindE (if truthy v then py_iter v else Inr []) (\<lambda>items. Inr (List.map_filter as_dict items))"

definition optional_str :: "pyval \<Rightarrow> string option" where
  "optional_str v = (if v = PNone then None else Some (py_str v))"

definition feature_set_from_dict :: "(string, pyval) pydict \<Rightarrow> py_error + feature_set" where
  "feature_set_from_dict payload =
     bindE (mappings_of (get_or_none payload ''features'')) (\<lambda>fs.
     bindE (mappings_of (get_or_none payload ''fields'')) (\<lambda>flds.
       Inr \<lparr>fs_features = map feature_from_dict fs, fs_fields = flds,
            fs_geometry_type = optional_str (get_or_none payload ''geometryType''),
            fs_spatial_reference = as_dict (get_or_none payload ''spatialReference''),
            fs_exceeded = truthy (get_or_none payload ''exceededTransferLimit''),
            fs_raw = payload\<rparr>))"

section \<open>Queries and their results\<close>

type_synonym spatial_filter = "geometry_input \<times> (string, pyval) pydict"

record feature_query =
  fq_source :: string
  fq_protocol :: string
  fq_layer_id :: "int option"
  fq_where :: "string option"
  fq_filter :: "string option"
  fq_bbox :: "text_or_seq option"
  fq_spatial_filter :: "spatial_filter option"
  fq_fields :: "text_or_seq option"
  fq_return_geometry :: bool
  fq_out_statistics :: "(string, pyval) pydict list option"
  fq_group_by :: "text_or_seq option"
  fq_return_distinct_values :: bool
  fq_return_count_only :: bool
  fq_page_size :: "int option"
  fq_limit :: "int option"
  fq_max_pages :: "int option"
  fq_extra_params :: "(string, pyval) pydict"

record query_feature =
  qf_id :: pyval
  qf_properties :: "(string, pyval) pydict"
  qf_geometry :: "(string, pyval) pydict option"
  qf_protocol :: string
  qf_source :: string
  qf_raw :: "(string, pyval) pydict"

end
