(* ===== verification/Query.thy ===== *)
theory Query
  imports Features
begin

text \<open>
  \<open>_query.py\<close>: resolving a query and its per-call arguments, the request parameters of each
  protocol, the conversion of protocol items to query features, and the pagination signals.
\<close>

section \<open>Resolving a query\<close>

text \<open>The keyword arguments of one call; \<open>None\<close> is an argument that was not given.\<close>

record query_args =
  qa_protocol :: "string option"
  qa_layer_id :: "int option"
  qa_where :: "string option"
  qa_filter :: "string option"
  qa_bbox :: "text_or_seq option"
  qa_spatial_filter :: "spatial_filter option"
  qa_fields :: "text_or_seq option"
  qa_return_geometry :: "bool option"
  qa_out_statistics :: "(string, pyval) pydict list option"
  qa_group_by :: "text_or_seq option"
  qa_return_distinct_values :: "bool option"
  qa_return_count_only :: "bool option"
  qa_page_size :: "int option"
  qa_limit :: "int option"
  qa_max_pages :: "int option"
  qa_extra_params :: "(string, pyval) pydict option"

datatype query_source = SourceId string | PreBuilt feature_query

definition query_protocol_aliases :: "(string \<times> string) list" where
  "query_protocol_aliases = [(''geoservices-feature-service'', ''feature-server''),
     (''ogc-features'', ''ogc-features''), (''stac'', ''stac''), (''odata'', ''odata'')]"

definition normalize_query_protocol :: "string \<Rightarrow> py_error + string" where
  "normalize_query_protocol value = bindE (normalize_protocol value) (\<lambda>p.
     case dict_get query_protocol_aliases p of None \<Rightarrow> Inl ErrValue | Some q \<Rightarrow> Inr q)"

definition given :: "'a option \<Rightarrow> 'a option \<Rightarrow> 'a option" where
  "given arg dflt = (case arg of None \<Rightarrow> dflt | Some v \<Rightarrow> Some v)"

definition given_or :: "'a option \<Rightarrow> 'a \<Rightarrow> 'a" where
  "given_or arg dflt = (case arg of None \<Rightarrow> dflt | Some v \<Rightarrow> v)"

definition merge_prebuilt :: "feature_query \<Rightarrow> query_args \<Rightarrow> feature_query" where
  "merge_prebuilt q a = q
    \<lparr>fq_protocol := given_or (qa_protocol a) (fq_protocol q),
     fq_layer_id := given (qa_layer_id a) (fq_layer_id q),
     fq_where := given (qa_where a) (fq_where q),
     fq_filter := given (qa_filter a) (fq_filter q),
     fq_bbox := given (qa_bbox a) (fq_bbox q),
     fq_spatial_filter := given (qa_spatial_filter a) (fq_spatial_filter q),
     fq_fields := given (qa_fields a) (fq_fields q),
     fq_return_geometry := given_or (qa_return_geometry a) (fq_return_geometry q),
     fq_out_statistics := given (qa_out_statistics a) (fq_out_statistics q),
     fq_group_by := given (qa_group_by a) (fq_group_by q),
     fq_return_distinct_values := given_or (qa_return_distinct_values a) (fq_return_distinct_values q),
     fq_return_count_only := given_or (qa_return_count_only a) (fq_return_count_only q),
     fq_page_size := given (qa_page_size a) (fq_page_size q),
     fq_limit := given (qa_limit a) (fq_limit q),
     fq_max_pages := fq_max_pages q,
     fq_extra_params := dict_update (fq_extra_params q) (given_or (qa_extra_params a) [])\<rparr>"

definition resolve_feature_query :: "query_source \<Rightarrow> query_args \<Rightarrow> py_error + feature_query" where
  "resolve_feature_query source a = (case source of
     PreBuilt q \<Rightarrow> Inr (merge_prebuilt q a)
   | SourceId s \<Rightarrow>
       (let protocol = (case qa_protocol a of None \<Rightarrow> ''feature-server''
                        | Some p \<Rightarrow> if p = [] then ''feature-server'' else p)
        in bindE (if qa_layer_id a = None
                  then bindE (normalize_query_protocol protocol)
                         (\<lambda>p. Inr (if p = ''feature-server'' then Some 0 else None))
                  else Inr (qa_layer_id a)) (\<lambda>layer.
           Inr \<lparr>fq_source = s, fq_protocol = protocol, fq_layer_id = layer,
                fq_where = qa_where a, fq_filter = qa_filter a, fq_bbox = qa_bbox a,
                fq_spatial_filter = qa_spatial_filter a, fq_fields = qa_fields a,
                fq_return_geometry = given_or (qa_return_geometry a) True,
                fq_out_statistics = qa_out_statistics a, fq_group_by = qa_group_by a,
                fq_return_distinct_values = given_or (qa_return_distinct_values a) False,
                fq_return_count_only = given_or (qa_return_count_only a) False,
                fq_page_size = qa_page_size a, fq_limit = qa_limit a, fq_max_pages = qa_max_pages a,
                fq_extra_params = given_or (qa_extra_params a) []\<rparr>)))"

section \<open>Request parameters\<close>

definition field_list :: "text_or_seq option \<Rightarrow> string option \<Rightarrow> text_or_seq option" where
  "field_list v wildcard = (case v of
     None \<Rightarrow> map_option OneText wildcard
   | Some (OneText s) \<Rightarrow> if s = ''*'' \<and> wildcard = None then None else Some (OneText s)
   | Some (ManyValues vs) \<Rightarrow>
       (let names = map py_str vs in
        if names = [''*''] \<and> wildcard = None then None else Some (ManyValues (map PStr names))))"

definition field_text :: "text_or_seq option \<Rightarrow> string option \<Rightarrow> string option" where
  "field_text v wildcard = map_option joined_text (field_list v wildcard)"

definition bbox_text :: "text_or_seq option \<Rightarrow> string option" where
  "bbox_text v = map_option joined_text v"

definition bbox_parts :: "text_or_seq \<Rightarrow> pyval list" where
  "bbox_parts v = (case v of OneText s \<Rightarrow> map PStr (str_split_char CHR '','' s) | ManyValues vs \<Rightarrow> vs)"

definition bbox_values :: "text_or_seq \<Rightarrow> py_error + double list" where
  "bbox_values v = (if length (bbox_parts v) \<noteq> 4 then Inl ErrValue else mapE to_double (bbox_parts v))"

definition bbox_params :: "text_or_seq \<Rightarrow> py_error + (string, pyval) pydict" where
  "bbox_params v =
     bindE (bbox_values v) (\<lambda>b.
     bindE (json_dumps (PDict [(''xmin'', PFloat (b ! 0)), (''ymin'', PFloat (b ! 1)), (''xmax'', PFloat (b ! 2)),
                               (''ymax'', PFloat (b ! 3)), (''spatialReference'', PDict [(''wkid'', PInt 4326)])])) (\<lambda>t.
     Inr [(''geometry'', PStr t), (''geometryType'', PStr ''esriGeometryEnvelope''),
          (''spatialRel'', PStr ''esriSpatialRelIntersects''), (''inSR'', PInt 4326)]))"

definition feature_server_extra_params :: "feature_query \<Rightarrow> py_error + (string, pyval) pydict" where
  "feature_server_extra_params q =
     bindE (case fq_spatial_filter q of
              Some (g, sf) \<Rightarrow> spatial_filter_params g sf
            | None \<Rightarrow> (case fq_bbox q of Some b \<Rightarrow> bbox_params b | None \<Rightarrow> Inr [])) (\<lambda>spatial.
     bindE (statistics_params (fq_out_statistics q) (fq_group_by q)
              (fq_return_distinct_values q) (fq_return_count_only q)) (\<lambda>stats.
     Inr (put_all dict_setdefault (put_all dict_setdefault (fq_extra_params q) spatial) stats)))"

definition odata_layer_id :: "feature_query \<Rightarrow> int option" where
  "odata_layer_id q = (case fq_layer_id q of Some i \<Rightarrow> Some i | None \<Rightarrow> py_int_text (fq_source q))"

definition query_filter :: "feature_query \<Rightarrow> string option" where
  "query_filter q = (case fq_filter q of Some f \<Rightarrow> Some f | None \<Rightarrow> fq_where q)"

definition query_page_size :: "feature_query \<Rightarrow> int \<Rightarrow> int" where
  "query_page_size q dflt = given_or (fq_page_size q) dflt"

definition query_max_pages :: "feature_query \<Rightarrow> int \<Rightarrow> int" where
  "query_max_pages q dflt = given_or (fq_max_pages q) dflt"

section \<open>Query features\<close>

definition query_feature_from_feature_server :: "string \<Rightarrow> string \<Rightarrow> feature \<Rightarrow> py_error + query_feature" where
  "query_feature_from_feature_server source protocol f =
     bindE (object_id f) (\<lambda>oid. Inr
       \<lparr>qf_id = (case oid of None \<Rightarrow> PNone | Some i \<Rightarrow> PInt i), qf_properties = ft_attributes f,
        qf_geometry = ft_geometry f, qf_protocol = protocol, qf_source = source, qf_raw = ft_raw f\<rparr>)"

definition id_keys :: "string list" where
  "id_keys = [''id'', ''ID'', ''objectid'', ''objectId'', ''ObjectId'']"

definition query_feature_from_geojson :: "string \<Rightarrow> string \<Rightarrow> (string, pyval) pydict \<Rightarrow> query_feature" where
  "query_feature_from_geojson source protocol f =
     \<lparr>qf_id = first_value f id_keys, qf_properties = dict_or_empty (get_or_none f ''properties''),
      qf_geometry = as_dict (get_or_none f ''geometry''), qf_protocol = protocol, qf_source = source, qf_raw = f\<rparr>"

definition geometry_keys :: "string list" where
  "geometry_keys = [''geometry'', ''Geometry'', ''shape'', ''Shape'']"

definition query_feature_from_mapping :: "string \<Rightarrow> string \<Rightarrow> (string, pyval) pydict \<Rightarrow> query_feature" where
  "query_feature_from_mapping source protocol f =
     \<lparr>qf_id = first_value f id_keys, qf_properties = foldl dict_pop f geometry_keys,
      qf_geometry = as_dict (first_value f geometry_keys), qf_protocol = protocol, qf_source = source, qf_raw = f\<rparr>"

section \<open>Pagination signals\<close>

definition coerce_total_count :: "pyval \<Rightarrow> int option" where
  "coerce_total_count v = (case v of
     PInt i \<Rightarrow> Some i
   | PFloat w \<Rightarrow> (case float_of_double w of
        FFinite x \<Rightarrow> if of_int \<lfloor>x\<rfloor> = x then Some \<lfloor>x\<rfloor> else None | _ \<Rightarrow> None)
   | PStr s \<Rightarrow> if str_isdigit s then Some (int (digits_value s)) else None
   | _ \<Rightarrow> None)"

definition is_next_rel :: "pyval \<Rightarrow> bool" where
  "is_next_rel link = (case as_dict link of None \<Rightarrow> False
     | Some d \<Rightarrow> str_lower (py_str (case dict_get d ''rel'' of None \<Rightarrow> PStr [] | Some r \<Rightarrow> r)) = ''next'')"

definition has_next_link :: "(string, pyval) pydict \<Rightarrow> bool" where
  "has_next_link payload = (case get_or_none payload ''links'' of
     PList links \<Rightarrow> list_ex is_next_rel links | _ \<Rightarrow> False)"

definition ogc_pagination_signals :: "(string, pyval) pydict option \<Rightarrow> int option \<times> bool" where
  "ogc_pagination_signals page = (case page of None \<Rightarrow> (None, False)
     | Some p \<Rightarrow> (coerce_total_count (get_or_none p ''numberMatched''), has_next_link p))"

definition odata_pagination_signals :: "(string, pyval) pydict option \<Rightarrow> int option \<times> bool" where
  "odata_pagination_signals page = (case page of None \<Rightarrow> (None, False)
     | Some p \<Rightarrow> (coerce_total_count (get_or_none p ''@odata.count''), truthy (get_or_none p ''@odata.nextLink'')))"

definition mappings_in_list :: "pyval \<Rightarrow> (string, pyval) pydict list" where
  "mappings_in_list v = (case v of PList items \<Rightarrow> List.map_filter as_dict items | _ \<Rightarrow> [])"

definition odata_features_from_page :: "(string, pyval) pydict \<Rightarrow> (string, pyval) pydict list" where
  "odata_features_from_page page = mappings_in_list (get_or_none page ''value'')"

definition features_from_geojson_page :: "(string, pyval) pydict \<Rightarrow> (string, pyval) pydict list" where
  "features_from_geojson_page page = mappings_in_list (get_or_none page ''features'')"

section \<open>Precedence of request parameters\<close>

lemma statistics_params_keys: "statistics_params os g d c = Inr ps \<Longrightarrow>
    set (dict_keys ps) \<subseteq> {''outStatistics'', ''groupByFieldsForStatistics'', ''returnDistinctValues'', ''returnCountOnly''}"
  by (auto simp: statistics_params_def bindE_eq_Inr dict_keys_def split: option.splits list.splits if_splits)

lemma dict_get_None_keys: "k \<notin> set (dict_keys d) \<Longrightarrow> dict_get d k = None"
  by (simp add: dict_get_def dict_keys_def map_of_eq_None_iff)

text \<open>FeatureServer parameters: what the caller put in \<open>extra_params\<close> is never overwritten,
  a spatial filter makes the bbox irrelevant, and without either no geometry is sent unless the
  caller asked for one.\<close>

theorem feature_server_params_precedence:
  assumes "feature_server_extra_params q = Inr params"
  shows "(\<forall>k v. dict_get (fq_extra_params q) k = Some v \<longrightarrow> dict_get params k = Some v) \<and>
    (fq_spatial_filter q \<noteq> None \<longrightarrow> feature_server_extra_params (q\<lparr>fq_bbox := b\<rparr>) = Inr params) \<and>
    (fq_spatial_filter q = None \<and> fq_bbox q = None \<longrightarrow>
       dict_get params ''geometry'' = dict_get (fq_extra_params q) ''geometry'')"
proof -
  obtain spatial stats where p:
    "(case fq_spatial_filter q of Some (g, sf) \<Rightarrow> spatial_filter_params g sf
       | None \<Rightarrow> (case fq_bbox q of Some b \<Rightarrow> bbox_params b | None \<Rightarrow> Inr [])) = Inr spatial"
    "statistics_params (fq_out_statistics q) (fq_group_by q) (fq_return_distinct_values q) (fq_return_count_only q) = Inr stats"
    "params = put_all dict_setdefault (put_all dict_setdefault (fq_extra_params q) spatial) stats"
    using assms unfolding feature_server_extra_params_def by (auto simp: bindE_eq_Inr)
  have "dict_get params k = Some v" if "dict_get (fq_extra_params q) k = Some v" for k v
    unfolding p(3) by (intro pd.look_setdef_all_keeps that)
  moreover have "feature_server_extra_params (q\<lparr>fq_bbox := b\<rparr>) = Inr params" if "fq_spatial_filter q \<noteq> None"
    using that assms by (auto simp: feature_server_extra_params_def)
  moreover have "dict_get params ''geometry'' = dict_get (fq_extra_params q) ''geometry''"
    if "fq_spatial_filter q = None" "fq_bbox q = None"
  proof -
    have "spatial = []" using that p(1) by simp
    moreover have "dict_get stats ''geometry'' = None"
      by (rule dict_get_None_keys) (use statistics_params_keys [OF p(2)] in auto)
    ultimately show ?thesis by (simp add: p(3) pd.look_setdef_all dict_get_def [of stats] split: option.splits)
  qed
  ultimately show ?thesis by blast
qed

definition no_args :: query_args where
  "no_args = \<lparr>qa_protocol = None, qa_layer_id = None, qa_where = None, qa_filter = None, qa_bbox = None,
     qa_spatial_filter = None, qa_fields = None, qa_return_geometry = None, qa_out_statistics = None,
     qa_group_by = None, qa_return_distinct_values = None, qa_return_count_only = None, qa_page_size = None,
     qa_limit = None, qa_max_pages = None, qa_extra_params = None\<rparr>"

definition sample_query :: feature_query where
  "sample_query = \<lparr>fq_source = ''parcels'', fq_protocol = ''feature-server'', fq_layer_id = Some 0,
     fq_where = None, fq_filter = None, fq_bbox = None, fq_spatial_filter = None, fq_fields = None,
     fq_return_geometry = True, fq_out_statistics = None, fq_group_by = Some (OneText ''kind''),
     fq_return_distinct_values = True, fq_return_count_only = False, fq_page_size = None, fq_limit = None,
     fq_max_pages = Some 3, fq_extra_params = [(''inSR'', PInt 3857)]\<rparr>"

theorem feature_server_params_precedence_witness:
  "\<exists>params. feature_server_extra_params sample_query = Inr params \<and>
     dict_get params ''inSR'' = Some (PInt 3857) \<and> dict_get params ''geometry'' = None"
proof -
  have p: "feature_server_extra_params sample_query = Inr
     [(''inSR'', PInt 3857), (''groupByFieldsForStatistics'', PStr ''kind''), (''returnDistinctValues'', PStr ''true'')]"
    by (simp add: feature_server_extra_params_def sample_query_def statistics_params_def joined_text_def
       dict_setdefault_def dict_get_Cons dict_set_def)
  have "fq_spatial_filter sample_query = None" "fq_bbox sample_query = None"
    "dict_get (fq_extra_params sample_query) ''geometry'' = None"
    "dict_get (fq_extra_params sample_query) ''inSR'' = Some (PInt 3857)"
    by (simp_all add: sample_query_def dict_get_Cons)
  with feature_server_params_precedence [OF p] p show ?thesis by auto
qed

section \<open>Resolving is idempotent\<close>

lemma dict_set_same: "dict_get d k = Some v \<Longrightarrow> dict_set d k v = d"
  unfolding dict_get_def dict_set_def by (induction d) (auto split: if_splits)

lemma dict_update_absorb:
  assumes "\<forall>(k, v) \<in> set e. dict_get d k = Some v" shows "dict_update d e = d"
  using assms
proof (induction e)
  case (Cons kv e)
  then show ?case by (cases kv) (auto simp: dict_update_def dict_set_same)
qed (simp add: dict_update_def)

lemma dict_update_idem: "dict_wf e \<Longrightarrow> dict_update (dict_update d e) e = dict_update d e"
proof (rule dict_update_absorb)
  assume e: "dict_wf e"
  then have "dict_get e k = Some v" if "(k, v) \<in> set e" for k v
    using that by (simp add: dict_get_def dict_wf_def)
  then show "\<forall>(k, v) \<in> set e. dict_get (dict_update d e) k = Some v"
    by (auto simp: dict_get_update_wf [OF e])
qed

text \<open>A pre-built query keeps its source and its page cap whatever the call passes; applying
  the same call arguments again, or none, changes nothing.\<close>

theorem resolve_prebuilt_idempotent:
  assumes "resolve_feature_query (PreBuilt q) a = Inr q'" "dict_wf (given_or (qa_extra_params a) [])"
  shows "fq_max_pages q' = fq_max_pages q \<and> fq_source q' = fq_source q \<and>
    resolve_feature_query (PreBuilt q') a = Inr q' \<and> resolve_feature_query (PreBuilt q') no_args = Inr q'"
proof -
  have q': "q' = merge_prebuilt q a" using assms(1) by (simp add: resolve_feature_query_def)
  have "merge_prebuilt q' a = q'" unfolding q' merge_prebuilt_def
    using dict_update_idem [OF assms(2)]
    by (simp add: given_def given_or_def split: option.splits)
  moreover have "merge_prebuilt q' no_args = q'"
    by (simp add: merge_prebuilt_def no_args_def given_def given_or_def dict_update_def)
  ultimately show ?thesis by (simp add: resolve_feature_query_def) (simp add: q' merge_prebuilt_def)
qed

theorem resolve_prebuilt_idempotent_witness:
  "\<exists>q'. resolve_feature_query (PreBuilt sample_query) (no_args\<lparr>qa_max_pages := Some 9, qa_limit := Some 4\<rparr>) = Inr q' \<and>
     fq_max_pages q' = Some 3 \<and> fq_limit q' = Some 4"
proof -
  define q' where "q' = merge_prebuilt sample_query (no_args\<lparr>qa_max_pages := Some 9, qa_limit := Some 4\<rparr>)"
  have r: "resolve_feature_query (PreBuilt sample_query) (no_args\<lparr>qa_max_pages := Some 9, qa_limit := Some 4\<rparr>) = Inr q'"
    by (simp add: q'_def resolve_feature_query_def)
  from resolve_prebuilt_idempotent [OF this] have "fq_max_pages q' = Some 3"
    by (simp add: no_args_def given_or_def sample_query_def)
  with r show ?thesis by (simp add: q'_def merge_prebuilt_def given_def)
qed

end
