(* ===== verification/Paging.thy ===== *)
theory Paging
  imports Features "HOL-Library.Char_ord" "HOL-Library.List_Lexorder"
begin

text \<open>
  The pagination generators: \<open>protocols/_base.py\<close> (limits, page indices, continuation links),
  \<open>odata._odata_pages\<close>, \<open>stac.item_pages\<close>, \<open>stac.search_pages\<close>, \<open>ogc.items_pages\<close> and
  \<open>geoservices.query_pages\<close>.

  A generator is a pair of functions on its local variables (the walk state): the request of
  the next loop turn (\<open>None\<close> when the loop ends before asking) and the turn's remainder after
  the page arrived (whether the page is yielded, and the next state or the end). \<open>walk\<close> runs
  them against the client, a function \<open>fetch\<close> of the request and the world; its fuel bounds
  the number of turns, since an uncapped walk stops only when the server lets it.
\<close>

type_synonym page = "(string, pyval) pydict"

section \<open>Limits and links\<close>

definition normalize_page_limit :: "int option \<Rightarrow> int option \<Rightarrow> int" where
  "normalize_page_limit page_size limit =
     (case page_size of Some p \<Rightarrow> if p > 0 then p
        else (case limit of Some l \<Rightarrow> if l > 0 then l else 100 | None \<Rightarrow> 100)
      | None \<Rightarrow> (case limit of Some l \<Rightarrow> if l > 0 then l else 100 | None \<Rightarrow> 100))"

definition normalize_total_limit :: "int option \<Rightarrow> int option" where
  "normalize_total_limit limit = map_option (\<lambda>l. max 0 l) limit"

text \<open>Whether \<open>_iter_page_indices\<close> yields the index \<open>i\<close>, after all smaller ones.\<close>

definition page_index_allowed :: "int option \<Rightarrow> nat \<Rightarrow> bool" where
  "page_index_allowed max_pages i \<longleftrightarrow> (case max_pages of None \<Rightarrow> True | Some n \<Rightarrow> int i < n)"

definition sequence_items :: "pyval \<Rightarrow> pyval list option" where
  "sequence_items v = (case v of PList xs \<Rightarrow> Some xs | PTuple xs \<Rightarrow> Some xs
     | PBytes b \<Rightarrow> Some (map (\<lambda>w. PInt (uint w)) b) | _ \<Rightarrow> None)"

definition next_rel_link :: "pyval \<Rightarrow> page option" where
  "next_rel_link link = (case as_dict link of
     Some d \<Rightarrow> if get_or_none d ''rel'' = PStr ''next'' \<and> is_str (get_or_none d ''href'') then Some d else None
   | None \<Rightarrow> None)"

fun first_next_rel :: "pyval list \<Rightarrow> page option" where
  "first_next_rel [] = None"
| "first_next_rel (l # ls) = (case next_rel_link l of Some d \<Rightarrow> Some d | None \<Rightarrow> first_next_rel ls)"

definition next_link_object :: "page \<Rightarrow> page option" where
  "next_link_object response = (case sequence_items (get_or_none response ''links'') of
     None \<Rightarrow> None | Some links \<Rightarrow> first_next_rel links)"

definition link_href :: "page \<Rightarrow> string option" where
  "link_href link = as_str (get_or_none link ''href'')"

definition next_link :: "page \<Rightarrow> string option" where
  "next_link response =
     (let v = py_or (py_or (get_or_none response ''@odata.nextLink'') (get_or_none response ''nextLink''))
                (get_or_none response ''next'')
      in case v of PStr (c # cs) \<Rightarrow> Some (c # cs)
         | _ \<Rightarrow> Option.bind (next_link_object response) link_href)"

definition ogc_next_link :: "page \<Rightarrow> string option" where
  "ogc_next_link response = Option.bind (next_link_object response) link_href"

definition dicts_of :: "pyval \<Rightarrow> page list" where
  "dicts_of v = (case v of PList items \<Rightarrow> List.map_filter as_dict items | _ \<Rightarrow> [])"

definition values_from_page :: "page \<Rightarrow> page list" where
  "values_from_page response = dicts_of (get_or_none response ''value'')"

definition features_from_page :: "page \<Rightarrow> page list" where
  "features_from_page response = dicts_of (get_or_none response ''features'')"

section \<open>Running a generator\<close>

datatype 'e ending = Finished | FetchRaised 'e | CodeRaised py_error | OutOfFuel

type_synonym ('r, 'p, 'e, 'w) walk_run = "('r \<times> 'p \<times> bool) list \<times> 'e ending \<times> 'w"

fun walk :: "nat \<Rightarrow> ('s \<Rightarrow> 'r option) \<Rightarrow> ('s \<Rightarrow> 'p \<Rightarrow> py_error + bool \<times> 's option) \<Rightarrow>
    ('r \<Rightarrow> 'w \<Rightarrow> ('e + 'p) \<times> 'w) \<Rightarrow> 's \<Rightarrow> 'w \<Rightarrow> ('r, 'p, 'e, 'w) walk_run" where
  "walk 0 request receive fetch s w = ([], OutOfFuel, w)"
| "walk (Suc n) request receive fetch s w =
     (case request s of
        None \<Rightarrow> ([], Finished, w)
      | Some r \<Rightarrow>
         (case fetch r w of
            (Inl e, w') \<Rightarrow> ([], FetchRaised e, w')
          | (Inr p, w') \<Rightarrow>
             (case receive s p of
                Inl e \<Rightarrow> ([], CodeRaised e, w')
              | Inr (y, None) \<Rightarrow> ([(r, p, y)], Finished, w')
              | Inr (y, Some s') \<Rightarrow>
                 (let (t, e, w'') = walk n request receive fetch s' w' in ((r, p, y) # t, e, w'')))))"

definition pages_of :: "('r \<times> 'p \<times> bool) list \<Rightarrow> 'p list" where
  "pages_of t = map (\<lambda>(r, p, y). p) (filter (\<lambda>(r, p, y). y) t)"

text \<open>
  The consumers \<open>iter_items\<close>, \<open>iter_features\<close>, \<open>query_items\<close> and their siblings: emit the items
  of each page until \<open>limit\<close> items are out; a consumer that returns early never sees how the
  generator would have ended.
\<close>

fun emit_pages :: "int option \<Rightarrow> ('p \<Rightarrow> 'i list) \<Rightarrow> nat \<Rightarrow> 'p list \<Rightarrow> 'i list \<times> bool" where
  "emit_pages limit items_of emitted [] = ([], False)"
| "emit_pages limit items_of emitted (p # ps) =
     (let room = (case limit of None \<Rightarrow> length (items_of p) | Some l \<Rightarrow> nat (l - int emitted)) in
      if room < length (items_of p) then (take room (items_of p), True)
      else let (rest, stopped) = emit_pages limit items_of (emitted + length (items_of p)) ps
           in (items_of p @ rest, stopped))"

section \<open>Cursor and offset walks\<close>

record page_options =
  po_page_size :: "int option"
  po_limit :: "int option"
  po_max_pages :: "int option"

record walk_state =
  ws_index :: nat
  ws_fetched :: int
  ws_next :: "string option"
  ws_previous :: "string option"
  ws_url :: "string option"
  ws_offset :: int

text \<open>
  A request is the first-page request with its page limit and offset, or a continuation link
  with the URL it is resolved against.
\<close>

datatype page_request = OffsetPage int int | LinkedPage string "string option"

definition page_room :: "page_options \<Rightarrow> walk_state \<Rightarrow> int" where
  "page_room opts s =
     (let size = normalize_page_limit (po_page_size opts) (po_limit opts);
          remaining = (case normalize_total_limit (po_limit opts) of
             None \<Rightarrow> size | Some t \<Rightarrow> max 0 (t - ws_fetched s))
      in min size remaining)"

definition start_walk :: "page_options \<Rightarrow> int \<Rightarrow> string option \<Rightarrow> walk_state option" where
  "start_walk opts offset url =
     (if normalize_total_limit (po_limit opts) = Some 0 then None
      else Some \<lparr>ws_index = 0, ws_fetched = 0, ws_next = None, ws_previous = None, ws_url = url, ws_offset = offset\<rparr>)"

text \<open>
  One turn of \<open>_odata_pages\<close> and \<open>item_pages\<close>, which share their loop: \<open>next_page_request\<close> up
  to the call of the client, \<open>receive_page\<close> from there on. A page comes with the URL it was
  served from.
\<close>

definition next_page_request :: "page_options \<Rightarrow> walk_state \<Rightarrow> page_request option" where
  "next_page_request opts s =
     (if \<not> page_index_allowed (po_max_pages opts) (ws_index s) then None
      else if page_room opts s < 1 then None
      else Some (case ws_next s of
             Some href \<Rightarrow> LinkedPage href (ws_url s)
           | None \<Rightarrow> OffsetPage (page_room opts s) (ws_offset s)))"

definition receive_page ::
  "(page \<Rightarrow> page list) \<Rightarrow> page_options \<Rightarrow> walk_state \<Rightarrow> page \<times> string \<Rightarrow> py_error + bool \<times> walk_state option" where
  "receive_page items_of opts s = (\<lambda>(p, url).
     (let n = int (length (items_of p)); href = next_link p; followed = ws_next s \<noteq> None;
          s' = \<lparr>ws_index = Suc (ws_index s), ws_fetched = ws_fetched s + n, ws_next = href,
                ws_previous = href, ws_url = Some url, ws_offset = ws_offset s\<rparr>
      in if href \<noteq> None \<and> href = ws_previous s then Inr (True, None)
         else if href \<noteq> None then Inr (True, Some s')
         else if followed then Inr (True, None)
         else if n < page_room opts s then Inr (True, None)
         else Inr (True, Some (s'\<lparr>ws_offset := ws_offset s + n\<rparr>))))"

definition odata_receive :: "page_options \<Rightarrow> walk_state \<Rightarrow> page \<times> string \<Rightarrow> py_error + bool \<times> walk_state option" where
  "odata_receive = receive_page values_from_page"

definition stac_receive :: "page_options \<Rightarrow> walk_state \<Rightarrow> page \<times> string \<Rightarrow> py_error + bool \<times> walk_state option" where
  "stac_receive = receive_page features_from_page"

text \<open>\<open>ogc.items_pages\<close>: the offset is computed from the turn, and the checks come in another order.\<close>

definition normalize_offset :: "int option \<Rightarrow> int" where
  "normalize_offset offset = (case offset of None \<Rightarrow> 0 | Some k \<Rightarrow> max 0 k)"

definition ogc_page_request :: "page_options \<Rightarrow> walk_state \<Rightarrow> page_request option" where
  "ogc_page_request opts s =
     (if \<not> page_index_allowed (po_max_pages opts) (ws_index s) then None
      else if page_room opts s < 1 then None
      else Some (case ws_next s of
             Some href \<Rightarrow> LinkedPage href (ws_url s)
           | None \<Rightarrow> OffsetPage (page_room opts s)
               (ws_offset s + int (ws_index s) * normalize_page_limit (po_page_size opts) (po_limit opts))))"

definition ogc_receive :: "page_options \<Rightarrow> walk_state \<Rightarrow> page \<times> string \<Rightarrow> py_error + bool \<times> walk_state option" where
  "ogc_receive opts s = (\<lambda>(p, url).
     (let n = int (length (features_from_page p)); href = ogc_next_link p;
          s' = \<lparr>ws_index = Suc (ws_index s), ws_fetched = ws_fetched s + n, ws_next = href,
                ws_previous = href, ws_url = Some url, ws_offset = ws_offset s\<rparr>
      in if href = None \<and> n < page_room opts s then Inr (True, None)
         else if href \<noteq> None \<and> href = ws_previous s then Inr (True, None)
         else Inr (True, Some s')))"

section \<open>FeatureServer walks\<close>

record feature_walk =
  fw_index :: nat
  fw_total :: int
  fw_offset :: int
  fw_previous_ids :: "int list"

datatype feature_request = FeaturePage int int

definition start_feature_walk :: "page_options \<Rightarrow> int \<Rightarrow> int \<Rightarrow> py_error + feature_walk option" where
  "start_feature_walk opts page_size offset =
     (if page_size \<le> 0 then Inl ErrValue
      else if (case po_max_pages opts of None \<Rightarrow> False | Some m \<Rightarrow> m \<le> 0) then Inl ErrValue
      else if (case po_limit opts of None \<Rightarrow> False | Some l \<Rightarrow> l \<le> 0) then Inr None
      else Inr (Some \<lparr>fw_index = 0, fw_total = 0, fw_offset = offset, fw_previous_ids = []\<rparr>))"

definition feature_room :: "page_options \<Rightarrow> int \<Rightarrow> feature_walk \<Rightarrow> int" where
  "feature_room opts page_size s = (case po_limit opts of
     None \<Rightarrow> page_size | Some l \<Rightarrow> min page_size (l - fw_total s))"

definition feature_page_request :: "page_options \<Rightarrow> int \<Rightarrow> feature_walk \<Rightarrow> feature_request option" where
  "feature_page_request opts page_size s =
     (if \<not> page_index_allowed (po_max_pages opts) (fw_index s) then None
      else if (case po_limit opts of None \<Rightarrow> False | Some l \<Rightarrow> l - fw_total s \<le> 0) then None
      else Some (FeaturePage (fw_offset s) (feature_room opts page_size s)))"

definition feature_receive :: "feature_walk \<Rightarrow> page \<Rightarrow> py_error + bool \<times> feature_walk option" where
  "feature_receive s payload =
     bindE (feature_set_from_dict payload) (\<lambda>p.
     bindE (mapE object_id (fs_features p)) (\<lambda>oids.
       let ids = List.map_filter id oids; n = int (length (fs_features p)) in
       if ids \<noteq> [] \<and> set ids \<subseteq> set (fw_previous_ids s) then Inr (False, None)
       else if n = 0 \<or> \<not> fs_exceeded p then Inr (True, None)
       else Inr (True, Some \<lparr>fw_index = Suc (fw_index s), fw_total = fw_total s + n,
                             fw_offset = fw_offset s + n, fw_previous_ids = ids\<rparr>)))"

section \<open>STAC search walks\<close>

text \<open>
  \<open>json.dumps(body, sort_keys=True, default=str)\<close>, with the default separators; it never
  raises on a dynamic value.
\<close>

fun json_sorted :: "pyval \<Rightarrow> string" where
  "json_sorted PNone = ''null''"
| "json_sorted (PBool b) = (if b then ''true'' else ''false'')"
| "json_sorted (PInt i) = str_of_int i"
| "json_sorted (PFloat w) = json_float w"
| "json_sorted (PStr s) = json_string s"
| "json_sorted (PBytes b) = json_string (py_str (PBytes b))"
| "json_sorted (PList xs) = ''['' @ str_join '', '' (map json_sorted xs) @ '']''"
| "json_sorted (PTuple xs) = ''['' @ str_join '', '' (map json_sorted xs) @ '']''"
| "json_sorted (PDict d) = ''{'' @ str_join '', ''
     (map (\<lambda>(k, t). json_string k @ '': '' @ t) (sort_key fst (map (\<lambda>(k, v). (k, json_sorted v)) d))) @ ''}''"

definition link_verb :: "page \<Rightarrow> string" where
  "link_verb link = str_upper (py_str (case dict_get link ''method'' of None \<Rightarrow> PStr ''GET'' | Some m \<Rightarrow> m))"

definition next_link_signature :: "page option \<Rightarrow> string option \<Rightarrow> string option" where
  "next_link_signature link href = (case link of
     None \<Rightarrow> href
   | Some l \<Rightarrow>
       (let href_str = (case link_href l of Some h \<Rightarrow> h | None \<Rightarrow> (case href of None \<Rightarrow> [] | Some h \<Rightarrow> h));
            body = get_or_none l ''body'';
            body_sig = (if body = PNone then [] else json_sorted body)
        in Some (link_verb l @ '' '' @ href_str @ '' '' @ body_sig)))"

text \<open>
  The URL part of a continuation request is resolved by \<open>urllib\<close> from the link and the URL of the
  page that held it; a request keeps both.
\<close>

datatype search_request =
    SearchGet page
  | SearchPost page
  | SearchFollow string "string option"
  | SearchPostFollow string "string option" page

definition stac_post_next_body :: "page \<Rightarrow> page option \<Rightarrow> page" where
  "stac_post_next_body link original_body =
     (let link_body = dict_or_empty (get_or_none link ''body'')
      in case original_body of
           Some b \<Rightarrow> if truthy (get_or_none link ''merge'') then dict_update b link_body else link_body
         | None \<Rightarrow> link_body)"

definition given_params :: "page option \<Rightarrow> page" where
  "given_params params = (case params of None \<Rightarrow> [] | Some ps \<Rightarrow> ps)"

record search_walk =
  sw_state :: walk_state
  sw_link :: "page option"
  sw_signature :: "string option"

definition search_start_offset :: "page option \<Rightarrow> page option \<Rightarrow> py_error + int" where
  "search_start_offset params body =
     (let source = (case params of Some (x # xs) \<Rightarrow> x # xs | _ \<Rightarrow> (case body of Some b \<Rightarrow> b | None \<Rightarrow> []))
      in to_int (case dict_get source ''offset'' of None \<Rightarrow> PInt 0 | Some v \<Rightarrow> v))"

definition search_page_request :: "page option \<Rightarrow> page option \<Rightarrow> page_options \<Rightarrow> search_walk \<Rightarrow> search_request option" where
  "search_page_request params body opts sw =
     (let s = sw_state sw;
          paging = [(''limit'', PInt (page_room opts s)), (''offset'', PInt (ws_offset s))];
          plain = (case ws_next s of
             Some href \<Rightarrow> SearchFollow href (ws_url s)
           | None \<Rightarrow> (case body of
               Some b \<Rightarrow> SearchPost (dict_update b paging)
             | None \<Rightarrow> SearchGet (dict_update (given_params params) paging)))
      in if \<not> page_index_allowed (po_max_pages opts) (ws_index s) then None
         else if page_room opts s < 1 then None
         else Some (case sw_link sw of
             Some l \<Rightarrow>
               if link_verb l = ''POST''
               then SearchPostFollow (case link_href l of Some h \<Rightarrow> h | None \<Rightarrow> []) (ws_url s) (stac_post_next_body l body)
               else plain
           | None \<Rightarrow> plain))"

definition search_receive :: "page_options \<Rightarrow> search_walk \<Rightarrow> page \<times> string \<Rightarrow> py_error + bool \<times> search_walk option" where
  "search_receive opts sw = (\<lambda>(p, url).
     (let s = sw_state sw; n = int (length (features_from_page p));
          link = next_link_object p; href = next_link p; followed = ws_next s \<noteq> None;
          signature = next_link_signature link href;
          s' = \<lparr>ws_index = Suc (ws_index s), ws_fetched = ws_fetched s + n, ws_next = href,
                ws_previous = href, ws_url = Some url, ws_offset = ws_offset s\<rparr>
      in if signature \<noteq> None \<and> signature = sw_signature sw then Inr (True, None)
         else if href \<noteq> None then Inr (True, Some \<lparr>sw_state = s', sw_link = link, sw_signature = signature\<rparr>)
         else if followed then Inr (True, None)
         else if n < page_room opts s then Inr (True, None)
         else Inr (True, Some \<lparr>sw_state = s'\<lparr>ws_offset := ws_offset s + n\<rparr>, sw_link = link, sw_signature = signature\<rparr>)))"

section \<open>What every walker guarantees\<close>

text \<open>
  The interface of the loops: a request is only issued for an allowed index and every turn
  counts. A limited walker also counts what it fetched, and an offset request asks for no
  more than is left of the limit.
\<close>

locale page_walker =
  fixes request :: "'s \<Rightarrow> 'r option"
    and receive :: "'s \<Rightarrow> 'p \<Rightarrow> py_error + bool \<times> 's option"
    and index :: "'s \<Rightarrow> nat"
    and max_pages :: "int option"
  assumes request_allowed: "request s = Some r \<Longrightarrow> page_index_allowed max_pages (index s)"
    and receive_counts: "receive s p = Inr (y, Some s') \<Longrightarrow> index s' = Suc (index s)"
begin

lemma trace_bound:
  assumes "max_pages = Some n" "walk fuel request receive fetch s w = (t, e, w')"
  shows "length t \<le> nat (n - int (index s))"
  using assms(2)
proof (induction fuel arbitrary: s w t e w')
  case (Suc fuel)
  have allowed: "request s = Some r \<Longrightarrow> int (index s) < n" for r
    using request_allowed [of s r] assms(1) by (simp add: page_index_allowed_def)
  show ?case
    using Suc.prems Suc.IH allowed receive_counts
    by (fastforce split: option.splits prod.splits sum.splits simp: Let_def)
qed simp

lemma enough_fuel:
  assumes "max_pages = Some n" "nat (n - int (index s)) < fuel"
    and "walk fuel request receive fetch s w = (t, e, w')"
  shows "e \<noteq> OutOfFuel"
  using assms(2,3)
proof (induction fuel arbitrary: s w t e w')
  case (Suc fuel)
  have allowed: "request s = Some r \<Longrightarrow> int (index s) < n" for r
    using request_allowed [of s r] assms(1) by (simp add: page_index_allowed_def)
  show ?case
  proof (cases "request s")
    case (Some r)
    note lt = allowed [OF Some]
    have rec: "e' \<noteq> OutOfFuel" if "receive s p = Inr (y, Some s')"
      "walk fuel request receive fetch s' v = (t', e', v')" for p y s' v t' e' v'
      by (rule Suc.IH [OF _ that(2)]) (use receive_counts [OF that(1)] Suc.prems(1) lt in simp)
    show ?thesis using Suc.prems(2) Some rec
      by (auto split: prod.splits sum.splits option.splits simp: Let_def)
  qed (use Suc.prems in simp)
qed simp

end

locale limited_walker = page_walker request receive index max_pages
  for request :: "'s \<Rightarrow> 'r option" and receive :: "'s \<Rightarrow> 'p \<Rightarrow> py_error + bool \<times> 's option"
    and index :: "'s \<Rightarrow> nat" and max_pages :: "int option" +
  fixes ask :: "'r \<Rightarrow> int option"
    and size :: int
    and limit :: "int option"
    and fetched :: "'s \<Rightarrow> int"
    and count :: "'p \<Rightarrow> nat"
  assumes ask_bounds: "request s = Some r \<Longrightarrow> ask r = Some a \<Longrightarrow>
      1 \<le> a \<and> a \<le> size \<and> (\<forall>l. limit = Some l \<longrightarrow> a \<le> l - fetched s)"
    and receive_adds: "receive s p = Inr (y, Some s') \<Longrightarrow> fetched s' = fetched s + int (count p)"
begin

lemma asks_bounded:
  assumes "walk fuel request receive fetch s w = (t, e, w')" "i < length t" "ask (fst (t ! i)) = Some a"
  shows "1 \<le> a \<and> a \<le> size \<and>
    (\<forall>l. limit = Some l \<longrightarrow> a + fetched s + int (sum_list (map (\<lambda>(r, p, y). count p) (take i t))) \<le> l)"
  using assms
proof (induction fuel arbitrary: s w t e w' i)
  case (Suc fuel)
  obtain r where r: "request s = Some r" using Suc.prems by (cases "request s") auto
  obtain p v where p: "fetch r w = (Inr p, v)"
    using Suc.prems r by (cases "fetch r w"; cases "fst (fetch r w)") auto
  obtain y nxt where y: "receive s p = Inr (y, nxt)"
    using Suc.prems r p by (cases "receive s p") auto
  show ?case
  proof (cases i)
    case 0
    then have "fst (t ! 0) = r"
      using Suc.prems(1) r p y by (cases nxt) (auto split: prod.splits simp: Let_def)
    then show ?thesis using ask_bounds [OF r] Suc.prems(3) 0 by fastforce
  next
    case (Suc j)
    then obtain s' where s': "nxt = Some s'"
      using Suc.prems r p y by (cases nxt) auto
    obtain t' e' v' where w: "walk fuel request receive fetch s' v = (t', e', v')"
      by (cases "walk fuel request receive fetch s' v") auto
    have t: "t = (r, p, y) # t'" using Suc.prems(1) r p y s' w by simp
    have "j < length t'" "ask (fst (t' ! j)) = Some a" using Suc.prems(2,3) Suc t by auto
    from Suc.IH [OF w this] show ?thesis
      using receive_adds [OF y [unfolded s']] t Suc by fastforce
  qed
qed simp

end

definition asked :: "page_request \<Rightarrow> int option" where
  "asked r = (case r of OffsetPage l k \<Rightarrow> Some l | LinkedPage _ _ \<Rightarrow> None)"

lemma page_room_bounds: "1 \<le> page_room opts s \<Longrightarrow>
   page_room opts s \<le> normalize_page_limit (po_page_size opts) (po_limit opts) \<and>
   (\<forall>l. normalize_total_limit (po_limit opts) = Some l \<longrightarrow> page_room opts s \<le> l - ws_fetched s)"
  by (auto simp: page_room_def normalize_total_limit_def min_def max_def Let_def split: if_splits option.splits)

interpretation odata: limited_walker "next_page_request opts" "odata_receive opts" ws_index "po_max_pages opts"
  asked "normalize_page_limit (po_page_size opts) (po_limit opts)" "normalize_total_limit (po_limit opts)" ws_fetched
  "\<lambda>p. length (values_from_page (fst p))" for opts
  by unfold_locales
    (use page_room_bounds in \<open>fastforce simp: next_page_request_def odata_receive_def receive_page_def asked_def Let_def
      split: if_splits option.splits prod.splits\<close>)+


interpretation stac: limited_walker "next_page_request opts" "stac_receive opts" ws_index "po_max_pages opts"
  asked "normalize_page_limit (po_page_size opts) (po_limit opts)" "normalize_total_limit (po_limit opts)" ws_fetched
  "\<lambda>p. length (features_from_page (fst p))" for opts
  by unfold_locales
    (use page_room_bounds in \<open>fastforce simp: next_page_request_def stac_receive_def receive_page_def asked_def Let_def
      split: if_splits option.splits prod.splits\<close>)+

interpretation ogc: limited_walker "ogc_page_request opts" "ogc_receive opts" ws_index "po_max_pages opts"
  asked "normalize_page_limit (po_page_size opts) (po_limit opts)" "normalize_total_limit (po_limit opts)" ws_fetched
  "\<lambda>p. length (features_from_page (fst p))" for opts
  by unfold_locales
    (use page_room_bounds in \<open>fastforce simp: ogc_page_request_def ogc_receive_def asked_def Let_def
      split: if_splits option.splits prod.splits\<close>)+

interpretation search: page_walker "search_page_request params body opts" "search_receive opts"
  "\<lambda>sw. ws_index (sw_state sw)" "po_max_pages opts" for params body opts
  by unfold_locales
    (auto simp: search_page_request_def search_receive_def Let_def split: if_splits option.splits prod.splits)

definition feature_asked :: "feature_request \<Rightarrow> int option" where
  "feature_asked r = (case r of FeaturePage _ l \<Rightarrow> Some l)"

definition feature_count :: "page \<Rightarrow> nat" where
  "feature_count payload = (case feature_set_from_dict payload of Inl _ \<Rightarrow> 0 | Inr p \<Rightarrow> length (fs_features p))"

interpretation feat: limited_walker "feature_page_request opts (max 1 page_size)" feature_receive fw_index "po_max_pages opts"
  feature_asked "max 1 page_size" "po_limit opts" fw_total feature_count for opts page_size
  by unfold_locales
    (auto simp: feature_page_request_def feature_room_def feature_asked_def feature_receive_def feature_count_def
       bindE_eq_Inr Let_def split: if_splits option.splits)

text \<open>C8. Cursor and offset walks (OData, STAC items, OGC items) with a page cap \<open>n\<close> issue at most
  \<open>n\<close> requests and end; every offset request asks for at least one item and for no more than the
  page size or what is left of the limit after the pages already received.\<close>

theorem walks_are_bounded:
  assumes "po_max_pages opts = Some n" "start_walk opts offset url = Some s" "nat n < fuel"
    and "(request, receive, items_of) \<in>
      {(next_page_request opts, odata_receive opts, values_from_page),
       (next_page_request opts, stac_receive opts, features_from_page),
       (ogc_page_request opts, ogc_receive opts, features_from_page)}"
    and "walk fuel request receive fetch s w = (t, e, w')"
  shows "length t \<le> nat n \<and> e \<noteq> OutOfFuel \<and>
    (\<forall>i a. i < length t \<longrightarrow> asked (fst (t ! i)) = Some a \<longrightarrow>
       1 \<le> a \<and> a \<le> normalize_page_limit (po_page_size opts) (po_limit opts) \<and>
       (\<forall>l. po_limit opts = Some l \<longrightarrow>
          a + int (sum_list (map (\<lambda>(r, p, y). length (items_of (fst p))) (take i t))) \<le> l))"
proof -
  have s: "ws_index s = 0" "ws_fetched s = 0" and l: "po_limit opts = Some l \<Longrightarrow> 0 < l" for l
    using assms(2) by (auto simp: start_walk_def normalize_total_limit_def split: if_splits)
  have lim: "normalize_total_limit (po_limit opts) = po_limit opts"
    using l by (cases "po_limit opts") (auto simp: normalize_total_limit_def)
  have f: "nat (n - int (ws_index s)) < fuel" using assms(3) s by simp
  from assms(4) consider
      (od) "request = next_page_request opts" "receive = odata_receive opts" "items_of = values_from_page"
    | (st) "request = next_page_request opts" "receive = stac_receive opts" "items_of = features_from_page"
    | (og) "request = ogc_page_request opts" "receive = ogc_receive opts" "items_of = features_from_page"
    by auto
  then show ?thesis
  proof cases
    case od
    note w = assms(5) [unfolded od]
    show ?thesis
      using odata.trace_bound [OF assms(1) w] odata.enough_fuel [OF assms(1) f w] odata.asks_bounded [OF w]
      by (simp add: s od lim)
  next
    case st
    note w = assms(5) [unfolded st]
    show ?thesis
      using stac.trace_bound [OF assms(1) w] stac.enough_fuel [OF assms(1) f w] stac.asks_bounded [OF w]
      by (simp add: s st lim)
  next
    case og
    note w = assms(5) [unfolded og]
    show ?thesis
      using ogc.trace_bound [OF assms(1) w] ogc.enough_fuel [OF assms(1) f w] ogc.asks_bounded [OF w]
      by (simp add: s og lim)
  qed
qed

section \<open>Completeness against honest servers\<close>

text \<open>
  A server of \<open>items\<close> that pages with continuation links: a request for the position \<open>k\<close>
  returns a non-empty run of the items from there (as long a run as it likes), with a link to
  the position after it exactly when more remain. \<open>href\<close> names positions.
\<close>

definition honest_link_server ::
  "(page_request \<Rightarrow> 'w \<Rightarrow> ('e + page \<times> string) \<times> 'w) \<Rightarrow> (page \<Rightarrow> page list) \<Rightarrow> (nat \<Rightarrow> string) \<Rightarrow> page list \<Rightarrow> bool" where
  "honest_link_server fetch items_of href items \<longleftrightarrow> inj href \<and>
    (\<forall>r k w. (\<exists>l. 1 \<le> l \<and> r = OffsetPage l (int k)) \<or> (\<exists>u. r = LinkedPage (href k) u) \<longrightarrow>
       (\<exists>p url w' m. fetch r w = (Inr (p, url), w') \<and> 1 \<le> m \<and> items_of p = take m (drop k items) \<and>
          next_link p = (if k + m < length items then Some (href (k + m)) else None)))"

definition state_at :: "(nat \<Rightarrow> string) \<Rightarrow> nat \<Rightarrow> nat \<Rightarrow> walk_state \<Rightarrow> bool" where
  "state_at href len k s \<longleftrightarrow> ws_previous s = ws_next s \<and>
     (ws_next s = None \<and> ws_offset s = int k \<or> ws_next s = Some (href k) \<and> k < len)"

lemma pages_of_Nil [simp]: "pages_of [] = []"
  by (simp add: pages_of_def)

lemma pages_of_Cons [simp]: "pages_of ((r, p, y) # t) = (if y then p # pages_of t else pages_of t)"
  by (simp add: pages_of_def)

text \<open>What the pages of a finished walk hold: all items from the position, or enough of them.\<close>

definition covers :: "int option \<Rightarrow> 'i list \<Rightarrow> 'i list \<Rightarrow> bool" where
  "covers room got items \<longleftrightarrow> got = items \<or> (\<exists>l rest. room = Some l \<and> items = got @ rest \<and> l \<le> int (length got))"

lemma normalize_page_limit_pos [simp]: "0 < normalize_page_limit page_size limit"
  by (simp add: normalize_page_limit_def split: option.splits)

lemma page_room_exhausted:
  assumes "\<not> 1 \<le> page_room opts s" "\<And>l. po_limit opts = Some l \<Longrightarrow> 0 < l"
  shows "\<exists>l. po_limit opts = Some l \<and> l \<le> ws_fetched s"
proof (cases "po_limit opts")
  case None
  then show ?thesis using assms(1) normalize_page_limit_pos [of "po_page_size opts" None]
    by (simp add: page_room_def normalize_total_limit_def)
next
  case (Some l)
  have "1 \<le> normalize_page_limit (po_page_size opts) (Some l)"
    using normalize_page_limit_pos [of "po_page_size opts" "Some l"] by linarith
  then have "l \<le> ws_fetched s"
    using assms(1) assms(2) [OF Some]
    by (auto simp: Some page_room_def normalize_total_limit_def min_def max_def Let_def split: if_splits)
  with Some show ?thesis by blast
qed

lemma link_walk_step:
  assumes srv: "honest_link_server fetch items_of href items"
    and at: "state_at href (length items) k s" and cap: "po_max_pages opts = None" and room: "1 \<le> page_room opts s"
  obtains r p url w' m where "next_page_request opts s = Some r" "fetch r w = (Inr (p, url), w')"
    "1 \<le> m" "items_of p = take m (drop k items)"
    "(receive_page items_of opts s (p, url) = Inr (True, None) \<and> length items \<le> k + m) \<or>
     (\<exists>s'. receive_page items_of opts s (p, url) = Inr (True, Some s') \<and> k < length items \<and>
       state_at href (length items) (k + length (items_of p)) s' \<and> ws_fetched s' = ws_fetched s + int (length (items_of p)))"
proof -
  define r where "r = (case ws_next s of Some h \<Rightarrow> LinkedPage h (ws_url s) | None \<Rightarrow> OffsetPage (page_room opts s) (ws_offset s))"
  have req: "next_page_request opts s = Some r"
    using cap room by (simp add: next_page_request_def page_index_allowed_def r_def)
  have "(\<exists>l. 1 \<le> l \<and> r = OffsetPage l (int k)) \<or> (\<exists>u. r = LinkedPage (href k) u)"
    using at room by (auto simp: state_at_def r_def)
  then obtain p url w' m where p: "fetch r w = (Inr (p, url), w')" "1 \<le> m" "items_of p = take m (drop k items)"
    "next_link p = (if k + m < length items then Some (href (k + m)) else None)"
    using srv unfolding honest_link_server_def by blast
  have "inj href" using srv by (simp add: honest_link_server_def)
  then have inj: "href (k + m) \<noteq> href k" using p(2) by (simp add: inj_eq)
  show thesis
  proof (rule that [OF req p(1-3)], cases "k + m < length items")
    case True
    then have "next_link p = Some (href (k + m))" "length (items_of p) = m" using p(3,4) by auto
    moreover have "Some (href (k + m)) \<noteq> ws_previous s" using at inj by (auto simp: state_at_def)
    ultimately show "(receive_page items_of opts s (p, url) = Inr (True, None) \<and> length items \<le> k + m) \<or>
     (\<exists>s'. receive_page items_of opts s (p, url) = Inr (True, Some s') \<and> k < length items \<and>
       state_at href (length items) (k + length (items_of p)) s' \<and> ws_fetched s' = ws_fetched s + int (length (items_of p)))"
      using True by (simp add: receive_page_def Let_def state_at_def)
  next
    case False
    then have n: "next_link p = None" using p(4) by simp
    have "state_at href (length items) (k + length (items_of p)) s'"
      if "ws_next s' = None" "ws_previous s' = None" "ws_offset s' = ws_offset s + int (length (items_of p))" "ws_next s = None" for s'
      using that at by (auto simp: state_at_def)
    moreover have "k < length items" if "page_room opts s \<le> int (length (items_of p))"
      using that room p(3) by (cases "k < length items") auto
    ultimately show "(receive_page items_of opts s (p, url) = Inr (True, None) \<and> length items \<le> k + m) \<or>
     (\<exists>s'. receive_page items_of opts s (p, url) = Inr (True, Some s') \<and> k < length items \<and>
       state_at href (length items) (k + length (items_of p)) s' \<and> ws_fetched s' = ws_fetched s + int (length (items_of p)))"
      using False n by (auto simp: receive_page_def Let_def not_less)
  qed
qed

lemma link_walk_complete:
  assumes srv: "honest_link_server fetch items_of href items" and cap: "po_max_pages opts = None"
    and at: "state_at href (length items) k s" and fuel: "length items - k < fuel"
    and lim: "\<And>l. po_limit opts = Some l \<Longrightarrow> 0 < l"
  shows "\<exists>t w'. walk fuel (next_page_request opts) (receive_page items_of opts) fetch s w = (t, Finished, w') \<and>
     covers (map_option (\<lambda>l. l - ws_fetched s) (po_limit opts)) (concat (map (\<lambda>p. items_of (fst p)) (pages_of t))) (drop k items)"
  using at fuel
proof (induction fuel arbitrary: k s w)
  case (Suc fuel)
  show ?case
  proof (cases "1 \<le> page_room opts s")
    case False
    then obtain l where "po_limit opts = Some l" "l \<le> ws_fetched s"
      using page_room_exhausted [OF False lim] by blast
    then show ?thesis using False by (auto simp: next_page_request_def covers_def)
  next
    case True
    obtain r p url w' m where r: "next_page_request opts s = Some r" "fetch r w = (Inr (p, url), w')"
      "1 \<le> m" "items_of p = take m (drop k items)"
      "(receive_page items_of opts s (p, url) = Inr (True, None) \<and> length items \<le> k + m) \<or>
       (\<exists>s'. receive_page items_of opts s (p, url) = Inr (True, Some s') \<and> k < length items \<and>
         state_at href (length items) (k + length (items_of p)) s' \<and> ws_fetched s' = ws_fetched s + int (length (items_of p)))"
      using link_walk_step [OF srv Suc.prems(1) cap True] by metis
    show ?thesis
      using r(5)
    proof (elim disjE exE conjE)
      assume "receive_page items_of opts s (p, url) = Inr (True, None)" "length items \<le> k + m"
      then show ?thesis using r(1,2,4) by (auto simp: covers_def)
    next
      fix s' assume s': "receive_page items_of opts s (p, url) = Inr (True, Some s')" "k < length items"
        "state_at href (length items) (k + length (items_of p)) s'" "ws_fetched s' = ws_fetched s + int (length (items_of p))"
      have "0 < length (items_of p)" using r(3,4) s'(2) by auto
      then have "length items - (k + length (items_of p)) < fuel" using Suc.prems(2) s'(2) by linarith
      from Suc.IH [OF s'(3) this] obtain t w'' where t:
        "walk fuel (next_page_request opts) (receive_page items_of opts) fetch s' w' = (t, Finished, w'')"
        "covers (map_option (\<lambda>l. l - ws_fetched s') (po_limit opts)) (concat (map (\<lambda>p. items_of (fst p)) (pages_of t)))
           (drop (k + length (items_of p)) items)" by blast
      have "drop k items = items_of p @ drop (k + length (items_of p)) items"
        using append_take_drop_id [of "length (items_of p)" "drop k items"] unfolding r(4)
        by (simp add: min_def add.commute split: if_splits)
      then show ?thesis using r(1,2) s'(1,4) t
        by (auto simp: covers_def)
    qed
  qed
qed simp


lemma emit_pages_all:
  "fst (emit_pages limit items_of n ps) =
     (case limit of None \<Rightarrow> concat (map items_of ps) | Some l \<Rightarrow> take (nat (l - int n)) (concat (map items_of ps)))"
proof (induction ps arbitrary: n)
  case (Cons p ps)
  obtain rest stopped where e: "emit_pages limit items_of (n + length (items_of p)) ps = (rest, stopped)"
    by (cases "emit_pages limit items_of (n + length (items_of p)) ps") auto
  note IH = Cons.IH [of "n + length (items_of p)", unfolded e fst_conv]
  show ?case
  proof (cases limit)
    case None
    then show ?thesis using e IH by simp
  next
    case (Some l)
    have "nat (l - int n) - length (items_of p) = nat (l - int (n + length (items_of p)))" by linarith
    then show ?thesis using e IH Some by (simp add: Let_def)
  qed
qed (simp split: option.splits)

definition wanted :: "int option \<Rightarrow> 'i list \<Rightarrow> 'i list" where
  "wanted limit items = (case limit of None \<Rightarrow> items | Some l \<Rightarrow> take (nat l) items)"

lemma covers_wanted: "covers room got items \<Longrightarrow> wanted room got = wanted room items"
  by (auto simp: covers_def wanted_def)

lemma emit_pages_covers:
  assumes "covers limit (concat (map items_of ps)) items"
  shows "fst (emit_pages limit items_of 0 ps) = wanted limit items"
  using covers_wanted [OF assms] by (simp add: emit_pages_all wanted_def split: option.splits)

text \<open>Against a server that pages with continuation links, an uncapped OData or STAC walk ends,
  and its items are exactly the server's items from the start offset, in order, each once, cut at
  the limit.\<close>

theorem linked_walk_emits_everything:
  assumes "honest_link_server fetch items_of href items" "po_max_pages opts = None"
    and "start_walk opts (int k) url = Some s" "length items - k < fuel"
    and "(receive, items_of) \<in> {(odata_receive opts, values_from_page), (stac_receive opts, features_from_page)}"
  shows "\<exists>t w'. walk fuel (next_page_request opts) receive fetch s w = (t, Finished, w') \<and>
     fst (emit_pages (po_limit opts) (\<lambda>p. items_of (fst p)) 0 (pages_of t)) = wanted (po_limit opts) (drop k items)"
proof -
  have s: "state_at href (length items) k s" "ws_fetched s = 0" and l: "\<And>l. po_limit opts = Some l \<Longrightarrow> 0 < l"
    using assms(3) by (auto simp: start_walk_def normalize_total_limit_def state_at_def split: if_splits)
  have r: "receive = receive_page items_of opts"
    using assms(5) by (auto simp: odata_receive_def stac_receive_def)
  show ?thesis
    using link_walk_complete [OF assms(1,2) s(1) assms(4) l, of w] s(2)
    by (auto simp: r option.map_id0 [unfolded id_def] intro: emit_pages_covers)
qed

definition link_page :: "page list \<Rightarrow> nat \<Rightarrow> nat \<Rightarrow> page" where
  "link_page items m k = [(''value'', PList (map PDict (take m (drop k items))))]
     @ (if k + m < length items then [(''@odata.nextLink'', PStr (CHR ''p'' # nat_digits (k + m)))] else [])"

definition link_server :: "page list \<Rightarrow> nat \<Rightarrow> page_request \<Rightarrow> unit \<Rightarrow> (unit + page \<times> string) \<times> unit" where
  "link_server items cap r w = (case r of
     OffsetPage l k \<Rightarrow> (Inr (link_page items (min (nat l) (Suc cap)) (nat k), []), w)
   | LinkedPage h u \<Rightarrow> (Inr (link_page items (Suc cap) (digits_value (tl h)), []), w))"

lemma map_filter_PDict [simp]: "List.map_filter as_dict (map PDict ds) = ds"
  by (induction ds) (auto simp: List.map_filter_simps as_dict_def)

lemma link_page_items: "values_from_page (link_page items m k) = take m (drop k items)"
  "next_link (link_page items m k) = (if k + m < length items then Some (CHR ''p'' # nat_digits (k + m)) else None)"
  by (simp_all add: link_page_def values_from_page_def dicts_of_def get_or_none_def dict_get_Cons next_link_def
      py_or_def next_link_object_def sequence_items_def)

lemma link_server_honest: "honest_link_server (link_server items cap) values_from_page (\<lambda>k. CHR ''p'' # nat_digits k) items"
proof -
  have "inj (\<lambda>k. CHR ''p'' # nat_digits k)"
    by (rule injI) (metis digits_value_nat_digits list.inject)
  moreover have "\<exists>p url w' m. link_server items cap r w = (Inr (p, url), w') \<and> 1 \<le> m \<and>
      values_from_page p = take m (drop k items) \<and>
      next_link p = (if k + m < length items then Some (CHR ''p'' # nat_digits (k + m)) else None)"
    if "(\<exists>l. 1 \<le> l \<and> r = OffsetPage l (int k)) \<or> (\<exists>u. r = LinkedPage (CHR ''p'' # nat_digits k) u)" for r k w
    using that
  proof (elim disjE exE conjE)
    fix l assume "1 \<le> l" "r = OffsetPage l (int k)"
    then show ?thesis
      by (intro exI [of _ "link_page items (min (nat l) (Suc cap)) k"] exI [of _ "[]"] exI [of _ w] exI [of _ "min (nat l) (Suc cap)"])
         (auto simp: link_server_def link_page_items)
  next
    fix u assume "r = LinkedPage (CHR ''p'' # nat_digits k) u"
    then show ?thesis
      by (intro exI [of _ "link_page items (Suc cap) k"] exI [of _ "[]"] exI [of _ w] exI [of _ "Suc cap"])
         (auto simp: link_server_def link_page_items)
  qed
  ultimately show ?thesis by (auto simp: honest_link_server_def)
qed

definition three_items :: "page list" where
  "three_items = [[(''id'', PInt 1)], [(''id'', PInt 2)], [(''id'', PInt 3)]]"

definition two_wanted :: page_options where
  "two_wanted = \<lparr>po_page_size = Some 1, po_limit = Some 2, po_max_pages = None\<rparr>"

theorem linked_walk_emits_everything_witness:
  "\<exists>s t w'. start_walk two_wanted 1 None = Some s \<and>
     walk 9 (next_page_request two_wanted) (odata_receive two_wanted) (link_server three_items 0) s () = (t, Finished, w') \<and>
     fst (emit_pages (po_limit two_wanted) (\<lambda>p. values_from_page (fst p)) 0 (pages_of t)) = [[(''id'', PInt 2)], [(''id'', PInt 3)]]"
proof -
  obtain s where s: "start_walk two_wanted (int 1) None = Some s" by (simp add: start_walk_def two_wanted_def normalize_total_limit_def)
  have "length three_items - 1 < 9" by (simp add: three_items_def)
  from linked_walk_emits_everything [OF link_server_honest [of three_items 0] _ s this, of "odata_receive two_wanted" "()"] s
  show ?thesis by (auto simp: two_wanted_def three_items_def wanted_def)
qed

theorem walks_are_bounded_witness:
  "\<exists>s. start_walk (two_wanted\<lparr>po_max_pages := Some 1\<rparr>) 0 None = Some s \<and>
     (\<forall>t e w'. walk 2 (next_page_request (two_wanted\<lparr>po_max_pages := Some 1\<rparr>)) (odata_receive (two_wanted\<lparr>po_max_pages := Some 1\<rparr>))
         (link_server three_items 0) s () = (t, e, w') \<longrightarrow> length t \<le> 1 \<and> e \<noteq> OutOfFuel)"
proof -
  let ?o = "two_wanted\<lparr>po_max_pages := Some 1\<rparr>"
  obtain s where s: "start_walk ?o 0 None = Some s" by (simp add: start_walk_def two_wanted_def normalize_total_limit_def)
  have "length t \<le> 1 \<and> e \<noteq> OutOfFuel"
    if "walk 2 (next_page_request ?o) (odata_receive ?o) (link_server three_items 0) s () = (t, e, w')" for t e w'
    using walks_are_bounded [OF _ s _ _ that, of 1 values_from_page] by simp
  with s show ?thesis by blast
qed

section \<open>FeatureServer walks are complete\<close>

text \<open>
  A FeatureServer layer with the features \<open>items\<close>: an offset request returns a non-empty run of
  them from there, of any length, and sets \<open>exceededTransferLimit\<close> exactly when more remain;
  every feature has an object id of its own.
\<close>

definition page_features :: "page \<Rightarrow> feature list" where
  "page_features payload = (case feature_set_from_dict payload of Inl _ \<Rightarrow> [] | Inr p \<Rightarrow> fs_features p)"

definition honest_feature_server ::
  "(feature_request \<Rightarrow> 'w \<Rightarrow> ('e + page) \<times> 'w) \<Rightarrow> feature list \<Rightarrow> bool" where
  "honest_feature_server fetch items \<longleftrightarrow>
     (\<forall>k l w. 1 \<le> l \<longrightarrow> (\<exists>payload p w' m. fetch (FeaturePage (int k) l) w = (Inr payload, w') \<and>
        feature_set_from_dict payload = Inr p \<and> 1 \<le> m \<and> fs_features p = take m (drop k items) \<and>
        fs_exceeded p = (k + m < length items))) \<and>
     (\<exists>ids. map object_id items = map (\<lambda>i. Inr (Some i)) ids \<and> distinct ids)"

lemma mapE_Inr_list: "map f xs = map Inr ys \<Longrightarrow> mapE f xs = Inr ys"
  by (induction xs arbitrary: ys) auto

lemma map_filter_id_Some [simp]: "List.map_filter id (map Some xs) = xs"
  by (induction xs) (auto simp: List.map_filter_simps)

lemma feature_walk_complete:
  assumes srv: "honest_feature_server fetch items" and ids: "map object_id items = map (\<lambda>i. Inr (Some i)) ids" "distinct ids"
    and cap: "po_max_pages opts = None" and size: "0 < page_size"
    and "fw_offset s = int k" "set (fw_previous_ids s) \<inter> set (drop k ids) = {}" "length items - k < fuel"
  shows "\<exists>t w'. walk fuel (feature_page_request opts page_size) feature_receive fetch s w = (t, Finished, w') \<and>
     covers (map_option (\<lambda>l. l - fw_total s) (po_limit opts)) (concat (map page_features (pages_of t))) (drop k items)"
  using assms(6-8)
proof (induction fuel arbitrary: k s w)
  case (Suc fuel)
  show ?case
  proof (cases "\<exists>l. po_limit opts = Some l \<and> l \<le> fw_total s")
    case True
    then show ?thesis by (auto simp: feature_page_request_def covers_def)
  next
    case False
    define room where "room = feature_room opts page_size s"
    have room: "1 \<le> room" using False size by (auto simp: room_def feature_room_def split: option.splits)
    have req: "feature_page_request opts page_size s = Some (FeaturePage (int k) room)"
      using False cap Suc.prems(1)
      by (auto simp: feature_page_request_def page_index_allowed_def room_def split: option.splits)
    obtain payload p w' m where p: "fetch (FeaturePage (int k) room) w = (Inr payload, w')"
       "feature_set_from_dict payload = Inr p" "1 \<le> m" "fs_features p = take m (drop k items)"
       "fs_exceeded p = (k + m < length items)"
      using srv room unfolding honest_feature_server_def by meson
    define new where "new = take m (drop k ids)"
    have "mapE object_id (fs_features p) = Inr (map Some new)"
      by (rule mapE_Inr_list) (simp add: p(4) new_def take_map [symmetric] drop_map [symmetric] ids(1) o_def)
    then have recv: "feature_receive s payload =
        (if new \<noteq> [] \<and> set new \<subseteq> set (fw_previous_ids s) then Inr (False, None)
         else if length (fs_features p) = 0 \<or> \<not> fs_exceeded p then Inr (True, None)
         else Inr (True, Some \<lparr>fw_index = Suc (fw_index s), fw_total = fw_total s + int (length (fs_features p)),
                             fw_offset = fw_offset s + int (length (fs_features p)), fw_previous_ids = new\<rparr>))"
      using p(2) by (simp add: feature_receive_def Let_def)
    have fresh: "\<not> (new \<noteq> [] \<and> set new \<subseteq> set (fw_previous_ids s))"
    proof
      assume a: "new \<noteq> [] \<and> set new \<subseteq> set (fw_previous_ids s)"
      have "set new \<subseteq> set (drop k ids)" by (simp add: new_def set_take_subset)
      with a Suc.prems(2) show False by (cases new) auto
    qed
    have feats: "page_features payload = take m (drop k items)" using p(2,4) by (simp add: page_features_def)
    show ?thesis
    proof (cases "k + m < length items")
      case False
      then have "feature_receive s payload = Inr (True, None)" using recv fresh p(5) by auto
      then show ?thesis using req p(1) feats False by (auto simp: covers_def)
    next
      case True
      define s' where "s' = \<lparr>fw_index = Suc (fw_index s), fw_total = fw_total s + int m,
          fw_offset = fw_offset s + int m, fw_previous_ids = new\<rparr>"
      have len: "length (fs_features p) = m" using True p(4) by simp
      then have r: "feature_receive s payload = Inr (True, Some s')"
        using recv fresh p(3,5) True unfolding s'_def len by simp
      have "set new \<inter> set (drop (k + m) ids) = {}"
        using distinct_append [of new "drop m (drop k ids)"] distinct_drop [OF ids(2), of k]
        unfolding new_def append_take_drop_id by (simp add: add.commute)
      moreover have "fw_offset s' = int (k + m)" using Suc.prems(1) by (simp add: s'_def)
      moreover have "length items - (k + m) < fuel" using Suc.prems(3) True p(3) by linarith
      ultimately obtain t v where t:
        "walk fuel (feature_page_request opts page_size) feature_receive fetch s' w' = (t, Finished, v)"
        "covers (map_option (\<lambda>l. l - fw_total s') (po_limit opts)) (concat (map page_features (pages_of t))) (drop (k + m) items)"
        using Suc.IH [of s' "k + m" w'] by (auto simp: s'_def)
      have "drop k items = take m (drop k items) @ drop (k + m) items"
        by (metis add.commute append_take_drop_id drop_drop)
      then show ?thesis using req p(1) r t feats len p(4) True
        by (auto simp: covers_def s'_def)
    qed
  qed
qed simp

text \<open>C9. Against an honest layer, an uncapped FeatureServer walk ends without raising, never trips
  its duplicate guard, and its features are exactly the layer's from the start offset, in order,
  each once, cut at the limit.\<close>

theorem feature_walk_emits_everything:
  assumes "honest_feature_server fetch items" "po_max_pages opts = None"
    and "start_feature_walk opts page_size (int k) = Inr (Some s)" "length items - k < fuel"
  shows "\<exists>t w'. walk fuel (feature_page_request opts page_size) feature_receive fetch s w = (t, Finished, w') \<and>
     fst (emit_pages (po_limit opts) page_features 0 (pages_of t)) = wanted (po_limit opts) (drop k items)"
proof -
  have s: "fw_offset s = int k" "fw_previous_ids s = []" "fw_total s = 0" "0 < page_size"
    using assms(3) by (auto simp: start_feature_walk_def split: if_splits)
  obtain ids where "map object_id items = map (\<lambda>i. Inr (Some i)) ids" "distinct ids"
    using assms(1) by (auto simp: honest_feature_server_def)
  from feature_walk_complete [OF assms(1) this assms(2) s(4,1) _ assms(4), of w] s(2,3)
  show ?thesis by (auto simp: option.map_id0 [unfolded id_def] intro: emit_pages_covers)
qed

definition layer_payload :: "page list \<Rightarrow> nat \<Rightarrow> nat \<Rightarrow> page" where
  "layer_payload items m k = [(''features'', PList (map PDict (take m (drop k items)))),
     (''exceededTransferLimit'', PBool (k + m < length items))]"

definition layer_server :: "page list \<Rightarrow> nat \<Rightarrow> feature_request \<Rightarrow> unit \<Rightarrow> (unit + page) \<times> unit" where
  "layer_server items cap r w = (case r of FeaturePage k l \<Rightarrow> (Inr (layer_payload items (Suc cap) (nat k)), w))"

definition two_features :: "page list" where
  "two_features = [[(''attributes'', PDict [(''OBJECTID'', PInt 7)])], [(''attributes'', PDict [(''objectid'', PStr ''8'')])]]"

lemma layer_payload_set: "feature_set_from_dict (layer_payload items m k) = Inr
   \<lparr>fs_features = map feature_from_dict (take m (drop k items)), fs_fields = [], fs_geometry_type = None,
    fs_spatial_reference = None, fs_exceeded = (k + m < length items), fs_raw = layer_payload items m k\<rparr>"
  by (simp add: feature_set_from_dict_def layer_payload_def get_or_none_def dict_get_Cons mappings_of_def
      optional_str_def as_dict_def List.map_filter_simps)

lemma layer_server_honest: "honest_feature_server (layer_server two_features cap) (map feature_from_dict two_features)"
proof -
  have "map object_id (map feature_from_dict two_features) = map (\<lambda>i. Inr (Some i)) [7, 8]"
    by (simp add: two_features_def feature_from_dict_def object_id_def get_or_none_def dict_get_Cons dict_or_empty_def
        as_dict_def to_int_def py_int_text_def read_sign_def str_strip_def str_lstrip_def digits_value_def digit_value_def of_char_bits)
  moreover have "\<exists>payload p w' m. layer_server two_features cap (FeaturePage (int k) l) w = (Inr payload, w') \<and>
        feature_set_from_dict payload = Inr p \<and> 1 \<le> m \<and> fs_features p = take m (drop k (map feature_from_dict two_features)) \<and>
        fs_exceeded p = (k + m < length (map feature_from_dict two_features))" for k l w
    by (intro exI [of _ "layer_payload two_features (Suc cap) k"] exI conjI, simp add: layer_server_def,
        rule layer_payload_set) (auto simp: take_map drop_map)
  ultimately show ?thesis unfolding honest_feature_server_def by (metis distinct_length_2_or_more distinct_singleton numeral_eq_iff num.distinct(3) num.distinct(5))
qed

theorem feature_walk_emits_everything_witness:
  "\<exists>s t w'. start_feature_walk \<lparr>po_page_size = None, po_limit = None, po_max_pages = None\<rparr> 10 0 = Inr (Some s) \<and>
     walk 5 (feature_page_request \<lparr>po_page_size = None, po_limit = None, po_max_pages = None\<rparr> 10) feature_receive
       (layer_server two_features 0) s () = (t, Finished, w') \<and>
     fst (emit_pages None page_features 0 (pages_of t)) = map feature_from_dict two_features"
proof -
  let ?o = "\<lparr>po_page_size = None, po_limit = None, po_max_pages = None\<rparr>"
  obtain s where s: "start_feature_walk ?o 10 (int 0) = Inr (Some s)" by (simp add: start_feature_walk_def)
  have "length (map feature_from_dict two_features) - 0 < 5" by (simp add: two_features_def)
  from feature_walk_emits_everything [OF layer_server_honest [of 0] _ s this, of "()"] s
  show ?thesis by (auto simp: wanted_def)
qed

end
