(* ===== verification/Dispatch.thy ===== *)
theory Dispatch
  imports Query Paging
begin

text \<open>
  \<open>_query_dispatch.py\<close> and the query facade of \<open>client.py\<close>: routing checks, the keyword arguments
  of each protocol wrapper, and the collection of pages into query features.

  The protocol wrappers are the walks of \<open>Paging\<close>; the HTTP client under them is a record of
  fetch functions, one per protocol, which also receive the keyword arguments. \<open>'o\<close> is the
  per-call options (timeout and headers), passed through. A run ends with the result or with
  the way the generator stopped instead.
\<close>

section \<open>Routing checks\<close>

definition cql_filter_dispatch_protocols :: "string list" where
  "cql_filter_dispatch_protocols = [''ogc-features'', ''stac'']"

definition validate_filter_routing :: "feature_query \<Rightarrow> string \<Rightarrow> py_error + unit" where
  "validate_filter_routing q normalized_protocol =
     (if normalized_protocol \<notin> set cql_filter_dispatch_protocols then Inr ()
      else if fq_where q \<noteq> None \<and> fq_filter q = None then Inl ErrValue else Inr ())"

text \<open>Whether a \<open>ResourceWarning\<close> is emitted.\<close>

definition warn_if_truncated :: "feature_query \<Rightarrow> bool \<Rightarrow> nat \<Rightarrow> bool" where
  "warn_if_truncated q exceeded pages_seen =
     (if fq_limit q \<noteq> None then False
      else case fq_max_pages q of None \<Rightarrow> False | Some m \<Rightarrow> exceeded \<and> m \<le> int pages_seen)"

section \<open>Keyword arguments of the wrappers\<close>

record 'o feature_kwargs =
  fk_layer_id :: int
  fk_where :: string
  fk_out_fields :: string
  fk_return_geometry :: bool
  fk_page_size :: int
  fk_limit :: "int option"
  fk_max_pages :: "int option"
  fk_extra_params :: page
  fk_options :: 'o

record 'o ogc_kwargs =
  ok_filter :: "string option"
  ok_bbox :: "text_or_seq option"
  ok_properties :: "text_or_seq option"
  ok_paging :: page_options
  ok_extra_params :: page
  ok_options :: 'o

record 'o stac_kwargs =
  sk_extra_params :: page
  sk_paging :: page_options
  sk_options :: 'o

record 'o odata_kwargs =
  dk_layer_id :: "int option"
  dk_filter :: "string option"
  dk_select :: "text_or_seq option"
  dk_paging :: page_options
  dk_extra_params :: page
  dk_options :: 'o

definition feature_server_layer_id :: "feature_query \<Rightarrow> int" where
  "feature_server_layer_id q = given_or (fq_layer_id q) 0"

definition feature_server_where_text :: "feature_query \<Rightarrow> string" where
  "feature_server_where_text q = (case fq_where q of Some w \<Rightarrow> w
     | None \<Rightarrow> (case fq_filter q of Some (c # cs) \<Rightarrow> c # cs | _ \<Rightarrow> ''1=1''))"

definition query_paging :: "feature_query \<Rightarrow> page_options" where
  "query_paging q = \<lparr>po_page_size = fq_page_size q, po_limit = fq_limit q, po_max_pages = fq_max_pages q\<rparr>"

definition feature_server_pages_kwargs :: "feature_query \<Rightarrow> 'o \<Rightarrow> py_error + 'o feature_kwargs" where
  "feature_server_pages_kwargs q opts = bindE (feature_server_extra_params q) (\<lambda>extra. Inr
     \<lparr>fk_layer_id = feature_server_layer_id q, fk_where = feature_server_where_text q,
      fk_out_fields = (case field_text (fq_fields q) (Some ''*'') of Some (c # cs) \<Rightarrow> c # cs | _ \<Rightarrow> ''*''),
      fk_return_geometry = fq_return_geometry q, fk_page_size = query_page_size q 1000,
      fk_limit = fq_limit q, fk_max_pages = fq_max_pages q, fk_extra_params = extra, fk_options = opts\<rparr>)"

definition ogc_features_pages_kwargs :: "feature_query \<Rightarrow> 'o \<Rightarrow> 'o ogc_kwargs" where
  "ogc_features_pages_kwargs q opts =
     \<lparr>ok_filter = query_filter q, ok_bbox = fq_bbox q, ok_properties = field_list (fq_fields q) None,
      ok_paging = query_paging q, ok_extra_params = fq_extra_params q, ok_options = opts\<rparr>"

definition setdefault_text :: "page \<Rightarrow> string \<Rightarrow> string option \<Rightarrow> page" where
  "setdefault_text d k v = (case v of None \<Rightarrow> d | Some t \<Rightarrow> dict_setdefault d k (PStr t))"

definition stac_extra_params :: "feature_query \<Rightarrow> page" where
  "stac_extra_params q =
     setdefault_text
       (setdefault_text
         (setdefault_text (fq_extra_params q) ''bbox'' (bbox_text (fq_bbox q)))
         ''filter'' (query_filter q))
       ''fields'' (field_text (fq_fields q) None)"

definition stac_pages_kwargs :: "feature_query \<Rightarrow> 'o \<Rightarrow> 'o stac_kwargs" where
  "stac_pages_kwargs q opts =
     \<lparr>sk_extra_params = stac_extra_params q, sk_paging = query_paging q, sk_options = opts\<rparr>"

definition reject_odata_bbox :: "feature_query \<Rightarrow> py_error + unit" where
  "reject_odata_bbox q = (if fq_bbox q \<noteq> None then Inl ErrValue else Inr ())"

definition odata_pages_kwargs :: "feature_query \<Rightarrow> 'o \<Rightarrow> 'o odata_kwargs" where
  "odata_pages_kwargs q opts =
     \<lparr>dk_layer_id = odata_layer_id q, dk_filter = query_filter q, dk_select = field_list (fq_fields q) None,
      dk_paging = query_paging q, dk_extra_params = fq_extra_params q, dk_options = opts\<rparr>"

section \<open>Collecting pages\<close>

definition extend_collected :: "query_feature list \<Rightarrow> query_feature list \<Rightarrow> int option \<Rightarrow> query_feature list \<times> bool" where
  "extend_collected collected items limit = (case limit of
     None \<Rightarrow> (collected @ items, False)
   | Some l \<Rightarrow>
       (let remaining = l - int (length collected) in
        if remaining \<le> 0 then (collected, True)
        else let all = collected @ take (nat remaining) items in (all, l \<le> int (length all))))"

record collected =
  co_features :: "query_feature list"
  co_last :: "page option"
  co_pages :: nat

definition nothing_collected :: collected where
  "nothing_collected = \<lparr>co_features = [], co_last = None, co_pages = 0\<rparr>"

text \<open>The loop body, and the \<open>for\<close> loop over a generator that a body may leave with \<open>break\<close>.\<close>

definition collect_body ::
  "int option \<Rightarrow> ('p \<Rightarrow> page) \<Rightarrow> (page \<Rightarrow> py_error + query_feature list) \<Rightarrow> collected \<Rightarrow> 'p \<Rightarrow> py_error + collected \<times> bool" where
  "collect_body limit payload convert a p =
     bindE (convert (payload p)) (\<lambda>items.
       let (features, stop) = extend_collected (co_features a) items limit in
       Inr (\<lparr>co_features = features, co_last = Some (payload p), co_pages = co_pages a + 1\<rparr>, stop))"

fun drive :: "nat \<Rightarrow> ('s \<Rightarrow> 'r option) \<Rightarrow> ('s \<Rightarrow> 'p \<Rightarrow> py_error + bool \<times> 's option) \<Rightarrow>
    ('r \<Rightarrow> 'w \<Rightarrow> ('e + 'p) \<times> 'w) \<Rightarrow> ('a \<Rightarrow> 'p \<Rightarrow> py_error + 'a \<times> bool) \<Rightarrow> 's \<Rightarrow> 'a \<Rightarrow> 'w \<Rightarrow>
    'e ending \<times> 'a \<times> 'w" where
  "drive 0 request receive fetch body s a w = (OutOfFuel, a, w)"
| "drive (Suc n) request receive fetch body s a w =
     (case request s of
        None \<Rightarrow> (Finished, a, w)
      | Some r \<Rightarrow>
         (case fetch r w of
            (Inl e, w') \<Rightarrow> (FetchRaised e, a, w')
          | (Inr p, w') \<Rightarrow>
             (case receive s p of
                Inl e \<Rightarrow> (CodeRaised e, a, w')
              | Inr (yielded, nxt) \<Rightarrow>
                 (case (if yielded then body a p else Inr (a, False)) of
                    Inl e \<Rightarrow> (CodeRaised e, a, w')
                  | Inr (a', stop) \<Rightarrow>
                     (if stop then (Finished, a', w')
                      else (case nxt of
                          None \<Rightarrow> (Finished, a', w')
                        | Some s' \<Rightarrow> drive n request receive fetch body s' a' w'))))))"

definition run_collect :: "'e ending \<times> 'a \<times> 'w \<Rightarrow> ('a \<Rightarrow> 'b) \<Rightarrow> ('e ending + 'b) \<times> 'w" where
  "run_collect run result = (case run of (Finished, a, w) \<Rightarrow> (Inr (result a), w) | (e, a, w) \<Rightarrow> (Inl e, w))"

definition feature_server_count :: "page option \<Rightarrow> int option" where
  "feature_server_count p = (case p of None \<Rightarrow> None
     | Some payload \<Rightarrow> (case get_or_none payload ''count'' of PInt i \<Rightarrow> Some i | _ \<Rightarrow> None))"

definition convert_feature_page :: "string \<Rightarrow> string \<Rightarrow> page \<Rightarrow> py_error + query_feature list" where
  "convert_feature_page source protocol payload =
     bindE (feature_set_from_dict payload) (\<lambda>fs.
       mapE (query_feature_from_feature_server source protocol) (fs_features fs))"

record ('w, 'e, 'o) query_client =
  qc_feature_server :: "string \<Rightarrow> 'o feature_kwargs \<Rightarrow> feature_request \<Rightarrow> 'w \<Rightarrow> ('e + page) \<times> 'w"
  qc_ogc :: "string \<Rightarrow> 'o ogc_kwargs \<Rightarrow> page_request \<Rightarrow> 'w \<Rightarrow> ('e + page \<times> string) \<times> 'w"
  qc_stac :: "string \<Rightarrow> 'o stac_kwargs \<Rightarrow> page_request \<Rightarrow> 'w \<Rightarrow> ('e + page \<times> string) \<times> 'w"
  qc_odata :: "'o odata_kwargs \<Rightarrow> page_request \<Rightarrow> 'w \<Rightarrow> ('e + page \<times> string) \<times> 'w"
  qc_ogc_url :: "string \<Rightarrow> string"

text \<open>The four fields of the tuple \<open>collect_query_pages\<close> returns.\<close>

type_synonym page_result = "query_feature list \<times> bool \<times> int option \<times> nat"

definition extra_offset :: "page \<Rightarrow> string \<Rightarrow> py_error + int" where
  "extra_offset extra key = to_int (case dict_get extra key of None \<Rightarrow> PInt 0 | Some v \<Rightarrow> v)"

text \<open>
  The locals of a walk whose first offset is read from \<open>extra_params\<close>; the offset is only read
  once the limit is known to be non-zero.
\<close>

definition linked_start :: "page_options \<Rightarrow> page \<Rightarrow> string \<Rightarrow> py_error + walk_state option" where
  "linked_start paging extra key =
     (if normalize_total_limit (po_limit paging) = Some 0 then Inr None
      else bindE (extra_offset extra key) (\<lambda>offset. Inr (start_walk paging offset None)))"

definition feature_start :: "page_options \<Rightarrow> int \<Rightarrow> page \<Rightarrow> py_error + feature_walk option" where
  "feature_start paging page_size extra =
     bindE (start_feature_walk paging page_size 0) (\<lambda>start.
       if start = None then Inr None
       else bindE (extra_offset extra ''resultOffset'') (\<lambda>offset. start_feature_walk paging page_size offset))"

definition feature_paging :: "'o feature_kwargs \<Rightarrow> page_options" where
  "feature_paging k = \<lparr>po_page_size = Some (fk_page_size k), po_limit = fk_limit k, po_max_pages = fk_max_pages k\<rparr>"

definition linked_result :: "(page option \<Rightarrow> int option \<times> bool) \<Rightarrow> collected \<Rightarrow> page_result" where
  "linked_result signals a = (let (count, exceeded) = signals (co_last a) in (co_features a, exceeded, count, co_pages a))"

definition collect_linked ::
  "nat \<Rightarrow> page_options \<Rightarrow> walk_state option \<Rightarrow> (walk_state \<Rightarrow> page_request option) \<Rightarrow>
   (walk_state \<Rightarrow> page \<times> string \<Rightarrow> py_error + bool \<times> walk_state option) \<Rightarrow>
   (page_request \<Rightarrow> 'w \<Rightarrow> ('e + page \<times> string) \<times> 'w) \<Rightarrow> (page \<Rightarrow> query_feature list) \<Rightarrow>
   (page option \<Rightarrow> int option \<times> bool) \<Rightarrow> 'w \<Rightarrow> ('e ending + page_result) \<times> 'w" where
  "collect_linked fuel paging start request receive fetch convert signals w =
     run_collect
       (case start of None \<Rightarrow> (Finished, nothing_collected, w)
        | Some s \<Rightarrow> drive fuel request receive fetch (collect_body (po_limit paging) fst (\<lambda>p. Inr (convert p))) s nothing_collected w)
       (linked_result signals)"

definition collect_feature_server ::
  "nat \<Rightarrow> ('w, 'e, 'o) query_client \<Rightarrow> feature_query \<Rightarrow> 'o feature_kwargs \<Rightarrow> feature_walk option \<Rightarrow> 'w \<Rightarrow>
   ('e ending + page_result) \<times> 'w" where
  "collect_feature_server fuel client q k start w =
     run_collect
       (case start of None \<Rightarrow> (Finished, nothing_collected, w)
        | Some s \<Rightarrow> drive fuel
             (feature_page_request (feature_paging k) (fk_page_size k))
             feature_receive (qc_feature_server client (fq_source q) k)
             (collect_body (fq_limit q) (\<lambda>p. p) (convert_feature_page (fq_source q) ''feature-server'')) s nothing_collected w)
       (\<lambda>a. (co_features a,
             (case co_last a of None \<Rightarrow> False | Some p \<Rightarrow> truthy (get_or_none p ''exceededTransferLimit'')),
             feature_server_count (co_last a), co_pages a))"

definition collect_query_pages ::
  "nat \<Rightarrow> ('w, 'e, 'o) query_client \<Rightarrow> feature_query \<Rightarrow> string \<Rightarrow> 'o \<Rightarrow> 'w \<Rightarrow> ('e ending + page_result) \<times> 'w" where
  "collect_query_pages fuel client q protocol opts w =
     (if protocol = ''feature-server'' then
        (case bindE (feature_server_pages_kwargs q opts) (\<lambda>k.
                bindE (feature_start (feature_paging k) (fk_page_size k) (fk_extra_params k)) (\<lambda>start. Inr (k, start))) of
           Inl e \<Rightarrow> (Inl (CodeRaised e), w)
         | Inr (k, start) \<Rightarrow> collect_feature_server fuel client q k start w)
      else if protocol = ''ogc-features'' then
        (let k = ogc_features_pages_kwargs q opts in
         collect_linked fuel (ok_paging k) (start_walk (ok_paging k) (normalize_offset None) (Some (qc_ogc_url client (fq_source q))))
           (ogc_page_request (ok_paging k)) (ogc_receive (ok_paging k)) (qc_ogc client (fq_source q) k)
           (\<lambda>p. map (query_feature_from_geojson (fq_source q) protocol) (features_from_geojson_page p))
           ogc_pagination_signals w)
      else if protocol = ''stac'' then
        (let k = stac_pages_kwargs q opts in
         case linked_start (sk_paging k) (sk_extra_params k) ''offset'' of
           Inl e \<Rightarrow> (Inl (CodeRaised e), w)
         | Inr start \<Rightarrow> collect_linked fuel (sk_paging k) start
             (next_page_request (sk_paging k)) (stac_receive (sk_paging k)) (qc_stac client (fq_source q) k)
             (\<lambda>p. map (query_feature_from_geojson (fq_source q) protocol) (features_from_geojson_page p))
             ogc_pagination_signals w)
      else
        (let k = odata_pages_kwargs q opts in
         case bindE (reject_odata_bbox q) (\<lambda>_. linked_start (dk_paging k) (dk_extra_params k) ''$skip'') of
           Inl e \<Rightarrow> (Inl (CodeRaised e), w)
         | Inr start \<Rightarrow> collect_linked fuel (dk_paging k) start
             (next_page_request (dk_paging k)) (odata_receive (dk_paging k)) (qc_odata client k)
             (\<lambda>p. map (query_feature_from_mapping (fq_source q) protocol) (odata_features_from_page p))
             odata_pagination_signals w))"

section \<open>The query facade\<close>

record query_result =
  qr_features :: "query_feature list"
  qr_protocol :: string
  qr_source :: string
  qr_query :: feature_query
  qr_exceeded :: bool
  qr_total_count :: "int option"
  qr_pages_seen :: nat

text \<open>\<open>HonuaClient.query\<close>; the flag beside the result tells whether it warned of a truncation.\<close>

definition client_query ::
  "nat \<Rightarrow> ('w, 'e, 'o) query_client \<Rightarrow> query_source \<Rightarrow> query_args \<Rightarrow> 'o \<Rightarrow> 'w \<Rightarrow> ('e ending + query_result \<times> bool) \<times> 'w" where
  "client_query fuel client source args opts w =
     (case bindE (resolve_feature_query source args) (\<lambda>q.
           bindE (normalize_query_protocol (fq_protocol q)) (\<lambda>protocol.
           bindE (validate_filter_routing q protocol) (\<lambda>_. Inr (q, protocol)))) of
        Inl e \<Rightarrow> (Inl (CodeRaised e), w)
      | Inr (q, protocol) \<Rightarrow>
         (case collect_query_pages fuel client q protocol opts w of
            (Inl e, w') \<Rightarrow> (Inl e, w')
          | (Inr (features, exceeded, total_count, pages), w') \<Rightarrow>
              (Inr (\<lparr>qr_features = features, qr_protocol = protocol, qr_source = fq_source q, qr_query = q,
                     qr_exceeded = exceeded, qr_total_count = total_count, qr_pages_seen = pages\<rparr>,
                    warn_if_truncated q exceeded pages), w')))"

section \<open>Loops over generators\<close>

lemma drive_invariant:
  assumes "\<And>a p a' stop. I a \<Longrightarrow> body a p = Inr (a', stop) \<Longrightarrow> I a'" "I a"
    and "drive fuel request receive fetch body s a w = (e, a', w')"
  shows "I a'"
  using assms(2,3)
proof (induction fuel arbitrary: s a w)
  case (Suc fuel)
  show ?case
    using Suc.prems assms(1)
    by (auto split: option.splits prod.splits sum.splits if_splits) (metis Suc.IH)+
qed simp

text \<open>A loop whose body raises nothing sees the pages of the finished walk up to its own \<open>break\<close>.\<close>

fun fold_pages :: "('a \<Rightarrow> 'p \<Rightarrow> 'a \<times> bool) \<Rightarrow> 'a \<Rightarrow> 'p list \<Rightarrow> 'a" where
  "fold_pages step a [] = a"
| "fold_pages step a (p # ps) = (let (a', stop) = step a p in if stop then a' else fold_pages step a' ps)"

lemma drive_walk:
  assumes "walk fuel request receive fetch s w = (t, Finished, v)"
    and "\<And>a p. p \<in> set (pages_of t) \<Longrightarrow> body a p = Inr (step a p)"
  shows "\<exists>w'. drive fuel request receive fetch body s a w = (Finished, fold_pages step a (pages_of t), w')"
  using assms
proof (induction fuel arbitrary: s a w t)
  case (Suc fuel)
  show ?case
  proof (cases "request s")
    case (Some r)
    obtain p w1 where f: "fetch r w = (Inr p, w1)"
      using Suc.prems(1) Some by (cases "fetch r w"; cases "fst (fetch r w)") auto
    obtain y nxt where rc: "receive s p = Inr (y, nxt)"
      using Suc.prems(1) Some f by (cases "receive s p") auto
    show ?thesis
    proof (cases nxt)
      case None
      then have t: "t = [(r, p, y)]" using Suc.prems(1) Some f rc by simp
      show ?thesis
        using Some f rc None t Suc.prems(2) [of p a] by (cases "step a p"; cases y) auto
    next
      case s': (Some s')
      obtain t' where t': "walk fuel request receive fetch s' w1 = (t', Finished, v)" "t = (r, p, y) # t'"
        using Suc.prems(1) Some f rc s' by (auto split: prod.splits)
      have b: "\<And>a q. q \<in> set (pages_of t') \<Longrightarrow> body a q = Inr (step a q)"
        using Suc.prems(2) t'(2) by (auto split: if_splits)
      note IH = Suc.IH [OF t'(1) b]
      show ?thesis
      proof (cases y)
        case False
        then show ?thesis using IH [of a] Some f rc s' t'(2) by simp
      next
        case True
        obtain a' stop where st: "step a p = (a', stop)" by (cases "step a p")
        then have "body a p = Inr (a', stop)" using Suc.prems(2) [of p a] t'(2) True by simp
        then show ?thesis using IH [of a'] Some f rc s' t'(2) True st by simp
      qed
    qed
  qed (use Suc.prems in simp)
qed simp

section \<open>Collected features stay within the limit\<close>

definition limit_kept :: "int option \<Rightarrow> collected \<Rightarrow> bool" where
  "limit_kept limit a \<longleftrightarrow> (\<forall>l. limit = Some l \<longrightarrow> length (co_features a) \<le> nat l)"

lemma collect_body_within:
  "limit_kept limit a \<Longrightarrow> collect_body limit payload convert a p = Inr (a', stop) \<Longrightarrow> limit_kept limit a'"
  by (auto simp: limit_kept_def collect_body_def extend_collected_def bindE_eq_Inr Let_def nat_diff_distrib'
      split: prod.splits option.splits if_splits)

lemma nothing_within [simp]: "limit_kept limit nothing_collected"
  by (simp add: limit_kept_def nothing_collected_def)

lemma run_collect_within:
  assumes "run_collect run result = (Inr x, w')" "\<And>e a v. run = (e, a, v) \<Longrightarrow> limit_kept limit a"
  obtains a where "limit_kept limit a" "x = result a"
  using assms by (auto simp: run_collect_def split: prod.splits ending.splits)

lemma collect_linked_within:
  assumes "collect_linked fuel paging start request receive fetch convert signals w = (Inr (fs, ex, total_count, n), w')"
    and "po_limit paging = Some l"
  shows "length fs \<le> nat l"
proof -
  obtain a where "limit_kept (po_limit paging) a" "(fs, ex, total_count, n) = linked_result signals a"
    using assms(1) unfolding collect_linked_def
    by (rule run_collect_within)
       (auto split: option.splits elim!: drive_invariant [rotated 2] intro: collect_body_within)
  then show ?thesis using assms(2) by (auto simp: limit_kept_def linked_result_def split: prod.splits)
qed

lemma collect_feature_server_within:
  assumes "collect_feature_server fuel client q k start w = (Inr (fs, ex, total_count, n), w')" "fq_limit q = Some l"
  shows "length fs \<le> nat l"
proof -
  obtain a where "limit_kept (fq_limit q) a" "fs = co_features a"
    using assms(1) unfolding collect_feature_server_def
    by (rule run_collect_within)
       (auto split: option.splits elim!: drive_invariant [rotated 2] intro: collect_body_within)
  then show ?thesis using assms(2) by (auto simp: limit_kept_def)
qed

lemma paging_kwargs [simp]:
  "po_limit (ok_paging (ogc_features_pages_kwargs q opts)) = fq_limit q"
  "po_limit (sk_paging (stac_pages_kwargs q opts)) = fq_limit q"
  "po_limit (dk_paging (odata_pages_kwargs q opts)) = fq_limit q"
  by (simp_all add: ogc_features_pages_kwargs_def stac_pages_kwargs_def odata_pages_kwargs_def query_paging_def)

text \<open>C10. Whatever the protocol and whatever the server answers, a query with a limit returns at most
  that many features.\<close>

theorem query_respects_limit:
  assumes "client_query fuel client source args opts w = (Inr (r, warned), w')" "fq_limit (qr_query r) = Some l"
  shows "length (qr_features r) \<le> nat l"
proof -
  obtain q protocol ex total_count n where c:
    "collect_query_pages fuel client q protocol opts w = (Inr (qr_features r, ex, total_count, n), w')" "qr_query r = q"
    using assms(1) unfolding client_query_def by (auto split: sum.splits prod.splits)
  then show ?thesis
    using assms(2) unfolding collect_query_pages_def
    by (auto simp: Let_def split: if_splits sum.splits prod.splits
        dest: collect_linked_within collect_feature_server_within)
qed


section \<open>End-to-end completeness\<close>

definition collect_step :: "int option \<Rightarrow> ('p \<Rightarrow> page) \<Rightarrow> (page \<Rightarrow> query_feature list) \<Rightarrow> collected \<Rightarrow> 'p \<Rightarrow> collected \<times> bool" where
  "collect_step limit payload conv a p =
     (let (features, stop) = extend_collected (co_features a) (conv (payload p)) limit in
      (\<lparr>co_features = features, co_last = Some (payload p), co_pages = co_pages a + 1\<rparr>, stop))"

lemma collect_body_step: "convert (payload p) = Inr (conv (payload p)) \<Longrightarrow>
    collect_body limit payload convert a p = Inr (collect_step limit payload conv a p)"
  by (simp add: collect_body_def collect_step_def split: prod.splits)

lemma fold_pages_collect:
  assumes "\<forall>l. limit = Some l \<longrightarrow> int (length (co_features a)) < l"
  shows "co_features (fold_pages (collect_step limit payload conv) a ps)
    = wanted limit (co_features a @ concat (map (\<lambda>p. conv (payload p)) ps))"
  using assms
proof (induction ps arbitrary: a)
  case Nil
  then show ?case by (cases limit) (auto simp: wanted_def)
next
  case (Cons p ps)
  show ?case
  proof (cases limit)
    case None
    then show ?thesis using Cons.IH by (simp add: collect_step_def extend_collected_def wanted_def)
  next
    case (Some l)
    define room where "room = nat (l - int (length (co_features a)))"
    define got where "got = co_features a @ take room (conv (payload p))"
    have lim: "int (length (co_features a)) < l" using Cons.prems Some by simp
    have step: "collect_step limit payload conv a p =
        (\<lparr>co_features = got, co_last = Some (payload p), co_pages = co_pages a + 1\<rparr>, l \<le> int (length got))"
      using lim Some by (simp add: collect_step_def extend_collected_def got_def room_def Let_def)
    show ?thesis
    proof (cases "l \<le> int (length got)")
      case True
      then have "room \<le> length (conv (payload p))" using lim by (auto simp: got_def room_def min_def split: if_splits)
      moreover have "nat l = length (co_features a) + room" using lim by (simp add: room_def)
      ultimately show ?thesis using True step Some by (simp add: wanted_def got_def)
    next
      case False
      then have "length (conv (payload p)) < room" using lim by (auto simp: got_def room_def min_def split: if_splits)
      then have got: "got = co_features a @ conv (payload p)" by (simp add: got_def)
      then show ?thesis using Cons.IH [of "\<lparr>co_features = got, co_last = Some (payload p), co_pages = co_pages a + 1\<rparr>"] False step Some
        by simp
    qed
  qed
qed

lemma wanted_map: "wanted limit (map f xs) = map f (wanted limit xs)"
  by (simp add: wanted_def take_map split: option.splits)

lemma wanted_nonpositive: "limit = Some l \<Longrightarrow> l \<le> 0 \<Longrightarrow> wanted limit xs = []"
  by (simp add: wanted_def)

lemma collect_linked_complete:
  assumes srv: "honest_link_server fetch items_of href items" and cap: "po_max_pages paging = None"
    and fuel: "length items - k < fuel"
    and conv: "\<And>p. convert p = map f (items_of p)"
    and start: "start = start_walk paging (int k) url"
  shows "\<exists>ex total_count n w'. collect_linked fuel paging start (next_page_request paging) (receive_page items_of paging) fetch convert signals w
     = (Inr (map f (wanted (po_limit paging) (drop k items)), ex, total_count, n), w')"
proof (cases start)
  case None
  then have "\<exists>l. po_limit paging = Some l \<and> l \<le> 0"
    using start by (auto simp: start_walk_def normalize_total_limit_def split: if_splits)
  then show ?thesis using None
    by (auto simp: collect_linked_def run_collect_def linked_result_def nothing_collected_def wanted_def split: prod.splits)
next
  case (Some s)
  have s: "state_at href (length items) k s" "ws_fetched s = 0" and l: "\<And>l. po_limit paging = Some l \<Longrightarrow> 0 < l"
    using start Some by (auto simp: start_walk_def normalize_total_limit_def state_at_def split: if_splits)
  obtain t v where t: "walk fuel (next_page_request paging) (receive_page items_of paging) fetch s w = (t, Finished, v)"
     "covers (po_limit paging) (concat (map (\<lambda>p. items_of (fst p)) (pages_of t))) (drop k items)"
    using link_walk_complete [OF srv cap s(1) fuel l, of w] s(2)
    by (auto simp: option.map_id0 [unfolded id_def])
  obtain w' where d: "drive fuel (next_page_request paging) (receive_page items_of paging) fetch
      (collect_body (po_limit paging) fst (\<lambda>p. Inr (convert p))) s nothing_collected w
      = (Finished, fold_pages (collect_step (po_limit paging) fst convert) nothing_collected (pages_of t), w')"
    using drive_walk [OF t(1), of "collect_body (po_limit paging) fst (\<lambda>p. Inr (convert p))" "collect_step (po_limit paging) fst convert"
        nothing_collected] collect_body_step [of "\<lambda>p. Inr (convert p)" fst _ convert "po_limit paging"] by blast
  have "co_features (fold_pages (collect_step (po_limit paging) fst convert) nothing_collected (pages_of t))
      = wanted (po_limit paging) (map f (concat (map (\<lambda>p. items_of (fst p)) (pages_of t))))"
    using fold_pages_collect [of "po_limit paging" nothing_collected fst convert "pages_of t"] l
    by (simp add: nothing_collected_def conv map_concat o_def)
  also have "\<dots> = map f (wanted (po_limit paging) (drop k items))"
    using covers_wanted [OF t(2)] by (simp add: wanted_map)
  finally show ?thesis
    using Some d by (simp add: collect_linked_def run_collect_def linked_result_def split: prod.splits)
qed

text \<open>The hypothesis of the next property: the client's OData or STAC endpoint is an honest server of
  \<open>items\<close> that pages with links, and the query asks for the items from position \<open>k\<close> on.\<close>

definition linked_service :: "('w, 'e, 'o) query_client \<Rightarrow> feature_query \<Rightarrow> 'o \<Rightarrow> string \<Rightarrow> nat \<Rightarrow> (nat \<Rightarrow> string) \<Rightarrow> page list \<Rightarrow> bool" where
  "linked_service client q opts protocol k href items \<longleftrightarrow>
     (protocol = ''odata'' \<and> fq_bbox q = None \<and> extra_offset (fq_extra_params q) ''$skip'' = Inr (int k) \<and>
        honest_link_server (qc_odata client (odata_pages_kwargs q opts)) values_from_page href items) \<or>
     (protocol = ''stac'' \<and> extra_offset (stac_extra_params q) ''offset'' = Inr (int k) \<and>
        honest_link_server (qc_stac client (fq_source q) (stac_pages_kwargs q opts)) features_from_page href items)"

definition item_feature :: "string \<Rightarrow> string \<Rightarrow> page \<Rightarrow> query_feature" where
  "item_feature protocol source =
     (if protocol = ''odata'' then query_feature_from_mapping source protocol else query_feature_from_geojson source protocol)"

lemma pages_agree: "odata_features_from_page = values_from_page" "features_from_geojson_page = features_from_page"
  by (auto simp: odata_features_from_page_def values_from_page_def features_from_geojson_page_def features_from_page_def
      mappings_in_list_def dicts_of_def)

lemma linked_start_ok: "extra_offset extra key = Inr k \<Longrightarrow> linked_start paging extra key = Inr (start_walk paging k None)"
  by (simp add: linked_start_def start_walk_def)

lemma linked_query_collects:
  assumes "linked_service client q opts protocol k href items" "fq_max_pages q = None" "length items - k < fuel"
  shows "\<exists>ex total_count n w'. collect_query_pages fuel client q protocol opts w
     = (Inr (map (item_feature protocol (fq_source q)) (wanted (fq_limit q) (drop k items)), ex, total_count, n), w')"
proof -
  have cap: "po_max_pages (query_paging q) = None" and lim: "po_limit (query_paging q) = fq_limit q"
    using assms(2) by (simp_all add: query_paging_def)
  have kw: "dk_paging (odata_pages_kwargs q opts) = query_paging q" "sk_paging (stac_pages_kwargs q opts) = query_paging q"
    "dk_extra_params (odata_pages_kwargs q opts) = fq_extra_params q" "sk_extra_params (stac_pages_kwargs q opts) = stac_extra_params q"
    by (simp_all add: odata_pages_kwargs_def stac_pages_kwargs_def)
  show ?thesis
    using assms(1) unfolding linked_service_def
  proof (elim disjE conjE)
    assume od: "protocol = ''odata''" "fq_bbox q = None" "extra_offset (fq_extra_params q) ''$skip'' = Inr (int k)"
        "honest_link_server (qc_odata client (odata_pages_kwargs q opts)) values_from_page href items"
    then show ?thesis
      using collect_linked_complete [OF od(4) cap assms(3), of _ "query_feature_from_mapping (fq_source q) protocol", OF _ refl]
      by (simp add: collect_query_pages_def Let_def kw reject_odata_bbox_def linked_start_ok item_feature_def odata_receive_def lim pages_agree)
  next
    assume st: "protocol = ''stac''" "extra_offset (stac_extra_params q) ''offset'' = Inr (int k)"
        "honest_link_server (qc_stac client (fq_source q) (stac_pages_kwargs q opts)) features_from_page href items"
    then show ?thesis
      using collect_linked_complete [OF st(3) cap assms(3), of _ "query_feature_from_geojson (fq_source q) protocol", OF _ refl]
      by (simp add: collect_query_pages_def Let_def kw linked_start_ok item_feature_def stac_receive_def lim pages_agree)
  qed
qed

text \<open>C11. An uncapped OData or STAC query against an honest server returns exactly the server's items
  from the requested offset, converted, in order, each once, cut at the limit.\<close>

theorem linked_query_complete:
  assumes "linked_service client q opts protocol k href items" "fq_max_pages q = None" "length items - k < fuel"
  shows "\<exists>ex total_count n w'. collect_query_pages fuel client q protocol opts w
     = (Inr (map (item_feature protocol (fq_source q)) (wanted (fq_limit q) (drop k items)), ex, total_count, n), w')"
  using assms by (rule linked_query_collects)

definition stub_client :: "(unit, unit, unit) query_client" where
  "stub_client = \<lparr>qc_feature_server = (\<lambda>_ _. layer_server two_features 0), qc_ogc = (\<lambda>_ _ _ w. (Inl (), w)),
     qc_stac = (\<lambda>_ _ _ w. (Inl (), w)), qc_odata = (\<lambda>_. link_server three_items 0), qc_ogc_url = (\<lambda>c. c)\<rparr>"

definition odata_query :: feature_query where
  "odata_query = sample_query\<lparr>fq_protocol := ''odata'', fq_limit := Some 2, fq_max_pages := None, fq_extra_params := [(''$skip'', PInt 1)]\<rparr>"

lemma odata_query_service: "linked_service stub_client odata_query () ''odata'' 1 (\<lambda>k. CHR ''p'' # nat_digits k) three_items"
  using link_server_honest [of three_items 0]
  by (simp add: linked_service_def odata_query_def sample_query_def stub_client_def extra_offset_def dict_get_Cons to_int_def)

theorem linked_query_complete_witness:
  "\<exists>ex total_count n w'. collect_query_pages 9 stub_client odata_query ''odata'' () ()
     = (Inr (map (item_feature ''odata'' ''parcels'') [[(''id'', PInt 2)], [(''id'', PInt 3)]], ex, total_count, n), w')"
  using linked_query_complete [OF odata_query_service, of 9 "()"]
  by (simp add: three_items_def odata_query_def sample_query_def wanted_def)

theorem query_respects_limit_witness:
  "\<exists>r warned w'. client_query 9 stub_client (PreBuilt odata_query) no_args () () = (Inr (r, warned), w') \<and>
     length (qr_features r) \<le> 2"
proof -
  have q: "merge_prebuilt odata_query no_args = odata_query"
    by (simp add: merge_prebuilt_def no_args_def given_def given_or_def dict_update_def)
  have p: "normalize_query_protocol ''odata'' = Inr ''odata''"
    using normalize_protocol_canonical [of "''odata''"]
    by (simp add: normalize_query_protocol_def protocols_def query_protocol_aliases_def dict_get_Cons)
  have proto: "fq_protocol odata_query = ''odata''" by (simp add: odata_query_def)
  obtain fs ex tc n w' where c: "collect_query_pages 9 stub_client odata_query ''odata'' () () = (Inr (fs, ex, tc, n), w')"
    using linked_query_collects [OF odata_query_service, of 9 "()"]
    by (auto simp: three_items_def odata_query_def sample_query_def)
  obtain r warned where r: "client_query 9 stub_client (PreBuilt odata_query) no_args () () = (Inr (r, warned), w')" "qr_query r = odata_query"
    using c by (simp add: client_query_def resolve_feature_query_def q proto p validate_filter_routing_def cql_filter_dispatch_protocols_def)
  then show ?thesis using query_respects_limit [OF r(1), of 2] by (auto simp: odata_query_def)
qed

section \<open>A capped FeatureServer query is never truncated silently\<close>

definition exceeded_flag :: "page \<Rightarrow> bool" where
  "exceeded_flag p = truthy (get_or_none p ''exceededTransferLimit'')"

lemma feature_set_exceeded: "feature_set_from_dict payload = Inr p \<Longrightarrow> fs_exceeded p = exceeded_flag payload"
  by (auto simp: feature_set_from_dict_def exceeded_flag_def bindE_eq_Inr)

text \<open>What a capped walk without a limit leaves: everything, or as many pages as the cap allows, the
  last of them flagged.\<close>

definition capped_result :: "int option \<Rightarrow> nat \<Rightarrow> page list \<Rightarrow> feature list \<Rightarrow> bool" where
  "capped_result cap i ps items \<longleftrightarrow> concat (map page_features ps) = items \<or>
     (\<exists>n rest. cap = Some n \<and> n \<le> int (i + length ps) \<and> items = concat (map page_features ps) @ rest \<and>
        (ps \<noteq> [] \<longrightarrow> exceeded_flag (last ps)))"

lemma feature_walk_capped:
  assumes srv: "honest_feature_server fetch items" and ids: "map object_id items = map (\<lambda>i. Inr (Some i)) ids" "distinct ids"
    and lim: "po_limit opts = None" and size: "0 < page_size"
    and "fw_offset s = int k" "set (fw_previous_ids s) \<inter> set (drop k ids) = {}" "length items - k < fuel"
  shows "\<exists>t w'. walk fuel (feature_page_request opts page_size) feature_receive fetch s w = (t, Finished, w') \<and>
     capped_result (po_max_pages opts) (fw_index s) (pages_of t) (drop k items) \<and>
     (\<forall>p \<in> set (pages_of t). \<exists>fs. feature_set_from_dict p = Inr fs \<and> set (fs_features fs) \<subseteq> set items)"
  using assms(6-8)
proof (induction fuel arbitrary: k s w)
  case (Suc fuel)
  show ?case
  proof (cases "page_index_allowed (po_max_pages opts) (fw_index s)")
    case False
    then show ?thesis
      by (auto simp: feature_page_request_def capped_result_def page_index_allowed_def split: option.splits)
  next
    case allowed: True
    have req: "feature_page_request opts page_size s = Some (FeaturePage (int k) page_size)"
      using allowed lim Suc.prems(1) by (simp add: feature_page_request_def feature_room_def)
    obtain payload p w' m where p: "fetch (FeaturePage (int k) page_size) w = (Inr payload, w')"
       "feature_set_from_dict payload = Inr p" "1 \<le> m" "fs_features p = take m (drop k items)"
       "fs_exceeded p = (k + m < length items)"
      using srv size unfolding honest_feature_server_def by (metis int_one_le_iff_zero_less)
    define new where "new = take m (drop k ids)"
    have "mapE object_id (fs_features p) = Inr (map Some new)"
      by (rule mapE_Inr_list) (simp add: p(4) new_def take_map [symmetric] drop_map [symmetric] ids(1) o_def)
    then have recv: "feature_receive s payload =
        (if new \<noteq> [] \<and> set new \<subseteq> set (fw_previous_ids s) then Inr (False, None)
         else if length (fs_features p) = 0 \<or> \<not> fs_exceeded p then Inr (True, None)
         else Inr (True, Some \<lparr>fw_index = Suc (fw_index s), fw_total = fw_total s + int (length (fs_features p)),
                             fw_offset = fw_offset s + int (length (fs_features p)), fw_previous_ids = new\<rparr>))"
      using p(2) by (simp add: feature_receive_def Let_def)
    have fresh: "\<not> (new \<noteq> [] \<and> set new \<subseteq> set (fw_previous_ids s))"
    proof
      assume a: "new \<noteq> [] \<and> set new \<subseteq> set (fw_previous_ids s)"
      have "set new \<subseteq> set (drop k ids)" by (simp add: new_def set_take_subset)
      with a Suc.prems(2) show False by (cases new) auto
    qed
    have feats: "page_features payload = take m (drop k items)" using p(2,4) by (simp add: page_features_def)
    have sub: "set (fs_features p) \<subseteq> set items" using p(4) by (auto dest: in_set_takeD in_set_dropD)
    show ?thesis
    proof (cases "k + m < length items")
      case False
      then have "feature_receive s payload = Inr (True, None)" using recv fresh p(5) by auto
      then show ?thesis using req p(1,2) feats False sub by (auto simp: capped_result_def)
    next
      case True
      define s' where "s' = \<lparr>fw_index = Suc (fw_index s), fw_total = fw_total s + int m,
          fw_offset = fw_offset s + int m, fw_previous_ids = new\<rparr>"
      have len: "length (fs_features p) = m" using True p(4) by simp
      then have r: "feature_receive s payload = Inr (True, Some s')"
        using recv fresh p(3,5) True unfolding s'_def len by simp
      have "set new \<inter> set (drop (k + m) ids) = {}"
        using distinct_append [of new "drop m (drop k ids)"] distinct_drop [OF ids(2), of k]
        unfolding new_def append_take_drop_id by (simp add: add.commute)
      moreover have "fw_offset s' = int (k + m)" using Suc.prems(1) by (simp add: s'_def)
      moreover have "length items - (k + m) < fuel" using Suc.prems(3) True p(3) by linarith
      ultimately obtain t v where t:
        "walk fuel (feature_page_request opts page_size) feature_receive fetch s' w' = (t, Finished, v)"
        "capped_result (po_max_pages opts) (Suc (fw_index s)) (pages_of t) (drop (k + m) items)"
        "\<forall>p \<in> set (pages_of t). \<exists>fs. feature_set_from_dict p = Inr fs \<and> set (fs_features fs) \<subseteq> set items"
        using Suc.IH [of s' "k + m" w'] by (auto simp: s'_def)
      have split: "drop k items = take m (drop k items) @ drop (k + m) items"
        by (metis add.commute append_take_drop_id drop_drop)
      have flag: "exceeded_flag payload" using feature_set_exceeded [OF p(2)] p(5) True by simp
      have "capped_result (po_max_pages opts) (fw_index s) (payload # pages_of t) (drop k items)"
        using t(2) split feats flag unfolding capped_result_def by (auto split: if_splits)
      then show ?thesis using req p(1,2) r t(1,3) sub by auto
    qed
  qed
qed simp

lemma fold_pages_unlimited:
  "co_last (fold_pages (collect_step None payload conv) a ps) = (if ps = [] then co_last a else Some (payload (last ps))) \<and>
   co_pages (fold_pages (collect_step None payload conv) a ps) = co_pages a + length ps"
  by (induction ps arbitrary: a) (auto simp: collect_step_def extend_collected_def)

definition converted_page :: "string \<Rightarrow> page \<Rightarrow> query_feature list" where
  "converted_page source p = (case convert_feature_page source ''feature-server'' p of Inl _ \<Rightarrow> [] | Inr fs \<Rightarrow> fs)"

lemma mapE_total: "(\<forall>x \<in> set xs. \<exists>y. f x = Inr y) \<Longrightarrow> \<exists>ys. mapE f xs = Inr ys"
  by (induction xs) auto

lemma mapE_append: "mapE f xs = Inr ys \<Longrightarrow> mapE f zs = Inr us \<Longrightarrow> mapE f (xs @ zs) = Inr (ys @ us)"
  by (induction xs arbitrary: ys) (auto simp: bindE_eq_Inr)

lemma convert_honest_page:
  assumes "map object_id items = map (\<lambda>i. Inr (Some i)) ids" "feature_set_from_dict p = Inr fs" "set (fs_features fs) \<subseteq> set items"
  shows "convert_feature_page source ''feature-server'' p = Inr (converted_page source p) \<and>
    mapE (query_feature_from_feature_server source ''feature-server'') (page_features p) = Inr (converted_page source p)"
proof -
  have "\<exists>i. object_id f = Inr (Some i)" if "f \<in> set items" for f
    using arg_cong [OF assms(1), of set] that by auto
  then have "\<forall>f \<in> set (fs_features fs). \<exists>y. query_feature_from_feature_server source ''feature-server'' f = Inr y"
    using assms(3) by (fastforce simp: query_feature_from_feature_server_def)
  from mapE_total [OF this] show ?thesis
    using assms(2) by (auto simp: convert_feature_page_def converted_page_def page_features_def)
qed

lemma convert_honest_pages:
  assumes "\<forall>p \<in> set ps. mapE f (g p) = Inr (h p)"
  shows "mapE f (concat (map g ps)) = Inr (concat (map h ps))"
  using assms by (induction ps) (auto intro: mapE_append)

text \<open>C12. A FeatureServer query without a limit returns every feature of an honest layer, or warns
  that the page cap cut it short; it never raises and never loses features silently.\<close>

theorem feature_query_not_silently_truncated:
  assumes kw: "feature_server_pages_kwargs q opts = Inr kw"
    and srv: "honest_feature_server (qc_feature_server client (fq_source q) kw) items"
    and offset: "extra_offset (fk_extra_params kw) ''resultOffset'' = Inr (int k)"
    and lim: "fq_limit q = None" and size: "0 < fk_page_size kw" and cap: "0 < given_or (fq_max_pages q) 1"
    and fuel: "length items - k < fuel"
  shows "\<exists>fs ex total_count n w' got rest. collect_query_pages fuel client q ''feature-server'' opts w = (Inr (fs, ex, total_count, n), w') \<and>
     drop k items = got @ rest \<and> mapE (query_feature_from_feature_server (fq_source q) ''feature-server'') got = Inr fs \<and>
     (rest = [] \<or> warn_if_truncated q ex n)"
proof -
  have kwf: "fk_limit kw = None" "fk_max_pages kw = fq_max_pages q"
    using kw lim by (auto simp: feature_server_pages_kwargs_def bindE_eq_Inr)
  define paging where "paging = feature_paging kw"
  have pg: "po_limit paging = None" "po_max_pages paging = fq_max_pages q" by (simp_all add: paging_def feature_paging_def kwf)
  have pos: "fq_max_pages q = Some m \<Longrightarrow> 0 < m" for m using cap by (simp add: given_or_def)
  define s where "s = \<lparr>fw_index = 0, fw_total = 0, fw_offset = int k, fw_previous_ids = []\<rparr>"
  have start: "feature_start paging (fk_page_size kw) (fk_extra_params kw) = Inr (Some s)"
    using size pos offset by (auto simp: feature_start_def start_feature_walk_def pg s_def split: option.splits)
  obtain ids where ids: "map object_id items = map (\<lambda>i. Inr (Some i)) ids" "distinct ids"
    using srv by (auto simp: honest_feature_server_def)
  have st: "fw_offset s = int k" "set (fw_previous_ids s) \<inter> set (drop k ids) = {}" "fw_index s = 0" by (simp_all add: s_def)
  obtain t v where t: "walk fuel (feature_page_request paging (fk_page_size kw)) feature_receive
       (qc_feature_server client (fq_source q) kw) s w = (t, Finished, v)"
     "capped_result (fq_max_pages q) 0 (pages_of t) (drop k items)"
     "\<forall>p \<in> set (pages_of t). \<exists>fs. feature_set_from_dict p = Inr fs \<and> set (fs_features fs) \<subseteq> set items"
    using feature_walk_capped [OF srv ids pg(1) size st(1,2) fuel, of w] unfolding pg(2) st(3) by blast
  let ?conv = "converted_page (fq_source q)"
  have conv: "convert_feature_page (fq_source q) ''feature-server'' p = Inr (?conv p)"
     "mapE (query_feature_from_feature_server (fq_source q) ''feature-server'') (page_features p) = Inr (?conv p)"
    if "p \<in> set (pages_of t)" for p
    using convert_honest_page [OF ids(1)] t(3) that by blast+
  define a where "a = fold_pages (collect_step None (\<lambda>p. p) ?conv) nothing_collected (pages_of t)"
  obtain w' where d: "drive fuel (feature_page_request paging (fk_page_size kw)) feature_receive
      (qc_feature_server client (fq_source q) kw)
      (collect_body None (\<lambda>p. p) (convert_feature_page (fq_source q) ''feature-server'')) s nothing_collected w = (Finished, a, w')"
    using drive_walk [OF t(1), of "collect_body None (\<lambda>p. p) (convert_feature_page (fq_source q) ''feature-server'')"
        "collect_step None (\<lambda>p. p) ?conv" nothing_collected]
      collect_body_step [of "convert_feature_page (fq_source q) ''feature-server''" "\<lambda>p. p" _ ?conv None] conv(1)
    unfolding a_def by blast
  have feats: "co_features a = concat (map ?conv (pages_of t))"
    unfolding a_def using fold_pages_collect [of None nothing_collected "\<lambda>p. p" ?conv "pages_of t"]
    by (simp add: wanted_def nothing_collected_def)
  have got: "mapE (query_feature_from_feature_server (fq_source q) ''feature-server'') (concat (map page_features (pages_of t))) = Inr (co_features a)"
    unfolding feats by (rule convert_honest_pages) (use conv(2) in blast)
  have last: "co_last a = (if pages_of t = [] then None else Some (last (pages_of t)))" "co_pages a = length (pages_of t)"
    unfolding a_def using fold_pages_unlimited [of "\<lambda>p. p" ?conv nothing_collected "pages_of t"]
    by (simp_all add: nothing_collected_def)
  define ex where "ex = (case co_last a of None \<Rightarrow> False | Some p \<Rightarrow> truthy (get_or_none p ''exceededTransferLimit''))"
  have run: "collect_query_pages fuel client q ''feature-server'' opts w
      = (Inr (co_features a, ex, feature_server_count (co_last a), co_pages a), w')"
    using kw start d by (simp add: collect_query_pages_def collect_feature_server_def run_collect_def lim ex_def paging_def)
  have "\<exists>rest. drop k items = concat (map page_features (pages_of t)) @ rest \<and> (rest = [] \<or> warn_if_truncated q ex (co_pages a))"
    using t(2) unfolding capped_result_def
  proof (elim disjE exE conjE)
    fix n rest assume c: "fq_max_pages q = Some n" "n \<le> int (0 + length (pages_of t))"
      "drop k items = concat (map page_features (pages_of t)) @ rest" "pages_of t \<noteq> [] \<longrightarrow> exceeded_flag (last (pages_of t))"
    then have "pages_of t \<noteq> []" using pos by fastforce
    then have "ex" using c(4) last(1) by (simp add: ex_def exceeded_flag_def)
    then show ?thesis using c last(2) lim by (auto simp: warn_if_truncated_def)
  qed auto
  with run got show ?thesis by blast
qed

definition capped_query :: feature_query where
  "capped_query = sample_query\<lparr>fq_max_pages := Some 1, fq_extra_params := []\<rparr>"

theorem feature_query_not_silently_truncated_witness:
  "\<exists>fs ex total_count n w'. collect_query_pages 5 stub_client capped_query ''feature-server'' () () = (Inr (fs, ex, total_count, n), w')"
proof -
  obtain kw where kw: "feature_server_pages_kwargs capped_query () = Inr kw" "fk_page_size kw = 1000"
      "extra_offset (fk_extra_params kw) ''resultOffset'' = Inr (int 0)"
    by (simp add: feature_server_pages_kwargs_def feature_server_extra_params_def capped_query_def sample_query_def
       statistics_params_def joined_text_def dict_setdefault_def dict_get_Cons dict_set_def query_page_size_def given_or_def
       extra_offset_def to_int_def)
  have "honest_feature_server (qc_feature_server stub_client (fq_source capped_query) kw) (map feature_from_dict two_features)"
    using layer_server_honest [of 0] by (simp add: stub_client_def)
  from feature_query_not_silently_truncated [OF kw(1) this kw(3), of 5 "()"] kw(2)
  show ?thesis by (fastforce simp: capped_query_def sample_query_def given_or_def two_features_def)
qed

end
