(* ===== verification/Http_Base.thy ===== *)
theory Http_Base
  imports Py_Prelude
begin

text \<open>
  What the SDK reads of an HTTP response, and the parsing of the \<open>Retry-After\<close> header
  (\<open>honua_sdk/_http.py\<close>).

  The HTTP library itself is not part of the repository: a response is the values the SDK
  reads from it. \<open>header_get\<close> is the library's header lookup and \<open>header_items\<close> its items;
  \<open>body_json\<close> is \<open>None\<close> where \<open>response.json()\<close> raises \<open>ValueError\<close>.
\<close>

record http_response =
  status_code :: int
  reason_phrase :: string
  header_get :: "string \<Rightarrow> string option"
  header_items :: "(string \<times> string) list"
  has_content :: bool
  body_json :: "pyval option"
  body_text :: string

text \<open>
  \<open>parsedate\<close> stands for \<open>email.utils.parsedate_to_datetime\<close> (\<open>None\<close> where it raises) and
  \<open>now\<close> for \<open>datetime.now(UTC)\<close>.
\<close>

definition parse_retry_after ::
  "(string \<Rightarrow> py_datetime option) \<Rightarrow> rat \<Rightarrow> string option \<Rightarrow> rat option" where
  "parse_retry_after parsedate now value =
     (case value of None \<Rightarrow> None
      | Some v \<Rightarrow>
          (let text = str_strip v in
           if text = [] then None
           else (case py_float text of
               Some (FFinite seconds) \<Rightarrow> Some (max 0 seconds)
             | _ \<Rightarrow>
                 (case parsedate text of None \<Rightarrow> None
                  | Some target \<Rightarrow> Some (max 0 (datetime_instant target - now))))))"

lemma parse_retry_after_nonneg: "parse_retry_after pd now v = Some d \<Longrightarrow> 0 \<le> d"
  by (auto simp: parse_retry_after_def Let_def split: option.splits if_splits pyfloat.splits)

lemma parse_retry_after_None [simp]: "parse_retry_after pd now None = None"
  by (simp add: parse_retry_after_def)

end
