(* ===== verification/Failures.thy ===== *)
theory Failures
  imports Http_Base
begin

text \<open>
  Terminal failure receipts (\<open>honua_sdk/errors.py\<close>): how a failed HTTP or gRPC call is
  classified, which of its metadata is kept, and the exception classes built from it.

  \<open>str_of\<close> and \<open>decode\<close> stand for \<open>str(value)\<close> of a value that is no string and for
  \<open>bytes.decode("utf-8", errors="replace")\<close>. A number that Python converts with \<open>float\<close> is
  its exact value; an \<open>int\<close> beyond the largest float raises \<open>OverflowError\<close>, which is a branch
  of the model (\<open>Inl Overflow\<close>).
\<close>

section \<open>Data\<close>

datatype failure_kind =
    UNKNOWN | AUTHENTICATION | AUTHORIZATION | NOT_FOUND | VALIDATION | CONFLICT | THROTTLED | UNAVAILABLE

definition failure_kind_text :: "failure_kind \<Rightarrow> string" where
  "failure_kind_text k = (case k of
     UNKNOWN \<Rightarrow> ''unknown'' | AUTHENTICATION \<Rightarrow> ''authentication'' | AUTHORIZATION \<Rightarrow> ''authorization''
   | NOT_FOUND \<Rightarrow> ''not-found'' | VALIDATION \<Rightarrow> ''validation'' | CONFLICT \<Rightarrow> ''conflict''
   | THROTTLED \<Rightarrow> ''throttled'' | UNAVAILABLE \<Rightarrow> ''unavailable'')"

definition all_failure_kinds :: "failure_kind list" where
  "all_failure_kinds =
     [UNKNOWN, AUTHENTICATION, AUTHORIZATION, NOT_FOUND, VALIDATION, CONFLICT, THROTTLED, UNAVAILABLE]"

record field_failure =
  ff_code :: "string option"
  ff_severity :: "string option"
  ff_path :: "string option"
  ff_field_id :: "string option"
  ff_item_index :: "int option"
  ff_message :: "string option"

type_synonym protocol_values = "(string, string list) pydict"

record protocol_metadata =
  pm_initial :: protocol_values
  pm_trailing :: protocol_values

record failure_receipt =
  fr_transport_status :: "int option"
  fr_protocol_code :: "string option"
  fr_kind :: failure_kind
  fr_code :: string
  fr_retryable :: bool
  fr_retry_after_seconds :: "pyfloat option"
  fr_correlation_id :: "string option"
  fr_field_errors :: "field_failure list"
  fr_protocol_metadata :: protocol_metadata

datatype receipt_error = Overflow | IndexErr

section \<open>Classification tables\<close>

definition sensitive_metadata :: "string set" where
  "sensitive_metadata = {''authorization'', ''cookie'', ''set-cookie'', ''x-api-key''}"

definition http_kinds :: "int \<Rightarrow> failure_kind option" where
  "http_kinds = [400 \<mapsto> VALIDATION, 401 \<mapsto> AUTHENTICATION, 403 \<mapsto> AUTHORIZATION, 404 \<mapsto> NOT_FOUND,
     409 \<mapsto> CONFLICT, 412 \<mapsto> CONFLICT, 422 \<mapsto> VALIDATION, 428 \<mapsto> CONFLICT, 429 \<mapsto> THROTTLED,
     498 \<mapsto> AUTHENTICATION, 499 \<mapsto> AUTHENTICATION]"

definition retryable_http_codes :: "int set" where
  "retryable_http_codes = {408, 429, 500, 502, 503, 504}"

definition server_error_min :: int where
  "server_error_min = 500"

definition http_kind :: "int \<Rightarrow> int \<Rightarrow> failure_kind" where
  "http_kind code transport_status =
     (case http_kinds code of
        Some kind \<Rightarrow> kind
      | None \<Rightarrow> if code \<in> retryable_http_codes \<or> server_error_min \<le> transport_status
                then UNAVAILABLE else UNKNOWN)"

definition grpc_kind :: "int \<Rightarrow> failure_kind" where
  "grpc_kind code =
     (case ([16 \<mapsto> AUTHENTICATION, 7 \<mapsto> AUTHORIZATION, 5 \<mapsto> NOT_FOUND, 3 \<mapsto> VALIDATION, 6 \<mapsto> CONFLICT,
             10 \<mapsto> CONFLICT, 8 \<mapsto> THROTTLED, 4 \<mapsto> UNAVAILABLE, 14 \<mapsto> UNAVAILABLE]) code of
        Some kind \<Rightarrow> kind | None \<Rightarrow> UNKNOWN)"

definition default_code :: "failure_kind \<Rightarrow> string" where
  "default_code kind = (case kind of
     AUTHENTICATION \<Rightarrow> ''authentication_required'' | AUTHORIZATION \<Rightarrow> ''permission_denied''
   | NOT_FOUND \<Rightarrow> ''resource_not_found'' | VALIDATION \<Rightarrow> ''validation_failed''
   | CONFLICT \<Rightarrow> ''resource_conflict'' | THROTTLED \<Rightarrow> ''rate_limit_exceeded''
   | UNAVAILABLE \<Rightarrow> ''service_unavailable'' | UNKNOWN \<Rightarrow> ''unknown_failure'')"

text \<open>\<open>_kind\<close>: a string that names a kind, else the fallback.\<close>

definition declared_kind :: "pyval \<Rightarrow> failure_kind \<Rightarrow> failure_kind" where
  "declared_kind value fallback =
     (case value of
        PStr s \<Rightarrow> (case find (\<lambda>k. failure_kind_text k = s) all_failure_kinds of Some k \<Rightarrow> k | None \<Rightarrow> fallback)
      | _ \<Rightarrow> fallback)"

section \<open>Metadata, field errors, numbers\<close>

definition metadata_item :: "(pyval \<Rightarrow> string) \<Rightarrow> (8 word list \<Rightarrow> string) \<Rightarrow> pyval \<Rightarrow> string" where
  "metadata_item str_of decode item =
     (case item of PBytes b \<Rightarrow> decode b | PStr s \<Rightarrow> s | v \<Rightarrow> str_of v)"

definition metadata_sequence :: "pyval \<Rightarrow> pyval list" where
  "metadata_sequence value = (case value of PList xs \<Rightarrow> xs | PTuple xs \<Rightarrow> xs | v \<Rightarrow> [v])"

text \<open>\<open>_metadata\<close>: the loop over the items of the mapping.\<close>

definition metadata ::
  "(pyval \<Rightarrow> string) \<Rightarrow> (8 word list \<Rightarrow> string) \<Rightarrow> (string, pyval) pydict \<Rightarrow> protocol_values" where
  "metadata str_of decode kvs =
     foldl (\<lambda>result (key, value).
        let normalized = str_lower key in
        if normalized \<in> sensitive_metadata then result
        else dict_set result normalized (map (metadata_item str_of decode) (metadata_sequence value)))
       [] kvs"

text \<open>\<open>_first\<close>: the first value of the first key that has any.\<close>

fun first_of :: "protocol_values \<Rightarrow> string list \<Rightarrow> string option" where
  "first_of md [] = None"
| "first_of md (key # keys) =
     (case dict_get md key of Some (v # _) \<Rightarrow> Some v | _ \<Rightarrow> first_of md keys)"

text \<open>\<open>a or b\<close> on two optional strings: an empty string counts as missing.\<close>

definition or_text :: "string option \<Rightarrow> string option \<Rightarrow> string option" where
  "or_text a b = (case a of Some (c # cs) \<Rightarrow> a | _ \<Rightarrow> b)"

definition field_errors :: "pyval \<Rightarrow> field_failure list" where
  "field_errors value =
     (case value of
        PList items \<Rightarrow>
          concat (map (\<lambda>item. case item of
              PDict d \<Rightarrow>
                [\<lparr>ff_code = as_str (get_or_none d ''code''), ff_severity = as_str (get_or_none d ''severity''),
                  ff_path = as_str (get_or_none d ''path''), ff_field_id = as_str (get_or_none d ''fieldId''),
                  ff_item_index = as_int (get_or_none d ''itemIndex''),
                  ff_message = as_str (get_or_none d ''message'')\<rparr>]
            | _ \<Rightarrow> []) items)
      | PDict d \<Rightarrow>
          concat (map (\<lambda>(field_id, messages). case messages of
              PList ms \<Rightarrow>
                concat (map (\<lambda>m. case m of
                    PStr s \<Rightarrow> [\<lparr>ff_code = None, ff_severity = None, ff_path = Some field_id,
                                ff_field_id = Some field_id, ff_item_index = None, ff_message = Some s\<rparr>]
                  | _ \<Rightarrow> []) ms)
            | _ \<Rightarrow> []) d)
      | _ \<Rightarrow> [])"

text \<open>\<open>_number\<close>: a non-negative \<open>int\<close> or \<open>float\<close> that is no \<open>bool\<close>.\<close>

definition number_nonneg :: "pyfloat \<Rightarrow> pyfloat option" where
  "number_nonneg x = (case x of
     FFinite v \<Rightarrow> if 0 \<le> v then Some x else None
   | FInfinite negative \<Rightarrow> if negative then None else Some x
   | FNan \<Rightarrow> None)"

definition number :: "pyval \<Rightarrow> receipt_error + pyfloat option" where
  "number value = (case value of
     PInt i \<Rightarrow> if 0 \<le> i then (if float_overflows (of_int i) then Inl Overflow else Inr (Some (FFinite (of_int i))))
               else Inr None
   | PFloat w \<Rightarrow> Inr (number_nonneg (float_of_double w))
   | _ \<Rightarrow> Inr None)"

definition number_from_string :: "string option \<Rightarrow> pyfloat option" where
  "number_from_string value =
     (case value of None \<Rightarrow> None
      | Some s \<Rightarrow> (case py_float (str_strip s) of None \<Rightarrow> None | Some x \<Rightarrow> number_nonneg x))"

definition text_val :: "string option \<Rightarrow> pyval" where
  "text_val s = (case s of None \<Rightarrow> PNone | Some x \<Rightarrow> PStr x)"

definition correlation_headers :: "string list" where
  "correlation_headers = [''x-correlation-id'', ''honua-request-id'', ''x-request-id'', ''honua-correlation-id'']"

section \<open>Receipts\<close>

text \<open>\<open>_http_failure_receipt\<close>. \<open>payload\<close> is the body when it is a mapping, \<open>source\<close> its error
  envelope when that is one.\<close>

definition receipt_root :: "pyval \<Rightarrow> (string, pyval) pydict" where
  "receipt_root body = (case body of PDict d \<Rightarrow> d | _ \<Rightarrow> [])"

definition receipt_source :: "(string, pyval) pydict \<Rightarrow> (string, pyval) pydict" where
  "receipt_source payload = (case get_or_none payload ''error'' of PDict d \<Rightarrow> d | _ \<Rightarrow> payload)"

definition http_failure_receipt ::
  "(pyval \<Rightarrow> string) \<Rightarrow> (8 word list \<Rightarrow> string) \<Rightarrow> int \<Rightarrow> pyval \<Rightarrow> (string, pyval) pydict \<Rightarrow>
   int option \<Rightarrow> pyfloat option \<Rightarrow> string option \<Rightarrow> receipt_error + failure_receipt" where
  "http_failure_receipt str_of decode transport_status body headers protocol_code retry_after correlation =
     (let payload = receipt_root body;
          source = receipt_source payload;
          classification_code = (case protocol_code of Some c \<Rightarrow> c | None \<Rightarrow> transport_status);
          kind = declared_kind (get_or_none source ''kind'') (http_kind classification_code transport_status);
          declared = py_or (get_or_none source ''machineCode'') (get_or_none source ''code'');
          code = (case declared of PStr s \<Rightarrow> s | _ \<Rightarrow> default_code kind);
          retryable = (case get_or_none source ''retryable'' of
              PBool b \<Rightarrow> b
            | _ \<Rightarrow> classification_code \<in> retryable_http_codes \<or> transport_status \<in> retryable_http_codes);
          safe_headers = metadata str_of decode headers;
          correlated = py_or (py_or (py_or (get_or_none source ''correlationId'') (get_or_none payload ''correlationId''))
                                (text_val (first_of safe_headers correlation_headers)))
                         (text_val correlation)
      in bindE (number (get_or_none source ''retryAfterSeconds'')) (\<lambda>declared_retry_after.
        Inr \<lparr>fr_transport_status = Some transport_status,
             fr_protocol_code = map_option str_of_int protocol_code,
             fr_kind = kind, fr_code = code, fr_retryable = retryable,
             fr_retry_after_seconds =
               (case declared_retry_after of Some x \<Rightarrow> Some x | None \<Rightarrow> retry_after),
             fr_correlation_id = as_str correlated,
             fr_field_errors = field_errors (py_or (get_or_none source ''errors'') (get_or_none payload ''errors'')),
             fr_protocol_metadata = \<lparr>pm_initial = safe_headers, pm_trailing = []\<rparr>\<rparr>))"

text \<open>\<open>_grpc_code_number\<close>, on \<open>code.value\<close> or the code itself when it has none.\<close>

definition grpc_code_number :: "pyval \<Rightarrow> receipt_error + int" where
  "grpc_code_number code =
     bindE (case code of PTuple [] \<Rightarrow> Inl IndexErr | PTuple (v # _) \<Rightarrow> Inr v | v \<Rightarrow> Inr v)
       (\<lambda>value. Inr (case as_int value of Some n \<Rightarrow> n | None \<Rightarrow> 2))"

text \<open>\<open>_grpc_failure_receipt\<close>; \<open>json_loads\<close> is \<open>None\<close> where \<open>json.loads\<close> raises
  \<open>JSONDecodeError\<close>.\<close>

definition grpc_failure_receipt ::
  "(pyval \<Rightarrow> string) \<Rightarrow> (8 word list \<Rightarrow> string) \<Rightarrow> (string \<Rightarrow> pyval option) \<Rightarrow> pyval \<Rightarrow>
   (string, pyval) pydict \<Rightarrow> (string, pyval) pydict \<Rightarrow> receipt_error + failure_receipt" where
  "grpc_failure_receipt str_of decode json_loads code initial_metadata trailing_metadata =
     bindE (grpc_code_number code) (\<lambda>num.
       (let initial = metadata str_of decode initial_metadata;
            trailing = metadata str_of decode trailing_metadata;
            lookup = (\<lambda>keys. or_text (first_of trailing keys) (first_of initial keys));
            kind = declared_kind (text_val (lookup [''honua-error-kind''])) (grpc_kind num);
            machine_code = lookup [''honua-error-code''];
            declared_retryable = lookup [''honua-retryable'', ''honua-error-retryable''];
            retryable = (if declared_retryable \<in> {Some ''true'', Some ''false''}
                         then declared_retryable = Some ''true'' else num \<in> {4, 8, 10, 14});
            retry_after = number_from_string (lookup [''retry-after'']);
            details = lookup [''honua-error-details''];
            errors = (case details of Some (c # cs) \<Rightarrow>
                          (case json_loads (c # cs) of Some v \<Rightarrow> v | None \<Rightarrow> PNone) | _ \<Rightarrow> PNone)
        in Inr \<lparr>fr_transport_status = None, fr_protocol_code = Some (str_of_int num),
             fr_kind = kind,
             fr_code = (case machine_code of Some (c # cs) \<Rightarrow> c # cs | _ \<Rightarrow> default_code kind),
             fr_retryable = retryable, fr_retry_after_seconds = retry_after,
             fr_correlation_id = lookup correlation_headers,
             fr_field_errors = field_errors errors,
             fr_protocol_metadata = \<lparr>pm_initial = initial, pm_trailing = trailing\<rparr>\<rparr>))"

section \<open>Lemmas\<close>

lemma failure_kind_text_inj: "failure_kind_text k = failure_kind_text k' \<Longrightarrow> k = k'"
  by (cases k; cases k') (simp_all add: failure_kind_text_def)

lemma declared_kind_text [simp]: "declared_kind (PStr (failure_kind_text k)) fallback = k"
  by (cases k) (simp_all add: declared_kind_def all_failure_kinds_def failure_kind_text_def)

lemma default_code_inj: "default_code k = default_code k' \<Longrightarrow> k = k'"
  by (cases k; cases k') (simp_all add: default_code_def)

text \<open>The keys \<open>metadata\<close> keeps are lower case and never sensitive.\<close>

definition safe_key :: "string \<Rightarrow> bool" where
  "safe_key k \<longleftrightarrow> k \<notin> sensitive_metadata \<and> str_lower k = k"

lemma metadata_keys_step:
  assumes "\<forall>k \<in> set (dict_keys acc). safe_key k"
  shows "\<forall>k \<in> set (dict_keys (foldl (\<lambda>result (key, value).
        let normalized = str_lower key in
        if normalized \<in> sensitive_metadata then result
        else dict_set result normalized (map (metadata_item s d) (metadata_sequence value))) acc kvs)).
      safe_key k"
  using assms
proof (induction kvs arbitrary: acc)
  case Nil
  then show ?case by simp
next
  case (Cons kv kvs)
  obtain key v where kv: "kv = (key, v)" by (cases kv)
  let ?acc' = "if str_lower key \<in> sensitive_metadata then acc
     else dict_set acc (str_lower key) (map (metadata_item s d) (metadata_sequence v))"
  have "\<forall>k \<in> set (dict_keys ?acc'). safe_key k"
    using Cons.prems by (simp add: safe_key_def)
  from Cons.IH [OF this] show ?case by (simp add: kv Let_def)
qed

lemma metadata_keys: "k \<in> set (dict_keys (metadata s d kvs)) \<Longrightarrow> safe_key k"
  using metadata_keys_step [of "[]" s d kvs] by (simp add: metadata_def)

lemma first_of_Some: "first_of md keys = Some v \<Longrightarrow> \<exists>k \<in> set keys. \<exists>vs. dict_get md k = Some (v # vs)"
  by (induction keys) (auto split: option.splits list.splits)

lemma number_nonneg_Some: "number_nonneg x = Some y \<Longrightarrow> y = x \<and> (case x of FFinite v \<Rightarrow> 0 \<le> v | FInfinite n \<Rightarrow> \<not> n | FNan \<Rightarrow> False)"
  by (auto simp: number_nonneg_def split: pyfloat.splits if_splits)

lemmas http_receipt_simps = http_failure_receipt_def Let_def bindE_eq_Inr

section \<open>Properties\<close>

lemma number_eq_Inl:
  "number v = Inl e \<longleftrightarrow> (\<exists>i. v = PInt i \<and> 0 \<le> i \<and> float_overflows (of_int i) \<and> e = Overflow)"
  by (cases v) (auto simp: number_def)

lemma http_failure_receipt_InrD:
  assumes "http_failure_receipt s d status body headers pc ra corr = Inr r"
  shows "fr_protocol_metadata r = \<lparr>pm_initial = metadata s d headers, pm_trailing = []\<rparr>"
    and "fr_kind r = declared_kind (get_or_none (receipt_source (receipt_root body)) ''kind'')
           (http_kind (case pc of Some c \<Rightarrow> c | None \<Rightarrow> status) status)"
    and "fr_transport_status r = Some status"
    and "fr_protocol_code r = map_option str_of_int pc"
  using assms by (auto simp: http_receipt_simps)

lemma grpc_failure_receipt_InrD:
  assumes "grpc_failure_receipt s d js code im tm = Inr r"
  shows "fr_protocol_metadata r = \<lparr>pm_initial = metadata s d im, pm_trailing = metadata s d tm\<rparr>"
  using assms by (auto simp: grpc_failure_receipt_def Let_def bindE_eq_Inr)

lemma receipt_of_plain_body:
  assumes "\<not> is_mapping body"
  shows "http_failure_receipt s d status body headers None ra corr =
    Inr \<lparr>fr_transport_status = Some status, fr_protocol_code = None,
         fr_kind = http_kind status status, fr_code = default_code (http_kind status status),
         fr_retryable = (status \<in> retryable_http_codes), fr_retry_after_seconds = ra,
         fr_correlation_id = as_str (py_or (text_val (first_of (metadata s d headers) correlation_headers))
            (text_val corr)),
         fr_field_errors = [],
         fr_protocol_metadata = \<lparr>pm_initial = metadata s d headers, pm_trailing = []\<rparr>\<rparr>"
proof -
  have "receipt_root body = []" using assms by (cases body) (auto simp: receipt_root_def is_mapping_def)
  then show ?thesis
    by (simp add: http_failure_receipt_def receipt_source_def get_or_none_def declared_kind_def
        py_or_def number_def field_errors_def Let_def)
qed

text \<open>A receipt never retains credential-bearing metadata: whatever the casing of the
  headers or metadata keys received, no key of the initial or the trailing metadata kept is a
  sensitive one.\<close>

theorem receipt_drops_sensitive_metadata:
  assumes "http_failure_receipt s d status body headers pc ra corr = Inr r \<or>
           grpc_failure_receipt s d js code im tm = Inr r"
    and "k \<in> set (dict_keys (pm_initial (fr_protocol_metadata r)))
          \<union> set (dict_keys (pm_trailing (fr_protocol_metadata r)))"
  shows "str_lower k \<notin> sensitive_metadata"
proof -
  have "safe_key k"
    using assms metadata_keys [of k s d]
    by (auto dest!: http_failure_receipt_InrD(1) grpc_failure_receipt_InrD)
  then show ?thesis by (simp add: safe_key_def)
qed

definition example_headers :: "(string, pyval) pydict" where
  "example_headers = [(''Authorization'', PStr ''Bearer t''), (''Retry-After'', PStr ''7'')]"

lemma example_metadata: "metadata s d example_headers = [(''retry-after'', [''7''])]"
proof -
  have "str_lower ''Authorization'' = ''authorization''" "str_lower ''Retry-After'' = ''retry-after''"
    by (simp_all add: str_lower_def)
  then show ?thesis
    by (simp add: metadata_def example_headers_def sensitive_metadata_def metadata_item_def
        metadata_sequence_def dict_set_def)
qed

theorem receipt_drops_sensitive_metadata_witness:
  "\<exists>r. http_failure_receipt (\<lambda>_. []) (\<lambda>_. []) 429 PNone example_headers None None None = Inr r \<and>
     str_lower ''retry-after'' \<notin> sensitive_metadata"
proof -
  obtain r where r: "http_failure_receipt (\<lambda>_. []) (\<lambda>_. []) 429 PNone example_headers None None None = Inr r"
    by (simp add: receipt_of_plain_body is_mapping_def)
  have "''retry-after'' \<in> set (dict_keys (pm_initial (fr_protocol_metadata r)))
      \<union> set (dict_keys (pm_trailing (fr_protocol_metadata r)))"
    by (simp add: http_failure_receipt_InrD(1) [OF r] example_metadata dict_keys_def)
  from receipt_drops_sensitive_metadata [OF disjI1 [OF r] this] r show ?thesis by blast
qed

text \<open>A response whose body is no mapping is judged by its status alone, and a retry is
  advised only for throttling and unavailability: authentication, validation, conflict and
  not-found failures are never called retryable.\<close>

theorem plain_failure_retryable_kinds:
  assumes "\<not> is_mapping body"
    and "http_failure_receipt s d status body headers None ra corr = Inr r"
  shows "fr_kind r = http_kind status status \<and> fr_code r = default_code (fr_kind r) \<and>
    (fr_retryable r \<longleftrightarrow> status \<in> retryable_http_codes) \<and>
    (fr_retryable r \<longrightarrow> fr_kind r \<in> {THROTTLED, UNAVAILABLE})"
  using assms(2)
  by (auto simp: receipt_of_plain_body [OF assms(1)] retryable_http_codes_def http_kind_def http_kinds_def)

theorem plain_failure_retryable_kinds_witness:
  "\<exists>r. http_failure_receipt (\<lambda>_. []) (\<lambda>_. []) 429 PNone [] None None None = Inr r \<and>
     fr_kind r = THROTTLED \<and> fr_retryable r"
proof -
  have m: "\<not> is_mapping PNone" by (simp add: is_mapping_def)
  obtain r where r: "http_failure_receipt (\<lambda>_. []) (\<lambda>_. []) 429 PNone [] None None None = Inr r"
    by (simp add: receipt_of_plain_body m)
  from plain_failure_retryable_kinds [OF m r] r show ?thesis
    by (auto simp: http_kind_def http_kinds_def retryable_http_codes_def)
qed

text \<open>Building a receipt fails in one case only: the failure document declares a
  \<open>retryAfterSeconds\<close> that is a non-negative integer too large for a float; then
  \<open>OverflowError\<close> replaces the failure being reported.\<close>

theorem receipt_raises_iff:
  "http_failure_receipt s d status body headers pc ra corr = Inl e \<longleftrightarrow>
    e = Overflow \<and> (\<exists>i. get_or_none (receipt_source (receipt_root body)) ''retryAfterSeconds'' = PInt i
      \<and> 0 \<le> i \<and> float_overflows (of_int i))"
  by (auto simp: http_failure_receipt_def Let_def bindE_eq_Inl number_eq_Inl)

end
