(* ===== verification/Auth.thy ===== *)
theory Auth
  imports Py_Prelude
begin

text \<open>
  Credentials (\<open>honua_sdk/auth.py\<close>): bearer tokens and their coercion from what a refresh
  callback returns, the token cache, the static, callable and refreshing providers, and the
  normalisation of auth headers.

  A stored expiry is an instant in seconds since the epoch. The refresh and revoke callbacks
  and the clock are arguments over a world of any type; \<open>fromisoformat\<close> stands for
  \<open>datetime.fromisoformat\<close> (\<open>None\<close> where it raises \<open>ValueError\<close>). The asynchronous provider
  runs the same steps with awaited callbacks, one caller at a time under its lock.
\<close>

section \<open>Errors and tokens\<close>

text \<open>\<open>RangeError\<close> is the \<open>OverflowError\<close> or \<open>ValueError\<close> of an instant or a duration that
  Python cannot represent; \<open>CallbackError\<close> is whatever a callback raised.\<close>

datatype auth_error = ValueError string | TypeError string | RangeError | CallbackError string

record bearer_token =
  access_token :: string
  expires_at :: "rat option"
  token_type :: string

text \<open>\<open>BearerToken.__post_init__\<close>.\<close>

definition make_bearer_token :: "string \<Rightarrow> rat option \<Rightarrow> string \<Rightarrow> auth_error + bearer_token" where
  "make_bearer_token token expires ttype =
     (if token = [] then Inl (ValueError ''access_token must be non-empty.'')
      else if ttype = [] then Inl (ValueError ''token_type must be non-empty.'')
      else Inr \<lparr>access_token = token, expires_at = expires, token_type = ttype\<rparr>)"

text \<open>The ranges of \<open>timedelta\<close> (in seconds) and \<open>datetime\<close> (years 1 to 9999).\<close>

definition timedelta_ok :: "rat \<Rightarrow> bool" where
  "timedelta_ok s \<longleftrightarrow> - (999999999 * 86400) \<le> s \<and> s < 1000000000 * 86400"

definition instant_ok :: "rat \<Rightarrow> bool" where
  "instant_ok t \<longleftrightarrow> -62135596800 \<le> t \<and> t < 253402300800"

definition timedelta_seconds :: "pyfloat \<Rightarrow> auth_error + rat" where
  "timedelta_seconds x = (case x of
     FFinite s \<Rightarrow> if timedelta_ok s then Inr s else Inl RangeError
   | _ \<Rightarrow> Inl RangeError)"

definition from_expires_in :: "rat \<Rightarrow> string \<Rightarrow> pyfloat \<Rightarrow> string \<Rightarrow> auth_error + bearer_token" where
  "from_expires_in base token expires_in ttype =
     bindE (timedelta_seconds expires_in) (\<lambda>s.
       if instant_ok (base + s) then make_bearer_token token (Some (base + s)) ttype else Inl RangeError)"

definition authorization_value :: "bearer_token \<Rightarrow> string" where
  "authorization_value t = token_type t @ '' '' @ access_token t"

definition expires_within :: "bearer_token \<Rightarrow> rat \<Rightarrow> rat \<Rightarrow> bool" where
  "expires_within t window now =
     (case expires_at t of None \<Rightarrow> False | Some e \<Rightarrow> e \<le> now + window)"

section \<open>Coercion\<close>

text \<open>What a refresh callback or a caller hands over: a token, a string, a mapping whose
  values are JSON values or datetimes, or something else.\<close>

datatype token_field = FieldVal pyval | FieldDatetime py_datetime

datatype token_value =
    TVToken bearer_token
  | TVStr string
  | TVMapping "(string \<times> token_field) list"
  | TVOther

definition field_get :: "(string, token_field) pydict \<Rightarrow> string \<Rightarrow> token_field" where
  "field_get d k = (case dict_get d k of None \<Rightarrow> FieldVal PNone | Some v \<Rightarrow> v)"

definition field_truthy :: "token_field \<Rightarrow> bool" where
  "field_truthy f = (case f of FieldVal v \<Rightarrow> truthy v | FieldDatetime _ \<Rightarrow> True)"

fun first_present :: "(string, token_field) pydict \<Rightarrow> string list \<Rightarrow> token_field" where
  "first_present d [] = FieldVal PNone"
| "first_present d (k # ks) = (if field_get d k \<noteq> FieldVal PNone then field_get d k else first_present d ks)"

text \<open>\<open>float(value)\<close> of an \<open>int\<close> or \<open>float\<close>; \<open>None\<close> for other types.\<close>

definition float_of_field :: "token_field \<Rightarrow> (auth_error + pyfloat) option" where
  "float_of_field f = (case f of
     FieldVal (PFloat w) \<Rightarrow> Some (Inr (float_of_double w))
   | FieldVal v \<Rightarrow> (case as_int v of
        Some i \<Rightarrow> Some (if float_overflows (of_int i) then Inl RangeError else Inr (FFinite (of_int i)))
      | None \<Rightarrow> None)
   | FieldDatetime _ \<Rightarrow> None)"

definition replace_Z :: "string \<Rightarrow> string" where
  "replace_Z s = concat (map (\<lambda>c. if c = CHR ''Z'' then ''+00:00'' else [c]) s)"

definition parse_expires_at ::
  "(string \<Rightarrow> py_datetime option) \<Rightarrow> token_field \<Rightarrow> auth_error + rat option" where
  "parse_expires_at fromisoformat value =
     (case value of
        FieldVal PNone \<Rightarrow> Inr None
      | FieldDatetime d \<Rightarrow> Inr (Some (datetime_instant d))
      | FieldVal (PStr s) \<Rightarrow> Inr (map_option datetime_instant (fromisoformat (replace_Z s)))
      | v \<Rightarrow> (case float_of_field v of
            Some n \<Rightarrow> bindE n (\<lambda>x. case x of
                FFinite t \<Rightarrow> if instant_ok t then Inr (Some t) else Inl RangeError
              | _ \<Rightarrow> Inl RangeError)
          | None \<Rightarrow> Inl (ValueError ''expires_at must be a datetime, timestamp, ISO datetime string, or None.'')))"

definition coerce_token ::
  "(string \<Rightarrow> py_datetime option) \<Rightarrow> rat \<Rightarrow> token_value \<Rightarrow> auth_error + bearer_token" where
  "coerce_token fromisoformat now value =
     (case value of
        TVToken t \<Rightarrow> Inr t
      | TVStr s \<Rightarrow> make_bearer_token s None ''Bearer''
      | TVOther \<Rightarrow> Inl (TypeError ''Token refresh callbacks must return BearerToken, mapping, or string.'')
      | TVMapping d \<Rightarrow>
         (case first_present d [''access_token'', ''accessToken'', ''token''] of
            FieldVal (PStr token) \<Rightarrow>
             (let ttype = (if field_truthy (field_get d ''token_type'') then field_get d ''token_type''
                           else if field_truthy (field_get d ''tokenType'') then field_get d ''tokenType''
                           else FieldVal (PStr ''Bearer'')) in
              case ttype of
                FieldVal (PStr ttext) \<Rightarrow>
                  (let expires = first_present d [''expires_at'', ''expiresAt''] in
                   if expires = FieldVal PNone \<and> field_get d ''expires_in'' \<noteq> FieldVal PNone
                   then (case float_of_field (field_get d ''expires_in'') of
                           None \<Rightarrow> Inl (ValueError ''Token mapping expires_in must be numeric.'')
                         | Some n \<Rightarrow> bindE n (\<lambda>x. from_expires_in now token x ttext))
                   else bindE (parse_expires_at fromisoformat expires)
                          (\<lambda>e. make_bearer_token token e ttext))
              | _ \<Rightarrow> Inl (ValueError ''Token mapping token_type must be a string.''))
          | _ \<Rightarrow> Inl (ValueError ''Token mapping must include an access_token string.'')))"

section \<open>Headers and simple providers\<close>

definition sensitive_auth_header_names :: "string set" where
  "sensitive_auth_header_names = {''authorization'', ''x-api-key''}"

fun normalize_auth_items ::
  "(string, string) pydict \<Rightarrow> (string \<times> pyval) list \<Rightarrow> auth_error + (string, string) pydict" where
  "normalize_auth_items acc [] = Inr acc"
| "normalize_auth_items acc ((name, value) # items) =
     (let lower_name = str_lower name in
      if lower_name \<notin> sensitive_auth_header_names then Inl (ValueError ''Unsupported auth header.'')
      else (case value of
          PStr (c # cs) \<Rightarrow>
            normalize_auth_items
              (dict_set acc (if lower_name = ''authorization'' then ''Authorization'' else ''X-API-Key'') (c # cs))
              items
        | _ \<Rightarrow> Inl (ValueError ''Auth header must be a non-empty string.'')))"

definition normalize_auth_headers :: "(string, pyval) pydict \<Rightarrow> auth_error + (string, string) pydict" where
  "normalize_auth_headers headers = normalize_auth_items [] headers"

text \<open>\<open>StaticAuthProvider\<close> normalises once, \<open>CallableAuthProvider\<close> at every request.\<close>

definition static_auth_provider :: "(string, pyval) pydict \<Rightarrow> auth_error + (string, string) pydict" where
  "static_auth_provider headers = normalize_auth_headers headers"

definition callable_auth_headers ::
  "('w \<Rightarrow> (auth_error + (string, pyval) pydict) \<times> 'w) \<Rightarrow> 'w \<Rightarrow> (auth_error + (string, string) pydict) \<times> 'w" where
  "callable_auth_headers callback w =
     (case callback w of (r, w') \<Rightarrow> (bindE r normalize_auth_headers, w'))"

section \<open>The token cache and the refreshing provider\<close>

text \<open>\<open>TokenStore\<close>: the operations a provider calls, and the in-memory store.\<close>

record 's store_ops =
  store_get :: "'s \<Rightarrow> bearer_token option"
  store_set :: "bearer_token \<Rightarrow> 's \<Rightarrow> 's"
  store_clear :: "'s \<Rightarrow> 's"

record memory_store =
  ms_token :: "bearer_token option"

definition memory_ops :: "memory_store store_ops" where
  "memory_ops = \<lparr>store_get = ms_token, store_set = (\<lambda>t s. s\<lparr>ms_token := Some t\<rparr>),
     store_clear = (\<lambda>s. s\<lparr>ms_token := None\<rparr>)\<rparr>"

definition make_memory_store ::
  "(string \<Rightarrow> py_datetime option) \<Rightarrow> rat \<Rightarrow> token_value option \<Rightarrow> auth_error + memory_store" where
  "make_memory_store fromiso now token =
     (case token of None \<Rightarrow> Inr \<lparr>ms_token = None\<rparr>
      | Some v \<Rightarrow> bindE (coerce_token fromiso now v) (\<lambda>t. Inr \<lparr>ms_token = Some t\<rparr>))"

record 'w provider =
  pv_refresh :: "'w \<Rightarrow> (auth_error + token_value) \<times> 'w"
  pv_revoke :: "(bearer_token \<Rightarrow> 'w \<Rightarrow> auth_error option \<times> 'w) option"
  pv_window :: rat
  pv_now :: "'w \<Rightarrow> rat"
  pv_iso :: "string \<Rightarrow> py_datetime option"

text \<open>\<open>_refresh_locked\<close>, \<open>get_token\<close>, \<open>refresh\<close>, \<open>auth_headers\<close>, \<open>revoke\<close>, over the pair of
  the store and the world.\<close>

definition refresh_locked ::
  "'s store_ops \<Rightarrow> 'w provider \<Rightarrow> 's \<times> 'w \<Rightarrow> (auth_error + bearer_token) \<times> 's \<times> 'w" where
  "refresh_locked ops pv sw =
     (case sw of (s, w) \<Rightarrow>
       (case pv_refresh pv w of (r, w') \<Rightarrow>
         (case bindE r (coerce_token (pv_iso pv) (pv_now pv w')) of
            Inl e \<Rightarrow> (Inl e, s, w')
          | Inr t \<Rightarrow> (Inr t, store_set ops t s, w'))))"

definition get_token ::
  "'s store_ops \<Rightarrow> 'w provider \<Rightarrow> 's \<times> 'w \<Rightarrow> (auth_error + bearer_token) \<times> 's \<times> 'w" where
  "get_token ops pv sw =
     (case sw of (s, w) \<Rightarrow>
       (case store_get ops s of
          None \<Rightarrow> refresh_locked ops pv (s, w)
        | Some t \<Rightarrow> if expires_within t (pv_window pv) (pv_now pv w)
                    then refresh_locked ops pv (s, w) else (Inr t, s, w)))"

definition auth_headers ::
  "'s store_ops \<Rightarrow> 'w provider \<Rightarrow> 's \<times> 'w \<Rightarrow> (auth_error + (string, string) pydict) \<times> 's \<times> 'w" where
  "auth_headers ops pv sw =
     (case get_token ops pv sw of (r, sw') \<Rightarrow>
        (bindE r (\<lambda>t. Inr [(''Authorization'', authorization_value t)]), sw'))"

definition revoke ::
  "'s store_ops \<Rightarrow> 'w provider \<Rightarrow> 's \<times> 'w \<Rightarrow> (auth_error + unit) \<times> 's \<times> 'w" where
  "revoke ops pv sw =
     (case sw of (s, w) \<Rightarrow>
       (case (store_get ops s, pv_revoke pv) of
          (Some t, Some hook) \<Rightarrow>
            (case hook t w of
               (Some e, w') \<Rightarrow> (Inl e, s, w')
             | (None, w') \<Rightarrow> (Inr (), store_clear ops s, w'))
        | _ \<Rightarrow> (Inr (), store_clear ops s, w)))"

text \<open>\<open>RefreshableBearerTokenProvider.__init__\<close> with its own in-memory store.\<close>

definition make_provider ::
  "'w provider \<Rightarrow> rat \<Rightarrow> token_value option \<Rightarrow> auth_error + memory_store" where
  "make_provider pv now initial_token =
     (if pv_window pv < 0 then Inl (ValueError ''refresh_window_seconds must be non-negative.'')
      else make_memory_store (pv_iso pv) now initial_token)"

section \<open>Lemmas\<close>

definition token_valid :: "bearer_token \<Rightarrow> bool" where
  "token_valid t \<longleftrightarrow> access_token t \<noteq> [] \<and> token_type t \<noteq> []"

definition value_wf :: "token_value \<Rightarrow> bool" where
  "value_wf v = (case v of TVToken t \<Rightarrow> token_valid t | _ \<Rightarrow> True)"

lemma make_bearer_token_Inr:
  "make_bearer_token a e tt = Inr t \<longleftrightarrow>
     a \<noteq> [] \<and> tt \<noteq> [] \<and> t = \<lparr>access_token = a, expires_at = e, token_type = tt\<rparr>"
  by (auto simp: make_bearer_token_def)

lemma make_bearer_token_valid: "make_bearer_token a e tt = Inr t \<Longrightarrow> token_valid t"
  by (auto simp: make_bearer_token_Inr token_valid_def)

lemma from_expires_in_valid: "from_expires_in now a x tt = Inr t \<Longrightarrow> token_valid t"
  by (auto simp: from_expires_in_def bindE_eq_Inr split: if_splits dest: make_bearer_token_valid)

lemma coerce_token_valid:
  assumes "value_wf v" and "coerce_token i now v = Inr t"
  shows "token_valid t"
proof (cases v)
  case (TVMapping d)
  obtain f where f: "first_present d [''access_token'', ''accessToken'', ''token''] = f" by blast
  show ?thesis
    using assms(2)
    unfolding TVMapping coerce_token_def token_value.case f
    by (auto simp: Let_def bindE_eq_Inr split: token_field.splits pyval.splits if_splits option.splits
        dest: make_bearer_token_valid from_expires_in_valid)
qed (use assms in \<open>auto simp: coerce_token_def value_wf_def dest: make_bearer_token_valid\<close>)

text \<open>The interface of a token store, and what a provider over one does.\<close>

locale token_store =
  fixes ops :: "'s store_ops"
  assumes get_set: "store_get ops (store_set ops t s) = Some t"
    and get_clear: "store_get ops (store_clear ops s) = None"
begin

lemma refresh_locked_stores:
  "refresh_locked ops pv sw = (Inr t, s', w') \<Longrightarrow> store_get ops s' = Some t"
  by (auto simp: refresh_locked_def get_set split: prod.splits sum.splits)

lemma refresh_locked_fails:
  "refresh_locked ops pv (s, w) = (Inl e, s', w') \<Longrightarrow> s' = s"
  by (auto simp: refresh_locked_def split: prod.splits sum.splits)

lemma get_token_stores: "get_token ops pv sw = (Inr t, s', w') \<Longrightarrow> store_get ops s' = Some t"
  by (cases sw) (auto simp: get_token_def split: option.splits if_splits dest: refresh_locked_stores)

lemma get_token_fails: "get_token ops pv (s, w) = (Inl e, s', w') \<Longrightarrow> s' = s"
  by (auto simp: get_token_def split: option.splits if_splits dest: refresh_locked_fails)

lemma get_token_cached:
  "store_get ops s = Some t \<Longrightarrow> \<not> expires_within t (pv_window pv) (pv_now pv w) \<Longrightarrow>
     get_token ops pv (s, w) = (Inr t, s, w)"
  by (simp add: get_token_def)

text \<open>A token just obtained is served again without another refresh while it is outside the
  refresh window.\<close>

lemma get_token_again:
  "get_token ops pv sw = (Inr t, s', w') \<Longrightarrow> \<not> expires_within t (pv_window pv) (pv_now pv w'') \<Longrightarrow>
     get_token ops pv (s', w'') = (Inr t, s', w'')"
  by (rule get_token_cached) (rule get_token_stores)

lemma revoke_clears: "revoke ops pv sw = (Inr u, s', w') \<Longrightarrow> store_get ops s' = None"
  by (cases sw) (auto simp: revoke_def get_clear split: option.splits prod.splits)

lemma revoke_fails: "revoke ops pv (s, w) = (Inl e, s', w') \<Longrightarrow> s' = s"
  by (auto simp: revoke_def split: option.splits prod.splits)

lemma refresh_locked_valid:
  assumes "\<forall>w v w'. pv_refresh pv w = (Inr v, w') \<longrightarrow> value_wf v"
    and "refresh_locked ops pv sw = (Inr t, sw')"
  shows "token_valid t"
  using assms by (cases sw) (auto simp: refresh_locked_def bindE_eq_Inr split: prod.splits sum.splits
      dest: coerce_token_valid)

end

interpretation mem: token_store memory_ops
  by unfold_locales (simp_all add: memory_ops_def)

section \<open>Runs of a provider\<close>

text \<open>
  The calls a client can make, in any order and with the world moving between them: the
  reachable states of a provider that starts from its constructor.
\<close>

inductive provider_step ::
  "'w provider \<Rightarrow> memory_store \<times> 'w \<Rightarrow> memory_store \<times> 'w \<Rightarrow> bool" for pv :: "'w provider" where
  step_get: "get_token memory_ops pv sw = (r, sw') \<Longrightarrow> provider_step pv sw sw'"
| step_refresh: "refresh_locked memory_ops pv sw = (r, sw') \<Longrightarrow> provider_step pv sw sw'"
| step_revoke: "revoke memory_ops pv sw = (r, sw') \<Longrightarrow> provider_step pv sw sw'"
| step_world: "provider_step pv (s, w) (s, w')"

inductive provider_reachable ::
  "'w provider \<Rightarrow> memory_store \<times> 'w \<Rightarrow> bool" for pv :: "'w provider" where
  start: "make_provider pv now initial = Inr s \<Longrightarrow> (\<forall>v. initial = Some v \<longrightarrow> value_wf v) \<Longrightarrow>
     provider_reachable pv (s, w)"
| next_state: "provider_reachable pv sw \<Longrightarrow> provider_step pv sw sw' \<Longrightarrow> provider_reachable pv sw'"

definition cached_valid :: "memory_store \<times> 'w \<Rightarrow> bool" where
  "cached_valid sw \<longleftrightarrow> (\<forall>t. ms_token (fst sw) = Some t \<longrightarrow> token_valid t)"

lemma memory_get [simp]: "store_get memory_ops s = ms_token s"
  by (simp add: memory_ops_def)

lemma refresh_locked_cached_valid:
  assumes "\<forall>w v w'. pv_refresh pv w = (Inr v, w') \<longrightarrow> value_wf v"
    and "refresh_locked memory_ops pv sw = (r, sw')" and "cached_valid sw"
  shows "cached_valid sw'"
proof (cases r)
  case (Inl e)
  with assms show ?thesis
    by (cases sw; cases sw') (auto simp: cached_valid_def dest: mem.refresh_locked_fails)
next
  case (Inr t)
  with assms mem.refresh_locked_valid [OF assms(1)] mem.refresh_locked_stores [of pv sw t "fst sw'" "snd sw'"]
  show ?thesis by (simp add: cached_valid_def)
qed

lemma provider_step_cached_valid:
  assumes wf: "\<forall>w v w'. pv_refresh pv w = (Inr v, w') \<longrightarrow> value_wf v"
    and step: "provider_step pv sw sw'" and inv: "cached_valid sw"
  shows "cached_valid sw'"
  using step inv
proof (cases rule: provider_step.cases)
  case (step_get r)
  with inv refresh_locked_cached_valid [OF wf] show ?thesis
    by (cases sw) (auto simp: get_token_def split: option.splits if_splits)
next
  case (step_refresh r)
  with refresh_locked_cached_valid [OF wf] inv show ?thesis by blast
next
  case (step_revoke r)
  then show ?thesis
    using inv by (cases sw) (auto simp: revoke_def cached_valid_def memory_ops_def split: option.splits prod.splits)
next
  case (step_world s w w')
  then show ?thesis using inv by (simp add: cached_valid_def)
qed

lemma make_provider_cached_valid:
  "make_provider pv now initial = Inr s \<Longrightarrow> \<forall>v. initial = Some v \<longrightarrow> value_wf v \<Longrightarrow> cached_valid (s, w)"
  by (auto simp: make_provider_def make_memory_store_def cached_valid_def bindE_eq_Inr
      split: if_splits option.splits dest: coerce_token_valid)

lemma provider_reachable_cached_valid:
  assumes "\<forall>w v w'. pv_refresh pv w = (Inr v, w') \<longrightarrow> value_wf v"
  shows "provider_reachable pv sw \<Longrightarrow> cached_valid sw"
  by (induction rule: provider_reachable.induct)
     (auto dest: make_provider_cached_valid provider_step_cached_valid [OF assms])

lemma normalize_auth_items_wf:
  assumes "\<forall>(k, v) \<in> set acc. k \<in> {''Authorization'', ''X-API-Key''} \<and> v \<noteq> []"
    and "normalize_auth_items acc items = Inr out"
  shows "\<forall>(k, v) \<in> set out. k \<in> {''Authorization'', ''X-API-Key''} \<and> v \<noteq> []"
  using assms
proof (induction acc items rule: normalize_auth_items.induct)
  case (1 acc)
  then show ?case by simp
next
  case (2 acc name v items)
  obtain c cs where v: "v = PStr (c # cs)"
    using "2.prems"(2) by (auto simp: Let_def split: if_splits pyval.splits list.splits)
  have n: "str_lower name \<in> sensitive_auth_header_names"
    using "2.prems"(2) by (auto simp: Let_def split: if_splits)
  let ?k = "if str_lower name = ''authorization'' then ''Authorization'' else ''X-API-Key''"
  have upd: "\<forall>(k, v) \<in> set (dict_set acc ?k (c # cs)). k \<in> {''Authorization'', ''X-API-Key''} \<and> v \<noteq> []"
    using "2.prems"(1) set_dict_set [of acc ?k "c # cs"] by (auto split: if_splits)
  show ?case
    by (rule "2.IH") (use v n upd "2.prems"(2) in \<open>auto simp: Let_def\<close>)
qed

section \<open>Properties\<close>

text \<open>A server that hands out one token, valid for an hour from its answer; the world is the
  time.\<close>

definition hourly_provider :: "rat provider" where
  "hourly_provider = \<lparr>pv_refresh = (\<lambda>w. (Inr (TVMapping [(''access_token'', FieldVal (PStr ''abc'')),
       (''expires_in'', FieldVal (PInt 3600))]), w)),
     pv_revoke = None, pv_window = 60, pv_now = (\<lambda>w. w), pv_iso = (\<lambda>_. None)\<rparr>"

definition hourly_token :: "rat \<Rightarrow> bearer_token" where
  "hourly_token t = \<lparr>access_token = ''abc'', expires_at = Some (t + 3600), token_type = ''Bearer''\<rparr>"

lemma hourly_refresh:
  "get_token memory_ops hourly_provider (\<lparr>ms_token = None\<rparr>, 0) =
     (Inr (hourly_token 0), \<lparr>ms_token = Some (hourly_token 0)\<rparr>, 0)"
proof -
  have "float_overflows 3600 = False" by (simp add: float_overflows_def)
  then show ?thesis
    by (simp add: get_token_def memory_ops_def refresh_locked_def hourly_provider_def coerce_token_def
        field_get_def dict_get_def field_truthy_def float_of_field_def as_int_def from_expires_in_def
        timedelta_seconds_def timedelta_ok_def instant_ok_def make_bearer_token_def hourly_token_def)
qed

lemma hourly_wf: "pv_refresh hourly_provider w = (Inr v, w') \<Longrightarrow> value_wf v"
  by (auto simp: hourly_provider_def value_wf_def)

text \<open>C3. Whatever calls and whatever passing of time came before, a token the refreshing
  provider serves is non-empty, and the header built from it is one that
  \<open>normalize_auth_headers\<close> accepts unchanged.\<close>

theorem provider_serves_valid_tokens:
  assumes "\<forall>w v w'. pv_refresh pv w = (Inr v, w') \<longrightarrow> value_wf v"
    and "provider_reachable pv sw"
    and "get_token memory_ops pv sw = (Inr t, sw')"
  shows "token_valid t \<and> auth_headers memory_ops pv sw = (Inr [(''Authorization'', authorization_value t)], sw') \<and>
    normalize_auth_headers [(''Authorization'', PStr (authorization_value t))]
      = Inr [(''Authorization'', authorization_value t)]"
proof -
  have "provider_reachable pv sw'"
    by (rule next_state [OF assms(2) step_get [OF assms(3)]])
  from provider_reachable_cached_valid [OF assms(1) this]
    mem.get_token_stores [of pv sw t "fst sw'" "snd sw'"] assms(3)
  have v: "token_valid t" by (simp add: cached_valid_def)
  have low: "str_lower ''Authorization'' = ''authorization''" by (simp add: str_lower_def)
  from v obtain c cs where "authorization_value t = c # cs"
    by (cases "authorization_value t") (auto simp: authorization_value_def token_valid_def)
  then have "normalize_auth_headers [(''Authorization'', PStr (authorization_value t))]
      = Inr [(''Authorization'', authorization_value t)]"
    by (simp add: normalize_auth_headers_def low sensitive_auth_header_names_def dict_set_def)
  with v assms(3) show ?thesis by (simp add: auth_headers_def)
qed

theorem provider_serves_valid_tokens_witness:
  "token_valid (hourly_token 0) \<and> fst (auth_headers memory_ops hourly_provider (\<lparr>ms_token = None\<rparr>, 0))
     = Inr [(''Authorization'', ''Bearer abc'')]"
proof -
  have "provider_reachable hourly_provider (\<lparr>ms_token = None\<rparr>, 0)"
    by (rule provider_reachable.start [where now = 0 and initial = None])
       (simp_all add: make_provider_def make_memory_store_def hourly_provider_def)
  from provider_serves_valid_tokens [OF _ this hourly_refresh] hourly_wf show ?thesis
    by (simp add: authorization_value_def hourly_token_def)
qed

text \<open>C4. One refresh serves every later request until the refresh window opens: after a
  successful call the next one, at any later world, returns the same token and touches neither
  the store nor the refresh callback. A failed call leaves the cache as it was.\<close>

theorem provider_refreshes_once:
  assumes "get_token memory_ops pv (s, w) = (r, s', w')"
  shows "(case r of
      Inr t \<Rightarrow> \<forall>w''. \<not> expires_within t (pv_window pv) (pv_now pv w'') \<longrightarrow>
                get_token memory_ops pv (s', w'') = (Inr t, s', w'')
    | Inl _ \<Rightarrow> s' = s)"
  using assms mem.get_token_again [of pv "(s, w)" _ s' w'] mem.get_token_fails [of pv s w _ s' w']
  by (auto split: sum.splits)

theorem provider_refreshes_once_witness:
  "get_token memory_ops hourly_provider (\<lparr>ms_token = Some (hourly_token 0)\<rparr>, 3000) =
     (Inr (hourly_token 0), \<lparr>ms_token = Some (hourly_token 0)\<rparr>, 3000)"
  using provider_refreshes_once [OF hourly_refresh]
  by (simp add: expires_within_def hourly_token_def hourly_provider_def)

text \<open>Normalised auth headers carry nothing but the two canonical names, each with a
  non-empty value; any other header is refused.\<close>

theorem normalize_auth_headers_canonical:
  assumes "normalize_auth_headers headers = Inr out"
  shows "(\<forall>(k, v) \<in> set out. k \<in> {''Authorization'', ''X-API-Key''} \<and> v \<noteq> []) \<and>
    (\<forall>(k, v) \<in> set headers. str_lower k \<in> sensitive_auth_header_names)"
proof -
  have "\<forall>(k, v) \<in> set items. str_lower k \<in> sensitive_auth_header_names"
    if "normalize_auth_items acc items = Inr o'" for acc items o'
    using that by (induction acc items rule: normalize_auth_items.induct)
      (auto simp: Let_def split: if_splits pyval.splits list.splits)
  moreover have "\<forall>(k, v) \<in> set out. k \<in> {''Authorization'', ''X-API-Key''} \<and> v \<noteq> []"
    by (rule normalize_auth_items_wf [of "[]" headers])
       (use assms in \<open>simp_all add: normalize_auth_headers_def\<close>)
  ultimately show ?thesis using assms unfolding normalize_auth_headers_def by blast
qed

theorem normalize_auth_headers_canonical_witness:
  "normalize_auth_headers [(''x-api-key'', PStr ''k'')] = Inr [(''X-API-Key'', ''k'')] \<and>
   str_lower ''x-api-key'' \<in> sensitive_auth_header_names"
proof -
  have low: "str_lower ''x-api-key'' = ''x-api-key''" by (simp add: str_lower_def)
  then have n: "normalize_auth_headers [(''x-api-key'', PStr ''k'')] = Inr [(''X-API-Key'', ''k'')]"
    by (simp add: normalize_auth_headers_def sensitive_auth_header_names_def dict_set_def)
  with normalize_auth_headers_canonical [OF n] show ?thesis by simp
qed

end
