(* ===== verification/Retry.thy ===== *)
theory Retry
  imports Http_Base
begin

text \<open>
  The retry policy (\<open>honua_sdk/_retry_core.py\<close>) and the retrying transport
  (\<open>RetryTransport.handle_request\<close> of \<open>honua_sdk/_retry.py\<close>).

  The wrapped transport, the clock, the random generator and the sleep are the fields of
  \<open>transport_env\<close>, over a world of any type. A run of \<open>handle_request\<close> gives the outcome,
  the list of what it did in order, and the world it leaves. Delays are exact rationals: the
  code only doubles, takes minima and maxima of them. The asynchronous transport is the
  source this one is generated from and differs in the awaited calls only.
\<close>

section \<open>Policy\<close>

text \<open>The exception classes of the HTTP library that a transport can raise.\<close>

datatype httpx_exn =
    ConnectError | ReadError | WriteError | CloseError
  | RemoteProtocolError | LocalProtocolError | ProxyError | UnsupportedProtocol
  | ConnectTimeout | ReadTimeout | WriteTimeout | PoolTimeout
  | OtherExn string

definition is_timeout_exn :: "httpx_exn \<Rightarrow> bool" where
  "is_timeout_exn e \<longleftrightarrow> e \<in> {ConnectTimeout, ReadTimeout, WriteTimeout, PoolTimeout}"

definition is_retriable_exn :: "httpx_exn \<Rightarrow> bool" where
  "is_retriable_exn e \<longleftrightarrow>
     e \<in> {ConnectError, ReadError, WriteError, RemoteProtocolError, PoolTimeout, ProxyError}
     \<or> is_timeout_exn e"

definition default_retry_statuses :: "int set" where
  "default_retry_statuses = {429, 502, 503, 504}"

definition default_retry_methods :: "string set" where
  "default_retry_methods = {''GET'', ''HEAD'', ''PUT'', ''DELETE'', ''OPTIONS''}"

definition should_retry_method :: "string \<Rightarrow> string set \<Rightarrow> bool" where
  "should_retry_method verb methods \<longleftrightarrow> str_upper verb \<in> methods"

definition should_retry_status :: "int \<Rightarrow> int set \<Rightarrow> bool" where
  "should_retry_status code statuses \<longleftrightarrow> code \<in> statuses"

definition normalize_retry_methods :: "string set \<Rightarrow> string set" where
  "normalize_retry_methods methods = str_upper ` methods"

text \<open>
  \<open>SleepValueError\<close> is \<open>time.sleep\<close> on a negative delay; \<open>OverflowError\<close> is Python's float
  product with an \<open>int\<close> of \<open>2 ** 1024\<close> or more.
\<close>

datatype retry_error = TransportExn httpx_exn | OverflowError | SleepValueError

record 'w transport_env =
  te_handle :: "'w \<Rightarrow> (httpx_exn + http_response) \<times> 'w"
  te_read :: "http_response \<Rightarrow> 'w \<Rightarrow> httpx_exn option \<times> 'w"
  te_random :: "'w \<Rightarrow> rat \<times> 'w"
  te_now :: "'w \<Rightarrow> rat"
  te_parsedate :: "string \<Rightarrow> py_datetime option"
  te_sleep :: "rat \<Rightarrow> 'w \<Rightarrow> 'w"

record retry_config =
  max_retries :: int
  backoff_initial :: rat
  backoff_max :: rat
  jitter :: bool
  retry_methods :: "string set"
  retry_statuses :: "int set"

text \<open>\<open>RetryTransport.__init__\<close>: the methods are normalised, the rest is stored as given.\<close>

definition make_retry_config ::
  "int \<Rightarrow> rat \<Rightarrow> rat \<Rightarrow> bool \<Rightarrow> string set \<Rightarrow> int set \<Rightarrow> retry_config" where
  "make_retry_config n initial mx jit methods statuses =
     \<lparr>max_retries = n, backoff_initial = initial, backoff_max = mx, jitter = jit,
      retry_methods = normalize_retry_methods methods, retry_statuses = statuses\<rparr>"

definition default_retry_config :: retry_config where
  "default_retry_config =
     make_retry_config 3 (1 / 2) 5 True default_retry_methods default_retry_statuses"

text \<open>\<open>random.uniform(0.0, capped)\<close> is \<open>0.0 + (capped - 0.0) * random()\<close>.\<close>

definition compute_backoff ::
  "'w transport_env \<Rightarrow> retry_config \<Rightarrow> nat \<Rightarrow> 'w \<Rightarrow> (retry_error + rat) \<times> 'w" where
  "compute_backoff env cfg attempt w =
     (if 1024 \<le> attempt then (Inl OverflowError, w)
      else
        (let computed = backoff_initial cfg * 2 ^ attempt; capped = min computed (backoff_max cfg) in
         if jitter cfg
         then (let (u, w') = te_random env w in (Inr (0 + (capped - 0) * u), w'))
         else (Inr capped, w)))"

definition compute_delay ::
  "'w transport_env \<Rightarrow> retry_config \<Rightarrow> http_response \<Rightarrow> nat \<Rightarrow> 'w \<Rightarrow> (retry_error + rat) \<times> 'w" where
  "compute_delay env cfg response attempt w =
     (case parse_retry_after (te_parsedate env) (te_now env w) (header_get response ''retry-after'') of
        Some retry_after \<Rightarrow> (Inr (min retry_after (backoff_max cfg)), w)
      | None \<Rightarrow> compute_backoff env cfg attempt w)"

section \<open>The transport\<close>

text \<open>What one run does, in order: an attempt that raised or answered, the reading and the
  closing of a response that is thrown away, a sleep.\<close>

datatype retry_event =
    AttemptRaised httpx_exn
  | AttemptAnswered int
  | ReadBody
  | CloseResponse
  | Slept rat

definition is_attempt :: "retry_event \<Rightarrow> bool" where
  "is_attempt ev \<longleftrightarrow> (case ev of AttemptRaised _ \<Rightarrow> True | AttemptAnswered _ \<Rightarrow> True | _ \<Rightarrow> False)"

definition attempts :: "retry_event list \<Rightarrow> nat" where
  "attempts es = length (filter is_attempt es)"

type_synonym 'w retry_run = "(retry_error + http_response) \<times> retry_event list \<times> 'w"

definition prefix_run :: "retry_event list \<Rightarrow> 'w retry_run \<Rightarrow> 'w retry_run" where
  "prefix_run es r = (case r of (res, es', w) \<Rightarrow> (res, es @ es', w))"

function retry_loop ::
  "'w transport_env \<Rightarrow> retry_config \<Rightarrow> int \<Rightarrow> nat \<Rightarrow> 'w \<Rightarrow> 'w retry_run" where
  "retry_loop env cfg retries_remaining attempt w =
     (case te_handle env w of
        (Inl exc, w1) \<Rightarrow>
          if \<not> is_retriable_exn exc \<or> retries_remaining \<le> 0
          then (Inl (TransportExn exc), [AttemptRaised exc], w1)
          else (case compute_backoff env cfg attempt w1 of
              (Inl err, w2) \<Rightarrow> (Inl err, [AttemptRaised exc], w2)
            | (Inr delay, w2) \<Rightarrow>
                if delay < 0 then (Inl SleepValueError, [AttemptRaised exc], w2)
                else prefix_run [AttemptRaised exc, Slept delay]
                       (retry_loop env cfg (retries_remaining - 1) (Suc attempt) (te_sleep env delay w2)))
      | (Inr response, w1) \<Rightarrow>
          if retries_remaining \<le> 0 \<or> \<not> should_retry_status (status_code response) (retry_statuses cfg)
          then (Inr response, [AttemptAnswered (status_code response)], w1)
          else (case compute_delay env cfg response attempt w1 of
              (Inl err, w2) \<Rightarrow> (Inl err, [AttemptAnswered (status_code response)], w2)
            | (Inr delay, w2) \<Rightarrow>
                (case te_read env response w2 of
                   (Some exc, w3) \<Rightarrow>
                     (Inl (TransportExn exc), [AttemptAnswered (status_code response), ReadBody], w3)
                 | (None, w3) \<Rightarrow>
                     if delay < 0
                     then (Inl SleepValueError,
                           [AttemptAnswered (status_code response), ReadBody, CloseResponse], w3)
                     else prefix_run
                            [AttemptAnswered (status_code response), ReadBody, CloseResponse, Slept delay]
                            (retry_loop env cfg (retries_remaining - 1) (Suc attempt)
                               (te_sleep env delay w3)))))"
  by pat_completeness auto
termination
  by (relation "measure (\<lambda>(env, cfg, retries_remaining, attempt, w). nat retries_remaining)") auto

declare retry_loop.simps [simp del]

text \<open>
  \<open>handle_request\<close>: \<open>override\<close> is \<open>request.extensions.get("honua_max_retries")\<close>, used when it
  is an \<open>int\<close>.
\<close>

definition retry_budget :: "retry_config \<Rightarrow> pyval \<Rightarrow> int" where
  "retry_budget cfg override = (case as_int override of Some n \<Rightarrow> n | None \<Rightarrow> max_retries cfg)"

definition handle_request ::
  "'w transport_env \<Rightarrow> retry_config \<Rightarrow> string \<Rightarrow> pyval \<Rightarrow> 'w \<Rightarrow> 'w retry_run" where
  "handle_request env cfg verb override w =
     (if \<not> should_retry_method verb (retry_methods cfg)
      then (case te_handle env w of
              (Inl exc, w1) \<Rightarrow> (Inl (TransportExn exc), [AttemptRaised exc], w1)
            | (Inr response, w1) \<Rightarrow> (Inr response, [AttemptAnswered (status_code response)], w1))
      else retry_loop env cfg (retry_budget cfg override) 0 w)"

section \<open>The runs the policy permits\<close>

text \<open>
  An abstract account of a run with \<open>n\<close> retries left: \<open>delay_ok\<close> is what is known of the
  delays slept. The loop refines it (\<open>retry_loop_permitted\<close>), so facts about every run are
  rule inductions over it.
\<close>

inductive permitted ::
  "(rat \<Rightarrow> bool) \<Rightarrow> retry_config \<Rightarrow> int \<Rightarrow> nat \<Rightarrow> retry_event list \<Rightarrow> (retry_error + http_response) \<Rightarrow> bool"
  for delay_ok :: "rat \<Rightarrow> bool" and cfg :: retry_config where
  give_up: "\<not> is_retriable_exn e \<or> n \<le> 0 \<Longrightarrow>
     permitted delay_ok cfg n k [AttemptRaised e] (Inl (TransportExn e))"
| answer: "n \<le> 0 \<or> \<not> should_retry_status (status_code r) (retry_statuses cfg) \<Longrightarrow>
     permitted delay_ok cfg n k [AttemptAnswered (status_code r)] (Inr r)"
| raised_again: "is_retriable_exn e \<Longrightarrow> 0 < n \<Longrightarrow> 0 \<le> d \<Longrightarrow> delay_ok d \<Longrightarrow>
     permitted delay_ok cfg (n - 1) (Suc k) es res \<Longrightarrow>
     permitted delay_ok cfg n k (AttemptRaised e # Slept d # es) res"
| answered_again: "should_retry_status s (retry_statuses cfg) \<Longrightarrow> 0 < n \<Longrightarrow> 0 \<le> d \<Longrightarrow> delay_ok d \<Longrightarrow>
     permitted delay_ok cfg (n - 1) (Suc k) es res \<Longrightarrow>
     permitted delay_ok cfg n k (AttemptAnswered s # ReadBody # CloseResponse # Slept d # es) res"
| overflow: "0 < n \<Longrightarrow> 1024 \<le> k \<Longrightarrow> is_attempt ev \<Longrightarrow> permitted delay_ok cfg n k [ev] (Inl OverflowError)"
| negative_raised: "0 < n \<Longrightarrow> d < 0 \<Longrightarrow> delay_ok d \<Longrightarrow>
     permitted delay_ok cfg n k [AttemptRaised e] (Inl SleepValueError)"
| negative_answered: "0 < n \<Longrightarrow> d < 0 \<Longrightarrow> delay_ok d \<Longrightarrow>
     permitted delay_ok cfg n k [AttemptAnswered s, ReadBody, CloseResponse] (Inl SleepValueError)"
| drain_failed: "should_retry_status s (retry_statuses cfg) \<Longrightarrow> 0 < n \<Longrightarrow>
     permitted delay_ok cfg n k [AttemptAnswered s, ReadBody] (Inl (TransportExn e))"

lemma compute_backoff_Inl: "compute_backoff env cfg k w = (Inl e, w') \<Longrightarrow> e = OverflowError \<and> 1024 \<le> k"
  by (auto simp: compute_backoff_def Let_def split: if_splits prod.splits)

lemma compute_delay_Inl: "compute_delay env cfg r k w = (Inl e, w') \<Longrightarrow> e = OverflowError \<and> 1024 \<le> k"
  by (auto simp: compute_delay_def split: option.splits dest: compute_backoff_Inl)

lemma prefix_run_eq: "prefix_run xs r = (res, es, w) \<longleftrightarrow> (\<exists>ys. r = (res, ys, w) \<and> es = xs @ ys)"
  by (cases r) (auto simp: prefix_run_def)

lemma retry_loop_permitted:
  assumes backoff: "\<And>k w d w2. compute_backoff env cfg k w = (Inr d, w2) \<Longrightarrow> delay_ok d"
    and delay: "\<And>r k w d w2. compute_delay env cfg r k w = (Inr d, w2) \<Longrightarrow> delay_ok d"
    and run: "retry_loop env cfg n k w = (res, es, w')"
  shows "permitted delay_ok cfg n k es res"
  using run
proof (induction "nat n" arbitrary: n k w res es w' rule: less_induct)
  case less
  note eq = less.prems [unfolded retry_loop.simps [of env cfg n k w]]
  have IH: "permitted delay_ok cfg (n - 1) (Suc k) es' res'"
    if "0 < n" "retry_loop env cfg (n - 1) (Suc k) v = (res', es', v')" for es' res' v v'
    using less.hyps [OF _ that(2)] that(1) by simp
  obtain o1 w1 where h: "te_handle env w = (o1, w1)" by (cases "te_handle env w")
  show ?case
  proof (cases o1)
    case (Inl e)
    show ?thesis
    proof (cases "\<not> is_retriable_exn e \<or> n \<le> 0")
      case True
      with eq h Inl show ?thesis by (auto intro: permitted.give_up)
    next
      case again: False
      obtain b w2 where b: "compute_backoff env cfg k w1 = (b, w2)" by (cases "compute_backoff env cfg k w1")
      show ?thesis
      proof (cases b)
        case (Inl err)
        with eq h \<open>o1 = Inl e\<close> again b compute_backoff_Inl [of env cfg k w1 err w2] show ?thesis
          by (auto intro!: permitted.overflow simp: is_attempt_def)
      next
        case (Inr d)
        with eq h \<open>o1 = Inl e\<close> again b backoff [of k w1 d w2] show ?thesis
          by (auto split: if_splits simp: prefix_run_eq is_attempt_def not_le
              intro!: permitted.raised_again IH permitted.negative_raised)
      qed
    qed
  next
    case (Inr r)
    show ?thesis
    proof (cases "n \<le> 0 \<or> \<not> should_retry_status (status_code r) (retry_statuses cfg)")
      case True
      with eq h Inr show ?thesis by (auto intro: permitted.answer)
    next
      case again: False
      obtain b w2 where b: "compute_delay env cfg r k w1 = (b, w2)" by (cases "compute_delay env cfg r k w1")
      show ?thesis
      proof (cases b)
        case (Inl err)
        with eq h \<open>o1 = Inr r\<close> again b compute_delay_Inl [of env cfg r k w1 err w2] show ?thesis
          by (auto intro!: permitted.overflow simp: is_attempt_def)
      next
        case (Inr d)
        obtain rd w3 where rd: "te_read env r w2 = (rd, w3)" by (cases "te_read env r w2")
        show ?thesis
        proof (cases rd)
          case None
          with eq h \<open>o1 = Inr r\<close> again b Inr rd delay [of r k w1 d w2] show ?thesis
            by (auto split: if_splits simp: prefix_run_eq is_attempt_def not_le
                intro!: permitted.answered_again IH permitted.negative_answered)
        next
          case (Some x)
          with eq h \<open>o1 = Inr r\<close> again b Inr rd show ?thesis
            by (auto intro!: permitted.drain_failed)
        qed
      qed
    qed
  qed
qed

inductive_cases permitted_singleE: "permitted D cfg n k [ev] res"

lemma attempts_simps [simp]:
  "attempts [] = 0"
  "attempts (ev # es) = (if is_attempt ev then Suc (attempts es) else attempts es)"
  "is_attempt (AttemptRaised e)" "is_attempt (AttemptAnswered s)"
  "\<not> is_attempt ReadBody" "\<not> is_attempt CloseResponse" "\<not> is_attempt (Slept d)"
  by (simp_all add: attempts_def is_attempt_def)

lemma permitted_attempts:
  "permitted D cfg n k es res \<Longrightarrow> 1 \<le> attempts es \<and> attempts es \<le> Suc (nat n)"
  by (induction rule: permitted.induct) auto

lemma permitted_exhausts:
  "permitted D cfg n k es res \<Longrightarrow> res = Inr r \<Longrightarrow>
     should_retry_status (status_code r) (retry_statuses cfg) \<Longrightarrow> attempts es = Suc (nat n)"
  by (induction rule: permitted.induct) auto

lemma permitted_sleeps: "permitted D cfg n k es res \<Longrightarrow> Slept d \<in> set es \<Longrightarrow> 0 \<le> d \<and> D d"
  by (induction rule: permitted.induct) (auto simp: is_attempt_def)

lemma permitted_overflow: "permitted D cfg n k es res \<Longrightarrow> res = Inl OverflowError \<Longrightarrow> 1024 < int k + n"
  by (induction rule: permitted.induct) auto

lemma permitted_negative: "permitted D cfg n k es res \<Longrightarrow> res = Inl SleepValueError \<Longrightarrow> \<exists>d. d < 0 \<and> D d"
  by (induction rule: permitted.induct) auto

fun slept_total :: "retry_event list \<Rightarrow> rat" where
  "slept_total [] = 0"
| "slept_total (Slept d # es) = d + slept_total es"
| "slept_total (_ # es) = slept_total es"

lemma permitted_total:
  assumes "permitted D cfg n k es res" and "\<And>d. D d \<Longrightarrow> d \<le> b" and "0 \<le> b"
  shows "slept_total es \<le> of_nat (nat n) * b"
  using assms(1)
proof (induction rule: permitted.induct)
  case (raised_again e n d k es res)
  then have "d \<le> b" and "slept_total es \<le> of_nat (nat (n - 1)) * b" using assms(2) by auto
  moreover have "nat n = Suc (nat (n - 1))" using raised_again by simp
  ultimately show ?case by (simp add: algebra_simps)
next
  case (answered_again s n d k es res)
  then have "d \<le> b" and "slept_total es \<le> of_nat (nat (n - 1)) * b" using assms(2) by auto
  moreover have "nat n = Suc (nat (n - 1))" using answered_again by simp
  ultimately show ?case by (simp add: algebra_simps)
next
  case (overflow n k ev)
  with assms(3) show ?case by (cases ev) (auto simp: is_attempt_def)
qed (use assms(3) in \<open>auto\<close>)

text \<open>
  The order the transport promises: a response that is not the last event is read, closed and
  only then slept on; a raised attempt is slept on directly; and each sleep leads to another
  attempt.
\<close>

fun drained_before_sleep :: "retry_event list \<Rightarrow> bool" where
  "drained_before_sleep [] = False"
| "drained_before_sleep (ev # es) =
     (case ev of
        AttemptRaised _ \<Rightarrow> (case es of [] \<Rightarrow> True | Slept _ # es' \<Rightarrow> drained_before_sleep es' | _ \<Rightarrow> False)
      | AttemptAnswered _ \<Rightarrow>
          es = [] \<or> es = [ReadBody] \<or> es = [ReadBody, CloseResponse] \<or>
          (case es of ReadBody # CloseResponse # Slept _ # es' \<Rightarrow> drained_before_sleep es' | _ \<Rightarrow> False)
      | _ \<Rightarrow> False)"

text \<open>Every run of the loop, with bounds on the delays where the configuration gives them.\<close>

lemma retry_loop_permitted_any:
  "permitted (\<lambda>_. True) cfg n k (fst (snd (retry_loop env cfg n k w))) (fst (retry_loop env cfg n k w))"
  using retry_loop_permitted [of env cfg "\<lambda>_. True" n k w "fst (retry_loop env cfg n k w)"
      "fst (snd (retry_loop env cfg n k w))" "snd (snd (retry_loop env cfg n k w))"]
  by simp

definition sane_delays :: "'w transport_env \<Rightarrow> retry_config \<Rightarrow> bool" where
  "sane_delays env cfg \<longleftrightarrow> 0 \<le> backoff_initial cfg \<and> 0 \<le> backoff_max cfg \<and>
     (\<forall>w. 0 \<le> fst (te_random env w) \<and> fst (te_random env w) \<le> 1)"

lemma compute_backoff_bounds:
  assumes "sane_delays env cfg" and "compute_backoff env cfg k w = (Inr d, w')"
  shows "0 \<le> d \<and> d \<le> backoff_max cfg"
proof (cases "jitter cfg")
  case False
  with assms show ?thesis by (auto simp: compute_backoff_def sane_delays_def Let_def split: if_splits)
next
  case True
  let ?c = "min (backoff_initial cfg * 2 ^ k) (backoff_max cfg)"
  let ?u = "fst (te_random env w)"
  from True assms have d: "d = ?c * ?u"
    by (auto simp: compute_backoff_def Let_def split: if_splits prod.splits)
  from assms have c: "0 \<le> ?c" and u: "0 \<le> ?u" "?u \<le> 1" by (auto simp: sane_delays_def)
  have "?c * ?u \<le> ?c" using mult_left_mono [OF u(2) c] by simp
  moreover have "0 \<le> ?c * ?u" using c u(1) by (rule mult_nonneg_nonneg)
  ultimately show ?thesis using d by simp
qed

lemma compute_delay_bounds:
  assumes "sane_delays env cfg" and "compute_delay env cfg r k w = (Inr d, w')"
  shows "0 \<le> d \<and> d \<le> backoff_max cfg"
  using assms compute_backoff_bounds [OF assms(1), of k w d w']
  by (auto simp: compute_delay_def sane_delays_def split: option.splits dest: parse_retry_after_nonneg)

lemma retry_loop_permitted_sane:
  assumes "sane_delays env cfg"
  shows "permitted (\<lambda>d. 0 \<le> d \<and> d \<le> backoff_max cfg) cfg n k
    (fst (snd (retry_loop env cfg n k w))) (fst (retry_loop env cfg n k w))"
  by (rule retry_loop_permitted [where w = w and w' = "snd (snd (retry_loop env cfg n k w))"])
     (use assms in \<open>auto dest: compute_backoff_bounds compute_delay_bounds\<close>)

lemma permitted_drained: "permitted D cfg n k es res \<Longrightarrow> drained_before_sleep es \<and> es \<noteq> []"
proof (induction rule: permitted.induct)
  case (overflow n k ev)
  then show ?case by (cases ev) (auto simp: is_attempt_def)
qed auto

lemma handle_request_cases:
  obtains (once) "\<not> should_retry_method verb (retry_methods cfg)"
      "fst (handle_request env cfg verb override w) =
         (case fst (te_handle env w) of Inl e \<Rightarrow> Inl (TransportExn e) | Inr r \<Rightarrow> Inr r)"
      "fst (snd (handle_request env cfg verb override w)) =
         [case fst (te_handle env w) of Inl e \<Rightarrow> AttemptRaised e | Inr r \<Rightarrow> AttemptAnswered (status_code r)]"
  | (loop) "should_retry_method verb (retry_methods cfg)"
      "handle_request env cfg verb override w = retry_loop env cfg (retry_budget cfg override) 0 w"
  by (cases "should_retry_method verb (retry_methods cfg)"; cases "te_handle env w"; cases "fst (te_handle env w)")
     (auto simp: handle_request_def)

section \<open>Properties\<close>

text \<open>A server that answers 503 as often as the world says, then 200, for the witnesses.\<close>

definition answer_of :: "int \<Rightarrow> http_response" where
  "answer_of s = \<lparr>status_code = s, reason_phrase = [], header_get = (\<lambda>_. None), header_items = [],
     has_content = False, body_json = None, body_text = []\<rparr>"

definition flaky_env :: "nat transport_env" where
  "flaky_env = \<lparr>te_handle = (\<lambda>w. case w of 0 \<Rightarrow> (Inr (answer_of 200), 0) | Suc v \<Rightarrow> (Inr (answer_of 503), v)),
     te_read = (\<lambda>_ w. (None, w)), te_random = (\<lambda>w. (1 / 2, w)), te_now = (\<lambda>_. 0),
     te_parsedate = (\<lambda>_. None), te_sleep = (\<lambda>_ w. w)\<rparr>"

definition steady_config :: retry_config where
  "steady_config = make_retry_config 1 1 5 False {''GET''} {503}"

lemma steady_retries_get: "should_retry_method ''get'' (retry_methods steady_config)"
  by (simp add: should_retry_method_def steady_config_def make_retry_config_def normalize_retry_methods_def
      str_upper_def)

lemma flaky_run_2:
  "handle_request flaky_env steady_config ''get'' PNone 2 =
     (Inr (answer_of 503), [AttemptAnswered 503, ReadBody, CloseResponse, Slept 1, AttemptAnswered 503], 0)"
  using steady_retries_get
  by (simp add: handle_request_def steady_config_def make_retry_config_def retry_budget_def as_int_def
      retry_loop.simps flaky_env_def answer_of_def should_retry_status_def compute_delay_def
      compute_backoff_def prefix_run_def numeral_2_eq_2)

text \<open>C1. A request is sent at least once and at most once more than the retry budget allows
  (the per-request override when it is an integer, else the configured maximum); a method
  outside the retryable set is sent exactly once.\<close>

theorem retry_attempt_bound:
  "1 \<le> attempts (fst (snd (handle_request env cfg verb override w))) \<and>
   attempts (fst (snd (handle_request env cfg verb override w)))
     \<le> (if should_retry_method verb (retry_methods cfg) then Suc (nat (retry_budget cfg override)) else 1)"
proof (cases rule: handle_request_cases [of verb cfg env override w])
  case once
  then show ?thesis by (simp split: sum.splits)
next
  case loop
  with permitted_attempts [OF retry_loop_permitted_any] show ?thesis by simp
qed

text \<open>A retryable status is handed to the caller only once the whole budget is spent: an
  answer whose status calls for a retry comes from the last permitted attempt.\<close>

theorem retry_gives_up_only_when_exhausted:
  assumes "should_retry_method verb (retry_methods cfg)"
    and "fst (handle_request env cfg verb override w) = Inr r"
    and "should_retry_status (status_code r) (retry_statuses cfg)"
  shows "attempts (fst (snd (handle_request env cfg verb override w))) = Suc (nat (retry_budget cfg override))"
proof (cases rule: handle_request_cases [of verb cfg env override w])
  case once
  with assms(1) show ?thesis by simp
next
  case loop
  with assms permitted_exhausts [OF retry_loop_permitted_any] show ?thesis by simp
qed

theorem retry_gives_up_only_when_exhausted_witness:
  "attempts (fst (snd (handle_request flaky_env steady_config ''get'' PNone 2))) = 2"
proof -
  have r: "fst (handle_request flaky_env steady_config ''get'' PNone 2) = Inr (answer_of 503)"
    by (simp add: flaky_run_2)
  have s: "should_retry_status (status_code (answer_of 503)) (retry_statuses steady_config)"
    by (simp add: should_retry_status_def answer_of_def steady_config_def make_retry_config_def)
  from retry_gives_up_only_when_exhausted [OF steady_retries_get r s] show ?thesis
    by (simp add: retry_budget_def as_int_def steady_config_def make_retry_config_def)
qed

text \<open>With non-negative backoff settings and a random source in the unit interval every
  sleep lies between 0 and the configured ceiling, \<open>Retry-After\<close> or not, all sleeps together
  stay below budget times ceiling, and with a budget of at most 1024 retries the only failures
  are the transport's own exceptions.\<close>

theorem retry_sleeps_bounded:
  assumes "sane_delays env cfg" and "retry_budget cfg override \<le> 1024"
    and "handle_request env cfg verb override w = (res, es, w')"
  shows "(\<forall>d. Slept d \<in> set es \<longrightarrow> 0 \<le> d \<and> d \<le> backoff_max cfg) \<and>
    slept_total es \<le> of_nat (nat (retry_budget cfg override)) * backoff_max cfg \<and>
    res \<noteq> Inl OverflowError \<and> res \<noteq> Inl SleepValueError"
proof (cases rule: handle_request_cases [of verb cfg env override w])
  case once
  with assms show ?thesis by (auto simp: sane_delays_def split: sum.splits)
next
  case loop
  let ?D = "\<lambda>d. 0 \<le> d \<and> d \<le> backoff_max cfg"
  from loop assms(3) retry_loop_permitted_sane [OF assms(1), of "retry_budget cfg override" 0 w]
  have p: "permitted ?D cfg (retry_budget cfg override) 0 es res" by (metis fst_conv snd_conv)
  have b: "0 \<le> backoff_max cfg" using assms(1) by (simp add: sane_delays_def)
  have "res \<noteq> Inl OverflowError" using permitted_overflow [OF p] assms(2) by auto
  moreover have "res \<noteq> Inl SleepValueError" using permitted_negative [OF p] by auto
  moreover have "slept_total es \<le> of_nat (nat (retry_budget cfg override)) * backoff_max cfg"
    by (rule permitted_total [OF p _ b]) simp
  moreover have "\<forall>d. Slept d \<in> set es \<longrightarrow> ?D d" using permitted_sleeps [OF p] by blast
  ultimately show ?thesis by blast
qed

theorem retry_sleeps_bounded_witness:
  "sane_delays flaky_env steady_config \<and> slept_total [AttemptAnswered 503, ReadBody, CloseResponse, Slept 1, AttemptAnswered 503] \<le> 5"
proof -
  have s: "sane_delays flaky_env steady_config"
    by (simp add: sane_delays_def flaky_env_def steady_config_def make_retry_config_def)
  have b: "retry_budget steady_config PNone \<le> 1024"
    by (simp add: retry_budget_def as_int_def steady_config_def make_retry_config_def)
  from retry_sleeps_bounded [OF s b flaky_run_2] s show ?thesis
    by (simp add: retry_budget_def as_int_def steady_config_def make_retry_config_def)
qed

text \<open>C2. A response that is thrown away is read and closed before the transport sleeps, so no
  connection is held through a backoff, and every sleep is followed by another attempt.\<close>

theorem retry_drains_before_sleeping:
  "drained_before_sleep (fst (snd (handle_request env cfg verb override w)))"
proof (cases rule: handle_request_cases [of verb cfg env override w])
  case once
  then show ?thesis by (simp split: sum.splits)
next
  case loop
  show ?thesis
    unfolding loop(2) by (rule permitted_drained [OF retry_loop_permitted_any, THEN conjunct1])
qed

end
