(* ===== verification/Http_Client.thy ===== *)
theory Http_Client
  imports Failures Auth Retry
begin

text \<open>
  Shared HTTP behaviour of the clients (\<open>honua_sdk/_http.py\<close>): header merging, the rules
  that keep credentials from leaving the configured origin, and the construction of the
  SDK's exceptions from responses, GeoServices error envelopes and transport failures.

  A URL is the parts the code reads. The request's header store belongs to the HTTP library:
  its operations are the record \<open>header_ops\<close>, and \<open>header_laws\<close> states the library's
  documented behaviour (names are case-insensitive).
\<close>

section \<open>Paths and headers\<close>

definition normalize_base_url :: "string \<Rightarrow> string" where
  "normalize_base_url base_url = str_rstrip_chars {CHR ''/''} base_url @ ''/''"

definition join_base_path :: "string \<Rightarrow> string \<Rightarrow> string" where
  "join_base_path base_path path =
     (let prefix = str_rstrip_chars {CHR ''/''} base_path in
      if prefix = [] then path
      else prefix @ (case path of c # _ \<Rightarrow> if c = CHR ''/'' then path else CHR ''/'' # path | [] \<Rightarrow> ''/''))"

text \<open>\<open>build_idempotency_headers\<close>; \<open>uuid\<close> is the fresh key \<open>uuid.uuid4().hex\<close> would give.\<close>

definition build_idempotency_headers ::
  "string option \<Rightarrow> string set \<Rightarrow> (string, string) pydict option \<Rightarrow> string \<Rightarrow> (string, string) pydict option" where
  "build_idempotency_headers idempotency_key methods extra uuid =
     (let headers = (case extra of None \<Rightarrow> [] | Some e \<Rightarrow> dict_update [] e);
          headers = (case idempotency_key of
              Some key \<Rightarrow> dict_set headers ''Idempotency-Key'' key
            | None \<Rightarrow> if ''POST'' \<in> methods then dict_set headers ''Idempotency-Key'' uuid else headers)
      in if headers = [] then None else Some headers)"

definition merge_request_headers ::
  "(string, string) pydict option \<Rightarrow> (string, string) pydict option \<Rightarrow> string option \<Rightarrow>
   (string, string) pydict option" where
  "merge_request_headers headers extra_headers idempotency_key =
     (if headers = None \<and> extra_headers = None \<and> idempotency_key = None then None
      else
        (let merged = (case extra_headers of None \<Rightarrow> [] | Some e \<Rightarrow> dict_update [] e);
             merged = (case headers of None \<Rightarrow> merged | Some h \<Rightarrow> dict_update merged h)
         in Some (case idempotency_key of None \<Rightarrow> merged | Some key \<Rightarrow> dict_set merged ''Idempotency-Key'' key)))"

text \<open>\<open>_query_dispatch.merge_idempotency_into_headers\<close>.\<close>

definition merge_idempotency_into_headers ::
  "(string, string) pydict option \<Rightarrow> string option \<Rightarrow> (string, string) pydict option" where
  "merge_idempotency_into_headers extra_headers idempotency_key =
     (case idempotency_key of None \<Rightarrow> extra_headers
      | Some key \<Rightarrow> Some (dict_set (case extra_headers of None \<Rightarrow> [] | Some e \<Rightarrow> e) ''Idempotency-Key'' key))"

definition build_sensitive_auth_headers :: "string option \<Rightarrow> string option \<Rightarrow> (string, string) pydict" where
  "build_sensitive_auth_headers api_key bearer_token =
     (let headers = (case api_key of Some (c # cs) \<Rightarrow> [(''X-API-Key'', c # cs)] | _ \<Rightarrow> [])
      in (case bearer_token of Some (c # cs) \<Rightarrow> dict_set headers ''Authorization'' (''Bearer '' @ c # cs)
          | _ \<Rightarrow> headers))"

definition validate_auth_configuration :: "string option \<Rightarrow> bool \<Rightarrow> auth_error + unit" where
  "validate_auth_configuration bearer_token has_auth_provider =
     (if bearer_token \<noteq> None \<and> has_auth_provider
      then Inl (ValueError ''Provide either `bearer_token` or `auth_provider`, not both.'') else Inr ())"

definition validate_external_client_auth_configuration ::
  "bool \<Rightarrow> string option \<Rightarrow> string option \<Rightarrow> bool \<Rightarrow> auth_error + unit" where
  "validate_external_client_auth_configuration has_client api_key bearer_token has_auth_provider =
     (if \<not> has_client then Inr ()
      else if api_key = None \<and> bearer_token = None \<and> \<not> has_auth_provider then Inr ()
      else Inl (ValueError ''Configure authentication on the supplied `client`''))"

section \<open>Where credentials may go\<close>

record http_url =
  url_scheme :: string
  url_host :: string
  url_port :: "int option"

definition extract_trusted_authority :: "http_url \<Rightarrow> string \<times> string \<times> int option" where
  "extract_trusted_authority url = (url_scheme url, url_host url, url_port url)"

text \<open>
  \<open>ipaddress.ip_address(candidate).is_loopback\<close>: a dotted quad is read here (four parts, one to
  three digits each, no leading zero, at most 255); \<open>ip6_loopback\<close> stands for the IPv6 case.
\<close>

definition ip4_octet :: "string \<Rightarrow> nat option" where
  "ip4_octet s =
     (if str_isdigit s \<and> length s \<le> 3 \<and> (length s = 1 \<or> hd s \<noteq> CHR ''0'') \<and> digits_value s \<le> 255
      then Some (digits_value s) else None)"

definition ip4_parse :: "string \<Rightarrow> nat list option" where
  "ip4_parse s =
     (let octets = map ip4_octet (str_split_char CHR ''.'' s)
      in if length octets = 4 \<and> None \<notin> set octets then Some (map the octets) else None)"

definition is_loopback_host :: "(string \<Rightarrow> bool) \<Rightarrow> string \<Rightarrow> bool" where
  "is_loopback_host ip6_loopback host =
     (let candidate = str_lower (str_rstrip_chars {CHR ''.''}
            (str_strip_chars {CHR ''['', CHR '']''} (str_strip host)))
      in candidate = ''localhost'' \<or>
         (case ip4_parse candidate of Some octets \<Rightarrow> hd octets = 127 | None \<Rightarrow> ip6_loopback candidate))"

definition truthy_env_values :: "string set" where
  "truthy_env_values = {''1'', ''true'', ''yes'', ''on''}"

text \<open>The argument is \<open>os.environ.get("HONUA_ALLOW_INSECURE_HTTP")\<close>.\<close>

definition insecure_http_opted_in_by_env :: "string option \<Rightarrow> bool" where
  "insecure_http_opted_in_by_env value =
     (str_lower (str_strip (case value of None \<Rightarrow> [] | Some v \<Rightarrow> v)) \<in> truthy_env_values)"

definition ensure_secure_credential_transport ::
  "(string \<Rightarrow> bool) \<Rightarrow> string option \<Rightarrow> http_url \<Rightarrow> bool \<Rightarrow> bool \<Rightarrow> auth_error + unit" where
  "ensure_secure_credential_transport ip6_loopback env_value url has_credentials allow_insecure_http =
     (if \<not> has_credentials \<or> allow_insecure_http then Inr ()
      else if url_scheme url \<noteq> ''http'' \<or> is_loopback_host ip6_loopback (url_host url) then Inr ()
      else if insecure_http_opted_in_by_env env_value then Inr ()
      else Inl (ValueError ''Refusing to send credentials over plain HTTP''))"

definition ensure_same_origin_continuation :: "http_url \<Rightarrow> http_url \<Rightarrow> string + unit" where
  "ensure_same_origin_continuation url base_url =
     (if extract_trusted_authority url = extract_trusted_authority base_url then Inr ()
      else Inl ''Refusing to follow continuation URL outside the client's configured origin'')"

record 'h header_ops =
  hd_get :: "'h \<Rightarrow> string \<Rightarrow> string option"
  hd_setdefault :: "'h \<Rightarrow> string \<Rightarrow> string \<Rightarrow> 'h"
  hd_pop :: "'h \<Rightarrow> string \<Rightarrow> 'h"

definition header_laws :: "'h header_ops \<Rightarrow> bool" where
  "header_laws ops \<longleftrightarrow>
     (\<forall>h k. hd_get ops h k = hd_get ops h (str_lower k)) \<and>
     (\<forall>h k k'. hd_get ops (hd_pop ops h k) k' =
        (if str_lower k' = str_lower k then None else hd_get ops h k')) \<and>
     (\<forall>h k v k'. hd_get ops (hd_setdefault ops h k v) k' =
        (if str_lower k' = str_lower k then (case hd_get ops h k of None \<Rightarrow> Some v | Some w \<Rightarrow> Some w)
         else hd_get ops h k'))"

text \<open>
  \<open>_apply_sensitive_auth_headers\<close>; \<open>dynamic\<close> is what \<open>_auth_provider_headers\<close> returns or
  raises (an empty dict without a provider), called only for a trusted target.
\<close>

definition apply_sensitive_auth_headers ::
  "'h header_ops \<Rightarrow> http_url \<Rightarrow> 'h \<Rightarrow> (string \<times> string \<times> int option) option \<Rightarrow>
   (string, string) pydict \<Rightarrow> (auth_error + (string, string) pydict) \<Rightarrow> auth_error + 'h" where
  "apply_sensitive_auth_headers ops url h trusted static_headers dynamic =
     (case trusted of None \<Rightarrow> Inr h
      | Some authority \<Rightarrow>
          if extract_trusted_authority url = authority
          then bindE dynamic (\<lambda>dynamic_headers.
                 Inr (put_all (hd_setdefault ops) (put_all (hd_setdefault ops) h static_headers) dynamic_headers))
          else Inr (foldl (hd_pop ops) h [''authorization'', ''x-api-key'']))"

section \<open>Exceptions\<close>

datatype error_class = HonuaHttpError | HonuaAuthError | HonuaRateLimitError

record http_error =
  he_class :: error_class
  he_status_code :: int
  he_message :: string
  he_body :: pyval
  he_request_id :: "string option"
  he_headers :: "(string, string) pydict"
  he_error_code :: "int option"
  he_receipt :: failure_receipt

datatype http_raised = HttpFailure http_error | ReceiptError receipt_error

text \<open>The parts of the environment that building an exception reads.\<close>

record http_env =
  ht_str_of :: "pyval \<Rightarrow> string"
  ht_decode :: "8 word list \<Rightarrow> string"
  ht_parsedate :: "string \<Rightarrow> py_datetime option"
  ht_now :: rat

definition response_request_id :: "http_response \<Rightarrow> string option" where
  "response_request_id r =
     or_text (or_text (header_get r ''x-request-id'') (header_get r ''honua-request-id''))
       (header_get r ''x-correlation-id'')"

definition response_retry_after :: "http_env \<Rightarrow> http_response \<Rightarrow> pyfloat option" where
  "response_retry_after env r =
     map_option FFinite (parse_retry_after (ht_parsedate env) (ht_now env) (header_get r ''retry-after''))"

definition response_receipt ::
  "http_env \<Rightarrow> http_response \<Rightarrow> pyval \<Rightarrow> int option \<Rightarrow> receipt_error + failure_receipt" where
  "response_receipt env r body protocol_code =
     http_failure_receipt (ht_str_of env) (ht_decode env) (status_code r) body
       (map (\<lambda>(k, v). (k, PStr v)) (header_items r)) protocol_code (response_retry_after env r) None"

definition raised_error ::
  "error_class \<Rightarrow> int \<Rightarrow> string \<Rightarrow> pyval \<Rightarrow> http_response \<Rightarrow> int option \<Rightarrow> failure_receipt \<Rightarrow> http_error" where
  "raised_error cls status message body r error_code receipt =
     \<lparr>he_class = cls, he_status_code = status, he_message = message, he_body = body,
      he_request_id = response_request_id r, he_headers = dict_update [] (header_items r),
      he_error_code = error_code, he_receipt = receipt\<rparr>"

definition build_http_error ::
  "http_env \<Rightarrow> int \<Rightarrow> string \<Rightarrow> pyval \<Rightarrow> http_response \<Rightarrow> http_raised" where
  "build_http_error env status message body r =
     (case response_receipt env r body None of
        Inl e \<Rightarrow> ReceiptError e
      | Inr receipt \<Rightarrow>
          HttpFailure (raised_error
            (if status \<in> {401, 403} then HonuaAuthError
             else if status = 429 then HonuaRateLimitError else HonuaHttpError)
            status message body r None receipt))"

text \<open>The candidate message of a parsed error body: the envelope's \<open>message\<close>, else \<open>detail\<close> or
  \<open>message\<close> at the top.\<close>

definition body_message :: "pyval \<Rightarrow> string \<Rightarrow> string" where
  "body_message body message =
     (case body of
        PDict d \<Rightarrow>
          (case (case get_or_none d ''error'' of
                   PDict e \<Rightarrow> get_or_none e ''message''
                 | _ \<Rightarrow> py_or (get_or_none d ''detail'') (get_or_none d ''message'')) of
             PStr (c # cs) \<Rightarrow> c # cs
           | _ \<Rightarrow> message)
      | _ \<Rightarrow> message)"

definition to_http_error :: "http_env \<Rightarrow> http_response \<Rightarrow> http_raised" where
  "to_http_error env r =
     (let message = (if reason_phrase r = [] then ''Request failed'' else reason_phrase r);
          body = (if has_content r
                  then (case body_json r of Some v \<Rightarrow> v | None \<Rightarrow> PStr (body_text r)) else PNone)
      in build_http_error env (status_code r) (body_message body message) body r)"

section \<open>GeoServices error envelopes\<close>

definition geoservices_auth_codes :: "int set" where
  "geoservices_auth_codes = {401, 403, 498, 499}"

definition normalize_geoservices_status :: "int \<Rightarrow> int" where
  "normalize_geoservices_status error_code =
     (if error_code \<in> geoservices_auth_codes
      then (if error_code \<in> {401, 403} then error_code else 403)
      else if 100 \<le> error_code \<and> error_code \<le> 599 then error_code
      else 500)"

definition build_geoservices_error ::
  "http_env \<Rightarrow> int \<Rightarrow> string \<Rightarrow> pyval \<Rightarrow> http_response \<Rightarrow> http_raised" where
  "build_geoservices_error env error_code message body r =
     (case response_receipt env r body (Some error_code) of
        Inl e \<Rightarrow> ReceiptError e
      | Inr receipt \<Rightarrow>
          HttpFailure (raised_error
            (if error_code \<in> geoservices_auth_codes then HonuaAuthError
             else if error_code = 429 then HonuaRateLimitError else HonuaHttpError)
            (normalize_geoservices_status error_code) message body r (Some error_code) receipt))"

definition raise_for_geoservices_error ::
  "http_env \<Rightarrow> http_response \<Rightarrow> (string, pyval) pydict \<Rightarrow> http_raised + unit" where
  "raise_for_geoservices_error env r payload =
     (case get_or_none payload ''error'' of
        PDict error \<Rightarrow>
          (case get_or_none error ''code'' of
             PInt code \<Rightarrow>
               (let message = (if reason_phrase r = [] then ''GeoServices request failed'' else reason_phrase r);
                    message = (case get_or_none error ''message'' of PStr (c # cs) \<Rightarrow> c # cs | _ \<Rightarrow> message);
                    body = (if has_content r
                            then (case body_json r of Some v \<Rightarrow> v | None \<Rightarrow> PDict payload) else PDict payload)
                in Inl (build_geoservices_error env code message body r))
           | _ \<Rightarrow> Inr ())
      | _ \<Rightarrow> Inr ())"

section \<open>Transport failures\<close>

record transport_error =
  tr_timeout :: bool
  tr_detail :: string
  tr_cause_type :: string
  tr_url :: "string option"

definition exn_class_name :: "httpx_exn \<Rightarrow> string" where
  "exn_class_name e = (case e of
     ConnectError \<Rightarrow> ''ConnectError'' | ReadError \<Rightarrow> ''ReadError'' | WriteError \<Rightarrow> ''WriteError''
   | CloseError \<Rightarrow> ''CloseError'' | RemoteProtocolError \<Rightarrow> ''RemoteProtocolError''
   | LocalProtocolError \<Rightarrow> ''LocalProtocolError'' | ProxyError \<Rightarrow> ''ProxyError''
   | UnsupportedProtocol \<Rightarrow> ''UnsupportedProtocol'' | ConnectTimeout \<Rightarrow> ''ConnectTimeout''
   | ReadTimeout \<Rightarrow> ''ReadTimeout'' | WriteTimeout \<Rightarrow> ''WriteTimeout'' | PoolTimeout \<Rightarrow> ''PoolTimeout''
   | OtherExn name \<Rightarrow> name)"

text \<open>\<open>etext\<close> is \<open>str(error)\<close> and \<open>url\<close> the URL of the exception's request, if it has one;
  \<open>tr_timeout\<close> tells \<open>HonuaTimeoutError\<close> from \<open>HonuaTransportError\<close>.\<close>

definition to_transport_error :: "httpx_exn \<Rightarrow> string \<Rightarrow> string option \<Rightarrow> transport_error" where
  "to_transport_error error etext url =
     \<lparr>tr_timeout = is_timeout_exn error,
      tr_detail = ''Transport error: '' @ (if etext = [] then exn_class_name error else etext),
      tr_cause_type = exn_class_name error, tr_url = url\<rparr>"

section \<open>Lemmas\<close>

lemma header_laws_get: "header_laws ops \<Longrightarrow> hd_get ops h k = hd_get ops h (str_lower k)"
  by (simp add: header_laws_def)

lemma header_laws_pop:
  "header_laws ops \<Longrightarrow> hd_get ops (hd_pop ops h k) k' = (if str_lower k' = str_lower k then None else hd_get ops h k')"
  by (simp add: header_laws_def)

lemma header_laws_setdefault:
  "header_laws ops \<Longrightarrow> hd_get ops (hd_setdefault ops h k v) k' =
     (if str_lower k' = str_lower k then (case hd_get ops h k of None \<Rightarrow> Some v | Some w \<Rightarrow> Some w)
      else hd_get ops h k')"
  by (simp add: header_laws_def)

lemma put_all_setdefault_keeps:
  assumes "header_laws ops" and "hd_get ops h k = Some v"
  shows "hd_get ops (put_all (hd_setdefault ops) h kvs) k = Some v"
  using assms(2)
proof (induction kvs arbitrary: h)
  case Nil
  then show ?case by simp
next
  case (Cons kv kvs)
  obtain a b where kv: "kv = (a, b)" by (cases kv)
  have "hd_get ops (hd_setdefault ops h a b) k = Some v"
  proof (cases "str_lower k = str_lower a")
    case True
    then have "hd_get ops h a = Some v"
      using Cons.prems header_laws_get [OF assms(1), of h a] header_laws_get [OF assms(1), of h k] by simp
    with True show ?thesis by (simp add: header_laws_setdefault [OF assms(1)])
  next
    case False
    with Cons.prems show ?thesis by (simp add: header_laws_setdefault [OF assms(1)])
  qed
  from Cons.IH [OF this] show ?case by (simp add: kv)
qed

lemma build_http_error_InrD:
  "build_http_error env s m b r = HttpFailure e \<Longrightarrow>
     he_status_code e = s \<and> he_message e = m \<and>
     he_class e = (if s \<in> {401, 403} then HonuaAuthError else if s = 429 then HonuaRateLimitError else HonuaHttpError)"
  by (auto simp: build_http_error_def raised_error_def split: sum.splits)

lemma body_message_nonempty: "message \<noteq> [] \<Longrightarrow> body_message body message \<noteq> []"
  by (auto simp: body_message_def split: pyval.splits list.splits)

lemma response_receipt_not_IndexErr: "response_receipt env r b pc \<noteq> Inl IndexErr"
  by (auto simp: response_receipt_def http_failure_receipt_def Let_def bindE_eq_Inl number_eq_Inl)

lemma untrusted_stripped:
  assumes "header_laws ops"
    and "extract_trusted_authority url \<noteq> authority"
    and "apply_sensitive_auth_headers ops url h (Some authority) static_headers dynamic = Inr h'"
  shows "hd_get ops h' k = (if str_lower k \<in> sensitive_auth_header_names then None else hd_get ops h k)"
proof -
  have low: "str_lower ''authorization'' = ''authorization''" "str_lower ''x-api-key'' = ''x-api-key''"
    by (simp_all add: str_lower_def)
  from assms(2,3) have "h' = hd_pop ops (hd_pop ops h ''authorization'') ''x-api-key''"
    by (simp add: apply_sensitive_auth_headers_def)
  then show ?thesis
    by (auto simp: header_laws_pop [OF assms(1)] sensitive_auth_header_names_def low)
qed

section \<open>Properties\<close>

definition dict_header_ops :: "(string, string) pydict header_ops" where
  "dict_header_ops = \<lparr>hd_get = (\<lambda>h k. dict_get h (str_lower k)),
     hd_setdefault = (\<lambda>h k v. dict_setdefault h (str_lower k) v),
     hd_pop = (\<lambda>h k. dict_pop h (str_lower k))\<rparr>"

lemma dict_header_laws: "header_laws dict_header_ops"
  by (simp add: header_laws_def dict_header_ops_def)

text \<open>C5. Outside the trusted origin (another scheme, host or port, so also after an https to
  http downgrade) a request leaves without any sensitive header, whatever it carried and
  whatever the casing; every other header is untouched.\<close>

theorem untrusted_request_is_stripped:
  assumes "header_laws ops"
    and "extract_trusted_authority url \<noteq> authority"
    and "apply_sensitive_auth_headers ops url h (Some authority) static_headers dynamic = Inr h'"
  shows "hd_get ops h' k = (if str_lower k \<in> sensitive_auth_header_names then None else hd_get ops h k)"
  by (rule untrusted_stripped [OF assms])

definition site :: http_url where
  "site = \<lparr>url_scheme = ''https'', url_host = ''api.example'', url_port = None\<rparr>"

theorem untrusted_request_is_stripped_witness:
  "hd_get dict_header_ops (foldl (hd_pop dict_header_ops) [(''authorization'', ''Bearer t'')]
      [''authorization'', ''x-api-key'']) ''Authorization'' = None"
proof -
  have d: "extract_trusted_authority (site\<lparr>url_scheme := ''http''\<rparr>) \<noteq> extract_trusted_authority site"
    by (simp add: extract_trusted_authority_def site_def)
  have a: "apply_sensitive_auth_headers dict_header_ops (site\<lparr>url_scheme := ''http''\<rparr>)
     [(''authorization'', ''Bearer t'')] (Some (extract_trusted_authority site)) [] (Inr []) =
     Inr (foldl (hd_pop dict_header_ops) [(''authorization'', ''Bearer t'')] [''authorization'', ''x-api-key''])"
    using d by (simp add: apply_sensitive_auth_headers_def)
  have low: "str_lower ''Authorization'' = ''authorization''" by (simp add: str_lower_def)
  show ?thesis
    using untrusted_request_is_stripped [OF dict_header_laws d a, of "''Authorization''"]
    by (simp only: low sensitive_auth_header_names_def) simp
qed

text \<open>C6. No credential of the client travels over plain HTTP unless the host is a loopback or
  the user opted in: when the client was allowed to be built for its base URL and a request
  gains or keeps a sensitive header after the hook, the request's scheme is not \<open>http\<close>, or its
  host is a loopback, or an opt-in was given.\<close>

theorem credentials_not_sent_in_clear:
  assumes "header_laws ops"
    and "ensure_secure_credential_transport ip6 env_value base_url True allow = Inr ()"
    and "apply_sensitive_auth_headers ops url h (Some (extract_trusted_authority base_url)) static_headers dynamic
           = Inr h'"
    and "str_lower k \<in> sensitive_auth_header_names" and "hd_get ops h' k \<noteq> None"
  shows "url_scheme url \<noteq> ''http'' \<or> is_loopback_host ip6 (url_host url) \<or> allow
     \<or> insecure_http_opted_in_by_env env_value"
proof (cases "extract_trusted_authority url = extract_trusted_authority base_url")
  case True
  then have "url_scheme url = url_scheme base_url" "url_host url = url_host base_url"
    by (simp_all add: extract_trusted_authority_def)
  with assms(2) show ?thesis
    by (auto simp: ensure_secure_credential_transport_def split: if_splits)
next
  case False
  from untrusted_stripped [OF assms(1) this assms(3), of k] assms(4,5) show ?thesis by simp
qed

theorem credentials_not_sent_in_clear_witness:
  "url_scheme (site\<lparr>url_scheme := ''http'', url_host := ''localhost''\<rparr>) = ''http'' \<and>
   is_loopback_host (\<lambda>_. False) ''localhost''"
proof -
  let ?u = "site\<lparr>url_scheme := ''http'', url_host := ''localhost''\<rparr>"
  have lo: "is_loopback_host (\<lambda>_. False) ''localhost''"
    by (simp add: is_loopback_host_def str_lower_def str_strip_def str_lstrip_def str_strip_chars_def str_rstrip_chars_def)
  have low: "str_lower ''Authorization'' = ''authorization''" by (simp add: str_lower_def)
  have e: "ensure_secure_credential_transport (\<lambda>_. False) None ?u True False = Inr ()"
    using lo by (simp add: ensure_secure_credential_transport_def)
  have a: "apply_sensitive_auth_headers dict_header_ops ?u [] (Some (extract_trusted_authority ?u))
     [(''Authorization'', ''Bearer t'')] (Inr []) = Inr [(''authorization'', ''Bearer t'')]"
    by (simp add: apply_sensitive_auth_headers_def dict_header_ops_def low dict_setdefault_def dict_set_def)
  have k: "str_lower ''Authorization'' \<in> sensitive_auth_header_names"
    "hd_get dict_header_ops [(''authorization'', ''Bearer t'')] ''Authorization'' \<noteq> None"
    by (simp_all add: low sensitive_auth_header_names_def dict_header_ops_def dict_get_def)
  from credentials_not_sent_in_clear [OF dict_header_laws e a k] lo show ?thesis
    by (simp add: site_def)
qed

text \<open>At the trusted origin a header the caller set is never overridden by the client's
  credentials, and the static credentials win over the provider's.\<close>

theorem caller_headers_take_precedence:
  assumes "header_laws ops"
    and "apply_sensitive_auth_headers ops url h (Some (extract_trusted_authority url)) static_headers dynamic = Inr h'"
  shows "(hd_get ops h k = Some v \<longrightarrow> hd_get ops h' k = Some v) \<and>
    (hd_get ops (put_all (hd_setdefault ops) h static_headers) k = Some v \<longrightarrow> hd_get ops h' k = Some v)"
proof -
  from assms(2) obtain d where
    h': "h' = put_all (hd_setdefault ops) (put_all (hd_setdefault ops) h static_headers) d"
    by (auto simp: apply_sensitive_auth_headers_def bindE_eq_Inr)
  show ?thesis
    unfolding h' using put_all_setdefault_keeps [OF assms(1)] by blast
qed

theorem caller_headers_take_precedence_witness:
  "hd_get dict_header_ops [(''authorization'', ''Bearer mine'')] ''authorization'' = Some ''Bearer mine''"
proof -
  have low: "str_lower ''Authorization'' = ''authorization''" "str_lower ''authorization'' = ''authorization''"
    by (simp_all add: str_lower_def)
  have a: "apply_sensitive_auth_headers dict_header_ops site [(''authorization'', ''Bearer mine'')]
     (Some (extract_trusted_authority site)) [(''Authorization'', ''Bearer t'')] (Inr [])
     = Inr [(''authorization'', ''Bearer mine'')]"
    by (simp add: apply_sensitive_auth_headers_def dict_header_ops_def low dict_setdefault_def dict_get_def)
  have "hd_get dict_header_ops [(''authorization'', ''Bearer mine'')] ''authorization'' = Some ''Bearer mine''"
    by (simp add: dict_header_ops_def low dict_get_def)
  with caller_headers_take_precedence [OF dict_header_laws a] show ?thesis by blast
qed

text \<open>The integer code of an error envelope, if the payload is one.\<close>

definition envelope_code :: "(string, pyval) pydict \<Rightarrow> int option" where
  "envelope_code payload = (case get_or_none payload ''error'' of
     PDict d \<Rightarrow> (case get_or_none d ''code'' of PInt c \<Rightarrow> Some c | _ \<Rightarrow> None) | _ \<Rightarrow> None)"

lemma raise_for_geoservices_error_cases:
  obtains (none) "envelope_code payload = None" "raise_for_geoservices_error env r payload = Inr ()"
  | (code) c m b where "envelope_code payload = Some c" "m \<noteq> []"
      "raise_for_geoservices_error env r payload = Inl (build_geoservices_error env c m b r)"
proof (cases "envelope_code payload")
  case None
  then have "raise_for_geoservices_error env r payload = Inr ()"
    by (auto simp: envelope_code_def raise_for_geoservices_error_def split: pyval.splits)
  with None none show ?thesis by blast
next
  case (Some c)
  then obtain d where d: "get_or_none payload ''error'' = PDict d" "get_or_none d ''code'' = PInt c"
    by (auto simp: envelope_code_def split: pyval.splits)
  define m0 where "m0 = (if reason_phrase r = [] then ''GeoServices request failed'' else reason_phrase r)"
  define m where "m = (case get_or_none d ''message'' of PStr (x # xs) \<Rightarrow> x # xs | _ \<Rightarrow> m0)"
  define b where "b = (if has_content r
     then (case body_json r of Some v \<Rightarrow> v | None \<Rightarrow> PDict payload) else PDict payload)"
  have m: "m \<noteq> []" by (simp add: m_def m0_def split: pyval.splits list.splits)
  have "raise_for_geoservices_error env r payload = Inl (build_geoservices_error env c m b r)"
    unfolding raise_for_geoservices_error_def d pyval.case Let_def m_def m0_def b_def by (rule refl)
  from code [OF Some m this] show ?thesis .
qed

lemma build_geoservices_error_fields:
  assumes "build_geoservices_error env c m b r = HttpFailure e"
  shows "he_error_code e = Some c" "he_status_code e = normalize_geoservices_status c" "he_message e = m"
    "he_class e = (if c \<in> geoservices_auth_codes then HonuaAuthError
       else if c = 429 then HonuaRateLimitError else HonuaHttpError)"
  using assms by (auto simp: build_geoservices_error_def raised_error_def split: sum.splits)

lemma normalize_geoservices_status_range:
  "100 \<le> normalize_geoservices_status c \<and> normalize_geoservices_status c \<le> 599"
  by (auto simp: normalize_geoservices_status_def geoservices_auth_codes_def)

lemma normalize_geoservices_status_auth:
  "c \<in> geoservices_auth_codes \<Longrightarrow> normalize_geoservices_status c \<in> {401, 403}"
  by (auto simp: normalize_geoservices_status_def geoservices_auth_codes_def)

text \<open>C7. A successful response is turned into an exception exactly when its payload's \<open>error\<close>
  is a mapping with an integer, non-boolean \<open>code\<close>; the exception keeps that code, surfaces a
  status in the HTTP range and a non-empty message, and is an authentication error, with
  status 401 or 403, for the four token codes and only for those.\<close>

theorem geoservices_envelope_raises:
  "case raise_for_geoservices_error env r payload of
     Inr _ \<Rightarrow> envelope_code payload = None
   | Inl (ReceiptError _) \<Rightarrow> envelope_code payload \<noteq> None
   | Inl (HttpFailure e) \<Rightarrow>
       he_error_code e \<noteq> None \<and> he_error_code e = envelope_code payload \<and>
       100 \<le> he_status_code e \<and> he_status_code e \<le> 599 \<and> he_message e \<noteq> [] \<and>
       (he_class e = HonuaAuthError \<longleftrightarrow> the (he_error_code e) \<in> geoservices_auth_codes) \<and>
       (he_class e = HonuaAuthError \<longrightarrow> he_status_code e \<in> {401, 403})"
proof (cases rule: raise_for_geoservices_error_cases [of payload env r])
  case none
  then show ?thesis by simp
next
  case (code c m b)
  show ?thesis
  proof (cases "build_geoservices_error env c m b r")
    case (HttpFailure e)
    with code build_geoservices_error_fields [OF HttpFailure] show ?thesis
      using normalize_geoservices_status_range [of c] normalize_geoservices_status_auth [of c] by simp
  next
    case (ReceiptError x)
    with code show ?thesis by simp
  qed
qed

definition ok_response :: http_response where
  "ok_response = (answer_of 200)\<lparr>reason_phrase := ''OK''\<rparr>"

definition plain_env :: http_env where
  "plain_env = \<lparr>ht_str_of = (\<lambda>_. []), ht_decode = (\<lambda>_. []), ht_parsedate = (\<lambda>_. None), ht_now = 0\<rparr>"

definition token_required :: "(string, pyval) pydict" where
  "token_required = [(''error'', PDict [(''code'', PInt 499), (''message'', PStr ''Token Required'')])]"

theorem geoservices_envelope_raises_witness:
  "\<exists>e. raise_for_geoservices_error plain_env ok_response token_required = Inl (HttpFailure e) \<and>
     he_class e = HonuaAuthError \<and> he_error_code e = Some 499"
proof -
  have c: "envelope_code token_required = Some 499"
    by (simp add: envelope_code_def token_required_def get_or_none_def dict_get_def)
  obtain e where e: "raise_for_geoservices_error plain_env ok_response token_required = Inl (HttpFailure e)"
    by (simp add: raise_for_geoservices_error_def token_required_def get_or_none_def dict_get_def
        build_geoservices_error_def response_receipt_def http_failure_receipt_def receipt_root_def
        receipt_source_def number_def ok_response_def answer_of_def Let_def)
  from geoservices_envelope_raises [where env = plain_env and r = ok_response and payload = token_required] e c show ?thesis
    by (simp add: geoservices_auth_codes_def)
qed

text \<open>A failed response becomes the exception class of its status (401 and 403
  authentication, 429 rate limit, every other status the base class), with the response's own
  status, a non-empty message, and a receipt carrying the parsed \<open>Retry-After\<close> unless the body
  declares its own.\<close>

theorem http_error_classified_by_status:
  "case to_http_error env r of
     ReceiptError e \<Rightarrow> e = Overflow
   | HttpFailure e \<Rightarrow>
       he_status_code e = status_code r \<and> he_message e \<noteq> [] \<and>
       (he_class e = HonuaAuthError \<longleftrightarrow> status_code r \<in> {401, 403}) \<and>
       (he_class e = HonuaRateLimitError \<longleftrightarrow> status_code r = 429) \<and>
       (\<not> is_mapping (he_body e) \<longrightarrow>
          fr_retry_after_seconds (he_receipt e) = response_retry_after env r \<and>
          fr_kind (he_receipt e) = http_kind (status_code r) (status_code r))"
proof -
  define m0 where "m0 = (if reason_phrase r = [] then ''Request failed'' else reason_phrase r)"
  define body where "body = (if has_content r
     then (case body_json r of Some v \<Rightarrow> v | None \<Rightarrow> PStr (body_text r)) else PNone)"
  have eq: "to_http_error env r = build_http_error env (status_code r) (body_message body m0) body r"
    unfolding to_http_error_def Let_def m0_def body_def by (rule refl)
  have ne: "body_message body m0 \<noteq> []" by (rule body_message_nonempty) (simp add: m0_def)
  show ?thesis
  proof (cases "response_receipt env r body None")
    case (Inl e)
    then have "e = Overflow" using response_receipt_not_IndexErr [of env r body None] by (cases e) auto
    with Inl show ?thesis by (simp add: eq build_http_error_def)
  next
    case (Inr receipt)
    have "\<not> is_mapping body \<Longrightarrow> fr_retry_after_seconds receipt = response_retry_after env r \<and>
        fr_kind receipt = http_kind (status_code r) (status_code r)"
      using Inr by (auto simp: response_receipt_def receipt_of_plain_body)
    with Inr ne show ?thesis by (simp add: eq build_http_error_def raised_error_def)
  qed
qed

theorem http_error_classified_by_status_witness:
  "\<exists>e. to_http_error plain_env (answer_of 429) = HttpFailure e \<and> he_class e = HonuaRateLimitError"
proof -
  obtain e where e: "to_http_error plain_env (answer_of 429) = HttpFailure e"
    by (simp add: to_http_error_def answer_of_def build_http_error_def response_receipt_def
        receipt_of_plain_body is_mapping_def body_message_def)
  with http_error_classified_by_status [where env = plain_env and r = "answer_of 429"] show ?thesis
    by (simp add: answer_of_def)
qed

text \<open>Merged request headers are read with a fixed precedence: the explicit idempotency
  key, then the per-request headers, then the extra headers; and folding the key into the
  extra headers first, as the query dispatcher does, reads the same.\<close>

theorem merged_headers_precedence:
  assumes "\<forall>h \<in> set_option headers \<union> set_option extra. dict_wf h"
    and "merge_request_headers headers extra key = Some merged"
  shows "dict_get merged k =
      (if k = ''Idempotency-Key'' \<and> key \<noteq> None then key
       else case Option.bind headers (\<lambda>h. dict_get h k) of
              Some v \<Rightarrow> Some v | None \<Rightarrow> Option.bind extra (\<lambda>e. dict_get e k))
    \<and> (headers = None \<longrightarrow>
        (\<exists>folded. merge_idempotency_into_headers extra key = Some folded \<and> dict_get folded k = dict_get merged k))"
  using assms
  by (auto simp: merge_request_headers_def merge_idempotency_into_headers_def dict_get_update_wf Let_def
      split: if_splits option.splits)

theorem merged_headers_precedence_witness:
  "merge_request_headers (Some [(''A'', ''1'')]) (Some [(''A'', ''2''), (''B'', ''3'')]) (Some ''k'')
     = Some [(''A'', ''1''), (''B'', ''3''), (''Idempotency-Key'', ''k'')] \<and>
   dict_get [(''A'', ''1''), (''B'', ''3''), (''Idempotency-Key'', ''k'')] ''A'' = Some ''1''"
proof -
  have m: "merge_request_headers (Some [(''A'', ''1'')]) (Some [(''A'', ''2''), (''B'', ''3'')]) (Some ''k'')
     = Some [(''A'', ''1''), (''B'', ''3''), (''Idempotency-Key'', ''k'')]"
    by (simp add: merge_request_headers_def dict_update_def dict_set_def)
  from merged_headers_precedence [OF _ m, of "''A''"] m show ?thesis
    by (simp add: dict_wf_def dict_get_def)
qed

end
