(* ===== verification/Py_Text.thy ===== *)
theory Py_Text
  imports Py_Number "HOL-Library.List_Lexorder"
begin

text \<open>
  More of Python's text: searching and splitting strings, and the parts of \<open>urllib.parse\<close> the
  program uses. \<open>str_find\<close> and \<open>str_rfind\<close> give \<open>None\<close> where Python gives -1. The IP address
  check of a bracketed host is an argument. \<open>url_quote\<close> escapes by UTF-8; \<open>url_unquote\<close> decodes an
  escape to a single character, so escapes beyond ASCII are outside the model. Quoting with nothing
  else safe is injective.
\<close>

section \<open>Searching and splitting\<close>

abbreviation backslash :: char where
  "backslash \<equiv> CHR 0x5C"

definition str_startswith :: "string \<Rightarrow> string \<Rightarrow> bool" where
  "str_startswith s p \<longleftrightarrow> take (length p) s = p"

definition str_endswith :: "string \<Rightarrow> string \<Rightarrow> bool" where
  "str_endswith s p \<longleftrightarrow> length p \<le> length s \<and> drop (length s - length p) s = p"

fun str_find :: "string \<Rightarrow> string \<Rightarrow> nat option" where
  "str_find sub [] = (if sub = [] then Some 0 else None)"
| "str_find sub (c # cs) = (if str_startswith (c # cs) sub then Some 0 else map_option Suc (str_find sub cs))"

definition str_contains :: "string \<Rightarrow> string \<Rightarrow> bool" where
  "str_contains sub s \<longleftrightarrow> str_find sub s \<noteq> None"

definition str_rfind :: "string \<Rightarrow> string \<Rightarrow> nat option" where
  "str_rfind sub s = map_option (\<lambda>i. length s - length sub - i) (str_find (rev sub) (rev s))"

text \<open>\<open>s.split(c, 1)\<close> and \<open>s.rsplit(c, 1)\<close> on a character, and \<open>s.partition\<close>.\<close>

definition str_split1 :: "char \<Rightarrow> string \<Rightarrow> string list" where
  "str_split1 c s = (case dropWhile (\<lambda>x. x \<noteq> c) s of [] \<Rightarrow> [s] | _ # r \<Rightarrow> [takeWhile (\<lambda>x. x \<noteq> c) s, r])"

definition str_rsplit1 :: "char \<Rightarrow> string \<Rightarrow> string list" where
  "str_rsplit1 c s = rev (map rev (str_split1 c (rev s)))"

definition posix_path :: "string \<Rightarrow> string" where
  "posix_path = str_replace_char backslash (CHR ''/'')"

text \<open>A regular expression \<open>(w1|...|wn)\s*[=:]\<close> found anywhere, and \<open>^[a-zA-Z]:[\/]\<close>.\<close>

fun str_tails :: "string \<Rightarrow> string list" where
  "str_tails [] = [[]]"
| "str_tails (c # cs) = (c # cs) # str_tails cs"

definition windows_absolute :: "string \<Rightarrow> bool" where
  "windows_absolute s = (case s of a # b # c # _ \<Rightarrow>
     (let n = (of_char (char_lower a) :: nat) in 97 \<le> n \<and> n \<le> 122) \<and> b = CHR '':'' \<and> (c = backslash \<or> c = CHR ''/'') | _ \<Rightarrow> False)"

section \<open>URLs\<close>

record url_parts =
  up_scheme :: string
  up_netloc :: string
  up_path :: string
  up_query :: string
  up_fragment :: string

definition char_is_alpha :: "char \<Rightarrow> bool" where
  "char_is_alpha c = (let n = (of_char (char_lower c) :: nat) in 97 \<le> n \<and> n \<le> 122)"

definition char_is_scheme :: "char \<Rightarrow> bool" where
  "char_is_scheme c \<longleftrightarrow> char_is_alpha c \<or> char_is_digit c \<or> c \<in> {CHR ''+'', CHR ''-'', CHR ''.''}"

definition split_off :: "char \<Rightarrow> string \<Rightarrow> string \<times> string" where
  "split_off c s = (case str_split1 c s of [a, b] \<Rightarrow> (a, b) | _ \<Rightarrow> (s, []))"

definition scheme_of :: "string \<Rightarrow> string \<times> string" where
  "scheme_of url = (case split_off (CHR '':'') url of (a, b) \<Rightarrow>
     if a \<noteq> [] \<and> CHR '':'' \<in> set url \<and> char_is_alpha (hd a) \<and> list_all char_is_scheme a then (str_lower a, b) else ([], url))"

definition urlsplit :: "(string \<Rightarrow> bool) \<Rightarrow> string \<Rightarrow> py_error + url_parts" where
  "urlsplit ip_ok value =
     (let clean = filter (\<lambda>c. of_char c \<notin> {9, 10, 13 :: nat}) (dropWhile (\<lambda>c. of_char c \<le> (32 :: nat)) value);
          (scheme, url) = scheme_of clean;
          (netloc, rest) = (if str_startswith url ''//''
             then (let ends = (\<lambda>c. c \<in> {CHR ''/'', CHR ''?'', CHR ''#''})
               in (takeWhile (\<lambda>c. \<not> ends c) (drop 2 url), dropWhile (\<lambda>c. \<not> ends c) (drop 2 url)))
             else ([], url));
          opened = (CHR ''['' \<in> set netloc); closed = (CHR '']'' \<in> set netloc)
      in if opened \<noteq> closed then Inl ErrValue
         else if opened \<and> \<not> ip_ok netloc then Inl ErrValue
         else (let (url', fragment) = split_off (CHR ''#'') rest; (path, query) = split_off (CHR ''?'') url'
           in Inr \<lparr>up_scheme = scheme, up_netloc = netloc, up_path = path, up_query = query, up_fragment = fragment\<rparr>))"

definition uses_netloc :: "string list" where
  "uses_netloc = [[], ''ftp'', ''http'', ''gopher'', ''nntp'', ''telnet'', ''imap'', ''wais'', ''file'', ''mms'', ''https'', ''shttp'',
     ''snews'', ''prospero'', ''rtsp'', ''rtsps'', ''rtspu'', ''rsync'', ''svn'', ''svn+ssh'', ''sftp'', ''nfs'', ''git'', ''git+ssh'', ''ws'', ''wss'',
     ''itms-services'']"

definition urlunsplit :: "url_parts \<Rightarrow> string" where
  "urlunsplit u =
     (let url1 = (if up_netloc u \<noteq> [] then ''//'' @ up_netloc u @ (if up_path u \<noteq> [] \<and> hd (up_path u) \<noteq> CHR ''/'' then ''/'' @ up_path u else up_path u)
        else if str_startswith (up_path u) ''//'' then ''//'' @ up_path u
        else if up_scheme u \<noteq> [] \<and> up_scheme u \<in> set uses_netloc \<and> (up_path u = [] \<or> hd (up_path u) = CHR ''/'') then ''//'' @ up_path u
        else up_path u);
          url2 = (if up_scheme u \<noteq> [] then up_scheme u @ '':'' @ url1 else url1);
          url3 = (if up_query u \<noteq> [] then url2 @ ''?'' @ up_query u else url2)
      in if up_fragment u \<noteq> [] then url3 @ ''#'' @ up_fragment u else url3)"

definition hex_value :: "char \<Rightarrow> nat option" where
  "hex_value c = (let n = (of_char (char_lower c) :: nat) in
     if char_is_digit c then Some (n - 48) else if 97 \<le> n \<and> n \<le> 102 then Some (n - 87) else None)"

fun url_unquote :: "string \<Rightarrow> string" where
  "url_unquote (c # a # b # cs) = (if c = CHR ''%'' then (case (hex_value a, hex_value b) of
       (Some x, Some y) \<Rightarrow> char_of (16 * x + y) # url_unquote cs | _ \<Rightarrow> c # url_unquote (a # b # cs))
     else c # url_unquote (a # b # cs))"
| "url_unquote s = s"

definition quote_safe :: "char \<Rightarrow> bool" where
  "quote_safe c \<longleftrightarrow> char_is_alpha c \<or> char_is_digit c \<or> c \<in> set ''_.-~''"

text \<open>What is not safe is escaped as the bytes of its UTF-8 form (characters below 256).\<close>

definition percent :: "nat \<Rightarrow> string" where
  "percent n = [CHR ''%'', char_upper (hex_digit (n div 16)), char_upper (hex_digit (n mod 16))]"

definition url_quote :: "string \<Rightarrow> string \<Rightarrow> string" where
  "url_quote safe s = concat (map (\<lambda>c. let n = of_char c in if quote_safe c \<or> c \<in> set safe then [c]
     else if n < 128 then percent n else percent (192 + n div 64) @ percent (128 + n mod 64)) s)"

text \<open>\<open>parse_qsl(query, keep_blank_values=True)\<close>.\<close>

definition parse_qsl :: "string \<Rightarrow> (string \<times> string) list" where
  "parse_qsl query =
     (let plus = url_unquote \<circ> str_replace_char (CHR ''+'') (CHR '' '') in
      map (\<lambda>item. let (k, v) = split_off (CHR ''='') item in (plus k, plus v))
        (filter (\<lambda>item. item \<noteq> []) (str_split_char (CHR ''&'') query)))"

section \<open>Sorting keys\<close>

definition sorted_strings :: "string list \<Rightarrow> string list" where
  "sorted_strings xs = sort_key (\<lambda>s. map (\<lambda>c. of_char c :: nat) s) xs"

section \<open>Facts about searching\<close>

lemma str_startswith_iff: "str_startswith s p \<longleftrightarrow> (\<exists>r. s = p @ r)"
  by (metis append_eq_conv_conj append_take_drop_id str_startswith_def)

lemma str_find_Some: "str_find sub s = Some i \<Longrightarrow> i \<le> length s \<and> (\<exists>r. s = take i s @ sub @ r)"
proof (induction s arbitrary: i)
  case (Cons c cs)
  show ?case
  proof (cases "str_startswith (c # cs) sub")
    case True
    then show ?thesis using Cons.prems by (auto simp: str_startswith_iff)
  next
    case False
    then obtain j where j: "str_find sub cs = Some j" "i = Suc j" using Cons.prems by auto
    from Cons.IH [OF j(1)] j(2) show ?thesis by auto
  qed
qed (auto split: if_splits)

lemma str_find_None: "str_find sub s = None \<Longrightarrow> s \<noteq> a @ sub @ b"
proof (induction s arbitrary: a)
  case (Cons c cs)
  then have n: "\<not> str_startswith (c # cs) sub" "str_find sub cs = None" by (auto split: if_splits)
  show ?case
  proof (cases a)
    case Nil
    then show ?thesis using n(1) by (auto simp: str_startswith_iff)
  next
    case (Cons x xs)
    then show ?thesis using Cons.IH [OF n(2), of xs] by auto
  qed
qed (auto split: if_splits)

lemma str_contains_iff: "str_contains sub s \<longleftrightarrow> (\<exists>a b. s = a @ sub @ b)"
proof (cases "str_find sub s")
  case None
  then show ?thesis using str_find_None [OF None] by (auto simp: str_contains_def)
next
  case (Some i)
  then show ?thesis using str_find_Some [OF Some] by (simp add: str_contains_def) blast
qed

lemma str_rfind_less: "str_rfind sub s = Some j \<Longrightarrow> sub \<noteq> [] \<Longrightarrow> j < length s"
proof -
  assume a: "str_rfind sub s = Some j" "sub \<noteq> []"
  then obtain i where i: "str_find (rev sub) (rev s) = Some i" "j = length s - length sub - i"
    by (auto simp: str_rfind_def)
  then obtain r where "rev s = take i (rev s) @ rev sub @ r" "i \<le> length s" using str_find_Some by force
  then have "length s \<ge> i + length sub" by (metis length_append length_rev length_take min.absorb2 add.assoc le_add1)
  then show ?thesis using i(2) a(2) by (cases sub) auto
qed

lemma last_str_rsplit1: "last (str_rsplit1 c s) = rev (takeWhile (\<lambda>x. x \<noteq> c) (rev s))"
proof (cases "dropWhile (\<lambda>x. x \<noteq> c) (rev s)")
  case Nil
  then have "takeWhile (\<lambda>x. x \<noteq> c) (rev s) = rev s" by (auto simp: takeWhile_eq_all_conv)
  then show ?thesis unfolding str_rsplit1_def str_split1_def Nil by (simp only: list.case list.map rev.simps append_Nil last.simps if_True rev_rev_ident refl)
qed (simp add: str_rsplit1_def str_split1_def)

lemma last_str_rsplit1_free: "c \<notin> set (last (str_rsplit1 c s))"
  by (auto simp: last_str_rsplit1 dest: set_takeWhileD)

lemma str_split_char_none: "c \<notin> set s \<Longrightarrow> str_split_char c s = [s]"
  by (induction s) auto

lemma str_split_char_append: "c \<notin> set s \<Longrightarrow> str_split_char c (s @ c # t) = s # str_split_char c t"
  by (induction s) auto

section \<open>Facts about quoting\<close>

definition quote_char :: "char \<Rightarrow> string" where
  "quote_char c = url_quote [] [c]"

lemma url_quote_Cons: "url_quote [] (c # s) = quote_char c @ url_quote [] s"
  by (simp add: url_quote_def quote_char_def)

lemma url_quote_Nil [simp]: "url_quote safe [] = []"
  by (simp add: url_quote_def)

lemma of_char_of_small: "(n :: nat) < 256 \<Longrightarrow> of_char (char_of n) = n"
  by (simp only: of_char_of mod_less)

lemma of_hex_digit: "n < 16 \<Longrightarrow> of_char (hex_digit n) = (if n < 10 then 48 + n else 87 + n)"
  by (cases "n < 10") (simp_all only: hex_digit_def if_True if_False, (rule of_char_of_small, linarith)+)

lemma of_upper_hex: "n < 16 \<Longrightarrow> of_char (char_upper (hex_digit n)) = (if n < 10 then 48 + n else 55 + n)"
proof (cases "n < 10")
  case True
  assume n: "n < 16"
  with True have h: "(of_char (hex_digit n) :: nat) = 48 + n" by (simp only: of_hex_digit if_True)
  then have "\<not> 97 \<le> (of_char (hex_digit n) :: nat)" using True by linarith
  then show ?thesis using h True unfolding char_upper_def Let_def by (simp only: simp_thms if_False if_True)
next
  case False
  assume n: "n < 16"
  with False have h: "(of_char (hex_digit n) :: nat) = 87 + n" by (simp only: of_hex_digit if_False)
  have e: "87 + n - 32 = 55 + n" by simp
  have "97 \<le> (of_char (hex_digit n) :: nat) \<and> (of_char (hex_digit n) :: nat) \<le> 122" using h n False by linarith
  moreover have "of_char (char_of (55 + n)) = 55 + n" using n by (intro of_char_of_small) linarith
  ultimately show ?thesis using False unfolding char_upper_def Let_def by (simp only: h e simp_thms if_True if_False)
qed

lemma upper_hex_inj:
  assumes "m < 16" "n < 16" "char_upper (hex_digit m) = char_upper (hex_digit n)"
  shows "m = n"
proof -
  have "(if m < 10 then 48 + m else 55 + m) = (if n < 10 then 48 + n else 55 + n)"
    using of_upper_hex [OF assms(1)] of_upper_hex [OF assms(2)] unfolding assms(3) by (rule trans [OF sym])
  then show ?thesis by (auto split: if_splits)
qed

lemma percent_eq: "m < 256 \<Longrightarrow> n < 256 \<Longrightarrow> percent m @ xs = percent n @ ys \<longleftrightarrow> m = n \<and> xs = ys"
proof -
  assume a: "m < 256" "n < 256"
  then have d: "m div 16 < 16" "n div 16 < 16" by simp_all
  have "m = n" if "char_upper (hex_digit (m div 16)) = char_upper (hex_digit (n div 16))" "char_upper (hex_digit (m mod 16)) = char_upper (hex_digit (n mod 16))"
    using upper_hex_inj [OF d that(1)] upper_hex_inj [OF _ _ that(2)] by (metis mult_div_mod_eq mod_less_divisor zero_less_numeral)
  then show ?thesis by (auto simp: percent_def)
qed

lemma upper_hex_safe: "n < 16 \<Longrightarrow> quote_safe (char_upper (hex_digit n))"
proof -
  assume n: "n < 16"
  let ?c = "char_upper (hex_digit n)"
  show ?thesis
  proof (cases "n < 10")
    case True
    with of_upper_hex [OF n] have "(of_char ?c :: nat) = 48 + n" by (simp only: if_True)
    with True have "char_is_digit ?c" unfolding char_is_digit_def Let_def by linarith
    then show ?thesis unfolding quote_safe_def by blast
  next
    case False
    with of_upper_hex [OF n] have c: "(of_char ?c :: nat) = 55 + n" by (simp only: if_False)
    then have "65 \<le> (of_char ?c :: nat) \<and> (of_char ?c :: nat) \<le> 90" using n False by linarith
    moreover have "of_char (char_of (55 + n + 32)) = 55 + n + 32" using n by (intro of_char_of_small) linarith
    ultimately have "(of_char (char_lower ?c) :: nat) = 55 + n + 32" unfolding char_lower_def Let_def by (simp only: c simp_thms if_True)
    then have "char_is_alpha ?c" unfolding char_is_alpha_def Let_def using n False by linarith
    then show ?thesis unfolding quote_safe_def by blast
  qed
qed

lemma quote_char_cases: "quote_char c = (if quote_safe c then [c]
   else if of_char c < (128 :: nat) then percent (of_char c) else percent (192 + of_char c div 64) @ percent (128 + of_char c mod 64))"
  by (simp add: quote_char_def url_quote_def Let_def)

lemma quote_safe_no_percent: "quote_safe c \<Longrightarrow> c \<noteq> CHR ''%''"
  by (auto simp: quote_safe_def char_is_alpha_def char_is_digit_def)

lemma of_char_less: "(of_char c :: nat) < 256"
  by (cases c) simp

lemma of_char_div: "(of_char c :: nat) div 64 < 4"
  using of_char_less [of c] by (intro less_mult_imp_div_less) simp

lemma quote_char_prefix: "quote_char c @ xs = quote_char d @ ys \<Longrightarrow> c = d \<and> xs = ys"
proof -
  assume e: "quote_char c @ xs = quote_char d @ ys"
  let ?m = "of_char c :: nat" and ?n = "of_char d :: nat"
  have l: "?m < 256" "?n < 256" by (rule of_char_less)+
  have s: "192 + ?m div 64 < 256" "192 + ?n div 64 < 256" "128 + ?m mod 64 < 256" "128 + ?n mod 64 < 256"
    using of_char_div [of c] of_char_div [of d] by simp_all
  have "?m = ?n \<and> xs = ys" if "\<not> quote_safe c" "\<not> quote_safe d"
  proof (cases "?m < 128"; cases "?n < 128")
    assume "\<not> ?m < 128" "\<not> ?n < 128"
    with e that have "?m div 64 = ?n div 64 \<and> ?m mod 64 = ?n mod 64 \<and> xs = ys"
      by (simp add: quote_char_cases percent_eq s)
    then show ?thesis by (metis mult_div_mod_eq)
  qed (use e that l s in \<open>auto simp: quote_char_cases percent_eq\<close>)
  then show ?thesis
    using e quote_safe_no_percent [of c] quote_safe_no_percent [of d]
    by (cases "quote_safe c"; cases "quote_safe d") (auto simp: quote_char_cases percent_def split: if_splits)
qed

lemma url_quote_inj: "url_quote [] s = url_quote [] t \<longleftrightarrow> s = t"
proof
  show "url_quote [] s = url_quote [] t \<Longrightarrow> s = t"
  proof (induction s arbitrary: t)
    case Nil
    then show ?case by (cases t) (auto simp: url_quote_Cons quote_char_cases percent_def split: if_splits)
  next
    case (Cons c s)
    then obtain d t' where t: "t = d # t'"
      by (cases t) (auto simp: url_quote_Cons quote_char_cases percent_def split: if_splits)
    with Cons.prems have "c = d \<and> url_quote [] s = url_quote [] t'" by (intro quote_char_prefix) (simp add: url_quote_Cons)
    with Cons.IH t show ?case by simp
  qed
qed simp

lemma percent_set: "n < 256 \<Longrightarrow> x \<in> set (percent n) \<Longrightarrow> quote_safe x \<or> x = CHR ''%''"
  using upper_hex_safe [of "n div 16"] upper_hex_safe [of "n mod 16"] by (auto simp: percent_def)

lemma quote_char_set: "x \<in> set (quote_char c) \<Longrightarrow> quote_safe x \<or> x = CHR ''%''"
  using of_char_less [of c] of_char_div [of c] percent_set [of "of_char c" x] percent_set [of "192 + of_char c div 64" x] percent_set [of "128 + of_char c mod 64" x]
  by (simp add: quote_char_cases split: if_splits) auto

lemma url_quote_set: "x \<in> set (url_quote [] s) \<Longrightarrow> quote_safe x \<or> x = CHR ''%''"
  by (induction s) (auto simp: url_quote_Cons dest: quote_char_set)

end
