(* ===== verification/Core_Client.thy ===== *)
theory Core_Client
  imports Dispatch Http_Client Py_Text
begin

text \<open>
  The core client: \<open>_endpoints.py\<close> (request builders and response parsers), \<open>models/_discovery.py\<close>
  and the constructor, \<open>with_options\<close>, \<open>close\<close>, \<open>_request\<close> and the catalog, query, edit and export
  calls of \<open>HonuaClient\<close> in \<open>client.py\<close>.

  The HTTP library is the record \<open>http_lib\<close>: the parts of a URL, the header store of a request,
  the auth provider's headers and the sending of a request. Transports and the library's clients
  are names, and \<open>resources\<close> keeps which of them were closed.
\<close>

section \<open>Endpoints\<close>

record prepared_request =
  pq_verb :: string
  pq_path :: string
  pq_params :: "(string, pyval) pydict option"
  pq_json :: "(string, pyval) pydict option"
  pq_headers :: "(string, string) pydict option"

definition prepared :: "string \<Rightarrow> string \<Rightarrow> (string, pyval) pydict option \<Rightarrow> prepared_request" where
  "prepared verb path params = \<lparr>pq_verb = verb, pq_path = path, pq_params = params, pq_json = None, pq_headers = None\<rparr>"

definition encode_path_segment :: "string \<Rightarrow> string" where
  "encode_path_segment = url_quote []"

definition bool_text :: "bool \<Rightarrow> string" where
  "bool_text b = (if b then ''true'' else ''false'')"

definition build_readiness_request :: prepared_request where
  "build_readiness_request = prepared ''GET'' ''/healthz/ready'' None"

definition build_capabilities_request :: prepared_request where
  "build_capabilities_request = prepared ''GET'' ''/api/v1/capabilities'' None"

definition build_list_services_request :: "string \<Rightarrow> prepared_request" where
  "build_list_services_request response_format = prepared ''GET'' ''/rest/services'' (Some [(''f'', PStr response_format)])"

definition feature_layer_path :: "string \<Rightarrow> int \<Rightarrow> string \<Rightarrow> string" where
  "feature_layer_path service_id layer_id operation =
     ''/rest/services/'' @ encode_path_segment service_id @ ''/FeatureServer/'' @ str_of_int layer_id @ ''/'' @ operation"

text \<open>\<open>",".join(str(value) for value in values)\<close> for a sequence that is no string, \<open>str(values)\<close> else.\<close>

definition out_fields_value :: "pyval \<Rightarrow> string" where
  "out_fields_value v = (case sequence_items v of Some xs \<Rightarrow> str_join '','' (map py_str xs) | None \<Rightarrow> py_str v)"

definition build_query_features_request ::
  "string \<Rightarrow> int \<Rightarrow> pyval \<Rightarrow> pyval \<Rightarrow> bool \<Rightarrow> (string, pyval) pydict option \<Rightarrow> prepared_request" where
  "build_query_features_request service_id layer_id whr out_fields return_geometry extra_params =
     (let params = [(''f'', PStr ''json''), (''where'', whr), (''outFields'', PStr (out_fields_value out_fields)),
            (''returnGeometry'', PStr (bool_text return_geometry))]
      in prepared ''GET'' (feature_layer_path service_id layer_id ''query'')
           (Some (case extra_params of None \<Rightarrow> params | Some e \<Rightarrow> dict_update params e)))"

definition build_apply_edits_request ::
  "string \<Rightarrow> int \<Rightarrow> pyval list option \<Rightarrow> pyval list option \<Rightarrow> pyval option \<Rightarrow> bool \<Rightarrow> (string, string) pydict option \<Rightarrow> prepared_request" where
  "build_apply_edits_request service_id layer_id adds updates deletes rollback_on_failure headers =
     \<lparr>pq_verb = ''POST'', pq_path = feature_layer_path service_id layer_id ''applyEdits'', pq_params = None,
      pq_json = Some ([(''f'', PStr ''json''), (''rollbackOnFailure'', PBool rollback_on_failure)] @
        (case adds of None \<Rightarrow> [] | Some rows \<Rightarrow> [(''adds'', PList rows)]) @
        (case updates of None \<Rightarrow> [] | Some rows \<Rightarrow> [(''updates'', PList rows)]) @
        (case deletes of None \<Rightarrow> [] | Some v \<Rightarrow> [(''deletes'', case sequence_items v of Some ids \<Rightarrow> PList ids | None \<Rightarrow> v)])),
      pq_headers = headers\<rparr>"

definition build_export_map_request ::
  "string \<Rightarrow> pyval \<Rightarrow> int \<times> int \<Rightarrow> string \<Rightarrow> bool \<Rightarrow> int \<Rightarrow> (string, pyval) pydict option \<Rightarrow> prepared_request" where
  "build_export_map_request service_id bbox extent image_format transparent dpi extra_params =
     (let bbox_value = (case sequence_items bbox of Some xs \<Rightarrow> PStr (str_join '','' (map py_str xs)) | None \<Rightarrow> bbox);
          params = [(''f'', PStr ''image''), (''bbox'', bbox_value), (''size'', PStr (str_of_int (fst extent) @ '','' @ str_of_int (snd extent))),
            (''format'', PStr image_format), (''transparent'', PStr (bool_text transparent)), (''dpi'', PStr (str_of_int dpi))]
      in prepared ''GET'' (''/rest/services/'' @ encode_path_segment service_id @ ''/MapServer/export'')
           (Some (case extra_params of None \<Rightarrow> params | Some e \<Rightarrow> dict_update params e)))"

definition validate_paging :: "int \<Rightarrow> int \<Rightarrow> py_error + unit" where
  "validate_paging page_size max_pages = (if page_size \<le> 0 \<or> max_pages \<le> 0 then Inl ErrValue else Inr ())"

definition initial_offset :: "(string, pyval) pydict option \<Rightarrow> py_error + int" where
  "initial_offset extra_params =
     to_int (case extra_params of None \<Rightarrow> PInt 0 | Some e \<Rightarrow> (case dict_get e ''resultOffset'' of None \<Rightarrow> PInt 0 | Some v \<Rightarrow> v))"

definition page_extra_params :: "(string, pyval) pydict \<Rightarrow> int \<Rightarrow> int \<Rightarrow> (string, pyval) pydict" where
  "page_extra_params base_extra_params offset record_count =
     dict_set (dict_set base_extra_params ''resultOffset'' (PInt offset)) ''resultRecordCount'' (PInt record_count)"

definition page_record_count :: "int \<Rightarrow> int option \<Rightarrow> int" where
  "page_record_count page_size remaining = (case remaining of None \<Rightarrow> page_size | Some r \<Rightarrow> min page_size r)"

definition parse_json_response_body :: "http_env \<Rightarrow> http_response \<Rightarrow> http_raised + (string, pyval) pydict" where
  "parse_json_response_body env r =
     (if \<not> has_content r then Inr []
      else (case body_json r of
          None \<Rightarrow> Inr [(''raw'', PStr (body_text r))]
        | Some (PDict payload) \<Rightarrow> bindE (raise_for_geoservices_error env r payload) (\<lambda>_. Inr payload)
        | Some payload \<Rightarrow> Inr [(''data'', payload)]))"

section \<open>Discovery\<close>

record service_summary =
  sv_name :: string
  sv_type :: "string option"
  sv_url :: "string option"
  sv_raw :: "(string, pyval) pydict"

definition service_summary_from_dict :: "(string, pyval) pydict \<Rightarrow> service_summary" where
  "service_summary_from_dict payload =
     \<lparr>sv_name = (let v = py_or (get_or_none payload ''name'') (get_or_none payload ''serviceName'') in if truthy v then py_str v else []),
      sv_type = optional_str (get_or_none payload ''type''), sv_url = optional_str (get_or_none payload ''url''), sv_raw = payload\<rparr>"

definition parse_service_summaries :: "(string, pyval) pydict \<Rightarrow> service_summary list" where
  "parse_service_summaries payload = map service_summary_from_dict (dicts_of (get_or_none payload ''services''))"

record data_plane_capabilities =
  dp_server_version :: "string option"
  dp_release_channel :: "string option"
  dp_protocols :: "string set"
  dp_features :: "(string, bool) pydict"
  dp_raw :: "(string, pyval) pydict"

definition server_version_of :: "(string, pyval) pydict \<Rightarrow> string option" where
  "server_version_of payload = optional_str (first_key_present payload [''serverVersion'', ''server_version'', ''version''])"

definition release_channel_of :: "(string, pyval) pydict \<Rightarrow> string option" where
  "release_channel_of payload = optional_str (first_key_present payload [''releaseChannel'', ''release_channel'', ''channel''])"

definition capabilities_from_dict :: "(string, pyval) pydict \<Rightarrow> data_plane_capabilities" where
  "capabilities_from_dict payload =
     (let features = capability_flags (first_key_present payload [''features'', ''featureFlags'']);
          features = (case get_or_none payload ''compatibility'' of
              PDict compatibility \<Rightarrow> dict_update (capability_flags (get_or_none compatibility ''features'')) features
            | _ \<Rightarrow> features)
      in \<lparr>dp_server_version = server_version_of payload, dp_release_channel = release_channel_of payload,
          dp_protocols = capability_names (first_key_present payload [''protocols'', ''dataProtocols'', ''surfaces'']),
          dp_features = features, dp_raw = payload\<rparr>)"

definition service_types :: "pyval list \<Rightarrow> string set" where
  "service_types services = set (List.map_filter (\<lambda>s. case s of
     PDict d \<Rightarrow> map_option normalize_advertised_name (optional_str (get_or_none d ''type'')) | _ \<Rightarrow> None) services)"

definition capabilities_from_discovery :: "(string, pyval) pydict \<Rightarrow> (string, pyval) pydict \<Rightarrow> data_plane_capabilities" where
  "capabilities_from_discovery readiness catalog =
     (let services = sequence_items (get_or_none catalog ''services'') in
      \<lparr>dp_server_version = server_version_of readiness, dp_release_channel = release_channel_of readiness,
       dp_protocols = capability_names (get_or_none readiness ''protocols'') \<union>
         (case services of None \<Rightarrow> {} | Some ss \<Rightarrow> insert ''geoservices'' (service_types ss)),
       dp_features = [(''readiness'', readiness \<noteq> []), (''service-catalog'', services \<noteq> None)],
       dp_raw = [(''readiness'', PDict readiness), (''catalog'', PDict catalog)]\<rparr>)"

definition capabilities_supports :: "data_plane_capabilities \<Rightarrow> string \<Rightarrow> bool" where
  "capabilities_supports c capability \<longleftrightarrow> (\<exists>key \<in> normalized_surface_keys capability.
     key \<in> dp_protocols c \<or> dict_get (dp_features c) key = Some True)"

section \<open>Clients and their transports\<close>

text \<open>A transport is one the caller gave, one the client opened, or a wrapper that ignores \<open>close\<close>.\<close>

datatype transport = Given nat | Opened nat | NonClosing transport

record built_session =
  bs_id :: nat
  bs_transport :: transport
  bs_trusted :: "string \<times> string \<times> int option"
  bs_headers :: "(string, string) pydict"
  bs_provider :: "nat option"

datatype http_session = External nat | Built built_session

record client_init =
  ci_base_url :: string
  ci_timeout :: pyfloat
  ci_api_key :: "string option"
  ci_bearer_token :: "string option"
  ci_provider :: "nat option"
  ci_transport :: "transport option"
  ci_max_retries :: int
  ci_allow_insecure_http :: bool

record honua_client =
  cl_init :: client_init
  cl_base_url :: http_url
  cl_base_path :: string
  cl_session :: http_session
  cl_owns_client :: bool
  cl_retry_methods :: "string set"
  cl_options_timeout :: "pyfloat option"
  cl_options_max_retries :: "int option"

record 'h wire_request =
  wr_verb :: string
  wr_url :: http_url
  wr_target :: string
  wr_params :: "(string, pyval) pydict option"
  wr_headers :: 'h
  wr_json :: "(string, pyval) pydict option"
  wr_timeout :: "pyfloat option"
  wr_max_retries :: "int option"

text \<open>A failed send is the library's exception, its text and the URL of its request; an answer comes with its bytes.\<close>

record ('h, 'w) http_lib =
  hl_url :: "string \<Rightarrow> http_url"
  hl_path :: "string \<Rightarrow> string"
  hl_absolute :: "string \<Rightarrow> bool"
  hl_ops :: "'h header_ops"
  hl_headers :: "(string, string) pydict option \<Rightarrow> 'h"
  hl_provider :: "nat \<Rightarrow> 'w \<Rightarrow> (auth_error + (string, string) pydict) \<times> 'w"
  hl_send :: "http_session \<Rightarrow> 'h wire_request \<Rightarrow> 'w \<Rightarrow> (httpx_exn \<times> string \<times> string option + http_response \<times> 8 word list) \<times> 'w"
  hl_env :: "'w \<Rightarrow> http_env"
  hl_ip6_loopback :: "string \<Rightarrow> bool"
  hl_insecure_env :: "string option"

text \<open>The library's clients and transports opened so far are those below \<open>rs_next\<close>.\<close>

record resources =
  rs_next :: nat
  rs_closed_sessions :: "nat set"
  rs_closed_transports :: "transport set"

definition has_credentials :: "client_init \<Rightarrow> bool" where
  "has_credentials i \<longleftrightarrow> (case ci_api_key i of Some (c # cs) \<Rightarrow> True | _ \<Rightarrow> False) \<or>
     (case ci_bearer_token i of Some (c # cs) \<Rightarrow> True | _ \<Rightarrow> False) \<or> ci_provider i \<noteq> None"

text \<open>\<open>HonuaClient(...)\<close>; \<open>external\<close> is the name, base URL and base path of a supplied HTTP client.\<close>

definition check_client_init :: "('h, 'w) http_lib \<Rightarrow> client_init \<Rightarrow> bool \<Rightarrow> auth_error + unit" where
  "check_client_init lib i has_client =
     (if has_client \<and> ci_transport i \<noteq> None then Inl (ValueError ''Provide either `client` or `transport`, not both.'')
      else bindE (validate_auth_configuration (ci_bearer_token i) (ci_provider i \<noteq> None)) (\<lambda>_.
           bindE (validate_external_client_auth_configuration has_client (ci_api_key i) (ci_bearer_token i) (ci_provider i \<noteq> None)) (\<lambda>_.
           ensure_secure_credential_transport (hl_ip6_loopback lib) (hl_insecure_env lib) (hl_url lib (ci_base_url i))
             (has_credentials i) (ci_allow_insecure_http i))))"

definition built_client :: "('h, 'w) http_lib \<Rightarrow> client_init \<Rightarrow> resources \<Rightarrow> honua_client \<times> resources" where
  "built_client lib i rs =
     (let base_url = normalize_base_url (ci_base_url i); url = hl_url lib base_url; n = rs_next rs;
          inner = (case ci_transport i of Some t \<Rightarrow> t | None \<Rightarrow> Opened n)
      in (\<lparr>cl_init = i, cl_base_url = url, cl_base_path = hl_path lib base_url,
           cl_session = Built \<lparr>bs_id = n, bs_transport = inner, bs_trusted = extract_trusted_authority url,
              bs_headers = build_sensitive_auth_headers (ci_api_key i) (ci_bearer_token i), bs_provider = ci_provider i\<rparr>,
           cl_owns_client = True, cl_retry_methods = default_retry_methods, cl_options_timeout = None, cl_options_max_retries = None\<rparr>,
          rs\<lparr>rs_next := Suc n\<rparr>))"

definition external_client :: "client_init \<Rightarrow> nat \<times> http_url \<times> string \<Rightarrow> honua_client" where
  "external_client i external = (case external of (n, url, path) \<Rightarrow>
     \<lparr>cl_init = i, cl_base_url = url, cl_base_path = path, cl_session = External n, cl_owns_client = False, cl_retry_methods = {},
      cl_options_timeout = None, cl_options_max_retries = None\<rparr>)"

definition make_client ::
  "('h, 'w) http_lib \<Rightarrow> client_init \<Rightarrow> (nat \<times> http_url \<times> string) option \<Rightarrow> resources \<Rightarrow> (auth_error + honua_client) \<times> resources" where
  "make_client lib i external rs = (case check_client_init lib i (external \<noteq> None) of
     Inl e \<Rightarrow> (Inl e, rs)
   | Inr _ \<Rightarrow> (case external of
        Some x \<Rightarrow> (Inr (external_client i x), rs)
      | None \<Rightarrow> (case built_client lib i rs of (c, rs') \<Rightarrow> (Inr c, rs'))))"

definition with_overrides :: "pyfloat option \<Rightarrow> int option \<Rightarrow> honua_client \<Rightarrow> honua_client \<Rightarrow> honua_client" where
  "with_overrides timeout retries c clone = clone
     \<lparr>cl_options_timeout := (if timeout \<noteq> None then timeout else cl_options_timeout c),
      cl_options_max_retries := (if retries \<noteq> None then retries else cl_options_max_retries c)\<rparr>"

definition smaller_timeout :: "pyfloat option \<Rightarrow> client_init \<Rightarrow> bool" where
  "smaller_timeout timeout i \<longleftrightarrow> (case timeout of None \<Rightarrow> False | Some t \<Rightarrow> fl_less t (ci_timeout i))"

definition with_options ::
  "('h, 'w) http_lib \<Rightarrow> honua_client \<Rightarrow> pyfloat option \<Rightarrow> int option \<Rightarrow> string option \<Rightarrow> resources \<Rightarrow> (auth_error + honua_client) \<times> resources" where
  "with_options lib c timeout retries base_url rs =
     (let i = cl_init c in
      if base_url \<noteq> None \<or> smaller_timeout timeout i
      then (case make_client lib (i\<lparr>ci_base_url := (case base_url of Some b \<Rightarrow> b | None \<Rightarrow> ci_base_url i),
                ci_timeout := (if smaller_timeout timeout i then the timeout else ci_timeout i),
                ci_transport := map_option NonClosing (ci_transport i)\<rparr>) None rs of
          (Inl e, rs') \<Rightarrow> (Inl e, rs')
        | (Inr clone, rs') \<Rightarrow> (Inr (with_overrides timeout retries c clone), rs'))
      else (Inr (with_overrides timeout retries c (c\<lparr>cl_owns_client := False\<rparr>)), rs))"

text \<open>Closing a client the library built closes its transport; the wrapper keeps what it wraps open.\<close>

fun close_transport :: "transport \<Rightarrow> resources \<Rightarrow> resources" where
  "close_transport (NonClosing t) rs = rs"
| "close_transport t rs = rs\<lparr>rs_closed_transports := insert t (rs_closed_transports rs)\<rparr>"

definition close_client :: "honua_client \<Rightarrow> resources \<Rightarrow> resources" where
  "close_client c rs = (if \<not> cl_owns_client c then rs
     else (case cl_session c of
         External n \<Rightarrow> rs\<lparr>rs_closed_sessions := insert n (rs_closed_sessions rs)\<rparr>
       | Built b \<Rightarrow> close_transport (bs_transport b) (rs\<lparr>rs_closed_sessions := insert (bs_id b) (rs_closed_sessions rs)\<rparr>)))"

section \<open>Requests\<close>

datatype client_error =
    HttpRaised http_raised
  | TransportRaised transport_error
  | OffOrigin
  | AuthRaised auth_error
  | CodeError py_error

text \<open>\<open>encode_request_path\<close>: what is not ASCII is percent-encoded as UTF-8 (characters below 256).\<close>

definition encode_request_path :: "string \<Rightarrow> string" where
  "encode_request_path raw_path = concat (map (\<lambda>c. let n = of_char c in
     if n < 128 then [c] else percent (192 + n div 64) @ percent (128 + n mod 64)) raw_path)"

definition request_target :: "('h, 'w) http_lib \<Rightarrow> honua_client \<Rightarrow> string \<Rightarrow> client_error + http_url \<times> string" where
  "request_target lib c path =
     (if hl_absolute lib path
      then (case ensure_same_origin_continuation (hl_url lib path) (cl_base_url c) of
          Inl _ \<Rightarrow> Inl OffOrigin | Inr _ \<Rightarrow> Inr (hl_url lib path, path))
      else Inr (cl_base_url c, encode_request_path (join_base_path (cl_base_path c) path)))"

text \<open>The request hook of a client the SDK built; a supplied client has none of the SDK's.\<close>

definition request_hook ::
  "('h, 'w) http_lib \<Rightarrow> http_session \<Rightarrow> http_url \<Rightarrow> 'h \<Rightarrow> 'w \<Rightarrow> (auth_error + 'h) \<times> 'w" where
  "request_hook lib s url h w = (case s of
     External _ \<Rightarrow> (Inr h, w)
   | Built b \<Rightarrow>
       (let (dynamic, w1) = (case bs_provider b of
             Some p \<Rightarrow> if extract_trusted_authority url = bs_trusted b then hl_provider lib p w else (Inr [], w)
           | None \<Rightarrow> (Inr [], w))
        in (apply_sensitive_auth_headers (hl_ops lib) url h (Some (bs_trusted b)) (bs_headers b) dynamic, w1)))"

record call_options =
  co_timeout :: "pyfloat option"
  co_extra_headers :: "(string, string) pydict option"

definition client_request ::
  "('h, 'w) http_lib \<Rightarrow> honua_client \<Rightarrow> prepared_request \<Rightarrow> string option \<Rightarrow> call_options \<Rightarrow> 'w \<Rightarrow>
   (client_error + http_response \<times> 8 word list) \<times> 'w" where
  "client_request lib c prep idempotency_key opts w = (case request_target lib c (pq_path prep) of
     Inl e \<Rightarrow> (Inl e, w)
   | Inr (url, target) \<Rightarrow>
       (case request_hook lib (cl_session c) url (hl_headers lib (merge_request_headers (pq_headers prep) (co_extra_headers opts) idempotency_key)) w of
          (Inl e, w1) \<Rightarrow> (Inl (AuthRaised e), w1)
        | (Inr headers, w1) \<Rightarrow>
           (case hl_send lib (cl_session c)
                \<lparr>wr_verb = pq_verb prep, wr_url = url, wr_target = target, wr_params = pq_params prep, wr_headers = headers, wr_json = pq_json prep,
                 wr_timeout = (if co_timeout opts \<noteq> None then co_timeout opts else cl_options_timeout c), wr_max_retries = cl_options_max_retries c\<rparr> w1 of
              (Inl (e, etext, request_url), w2) \<Rightarrow> (Inl (TransportRaised (to_transport_error e etext request_url)), w2)
            | (Inr (r, content), w2) \<Rightarrow>
                if 200 \<le> status_code r \<and> status_code r < 300 then (Inr (r, content), w2) else (Inl (HttpRaised (to_http_error (hl_env lib w2) r)), w2))))"

definition client_request_json ::
  "('h, 'w) http_lib \<Rightarrow> honua_client \<Rightarrow> prepared_request \<Rightarrow> string option \<Rightarrow> call_options \<Rightarrow> 'w \<Rightarrow> (client_error + (string, pyval) pydict) \<times> 'w" where
  "client_request_json lib c prep idempotency_key opts w = (case client_request lib c prep idempotency_key opts w of
     (Inl e, w1) \<Rightarrow> (Inl e, w1)
   | (Inr (r, _), w1) \<Rightarrow> (case parse_json_response_body (hl_env lib w1) r of Inl e \<Rightarrow> (Inl (HttpRaised e), w1) | Inr d \<Rightarrow> (Inr d, w1)))"

section \<open>Calls\<close>

definition client_readiness :: "('h, 'w) http_lib \<Rightarrow> honua_client \<Rightarrow> call_options \<Rightarrow> 'w \<Rightarrow> (client_error + (string, pyval) pydict) \<times> 'w" where
  "client_readiness lib c = client_request_json lib c build_readiness_request None"

definition list_services ::
  "('h, 'w) http_lib \<Rightarrow> honua_client \<Rightarrow> string \<Rightarrow> call_options \<Rightarrow> 'w \<Rightarrow> (client_error + (string, pyval) pydict) \<times> 'w" where
  "list_services lib c response_format = client_request_json lib c (build_list_services_request response_format) None"

definition list_service_summaries ::
  "('h, 'w) http_lib \<Rightarrow> honua_client \<Rightarrow> string \<Rightarrow> call_options \<Rightarrow> 'w \<Rightarrow> (client_error + service_summary list) \<times> 'w" where
  "list_service_summaries lib c response_format opts w = (case list_services lib c response_format opts w of
     (r, w1) \<Rightarrow> (bindE r (\<lambda>d. Inr (parse_service_summaries d)), w1))"

text \<open>\<open>except HonuaHttpError\<close> with status 404, the only failure the fallback answers.\<close>

definition not_found :: "client_error \<Rightarrow> bool" where
  "not_found e \<longleftrightarrow> (case e of HttpRaised (HttpFailure f) \<Rightarrow> he_status_code f = 404 | _ \<Rightarrow> False)"

definition client_capabilities ::
  "('h, 'w) http_lib \<Rightarrow> honua_client \<Rightarrow> call_options \<Rightarrow> 'w \<Rightarrow> (client_error + data_plane_capabilities) \<times> 'w" where
  "client_capabilities lib c opts w = (case client_request_json lib c build_capabilities_request None opts w of
     (Inr payload, w1) \<Rightarrow> (Inr (capabilities_from_dict payload), w1)
   | (Inl e, w1) \<Rightarrow> if \<not> not_found e then (Inl e, w1)
       else (case client_readiness lib c opts w1 of
           (Inl e, w2) \<Rightarrow> (Inl e, w2)
         | (Inr readiness, w2) \<Rightarrow> (case list_services lib c ''json'' opts w2 of
              (r, w3) \<Rightarrow> (bindE r (\<lambda>catalog. Inr (capabilities_from_discovery readiness catalog)), w3))))"

definition client_supports :: "('h, 'w) http_lib \<Rightarrow> honua_client \<Rightarrow> string \<Rightarrow> call_options \<Rightarrow> 'w \<Rightarrow> (client_error + bool) \<times> 'w" where
  "client_supports lib c capability opts w = (case client_capabilities lib c opts w of
     (r, w1) \<Rightarrow> (bindE r (\<lambda>d. Inr (capabilities_supports d capability)), w1))"

text \<open>What one layer query asks for, apart from its page.\<close>

record layer_query =
  lq_service_id :: string
  lq_layer_id :: int
  lq_where :: pyval
  lq_out_fields :: pyval
  lq_return_geometry :: bool
  lq_extra_params :: "(string, pyval) pydict option"

definition query_features ::
  "('h, 'w) http_lib \<Rightarrow> honua_client \<Rightarrow> layer_query \<Rightarrow> call_options \<Rightarrow> 'w \<Rightarrow> (client_error + (string, pyval) pydict) \<times> 'w" where
  "query_features lib c q = client_request_json lib c
     (build_query_features_request (lq_service_id q) (lq_layer_id q) (lq_where q) (lq_out_fields q) (lq_return_geometry q) (lq_extra_params q)) None"

definition query_feature_set ::
  "('h, 'w) http_lib \<Rightarrow> honua_client \<Rightarrow> layer_query \<Rightarrow> call_options \<Rightarrow> 'w \<Rightarrow> (client_error + feature_set) \<times> 'w" where
  "query_feature_set lib c q opts w = (case query_features lib c q opts w of
     (Inl e, w1) \<Rightarrow> (Inl e, w1)
   | (Inr d, w1) \<Rightarrow> ((case feature_set_from_dict d of Inl e \<Rightarrow> Inl (CodeError e) | Inr p \<Rightarrow> Inr p), w1))"

text \<open>The page of one loop turn with its new object ids.\<close>

definition page_with_ids :: "page \<Rightarrow> py_error + feature_set \<times> int set" where
  "page_with_ids payload = bindE (feature_set_from_dict payload) (\<lambda>p.
     bindE (mapE object_id (fs_features p)) (\<lambda>ids. Inr (p, set (List.map_filter id ids))))"

fun query_all_pages ::
  "nat \<Rightarrow> (feature_request \<Rightarrow> 'w \<Rightarrow> (client_error + page) \<times> 'w) \<Rightarrow> int \<Rightarrow> int option \<Rightarrow> feature list \<Rightarrow> int \<Rightarrow> int set \<Rightarrow> 'w \<Rightarrow>
   (client_error + feature list) \<times> 'w" where
  "query_all_pages 0 fetch page_size limit features offset previous w = (Inr features, w)"
| "query_all_pages (Suc n) fetch page_size limit features offset previous w =
     (let remaining = map_option (\<lambda>l. l - int (length features)) limit in
      if (case remaining of Some r \<Rightarrow> r \<le> 0 | None \<Rightarrow> False) then (Inr features, w)
      else (case fetch (FeaturePage offset (page_record_count page_size remaining)) w of
          (Inl e, w1) \<Rightarrow> (Inl e, w1)
        | (Inr payload, w1) \<Rightarrow> (case page_with_ids payload of
             Inl e \<Rightarrow> (Inl (CodeError e), w1)
           | Inr (p, new_ids) \<Rightarrow>
              if new_ids \<noteq> {} \<and> new_ids \<subseteq> previous then (Inr features, w1)
              else (let features1 = features @ (case remaining of Some r \<Rightarrow> take (nat r) (fs_features p) | None \<Rightarrow> fs_features p) in
                if fs_features p = [] \<or> \<not> fs_exceeded p then (Inr features1, w1)
                else query_all_pages n fetch page_size limit features1 (offset + int (length (fs_features p))) new_ids w1))))"

definition layer_page ::
  "('h, 'w) http_lib \<Rightarrow> honua_client \<Rightarrow> layer_query \<Rightarrow> call_options \<Rightarrow> feature_request \<Rightarrow> 'w \<Rightarrow> (client_error + page) \<times> 'w" where
  "layer_page lib c q opts r = (case r of FeaturePage offset record_count \<Rightarrow>
     query_features lib c (q\<lparr>lq_extra_params := Some (page_extra_params (case lq_extra_params q of None \<Rightarrow> [] | Some e \<Rightarrow> e) offset record_count)\<rparr>) opts)"

definition query_features_all ::
  "('h, 'w) http_lib \<Rightarrow> honua_client \<Rightarrow> layer_query \<Rightarrow> int \<Rightarrow> int option \<Rightarrow> int \<Rightarrow> call_options \<Rightarrow> 'w \<Rightarrow> (client_error + feature list) \<times> 'w" where
  "query_features_all lib c q page_size limit max_pages opts w =
     (case validate_paging page_size max_pages of
        Inl e \<Rightarrow> (Inl (CodeError e), w)
      | Inr _ \<Rightarrow>
          if (case limit of Some l \<Rightarrow> l \<le> 0 | None \<Rightarrow> False) then (Inr [], w)
          else (case initial_offset (lq_extra_params q) of
              Inl e \<Rightarrow> (Inl (CodeError e), w)
            | Inr offset \<Rightarrow> query_all_pages (nat max_pages) (layer_page lib c q opts) page_size limit [] offset {} w))"

record layer_edits =
  le_service_id :: string
  le_layer_id :: int
  le_adds :: "pyval list option"
  le_updates :: "pyval list option"
  le_deletes :: "pyval option"
  le_rollback :: bool

text \<open>\<open>uuid\<close> is the fresh key \<open>uuid4().hex\<close> would give.\<close>

definition apply_edits ::
  "('h, 'w) http_lib \<Rightarrow> honua_client \<Rightarrow> layer_edits \<Rightarrow> string option \<Rightarrow> string \<Rightarrow> call_options \<Rightarrow> 'w \<Rightarrow> (client_error + (string, pyval) pydict) \<times> 'w" where
  "apply_edits lib c ed idempotency_key uuid = client_request_json lib c
     (build_apply_edits_request (le_service_id ed) (le_layer_id ed) (le_adds ed) (le_updates ed) (le_deletes ed) (le_rollback ed)
        (build_idempotency_headers idempotency_key (cl_retry_methods c) None uuid)) None"

definition export_map ::
  "('h, 'w) http_lib \<Rightarrow> honua_client \<Rightarrow> string \<Rightarrow> pyval \<Rightarrow> int \<times> int \<Rightarrow> string \<Rightarrow> bool \<Rightarrow> int \<Rightarrow> (string, pyval) pydict option \<Rightarrow> call_options \<Rightarrow> 'w \<Rightarrow>
   (client_error + 8 word list) \<times> 'w" where
  "export_map lib c service_id bbox extent image_format transparent dpi extra_params opts w =
     (case client_request lib c (build_export_map_request service_id bbox extent image_format transparent dpi extra_params) None opts w of
        (r, w1) \<Rightarrow> (bindE r (\<lambda>(_, content). Inr content), w1))"

section \<open>Paging agrees with the protocol walk\<close>

text \<open>What a consumer of a walk ends with: the features of its pages up to \<open>limit\<close>, or the exception.\<close>

definition walk_outcome :: "int option \<Rightarrow> (feature_request, page, client_error, 'w) walk_run \<Rightarrow> (client_error + feature list) \<times> 'w" where
  "walk_outcome limit run = (case run of (t, e, w) \<Rightarrow>
     ((case e of FetchRaised e \<Rightarrow> Inl e | CodeRaised e \<Rightarrow> Inl (CodeError e)
       | _ \<Rightarrow> Inr (fst (emit_pages limit page_features 0 (pages_of t)))), w))"

definition with_features :: "feature list \<Rightarrow> (client_error + feature list) \<times> 'w \<Rightarrow> (client_error + feature list) \<times> 'w" where
  "with_features fs res = (bindE (fst res) (\<lambda>gs. Inr (fs @ gs)), snd res)"

lemma walk_outcome_stop [simp]: "walk_outcome limit ([], Finished, w) = (Inr [], w)"
  by (simp add: walk_outcome_def pages_of_def)

lemma feature_receive_page:
  assumes "page_with_ids payload = Inr (p, ids)"
  shows "\<exists>js. set js = ids \<and> feature_receive s payload =
    (if ids \<noteq> {} \<and> ids \<subseteq> set (fw_previous_ids s) then Inr (False, None)
     else if fs_features p = [] \<or> \<not> fs_exceeded p then Inr (True, None)
     else Inr (True, Some \<lparr>fw_index = Suc (fw_index s), fw_total = fw_total s + int (length (fs_features p)),
                          fw_offset = fw_offset s + int (length (fs_features p)), fw_previous_ids = js\<rparr>))"
proof -
  obtain js where "feature_set_from_dict payload = Inr p" "mapE object_id (fs_features p) = Inr js" "ids = set (List.map_filter id js)"
    using assms by (auto simp: page_with_ids_def bindE_eq_Inr)
  then show ?thesis by (intro exI [of _ "List.map_filter id js"]) (simp add: feature_receive_def Let_def)
qed

lemma feature_receive_error: "page_with_ids payload = Inl e \<Longrightarrow> feature_receive s payload = Inl e"
  by (auto simp: feature_receive_def page_with_ids_def bindE_def split: sum.splits)

lemma page_with_ids_features: "page_with_ids payload = Inr (p, ids) \<Longrightarrow> page_features payload = fs_features p"
  by (auto simp: page_with_ids_def page_features_def bindE_eq_Inr)

lemma with_features_append: "with_features fs (with_features gs res) = with_features (fs @ gs) res"
  by (cases "fst res") (simp_all add: with_features_def bindE_def)

lemma walk_outcome_limit:
  assumes "rel_option (\<lambda>a b. nat a = nat b) l1 l2" shows "walk_outcome l1 run = walk_outcome l2 run"
  using assms by (cases l1; cases l2) (auto simp: walk_outcome_def emit_pages_all split: prod.splits ending.splits)

lemma walk_outcome_page:
  assumes "page_features payload = fs"
  shows "walk_outcome limit ((r, payload, True) # t, e, w) =
    with_features (case limit of Some l \<Rightarrow> take (nat l) fs | None \<Rightarrow> fs)
      (walk_outcome (map_option (\<lambda>l. l - int (length fs)) limit) (t, e, w))"
proof -
  have n: "nat l - length fs = nat (l - int (length fs))" for l by simp
  have "fst (emit_pages limit page_features 0 (payload # pages_of t)) =
      (case limit of Some l \<Rightarrow> take (nat l) fs | None \<Rightarrow> fs) @ fst (emit_pages (map_option (\<lambda>l. l - int (length fs)) limit) page_features 0 (pages_of t))"
    unfolding emit_pages_all by (cases limit) (simp_all add: assms n)
  then show ?thesis by (cases e) (simp_all add: walk_outcome_def with_features_def bindE_def pages_of_def del: emit_pages.simps)
qed

text \<open>One turn of the walk that yields its page: the part within the limit, then the rest.\<close>

definition within_limit :: "int option \<Rightarrow> feature list \<Rightarrow> feature list" where
  "within_limit limit fs = (case limit of Some l \<Rightarrow> take (nat l) fs | None \<Rightarrow> fs)"

lemma walk_outcome_turn:
  assumes "feature_page_request opts page_size s = Some r" "fetch r w = (Inr payload, w1)"
    and "page_with_ids payload = Inr (p, ids)" "feature_receive s payload = Inr (True, nxt)"
  shows "walk_outcome limit (walk (Suc k) (feature_page_request opts page_size) feature_receive fetch s w) =
    with_features (within_limit limit (fs_features p)) (case nxt of
        None \<Rightarrow> (Inr [], w1)
      | Some s' \<Rightarrow> walk_outcome (map_option (\<lambda>l. l - int (length (fs_features p))) limit)
          (walk k (feature_page_request opts page_size) feature_receive fetch s' w1))"
proof (cases nxt)
  case None
  then show ?thesis using assms walk_outcome_page [OF page_with_ids_features [OF assms(3)], of limit r "[]" Finished w1]
    by (simp add: within_limit_def)
next
  case (Some s')
  obtain t2 e2 w2 where "walk k (feature_page_request opts page_size) feature_receive fetch s' w1 = (t2, e2, w2)" by (metis surj_pair)
  then show ?thesis using Some assms walk_outcome_page [OF page_with_ids_features [OF assms(3)], of limit r t2 e2 w2]
    by (simp add: within_limit_def)
qed

lemma within_limit_length:
  "limit = Some l \<Longrightarrow> 0 \<le> l \<Longrightarrow> int (length (within_limit limit fs)) = min l (int (length fs))"
  by (auto simp: within_limit_def)

text \<open>One turn of the client's loop, and its agreement with the walk when the rest agrees.\<close>

lemma query_all_pages_turn:
  assumes "rest = map_option (\<lambda>l. l - int (length features)) limit" "\<not> (case rest of Some r \<Rightarrow> r \<le> 0 | None \<Rightarrow> False)"
    and "fetch (FeaturePage offset (page_record_count page_size rest)) w = (Inr payload, w1)" "page_with_ids payload = Inr (p, ids)"
  shows "query_all_pages (Suc n) fetch page_size limit features offset previous w =
    (if ids \<noteq> {} \<and> ids \<subseteq> previous then (Inr features, w1)
     else if fs_features p = [] \<or> \<not> fs_exceeded p then (Inr (features @ within_limit rest (fs_features p)), w1)
     else query_all_pages n fetch page_size limit (features @ within_limit rest (fs_features p)) (offset + int (length (fs_features p))) ids w1)"
  using assms(2-4) unfolding assms(1) within_limit_def by (simp add: Let_def)

lemma query_page_agrees:
  assumes turn: "rest = map_option (\<lambda>l. l - int (length features)) limit" "\<not> (case rest of Some r \<Rightarrow> r \<le> 0 | None \<Rightarrow> False)"
      "fetch (FeaturePage offset (page_record_count page_size rest)) w = (Inr payload, w1)" "page_with_ids payload = Inr (p, ids)"
    and req: "feature_page_request opts page_size s = Some (FeaturePage offset (page_record_count page_size rest))"
    and further: "\<And>js. set js = ids \<Longrightarrow>
      query_all_pages n fetch page_size limit (features @ within_limit rest (fs_features p)) (offset + int (length (fs_features p))) ids w1 =
      with_features (features @ within_limit rest (fs_features p)) (walk_outcome (map_option (\<lambda>l. l - int (length (fs_features p))) rest)
        (walk (Suc n) (feature_page_request opts page_size) feature_receive fetch
          \<lparr>fw_index = Suc (fw_index s), fw_total = fw_total s + int (length (fs_features p)),
           fw_offset = fw_offset s + int (length (fs_features p)), fw_previous_ids = js\<rparr> w1))"
  shows "query_all_pages (Suc n) fetch page_size limit features offset (set (fw_previous_ids s)) w = with_features features
    (walk_outcome rest (walk (Suc (Suc n)) (feature_page_request opts page_size) feature_receive fetch s w))"
proof -
  obtain js where js: "set js = ids" and recv: "feature_receive s payload =
      (if ids \<noteq> {} \<and> ids \<subseteq> set (fw_previous_ids s) then Inr (False, None)
       else if fs_features p = [] \<or> \<not> fs_exceeded p then Inr (True, None)
       else Inr (True, Some \<lparr>fw_index = Suc (fw_index s), fw_total = fw_total s + int (length (fs_features p)),
          fw_offset = fw_offset s + int (length (fs_features p)), fw_previous_ids = js\<rparr>))"
    using feature_receive_page [OF turn(4), of s] by metis
  note lhs = query_all_pages_turn [where fetch = fetch and w = w, OF turn]
  note walked = walk_outcome_turn [where fetch = fetch and w = w, OF req turn(3,4), of _ rest "Suc n"]
  consider (dup) "ids \<noteq> {} \<and> ids \<subseteq> set (fw_previous_ids s)"
    | (last) "\<not> (ids \<noteq> {} \<and> ids \<subseteq> set (fw_previous_ids s))" "fs_features p = [] \<or> \<not> fs_exceeded p"
    | (more) "\<not> (ids \<noteq> {} \<and> ids \<subseteq> set (fw_previous_ids s))" "\<not> (fs_features p = [] \<or> \<not> fs_exceeded p)" by blast
  then show ?thesis
  proof cases
    case dup
    then have "feature_receive s payload = Inr (False, None)" by (simp add: recv)
    then show ?thesis unfolding lhs using dup req turn(3) by (simp add: walk_outcome_def pages_of_def with_features_def)
  next
    case last
    have "feature_receive s payload = Inr (True, None)" by (simp only: recv last if_True if_False)
    from walked [OF this] show ?thesis
      unfolding lhs by (simp only: last if_True if_False with_features_append option.case) (simp add: with_features_def)
  next
    case more
    note recv [unfolded if_not_P [OF more(1)] if_not_P [OF more(2)]]
    from walked [OF this] show ?thesis
      unfolding lhs by (simp only: more if_False further [OF js] with_features_append option.case)
  qed
qed

lemma query_all_pages_walk:
  assumes "m = int (fw_index s + n)" "0 < page_size"
    and "\<And>l. limit = Some l \<Longrightarrow> 0 < l \<and> int (length features) = min l (fw_total s)"
    and "opts = \<lparr>po_page_size = None, po_limit = limit, po_max_pages = Some m\<rparr>"
  shows "query_all_pages n fetch page_size limit features (fw_offset s) (set (fw_previous_ids s)) w =
    with_features features (walk_outcome (map_option (\<lambda>l. l - int (length features)) limit)
      (walk (Suc n) (feature_page_request opts page_size) feature_receive fetch s w))"
  using assms
proof (induction n arbitrary: s features w)
  case 0
  then show ?case by (simp add: feature_page_request_def page_index_allowed_def with_features_def)
next
  case (Suc n)
  define rest where "rest = map_option (\<lambda>l. l - int (length features)) limit"
  show ?case
  proof (cases "\<exists>l. limit = Some l \<and> l \<le> fw_total s")
    case True
    then show ?thesis using Suc.prems by (auto simp: feature_page_request_def with_features_def)
  next
    case False
    have t: "int (length features) = fw_total s \<and> fw_total s < l" if "limit = Some l" for l using Suc.prems(3) [OF that] False that by auto
    have go: "\<not> (case rest of Some r \<Rightarrow> r \<le> 0 | None \<Rightarrow> False)" using t by (auto simp: rest_def split: option.splits)
    have req: "feature_page_request opts page_size s = Some (FeaturePage (fw_offset s) (page_record_count page_size rest))"
      using Suc.prems t by (auto simp: feature_page_request_def page_index_allowed_def rest_def page_record_count_def feature_room_def split: option.splits)
    obtain a w1 where f: "fetch (FeaturePage (fw_offset s) (page_record_count page_size rest)) w = (a, w1)" by (metis surj_pair)
    consider (failed) e where "a = Inl e" | (bad) payload e where "a = Inr payload" "page_with_ids payload = Inl e"
      | (page) payload p ids where "a = Inr payload" "page_with_ids payload = Inr (p, ids)"
      by (metis obj_sumE surj_pair)
    then have "query_all_pages (Suc n) fetch page_size limit features (fw_offset s) (set (fw_previous_ids s)) w = with_features features
        (walk_outcome rest (walk (Suc (Suc n)) (feature_page_request opts page_size) feature_receive fetch s w))" (is ?agree)
    proof cases
      case failed
      then show ?agree using go f req by (simp add: rest_def walk_outcome_def with_features_def bindE_def)
    next
      case bad
      then show ?agree using go f req feature_receive_error [OF bad(2), of s]
        by (simp add: rest_def walk_outcome_def with_features_def bindE_def)
    next
      case page
      show ?agree
      proof (rule query_page_agrees [where fetch = fetch and w = w, OF rest_def go f [unfolded page(1)] page(2) req])
        fix js assume js: "set js = ids"
        define s' where "s' = \<lparr>fw_index = Suc (fw_index s), fw_total = fw_total s + int (length (fs_features p)),
            fw_offset = fw_offset s + int (length (fs_features p)), fw_previous_ids = js\<rparr>"
        have n: "0 < l \<and> int (length (features @ within_limit rest (fs_features p))) = min l (fw_total s')" if l: "limit = Some l" for l
          using Suc.prems(3) [OF l] t [OF l] l by (auto simp: rest_def within_limit_def s'_def min_def)
        have limit': "rel_option (\<lambda>a b. nat a = nat b) (map_option (\<lambda>l. l - int (length (features @ within_limit rest (fs_features p)))) limit)
            (map_option (\<lambda>l. l - int (length (fs_features p))) rest)"
          by (cases limit) (auto simp: rest_def within_limit_def)
        have "m = int (fw_index s' + n)" using Suc.prems(1) by (simp add: s'_def)
        from Suc.IH [OF this Suc.prems(2) n Suc.prems(4)] js
        show "query_all_pages n fetch page_size limit (features @ within_limit rest (fs_features p))
            (fw_offset s + int (length (fs_features p))) ids w1 =
          with_features (features @ within_limit rest (fs_features p)) (walk_outcome (map_option (\<lambda>l. l - int (length (fs_features p))) rest)
            (walk (Suc n) (feature_page_request opts page_size) feature_receive fetch
              \<lparr>fw_index = Suc (fw_index s), fw_total = fw_total s + int (length (fs_features p)),
               fw_offset = fw_offset s + int (length (fs_features p)), fw_previous_ids = js\<rparr> w1))"
          unfolding walk_outcome_limit [OF limit'] s'_def [symmetric] by (simp add: s'_def del: walk.simps)
      qed
    qed
    then show ?thesis unfolding rest_def .
  qed
qed

lemma with_features_Nil: "with_features [] res = res"
proof (cases res)
  case (Pair r w)
  then show ?thesis by (cases r) (simp_all add: with_features_def bindE_def)
qed

text \<open>C25. Paging a layer through the client is the protocol wrapper's walk: whatever the server answers,
  \<open>query_features_all\<close> sends the same requests in the same order as the capped FeatureServer
  walk from the same offset, returns the walk's features cut at the limit, and raises where the
  walk does.\<close>

theorem query_features_all_is_walk:
  assumes "initial_offset (lq_extra_params q) = Inr offset"
  shows "query_features_all lib c q page_size limit max_pages opts w =
    (let o' = \<lparr>po_page_size = None, po_limit = limit, po_max_pages = Some max_pages\<rparr> in
     case start_feature_walk o' page_size offset of
       Inl e \<Rightarrow> (Inl (CodeError e), w)
     | Inr None \<Rightarrow> (Inr [], w)
     | Inr (Some s) \<Rightarrow> walk_outcome limit
         (walk (Suc (nat max_pages)) (feature_page_request o' page_size) feature_receive (layer_page lib c q opts) s w))"
proof -
  define o' where "o' = \<lparr>po_page_size = None, po_limit = limit, po_max_pages = Some max_pages\<rparr>"
  define s where "s = \<lparr>fw_index = 0, fw_total = 0, fw_offset = offset, fw_previous_ids = []\<rparr>"
  have "query_all_pages (nat max_pages) (layer_page lib c q opts) page_size limit [] offset {} w =
      walk_outcome limit (walk (Suc (nat max_pages)) (feature_page_request o' page_size) feature_receive (layer_page lib c q opts) s w)"
    if "0 < page_size" "0 < max_pages" "\<And>l. limit = Some l \<Longrightarrow> 0 < l"
  proof -
    have "max_pages = int (fw_index s + nat max_pages)" using that(2) by (simp add: s_def)
    moreover have "0 < l \<and> int (length ([] :: feature list)) = min l (fw_total s)" if "limit = Some l" for l
      using that \<open>\<And>l. limit = Some l \<Longrightarrow> 0 < l\<close> [OF that] by (simp add: s_def)
    ultimately have "query_all_pages (nat max_pages) (layer_page lib c q opts) page_size limit [] (fw_offset s) (set (fw_previous_ids s)) w =
        with_features [] (walk_outcome (map_option (\<lambda>l. l - int (length ([] :: feature list))) limit)
          (walk (Suc (nat max_pages)) (feature_page_request o' page_size) feature_receive (layer_page lib c q opts) s w))"
      using that(1) by (intro query_all_pages_walk) (auto simp: o'_def)
    then show ?thesis unfolding with_features_Nil by (simp add: s_def option.map_ident del: walk.simps)
  qed
  then show ?thesis unfolding Let_def o'_def [symmetric] s_def [symmetric]
    by (auto simp: query_features_all_def validate_paging_def start_feature_walk_def assms s_def [symmetric] o'_def split: option.splits simp del: walk.simps)
qed

section \<open>Where requests go\<close>

text \<open>The clients a program can hold: constructed, or derived with \<open>with_options\<close> from one it holds.\<close>

inductive client_family :: "('h, 'w) http_lib \<Rightarrow> honua_client \<Rightarrow> bool" for lib where
  made: "make_client lib i external rs = (Inr c, rs') \<Longrightarrow> client_family lib c"
| derived: "client_family lib c \<Longrightarrow> with_options lib c timeout retries base_url rs = (Inr d, rs') \<Longrightarrow> client_family lib d"

text \<open>A URL to which credentials may go, and what every client of the family satisfies.\<close>

definition secure_url :: "('h, 'w) http_lib \<Rightarrow> client_init \<Rightarrow> http_url \<Rightarrow> bool" where
  "secure_url lib i url \<longleftrightarrow> url_scheme url \<noteq> ''http'' \<or> is_loopback_host (hl_ip6_loopback lib) (url_host url) \<or>
     ci_allow_insecure_http i \<or> insecure_http_opted_in_by_env (hl_insecure_env lib)"

definition sound_client :: "('h, 'w) http_lib \<Rightarrow> honua_client \<Rightarrow> bool" where
  "sound_client lib c \<longleftrightarrow> (has_credentials (cl_init c) \<longrightarrow> secure_url lib (cl_init c) (cl_base_url c)) \<and>
     (case cl_session c of External _ \<Rightarrow> ci_api_key (cl_init c) = None \<and> ci_bearer_token (cl_init c) = None \<and> ci_provider (cl_init c) = None
      | Built b \<Rightarrow> bs_trusted b = extract_trusted_authority (cl_base_url c) \<and> bs_provider b = ci_provider (cl_init c) \<and>
          bs_headers b = build_sensitive_auth_headers (ci_api_key (cl_init c)) (ci_bearer_token (cl_init c)))"

text \<open>Trailing slashes do not change the authority of a URL.\<close>

definition slashes_ignored :: "('h, 'w) http_lib \<Rightarrow> bool" where
  "slashes_ignored lib \<longleftrightarrow> (\<forall>b. extract_trusted_authority (hl_url lib (normalize_base_url b)) = extract_trusted_authority (hl_url lib b))"

lemma make_client_sound:
  assumes "make_client lib i external rs = (Inr c, rs')" "slashes_ignored lib"
  shows "sound_client lib c"
proof -
  have chk: "check_client_init lib i (external \<noteq> None) = Inr ()"
    using assms(1) by (cases "check_client_init lib i (external \<noteq> None)") (auto simp: make_client_def)
  show ?thesis
  proof (cases external)
    case None
    have "url_scheme (hl_url lib (normalize_base_url (ci_base_url i))) = url_scheme (hl_url lib (ci_base_url i))"
      "url_host (hl_url lib (normalize_base_url (ci_base_url i))) = url_host (hl_url lib (ci_base_url i))"
      using assms(2) by (simp_all add: slashes_ignored_def extract_trusted_authority_def)
    moreover have "has_credentials i \<longrightarrow> secure_url lib i (hl_url lib (ci_base_url i))"
      using chk by (auto simp: check_client_init_def bindE_eq_Inr ensure_secure_credential_transport_def secure_url_def split: if_splits)
    ultimately show ?thesis using assms(1) None chk by (auto simp: make_client_def built_client_def Let_def sound_client_def secure_url_def)
  next
    case (Some x)
    then have "ci_api_key i = None" "ci_bearer_token i = None" "ci_provider i = None"
      using chk by (auto simp: check_client_init_def bindE_eq_Inr validate_external_client_auth_configuration_def split: if_splits)
    then show ?thesis using assms(1) Some chk
      by (auto simp: make_client_def external_client_def sound_client_def has_credentials_def split: prod.splits)
  qed
qed

lemma with_options_cases:
  assumes "with_options lib c timeout retries base_url rs = (Inr d, rs')"
  obtains (built) i clone where "make_client lib i None rs = (Inr clone, rs')" "d = with_overrides timeout retries c clone"
      "ci_transport i = map_option NonClosing (ci_transport (cl_init c))"
  | (shared) "d = with_overrides timeout retries c (c\<lparr>cl_owns_client := False\<rparr>)" "rs' = rs"
proof (cases "base_url \<noteq> None \<or> smaller_timeout timeout (cl_init c)")
  case True
  define i where "i = (cl_init c)\<lparr>ci_base_url := (case base_url of Some b \<Rightarrow> b | None \<Rightarrow> ci_base_url (cl_init c)),
      ci_timeout := (if smaller_timeout timeout (cl_init c) then the timeout else ci_timeout (cl_init c)),
      ci_transport := map_option NonClosing (ci_transport (cl_init c))\<rparr>"
  have "(case make_client lib i None rs of (Inl e, rs') \<Rightarrow> (Inl e, rs') | (Inr clone, rs') \<Rightarrow> (Inr (with_overrides timeout retries c clone), rs')) = (Inr d, rs')"
    using assms True by (simp add: with_options_def Let_def i_def)
  then show thesis using built [of i] by (auto simp: i_def split: prod.splits sum.splits)
qed (use assms shared in \<open>simp add: with_options_def Let_def\<close>)

lemma sound_overrides: "sound_client lib (with_overrides timeout retries c d) = sound_client lib d"
  by (simp add: sound_client_def with_overrides_def split: http_session.split)

lemma with_options_sound:
  assumes "with_options lib c timeout retries base_url rs = (Inr d, rs')" "sound_client lib c" "slashes_ignored lib"
  shows "sound_client lib d"
  using assms(1)
proof (cases rule: with_options_cases)
  case (built i clone)
  then show ?thesis using make_client_sound [OF built(1) assms(3)] by (simp add: sound_overrides)
next
  case shared
  then show ?thesis using assms(2) by (simp add: sound_overrides) (cases "cl_session c"; simp add: sound_client_def)
qed

lemma client_family_sound: "client_family lib c \<Longrightarrow> slashes_ignored lib \<Longrightarrow> sound_client lib c"
  by (induction rule: client_family.induct) (auto intro: make_client_sound with_options_sound)

text \<open>The library with a log of the requests it was given to send, failed ones included.\<close>

definition logged :: "('h, 'w) http_lib \<Rightarrow> ('h, 'w \<times> 'h wire_request list) http_lib" where
  "logged lib = \<lparr>hl_url = hl_url lib, hl_path = hl_path lib, hl_absolute = hl_absolute lib, hl_ops = hl_ops lib, hl_headers = hl_headers lib,
     hl_provider = (\<lambda>p (w, sent). case hl_provider lib p w of (r, w1) \<Rightarrow> (r, w1, sent)),
     hl_send = (\<lambda>s q (w, sent). case hl_send lib s q w of (r, w1) \<Rightarrow> (r, w1, sent @ [q])),
     hl_env = (\<lambda>(w, sent). hl_env lib w), hl_ip6_loopback = hl_ip6_loopback lib, hl_insecure_env = hl_insecure_env lib\<rparr>"

lemma request_target_origin:
  "request_target lib c path = Inr (url, target) \<Longrightarrow> extract_trusted_authority url = extract_trusted_authority (cl_base_url c)"
  by (auto simp: request_target_def ensure_same_origin_continuation_def split: if_splits)

lemma request_hook_log: "request_hook (logged lib) s url h (w, sent) = (r, w', sent') \<Longrightarrow> sent' = sent"
  by (auto simp: request_hook_def logged_def Let_def split: http_session.splits option.splits prod.splits if_splits)

lemma client_request_log:
  assumes "client_request (logged lib) c prep key opts (w, sent) = (r, w', sent')"
  shows "sent' = sent \<or> (\<exists>q. sent' = sent @ [q] \<and> extract_trusted_authority (wr_url q) = extract_trusted_authority (cl_base_url c))"
  using assms
  by (auto simp: client_request_def logged_def [of lib] split: sum.splits prod.splits if_splits
      dest!: request_target_origin request_hook_log [unfolded logged_def])


section \<open>Who closes what\<close>

text \<open>The steps of a program that holds the client at the head of the list and the clients derived from
  it, and that never closes the head.\<close>

inductive family_step ::
  "('h, 'w) http_lib \<Rightarrow> honua_client list \<times> resources \<Rightarrow> honua_client list \<times> resources \<Rightarrow> bool" for lib where
  derive: "c \<in> set cs \<Longrightarrow> with_options lib c timeout retries base_url rs = (Inr d, rs') \<Longrightarrow> family_step lib (cs, rs) (cs @ [d], rs')"
| close: "d \<in> set ds \<Longrightarrow> family_step lib (c # ds, rs) (c # ds, close_client d rs)"

fun base_transport :: "transport \<Rightarrow> transport" where
  "base_transport (NonClosing t) = base_transport t"
| "base_transport t = t"

text \<open>A client works while neither the library's client it uses nor the transport below is closed; its
  names were handed out before \<open>n\<close>.\<close>

definition client_open :: "honua_client \<Rightarrow> resources \<Rightarrow> bool" where
  "client_open c rs \<longleftrightarrow> (case cl_session c of External n \<Rightarrow> n \<notin> rs_closed_sessions rs
     | Built b \<Rightarrow> bs_id b \<notin> rs_closed_sessions rs \<and> base_transport (bs_transport b) \<notin> rs_closed_transports rs)"

definition named_before :: "nat \<Rightarrow> honua_client \<Rightarrow> bool" where
  "named_before n c \<longleftrightarrow> (case cl_session c of External m \<Rightarrow> m < n
     | Built b \<Rightarrow> bs_id b < n \<and> (\<forall>m. base_transport (bs_transport b) = Opened m \<longrightarrow> m < n))"

definition owns_only_new :: "nat \<Rightarrow> honua_client \<Rightarrow> bool" where
  "owns_only_new n c \<longleftrightarrow> (cl_owns_client c \<longrightarrow> (\<exists>b. cl_session c = Built b \<and> n \<le> bs_id b \<and>
     (case bs_transport b of NonClosing t \<Rightarrow> True | Opened m \<Rightarrow> n \<le> m | Given m \<Rightarrow> False)))"

definition closed_only_new :: "nat \<Rightarrow> resources \<Rightarrow> resources \<Rightarrow> bool" where
  "closed_only_new n rs rs' \<longleftrightarrow> n \<le> rs_next rs' \<and> rs_closed_sessions rs' \<subseteq> rs_closed_sessions rs \<union> {n..} \<and>
     rs_closed_transports rs' \<subseteq> rs_closed_transports rs \<union> Opened ` {n..}"

lemma with_options_owns_new:
  assumes "with_options lib c timeout retries base_url rs = (Inr d, rs')" "n \<le> rs_next rs"
  shows "owns_only_new n d \<and> rs_closed_sessions rs' = rs_closed_sessions rs \<and> rs_closed_transports rs' = rs_closed_transports rs \<and> rs_next rs \<le> rs_next rs'"
  using assms(1)
proof (cases rule: with_options_cases)
  case (built i clone)
  have "built_client lib i rs = (clone, rs')"
    using built(1) by (auto simp: make_client_def split: sum.splits prod.splits)
  then show ?thesis using built(2,3) assms(2)
    by (auto simp: built_client_def Let_def owns_only_new_def with_overrides_def split: option.splits)
qed (auto simp: owns_only_new_def with_overrides_def)

lemma close_owned_new:
  assumes "owns_only_new n d" "closed_only_new n rs0 rs"
  shows "closed_only_new n rs0 (close_client d rs)"
proof (cases "cl_owns_client d")
  case True
  then obtain b where b: "cl_session d = Built b" "n \<le> bs_id b" "case bs_transport b of NonClosing t \<Rightarrow> True | Opened m \<Rightarrow> n \<le> m | Given m \<Rightarrow> False"
    using assms(1) by (auto simp: owns_only_new_def)
  then show ?thesis using True assms(2)
    by (cases "bs_transport b") (auto simp: close_client_def closed_only_new_def)
qed (use assms(2) in \<open>simp add: close_client_def\<close>)

lemma family_keeps:
  assumes "(family_step lib)\<^sup>*\<^sup>* ([c], rs) (cs, rs')" "n = rs_next rs"
  shows "\<exists>ds. cs = c # ds \<and> (\<forall>d \<in> set ds. owns_only_new n d) \<and> closed_only_new n rs rs'"
  using assms(1)
proof (induction "(cs, rs')" arbitrary: cs rs' rule: rtranclp_induct)
  case base
  then show ?case using assms(2) by (simp add: closed_only_new_def)
next
  case (step x)
  obtain cs1 rs1 where x: "x = (cs1, rs1)" by (cases x)
  obtain ds where ds: "cs1 = c # ds" "\<forall>d \<in> set ds. owns_only_new n d" "closed_only_new n rs rs1"
    using step.hyps(3) x by blast
  from step.hyps(2) [unfolded x] show ?case
  proof (cases rule: family_step.cases)
    case (derive c' timeout retries base_url d)
    then show ?thesis using ds with_options_owns_new [OF derive(3), of n]
      by (auto simp: closed_only_new_def)
  next
    case (close d ds' c')
    then show ?thesis using ds close_owned_new by auto
  qed
qed

text \<open>Deriving clients is safe: after any number of \<open>with_options\<close> calls on a client and on those
  derived from it, and after any of the derived ones were closed in any order, the original still
  works, supplied transport and connection pool included, if it did before.\<close>

theorem derived_clients_keep_original_open:
  assumes "(family_step lib)\<^sup>*\<^sup>* ([c], rs) (cs, rs')" "named_before (rs_next rs) c" "client_open c rs"
  shows "client_open c rs'"
proof -
  have "closed_only_new (rs_next rs) rs rs'" using family_keeps [OF assms(1) refl] by blast
  then show ?thesis using assms(2,3)
    by (auto simp: closed_only_new_def named_before_def client_open_def split: http_session.splits)
qed

text \<open>A client around a supplied HTTP client that asks for a smaller timeout gets a client of its own,
  with the constructor's base URL, no credentials and not the supplied client's transport.\<close>

lemma external_client_replaced:
  assumes "smaller_timeout (Some t) i" "check_client_init lib i True = Inr ()" "ci_transport i = None"
  shows "\<exists>d rs' b. with_options lib (external_client i (n, url, path)) (Some t) None None rs = (Inr d, rs') \<and> cl_session d = Built b \<and>
    bs_transport b = Opened (rs_next rs) \<and> bs_headers b = [] \<and> bs_provider b = None \<and> cl_base_url d = hl_url lib (normalize_base_url (ci_base_url i))"
proof -
  have "ci_api_key i = None" "ci_bearer_token i = None" "ci_provider i = None"
    using assms(2) by (auto simp: check_client_init_def bindE_eq_Inr validate_external_client_auth_configuration_def split: if_splits)
  then show ?thesis using assms
    by (auto simp: with_options_def external_client_def make_client_def check_client_init_def built_client_def Let_def with_overrides_def
        validate_auth_configuration_def validate_external_client_auth_configuration_def ensure_secure_credential_transport_def
        has_credentials_def build_sensitive_auth_headers_def)
qed

section \<open>A small server\<close>

text \<open>A server with one layer of two features, one to a page, and a client that has an API key.\<close>

definition json_answer :: "(string, pyval) pydict \<Rightarrow> http_response" where
  "json_answer d = (answer_of 200)\<lparr>has_content := True, body_json := Some (PDict d)\<rparr>"

definition wanted_offset :: "(string, pyval) pydict option \<Rightarrow> nat" where
  "wanted_offset params = (case params of None \<Rightarrow> 0 | Some d \<Rightarrow> (case dict_get d ''resultOffset'' of Some (PInt i) \<Rightarrow> nat i | _ \<Rightarrow> 0))"

definition site_lib :: "((string, string) pydict, unit) http_lib" where
  "site_lib = \<lparr>hl_url = (\<lambda>_. site), hl_path = (\<lambda>_. ''/''), hl_absolute = (\<lambda>_. False), hl_ops = dict_header_ops,
     hl_headers = (\<lambda>h. case h of None \<Rightarrow> [] | Some d \<Rightarrow> d), hl_provider = (\<lambda>_ w. (Inr [], w)),
     hl_send = (\<lambda>_ q w. (Inr (json_answer (layer_payload two_features 1 (wanted_offset (wr_params q))), []), w)), hl_env = (\<lambda>_. plain_env),
     hl_ip6_loopback = (\<lambda>_. False), hl_insecure_env = None\<rparr>"

definition key_init :: client_init where
  "key_init = \<lparr>ci_base_url = ''https://api.example'', ci_timeout = FFinite 30, ci_api_key = Some ''k'', ci_bearer_token = None, ci_provider = None,
     ci_transport = Some (Given 7), ci_max_retries = 3, ci_allow_insecure_http = False\<rparr>"

definition fresh_resources :: resources where
  "fresh_resources = \<lparr>rs_next = 0, rs_closed_sessions = {}, rs_closed_transports = {}\<rparr>"

abbreviation key_client :: honua_client where
  "key_client \<equiv> fst (built_client site_lib key_init fresh_resources)"

definition roads_query :: layer_query where
  "roads_query = \<lparr>lq_service_id = ''roads'', lq_layer_id = 0, lq_where = PStr ''1=1'', lq_out_fields = PStr ''*'', lq_return_geometry = True, lq_extra_params = None\<rparr>"

abbreviation no_options :: call_options where
  "no_options \<equiv> \<lparr>co_timeout = None, co_extra_headers = None\<rparr>"

lemma site_json:
  assumes "wanted_offset (pq_params prep) = k"
  shows "client_request_json site_lib key_client prep None no_options () = (Inr (layer_payload two_features 1 k), ())"
proof -
  obtain h' where hook: "request_hook site_lib (cl_session key_client) site (hl_headers site_lib (merge_request_headers (pq_headers prep) None None)) () = (Inr h', ())"
    by (auto simp: request_hook_def built_client_def key_init_def apply_sensitive_auth_headers_def site_lib_def Let_def bindE_def)
  have target: "request_target site_lib key_client path = Inr (site, encode_request_path (join_base_path (cl_base_path key_client) path))" for path
    by (simp add: request_target_def site_lib_def built_client_def Let_def)
  have send: "hl_send site_lib s q' () = (Inr (json_answer (layer_payload two_features 1 k), []), ())" if "wr_params q' = pq_params prep" for s q'
    using assms that by (simp add: site_lib_def)
  have "raise_for_geoservices_error env r (layer_payload two_features 1 k) = Inr ()" for env r
    by (simp add: raise_for_geoservices_error_def layer_payload_def get_or_none_def dict_get_def)
  then have "parse_json_response_body env (json_answer (layer_payload two_features 1 k)) = Inr (layer_payload two_features 1 k)" for env
    by (simp add: parse_json_response_body_def json_answer_def bindE_def)
  moreover have "status_code (json_answer d) = 200" for d by (simp add: json_answer_def answer_of_def)
  ultimately show ?thesis using hook by (simp add: client_request_json_def client_request_def target send)
qed

lemma site_page: "layer_page site_lib key_client roads_query no_options (FeaturePage (int k) l) () = (Inr (layer_payload two_features 1 k), ())"
  unfolding layer_page_def query_features_def feature_request.case
  by (rule site_json) (simp add: wanted_offset_def build_query_features_request_def prepared_def roads_query_def page_extra_params_def
      dict_get_update dict_set_def Let_def)

theorem query_features_all_is_walk_witness:
  "case start_feature_walk \<lparr>po_page_size = None, po_limit = None, po_max_pages = Some 5\<rparr> 1 0 of Inr (Some s) \<Rightarrow>
      walk_outcome None (walk (Suc (nat 5)) (feature_page_request \<lparr>po_page_size = None, po_limit = None, po_max_pages = Some 5\<rparr> 1) feature_receive
        (layer_page site_lib key_client roads_query no_options) s ()) = (Inr (map feature_from_dict two_features), ())
    | _ \<Rightarrow> False"
proof -
  have o: "initial_offset (lq_extra_params roads_query) = Inr 0" by (simp add: initial_offset_def roads_query_def to_int_def)
  have "query_all_pages (nat 5) (layer_page site_lib key_client roads_query no_options) 1 None [] 0 {} () = (Inr (map feature_from_dict two_features), ())"
  proof -
    have n: "nat 5 = Suc (Suc (Suc (Suc (Suc 0))))" by simp
    have "case page_with_ids (layer_payload two_features 1 0) of Inr (p, ids) \<Rightarrow>
        fs_features p = [feature_from_dict (two_features ! 0)] \<and> fs_exceeded p \<and> ids = {7} | _ \<Rightarrow> False" by code_simp
    then obtain p where p: "page_with_ids (layer_payload two_features 1 0) = Inr (p, {7})"
      "fs_features p = [feature_from_dict (two_features ! 0)]" "fs_exceeded p" by (auto split: sum.splits)
    have "case page_with_ids (layer_payload two_features 1 1) of Inr (p, ids) \<Rightarrow>
        fs_features p = [feature_from_dict (two_features ! 1)] \<and> \<not> fs_exceeded p \<and> ids = {8} | _ \<Rightarrow> False" by code_simp
    then obtain q where q: "page_with_ids (layer_payload two_features 1 1) = Inr (q, {8})"
      "fs_features q = [feature_from_dict (two_features ! 1)]" "\<not> fs_exceeded q" by (auto split: sum.splits)
    show ?thesis unfolding n using site_page [of 0 1] site_page [of 1 1] p q
      by (simp add: page_record_count_def Let_def) (simp add: two_features_def)
  qed
  then have "query_features_all site_lib key_client roads_query 1 None 5 no_options () = (Inr (map feature_from_dict two_features), ())"
    by (simp add: query_features_all_def validate_paging_def o)
  with query_features_all_is_walk [OF o, of site_lib key_client 1 None 5 no_options "()"] show ?thesis
    by (simp add: start_feature_walk_def Let_def del: walk.simps)
qed


theorem derived_clients_keep_original_open_witness:
  "\<exists>d rs'. (family_step site_lib)\<^sup>*\<^sup>* ([key_client], fresh_resources\<lparr>rs_next := 1\<rparr>) ([key_client, d], rs') \<and>
     cl_owns_client d \<and> \<not> client_open d rs' \<and> client_open key_client rs'"
proof -
  let ?rs = "fresh_resources\<lparr>rs_next := 1\<rparr>"
  have m: "case fst (with_options site_lib key_client None None (Some ''https://b.example'') ?rs) of Inr _ \<Rightarrow> True | Inl _ \<Rightarrow> False" by code_simp
  obtain d rs1 where d: "with_options site_lib key_client None None (Some ''https://b.example'') ?rs = (Inr d, rs1)"
    using m by (cases "with_options site_lib key_client None None (Some ''https://b.example'') ?rs") (auto split: sum.splits)
  have o: "cl_owns_client d" "\<exists>b. cl_session d = Built b" using d
    by (auto simp: with_options_def make_client_def built_client_def with_overrides_def Let_def split: sum.splits)
  have s: "(family_step site_lib)\<^sup>*\<^sup>* ([key_client], ?rs) ([key_client, d], close_client d rs1)"
    using derive [of key_client "[key_client]" site_lib None None "Some ''https://b.example''" ?rs d rs1] d close [of d "[d]" site_lib key_client rs1]
    by (auto intro: rtranclp.rtrancl_into_rtrancl)
  have "bs_id b \<in> rs_closed_sessions (close_client d rs1)" if "cl_session d = Built b" for b
    using o(1) that by (cases "bs_transport b") (auto simp: close_client_def)
  then have "\<not> client_open d (close_client d rs1)" using o(2) by (auto simp: client_open_def)
  moreover have "client_open key_client (close_client d rs1)"
    by (rule derived_clients_keep_original_open [OF s])
       (simp_all add: named_before_def client_open_def built_client_def key_init_def fresh_resources_def Let_def)
  ultimately show ?thesis using s o(1) by blast
qed

end
