(* ===== verification/Edit_Buffer.thy ===== *)
theory Edit_Buffer
  imports Py_Prelude
begin

text \<open>
  The contract the write cursors share, whatever they buffer: adding a row moves it to the end
  of what is buffered or already acknowledged, a flush moves buffered rows to the acknowledged
  ones, and nothing else happens to rows. A history of adds and flushes, failing or not, then
  neither loses, duplicates nor reorders a row.
\<close>

datatype 'b edit_command = AddRow 'b | FlushRows

text \<open>
  \<open>logged apply\<close> is the endpoint with a log of the batches it acknowledged beside its world; a
  call that raises acknowledges nothing.
\<close>

definition logged ::
  "('q \<Rightarrow> 'w \<Rightarrow> ('e + 'r) \<times> 'w) \<Rightarrow> 'q \<Rightarrow> 'w \<times> 'q list \<Rightarrow> ('e + 'r) \<times> ('w \<times> 'q list)" where
  "logged apply q v = (case apply q (fst v) of
     (Inl e, w') \<Rightarrow> (Inl e, (w', snd v)) | (Inr r, w') \<Rightarrow> (Inr r, (w', snd v @ [q])))"

lemma logged_Inr: "logged apply q v = (Inr r, v') \<Longrightarrow> snd v' = snd v @ [q]"
  by (auto simp: logged_def split: prod.splits sum.splits)

lemma logged_Inl: "logged apply q v = (Inl e, v') \<Longrightarrow> snd v' = snd v"
  by (auto simp: logged_def split: prod.splits sum.splits)

fun run_command ::
  "('b \<Rightarrow> 's \<Rightarrow> 'w \<Rightarrow> 'o \<times> 's \<times> 'w) \<Rightarrow> ('s \<Rightarrow> 'w \<Rightarrow> 'o \<times> 's \<times> 'w) \<Rightarrow> 'b edit_command \<Rightarrow> 's \<Rightarrow> 'w \<Rightarrow> 'o \<times> 's \<times> 'w" where
  "run_command add flush (AddRow x) s w = add x s w"
| "run_command add flush FlushRows s w = flush s w"

fun run_history ::
  "('b \<Rightarrow> 's \<Rightarrow> 'w \<Rightarrow> 'o \<times> 's \<times> 'w) \<Rightarrow> ('s \<Rightarrow> 'w \<Rightarrow> 'o \<times> 's \<times> 'w) \<Rightarrow> 'b edit_command list \<Rightarrow> 's \<Rightarrow> 'w \<Rightarrow> 's \<times> 'w" where
  "run_history add flush [] s w = (s, w)"
| "run_history add flush (c # cs) s w = (case run_command add flush c s w of (_, s', w') \<Rightarrow> run_history add flush cs s' w')"

definition rows_added :: "'b edit_command list \<Rightarrow> 'b list" where
  "rows_added cs = concat (map (\<lambda>c. case c of AddRow x \<Rightarrow> [x] | FlushRows \<Rightarrow> []) cs)"

locale edit_buffer =
  fixes pending :: "'s \<Rightarrow> 'b list"
    and acked :: "'w \<Rightarrow> 'b list"
    and add :: "'b \<Rightarrow> 's \<Rightarrow> 'w \<Rightarrow> 'o \<times> 's \<times> 'w"
    and flush :: "'s \<Rightarrow> 'w \<Rightarrow> 'o \<times> 's \<times> 'w"
  assumes add_keeps: "add x s w = (res, s', w') \<Longrightarrow> acked w' @ pending s' = acked w @ pending s @ [x]"
    and flush_keeps: "flush s w = (res, s', w') \<Longrightarrow> acked w' @ pending s' = acked w @ pending s"
begin

lemma history_keeps:
  "run_history add flush cs s w = (s', w') \<Longrightarrow> acked w' @ pending s' = acked w @ pending s @ rows_added cs"
proof (induction cs arbitrary: s w)
  case (Cons c cs)
  obtain res s1 w1 where c: "run_command add flush c s w = (res, s1, w1)" by (cases "run_command add flush c s w") auto
  have "acked w1 @ pending s1 = acked w @ pending s @ rows_added [c]"
    using c add_keeps flush_keeps by (cases c) (auto simp: rows_added_def)
  with Cons c show ?case by (simp add: rows_added_def)
qed (simp add: rows_added_def)

end

end
