(* ===== verification/Cursors.thy ===== *)
theory Cursors
  imports Features Edit_Buffer "HOL-Library.Multiset"
begin

text \<open>
  \<open>cursors.py\<close> and \<open>models/_edits.py\<close>: search, insert and update cursors over a source.

  The source's \<open>apply_edits\<close> and \<open>stream\<close> are functions of their arguments and the world. A
  write is split at the call: the request it sends (\<open>None\<close> with nothing pending) and what the
  cursor does with the answer, so that the awaited call of the asynchronous cursors is the
  same pair of steps with other calls in between.
\<close>

section \<open>Edit results\<close>

record edit_result =
  er_success :: bool
  er_object_id :: "int option"
  er_global_id :: "string option"
  er_error :: "(string, pyval) pydict option"
  er_raw :: "(string, pyval) pydict"

definition optional_int :: "pyval \<Rightarrow> py_error + int option" where
  "optional_int v = (if v = PNone then Inr None else bindE (to_int v) (\<lambda>i. Inr (Some i)))"

definition edit_result_from_dict :: "(string, pyval) pydict \<Rightarrow> py_error + edit_result" where
  "edit_result_from_dict payload =
     bindE (optional_int (first_key_present payload [''objectId'', ''objectid''])) (\<lambda>oid. Inr
       \<lparr>er_success = truthy (get_or_none payload ''success''), er_object_id = oid,
        er_global_id = optional_str (first_key_present payload [''globalId'', ''globalid'']),
        er_error = as_dict (get_or_none payload ''error''), er_raw = payload\<rparr>)"

definition edit_results :: "pyval \<Rightarrow> py_error + edit_result list" where
  "edit_results v = (case v of
     PList items \<Rightarrow> mapE edit_result_from_dict (List.map_filter as_dict items)
   | PTuple items \<Rightarrow> mapE edit_result_from_dict (List.map_filter as_dict items)
   | _ \<Rightarrow> Inr [])"

record apply_result =
  ar_adds :: "edit_result list"
  ar_updates :: "edit_result list"
  ar_deletes :: "edit_result list"
  ar_raw :: "(string, pyval) pydict"

definition apply_result_from_dict :: "(string, pyval) pydict \<Rightarrow> py_error + apply_result" where
  "apply_result_from_dict payload =
     bindE (edit_results (get_or_none payload ''addResults'')) (\<lambda>a.
     bindE (edit_results (get_or_none payload ''updateResults'')) (\<lambda>u.
     bindE (edit_results (get_or_none payload ''deleteResults'')) (\<lambda>d.
       Inr \<lparr>ar_adds = a, ar_updates = u, ar_deletes = d, ar_raw = payload\<rparr>)))"

definition operation_results :: "apply_result \<Rightarrow> edit_result list" where
  "operation_results r = ar_adds r @ ar_updates r @ ar_deletes r"

definition all_succeeded :: "apply_result \<Rightarrow> bool" where
  "all_succeeded r \<longleftrightarrow> operation_results r \<noteq> [] \<and> list_all er_success (operation_results r)"

section \<open>Rows and requests\<close>

definition shape_token :: string where
  "shape_token = ''SHAPE@''"

definition sdk_oid_keys :: "string list" where
  "sdk_oid_keys = [''objectid'', ''objectId'', ''OBJECTID'']"

definition row_object_id :: "query_feature \<Rightarrow> py_error + int option" where
  "row_object_id row =
     (let v = first_value (qf_properties row) sdk_oid_keys
      in if v \<noteq> PNone then bindE (to_int v) (\<lambda>i. Inr (Some i)) else Inr (as_int (qf_id row)))"

text \<open>The geometry of a row is a Shapely object; \<open>shape_of\<close> stands for that conversion.\<close>

definition row_values :: "(query_feature \<Rightarrow> pyval) \<Rightarrow> query_feature \<Rightarrow> string list \<Rightarrow> pyval list" where
  "row_values shape_of row names =
     map (\<lambda>name. if name = shape_token then shape_of row else get_or_none (qf_properties row) name) names"

definition geoservices_feature_from ::
  "(string, pyval) pydict \<Rightarrow> (string, pyval) pydict option \<Rightarrow> (string, pyval) pydict" where
  "geoservices_feature_from attributes geometry =
     [(''attributes'', PDict attributes)] @ (case geometry of None \<Rightarrow> [] | Some g \<Rightarrow> [(''geometry'', PDict g)])"

definition search_kwargs ::
  "(string, pyval) pydict \<Rightarrow> string option \<Rightarrow> (string, pyval) pydict option \<Rightarrow> string list option \<Rightarrow> (string, pyval) pydict" where
  "search_kwargs query_kwargs whr geometry_filter names =
     (let k1 = (case whr of None \<Rightarrow> query_kwargs | Some w \<Rightarrow> dict_setdefault query_kwargs ''where'' (PStr w));
          k2 = (case geometry_filter of None \<Rightarrow> k1
                | Some g \<Rightarrow> dict_setdefault k1 ''spatial_filter'' (PDict [(''geometry'', PDict g)]))
      in case names of None \<Rightarrow> k2
         | Some fs \<Rightarrow>
            (let attr_fields = filter (\<lambda>f. f \<noteq> shape_token) fs in
             if attr_fields \<noteq> [] \<and> \<not> dict_has k2 ''out_fields''
             then dict_set k2 ''out_fields'' (PList (map PStr attr_fields)) else k2))"

definition snapshot_object_id :: "query_feature \<Rightarrow> py_error + int" where
  "snapshot_object_id row = bindE (row_object_id row) (\<lambda>oid. case oid of None \<Rightarrow> Inl ErrValue | Some i \<Rightarrow> Inr i)"

text \<open>\<open>attr_extra\<close> is the \<open>extra_params\<close> attribute of a query argument that is an object, not a mapping.\<close>

definition chunk_overrides :: "pyval \<Rightarrow> (string, pyval) pydict \<Rightarrow> int list \<Rightarrow> (string, pyval) pydict" where
  "chunk_overrides attr_extra stream_kwargs object_ids =
     (let base = (case get_or_none stream_kwargs ''query'' of PDict q \<Rightarrow> get_or_none q ''extra_params'' | _ \<Rightarrow> attr_extra);
          own = get_or_none stream_kwargs ''extra_params''
      in [(''extra_params'', PDict
           (dict_update (dict_update (dict_or_empty base) (dict_or_empty own))
              [(''objectIds'', PStr (str_join '','' (map str_of_int object_ids))), (''resultOffset'', PInt 0)]))])"

section \<open>Write cursors\<close>

type_synonym row_payload = "(string, pyval) pydict"

record edit_state =
  eb_batch_size :: int
  eb_rollback :: bool
  eb_adds :: "row_payload list"
  eb_updates :: "row_payload list"
  eb_results :: "apply_result list"

text \<open>The keyword arguments of one \<open>apply_edits\<close> call.\<close>

datatype edit_request = AddRows "row_payload list" bool | UpdateRows "row_payload list" bool

datatype 'e cursor_error = ApplyRaised 'e | EditsFailed nat | BadRow py_error

definition make_edit_state :: "int \<Rightarrow> bool \<Rightarrow> py_error + edit_state" where
  "make_edit_state batch_size rollback =
     (if batch_size \<le> 0 then Inl ErrValue
      else Inr \<lparr>eb_batch_size = batch_size, eb_rollback = rollback, eb_adds = [], eb_updates = [], eb_results = []\<rparr>)"

definition eb_pending :: "edit_state \<Rightarrow> int" where
  "eb_pending b = int (length (eb_adds b) + length (eb_updates b))"

text \<open>\<open>_record_result\<close>: the state with the result recorded, and the error it raises, if any.\<close>

definition record_result :: "apply_result \<Rightarrow> edit_state \<Rightarrow> 'e cursor_error option \<times> edit_state" where
  "record_result r b =
     ((if all_succeeded r then None
       else Some (EditsFailed (length (filter (\<lambda>i. \<not> er_success i) (operation_results r))))),
      b\<lparr>eb_results := eb_results b @ [r]\<rparr>)"

definition flush_request :: "(edit_state \<Rightarrow> row_payload list) \<Rightarrow> (row_payload list \<Rightarrow> bool \<Rightarrow> edit_request) \<Rightarrow> edit_state \<Rightarrow> edit_request option" where
  "flush_request rows mk b = (if rows b = [] then None else Some (mk (rows b) (eb_rollback b)))"

definition flush_resume ::
  "(edit_state \<Rightarrow> edit_state) \<Rightarrow> 'e + apply_result \<Rightarrow> edit_state \<Rightarrow> ('e cursor_error + apply_result option) \<times> edit_state" where
  "flush_resume clear answer b = (case answer of
     Inl e \<Rightarrow> (Inl (ApplyRaised e), b)
   | Inr r \<Rightarrow> (case record_result r (clear b) of
        (None, b') \<Rightarrow> (Inr (Some r), b') | (Some e, b') \<Rightarrow> (Inl e, b')))"

definition flush_with ::
  "(edit_state \<Rightarrow> row_payload list) \<Rightarrow> (row_payload list \<Rightarrow> bool \<Rightarrow> edit_request) \<Rightarrow> (edit_state \<Rightarrow> edit_state) \<Rightarrow>
   (edit_request \<Rightarrow> 'w \<Rightarrow> ('e + apply_result) \<times> 'w) \<Rightarrow> edit_state \<Rightarrow> 'w \<Rightarrow>
   ('e cursor_error + apply_result option) \<times> edit_state \<times> 'w" where
  "flush_with rows mk clear apply b w = (case flush_request rows mk b of
     None \<Rightarrow> (Inr None, b, w)
   | Some q \<Rightarrow> (case apply q w of (answer, w') \<Rightarrow>
        (case flush_resume clear answer b of (res, b') \<Rightarrow> (res, b', w'))))"

text \<open>\<open>InsertCursor\<close>.\<close>

definition insert_flush ::
  "(edit_request \<Rightarrow> 'w \<Rightarrow> ('e + apply_result) \<times> 'w) \<Rightarrow> edit_state \<Rightarrow> 'w \<Rightarrow>
   ('e cursor_error + apply_result option) \<times> edit_state \<times> 'w" where
  "insert_flush = flush_with eb_adds AddRows (\<lambda>b. b\<lparr>eb_adds := []\<rparr>)"

definition queue_insert :: "row_payload \<Rightarrow> edit_state \<Rightarrow> edit_state" where
  "queue_insert payload b = b\<lparr>eb_adds := eb_adds b @ [payload]\<rparr>"

definition insert_row ::
  "(edit_request \<Rightarrow> 'w \<Rightarrow> ('e + apply_result) \<times> 'w) \<Rightarrow> row_payload \<Rightarrow> edit_state \<Rightarrow> 'w \<Rightarrow>
   ('e cursor_error + apply_result option) \<times> edit_state \<times> 'w" where
  "insert_row apply payload b w =
     (let b1 = queue_insert payload b in
      if eb_batch_size b1 \<le> eb_pending b1 then insert_flush apply b1 w else (Inr None, b1, w))"

text \<open>\<open>__exit__\<close>: \<open>failed\<close> tells whether the block raised.\<close>

definition insert_exit ::
  "(edit_request \<Rightarrow> 'w \<Rightarrow> ('e + apply_result) \<times> 'w) \<Rightarrow> bool \<Rightarrow> edit_state \<Rightarrow> 'w \<Rightarrow>
   ('e cursor_error + apply_result option) \<times> edit_state \<times> 'w" where
  "insert_exit apply failed b w = (if failed then (Inr None, b, w) else insert_flush apply b w)"

text \<open>\<open>UpdateCursor\<close>.\<close>

definition update_flush ::
  "(edit_request \<Rightarrow> 'w \<Rightarrow> ('e + apply_result) \<times> 'w) \<Rightarrow> edit_state \<Rightarrow> 'w \<Rightarrow>
   ('e cursor_error + apply_result option) \<times> edit_state \<times> 'w" where
  "update_flush = flush_with eb_updates UpdateRows (\<lambda>b. b\<lparr>eb_updates := []\<rparr>)"

definition update_payload ::
  "query_feature \<Rightarrow> (string, pyval) pydict \<Rightarrow> (string, pyval) pydict option \<Rightarrow> py_error + row_payload" where
  "update_payload row attributes geometry =
     bindE (snapshot_object_id row) (\<lambda>oid.
       let merged = dict_update (qf_properties row) attributes;
           keyed = (if list_ex (dict_has merged) sdk_oid_keys then merged else dict_set merged ''OBJECTID'' (PInt oid))
       in Inr (geoservices_feature_from keyed (case geometry of Some g \<Rightarrow> Some g | None \<Rightarrow> qf_geometry row)))"

definition queue_update :: "row_payload \<Rightarrow> edit_state \<Rightarrow> edit_state" where
  "queue_update payload b = b\<lparr>eb_updates := eb_updates b @ [payload]\<rparr>"

definition queue_update_row ::
  "(edit_request \<Rightarrow> 'w \<Rightarrow> ('e + apply_result) \<times> 'w) \<Rightarrow> row_payload \<Rightarrow> edit_state \<Rightarrow> 'w \<Rightarrow>
   ('e cursor_error + apply_result option) \<times> edit_state \<times> 'w" where
  "queue_update_row apply payload b w =
     (let b1 = queue_update payload b in
      if eb_batch_size b1 \<le> eb_pending b1 then update_flush apply b1 w else (Inr None, b1, w))"

definition update_row ::
  "(edit_request \<Rightarrow> 'w \<Rightarrow> ('e + apply_result) \<times> 'w) \<Rightarrow> query_feature \<Rightarrow> (string, pyval) pydict \<Rightarrow>
   (string, pyval) pydict option \<Rightarrow> edit_state \<Rightarrow> 'w \<Rightarrow> ('e cursor_error + apply_result option) \<times> edit_state \<times> 'w" where
  "update_row apply row attributes geometry b w = (case update_payload row attributes geometry of
     Inl e \<Rightarrow> (Inl (BadRow e), b, w)
   | Inr payload \<Rightarrow> queue_update_row apply payload b w)"

definition update_exit ::
  "(edit_request \<Rightarrow> 'w \<Rightarrow> ('e + apply_result) \<times> 'w) \<Rightarrow> bool \<Rightarrow> edit_state \<Rightarrow> 'w \<Rightarrow>
   ('e cursor_error + apply_result option) \<times> edit_state \<times> 'w" where
  "update_exit apply failed b w = (if failed then (Inr None, b, w) else update_flush apply b w)"

section \<open>Iterating an update cursor\<close>

text \<open>
  \<open>stream\<close> answers a query's keyword arguments with the features; a chunk's rows are taken when
  the loop reaches it, in the world left by the consumer. \<open>visit\<close> is the body of the consumer's
  loop. The result is the rows yielded, the error that ended the iteration, and the world.
\<close>

fun yield_wanted ::
  "(query_feature \<Rightarrow> 'w \<Rightarrow> 'w) \<Rightarrow> int set \<Rightarrow> query_feature list \<Rightarrow> 'w \<Rightarrow>
   query_feature list \<times> py_error option \<times> 'w" where
  "yield_wanted visit wanted_ids [] w = ([], None, w)"
| "yield_wanted visit wanted_ids (row # rows) w = (case row_object_id row of
     Inl e \<Rightarrow> ([], Some e, w)
   | Inr None \<Rightarrow> yield_wanted visit wanted_ids rows w
   | Inr (Some i) \<Rightarrow>
       if i \<in> wanted_ids
       then (case yield_wanted visit (wanted_ids - {i}) rows (visit row w) of (ys, e, w') \<Rightarrow> (row # ys, e, w'))
       else yield_wanted visit wanted_ids rows w)"

fun update_chunks ::
  "((string, pyval) pydict \<Rightarrow> 'w \<Rightarrow> (py_error + query_feature list) \<times> 'w) \<Rightarrow> pyval \<Rightarrow> (string, pyval) pydict \<Rightarrow>
   (query_feature \<Rightarrow> 'w \<Rightarrow> 'w) \<Rightarrow> int list list \<Rightarrow> 'w \<Rightarrow> query_feature list \<times> py_error option \<times> 'w" where
  "update_chunks stream attr_extra kwargs visit [] w = ([], None, w)"
| "update_chunks stream attr_extra kwargs visit (chunk # chunks) w =
     (case stream (dict_update kwargs (chunk_overrides attr_extra kwargs chunk)) w of
        (Inl e, w1) \<Rightarrow> ([], Some e, w1)
      | (Inr rows, w1) \<Rightarrow>
         (case yield_wanted visit (set chunk) rows w1 of
            (ys, Some e, w2) \<Rightarrow> (ys, Some e, w2)
          | (ys, None, w2) \<Rightarrow>
             (case update_chunks stream attr_extra kwargs visit chunks w2 of (zs, e, w3) \<Rightarrow> (ys @ zs, e, w3))))"

fun chunks_of :: "nat \<Rightarrow> 'a list \<Rightarrow> 'a list list" where
  "chunks_of n [] = []"
| "chunks_of n (x # xs) = (if n = 0 then [] else take n (x # xs) # chunks_of n (drop n (x # xs)))"

definition update_iter ::
  "((string, pyval) pydict \<Rightarrow> 'w \<Rightarrow> (py_error + query_feature list) \<times> 'w) \<Rightarrow> pyval \<Rightarrow> (string, pyval) pydict \<Rightarrow>
   (query_feature \<Rightarrow> 'w \<Rightarrow> 'w) \<Rightarrow> edit_state \<Rightarrow> 'w \<Rightarrow> query_feature list \<times> py_error option \<times> 'w" where
  "update_iter stream attr_extra kwargs visit b w =
     (case stream (dict_update kwargs [(''return_geometry'', PBool False)]) w of
        (Inl e, w1) \<Rightarrow> ([], Some e, w1)
      | (Inr rows, w1) \<Rightarrow>
         (case mapE snapshot_object_id rows of
            Inl e \<Rightarrow> ([], Some e, w1)
          | Inr ids \<Rightarrow> update_chunks stream attr_extra kwargs visit (chunks_of (nat (eb_batch_size b)) ids) w1))"

section \<open>No row is lost or sent twice\<close>

definition request_adds :: "edit_request \<Rightarrow> row_payload list" where
  "request_adds q = (case q of AddRows rs _ \<Rightarrow> rs | UpdateRows _ _ \<Rightarrow> [])"

definition request_updates :: "edit_request \<Rightarrow> row_payload list" where
  "request_updates q = (case q of AddRows _ _ \<Rightarrow> [] | UpdateRows rs _ \<Rightarrow> rs)"

definition acked_adds :: "'w \<times> edit_request list \<Rightarrow> row_payload list" where
  "acked_adds v = concat (map request_adds (snd v))"

definition acked_updates :: "'w \<times> edit_request list \<Rightarrow> row_payload list" where
  "acked_updates v = concat (map request_updates (snd v))"

lemma flush_with_cases:
  assumes "flush_with rows mk clear (logged apply) b v = (res, b', v')"
  obtains (empty) "rows b = []" "res = Inr None" "b' = b" "v' = v"
  | (raised) e where "rows b \<noteq> []" "res = Inl (ApplyRaised e)" "b' = b" "snd v' = snd v"
  | (answered) r where "rows b \<noteq> []" "b' = (clear b)\<lparr>eb_results := eb_results (clear b) @ [r]\<rparr>"
      "snd v' = snd v @ [mk (rows b) (eb_rollback b)]"
      "res = (if all_succeeded r then Inr (Some r) else Inl (EditsFailed (length (filter (\<lambda>i. \<not> er_success i) (operation_results r)))))"
proof (cases "rows b = []")
  case True
  then show thesis using assms by (intro empty) (auto simp: flush_with_def flush_request_def)
next
  case False
  obtain answer u where q: "logged apply (mk (rows b) (eb_rollback b)) v = (answer, u)"
    by (cases "logged apply (mk (rows b) (eb_rollback b)) v")
  show thesis
  proof (cases answer)
    case (Inl e)
    have "flush_with rows mk clear (logged apply) b v = (Inl (ApplyRaised e), b, u)"
      using False q Inl by (simp add: flush_with_def flush_request_def flush_resume_def)
    then have eq: "res = Inl (ApplyRaised e)" "b' = b" "v' = u" using assms by auto
    show thesis by (rule raised [OF False eq(1,2)]) (use q Inl eq logged_Inl in metis)
  next
    case (Inr r)
    have "flush_with rows mk clear (logged apply) b v =
      (if all_succeeded r then Inr (Some r) else Inl (EditsFailed (length (filter (\<lambda>i. \<not> er_success i) (operation_results r)))),
       (clear b)\<lparr>eb_results := eb_results (clear b) @ [r]\<rparr>, u)"
      using False q Inr by (simp add: flush_with_def flush_request_def flush_resume_def record_result_def)
    from trans [OF assms [symmetric] this] have eq: "res = (if all_succeeded r then Inr (Some r) else Inl (EditsFailed (length (filter (\<lambda>i. \<not> er_success i) (operation_results r)))))"
      "b' = (clear b)\<lparr>eb_results := eb_results (clear b) @ [r]\<rparr>" "v' = u"
      by (simp_all only: prod.inject simp_thms)
    show thesis by (rule answered [OF False eq(2) _ eq(1)]) (use q Inr eq logged_Inr in metis)
  qed
qed

lemma insert_flush_keeps:
  "insert_flush (logged apply) b v = (res, b', v') \<Longrightarrow> acked_adds v' @ eb_adds b' = acked_adds v @ eb_adds b"
  unfolding insert_flush_def
  by (erule flush_with_cases) (auto simp: acked_adds_def request_adds_def)

lemma update_flush_keeps:
  "update_flush (logged apply) b v = (res, b', v') \<Longrightarrow> acked_updates v' @ eb_updates b' = acked_updates v @ eb_updates b"
  unfolding update_flush_def
  by (erule flush_with_cases) (auto simp: acked_updates_def request_updates_def)

interpretation ins: edit_buffer eb_adds acked_adds "insert_row (logged app)" "insert_flush (logged app)" for app :: "edit_request \<Rightarrow> 'w \<Rightarrow> ('e + apply_result) \<times> 'w"
proof unfold_locales
  fix x b v res b' v'
  assume "insert_row (logged app) x b v = (res, b', v')"
  then show "acked_adds v' @ eb_adds b' = acked_adds v @ eb_adds b @ [x]"
    using insert_flush_keeps [of app "queue_insert x b" v res b' v']
    by (auto simp: insert_row_def Let_def queue_insert_def split: if_splits)
qed (rule insert_flush_keeps)

interpretation upd: edit_buffer eb_updates acked_updates "queue_update_row (logged app)" "update_flush (logged app)" for app :: "edit_request \<Rightarrow> 'w \<Rightarrow> ('e + apply_result) \<times> 'w"
proof unfold_locales
  fix x b v res b' v'
  assume "queue_update_row (logged app) x b v = (res, b', v')"
  then show "acked_updates v' @ eb_updates b' = acked_updates v @ eb_updates b @ [x]"
    using update_flush_keeps [of app "queue_update x b" v res b' v']
    by (auto simp: queue_update_row_def Let_def queue_update_def split: if_splits)
qed (rule update_flush_keeps)

text \<open>C13. Whatever the endpoint answers and however often a call raised, the rows inserted are the
  rows acknowledged followed by the rows still buffered, in order, each once; a clean exit
  leaves a row behind only when the endpoint raised, and an exit after an error sends nothing.\<close>

theorem insert_cursor_loses_no_row:
  assumes "make_edit_state n rollback = Inr b"
    and "run_history (insert_row (logged apply)) (insert_flush (logged apply)) cs b (w, []) = (b', v)"
    and "insert_exit (logged apply) failed b' v = (res, b'', v')"
  shows "acked_adds v' @ eb_adds b'' = rows_added cs \<and>
    (if failed then v' = v else eb_adds b'' = [] \<or> (\<exists>e. res = Inl (ApplyRaised e)))"
proof -
  have b: "eb_adds b = []" using assms(1) by (auto simp: make_edit_state_def split: if_splits)
  have h: "acked_adds v @ eb_adds b' = rows_added cs"
    using ins.history_keeps [OF assms(2)] b by (simp add: acked_adds_def)
  show ?thesis
  proof (cases failed)
    case True
    then show ?thesis using assms(3) h by (auto simp: insert_exit_def)
  next
    case False
    then have f: "insert_flush (logged apply) b' v = (res, b'', v')" using assms(3) by (simp add: insert_exit_def)
    have "eb_adds b'' = [] \<or> (\<exists>e. res = Inl (ApplyRaised e))"
      using f unfolding insert_flush_def by (rule flush_with_cases) auto
    then show ?thesis using insert_flush_keeps [OF f] h False by simp
  qed
qed

definition accepting :: "edit_request \<Rightarrow> unit \<Rightarrow> (unit + apply_result) \<times> unit" where
  "accepting q w = (Inr \<lparr>ar_adds = [\<lparr>er_success = True, er_object_id = None, er_global_id = None, er_error = None, er_raw = []\<rparr>],
     ar_updates = [], ar_deletes = [], ar_raw = []\<rparr>, w)"

theorem insert_cursor_loses_no_row_witness:
  "\<exists>b b' v res b'' v'. make_edit_state 2 True = Inr b \<and>
     run_history (insert_row (logged accepting)) (insert_flush (logged accepting)) [AddRow [], FlushRows, AddRow []] b ((), []) = (b', v) \<and>
     insert_exit (logged accepting) False b' v = (res, b'', v') \<and> acked_adds v' @ eb_adds b'' = [[], []]"
proof -
  obtain b where b: "make_edit_state 2 True = Inr b" by (simp add: make_edit_state_def)
  obtain b' v where h: "run_history (insert_row (logged accepting)) (insert_flush (logged accepting)) [AddRow [], FlushRows, AddRow []] b ((), []) = (b', v)"
    by (metis surj_pair)
  obtain res b'' v' where x: "insert_exit (logged accepting) False b' v = (res, b'', v')"
    by (cases "insert_exit (logged accepting) False b' v") auto
  have e: "eb_adds b'' = [] \<or> (\<exists>e. res = Inl (ApplyRaised e)) \<Longrightarrow> acked_adds v' @ eb_adds b'' = rows_added [AddRow [], FlushRows, AddRow []] \<Longrightarrow>
    acked_adds v' @ eb_adds b'' = [[], []]" by (simp add: rows_added_def)
  show ?thesis
    using insert_cursor_loses_no_row [OF b h x] e by (intro exI conjI) (rule b, rule h, rule x, simp)
qed

section \<open>Batches\<close>

lemma chunks_of_short: "length xs \<le> n \<Longrightarrow> xs \<noteq> [] \<Longrightarrow> chunks_of n xs = [xs]"
  by (cases xs) auto

lemma concat_chunks_of: "0 < n \<Longrightarrow> concat (chunks_of n xs) = xs"
proof (induction n xs rule: chunks_of.induct)
  case (2 n x xs)
  then have "concat (chunks_of n (drop n (x # xs))) = drop n (x # xs)" by simp
  then show ?case using 2 append_take_drop_id [of n "x # xs"] by (simp del: take_Suc_Cons drop_Suc_Cons)
qed simp

lemma chunks_of_append: "0 < n \<Longrightarrow> n dvd length xs \<Longrightarrow> chunks_of n (xs @ ys) = chunks_of n xs @ chunks_of n ys"
proof (induction n xs rule: chunks_of.induct)
  case (2 n x xs)
  have le: "n \<le> length (x # xs)" using 2(3) by (rule dvd_imp_le) simp
  then have "n dvd length (drop n (x # xs))" using 2(3) by (simp only: length_drop dvd_diff_nat dvd_refl)
  then have ih: "chunks_of n (drop n (x # xs) @ ys) = chunks_of n (drop n (x # xs)) @ chunks_of n ys"
    using 2(1,2) by simp
  have c: "chunks_of n (zs :: 'a list) = take n zs # chunks_of n (drop n zs)" if "zs \<noteq> []" for zs
    using that 2(2) by (cases zs) auto
  show ?case using ih le by (simp add: c [of "x # xs"] c [of "(x # xs) @ ys"] del: chunks_of.simps append_Cons take_Suc_Cons drop_Suc_Cons)
qed simp

lemma chunks_of_bounded: "c \<in> set (chunks_of n xs) \<Longrightarrow> c \<noteq> [] \<and> length c \<le> n"
  by (induction n xs rule: chunks_of.induct) (auto split: if_splits)

text \<open>An endpoint that answers every call, with results that all succeed.\<close>

definition always_accepts :: "(edit_request \<Rightarrow> 'w \<Rightarrow> ('e + apply_result) \<times> 'w) \<Rightarrow> bool" where
  "always_accepts app \<longleftrightarrow> (\<forall>q w. \<exists>r w'. app q w = (Inr r, w') \<and> all_succeeded r)"

lemma always_acceptsE:
  assumes "always_accepts app"
  obtains r w' where "logged app q v = (Inr r, (w', snd v @ [q]))" "all_succeeded r"
proof -
  obtain r w' where "app q (fst v) = (Inr r, w')" "all_succeeded r" using assms unfolding always_accepts_def by blast
  then show thesis by (intro that) (simp_all add: logged_def)
qed

definition full_batches :: "nat \<Rightarrow> bool \<Rightarrow> row_payload list \<Rightarrow> edit_state \<Rightarrow> 'w \<times> edit_request list \<Rightarrow> bool" where
  "full_batches n rb xs b v \<longleftrightarrow> eb_batch_size b = int n \<and> eb_rollback b = rb \<and> eb_updates b = [] \<and> length (eb_adds b) < n \<and>
     (\<exists>done. xs = done @ eb_adds b \<and> n dvd length done \<and> snd v = map (\<lambda>c. AddRows c rb) (chunks_of n done))"

lemma insert_row_full_batches:
  assumes "always_accepts app" "full_batches n rb xs b v"
  obtains res b' v' where "insert_row (logged app) x b v = (Inr res, b', v')" "full_batches n rb (xs @ [x]) b' v'"
proof -
  obtain dn where d: "xs = dn @ eb_adds b" "n dvd length dn" "snd v = map (\<lambda>c. AddRows c rb) (chunks_of n dn)"
    "eb_batch_size b = int n" "eb_rollback b = rb" "eb_updates b = []" "length (eb_adds b) < n"
    using assms(2) by (auto simp: full_batches_def)
  let ?rows = "eb_adds b @ [x]"
  show thesis
  proof (cases "Suc (length (eb_adds b)) < n")
    case True
    show thesis
      by (rule that [of None "queue_insert x b" v])
        (use True d in \<open>auto simp: insert_row_def queue_insert_def Let_def eb_pending_def full_batches_def\<close>)
  next
    case False
    then have len: "length ?rows = n" using d(7) by simp
    obtain r w' where a: "logged app (AddRows ?rows rb) v = (Inr r, (w', snd v @ [AddRows ?rows rb]))" "all_succeeded r"
      by (rule always_acceptsE [OF assms(1)])
    have "chunks_of n (dn @ ?rows) = chunks_of n dn @ [?rows]"
      using chunks_of_append [of n dn ?rows] chunks_of_short [of ?rows n] len d(2) by auto
    then show thesis
      using a d len that [of "Some r" "b\<lparr>eb_adds := [], eb_results := eb_results b @ [r]\<rparr>" "(w', snd v @ [AddRows ?rows rb])"]
      by (auto simp: insert_row_def queue_insert_def Let_def eb_pending_def full_batches_def insert_flush_def flush_with_def
          flush_request_def flush_resume_def record_result_def)
  qed
qed

lemma history_full_batches:
  assumes "always_accepts app"
  shows "full_batches n rb xs b v \<Longrightarrow> run_history (insert_row (logged app)) (insert_flush (logged app)) (map AddRow rows) b v = (b', v') \<Longrightarrow>
    full_batches n rb (xs @ rows) b' v'"
proof (induction rows arbitrary: xs b v)
  case (Cons x rows)
  obtain res b1 v1 where "insert_row (logged app) x b v = (Inr res, b1, v1)" "full_batches n rb (xs @ [x]) b1 v1"
    by (rule insert_row_full_batches [OF assms Cons.prems(1)])
  then show ?case using Cons.IH Cons.prems(2) by fastforce
qed simp

lemma insert_exit_full_batches:
  assumes acc: "always_accepts app" and fb: "full_batches n rb xs b v" and n: "0 < n"
    and x: "insert_exit (logged app) False b v = (res, b', v')"
  shows "snd v' = map (\<lambda>c. AddRows c rb) (chunks_of n xs) \<and> eb_adds b' = [] \<and> \<not> isl res"
proof -
  obtain dn where d: "xs = dn @ eb_adds b" "n dvd length dn" "snd v = map (\<lambda>c. AddRows c rb) (chunks_of n dn)"
    "eb_rollback b = rb" "length (eb_adds b) < n"
    using fb by (auto simp: full_batches_def)
  show ?thesis
  proof (cases "eb_adds b = []")
    case True
    then show ?thesis using x d by (auto simp: insert_exit_def insert_flush_def flush_with_def flush_request_def)
  next
    case False
    obtain r w' where a: "logged app (AddRows (eb_adds b) rb) v = (Inr r, (w', snd v @ [AddRows (eb_adds b) rb]))" "all_succeeded r"
      by (rule always_acceptsE [OF acc])
    have "chunks_of n xs = chunks_of n dn @ [eb_adds b]"
      using chunks_of_append [of n dn "eb_adds b"] chunks_of_short [of "eb_adds b" n] d n False by simp
    then show ?thesis
      using x a d False by (auto simp: insert_exit_def insert_flush_def flush_with_def flush_request_def flush_resume_def record_result_def)
  qed
qed

text \<open>C14. With an endpoint that accepts every call, the requests of an insert cursor that received
  \<open>rows\<close> and exits cleanly are the rows cut into consecutive batches of \<open>batch_size\<close>, each with the
  cursor's rollback flag; nothing stays buffered, the exit raises nothing, and no batch is empty
  or larger than \<open>batch_size\<close>.\<close>

theorem insert_cursor_batches:
  assumes "always_accepts app" and "make_edit_state n rb = Inr b"
    and "run_history (insert_row (logged app)) (insert_flush (logged app)) (map AddRow rows) b (w, []) = (b', v)"
    and "insert_exit (logged app) False b' v = (res, b'', v')"
  shows "snd v' = map (\<lambda>c. AddRows c rb) (chunks_of (nat n) rows) \<and> concat (chunks_of (nat n) rows) = rows \<and>
    list_all (\<lambda>c. c \<noteq> [] \<and> int (length c) \<le> n) (chunks_of (nat n) rows) \<and> eb_adds b'' = [] \<and> \<not> isl res"
proof -
  have n: "0 < n" and "full_batches (nat n) rb [] b (w, [])"
    using assms(2) by (auto simp: make_edit_state_def full_batches_def split: if_splits)
  from history_full_batches [OF assms(1) this(2) assms(3)] have fb: "full_batches (nat n) rb rows b' v" by simp
  have "list_all (\<lambda>c. c \<noteq> [] \<and> int (length c) \<le> n) (chunks_of (nat n) rows)"
    using n chunks_of_bounded [of _ "nat n" rows] by (fastforce simp: list_all_iff)
  then show ?thesis using insert_exit_full_batches [OF assms(1) fb _ assms(4)] concat_chunks_of [of "nat n" rows] n by simp
qed

theorem insert_cursor_batches_witness:
  "\<exists>b b' v res b'' v'. make_edit_state 2 True = Inr b \<and>
     run_history (insert_row (logged accepting)) (insert_flush (logged accepting)) (map AddRow [[(''a'', PInt 1)], [(''a'', PInt 2)], [(''a'', PInt 3)]]) b ((), []) = (b', v) \<and>
     insert_exit (logged accepting) False b' v = (res, b'', v') \<and>
     snd v' = [AddRows [[(''a'', PInt 1)], [(''a'', PInt 2)]] True, AddRows [[(''a'', PInt 3)]] True]"
proof -
  let ?rows = "[[(''a'', PInt 1)], [(''a'', PInt 2)], [(''a'', PInt 3)]] :: row_payload list"
  have acc: "always_accepts accepting" by (simp add: always_accepts_def accepting_def all_succeeded_def operation_results_def)
  obtain b where b: "make_edit_state 2 True = Inr b" by (simp add: make_edit_state_def)
  obtain b' v where h: "run_history (insert_row (logged accepting)) (insert_flush (logged accepting)) (map AddRow ?rows) b ((), []) = (b', v)"
    by (metis surj_pair)
  obtain res b'' v' where x: "insert_exit (logged accepting) False b' v = (res, b'', v')"
    by (cases "insert_exit (logged accepting) False b' v") auto
  have c: "map (\<lambda>c. AddRows c True) (chunks_of (nat 2) ?rows) = [AddRows [[(''a'', PInt 1)], [(''a'', PInt 2)]] True, AddRows [[(''a'', PInt 3)]] True]"
    by (simp add: numeral_2_eq_2)
  show ?thesis
    using insert_cursor_batches [OF acc b h x] c by (intro exI conjI) (rule b, rule h, rule x, simp)
qed

section \<open>An update cursor visits each snapshot row once\<close>

definition row_id :: "query_feature \<Rightarrow> int" where
  "row_id row = (case row_object_id row of Inr (Some i) \<Rightarrow> i | _ \<Rightarrow> 0)"

definition row_ids :: "query_feature list \<Rightarrow> int list" where
  "row_ids rows = map row_id rows"

lemma yield_wanted_ids:
  "finite wanted \<Longrightarrow> yield_wanted visit wanted rows w = (ys, e, w') \<Longrightarrow>
    mset (row_ids ys) \<subseteq># mset_set wanted \<and> set ys \<subseteq> set rows"
proof (induction visit wanted rows w arbitrary: ys e w' rule: yield_wanted.induct)
  case (2 visit wanted row rows w)
  show ?case
  proof (cases "row_object_id row")
    case (Inr oid)
    show ?thesis
    proof (cases oid)
      case (Some i)
      show ?thesis
      proof (cases "i \<in> wanted")
        case True
        obtain zs e' v where z: "yield_wanted visit (wanted - {i}) rows (visit row w) = (zs, e', v)"
          by (metis surj_pair)
        then have ih: "mset (row_ids zs) \<subseteq># mset_set (wanted - {i})" "set zs \<subseteq> set rows"
          using "2.IH"(2) [OF Inr Some True _ z] "2.prems"(1) by auto
        have ys: "ys = row # zs" using "2.prems"(2) z Inr Some True by simp
        have "mset_set wanted = add_mset i (mset_set (wanted - {i}))"
          using True "2.prems"(1) by (simp add: mset_set.remove)
        then show ?thesis using ih ys Inr Some by (auto simp: row_ids_def row_id_def)
      qed (use 2 Inr Some in fastforce)
    qed (use 2 Inr in fastforce)
  qed (use 2 in \<open>auto simp: row_ids_def\<close>)
qed (simp add: row_ids_def)

lemma yield_wanted_all:
  "finite wanted \<Longrightarrow> list_all (\<lambda>r. \<exists>i. row_object_id r = Inr (Some i)) rows \<Longrightarrow> wanted \<subseteq> set (row_ids rows) \<Longrightarrow>
    yield_wanted visit wanted rows w = (ys, e, w') \<Longrightarrow> e = None \<and> mset (row_ids ys) = mset_set wanted"
proof (induction visit wanted rows w arbitrary: ys e w' rule: yield_wanted.induct)
  case (1 visit wanted w)
  then show ?case by (simp add: row_ids_def)
next
  case (2 visit wanted row rows w)
  obtain i where i: "row_object_id row = Inr (Some i)" using "2.prems"(2) by auto
  show ?case
  proof (cases "i \<in> wanted")
    case True
    obtain zs e' v where z: "yield_wanted visit (wanted - {i}) rows (visit row w) = (zs, e', v)"
      by (metis surj_pair)
    have "e' = None \<and> mset (row_ids zs) = mset_set (wanted - {i})"
      using "2.IH"(2) [OF i refl True _ _ _ z] "2.prems"(1,2,3) i by (auto simp: row_ids_def row_id_def)
    moreover have "mset_set wanted = add_mset i (mset_set (wanted - {i}))"
      using True "2.prems"(1) by (simp add: mset_set.remove)
    ultimately show ?thesis using "2.prems"(4) z i True by (auto simp: row_ids_def row_id_def)
  next
    case False
    then have "wanted \<subseteq> set (row_ids rows)" using "2.prems"(3) i by (auto simp: row_ids_def row_id_def)
    then show ?thesis using "2.IH"(3) [OF i refl False] "2.prems" i False by simp
  qed
qed

lemma mset_set_le_mset: "mset_set (set xs) \<subseteq># mset xs"
  using mset_set_set_mset_msubset [of "mset xs"] by simp

lemma update_chunks_ids:
  "update_chunks stream ax kwargs visit cs w = (ys, e, w') \<Longrightarrow> mset (row_ids ys) \<subseteq># mset (concat cs)"
proof (induction stream ax kwargs visit cs w arbitrary: ys e w' rule: update_chunks.induct)
  case (2 stream ax kwargs visit c cs w)
  obtain answer w1 where s: "stream (dict_update kwargs (chunk_overrides ax kwargs c)) w = (answer, w1)" by fastforce
  show ?case
  proof (cases answer)
    case (Inr rows)
    obtain y1 e1 w2 where y: "yield_wanted visit (set c) rows w1 = (y1, e1, w2)" by (metis surj_pair)
    have le: "mset (row_ids y1) \<subseteq># mset c"
      using yield_wanted_ids [OF _ y] mset_set_le_mset [of c] by (auto intro: subset_mset.order_trans)
    show ?thesis
    proof (cases e1)
      case None
      obtain z e2 w3 where z: "update_chunks stream ax kwargs visit cs w2 = (z, e2, w3)" by (metis surj_pair)
      have "mset (row_ids z) \<subseteq># mset (concat cs)" using "2.IH" [OF s [symmetric] Inr y [symmetric] refl None z] .
      then show ?thesis using 2(2) s Inr y None z le
        by (auto simp: row_ids_def intro: subset_mset.add_mono)
    next
      case (Some x)
      then have "ys = y1" using 2(2) s Inr y by simp
      then show ?thesis using le by (auto intro: subset_mset.order_trans)
    qed
  qed (use 2(2) s in \<open>auto simp: row_ids_def\<close>)
qed (simp add: row_ids_def)

text \<open>\<open>answers_chunks\<close>: every re-fetch by object ids answers with identified rows that cover the ids.\<close>

definition answers_chunks ::
  "int list \<Rightarrow> ((string, pyval) pydict \<Rightarrow> 'w \<Rightarrow> (py_error + query_feature list) \<times> 'w) \<Rightarrow> pyval \<Rightarrow> (string, pyval) pydict \<Rightarrow> bool" where
  "answers_chunks ids stream ax kwargs \<longleftrightarrow> (\<forall>c w. set c \<subseteq> set ids \<longrightarrow> (\<exists>rows w'. stream (dict_update kwargs (chunk_overrides ax kwargs c)) w = (Inr rows, w') \<and>
     list_all (\<lambda>r. \<exists>i. row_object_id r = Inr (Some i)) rows \<and> set c \<subseteq> set (row_ids rows)))"

lemma update_chunks_complete:
  "answers_chunks ids stream ax kwargs \<Longrightarrow> set (concat cs) \<subseteq> set ids \<Longrightarrow> distinct (concat cs) \<Longrightarrow> update_chunks stream ax kwargs visit cs w = (ys, e, w') \<Longrightarrow>
    e = None \<and> mset (row_ids ys) = mset (concat cs)"
proof (induction stream ax kwargs visit cs w arbitrary: ys e w' rule: update_chunks.induct)
  case (2 stream ax kwargs visit c cs w)
  obtain rows w1 where s: "stream (dict_update kwargs (chunk_overrides ax kwargs c)) w = (Inr rows, w1)"
    and r: "list_all (\<lambda>r. \<exists>i. row_object_id r = Inr (Some i)) rows" "set c \<subseteq> set (row_ids rows)"
    using 2(2,3) unfolding answers_chunks_def by (metis concat.simps(2) set_append le_supE)
  obtain y1 e1 w2 where y: "yield_wanted visit (set c) rows w1 = (y1, e1, w2)" by (metis surj_pair)
  have d: "set (concat cs) \<subseteq> set ids" "distinct c" "distinct (concat cs)" using 2(3,4) by auto
  have y1: "e1 = None" "mset (row_ids y1) = mset c"
    using yield_wanted_all [OF _ r y] d(2) by (simp_all add: mset_set_set)
  obtain z e2 w3 where z: "update_chunks stream ax kwargs visit cs w2 = (z, e2, w3)" by (metis surj_pair)
  have "e2 = None \<and> mset (row_ids z) = mset (concat cs)"
    using "2.IH" [OF s [symmetric] refl y [symmetric] refl y1(1) 2(2) d(1,3) z] .
  then show ?case using 2(5) s y y1 z by (auto simp: row_ids_def)
qed (simp add: row_ids_def)

lemma update_iter_visits:
  assumes "0 < eb_batch_size b" "update_iter stream ax kwargs visit b w = (ys, e, w')"
    and "stream (dict_update kwargs [(''return_geometry'', PBool False)]) w = (Inr snap, w1)"
    and "mapE snapshot_object_id snap = Inr ids"
  shows "mset (row_ids ys) \<subseteq># mset ids \<and> (answers_chunks ids stream ax kwargs \<longrightarrow> distinct ids \<longrightarrow> e = None \<and> mset (row_ids ys) = mset ids)"
proof -
  have u: "update_chunks stream ax kwargs visit (chunks_of (nat (eb_batch_size b)) ids) w1 = (ys, e, w')"
    using assms by (simp add: update_iter_def)
  have c: "concat (chunks_of (nat (eb_batch_size b)) ids) = ids" using assms(1) by (simp add: concat_chunks_of)
  show ?thesis using update_chunks_ids [OF u] update_chunks_complete [OF _ _ _ u] c by simp
qed


text \<open>A source with rows 7, 8 and 9 that answers every query with all of them.\<close>

definition row_at :: "int \<Rightarrow> query_feature" where
  "row_at i = \<lparr>qf_id = PNone, qf_properties = [(''objectid'', PInt i)], qf_geometry = None, qf_protocol = ''p'', qf_source = ''s'', qf_raw = []\<rparr>"

definition three_rows :: "(string, pyval) pydict \<Rightarrow> unit \<Rightarrow> (py_error + query_feature list) \<times> unit" where
  "three_rows kwargs w = (Inr (map row_at [7, 8, 9]), w)"


section \<open>Edits that miss their row\<close>

text \<open>
  A row whose attributes hold an id key without a value takes its id from the feature; the
  payload keeps the empty key and no other, so it does not identify the row.
\<close>

lemma update_payload_without_id:
  assumes "qf_properties row = [(''OBJECTID'', PNone)]" and "qf_id row = PInt i"
  shows "update_payload row [] None = Inr (geoservices_feature_from [(''OBJECTID'', PNone)] (qf_geometry row))"
  using assms by (simp add: update_payload_def snapshot_object_id_def row_object_id_def sdk_oid_keys_def
      get_or_none_def dict_get_def as_int_def dict_update_def dict_has_def Let_def split: option.splits)

text \<open>
  The asynchronous \<open>flush\<close> clears the whole buffer after its awaited call: a row queued meanwhile
  is neither in the request nor in the buffer.
\<close>

lemma async_flush_drops_queued_row:
  assumes "flush_request eb_adds AddRows b = Some q"
    and "flush_resume (\<lambda>b. b\<lparr>eb_adds := []\<rparr>) (Inr r) (queue_insert payload b) = (res, b')"
  shows "request_adds q = eb_adds b \<and> eb_adds b' = []"
  using assms by (auto simp: flush_request_def flush_resume_def record_result_def request_adds_def split: if_splits)

end
