(* ===== verification/Gp_Audit.thy ===== *)
theory Gp_Audit
  imports Py_Text
begin

text \<open>
  Redaction of what audit logs keep (\<open>honua_admin/_redaction.py\<close>), the audit record of one
  shim call (\<open>honua_gp/_audit.py\<close>) and the exceptions of the shim (\<open>honua_gp/_errors.py\<close>).

  An audit line is the record dict as it is written; the lines written so far are part of the
  state. Latency and timestamp, and the file behind the writer, are not modelled.
\<close>

section \<open>Exceptions\<close>

text \<open>
  \<open>Execute k\<close> is an \<open>ExecuteError\<close> or one of its subclasses, told apart by \<open>error_kind\<close>;
  \<open>Foreign c n\<close> is any other \<open>Exception\<close> of class \<open>c\<close> with its \<open>status_code\<close>, if it has one;
  \<open>Interrupt c\<close> is a \<open>BaseException\<close> that is no \<open>Exception\<close>.
\<close>

datatype gp_exn = Execute string | Foreign string "int option" | Interrupt string

definition execute_error :: "string option \<Rightarrow> gp_exn" where
  "execute_error error_kind = Execute (case error_kind of Some (c # cs) \<Rightarrow> c # cs | _ \<Rightarrow> ''execute_error'')"

definition unsupported_error :: gp_exn where
  "unsupported_error = execute_error (Some ''unsupported'')"

definition configuration_error :: gp_exn where
  "configuration_error = execute_error (Some ''configuration'')"

definition resolve_error :: gp_exn where
  "resolve_error = execute_error (Some ''resolve'')"

fun exn_class :: "py_error \<Rightarrow> string" where
  "exn_class ErrValue = ''ValueError''"
| "exn_class ErrType = ''TypeError''"
| "exn_class ErrIndex = ''IndexError''"
| "exn_class ErrKey = ''KeyError''"
| "exn_class ErrOverflow = ''OverflowError''"
| "exn_class ErrAttribute = ''AttributeError''"
| "exn_class ErrRuntime = ''RuntimeError''"

definition foreign :: "py_error + 'a \<Rightarrow> gp_exn + 'a" where
  "foreign m = (case m of Inl e \<Rightarrow> Inl (Foreign (exn_class e) None) | Inr x \<Rightarrow> Inr x)"

section \<open>Redaction\<close>

definition path_extensions :: "string list" where
  "path_extensions = [''.csv'', ''.dbf'', ''.fgdb'', ''.gdb'', ''.geojson'', ''.gpkg'', ''.json'', ''.lyr'', ''.lyrx'', ''.sde'', ''.shp'',
     ''.tif'', ''.tiff'', ''.xlsx'', ''.zip'']"

definition url_schemes :: "string list" where
  "url_schemes = [''http'', ''https'', ''ftp'', ''s3'', ''gs'', ''az'', ''file'']"

definition sensitive_names :: "string list" where
  "sensitive_names = [''apikey'', ''api_key'', ''api-key'', ''auth'', ''credential'', ''passwd'', ''password'', ''secret'', ''token'']"

definition sensitive_values :: "string list" where
  "sensitive_values = [''apikey'', ''api_key'', ''api-key'', ''passwd'', ''password'', ''secret'', ''token'']"

definition is_sensitive_context :: "string option \<Rightarrow> bool" where
  "is_sensitive_context context = (case context of None \<Rightarrow> False
     | Some c \<Rightarrow> list_ex (\<lambda>w. str_contains w (str_lower c)) sensitive_names)"

text \<open>The pattern \<open>(word)\s*[=:]\<close>: a word, blanks, then \<open>=\<close> or \<open>:\<close>, found anywhere.\<close>

definition assigns :: "string \<Rightarrow> string \<Rightarrow> bool" where
  "assigns word t \<longleftrightarrow> str_startswith t word \<and>
     (case str_lstrip (drop (length word) t) of c # _ \<Rightarrow> c = CHR ''='' \<or> c = CHR '':'' | [] \<Rightarrow> False)"

definition sensitive_value_pattern :: "string \<Rightarrow> bool" where
  "sensitive_value_pattern value = list_ex (\<lambda>t. list_ex (\<lambda>w. assigns w t) sensitive_values) (str_tails (str_lower value))"

definition looks_like_bare_secret :: "string \<Rightarrow> bool" where
  "looks_like_bare_secret value =
     (let lowered = str_lower value in
      str_contains ''secret'' lowered \<or> str_contains ''password'' lowered \<or> sensitive_value_pattern value)"

definition looks_like_url :: "(string \<Rightarrow> bool) \<Rightarrow> string \<Rightarrow> py_error + bool" where
  "looks_like_url ip_ok value = bindE (urlsplit ip_ok value) (\<lambda>u.
     Inr (up_scheme u \<in> set url_schemes \<and> (up_netloc u \<noteq> [] \<or> up_scheme u = ''file'')))"

definition absolute_path :: "string \<Rightarrow> bool" where
  "absolute_path value \<longleftrightarrow> str_startswith (posix_path value) ''/'' \<or> str_startswith value [backslash, backslash] \<or> windows_absolute value"

definition looks_like_path :: "string \<Rightarrow> bool" where
  "looks_like_path value =
     (if value = [] \<or> CHR 0x0A \<in> set value then False
      else (let lowered = str_lower (posix_path value) in
        absolute_path value \<or> list_ex (str_endswith lowered) path_extensions \<or>
        list_ex (\<lambda>ext. str_contains (ext @ ''/'') lowered) path_extensions))"

definition local_path :: string where
  "local_path = ''<local-path>''"

definition basename :: "string \<Rightarrow> string" where
  "basename s = last (str_rsplit1 (CHR ''/'') s)"

text \<open>One turn of the loop over \<open>.gdb\<close> and \<open>.sde\<close>: the path it returns, if it does.\<close>

definition redact_container :: "string \<Rightarrow> string \<Rightarrow> string option" where
  "redact_container trimmed extension =
     (let lowered = str_lower trimmed in
      case str_find (extension @ ''/'') lowered of
        Some i \<Rightarrow> Some (local_path @ ''/'' @ drop (case str_rfind ''/'' (take i lowered) of None \<Rightarrow> 0 | Some j \<Rightarrow> Suc j) trimmed)
      | None \<Rightarrow> if str_endswith lowered extension then Some (local_path @ ''/'' @ basename trimmed) else None)"

definition redact_path :: "string \<Rightarrow> string" where
  "redact_path value =
     (if \<not> absolute_path value then value
      else (let trimmed = str_rstrip_chars {CHR ''/''} (posix_path value) in
        case redact_container trimmed ''.gdb'' of Some p \<Rightarrow> p
        | None \<Rightarrow> (case redact_container trimmed ''.sde'' of Some p \<Rightarrow> p
          | None \<Rightarrow> if basename trimmed \<noteq> [] then local_path @ ''/'' @ basename trimmed else local_path)))"

definition redacted :: string where
  "redacted = ''<redacted>''"

definition redact_netloc :: "string \<Rightarrow> string" where
  "redact_netloc netloc = (if CHR ''@'' \<in> set netloc then redacted @ ''@'' @ last (str_rsplit1 (CHR ''@'') netloc) else netloc)"

definition redact_query :: "string \<Rightarrow> string" where
  "redact_query query = str_join ''&'' (map (\<lambda>(key, item). url_quote ''/'' key @ ''='' @
     url_quote ''<>'' (if is_sensitive_context (Some key) then redacted else item)) (parse_qsl query))"

definition redact_url :: "(string \<Rightarrow> bool) \<Rightarrow> string \<Rightarrow> py_error + string" where
  "redact_url ip_ok value = bindE (urlsplit ip_ok value) (\<lambda>u. Inr
     (if up_scheme u = ''file'' then ''file://'' @ redact_path (up_path u)
      else urlunsplit (u\<lparr>up_netloc := redact_netloc (up_netloc u), up_query := redact_query (up_query u)\<rparr>)))"

section \<open>Audit values\<close>

definition type_name :: "pyval \<Rightarrow> string" where
  "type_name v = (case v of PNone \<Rightarrow> ''NoneType'' | PBool _ \<Rightarrow> ''bool'' | PInt _ \<Rightarrow> ''int'' | PFloat _ \<Rightarrow> ''float'' | PStr _ \<Rightarrow> ''str''
     | PBytes _ \<Rightarrow> ''bytes'' | PList _ \<Rightarrow> ''list'' | PTuple _ \<Rightarrow> ''tuple'' | PDict _ \<Rightarrow> ''dict'')"

definition redact_string :: "(string \<Rightarrow> bool) \<Rightarrow> string option \<Rightarrow> string \<Rightarrow> py_error + string" where
  "redact_string ip_ok context value =
     (if is_sensitive_context context then Inr redacted
      else bindE (looks_like_url ip_ok value) (\<lambda>url.
        if url then redact_url ip_ok value
        else if looks_like_bare_secret value then Inr redacted
        else if looks_like_path value then Inr (redact_path value)
        else Inr value))"

fun redact_value :: "(string \<Rightarrow> bool) \<Rightarrow> string option \<Rightarrow> pyval \<Rightarrow> py_error + pyval" where
  "redact_value ip_ok context (PStr s) = bindE (redact_string ip_ok context s) (\<lambda>t. Inr (PStr t))"
| "redact_value ip_ok context (PDict d) =
     bindE (mapE (\<lambda>(key, item). bindE (redact_value ip_ok (Some key) item) (\<lambda>r. Inr (key, r))) d) (\<lambda>d'. Inr (PDict d'))"
| "redact_value ip_ok context (PList xs) = bindE (mapE (redact_value ip_ok context) xs) (\<lambda>ys. Inr (PList ys))"
| "redact_value ip_ok context (PTuple xs) = bindE (mapE (redact_value ip_ok context) xs) (\<lambda>ys. Inr (PList ys))"
| "redact_value ip_ok context (PBytes b) = Inr (PDict [(''type'', PStr (type_name (PBytes b)))])"
| "redact_value ip_ok context v = Inr v"

definition shape_of :: "pyval \<Rightarrow> pyval" where
  "shape_of value = (case value of
     PNone \<Rightarrow> PNone
   | PDict d \<Rightarrow> PDict [(''type'', PStr ''object''), (''keys'', PList (map PStr (sorted_strings (dict_keys d))))]
   | PList xs \<Rightarrow> PDict [(''type'', PStr ''array''), (''length'', PInt (int (length xs)))]
   | PTuple xs \<Rightarrow> PDict [(''type'', PStr ''array''), (''length'', PInt (int (length xs)))]
   | PStr s \<Rightarrow> PDict [(''type'', PStr ''string''), (''length'', PInt (int (length s)))]
   | v \<Rightarrow> PDict [(''type'', PStr (type_name v))])"

section \<open>One audited call\<close>

type_synonym audit_line = "(string, pyval) pydict"

record audit_state =
  au_lines :: "audit_line list"

fun enumerate_args :: "nat \<Rightarrow> pyval list \<Rightarrow> (string \<times> pyval) list" where
  "enumerate_args n [] = []"
| "enumerate_args n (v # vs) = (''arg'' @ str_of_int (int n), v) # enumerate_args (Suc n) vs"

text \<open>What \<open>record_call\<close> does up to its \<open>yield\<close>, and after it with the exception thrown in, if any.\<close>

definition record_open :: "(string \<Rightarrow> bool) \<Rightarrow> string \<Rightarrow> pyval list \<Rightarrow> (string, pyval) pydict \<Rightarrow> gp_exn + audit_line" where
  "record_open ip_ok function args kwargs =
     foreign (bindE (mapE (\<lambda>(context, v). redact_value ip_ok (Some context) v) (enumerate_args 0 args)) (\<lambda>redacted_args.
       bindE (mapE (\<lambda>(key, v). bindE (redact_value ip_ok (Some key) v) (\<lambda>r. Inr (key, r))) kwargs) (\<lambda>redacted_kwargs.
         Inr [(''function'', PStr function), (''args'', PList redacted_args), (''kwargs'', PDict redacted_kwargs), (''status'', PStr ''ok'')])))"

definition exn_kind :: "gp_exn \<Rightarrow> string" where
  "exn_kind e = (case e of Execute k \<Rightarrow> if k = [] then ''ExecuteError'' else k | Foreign c _ \<Rightarrow> c | Interrupt c \<Rightarrow> c)"

definition close_line :: "gp_exn option \<Rightarrow> audit_line \<Rightarrow> audit_line" where
  "close_line failure line = dict_setdefault (case failure of None \<Rightarrow> line
     | Some e \<Rightarrow> dict_set (dict_set line ''status'' (PStr ''error'')) ''error_kind'' (PStr (exn_kind e))) ''result_shape'' PNone"

definition record_close :: "gp_exn option \<Rightarrow> audit_line \<Rightarrow> 's audit_state_scheme \<Rightarrow> 's audit_state_scheme" where
  "record_close failure line s = s\<lparr>au_lines := au_lines s @ [close_line failure line]\<rparr>"

text \<open>\<open>with record_call(...) as record: body\<close>; the body may write to the record.\<close>

definition record_call ::
  "(string \<Rightarrow> bool) \<Rightarrow> string \<Rightarrow> pyval list \<Rightarrow> (string, pyval) pydict \<Rightarrow>
   (audit_line \<Rightarrow> 's audit_state_scheme \<Rightarrow> (gp_exn + 'a) \<times> audit_line \<times> 's audit_state_scheme) \<Rightarrow>
   's audit_state_scheme \<Rightarrow> (gp_exn + 'a) \<times> 's audit_state_scheme" where
  "record_call ip_ok function args kwargs body s = (case record_open ip_ok function args kwargs of
     Inl e \<Rightarrow> (Inl e, s)
   | Inr line \<Rightarrow> (case body line s of (res, line', s') \<Rightarrow>
       (res, record_close (case res of Inl e \<Rightarrow> Some e | Inr _ \<Rightarrow> None) line' s')))"

section \<open>What an audit line can hold\<close>

definition clean_path :: "string \<Rightarrow> bool" where
  "clean_path p \<longleftrightarrow> \<not> absolute_path p \<or> p = local_path \<or>
     (\<exists>b. p = local_path @ ''/'' @ b \<and> (CHR ''/'' \<notin> set b \<or> str_contains ''.gdb/'' (str_lower b) \<or> str_contains ''.sde/'' (str_lower b)))"

definition clean_url :: "url_parts \<Rightarrow> bool" where
  "clean_url u \<longleftrightarrow> (CHR ''@'' \<in> set (up_netloc u) \<longrightarrow> (\<exists>host. up_netloc u = redacted @ ''@'' @ host \<and> CHR ''@'' \<notin> set host)) \<and>
     (\<exists>pairs. up_query u = str_join ''&'' (map (\<lambda>(k, v). url_quote ''/'' k @ ''='' @ url_quote ''<>'' v) pairs) \<and>
        list_all (\<lambda>(k, v). is_sensitive_context (Some k) \<longrightarrow> v = redacted) pairs)"

definition clean_text :: "string \<Rightarrow> bool" where
  "clean_text t \<longleftrightarrow> t = redacted \<or> (\<exists>u. clean_url u \<and> t = urlunsplit u) \<or> (\<exists>p. clean_path p \<and> t = ''file://'' @ p) \<or>
     (clean_path t \<and> str_startswith t local_path) \<or>
     (\<not> looks_like_bare_secret t \<and> (absolute_path t \<longrightarrow> CHR 0x0A \<in> set t))"

fun string_leaves :: "string option \<Rightarrow> pyval \<Rightarrow> (string option \<times> string) list" where
  "string_leaves context (PStr s) = [(context, s)]"
| "string_leaves context (PDict d) = concat (map (\<lambda>(key, item). string_leaves (Some key) item) d)"
| "string_leaves context (PList xs) = concat (map (string_leaves context) xs)"
| "string_leaves context (PTuple xs) = concat (map (string_leaves context) xs)"
| "string_leaves context v = []"

lemma str_lower_drop: "str_lower (drop n s) = drop n (str_lower s)"
  by (simp add: str_lower_def drop_map)

lemma redact_container_clean: "redact_container s ext = Some p \<Longrightarrow> ext \<in> {''.gdb'', ''.sde''} \<Longrightarrow> clean_path p \<and> str_startswith p local_path"
proof -
  assume a: "redact_container s ext = Some p" "ext \<in> {''.gdb'', ''.sde''}"
  show ?thesis
  proof (cases "str_find (ext @ ''/'') (str_lower s)")
    case None
    then have "p = local_path @ ''/'' @ basename s" using a by (auto simp: redact_container_def Let_def split: if_splits)
    then show ?thesis using last_str_rsplit1_free by (auto simp: clean_path_def str_startswith_iff basename_def)
  next
    case (Some i)
    define j where "j = (case str_rfind ''/'' (take i (str_lower s)) of None \<Rightarrow> 0 | Some j \<Rightarrow> Suc j)"
    obtain r where r: "str_lower s = take i (str_lower s) @ (ext @ ''/'') @ r" "i \<le> length s"
      using str_find_Some [OF Some] by auto
    have j: "j \<le> i"
    proof (cases "str_rfind ''/'' (take i (str_lower s))")
      case (Some k)
      then show ?thesis using str_rfind_less [OF Some] r(2) by (simp add: j_def)
    qed (simp add: j_def)
    have p: "p = local_path @ ''/'' @ drop j s" using a Some by (simp add: redact_container_def Let_def j_def)
    have "str_lower (drop j s) = drop j (take i (str_lower s)) @ (ext @ ''/'') @ r"
      using r(2) j arg_cong [OF r(1), of "drop j"] by (simp add: str_lower_drop)
    then have "str_contains (ext @ ''/'') (str_lower (drop j s))" by (auto simp: str_contains_iff)
    then show ?thesis using a(2) p by (auto simp: clean_path_def str_startswith_iff)
  qed
qed

lemma redact_path_clean: "clean_path (redact_path s) \<and> (absolute_path s \<longrightarrow> str_startswith (redact_path s) local_path)"
proof (cases "absolute_path s")
  case True
  have b: "CHR ''/'' \<notin> set (basename t)" for t using last_str_rsplit1_free by (simp add: basename_def)
  from True show ?thesis
    using redact_container_clean b
    by (auto simp: redact_path_def Let_def split: option.splits) (auto simp: clean_path_def str_startswith_iff)
qed (simp add: redact_path_def clean_path_def)

lemma clean_text_intros:
  "clean_url u \<Longrightarrow> clean_text (urlunsplit u)" "clean_path p \<Longrightarrow> clean_text (''file://'' @ p)" "clean_text redacted"
  unfolding clean_text_def by blast+

lemma redact_url_clean: "redact_url ip s = Inr t \<Longrightarrow> clean_text t"
proof -
  assume a: "redact_url ip s = Inr t"
  then obtain u where u: "urlsplit ip s = Inr u" by (auto simp: redact_url_def bindE_eq_Inr)
  let ?v = "u\<lparr>up_netloc := redact_netloc (up_netloc u), up_query := redact_query (up_query u)\<rparr>"
  have "clean_url ?v"
    unfolding clean_url_def
  proof
    show "CHR ''@'' \<in> set (up_netloc ?v) \<longrightarrow> (\<exists>host. up_netloc ?v = redacted @ ''@'' @ host \<and> CHR ''@'' \<notin> set host)"
      using last_str_rsplit1_free by (auto simp: redact_netloc_def)
    show "\<exists>pairs. up_query ?v = str_join ''&'' (map (\<lambda>(k, v). url_quote ''/'' k @ ''='' @ url_quote ''<>'' v) pairs) \<and>
        list_all (\<lambda>(k, v). is_sensitive_context (Some k) \<longrightarrow> v = redacted) pairs"
      by (rule exI [of _ "map (\<lambda>(k, v). (k, if is_sensitive_context (Some k) then redacted else v)) (parse_qsl (up_query u))"])
        (simp add: redact_query_def case_prod_unfold comp_def list_all_iff)
  qed
  then show ?thesis using a u redact_path_clean clean_text_intros by (auto simp: redact_url_def simp del: append_Cons split: if_splits)
qed

lemma redact_string_clean:
  assumes "redact_string ip c s = Inr t"
  shows "clean_text t" "is_sensitive_context c \<Longrightarrow> t = redacted"
proof -
  show "clean_text t"
  proof (cases "is_sensitive_context c")
    case False
    then obtain url where url: "looks_like_url ip s = Inr url" using assms by (auto simp: redact_string_def bindE_eq_Inr)
    consider "url" | "\<not> url" "looks_like_bare_secret s" | "\<not> url" "\<not> looks_like_bare_secret s" by blast
    then show ?thesis
    proof cases
      case 3
      then have t: "t = (if looks_like_path s then redact_path s else s)" using assms False url by (auto simp: redact_string_def split: if_splits)
      show ?thesis
      proof (cases "absolute_path s")
        case True
        then have "looks_like_path s \<or> CHR 0x0A \<in> set s" by (cases s) (auto simp: looks_like_path_def Let_def absolute_path_def windows_absolute_def str_startswith_def posix_path_def str_replace_char_def)
        then show ?thesis using True t 3 redact_path_clean [of s] by (auto simp: clean_text_def)
      next
        case False
        then show ?thesis using t 3 by (auto simp: clean_text_def redact_path_def)
      qed
    qed (use assms False url redact_url_clean clean_text_intros in \<open>auto simp: redact_string_def\<close>)
  qed (use assms in \<open>simp add: redact_string_def clean_text_def\<close>)
  show "is_sensitive_context c \<Longrightarrow> t = redacted" using assms by (simp add: redact_string_def)
qed

lemma redact_value_leaves:
  "redact_value ip c v = Inr r \<Longrightarrow> (c', t) \<in> set (string_leaves c r) \<Longrightarrow>
    clean_text t \<and> (is_sensitive_context c' \<longrightarrow> t = redacted)"
proof (induction ip c v arbitrary: r c' t rule: redact_value.induct)
  case (1 ip c s)
  then show ?case using redact_string_clean [of ip c s] by (auto simp: bindE_eq_Inr)
next
  case (2 ip c d)
  obtain d' where d': "r = PDict d'" and m: "mapE (\<lambda>(key, item). bindE (redact_value ip (Some key) item) (\<lambda>r. Inr (key, r))) d = Inr d'"
    using "2.prems"(1) by (auto simp: bindE_eq_Inr)
  obtain k x where x: "(k, x) \<in> set d'" "(c', t) \<in> set (string_leaves (Some k) x)" using "2.prems"(2) d' by auto
  obtain z where z: "z \<in> set d" "(case z of (key, item) \<Rightarrow> bindE (redact_value ip (Some key) item) (\<lambda>r. Inr (key, r))) = Inr (k, x)"
    by (rule mapE_member [OF m x(1)])
  obtain key item where ki: "z = (key, item)" by (cases z)
  with z have "(k, item) \<in> set d" "redact_value ip (Some k) item = Inr x" by (auto simp: bindE_eq_Inr)
  then show ?case using "2.IH" x(2) by blast
next
  case (3 ip c xs)
  obtain ys where ys: "r = PList ys" "mapE (redact_value ip c) xs = Inr ys" using "3.prems"(1) by (auto simp: bindE_eq_Inr)
  obtain y where y: "y \<in> set ys" "(c', t) \<in> set (string_leaves c y)" using "3.prems"(2) ys(1) by auto
  obtain x where "x \<in> set xs" "redact_value ip c x = Inr y" by (rule mapE_member [OF ys(2) y(1)])
  then show ?case using "3.IH" y(2) by blast
next
  case (4 ip c xs)
  obtain ys where ys: "r = PList ys" "mapE (redact_value ip c) xs = Inr ys" using "4.prems"(1) by (auto simp: bindE_eq_Inr)
  obtain y where y: "y \<in> set ys" "(c', t) \<in> set (string_leaves c y)" using "4.prems"(2) ys(1) by auto
  obtain x where "x \<in> set xs" "redact_value ip c x = Inr y" by (rule mapE_member [OF ys(2) y(1)])
  then show ?case using "4.IH" y(2) by blast
next
  case (5 ip c b)
  have "\<not> looks_like_bare_secret ''bytes''" "\<not> absolute_path ''bytes''" by code_simp+
  then have "clean_text ''bytes''" unfolding clean_text_def by blast
  with 5 show ?case by (auto simp: type_name_def is_sensitive_context_def sensitive_names_def str_contains_def str_lower_def str_startswith_def)
qed auto

lemma string_leaves_context:
  "(c', t) \<in> set (string_leaves None v) \<Longrightarrow> (c', t) \<in> set (string_leaves c v) \<or> c' = None \<and> (c, t) \<in> set (string_leaves c v)"
proof (induction "None :: string option" v rule: string_leaves.induct)
  case (3 xs)
  then obtain x where "x \<in> set xs" "(c', t) \<in> set (string_leaves None x)" by auto
  then show ?case using "3.hyps" by fastforce
next
  case (4 xs)
  then obtain x where "x \<in> set xs" "(c', t) \<in> set (string_leaves None x)" by auto
  then show ?case using "4.hyps" by fastforce
qed auto



section \<open>What an audited call leaves behind\<close>

text \<open>
  The body of a call leaves the lines already written alone; then the call appends exactly one,
  whose status tells how it ended.
\<close>

lemma record_call_line:
  assumes "record_call ip function args kwargs body s = (res, s')"
    and "\<And>line r line' t. body line s = (r, line', t) \<Longrightarrow> au_lines t = au_lines s"
  shows "au_lines s' = au_lines s \<and> (\<exists>e. record_open ip function args kwargs = Inl e \<and> res = Inl e) \<or>
    (\<exists>line. au_lines s' = au_lines s @ [close_line (case res of Inl e \<Rightarrow> Some e | Inr _ \<Rightarrow> None) line])"
proof (cases "record_open ip function args kwargs")
  case (Inr line)
  obtain r line' t where "body line s = (r, line', t)" by (metis surj_pair)
  then show ?thesis using assms Inr by (auto simp: record_call_def record_close_def)
qed (use assms(1) in \<open>simp add: record_call_def\<close>)

text \<open>A URL whose host has an opening bracket only makes the call raise before anything is recorded.\<close>

lemma record_call_broken_url:
  "record_call ip function [PStr ''http://[roads''] [] body s = (Inl (Foreign ''ValueError'' None), s)"
proof -
  have "record_open ip function [PStr ''http://[roads''] [] = Inl (Foreign ''ValueError'' None)"
    by (simp add: record_open_def redact_string_def looks_like_url_def urlsplit_def) code_simp
  then show ?thesis by (simp add: record_call_def)
qed

end
