(* ===== verification/Output_Artifact.thy ===== *)
theory Output_Artifact
  imports Gp_Audit
begin

text \<open>
  \<open>_output_artifact.py\<close>: the inline FeatureLayer result of a completed job and the read-only
  source that serves it. \<open>decode\<close> stands for strict base64 decoding followed by
  \<open>json.loads\<close>, \<open>None\<close> where either raises.
\<close>

section \<open>Reading a results document\<close>

definition output_source_prefix :: string where
  "output_source_prefix = ''honua-gp-output://''"

definition feature_layer_output :: string where
  "feature_layer_output = ''outputFeatureLayer''"

definition base64_marker :: string where
  "base64_marker = '';base64,''"

definition result_document_keys :: "string set" where
  "result_document_keys = {''jobID'', ''jobId'', ''links''}"

record output_artifact =
  oa_function :: string
  oa_job_id :: string
  oa_output_id :: string
  oa_features :: "(string, pyval) pydict list"
  oa_srid :: "int option"
  oa_origin :: "string option"

definition artifact_source :: "output_artifact \<Rightarrow> string" where
  "artifact_source a = output_source_prefix @ oa_job_id a @ ''/'' @ oa_output_id a"

definition outputs_map :: "pyval \<Rightarrow> (string, pyval) pydict" where
  "outputs_map results = (case results of
     PDict d \<Rightarrow> (case get_or_none d ''outputs'' of PDict wrapped \<Rightarrow> wrapped
       | _ \<Rightarrow> filter (\<lambda>(k, _). k \<notin> result_document_keys) d)
   | _ \<Rightarrow> [])"

definition decode_data_uri :: "(string \<Rightarrow> pyval option) \<Rightarrow> string \<Rightarrow> pyval" where
  "decode_data_uri decode href =
     (if \<not> str_startswith href ''data:'' then PNone
      else (case str_find base64_marker href of None \<Rightarrow> PNone
        | Some i \<Rightarrow> (case decode (drop (i + length base64_marker) href) of None \<Rightarrow> PNone | Some v \<Rightarrow> v)))"

text \<open>The name of the output to read, or the kind of the failure.\<close>

definition output_name :: "(string, pyval) pydict \<Rightarrow> string + string" where
  "output_name outputs =
     (if dict_has outputs feature_layer_output then Inr feature_layer_output
      else (case sorted_strings (filter (\<lambda>k. str_startswith k feature_layer_output) (dict_keys outputs)) of
          [name] \<Rightarrow> Inr name
        | candidates \<Rightarrow> Inl (if candidates \<noteq> [] then ''unreadable_output'' else ''missing_output'')))"

definition output_collection :: "(string \<Rightarrow> pyval option) \<Rightarrow> pyval \<Rightarrow> string + pyval" where
  "output_collection decode output_value = (case output_value of
     PDict m \<Rightarrow> (case (get_or_none m ''value'', get_or_none m ''href'') of
         (PNone, PStr href) \<Rightarrow> (let c = decode_data_uri decode href
            in if c = PNone then Inl ''unreadable_output'' else Inr c)
       | (v, _) \<Rightarrow> Inr v)
   | _ \<Rightarrow> Inr PNone)"

text \<open>An \<open>int\<close> that is no \<open>bool\<close>.\<close>

definition plain_int :: "pyval \<Rightarrow> int option" where
  "plain_int v = (case v of PInt i \<Rightarrow> Some i | _ \<Rightarrow> None)"

definition collection_features :: "pyval \<Rightarrow> (string, pyval) pydict list option" where
  "collection_features c = (case c of
     PDict d \<Rightarrow> (case get_or_none d ''features'' of
         PList fs \<Rightarrow> if get_or_none d ''type'' = PStr ''FeatureCollection'' \<and> list_all is_mapping fs
           then Some (map (\<lambda>f. case f of PDict m \<Rightarrow> m | _ \<Rightarrow> []) fs) else None
       | _ \<Rightarrow> None)
   | _ \<Rightarrow> None)"

definition collection_member :: "pyval \<Rightarrow> string \<Rightarrow> pyval" where
  "collection_member c key = (case c of PDict d \<Rightarrow> get_or_none d key | _ \<Rightarrow> PNone)"

definition collection_srid :: "pyval \<Rightarrow> int option" where
  "collection_srid c = (case filter (\<lambda>i. 0 < i)
     (List.map_filter plain_int [collection_member c ''srid'', collection_member c ''inputSrid'']) of [] \<Rightarrow> None | i # _ \<Rightarrow> Some i)"

definition read_output_artifact ::
  "(string \<Rightarrow> pyval option) \<Rightarrow> pyval \<Rightarrow> string \<Rightarrow> string \<Rightarrow> gp_exn + output_artifact" where
  "read_output_artifact decode results function job_id =
     (let outputs = outputs_map results; fail = (\<lambda>kind. Inl (execute_error (Some kind))) in
      if outputs = [] then fail ''missing_output''
      else (case output_name outputs of Inl kind \<Rightarrow> fail kind
       | Inr output_id \<Rightarrow> (case output_collection decode (get_or_none outputs output_id) of Inl kind \<Rightarrow> fail kind
          | Inr c \<Rightarrow>
             if c = PNone then fail ''missing_output''
             else (case collection_features c of None \<Rightarrow> fail ''unreadable_output''
               | Some features \<Rightarrow>
                  if (case plain_int (collection_member c ''featureCount'') of None \<Rightarrow> False | Some n \<Rightarrow> n \<noteq> int (length features))
                  then fail ''unreadable_output''
                  else Inr \<lparr>oa_function = function, oa_job_id = job_id, oa_output_id = output_id, oa_features = features,
                            oa_srid = collection_srid c, oa_origin = None\<rparr>))))"

section \<open>The read-only source\<close>

definition refusal :: gp_exn where
  "refusal = execute_error (Some ''unsupported_output_operation'')"

text \<open>\<open>value not in (None, "", [], ())\<close>.\<close>

definition applied_option :: "pyval \<Rightarrow> bool" where
  "applied_option v \<longleftrightarrow> v \<noteq> PNone \<and> v \<noteq> PStr [] \<and> v \<noteq> PList [] \<and> v \<noteq> PTuple []"

definition check_query :: "pyval \<Rightarrow> (string, pyval) pydict \<Rightarrow> gp_exn + unit" where
  "check_query whr options = (if truthy whr then Inl refusal
     else if list_ex (\<lambda>(_, v). applied_option v) options then Inl refusal else Inr ())"

definition artifact_row :: "bool \<Rightarrow> (string, pyval) pydict \<Rightarrow> (string, pyval) pydict" where
  "artifact_row return_geometry f =
     [(''attributes'', PDict (case get_or_none f ''properties'' of PDict p \<Rightarrow> p | _ \<Rightarrow> []))] @
     (case get_or_none f ''geometry'' of PDict g \<Rightarrow> if return_geometry then [(''geometry'', PDict g)] else [] | _ \<Rightarrow> [])"

definition artifact_rows :: "output_artifact \<Rightarrow> bool \<Rightarrow> (string, pyval) pydict list" where
  "artifact_rows a return_geometry = map (artifact_row return_geometry) (oa_features a)"

text \<open>\<open>query\<close> and \<open>iter_features\<close> on keyword arguments; \<open>apply_edits\<close> always refuses.\<close>

definition kwargs_without :: "string set \<Rightarrow> (string, pyval) pydict \<Rightarrow> (string, pyval) pydict" where
  "kwargs_without names kwargs = filter (\<lambda>(k, _). k \<notin> names) kwargs"

definition artifact_query :: "output_artifact \<Rightarrow> (string, pyval) pydict \<Rightarrow> gp_exn + (string, pyval) pydict list \<times> nat" where
  "artifact_query a kwargs = bindE (check_query (get_or_none kwargs ''where'') (kwargs_without {''where''} kwargs)) (\<lambda>_.
     let rows = artifact_rows a True in Inr (rows, length rows))"

definition artifact_iter_features :: "output_artifact \<Rightarrow> (string, pyval) pydict \<Rightarrow> gp_exn + (string, pyval) pydict list" where
  "artifact_iter_features a kwargs =
     bindE (check_query (get_or_none kwargs ''where'') (kwargs_without {''where'', ''out_fields'', ''return_geometry''} kwargs)) (\<lambda>_.
       Inr (artifact_rows a (case dict_get kwargs ''return_geometry'' of None \<Rightarrow> True | Some v \<Rightarrow> truthy v)))"

definition artifact_apply_edits :: "output_artifact \<Rightarrow> gp_exn + unit" where
  "artifact_apply_edits a = Inl refusal"

section \<open>What a bound output answers\<close>

lemma collection_features_Some: "collection_features c = Some fs \<Longrightarrow>
    \<exists>d. c = PDict d \<and> get_or_none d ''type'' = PStr ''FeatureCollection'' \<and> get_or_none d ''features'' = PList (map PDict fs)"
proof -
  assume "collection_features c = Some fs"
  then obtain d xs where d: "c = PDict d" "get_or_none d ''features'' = PList xs" "get_or_none d ''type'' = PStr ''FeatureCollection''"
    and xs: "list_all is_mapping xs" "fs = map (\<lambda>f. case f of PDict m \<Rightarrow> m | _ \<Rightarrow> []) xs"
    by (auto simp: collection_features_def split: pyval.splits if_splits)
  have "map PDict fs = xs" using xs(1) unfolding xs(2) by (induction xs) (auto simp: is_mapping_def split: pyval.splits)
  then show ?thesis using d by auto
qed

text \<open>A bound job output is the server's collection: when a results document is accepted, its
  features are those of a FeatureCollection in it, in order, and as many as it declares; a query
  without options counts them all and yields one row per feature with its properties, and any
  where clause or edit is refused.\<close>

theorem output_artifact_faithful:
  assumes "read_output_artifact decode results function job_id = Inr a"
  shows "(\<exists>d. get_or_none d ''type'' = PStr ''FeatureCollection'' \<and> get_or_none d ''features'' = PList (map PDict (oa_features a)) \<and>
      get_or_none d ''featureCount'' \<in> {v. plain_int v = None} \<union> {PInt (int (length (oa_features a)))} \<and>
      output_collection decode (get_or_none (outputs_map results) (oa_output_id a)) = Inr (PDict d)) \<and>
    artifact_query a [] = Inr (artifact_rows a True, length (oa_features a)) \<and>
    map (\<lambda>r. get_or_none r ''attributes'') (artifact_rows a geo) =
      map (\<lambda>f. PDict (case get_or_none f ''properties'' of PDict p \<Rightarrow> p | _ \<Rightarrow> [])) (oa_features a) \<and>
    artifact_query a [(''where'', PStr (c # cs))] = Inl refusal \<and> artifact_apply_edits a = Inl refusal"
proof -
  obtain c where c: "output_collection decode (get_or_none (outputs_map results) (oa_output_id a)) = Inr c"
      "collection_features c = Some (oa_features a)"
      "case plain_int (collection_member c ''featureCount'') of None \<Rightarrow> True | Some n \<Rightarrow> n = int (length (oa_features a))"
    using assms by (auto simp: read_output_artifact_def Let_def split: if_splits sum.splits option.splits)
  obtain d where d: "c = PDict d" "get_or_none d ''type'' = PStr ''FeatureCollection''" "get_or_none d ''features'' = PList (map PDict (oa_features a))"
    using collection_features_Some [OF c(2)] by blast
  have "get_or_none d ''featureCount'' \<in> {v. plain_int v = None} \<union> {PInt (int (length (oa_features a)))}"
    using c(3) d(1) by (auto simp: collection_member_def plain_int_def split: pyval.splits)
  then show ?thesis
    using c(1) d by (auto simp: artifact_query_def check_query_def kwargs_without_def get_or_none_def dict_get_def artifact_rows_def
        artifact_row_def artifact_apply_edits_def comp_def)
qed

definition one_result :: pyval where
  "one_result = PDict [(''outputFeatureLayer'', PDict [(''value'', PDict [(''type'', PStr ''FeatureCollection''),
     (''featureCount'', PInt 1), (''features'', PList [PDict [(''properties'', PDict [(''n'', PInt 4)])]])])]), (''links'', PList [])]"

theorem output_artifact_faithful_witness:
  "\<exists>a. read_output_artifact (\<lambda>_. None) one_result ''analysis.Buffer'' ''j1'' = Inr a \<and>
     artifact_query a [] = Inr (artifact_rows a True, 1) \<and> oa_output_id a = ''outputFeatureLayer''"
proof -
  let ?a = "\<lparr>oa_function = ''analysis.Buffer'', oa_job_id = ''j1'', oa_output_id = ''outputFeatureLayer'',
     oa_features = [[(''properties'', PDict [(''n'', PInt 4)])]], oa_srid = None, oa_origin = None\<rparr>"
  have r: "read_output_artifact (\<lambda>_. None) one_result ''analysis.Buffer'' ''j1'' = Inr ?a" by code_simp
  from output_artifact_faithful [OF r] have "artifact_query ?a [] = Inr (artifact_rows ?a True, 1)" by simp
  with r show ?thesis by (intro exI [of _ ?a]) simp
qed

end
