(* ===== verification/Gp_Session.thy ===== *)
theory Gp_Session
  imports Output_Artifact Http_Client
begin

text \<open>
  \<open>_session.py\<close>: the module-global session, with its settings, lazily built clients, layer
  aliases and reserved output names. It extends the audit state, so one state carries the
  whole shim. The lock serialises the operations, which are therefore single steps.

  Everything outside the repository is one record: the environment, URL parsing and the IPv6
  loopback test of the SDK's transport rule, the client constructors, the OGC Processes
  accessor (\<open>None\<close> when the client has none), the IP address check of \<open>urlsplit\<close> and
  \<open>json.loads\<close>.
\<close>

record ('cl, 'ad, 'pr) gp_host =
  he_env :: "string \<Rightarrow> string option"
  he_url :: "string \<Rightarrow> http_url"
  he_ip6 :: "string \<Rightarrow> bool"
  he_client :: "string \<Rightarrow> (string, pyval) pydict \<Rightarrow> gp_exn + 'cl"
  he_admin :: "string \<Rightarrow> (string, pyval) pydict \<Rightarrow> gp_exn + 'ad"
  he_processes :: "'cl \<Rightarrow> 'pr option"
  he_ip_ok :: "string \<Rightarrow> bool"
  he_json :: "string \<Rightarrow> pyval option"

section \<open>Equality of values\<close>

text \<open>\<open>==\<close>: numbers by value across \<open>bool\<close>, \<open>int\<close> and \<open>float\<close>, dicts without regard to order.\<close>

definition numeric_value :: "pyval \<Rightarrow> pyfloat option" where
  "numeric_value v = (case v of PBool b \<Rightarrow> Some (FFinite (if b then 1 else 0)) | PInt i \<Rightarrow> Some (FFinite (of_int i))
     | PFloat w \<Rightarrow> Some (float_of_double w) | _ \<Rightarrow> None)"

function py_eq :: "pyval \<Rightarrow> pyval \<Rightarrow> bool" where
  "py_eq a b = (case (numeric_value a, numeric_value b) of
     (Some x, Some y) \<Rightarrow> x = y \<and> x \<noteq> FNan
   | (None, None) \<Rightarrow>
      (case a of
        PList xs \<Rightarrow> (case b of PList ys \<Rightarrow> length xs = length ys \<and> (\<forall>p \<in> set (zip xs ys). py_eq (fst p) (snd p)) | _ \<Rightarrow> False)
      | PTuple xs \<Rightarrow> (case b of PTuple ys \<Rightarrow> length xs = length ys \<and> (\<forall>p \<in> set (zip xs ys). py_eq (fst p) (snd p)) | _ \<Rightarrow> False)
      | PDict d \<Rightarrow> (case b of PDict e \<Rightarrow> length d = length e \<and>
            (\<forall>kv \<in> set d. case dict_get e (fst kv) of None \<Rightarrow> False | Some u \<Rightarrow> py_eq (snd kv) u) | _ \<Rightarrow> False)
      | _ \<Rightarrow> a = b)
   | _ \<Rightarrow> False)"
  by pat_completeness auto
termination
proof (relation "measure (\<lambda>p. size (fst p))")
  have pair: "size (fst p) < size (PList xs)" if "p \<in> set (zip xs ys)" for p :: "pyval \<times> pyval" and xs ys
    using that size_item(1) [of "fst p" xs] by (metis prod.collapse set_zip_leftD)
  show "a = PList xs \<Longrightarrow> p \<in> set (zip xs ys) \<Longrightarrow> ((fst p, snd p), a, b) \<in> measure (\<lambda>p. size (fst p))"
    and "a = PTuple xs \<Longrightarrow> p \<in> set (zip xs ys) \<Longrightarrow> ((fst p, snd p), a, b) \<in> measure (\<lambda>p. size (fst p))"
    for p a b and xs ys :: "pyval list" using pair [of p xs ys] by simp_all
  show "a = PDict d \<Longrightarrow> kv \<in> set d \<Longrightarrow> ((snd kv, u), a, b) \<in> measure (\<lambda>p. size (fst p))" for a b u kv and d :: "(string \<times> pyval) list"
    using size_dict_value [of "fst kv" "snd kv" d] by simp
qed simp

declare py_eq.simps [simp del]

section \<open>The session\<close>

record layer_alias =
  la_name :: string
  la_source :: string
  la_where :: pyval
  la_field_info :: pyval
  la_selection :: "(string, pyval) pydict"
  la_workspace :: pyval
  la_kind :: string
  la_output :: "output_artifact option"

record ('cl, 'ad, 'pr) gp_session = audit_state +
  ss_base_url :: "string option"
  ss_api_key :: "string option"
  ss_bearer_token :: "string option"
  ss_workspace :: pyval
  ss_overwrite_output :: bool
  ss_output_cs :: pyval
  ss_parallel :: pyval
  ss_scratch :: pyval
  ss_client_options :: "(string, pyval) pydict"
  ss_env_options :: "(string, pyval) pydict"
  ss_client :: "'cl option"
  ss_admin :: "'ad option"
  ss_processes :: "'pr option"
  ss_layers :: "(string, layer_alias) pydict"
  ss_unbound :: "(string, string) pydict"

subsection \<open>Configuring\<close>

text \<open>The keyword arguments of \<open>configure\<close>.\<close>

record ('cl, 'ad, 'pr) configure_args =
  ca_base_url :: "string option"
  ca_api_key :: "string option"
  ca_bearer_token :: "string option"
  ca_client :: "'cl option"
  ca_admin :: "'ad option"
  ca_processes :: "'pr option"
  ca_options :: "(string, pyval) pydict"

text \<open>A setting that is given and differs replaces the old one; the flag tells whether it did.\<close>

definition change_setting :: "string option \<Rightarrow> string option \<Rightarrow> string option \<times> bool" where
  "change_setting new old = (if new \<noteq> None \<and> new \<noteq> old then (new, True) else (old, False))"

definition configure_connection ::
  "('cl, 'ad, 'pr) configure_args \<Rightarrow> ('cl, 'ad, 'pr, 'z) gp_session_scheme \<Rightarrow> ('cl, 'ad, 'pr, 'z) gp_session_scheme \<times> bool" where
  "configure_connection a s =
     (let (url, c1) = change_setting (ca_base_url a) (ss_base_url s);
          (key, c2) = change_setting (ca_api_key a) (ss_api_key s);
          (bearer, c3) = change_setting (ca_bearer_token a) (ss_bearer_token s);
          merged = dict_update (ss_client_options s) (ca_options a);
          c4 = (ca_options a \<noteq> [] \<and> \<not> py_eq (PDict merged) (PDict (ss_client_options s)))
      in (s\<lparr>ss_base_url := url, ss_api_key := key, ss_bearer_token := bearer,
            ss_client_options := (if c4 then merged else ss_client_options s)\<rparr>, c1 \<or> c2 \<or> c3 \<or> c4))"

definition configure ::
  "('cl, 'ad, 'pr) configure_args \<Rightarrow> ('cl, 'ad, 'pr, 'z) gp_session_scheme \<Rightarrow> ('cl, 'ad, 'pr, 'z) gp_session_scheme" where
  "configure a s =
     (let (s1, changed) = configure_connection a s;
          s2 = (if changed then s1\<lparr>ss_client := None, ss_admin := None, ss_processes := None\<rparr> else s1);
          s3 = (case ca_client a of None \<Rightarrow> s2 | Some c \<Rightarrow> s2\<lparr>ss_client := Some c, ss_processes := None\<rparr>);
          s4 = (case ca_admin a of None \<Rightarrow> s3 | Some c \<Rightarrow> s3\<lparr>ss_admin := Some c\<rparr>)
      in (case ca_processes a of None \<Rightarrow> s4 | Some c \<Rightarrow> s4\<lparr>ss_processes := Some c\<rparr>))"

text \<open>A setting is given when it is a non-empty string.\<close>

definition given_text :: "string option \<Rightarrow> bool" where
  "given_text v \<longleftrightarrow> v \<noteq> None \<and> v \<noteq> Some []"

definition configure_from_env ::
  "('cl, 'ad, 'pr) gp_host \<Rightarrow> ('cl, 'ad, 'pr, 'z) gp_session_scheme \<Rightarrow> ('cl, 'ad, 'pr, 'z) gp_session_scheme" where
  "configure_from_env h s =
     (if given_text (he_env h ''HONUA_BASE_URL'')
      then configure \<lparr>ca_base_url = he_env h ''HONUA_BASE_URL'', ca_api_key = he_env h ''HONUA_API_KEY'',
             ca_bearer_token = he_env h ''HONUA_BEARER_TOKEN'', ca_client = None, ca_admin = None, ca_processes = None, ca_options = []\<rparr> s
      else s)"

definition bootstrap_from_env ::
  "('cl, 'ad, 'pr) gp_host \<Rightarrow> ('cl, 'ad, 'pr, 'z) gp_session_scheme \<Rightarrow> ('cl, 'ad, 'pr, 'z) gp_session_scheme" where
  "bootstrap_from_env h s =
     (if given_text (ss_base_url s) \<or> \<not> given_text (he_env h ''HONUA_BASE_URL'') then s
      else (let s1 = s\<lparr>ss_base_url := he_env h ''HONUA_BASE_URL''\<rparr>; or_none = (\<lambda>v. if given_text v then v else None) in
        if ss_api_key s = None \<and> ss_bearer_token s = None
        then s1\<lparr>ss_api_key := or_none (he_env h ''HONUA_API_KEY''), ss_bearer_token := or_none (he_env h ''HONUA_BEARER_TOKEN'')\<rparr>
        else s1))"

subsection \<open>Clients\<close>

definition client_kwargs :: "('cl, 'ad, 'pr, 'z) gp_session_scheme \<Rightarrow> (string, pyval) pydict" where
  "client_kwargs s =
     (let k1 = (case ss_api_key s of None \<Rightarrow> ss_client_options s | Some v \<Rightarrow> dict_setdefault (ss_client_options s) ''api_key'' (PStr v))
      in (case ss_bearer_token s of None \<Rightarrow> k1 | Some v \<Rightarrow> dict_setdefault k1 ''bearer_token'' (PStr v)))"

definition kwargs_have_credentials :: "(string, pyval) pydict \<Rightarrow> bool" where
  "kwargs_have_credentials kwargs \<longleftrightarrow> truthy (get_or_none kwargs ''api_key'') \<or> truthy (get_or_none kwargs ''bearer_token'') \<or>
     get_or_none kwargs ''auth_provider'' \<noteq> PNone"

definition ensure_secure_transport :: "('cl, 'ad, 'pr) gp_host \<Rightarrow> string \<Rightarrow> (string, pyval) pydict \<Rightarrow> gp_exn + unit" where
  "ensure_secure_transport h base_url kwargs =
     (case ensure_secure_credential_transport (he_ip6 h) (he_env h ''HONUA_ALLOW_INSECURE_HTTP'') (he_url h base_url)
             (kwargs_have_credentials kwargs) (truthy (get_or_none kwargs ''allow_insecure_http'')) of
        Inl _ \<Rightarrow> Inl configuration_error | Inr u \<Rightarrow> Inr u)"

text \<open>\<open>_build_client\<close> and \<open>_build_admin_client\<close> differ in the constructor \<open>ctor\<close> only.\<close>

definition build_with ::
  "('cl, 'ad, 'pr) gp_host \<Rightarrow> (string \<Rightarrow> (string, pyval) pydict \<Rightarrow> gp_exn + 'c) \<Rightarrow> ('cl, 'ad, 'pr, 'z) gp_session_scheme \<Rightarrow>
   (gp_exn + 'c) \<times> ('cl, 'ad, 'pr, 'z) gp_session_scheme" where
  "build_with h ctor s =
     (let s1 = bootstrap_from_env h s in
      (if given_text (ss_base_url s1)
       then (let url = the (ss_base_url s1); kwargs = client_kwargs s1
         in bindE (ensure_secure_transport h url kwargs) (\<lambda>_. ctor url kwargs))
       else Inl configuration_error, s1))"

definition build_client where
  "build_client h s = build_with h (he_client h) s"

definition build_admin_client where
  "build_admin_client h s = build_with h (he_admin h) s"

definition client ::
  "('cl, 'ad, 'pr) gp_host \<Rightarrow> ('cl, 'ad, 'pr, 'z) gp_session_scheme \<Rightarrow> (gp_exn + 'cl) \<times> ('cl, 'ad, 'pr, 'z) gp_session_scheme" where
  "client h s = (case ss_client s of Some c \<Rightarrow> (Inr c, s)
   | None \<Rightarrow> (case build_client h s of (Inl e, s1) \<Rightarrow> (Inl e, s1) | (Inr c, s1) \<Rightarrow> (Inr c, s1\<lparr>ss_client := Some c\<rparr>)))"

definition admin_client ::
  "('cl, 'ad, 'pr) gp_host \<Rightarrow> ('cl, 'ad, 'pr, 'z) gp_session_scheme \<Rightarrow> (gp_exn + 'ad) \<times> ('cl, 'ad, 'pr, 'z) gp_session_scheme" where
  "admin_client h s = (case ss_admin s of Some c \<Rightarrow> (Inr c, s)
   | None \<Rightarrow> (case build_admin_client h s of (Inl e, s1) \<Rightarrow> (Inl e, s1) | (Inr c, s1) \<Rightarrow> (Inr c, s1\<lparr>ss_admin := Some c\<rparr>)))"

definition processes_client ::
  "('cl, 'ad, 'pr) gp_host \<Rightarrow> ('cl, 'ad, 'pr, 'z) gp_session_scheme \<Rightarrow> (gp_exn + 'pr) \<times> ('cl, 'ad, 'pr, 'z) gp_session_scheme" where
  "processes_client h s = (case ss_processes s of Some p \<Rightarrow> (Inr p, s)
   | None \<Rightarrow> (case client h s of (Inl e, s1) \<Rightarrow> (Inl e, s1)
     | (Inr c, s1) \<Rightarrow> (case he_processes h c of None \<Rightarrow> (Inl configuration_error, s1)
        | Some p \<Rightarrow> (Inr p, s1\<lparr>ss_processes := Some p\<rparr>))))"

subsection \<open>Layer aliases and output names\<close>

definition register_layer ::
  "layer_alias \<Rightarrow> ('cl, 'ad, 'pr, 'z) gp_session_scheme \<Rightarrow> (gp_exn + layer_alias) \<times> ('cl, 'ad, 'pr, 'z) gp_session_scheme" where
  "register_layer alias s =
     (if \<not> ss_overwrite_output s \<and> dict_has (ss_layers s) (la_name alias) then (Inl configuration_error, s)
      else (Inr alias, s\<lparr>ss_layers := dict_set (ss_layers s) (la_name alias) alias, ss_unbound := dict_pop (ss_unbound s) (la_name alias)\<rparr>))"

definition get_layer :: "string \<Rightarrow> ('cl, 'ad, 'pr, 'z) gp_session_scheme \<Rightarrow> layer_alias option" where
  "get_layer name s = dict_get (ss_layers s) name"

definition mark_unbound_output :: "string \<Rightarrow> string \<Rightarrow> ('cl, 'ad, 'pr, 'z) gp_session_scheme \<Rightarrow> ('cl, 'ad, 'pr, 'z) gp_session_scheme" where
  "mark_unbound_output name reason s = s\<lparr>ss_unbound := dict_set (ss_unbound s) name reason\<rparr>"

definition unbound_output_reason :: "string \<Rightarrow> ('cl, 'ad, 'pr, 'z) gp_session_scheme \<Rightarrow> string option" where
  "unbound_output_reason name s = dict_get (ss_unbound s) name"

definition resolve_layer_or_source :: "string \<Rightarrow> ('cl, 'ad, 'pr, 'z) gp_session_scheme \<Rightarrow> string" where
  "resolve_layer_or_source name s = (case get_layer name s of None \<Rightarrow> name | Some a \<Rightarrow> la_source a)"

definition remove_layer :: "string \<Rightarrow> ('cl, 'ad, 'pr, 'z) gp_session_scheme \<Rightarrow> bool \<times> ('cl, 'ad, 'pr, 'z) gp_session_scheme" where
  "remove_layer name s = (dict_has (ss_layers s) name, s\<lparr>ss_layers := dict_pop (ss_layers s) name\<rparr>)"

definition list_layers :: "('cl, 'ad, 'pr, 'z) gp_session_scheme \<Rightarrow> string list" where
  "list_layers s = sorted_strings (dict_keys (ss_layers s))"

definition reset_session :: "('cl, 'ad, 'pr, 'z) gp_session_scheme \<Rightarrow> ('cl, 'ad, 'pr, 'z) gp_session_scheme" where
  "reset_session s = s\<lparr>ss_base_url := None, ss_api_key := None, ss_bearer_token := None, ss_workspace := PNone, ss_overwrite_output := False,
     ss_output_cs := PNone, ss_parallel := PNone, ss_scratch := PNone, ss_client_options := [], ss_env_options := [],
     ss_client := None, ss_admin := None, ss_processes := None, ss_layers := [], ss_unbound := []\<rparr>"

text \<open>\<open>output_source_for\<close>: an alias bound to a job output is served from it.\<close>

definition output_source_for :: "layer_alias option \<Rightarrow> output_artifact option" where
  "output_source_for alias = (case alias of None \<Rightarrow> None | Some a \<Rightarrow> la_output a)"

subsection \<open>\<open>env\<close>\<close>

definition env_aliases :: "string list" where
  "env_aliases = [''workspace'', ''scratchWorkspace'', ''outputCoordinateSystem'', ''overwriteOutput'', ''parallelProcessingFactor'']"

definition env_get :: "string \<Rightarrow> ('cl, 'ad, 'pr, 'z) gp_session_scheme \<Rightarrow> pyval" where
  "env_get name s =
     (if name = ''workspace'' then ss_workspace s
      else if name = ''scratchWorkspace'' then ss_scratch s
      else if name = ''outputCoordinateSystem'' then ss_output_cs s
      else if name = ''overwriteOutput'' then PBool (ss_overwrite_output s)
      else if name = ''parallelProcessingFactor'' then ss_parallel s
      else get_or_none (ss_env_options s) name)"

text \<open>The overwrite flag is only ever tested, so a value written to it is kept as its truth.\<close>

definition env_set :: "string \<Rightarrow> pyval \<Rightarrow> ('cl, 'ad, 'pr, 'z) gp_session_scheme \<Rightarrow> ('cl, 'ad, 'pr, 'z) gp_session_scheme" where
  "env_set name v s =
     (if name = ''workspace'' then s\<lparr>ss_workspace := v\<rparr>
      else if name = ''scratchWorkspace'' then s\<lparr>ss_scratch := v\<rparr>
      else if name = ''outputCoordinateSystem'' then s\<lparr>ss_output_cs := v\<rparr>
      else if name = ''overwriteOutput'' then s\<lparr>ss_overwrite_output := truthy v\<rparr>
      else if name = ''parallelProcessingFactor'' then s\<lparr>ss_parallel := v\<rparr>
      else s\<lparr>ss_env_options := dict_set (ss_env_options s) name v\<rparr>)"

section \<open>The clients of a session are current\<close>

text \<open>One public operation on the session, in an environment.\<close>

datatype ('cl, 'ad, 'pr) session_command =
    Configure "('cl, 'ad, 'pr) configure_args" | ConfigureFromEnv
  | NeedClient | NeedAdmin | NeedProcesses | Reset
  | SetEnv string pyval | RegisterLayer layer_alias | RemoveLayer string | MarkUnbound string string

fun session_step ::
  "('cl, 'ad, 'pr) gp_host \<Rightarrow> ('cl, 'ad, 'pr) session_command \<Rightarrow> ('cl, 'ad, 'pr) gp_session \<Rightarrow> ('cl, 'ad, 'pr) gp_session" where
  "session_step h (Configure a) s = configure a s"
| "session_step h ConfigureFromEnv s = configure_from_env h s"
| "session_step h NeedClient s = snd (client h s)"
| "session_step h NeedAdmin s = snd (admin_client h s)"
| "session_step h NeedProcesses s = snd (processes_client h s)"
| "session_step h Reset s = reset_session s"
| "session_step h (SetEnv name v) s = env_set name v s"
| "session_step h (RegisterLayer alias) s = snd (register_layer alias s)"
| "session_step h (RemoveLayer name) s = snd (remove_layer name s)"
| "session_step h (MarkUnbound name reason) s = mark_unbound_output name reason s"

text \<open>A run of commands, each with the environment it sees.\<close>

fun run_session ::
  "('cl, 'ad, 'pr) gp_host \<Rightarrow> ((string \<Rightarrow> string option) \<times> ('cl, 'ad, 'pr) session_command) list \<Rightarrow> ('cl, 'ad, 'pr) gp_session \<Rightarrow> ('cl, 'ad, 'pr) gp_session" where
  "run_session h [] s = s"
| "run_session h ((e, c) # cs) s = run_session h cs (session_step (h\<lparr>he_env := e\<rparr>) c s)"

definition new_session :: "('cl, 'ad, 'pr) gp_session" where
  "new_session = \<lparr>au_lines = [], ss_base_url = None, ss_api_key = None, ss_bearer_token = None, ss_workspace = PNone, ss_overwrite_output = False,
     ss_output_cs = PNone, ss_parallel = PNone, ss_scratch = PNone, ss_client_options = [], ss_env_options = [],
     ss_client = None, ss_admin = None, ss_processes = None, ss_layers = [], ss_unbound = []\<rparr>"

text \<open>\<open>built h mk s c\<close>: \<open>c\<close> is what the constructor gives for the settings of \<open>s\<close>, admitted by the transport rule.\<close>

definition built ::
  "('cl, 'ad, 'pr) gp_host \<Rightarrow> (string \<Rightarrow> (string, pyval) pydict \<Rightarrow> gp_exn + 'c) \<Rightarrow> ('cl, 'ad, 'pr) gp_session \<Rightarrow> 'c \<Rightarrow> bool" where
  "built h mk s c \<longleftrightarrow> (\<exists>url e. ss_base_url s = Some url \<and> url \<noteq> [] \<and>
     ensure_secure_transport (h\<lparr>he_env := e\<rparr>) url (client_kwargs s) = Inr () \<and> mk url (client_kwargs s) = Inr c)"

definition same_connection :: "('cl, 'ad, 'pr) gp_session \<Rightarrow> ('cl, 'ad, 'pr) gp_session \<Rightarrow> bool" where
  "same_connection s t \<longleftrightarrow> ss_base_url t = ss_base_url s \<and> ss_api_key t = ss_api_key s \<and> ss_bearer_token t = ss_bearer_token s \<and>
     ss_client_options t = ss_client_options s"

lemma client_kwargs_same: "same_connection s t \<Longrightarrow> client_kwargs t = client_kwargs s"
  by (simp add: client_kwargs_def same_connection_def Let_def split: option.split)

lemma built_same: "same_connection s t \<Longrightarrow> built h mk t c = built h mk s c"
  by (simp add: built_def client_kwargs_same) (simp add: same_connection_def)

lemma built_update [simp]:
  "built h mk (s\<lparr>ss_client := x\<rparr>) c = built h mk s c" "built h mk (s\<lparr>ss_admin := y\<rparr>) c = built h mk s c"
  "built h mk (s\<lparr>ss_processes := z\<rparr>) c = built h mk s c"
  by (auto intro!: built_same simp: same_connection_def)

definition session_inv ::
  "('cl, 'ad, 'pr) gp_host \<Rightarrow> ('cl \<Rightarrow> bool) \<Rightarrow> ('ad \<Rightarrow> bool) \<Rightarrow> ('pr \<Rightarrow> bool) \<Rightarrow> ('cl, 'ad, 'pr) gp_session \<Rightarrow> bool" where
  "session_inv h ic ia ip s \<longleftrightarrow>
     (\<forall>c. ss_client s = Some c \<longrightarrow> ic c \<or> built h (he_client h) s c) \<and>
     (\<forall>c. ss_admin s = Some c \<longrightarrow> ia c \<or> built h (he_admin h) s c) \<and>
     (\<forall>p. ss_processes s = Some p \<longrightarrow> ip p \<or> (\<exists>c. ss_client s = Some c \<and> he_processes h c = Some p))"

lemma session_inv_frame:
  "session_inv h ic ia ip s \<Longrightarrow> same_connection s t \<Longrightarrow> ss_client t = ss_client s \<Longrightarrow> ss_admin t = ss_admin s \<Longrightarrow>
    ss_processes t = ss_processes s \<Longrightarrow> session_inv h ic ia ip t"
  by (simp add: session_inv_def built_same)

lemma configure_connection_unchanged: "configure_connection a s = (s1, False) \<Longrightarrow> s1 = s"
  by (auto simp: configure_connection_def change_setting_def Let_def split: if_splits prod.splits)

lemma configure_inv:
  assumes inv: "session_inv h ic ia ip s"
    and "\<And>c. ca_client a = Some c \<Longrightarrow> ic c" "\<And>c. ca_admin a = Some c \<Longrightarrow> ia c" "\<And>p. ca_processes a = Some p \<Longrightarrow> ip p"
  shows "session_inv h ic ia ip (configure a s)"
proof -
  obtain s1 changed where s1: "configure_connection a s = (s1, changed)" by (cases "configure_connection a s")
  define s2 where "s2 = (if changed then s1\<lparr>ss_client := None, ss_admin := None, ss_processes := None\<rparr> else s1)"
  have i2: "session_inv h ic ia ip s2"
  proof (cases changed)
    case True
    then show ?thesis by (simp add: s2_def session_inv_def)
  next
    case False
    then show ?thesis using configure_connection_unchanged [of a s s1] s1 inv by (simp add: s2_def)
  qed
  have "configure a s =
     (let s3 = (case ca_client a of None \<Rightarrow> s2 | Some c \<Rightarrow> s2\<lparr>ss_client := Some c, ss_processes := None\<rparr>);
          s4 = (case ca_admin a of None \<Rightarrow> s3 | Some c \<Rightarrow> s3\<lparr>ss_admin := Some c\<rparr>)
      in (case ca_processes a of None \<Rightarrow> s4 | Some c \<Rightarrow> s4\<lparr>ss_processes := Some c\<rparr>))"
    by (simp only: configure_def s1 s2_def Let_def prod.case)
  then show ?thesis
    using i2 assms(2-) by (auto simp: session_inv_def Let_def split: option.splits)
qed

lemma bootstrap_keeps:
  "given_text (ss_base_url s) \<Longrightarrow> bootstrap_from_env h s = s"
  "ss_client (bootstrap_from_env h s) = ss_client s" "ss_admin (bootstrap_from_env h s) = ss_admin s"
  "ss_processes (bootstrap_from_env h s) = ss_processes s"
  by (simp_all add: bootstrap_from_env_def Let_def)

lemma built_given: "built h mk s c \<Longrightarrow> given_text (ss_base_url s)"
  by (auto simp: built_def given_text_def)

lemma bootstrap_inv: "session_inv h ic ia ip s \<Longrightarrow> session_inv h ic ia ip (bootstrap_from_env h' s)"
proof (cases "given_text (ss_base_url s)")
  case False
  assume i: "session_inv h ic ia ip s"
  from i False show ?thesis
    by (auto simp: session_inv_def bootstrap_keeps dest: built_given)
qed (simp add: bootstrap_keeps)

lemma build_with_built:
  "build_with (h\<lparr>he_env := e\<rparr>) mk s = (Inr c, s1) \<Longrightarrow> s1 = bootstrap_from_env (h\<lparr>he_env := e\<rparr>) s \<and> built h mk s1 c"
  by (auto simp: build_with_def Let_def given_text_def built_def bindE_eq_Inr split: if_splits)

lemma build_with_state: "snd (build_with h mk s) = bootstrap_from_env h s"
  by (simp add: build_with_def Let_def)

lemma client_inv:
  assumes "session_inv h ic ia ip s" "client (h\<lparr>he_env := e\<rparr>) s = (r, t)"
  shows "session_inv h ic ia ip t \<and> (\<forall>c. r = Inr c \<longrightarrow> ss_client t = Some c)"
proof (cases "ss_client s")
  case None
  obtain r1 s1 where b: "build_with (h\<lparr>he_env := e\<rparr>) (he_client h) s = (r1, s1)" by (cases "build_with (h\<lparr>he_env := e\<rparr>) (he_client h) s")
  then have s1: "session_inv h ic ia ip s1"
    using build_with_state [of "h\<lparr>he_env := e\<rparr>" "he_client h" s] bootstrap_inv [OF assms(1)] by simp
  have n: "ss_client s1 = None" "ss_processes s1 = None \<or> (\<exists>p. ss_processes s1 = Some p \<and> ip p)"
    using b build_with_state [of "h\<lparr>he_env := e\<rparr>" "he_client h" s] None s1
    by (auto simp: session_inv_def bootstrap_keeps)
  show ?thesis
  proof (cases r1)
    case (Inr c)
    have t: "t = s1\<lparr>ss_client := Some c\<rparr>" "r = Inr c" using assms(2) None b Inr by (auto simp: client_def build_client_def)
    have "built h (he_client h) s1 c" by (rule build_with_built [OF b [unfolded Inr], THEN conjunct2])
    then have "session_inv h ic ia ip t"
      using s1 n by (auto simp: t session_inv_def)
    then show ?thesis using t by simp
  qed (use assms(2) None b s1 in \<open>auto simp: client_def build_client_def\<close>)
qed (use assms in \<open>auto simp: client_def\<close>)

lemma admin_inv:
  assumes "session_inv h ic ia ip s" "admin_client (h\<lparr>he_env := e\<rparr>) s = (r, t)"
  shows "session_inv h ic ia ip t"
proof (cases "ss_admin s")
  case None
  obtain r1 s1 where b: "build_with (h\<lparr>he_env := e\<rparr>) (he_admin h) s = (r1, s1)" by (cases "build_with (h\<lparr>he_env := e\<rparr>) (he_admin h) s")
  then have s1: "session_inv h ic ia ip s1"
    using build_with_state [of "h\<lparr>he_env := e\<rparr>" "he_admin h" s] bootstrap_inv [OF assms(1)] by simp
  show ?thesis
  proof (cases r1)
    case (Inr c)
    have t: "t = s1\<lparr>ss_admin := Some c\<rparr>" using assms(2) None b Inr by (auto simp: admin_client_def build_admin_client_def)
    have "built h (he_admin h) s1 c" by (rule build_with_built [OF b [unfolded Inr], THEN conjunct2])
    then show ?thesis using s1 by (auto simp: t session_inv_def)
  qed (use assms(2) None b s1 in \<open>auto simp: admin_client_def build_admin_client_def\<close>)
qed (use assms in \<open>auto simp: admin_client_def\<close>)

lemma processes_inv:
  assumes "session_inv h ic ia ip s" "processes_client (h\<lparr>he_env := e\<rparr>) s = (r, t)"
  shows "session_inv h ic ia ip t"
proof (cases "ss_processes s")
  case None
  obtain r1 s1 where c: "client (h\<lparr>he_env := e\<rparr>) s = (r1, s1)" by (cases "client (h\<lparr>he_env := e\<rparr>) s")
  have s1: "session_inv h ic ia ip s1" "\<forall>c. r1 = Inr c \<longrightarrow> ss_client s1 = Some c" using client_inv [OF assms(1) c] by auto
  show ?thesis
    using assms(2) None c s1 by (auto simp: processes_client_def session_inv_def split: sum.splits option.splits)
qed (use assms in \<open>auto simp: processes_client_def\<close>)

text \<open>Which clients a run was handed explicitly.\<close>

definition handed :: "(('cl, 'ad, 'pr) configure_args \<Rightarrow> 'c option) \<Rightarrow> ((string \<Rightarrow> string option) \<times> ('cl, 'ad, 'pr) session_command) list \<Rightarrow> 'c \<Rightarrow> bool" where
  "handed field cs c \<longleftrightarrow> (\<exists>a. field a = Some c \<and> Configure a \<in> snd ` set cs)"

lemma handed_Cons:
  "handed field cs c \<Longrightarrow> handed field (ec # cs) c"
  "field a = Some c \<Longrightarrow> handed field ((e, Configure a) # cs) c"
  by (auto simp: handed_def)

lemma session_step_inv:
  assumes "session_inv h ic ia ip s"
    and "\<And>a. cmd = Configure a \<Longrightarrow> (\<forall>c. ca_client a = Some c \<longrightarrow> ic c) \<and> (\<forall>c. ca_admin a = Some c \<longrightarrow> ia c) \<and> (\<forall>p. ca_processes a = Some p \<longrightarrow> ip p)"
  shows "session_inv h ic ia ip (session_step (h\<lparr>he_env := e\<rparr>) cmd s)"
proof (cases cmd)
  case ConfigureFromEnv
  then show ?thesis using assms(1) by (auto simp: configure_from_env_def intro: configure_inv)
next
  case NeedClient
  then show ?thesis using client_inv [OF assms(1), of e "fst (client (h\<lparr>he_env := e\<rparr>) s)" "snd (client (h\<lparr>he_env := e\<rparr>) s)"] by simp
next
  case NeedAdmin
  then show ?thesis using admin_inv [OF assms(1), of e "fst (admin_client (h\<lparr>he_env := e\<rparr>) s)" "snd (admin_client (h\<lparr>he_env := e\<rparr>) s)"] by simp
next
  case NeedProcesses
  then show ?thesis using processes_inv [OF assms(1), of e "fst (processes_client (h\<lparr>he_env := e\<rparr>) s)" "snd (processes_client (h\<lparr>he_env := e\<rparr>) s)"] by simp
next
  case Reset
  then show ?thesis by (simp add: session_inv_def reset_session_def)
next
  case (SetEnv name v)
  have "session_inv h ic ia ip (env_set name v s)"
    by (rule session_inv_frame [OF assms(1)]) (simp_all add: env_set_def same_connection_def)
  with SetEnv show ?thesis by simp
next
  case (Configure a)
  note given = assms(2) [OF Configure]
  have "session_inv h ic ia ip (configure a s)"
    by (rule configure_inv [OF assms(1)]) (simp_all add: given)
  then show ?thesis by (simp add: Configure)
next
  case (RegisterLayer a)
  have "session_inv h ic ia ip (snd (register_layer a s))"
    by (rule session_inv_frame [OF assms(1)]) (simp_all add: register_layer_def same_connection_def)
  with RegisterLayer show ?thesis by simp
next
  case (RemoveLayer name)
  have "session_inv h ic ia ip (snd (remove_layer name s))"
    by (rule session_inv_frame [OF assms(1)]) (simp_all add: remove_layer_def same_connection_def)
  with RemoveLayer show ?thesis by simp
next
  case (MarkUnbound name reason)
  have "session_inv h ic ia ip (mark_unbound_output name reason s)"
    by (rule session_inv_frame [OF assms(1)]) (simp_all add: mark_unbound_output_def same_connection_def)
  with MarkUnbound show ?thesis by simp
qed

lemma run_session_inv:
  "session_inv h ic ia ip s \<Longrightarrow> (\<And>c. handed ca_client cs c \<Longrightarrow> ic c) \<Longrightarrow> (\<And>c. handed ca_admin cs c \<Longrightarrow> ia c) \<Longrightarrow>
    (\<And>p. handed ca_processes cs p \<Longrightarrow> ip p) \<Longrightarrow> session_inv h ic ia ip (run_session h cs s)"
proof (induction cs arbitrary: s)
  case (Cons ec cs)
  obtain e c where ec: "ec = (e, c)" by (cases ec)
  have "session_inv h ic ia ip (session_step (h\<lparr>he_env := e\<rparr>) c s)"
  proof (rule session_step_inv [OF Cons.prems(1)], intro conjI allI impI)
    show "ic x" if "c = Configure a" "ca_client a = Some x" for a x
      by (rule Cons.prems(2)) (simp add: ec that handed_Cons(2))
    show "ia x" if "c = Configure a" "ca_admin a = Some x" for a x
      by (rule Cons.prems(3)) (simp add: ec that handed_Cons(2))
    show "ip x" if "c = Configure a" "ca_processes a = Some x" for a x
      by (rule Cons.prems(4)) (simp add: ec that handed_Cons(2))
  qed
  then have "session_inv h ic ia ip (run_session h cs (session_step (h\<lparr>he_env := e\<rparr>) c s))"
    by (rule Cons.IH) (blast intro: Cons.prems(2-4) handed_Cons(1))+
  then show ?case by (simp add: ec)
qed simp

text \<open>After any sequence of session operations, in any environments, a data or admin client of the
  session that was not handed to \<open>configure\<close> is the one built from the base URL, credentials and
  options the session has now, and it was admitted by the rule that keeps credentials off plain
  HTTP; a processes client not handed over belongs to the data client of the session.\<close>

theorem session_clients_current:
  fixes h :: "('cl, 'ad, 'pr) gp_host"
  shows "session_inv h (handed ca_client cs) (handed ca_admin cs) (handed ca_processes cs) (run_session h cs new_session)"
  by (rule run_session_inv) (simp_all add: session_inv_def new_session_def)

text \<open>A reserved alias name is replaced only when \<open>env.overwriteOutput\<close> is set.\<close>

lemma register_layer_protects:
  assumes "register_layer alias s = (res, t)" "\<not> ss_overwrite_output s" "get_layer name s = Some old"
  shows "get_layer name t = Some old"
  using assms by (auto simp: register_layer_def get_layer_def dict_has_def split: if_splits)

end
