(* ===== verification/Gp_Resolve.thy ===== *)
theory Gp_Resolve
  imports Gp_Session
begin

text \<open>
  \<open>_resolve.py\<close>: workspace paths, layer names and URLs to sources, source descriptors and layer
  ids. The regular expressions are written out as scanners; the backtracking they allow has one
  outcome, as every alternative but the first fails.
\<close>

record resolved_source =
  rs_source :: string
  rs_kind :: string
  rs_workspace :: pyval
  rs_layer :: "string option"
  rs_raw :: "string option"
  rs_server_url :: "string option"

section \<open>Scanners\<close>

text \<open>\<open>$\<close> matches at the end and before a final newline; \<open>.\<close> matches no newline.\<close>

definition at_end :: "string \<Rightarrow> bool" where
  "at_end s \<longleftrightarrow> s = [] \<or> s = [CHR 0x0A]"

definition dot_star_end :: "string \<Rightarrow> bool" where
  "dot_star_end s \<longleftrightarrow> at_end (dropWhile (\<lambda>c. c \<noteq> CHR 0x0A) s)"

text \<open>\<open>^honua://(?P<rest>.+)$\<close>\<close>

definition is_honua_uri :: "string \<Rightarrow> bool" where
  "is_honua_uri path \<longleftrightarrow> str_startswith path ''honua://'' \<and>
     (let rest = drop 8 path in rest \<noteq> [] \<and> hd rest \<noteq> CHR 0x0A \<and> dot_star_end rest)"

text \<open>\<open>/FeatureServer/(?P<layer>\d+)/?(?:[?#].*)?$\<close>, ignoring case: the layer digits.\<close>

definition layer_tail :: "string \<Rightarrow> string option" where
  "layer_tail t =
     (let marker = ''/featureserver/''; rest = drop (length marker) t; digits = takeWhile char_is_digit rest;
          after = dropWhile char_is_digit rest; after' = (case after of c # r \<Rightarrow> if c = CHR ''/'' then r else after | [] \<Rightarrow> [])
      in if str_startswith (str_lower t) marker \<and> digits \<noteq> [] \<and>
            (at_end after' \<or> (after' \<noteq> [] \<and> (hd after' = CHR ''?'' \<or> hd after' = CHR ''#'') \<and> dot_star_end after'))
         then Some digits else None)"

text \<open>The shortest non-empty \<open>service\<close> (\<open>.+?\<close>) before a layer tail.\<close>

fun service_layer :: "string \<Rightarrow> string \<Rightarrow> (string \<times> string) option" where
  "service_layer acc [] = None"
| "service_layer acc (c # cs) =
     (if c = CHR 0x0A then None
      else (case layer_tail cs of Some layer \<Rightarrow> Some (rev (c # acc), layer) | None \<Rightarrow> service_layer (c # acc) cs))"

text \<open>\<open>(?:^|/)rest/services/...\<close> searched from left to right: start of the match, service and layer.\<close>

definition services_at :: "string \<Rightarrow> (string \<times> string) option" where
  "services_at t = (if str_startswith (str_lower t) ''rest/services/'' then service_layer [] (drop 14 t) else None)"

fun search_feature_layer :: "nat \<Rightarrow> string \<Rightarrow> (nat \<times> string \<times> string) option" where
  "search_feature_layer i [] = None"
| "search_feature_layer i (c # cs) =
     (case (if i = 0 then services_at (c # cs) else None) of
        Some m \<Rightarrow> Some (i, m)
      | None \<Rightarrow> (case (if c = CHR ''/'' then services_at cs else None) of
          Some m \<Rightarrow> Some (i, m) | None \<Rightarrow> search_feature_layer (Suc i) cs))"

text \<open>\<open>\.gdb([\/]|$)\<close>, ignoring case: the end of the first match.\<close>

fun container_end :: "string \<Rightarrow> nat \<Rightarrow> string \<Rightarrow> nat option" where
  "container_end ext i [] = None"
| "container_end ext i (c # cs) =
     (let t = c # cs; after = drop (length ext) t in
      if str_startswith (str_lower t) ext \<and> after \<noteq> [] \<and> (hd after = backslash \<or> hd after = CHR ''/'') then Some (i + length ext + 1)
      else if str_startswith (str_lower t) ext \<and> at_end after then Some (i + length ext)
      else container_end ext (Suc i) cs)"

section \<open>Resolving\<close>

text \<open>\<open>HONUA_GP_PATH_MAP\<close>: \<open>raw\<close> is the environment variable.\<close>

definition path_map :: "('cl, 'ad, 'pr) gp_host \<Rightarrow> (string, string) pydict" where
  "path_map h = (case he_env h ''HONUA_GP_PATH_MAP'' of None \<Rightarrow> [] | Some raw \<Rightarrow>
     if raw = [] then [] else (case he_json h raw of Some (PDict d) \<Rightarrow> map (\<lambda>(k, v). (k, py_str v)) d | _ \<Rightarrow> []))"

definition resolve_feature_server ::
  "('cl, 'ad, 'pr) gp_host \<Rightarrow> string \<Rightarrow> nat \<times> string \<times> string \<Rightarrow> gp_exn + resolved_source" where
  "resolve_feature_server h path m = (case m of (start, raw_service, layer) \<Rightarrow>
     let service = url_unquote (str_strip_chars {CHR ''/''} raw_service); prefix = take start path in
     if CHR ''/'' \<in> set service then Inl resolve_error
     else bindE (foreign (urlsplit (he_ip_ok h) prefix)) (\<lambda>u. Inr
       \<lparr>rs_source = ''honua://services/'' @ service @ ''/'' @ layer, rs_kind = ''honua-uri'', rs_workspace = PNone,
        rs_layer = Some layer, rs_raw = Some path,
        rs_server_url = (if up_scheme u \<noteq> [] \<and> up_netloc u \<noteq> [] then Some (str_rstrip_chars {CHR ''/''} prefix) else None)\<rparr>))"

definition absolute_workspace :: "string \<Rightarrow> string option" where
  "absolute_workspace normalized =
     (case (case container_end ''.gdb'' 0 normalized of Some e \<Rightarrow> Some e | None \<Rightarrow> container_end ''.sde'' 0 normalized) of
        None \<Rightarrow> None | Some e \<Rightarrow> Some (basename (take (e - 1) normalized)))"

definition in_memory_tail :: "string \<Rightarrow> string" where
  "in_memory_tail path = last (str_split_char backslash (last (str_split_char (CHR ''/'') path)))"

definition resolve_plain :: "('cl, 'ad, 'pr, 'z) gp_session_scheme \<Rightarrow> string \<Rightarrow> resolved_source" where
  "resolve_plain s path =
     (let lowered = str_lower path in
      if str_startswith lowered ''in_memory'' \<or> str_startswith lowered ''memory''
      then \<lparr>rs_source = ''in_memory:'' @ in_memory_tail path, rs_kind = ''in-memory'', rs_workspace = PNone, rs_layer = None,
            rs_raw = Some path, rs_server_url = None\<rparr>
      else if windows_absolute path \<or> str_startswith path ''/'' \<or> str_startswith path [backslash, backslash]
      then (let normalized = posix_path path; layer = basename normalized in
        \<lparr>rs_source = layer, rs_kind = ''absolute'',
         rs_workspace = (case absolute_workspace normalized of Some (c # cs) \<Rightarrow> PStr (c # cs) | _ \<Rightarrow> ss_workspace s),
         rs_layer = Some layer, rs_raw = Some path, rs_server_url = None\<rparr>)
      else \<lparr>rs_source = path, rs_kind = ''workspace-relative'', rs_workspace = ss_workspace s, rs_layer = Some path,
            rs_raw = Some path, rs_server_url = None\<rparr>)"

definition resolve_text ::
  "('cl, 'ad, 'pr) gp_host \<Rightarrow> ('cl, 'ad, 'pr, 'z) gp_session_scheme \<Rightarrow> string \<Rightarrow> gp_exn + resolved_source" where
  "resolve_text h s path = (case get_layer path s of
     Some a \<Rightarrow> Inr \<lparr>rs_source = la_source a, rs_kind = ''alias'', rs_workspace = la_workspace a, rs_layer = Some (la_name a),
                   rs_raw = Some path, rs_server_url = None\<rparr>
   | None \<Rightarrow>
      (let honua = (\<lambda>source. \<lparr>rs_source = source, rs_kind = ''honua-uri'', rs_workspace = PNone, rs_layer = None,
                             rs_raw = Some path, rs_server_url = None\<rparr>) in
       if unbound_output_reason path s \<noteq> None then Inl resolve_error
       else if is_honua_uri path then Inr (honua path)
       else (case dict_get (path_map h) path of Some source \<Rightarrow> Inr (honua source)
         | None \<Rightarrow> (case search_feature_layer 0 path of Some m \<Rightarrow> resolve_feature_server h path m
            | None \<Rightarrow> Inr (resolve_plain s path)))))"

definition resolve ::
  "('cl, 'ad, 'pr) gp_host \<Rightarrow> ('cl, 'ad, 'pr, 'z) gp_session_scheme \<Rightarrow> pyval \<Rightarrow> gp_exn + resolved_source" where
  "resolve h s path = (case path of
     PNone \<Rightarrow> Inl resolve_error
   | PStr p \<Rightarrow> resolve_text h s p
   | v \<Rightarrow> Inr \<lparr>rs_source = py_str v, rs_kind = ''passthrough'', rs_workspace = PNone, rs_layer = None, rs_raw = Some (py_str v),
              rs_server_url = None\<rparr>)"

definition resolve_or_register_output ::
  "('cl, 'ad, 'pr) gp_host \<Rightarrow> ('cl, 'ad, 'pr, 'z) gp_session_scheme \<Rightarrow> pyval \<Rightarrow>
   (gp_exn + resolved_source) \<times> ('cl, 'ad, 'pr, 'z) gp_session_scheme" where
  "resolve_or_register_output h s path = (case resolve h s path of
     Inl e \<Rightarrow> (Inl e, s)
   | Inr r \<Rightarrow> (case path of
        PStr name \<Rightarrow>
          if rs_kind r \<noteq> ''honua-uri''
          then (case register_layer \<lparr>la_name = name, la_source = rs_source r, la_where = PNone, la_field_info = PNone, la_selection = [],
                       la_workspace = py_or (rs_workspace r) (ss_workspace s), la_kind = ''layer'', la_output = None\<rparr> s of
                 (Inl e, s') \<Rightarrow> (Inl e, s') | (Inr _, s') \<Rightarrow> (Inr r, s'))
          else (Inr r, s)
      | _ \<Rightarrow> (Inr r, s)))"

section \<open>Descriptors\<close>

text \<open>\<open>hostname\<close> and \<open>port\<close> of a netloc, as \<open>urllib\<close> reads them; an unreadable port raises.\<close>

definition host_info :: "string \<Rightarrow> string \<times> string" where
  "host_info netloc =
     (let info = last (str_rsplit1 (CHR ''@'') netloc) in
      if CHR ''['' \<in> set info
      then (let (host, rest) = split_off (CHR '']'') (snd (split_off (CHR ''['') info)) in (host, snd (split_off (CHR '':'') rest)))
      else split_off (CHR '':'') info)"

definition url_hostname :: "string \<Rightarrow> string" where
  "url_hostname netloc = (let host = fst (host_info netloc) in
     str_lower (takeWhile (\<lambda>c. c \<noteq> CHR ''%'') host) @ dropWhile (\<lambda>c. c \<noteq> CHR ''%'') host)"

definition url_port_of :: "string \<Rightarrow> py_error + nat option" where
  "url_port_of netloc = (let port = snd (host_info netloc) in
     if port = [] then Inr None
     else if str_isdigit port \<and> digits_value port \<le> 65535 then Inr (Some (digits_value port)) else Inl ErrValue)"

definition server_key :: "('cl, 'ad, 'pr) gp_host \<Rightarrow> string \<Rightarrow> py_error + string \<times> string \<times> nat option \<times> string" where
  "server_key h url = bindE (urlsplit (he_ip_ok h) (str_strip url)) (\<lambda>u.
     let scheme = str_lower (up_scheme u);
         port = (case url_port_of (up_netloc u) of Inr (Some p) \<Rightarrow> Some p
           | _ \<Rightarrow> if scheme = ''http'' then Some 80 else if scheme = ''https'' then Some 443 else None)
     in Inr (scheme, str_lower (url_hostname (up_netloc u)), port,
             str_lower (str_rstrip_chars {CHR ''/''} (url_unquote (up_path u)))))"

definition require_configured_server ::
  "('cl, 'ad, 'pr) gp_host \<Rightarrow> resolved_source \<Rightarrow> ('cl, 'ad, 'pr, 'z) gp_session_scheme \<Rightarrow> gp_exn + unit" where
  "require_configured_server h r s = (case rs_server_url r of
     None \<Rightarrow> Inr ()
   | Some server \<Rightarrow>
      (let configured = (if given_text (ss_base_url s) then ss_base_url s else he_env h ''HONUA_BASE_URL'') in
       if \<not> given_text configured then Inr ()
       else bindE (foreign (server_key h server)) (\<lambda>a. bindE (foreign (server_key h (the configured))) (\<lambda>b.
         if a \<noteq> b then Inl resolve_error else Inr ()))))"

definition services_prefix :: string where
  "services_prefix = ''honua://services/''"

definition uri_parts :: "string \<Rightarrow> string list" where
  "uri_parts uri = filter (\<lambda>p. p \<noteq> []) (str_split_char (CHR ''/'') (drop (length services_prefix) uri))"

record source_descriptor =
  sd_id :: string
  sd_protocol :: string
  sd_service :: "string option"
  sd_layer :: "int option"

text \<open>The service and layer ids of a \<open>honua://services\<close> URI.\<close>

definition uri_locator :: "string \<Rightarrow> gp_exn + string option \<times> int option" where
  "uri_locator uri = (case uri_parts uri of
     [] \<Rightarrow> Inr (None, None)
   | [service] \<Rightarrow> Inr (Some service, None)
   | service # layer # _ \<Rightarrow> (case py_int_text layer of
        None \<Rightarrow> Inl resolve_error
      | Some i \<Rightarrow> if i < 0 then Inl resolve_error else Inr (Some service, Some i)))"

definition descriptor_locator ::
  "string \<Rightarrow> pyval \<Rightarrow> gp_exn + string option \<times> int option" where
  "descriptor_locator source workspace =
     (if str_startswith source services_prefix then uri_locator source
      else (case workspace of
          PStr w \<Rightarrow> if str_startswith w services_prefix
            then Inr ((case uri_parts w of [] \<Rightarrow> None | service # _ \<Rightarrow> Some service), Some 0)
            else Inr (Some source, Some 0)
        | _ \<Rightarrow> Inr (Some source, Some 0)))"

definition descriptor_mapping ::
  "('cl, 'ad, 'pr) gp_host \<Rightarrow> ('cl, 'ad, 'pr, 'z) gp_session_scheme \<Rightarrow> resolved_source \<Rightarrow> gp_exn + source_descriptor" where
  "descriptor_mapping h s r = bindE (require_configured_server h r s) (\<lambda>_.
     if str_startswith (rs_source r) output_source_prefix then Inl resolve_error
     else bindE (descriptor_locator (rs_source r) (py_or (rs_workspace r) (ss_workspace s))) (\<lambda>(service, layer).
       Inr \<lparr>sd_id = rs_source r, sd_protocol = ''geoservices-feature-service'', sd_service = service, sd_layer = layer\<rparr>))"

definition resolve_layer_id ::
  "('cl, 'ad, 'pr) gp_host \<Rightarrow> ('cl, 'ad, 'pr, 'z) gp_session_scheme \<Rightarrow> pyval \<Rightarrow> gp_exn + int" where
  "resolve_layer_id h s path = bindE (resolve h s path) (\<lambda>r. bindE (descriptor_mapping h s r) (\<lambda>d.
     case sd_layer d of None \<Rightarrow> Inl resolve_error | Some i \<Rightarrow> if i < 0 then Inl resolve_error else Inr i))"

section \<open>The forms of a layer name agree\<close>

text \<open>Characters a service name is written with here: letters, digits and \<open>_\<close>, \<open>.\<close>, \<open>-\<close>.\<close>

definition plain_name :: "string \<Rightarrow> bool" where
  "plain_name s \<longleftrightarrow> s \<noteq> [] \<and> list_all (\<lambda>c. char_is_alpha c \<or> char_is_digit c \<or> c \<in> set ''_.-'') s"

definition layer_uri :: "string \<Rightarrow> nat \<Rightarrow> string" where
  "layer_uri service n = services_prefix @ service @ ''/'' @ nat_digits n"

definition layer_path :: "string \<Rightarrow> nat \<Rightarrow> string" where
  "layer_path service n = ''rest/services/'' @ service @ ''/FeatureServer/'' @ nat_digits n"

lemma plain_name_chars: "plain_name s \<Longrightarrow> c \<in> set s \<Longrightarrow> c \<noteq> CHR ''/'' \<and> c \<noteq> CHR 0x0A \<and> c \<noteq> CHR ''%'' "
  by (auto simp: plain_name_def list_all_iff char_is_alpha_def)

lemma nat_digits_chars: "c \<in> set (nat_digits n) \<Longrightarrow> char_is_digit c"
  using nat_digits_isdigit [of n] by (simp add: list_all_iff)

lemma digit_chars: "char_is_digit c \<Longrightarrow> c \<noteq> CHR ''/'' \<and> c \<noteq> CHR 0x0A \<and> c \<noteq> CHR ''_'' \<and> c \<noteq> CHR ''-'' \<and> c \<noteq> CHR ''+''"
  by auto

lemma read_digits_all: "list_all char_is_digit ds \<Longrightarrow> read_digits ds = (ds, [])"
proof (induction ds rule: read_digits.induct)
  case (3 c d cs)
  then show ?case using digit_chars [of d] by auto
qed auto

lemma str_strip_digits: "list_all char_is_digit ds \<Longrightarrow> str_strip ds = ds"
proof -
  assume a: "list_all char_is_digit ds"
  have sp: "char_is_digit c \<Longrightarrow> \<not> char_is_space c" for c by (auto simp: char_is_digit_def char_is_space_def Let_def)
  have l: "list_all char_is_digit es \<Longrightarrow> str_lstrip es = es" for es using sp by (cases es) (auto simp: str_lstrip_def)
  have "list_all char_is_digit (rev ds)" using a by (simp add: list_all_iff)
  then show ?thesis using a l by (simp add: str_strip_def)
qed

lemma py_int_text_nat_digits: "py_int_text (nat_digits n) = Some (int n)"
proof -
  obtain c cs where c: "nat_digits n = c # cs" by (cases "nat_digits n") auto
  have d: "list_all char_is_digit (c # cs)" using nat_digits_isdigit [of n] c by simp
  then have "read_sign (str_strip (nat_digits n)) = (1, nat_digits n)"
    using digit_chars [of c] c by (simp add: str_strip_digits read_sign_def)
  then show ?thesis using read_digits_all [of "nat_digits n"] by (simp add: py_int_text_def)
qed

lemma uri_parts_layer: "plain_name s \<Longrightarrow> uri_parts (layer_uri s n) = [s, nat_digits n]"
proof -
  assume p: "plain_name s"
  then have "CHR ''/'' \<notin> set s" "s \<noteq> []" using plain_name_chars by (auto simp: plain_name_def)
  moreover have "CHR ''/'' \<notin> set (nat_digits n)" using nat_digits_chars digit_chars by blast
  ultimately have "str_split_char (CHR ''/'') (s @ CHR ''/'' # nat_digits n) = [s, nat_digits n]"
    by (simp add: str_split_char_append str_split_char_none)
  then show ?thesis using \<open>s \<noteq> []\<close> by (simp add: uri_parts_def layer_uri_def services_prefix_def)
qed

lemma descriptor_of_uri:
  assumes "plain_name s" "rs_source r = layer_uri s n" "rs_server_url r = None"
  shows "descriptor_mapping h sess r =
    Inr \<lparr>sd_id = layer_uri s n, sd_protocol = ''geoservices-feature-service'', sd_service = Some s, sd_layer = Some (int n)\<rparr>"
proof -
  have "str_startswith (layer_uri s n) services_prefix" by (simp add: str_startswith_iff layer_uri_def)
  moreover have "\<not> str_startswith (layer_uri s n) output_source_prefix"
    by (simp add: str_startswith_def layer_uri_def services_prefix_def output_source_prefix_def)
  ultimately show ?thesis
    using assms by (simp add: descriptor_mapping_def require_configured_server_def descriptor_locator_def uri_locator_def
        uri_parts_layer py_int_text_nat_digits)
qed

lemma char_lower_slash: "char_lower d = CHR ''/'' \<longleftrightarrow> d = CHR ''/''"
  by (cases d) (auto split: if_splits)

lemma layer_tail_digits: "layer_tail (''/FeatureServer/'' @ nat_digits n) = Some (nat_digits n)"
proof -
  have tw: "takeWhile char_is_digit (nat_digits n) = nat_digits n" and dw: "dropWhile char_is_digit (nat_digits n) = []"
    using nat_digits_chars by (auto simp: takeWhile_eq_all_conv dropWhile_eq_Nil_conv)
  show ?thesis by (simp add: layer_tail_def str_startswith_def str_lower_def at_end_def Let_def tw dw)
qed

lemma service_layer_plain:
  "list_all (\<lambda>c. c \<noteq> CHR ''/'' \<and> c \<noteq> CHR 0x0A) s \<Longrightarrow> s \<noteq> [] \<Longrightarrow>
    service_layer acc (s @ ''/FeatureServer/'' @ nat_digits n) = Some (rev acc @ s, nat_digits n)"
proof (induction s arbitrary: acc)
  case (Cons c s)
  show ?case
  proof (cases s)
    case Nil
    then show ?thesis using Cons.prems layer_tail_digits [of n] by simp
  next
    case (Cons d ds)
    have "d \<noteq> CHR ''/''" using Cons.prems Cons by simp
    then have "layer_tail (s @ ''/FeatureServer/'' @ nat_digits n) = None"
      using Cons by (simp add: layer_tail_def str_startswith_def str_lower_def char_lower_slash)
    then show ?thesis using Cons.IH [of "c # acc"] Cons.prems Cons by simp
  qed
qed simp

lemma quote_free: "CHR ''%'' \<notin> set s \<Longrightarrow> url_unquote s = s"
  by (induction s rule: url_unquote.induct) auto

lemma strip_free: "c \<notin> set s \<Longrightarrow> str_strip_chars {c} s = s"
proof -
  assume a: "c \<notin> set s"
  have d: "c \<notin> set t \<Longrightarrow> dropWhile (\<lambda>x. x \<in> {c}) t = t" for t by (cases t) auto
  show ?thesis using a d [of s] d [of "rev s"] by (simp add: str_strip_chars_def)
qed

lemma urlsplit_empty: "urlsplit ip [] = Inr \<lparr>up_scheme = [], up_netloc = [], up_path = [], up_query = [], up_fragment = []\<rparr>"
  by (simp add: urlsplit_def scheme_of_def split_off_def str_split1_def str_startswith_def)

lemma search_layer_path:
  assumes "plain_name s"
  shows "search_feature_layer 0 (layer_path s n) = Some (0, s, nat_digits n)"
proof -
  have "list_all (\<lambda>c. c \<noteq> CHR ''/'' \<and> c \<noteq> CHR 0x0A) s" "s \<noteq> []"
    using assms plain_name_chars by (auto simp: list_all_iff plain_name_def)
  from service_layer_plain [OF this, of "[]" n] have "services_at (layer_path s n) = Some (s, nat_digits n)"
    by (simp add: services_at_def layer_path_def str_startswith_def str_lower_def)
  moreover obtain c cs where "layer_path s n = c # cs" by (simp add: layer_path_def)
  ultimately show ?thesis by simp
qed

definition fresh_path :: "('cl, 'ad, 'pr) gp_host \<Rightarrow> ('cl, 'ad, 'pr) gp_session \<Rightarrow> string \<Rightarrow> bool" where
  "fresh_path h sess p \<longleftrightarrow> get_layer p sess = None \<and> unbound_output_reason p sess = None \<and> dict_get (path_map h) p = None"


definition quiet_host :: "(unit, unit, unit) gp_host" where
  "quiet_host = \<lparr>he_env = (\<lambda>_. None), he_url = (\<lambda>_. \<lparr>url_scheme = ''https'', url_host = ''h'', url_port = None\<rparr>), he_ip6 = (\<lambda>_. False),
     he_client = (\<lambda>_ _. Inr ()), he_admin = (\<lambda>_ _. Inr ()), he_processes = (\<lambda>_. Some ()), he_ip_ok = (\<lambda>_. True), he_json = (\<lambda>_. None)\<rparr>"


section \<open>Names that resolve elsewhere\<close>

text \<open>The workspace of a path that ends in a geodatabase loses its last character.\<close>

lemma container_path_workspace: "absolute_workspace ''/data/my.gdb'' = Some ''my.gd''"
  by code_simp

text \<open>Any name that begins with \<open>memory\<close> is taken for an in-memory layer.\<close>

lemma memory_prefix: "rs_source (resolve_plain s ''memory_care'') = ''in_memory:memory_care''"
proof -
  have "in_memory_tail ''memory_care'' = ''memory_care''" by code_simp
  then show ?thesis by (simp add: resolve_plain_def str_lower_def str_startswith_def Let_def)
qed

text \<open>A FeatureServer URL of another server than the configured one yields no descriptor.\<close>

lemma other_server_refused:
  assumes "rs_server_url r = Some server" "ss_base_url s = Some url" "url \<noteq> []"
    and "server_key h server = Inr a" "server_key h url = Inr b" "a \<noteq> b"
  shows "descriptor_mapping h s r = Inl resolve_error"
  using assms by (simp add: descriptor_mapping_def require_configured_server_def given_text_def foreign_def Let_def)

end
