(* ===== verification/Da_Cursors.thy ===== *)
theory Da_Cursors
  imports Gp_Resolve Edit_Buffer
begin

text \<open>
  \<open>da/__init__.py\<close>: the scripting-API cursors of the shim, from the fields of a row to the
  context manager with its audit record, its buffered edits and its failures.

  The remote source a client gives for a descriptor is outside the repository's shim: \<open>rm_open\<close>
  is \<open>client.source\<close>, \<open>rm_iter\<close> its \<open>iter_features\<close> (what the iterator will yield, up to a
  failure) and \<open>rm_edit\<close> its \<open>apply_edits\<close> on keyword arguments, with \<open>rm_editable\<close> and
  \<open>rm_has_source\<close> for the two \<open>hasattr\<close> tests. \<open>gw_ext\<close> is the state of the world behind them.
  The layer alias a cursor holds is shared with the session; the operations that read it take
  it as it is at that time.
\<close>

section \<open>Features and rows\<close>

text \<open>The shapes a source yields: an object with \<open>attributes\<close>, one with \<open>properties\<close>, a dict, or neither.\<close>

datatype da_feature =
    AttributesObject "(string, pyval) pydict" pyval pyval
  | PropertiesObject "(string, pyval) pydict" pyval pyval
  | DictFeature "(string, pyval) pydict"
  | BareObject pyval pyval

definition mapping_or_empty :: "pyval \<Rightarrow> (string, pyval) pydict" where
  "mapping_or_empty v = (case v of PDict d \<Rightarrow> d | _ \<Rightarrow> [])"

definition attrs_for_feature :: "da_feature \<Rightarrow> (string, pyval) pydict" where
  "attrs_for_feature f = (case f of AttributesObject a _ _ \<Rightarrow> a | PropertiesObject p _ _ \<Rightarrow> p
     | DictFeature d \<Rightarrow> mapping_or_empty (py_or (get_or_none d ''attributes'') (get_or_none d ''properties''))
     | BareObject _ _ \<Rightarrow> [])"

definition feature_geometry :: "da_feature \<Rightarrow> pyval" where
  "feature_geometry f = (case f of AttributesObject _ g _ \<Rightarrow> g | PropertiesObject _ g _ \<Rightarrow> g
     | DictFeature d \<Rightarrow> get_or_none d ''geometry'' | BareObject g _ \<Rightarrow> g)"

definition feature_id :: "da_feature \<Rightarrow> pyval" where
  "feature_id f = (case f of AttributesObject _ _ i \<Rightarrow> i | PropertiesObject _ _ i \<Rightarrow> i | DictFeature _ \<Rightarrow> PNone | BareObject _ i \<Rightarrow> i)"

definition da_oid_keys :: "string list" where
  "da_oid_keys = [''OBJECTID'', ''oid'', ''FID'']"

definition oid_from_attrs :: "(string, pyval) pydict \<Rightarrow> pyval" where
  "oid_from_attrs attrs = (case filter (dict_has attrs) da_oid_keys of [] \<Rightarrow> PNone | key # _ \<Rightarrow> get_or_none attrs key)"

definition oid_from_feature :: "da_feature \<Rightarrow> (string, pyval) pydict \<Rightarrow> pyval" where
  "oid_from_feature f attrs = (if feature_id f \<noteq> PNone then feature_id f else oid_from_attrs attrs)"

definition extract_oid :: "da_feature \<Rightarrow> pyval" where
  "extract_oid f = oid_from_feature f (attrs_for_feature f)"

text \<open>\<open>json.dumps\<close> with its default separators.\<close>

fun json_text :: "pyval \<Rightarrow> py_error + string" where
  "json_text (PList xs) = bindE (mapE json_text xs) (\<lambda>ts. Inr (''['' @ str_join '', '' ts @ '']''))"
| "json_text (PTuple xs) = bindE (mapE json_text xs) (\<lambda>ts. Inr (''['' @ str_join '', '' ts @ '']''))"
| "json_text (PDict d) = bindE (mapE (\<lambda>(k, v). bindE (json_text v) (\<lambda>t. Inr (json_string k @ '': '' @ t))) d)
     (\<lambda>ts. Inr (''{'' @ str_join '', '' ts @ ''}''))"
| "json_text v = json_dumps v"

definition is_shape_field :: "string \<Rightarrow> bool" where
  "is_shape_field field \<longleftrightarrow> str_upper field \<in> {''SHAPE@'', ''SHAPE@JSON''}"

definition shape_value :: "pyval \<Rightarrow> string \<Rightarrow> pyval" where
  "shape_value geometry tok =
     (if geometry = PNone then PNone
      else if tok = ''SHAPE@JSON'' then (case json_text geometry of Inr t \<Rightarrow> PStr t | Inl _ \<Rightarrow> PNone)
      else geometry)"

definition values_for_row :: "da_feature \<Rightarrow> string list \<Rightarrow> pyval list" where
  "values_for_row f names = (let attrs = attrs_for_feature f; geometry = feature_geometry f in
     map (\<lambda>field. if is_shape_field field then shape_value geometry (str_upper field)
        else if str_upper field = ''OID@'' then oid_from_feature f attrs else get_or_none attrs field) names)"

text \<open>The loop of \<open>_payload_for_row\<close> over the values and fields, from the attributes and geometry so far.\<close>

fun payload_loop ::
  "(string \<Rightarrow> pyval option) \<Rightarrow> (pyval \<times> string) list \<Rightarrow> (string, pyval) pydict \<Rightarrow> pyval \<Rightarrow> (string, pyval) pydict \<times> pyval" where
  "payload_loop loads [] attributes geometry = (attributes, geometry)"
| "payload_loop loads ((value, field) # rest) attributes geometry =
     (if is_shape_field field
      then payload_loop loads rest attributes (case value of
             PStr s \<Rightarrow> if str_upper field = ''SHAPE@JSON'' then (case loads s of None \<Rightarrow> PNone | Some v \<Rightarrow> v) else value
           | _ \<Rightarrow> value)
      else if str_upper field = ''OID@'' then payload_loop loads rest (dict_set attributes ''OBJECTID'' value) geometry
      else payload_loop loads rest (dict_set attributes field value) geometry)"

definition payload_for_row ::
  "(string \<Rightarrow> pyval option) \<Rightarrow> pyval list \<Rightarrow> string list \<Rightarrow> gp_exn + (string, pyval) pydict" where
  "payload_for_row loads row names =
     (if length row \<noteq> length names then Inl configuration_error
      else (case payload_loop loads (zip row names) [] PNone of (attributes, geometry) \<Rightarrow>
        Inr ([(''attributes'', PDict attributes)] @ (if geometry \<noteq> PNone then [(''geometry'', geometry)] else []))))"

section \<open>Query arguments\<close>

definition combine_where :: "pyval list \<Rightarrow> string option" where
  "combine_where clauses =
     (case filter (\<lambda>c. str_strip c \<noteq> []) (List.map_filter as_str clauses) of
        [] \<Rightarrow> None | [c] \<Rightarrow> Some c
      | parts \<Rightarrow> Some (str_join '' AND '' (map (\<lambda>c. ''('' @ c @ '')'') parts)))"

text \<open>\<open>dict.fromkeys\<close> keeps the first occurrence of each name.\<close>

definition first_occurrences :: "string list \<Rightarrow> string list" where
  "first_occurrences xs = rev (remdups (rev xs))"

definition out_fields_for_cursor :: "string list \<Rightarrow> string list option" where
  "out_fields_for_cursor names =
     (if ''*'' \<in> set names then None
      else (let out = map (\<lambda>f. if str_upper f = ''OID@'' then ''OBJECTID'' else f) (filter (\<lambda>f. \<not> is_shape_field f) names)
        in if out = [] then None else Some (first_occurrences out)))"

definition return_geometry_for_cursor :: "string list \<Rightarrow> bool" where
  "return_geometry_for_cursor names = list_ex is_shape_field names"

text \<open>\<open>value in (None, "") or not str(value).strip()\<close>.\<close>

definition blank_clause :: "pyval \<Rightarrow> bool" where
  "blank_clause v \<longleftrightarrow> v = PNone \<or> v = PStr [] \<or> str_strip (py_str v) = []"

definition order_by_text :: "pyval \<Rightarrow> gp_exn + string option" where
  "order_by_text post_clause =
     (let t = str_strip (py_str post_clause); marker = ''ORDER BY ''; order_by = str_strip (drop (length marker) t) in
      if str_startswith (str_upper t) marker \<and> order_by \<noteq> [] then Inr (Some order_by) else Inl unsupported_error)"

definition order_by_from_sql_clause :: "pyval \<Rightarrow> gp_exn + string option" where
  "order_by_from_sql_clause sql_clause =
     (if sql_clause = PNone then Inr None
      else (case (case sql_clause of PTuple xs \<Rightarrow> xs | PList xs \<Rightarrow> xs | _ \<Rightarrow> []) of
        [pre_clause, post_clause] \<Rightarrow>
          if \<not> blank_clause pre_clause then Inl unsupported_error
          else if blank_clause post_clause then Inr None else order_by_text post_clause
      | _ \<Rightarrow> Inl unsupported_error))"

section \<open>Cursors\<close>

record ('cl, 'ad, 'pr, 'x) gp_world = "('cl, 'ad, 'pr) gp_session" +
  gw_ext :: 'x

record ('cl, 'x) remote =
  rm_has_source :: "'cl \<Rightarrow> bool"
  rm_open :: "'cl \<Rightarrow> source_descriptor \<Rightarrow> gp_exn option"
  rm_iter :: "'cl \<Rightarrow> source_descriptor \<Rightarrow> (string, pyval) pydict \<Rightarrow> 'x \<Rightarrow> (gp_exn + (gp_exn + da_feature) list) \<times> 'x"
  rm_editable :: "'cl \<Rightarrow> source_descriptor \<Rightarrow> bool"
  rm_edit :: "'cl \<Rightarrow> source_descriptor \<Rightarrow> (string, pyval) pydict \<Rightarrow> 'x \<Rightarrow> (gp_exn + pyval) \<times> 'x"

datatype 'cl da_source = ArtifactSource output_artifact | RemoteSource 'cl source_descriptor

datatype cursor_kind = SearchCursor | UpdateCursor | InsertCursor

record 'cl da_cursor =
  dc_kind :: cursor_kind
  dc_table :: string
  dc_fields :: "string list"
  dc_where :: pyval
  dc_extra :: "(string, pyval) pydict"
  dc_recording :: bool
  dc_record :: "audit_line option"
  dc_entered :: bool
  dc_closed :: bool
  dc_source :: "'cl da_source option"
  dc_iterator :: "(gp_exn + da_feature) list option"
  dc_current :: "da_feature option"
  dc_adds :: "(string, pyval) pydict list"
  dc_updates :: "(string, pyval) pydict list"
  dc_deletes :: "pyval list"
  dc_count :: nat
  dc_updated :: nat
  dc_deleted :: nat
  dc_inserted :: nat

definition qualified_name :: "cursor_kind \<Rightarrow> string" where
  "qualified_name k = (case k of SearchCursor \<Rightarrow> ''da.SearchCursor'' | UpdateCursor \<Rightarrow> ''da.UpdateCursor'' | InsertCursor \<Rightarrow> ''da.InsertCursor'')"

text \<open>Field names given as one string are one field.\<close>

definition make_cursor :: "cursor_kind \<Rightarrow> string \<Rightarrow> string + string list \<Rightarrow> pyval \<Rightarrow> (string, pyval) pydict \<Rightarrow> 'cl da_cursor" where
  "make_cursor kind table field_names whr extra =
     \<lparr>dc_kind = kind, dc_table = table, dc_fields = (case field_names of Inl f \<Rightarrow> [f] | Inr fs \<Rightarrow> fs), dc_where = whr, dc_extra = extra,
      dc_recording = False, dc_record = None, dc_entered = False, dc_closed = False, dc_source = None, dc_iterator = None,
      dc_current = None, dc_adds = [], dc_updates = [], dc_deletes = [], dc_count = 0, dc_updated = 0, dc_deleted = 0, dc_inserted = 0\<rparr>"

definition make_search_cursor :: "string \<Rightarrow> string + string list \<Rightarrow> pyval \<Rightarrow> pyval \<Rightarrow> pyval \<Rightarrow> pyval \<Rightarrow> 'cl da_cursor" where
  "make_search_cursor table field_names whr spatial_reference explode_to_points sql_clause = make_cursor SearchCursor table field_names whr
     [(''spatial_reference'', spatial_reference), (''explode_to_points'', explode_to_points), (''sql_clause'', sql_clause)]"

text \<open>\<open>_wrap_source_error\<close> behind the two \<open>except\<close> clauses of every source call.\<close>

definition wrap_source_error :: "gp_exn \<Rightarrow> gp_exn" where
  "wrap_source_error e = (case e of Foreign c _ \<Rightarrow> execute_error (Some c) | _ \<Rightarrow> e)"

definition client_source ::
  "('cl, 'ad, 'pr) gp_host \<Rightarrow> ('cl, 'x) remote \<Rightarrow> string \<Rightarrow> ('cl, 'ad, 'pr, 'x) gp_world \<Rightarrow>
   (gp_exn + 'cl da_source) \<times> ('cl, 'ad, 'pr, 'x) gp_world" where
  "client_source h rm name w = (let alias = get_layer name w in
     case output_source_for alias of
       Some a \<Rightarrow> (Inr (ArtifactSource a), w)
     | None \<Rightarrow> (case client h w of
          (Inl e, w1) \<Rightarrow> (Inl e, w1)
        | (Inr c, w1) \<Rightarrow>
           (if \<not> rm_has_source rm c then Inl configuration_error
            else bindE (resolve h w1 (PStr (case alias of None \<Rightarrow> name | Some a \<Rightarrow> la_name a))) (\<lambda>r.
              bindE (descriptor_mapping h w1 r) (\<lambda>d. case rm_open rm c d of Some e \<Rightarrow> Inl e | None \<Rightarrow> Inr (RemoteSource c d))), w1)))"

text \<open>\<open>_open\<close>: write cursors refuse a job output.\<close>

definition open_source ::
  "('cl, 'ad, 'pr) gp_host \<Rightarrow> ('cl, 'x) remote \<Rightarrow> 'cl da_cursor \<Rightarrow> ('cl, 'ad, 'pr, 'x) gp_world \<Rightarrow>
   gp_exn option \<times> 'cl da_cursor \<times> ('cl, 'ad, 'pr, 'x) gp_world" where
  "open_source h rm c w = (case client_source h rm (dc_table c) w of
     (Inl e, w1) \<Rightarrow> (Some e, c, w1)
   | (Inr src, w1) \<Rightarrow>
      ((case src of ArtifactSource _ \<Rightarrow> if dc_kind c = SearchCursor then None else Some refusal | RemoteSource _ _ \<Rightarrow> None),
       c\<lparr>dc_source := Some src\<rparr>, w1))"

definition cursor_enter ::
  "('cl, 'ad, 'pr) gp_host \<Rightarrow> ('cl, 'x) remote \<Rightarrow> 'cl da_cursor \<Rightarrow> ('cl, 'ad, 'pr, 'x) gp_world \<Rightarrow>
   gp_exn option \<times> 'cl da_cursor \<times> ('cl, 'ad, 'pr, 'x) gp_world" where
  "cursor_enter h rm c w =
     (case record_open (he_ip_ok h) (qualified_name (dc_kind c)) [PStr (dc_table c), PList (map PStr (dc_fields c)), dc_where c] (dc_extra c) of
        Inl e \<Rightarrow> (Some e, c, w)
      | Inr line \<Rightarrow> (case open_source h rm (c\<lparr>dc_recording := True, dc_record := Some line, dc_entered := True\<rparr>) w of
          (None, c1, w1) \<Rightarrow> (None, c1, w1)
        | (Some e, c1, w1) \<Rightarrow> (Some e, c1\<lparr>dc_recording := False, dc_entered := False, dc_closed := True\<rparr>, record_close (Some e) line w1)))"

definition ensure_open :: "'cl da_cursor \<Rightarrow> gp_exn option" where
  "ensure_open c = (if dc_entered c then None else Some configuration_error)"

section \<open>Reading\<close>

definition where_kwargs :: "pyval \<Rightarrow> 'cl da_cursor \<Rightarrow> (string, pyval) pydict" where
  "where_kwargs alias_where c =
     (case combine_where [alias_where, dc_where c] of None \<Rightarrow> [] | Some w \<Rightarrow> if w = [] then [] else [(''where'', PStr w)]) @
     (case out_fields_for_cursor (dc_fields c) of None \<Rightarrow> [] | Some fs \<Rightarrow> [(''out_fields'', PTuple (map PStr fs))]) @
     [(''return_geometry'', PBool (return_geometry_for_cursor (dc_fields c)))]"

definition search_query_kwargs :: "pyval \<Rightarrow> 'cl da_cursor \<Rightarrow> gp_exn + (string, pyval) pydict" where
  "search_query_kwargs alias_where c =
     (let sr = get_or_none (dc_extra c) ''spatial_reference''; k1 = where_kwargs alias_where c @ (if sr \<noteq> PNone then [(''out_sr'', sr)] else []) in
      if truthy (get_or_none (dc_extra c) ''explode_to_points'') then Inl unsupported_error
      else bindE (order_by_from_sql_clause (get_or_none (dc_extra c) ''sql_clause'')) (\<lambda>order_by.
        Inr (k1 @ (case order_by of None \<Rightarrow> [] | Some t \<Rightarrow> [(''order_by'', PStr t)]))))"

definition cursor_query_kwargs :: "pyval \<Rightarrow> 'cl da_cursor \<Rightarrow> gp_exn + (string, pyval) pydict" where
  "cursor_query_kwargs alias_where c = (if dc_kind c = SearchCursor then search_query_kwargs alias_where c else Inr (where_kwargs alias_where c))"

definition alias_where_of :: "layer_alias option \<Rightarrow> pyval" where
  "alias_where_of alias = (case alias of None \<Rightarrow> PNone | Some a \<Rightarrow> la_where a)"

definition source_iter ::
  "('cl, 'x) remote \<Rightarrow> 'cl da_source \<Rightarrow> (string, pyval) pydict \<Rightarrow> ('cl, 'ad, 'pr, 'x) gp_world \<Rightarrow>
   (gp_exn + (gp_exn + da_feature) list) \<times> ('cl, 'ad, 'pr, 'x) gp_world" where
  "source_iter rm src kwargs w = (case src of
     ArtifactSource a \<Rightarrow> (bindE (artifact_iter_features a kwargs) (\<lambda>rows. Inr (map (\<lambda>r. Inr (DictFeature r)) rows)), w)
   | RemoteSource c d \<Rightarrow> (case rm_iter rm c d kwargs (gw_ext w) of (res, x) \<Rightarrow> (res, w\<lparr>gw_ext := x\<rparr>)))"

text \<open>\<open>self._iterator\<close>, created on the first \<open>__next__\<close>. Without a source Python raises \<open>AttributeError\<close>, wrapped.\<close>

definition ensure_iterator ::
  "('cl, 'x) remote \<Rightarrow> layer_alias option \<Rightarrow> 'cl da_cursor \<Rightarrow> ('cl, 'ad, 'pr, 'x) gp_world \<Rightarrow>
   (gp_exn + (gp_exn + da_feature) list) \<times> ('cl, 'ad, 'pr, 'x) gp_world" where
  "ensure_iterator rm alias c w = (case dc_iterator c of Some it \<Rightarrow> (Inr it, w)
   | None \<Rightarrow> (case cursor_query_kwargs (alias_where_of alias) c of
        Inl e \<Rightarrow> (Inl (wrap_source_error e), w)
      | Inr kwargs \<Rightarrow> (case dc_source c of
          None \<Rightarrow> (Inl (execute_error (Some ''AttributeError'')), w)
        | Some src \<Rightarrow> (case source_iter rm src kwargs w of (Inl e, w1) \<Rightarrow> (Inl (wrap_source_error e), w1) | (Inr it, w1) \<Rightarrow> (Inr it, w1)))))"

definition counts_shape :: "'cl da_cursor \<Rightarrow> pyval" where
  "counts_shape c = shape_of (PDict (case dc_kind c of
     SearchCursor \<Rightarrow> [(''rows'', PInt (int (dc_count c)))]
   | UpdateCursor \<Rightarrow> [(''rows'', PInt (int (dc_count c))), (''updates'', PInt (int (dc_updated c))), (''deletes'', PInt (int (dc_deleted c)))]
   | InsertCursor \<Rightarrow> [(''inserts'', PInt (int (dc_inserted c)))]))"

definition set_result_shape :: "'cl da_cursor \<Rightarrow> 'cl da_cursor" where
  "set_result_shape c = c\<lparr>dc_record := map_option (\<lambda>line. dict_set line ''result_shape'' (counts_shape c)) (dc_record c)\<rparr>"

datatype 'a cursor_step = Raised gp_exn | StopIteration | Done 'a

definition cursor_next ::
  "('cl, 'x) remote \<Rightarrow> layer_alias option \<Rightarrow> 'cl da_cursor \<Rightarrow> ('cl, 'ad, 'pr, 'x) gp_world \<Rightarrow>
   pyval list cursor_step \<times> 'cl da_cursor \<times> ('cl, 'ad, 'pr, 'x) gp_world" where
  "cursor_next rm alias c w = (case ensure_open c of Some e \<Rightarrow> (Raised e, c, w)
   | None \<Rightarrow> (case ensure_iterator rm alias c w of
        (Inl e, w1) \<Rightarrow> (Raised e, c, w1)
      | (Inr [], w1) \<Rightarrow> (StopIteration, set_result_shape (c\<lparr>dc_iterator := Some []\<rparr>), w1)
      | (Inr (Inl e # _), w1) \<Rightarrow> (Raised (wrap_source_error e), c\<lparr>dc_iterator := Some []\<rparr>, w1)
      | (Inr (Inr f # it), w1) \<Rightarrow>
          (Done (values_for_row f (dc_fields c)),
           (if dc_kind c = UpdateCursor then c\<lparr>dc_iterator := Some it, dc_current := Some f, dc_count := Suc (dc_count c)\<rparr>
            else c\<lparr>dc_iterator := Some it, dc_count := Suc (dc_count c)\<rparr>), w1)))"

definition cursor_reset :: "'cl da_cursor \<Rightarrow> gp_exn option \<times> 'cl da_cursor" where
  "cursor_reset c = (case ensure_open c of Some e \<Rightarrow> (Some e, c)
   | None \<Rightarrow> (case dc_kind c of
        SearchCursor \<Rightarrow> (None, c\<lparr>dc_iterator := None, dc_count := 0\<rparr>)
      | UpdateCursor \<Rightarrow> (None, c\<lparr>dc_iterator := None, dc_current := None, dc_count := 0\<rparr>)
      | InsertCursor \<Rightarrow> (Some configuration_error, c)))"

section \<open>Writing\<close>

text \<open>\<open>payload.setdefault("attributes", {})["OBJECTID"] = oid\<close> on a payload of \<open>_payload_for_row\<close>.\<close>

definition set_payload_oid :: "(string, pyval) pydict \<Rightarrow> pyval \<Rightarrow> (string, pyval) pydict" where
  "set_payload_oid payload oid = dict_set payload ''attributes'' (PDict (dict_set (mapping_or_empty (get_or_none payload ''attributes'')) ''OBJECTID'' oid))"

definition da_update_row :: "(string \<Rightarrow> pyval option) \<Rightarrow> pyval list \<Rightarrow> 'cl da_cursor \<Rightarrow> gp_exn option \<times> 'cl da_cursor" where
  "da_update_row loads row c = (case ensure_open c of Some e \<Rightarrow> (Some e, c)
   | None \<Rightarrow> (case dc_current c of None \<Rightarrow> (Some configuration_error, c)
     | Some f \<Rightarrow> (case payload_for_row loads row (dc_fields c) of Inl e \<Rightarrow> (Some e, c)
        | Inr payload \<Rightarrow>
            if extract_oid f = PNone then (Some configuration_error, c)
            else (None, c\<lparr>dc_updates := dc_updates c @ [set_payload_oid payload (extract_oid f)], dc_updated := Suc (dc_updated c)\<rparr>))))"

definition da_delete_row :: "'cl da_cursor \<Rightarrow> gp_exn option \<times> 'cl da_cursor" where
  "da_delete_row c = (case ensure_open c of Some e \<Rightarrow> (Some e, c)
   | None \<Rightarrow> (case dc_current c of None \<Rightarrow> (Some configuration_error, c)
     | Some f \<Rightarrow> if extract_oid f = PNone then (Some configuration_error, c)
         else (None, c\<lparr>dc_deletes := dc_deletes c @ [extract_oid f], dc_deleted := Suc (dc_deleted c)\<rparr>)))"

definition da_insert_row :: "(string \<Rightarrow> pyval option) \<Rightarrow> pyval list \<Rightarrow> 'cl da_cursor \<Rightarrow> (gp_exn + nat) \<times> 'cl da_cursor" where
  "da_insert_row loads row c = (case ensure_open c of Some e \<Rightarrow> (Inl e, c)
   | None \<Rightarrow> (case payload_for_row loads row (dc_fields c) of Inl e \<Rightarrow> (Inl e, c)
     | Inr payload \<Rightarrow> (Inr (Suc (dc_inserted c)), c\<lparr>dc_adds := dc_adds c @ [payload], dc_inserted := Suc (dc_inserted c)\<rparr>)))"

text \<open>The keyword arguments of the \<open>apply_edits\<close> call of \<open>flush\<close>; none when nothing is buffered.\<close>

definition flush_kwargs :: "'cl da_cursor \<Rightarrow> (string, pyval) pydict" where
  "flush_kwargs c =
     (if dc_kind c = InsertCursor then (if dc_adds c = [] then [] else [(''adds'', PList (map PDict (dc_adds c)))])
      else (if dc_updates c = [] then [] else [(''updates'', PList (map PDict (dc_updates c)))]) @
           (if dc_deletes c = [] then [] else [(''deletes'', PList (dc_deletes c))]))"

definition clear_edits :: "'cl da_cursor \<Rightarrow> 'cl da_cursor" where
  "clear_edits c = (if dc_kind c = InsertCursor then c\<lparr>dc_adds := []\<rparr> else c\<lparr>dc_updates := [], dc_deletes := []\<rparr>)"

definition source_edit ::
  "('cl, 'x) remote \<Rightarrow> 'cl da_source option \<Rightarrow> (string, pyval) pydict \<Rightarrow> ('cl, 'ad, 'pr, 'x) gp_world \<Rightarrow>
   (gp_exn + pyval) \<times> ('cl, 'ad, 'pr, 'x) gp_world" where
  "source_edit rm src kwargs w = (case src of
     None \<Rightarrow> (Inl (Foreign ''AttributeError'' None), w)
   | Some (ArtifactSource a) \<Rightarrow> (Inl refusal, w)
   | Some (RemoteSource c d) \<Rightarrow>
      if \<not> rm_editable rm c d then (Inl configuration_error, w)
      else (case rm_edit rm c d kwargs (gw_ext w) of (Inl e, x) \<Rightarrow> (Inl (wrap_source_error e), w\<lparr>gw_ext := x\<rparr>)
        | (Inr v, x) \<Rightarrow> (Inr v, w\<lparr>gw_ext := x\<rparr>)))"

definition da_flush ::
  "('cl, 'x) remote \<Rightarrow> 'cl da_cursor \<Rightarrow> ('cl, 'ad, 'pr, 'x) gp_world \<Rightarrow>
   (gp_exn + pyval) \<times> 'cl da_cursor \<times> ('cl, 'ad, 'pr, 'x) gp_world" where
  "da_flush rm c w =
     (if flush_kwargs c = [] then (Inr PNone, c, w)
      else (case source_edit rm (dc_source c) (flush_kwargs c) w of
         (Inl e, w1) \<Rightarrow> (Inl e, c, w1) | (Inr v, w1) \<Rightarrow> (Inr v, clear_edits c, w1)))"

section \<open>Leaving\<close>

definition default_result_shape :: "'cl da_cursor \<Rightarrow> 'cl da_cursor" where
  "default_result_shape c = (case dc_record c of None \<Rightarrow> c
     | Some line \<Rightarrow> if get_or_none line ''result_shape'' = PNone then set_result_shape c else c)"

definition cursor_close_hook ::
  "('cl, 'x) remote \<Rightarrow> gp_exn option \<Rightarrow> 'cl da_cursor \<Rightarrow> ('cl, 'ad, 'pr, 'x) gp_world \<Rightarrow>
   gp_exn option \<times> 'cl da_cursor \<times> ('cl, 'ad, 'pr, 'x) gp_world" where
  "cursor_close_hook rm failure c w =
     (if dc_kind c = SearchCursor then (None, default_result_shape c, w)
      else if failure \<noteq> None then (None, c, w)
      else (case da_flush rm c w of (Inl e, c1, w1) \<Rightarrow> (Some e, c1, w1) | (Inr _, c1, w1) \<Rightarrow> (None, default_result_shape c1, w1)))"

text \<open>\<open>__exit__\<close>: what it raises itself; \<open>None\<close> lets the block's own outcome stand.\<close>

definition cursor_exit ::
  "('cl, 'x) remote \<Rightarrow> gp_exn option \<Rightarrow> 'cl da_cursor \<Rightarrow> ('cl, 'ad, 'pr, 'x) gp_world \<Rightarrow>
   gp_exn option \<times> 'cl da_cursor \<times> ('cl, 'ad, 'pr, 'x) gp_world" where
  "cursor_exit rm failure c w = (case cursor_close_hook rm failure c w of (close_failure, c1, w1) \<Rightarrow>
     (close_failure, c1\<lparr>dc_recording := False, dc_closed := True, dc_entered := False\<rparr>,
      (case dc_record c1 of Some line \<Rightarrow>
         if dc_recording c1 then record_close (if failure = None then close_failure else failure) line w1 else w1
       | None \<Rightarrow> w1)))"

definition cursor_close ::
  "('cl, 'x) remote \<Rightarrow> 'cl da_cursor \<Rightarrow> ('cl, 'ad, 'pr, 'x) gp_world \<Rightarrow>
   gp_exn option \<times> 'cl da_cursor \<times> ('cl, 'ad, 'pr, 'x) gp_world" where
  "cursor_close rm c w = (if \<not> dc_closed c \<and> dc_entered c then cursor_exit rm None c w else (None, c, w))"

section \<open>A with block\<close>

text \<open>
  What a script does to a cursor between entering and leaving. \<open>NextRow\<close> carries the alias the
  cursor holds as it is at that time. A method the class of the cursor does not have raises
  \<open>AttributeError\<close> and changes nothing; the script may catch any exception and go on.
\<close>

datatype da_command =
    NextRow "layer_alias option"
  | UpdateRow "pyval list"
  | DeleteRow
  | InsertRow "pyval list"
  | FlushEdits
  | ResetCursor

definition da_step ::
  "('cl, 'x) remote \<Rightarrow> (string \<Rightarrow> pyval option) \<Rightarrow> da_command \<Rightarrow> 'cl da_cursor \<Rightarrow> ('cl, 'ad, 'pr, 'x) gp_world \<Rightarrow>
   'cl da_cursor \<times> ('cl, 'ad, 'pr, 'x) gp_world" where
  "da_step rm loads cmd c w = (case cmd of
     NextRow alias \<Rightarrow> if dc_kind c = InsertCursor then (c, w) else snd (cursor_next rm alias c w)
   | UpdateRow row \<Rightarrow> if dc_kind c = UpdateCursor then (snd (da_update_row loads row c), w) else (c, w)
   | DeleteRow \<Rightarrow> if dc_kind c = UpdateCursor then (snd (da_delete_row c), w) else (c, w)
   | InsertRow row \<Rightarrow> if dc_kind c = InsertCursor then (snd (da_insert_row loads row c), w) else (c, w)
   | FlushEdits \<Rightarrow> if dc_kind c = SearchCursor then (c, w) else snd (da_flush rm c w)
   | ResetCursor \<Rightarrow> (snd (cursor_reset c), w))"

fun da_steps ::
  "('cl, 'x) remote \<Rightarrow> (string \<Rightarrow> pyval option) \<Rightarrow> da_command list \<Rightarrow> 'cl da_cursor \<Rightarrow> ('cl, 'ad, 'pr, 'x) gp_world \<Rightarrow>
   'cl da_cursor \<times> ('cl, 'ad, 'pr, 'x) gp_world" where
  "da_steps rm loads [] c w = (c, w)"
| "da_steps rm loads (cmd # cmds) c w = (case da_step rm loads cmd c w of (c1, w1) \<Rightarrow> da_steps rm loads cmds c1 w1)"

text \<open>\<open>with cursor: block\<close>, the block ending in \<open>failure\<close> or normally; what the script then sees.\<close>

definition with_cursor ::
  "('cl, 'ad, 'pr) gp_host \<Rightarrow> ('cl, 'x) remote \<Rightarrow> (string \<Rightarrow> pyval option) \<Rightarrow> da_command list \<Rightarrow> gp_exn option \<Rightarrow>
   'cl da_cursor \<Rightarrow> ('cl, 'ad, 'pr, 'x) gp_world \<Rightarrow> gp_exn option \<times> 'cl da_cursor \<times> ('cl, 'ad, 'pr, 'x) gp_world" where
  "with_cursor h rm loads cmds failure c w = (case cursor_enter h rm c w of
     (Some e, c1, w1) \<Rightarrow> (Some e, c1, w1)
   | (None, c1, w1) \<Rightarrow> (case da_steps rm loads cmds c1 w1 of (c2, w2) \<Rightarrow>
       (case cursor_exit rm failure c2 w2 of (exit_failure, c3, w3) \<Rightarrow>
         ((case exit_failure of Some e \<Rightarrow> Some e | None \<Rightarrow> failure), c3, w3))))"

section \<open>The audit line of a cursor\<close>

text \<open>The record of an open cursor changes in its result shape only.\<close>

definition same_record :: "audit_line option \<Rightarrow> audit_line option \<Rightarrow> bool" where
  "same_record r r' \<longleftrightarrow> rel_option (\<lambda>l l'. \<forall>k. k \<noteq> ''result_shape'' \<longrightarrow> dict_get l k = dict_get l' k) r r'"

lemma same_record_refl [simp]: "same_record r r"
  by (auto simp: same_record_def option.rel_refl)

lemma same_record_shape [simp]: "same_record r (map_option (\<lambda>line. dict_set line ''result_shape'' v) r)"
  by (cases r) (auto simp: same_record_def)

lemma same_record_trans: "same_record a b \<Longrightarrow> same_record b c \<Longrightarrow> same_record a c"
  by (cases a; cases b; cases c) (auto simp: same_record_def)

text \<open>What every operation on an open cursor keeps.\<close>

definition keeps_audit ::
  "'cl da_cursor \<Rightarrow> ('cl, 'ad, 'pr, 'x) gp_world \<Rightarrow> 'cl da_cursor \<Rightarrow> ('cl, 'ad, 'pr, 'x) gp_world \<Rightarrow> bool" where
  "keeps_audit c w c' w' \<longleftrightarrow> au_lines w' = au_lines w \<and> dc_kind c' = dc_kind c \<and> dc_recording c' = dc_recording c \<and>
     same_record (dc_record c) (dc_record c')"

lemma keeps_audit_refl [simp]: "keeps_audit c w c w"
  by (simp add: keeps_audit_def)

lemma keeps_audit_trans: "keeps_audit c w c1 w1 \<Longrightarrow> keeps_audit c1 w1 c2 w2 \<Longrightarrow> keeps_audit c w c2 w2"
  by (auto simp: keeps_audit_def intro: same_record_trans)

lemma build_with_audit: "build_with h ctor s = (r, s') \<Longrightarrow> au_lines s' = au_lines s"
  by (auto simp: build_with_def Let_def bootstrap_from_env_def configure_def)

lemma client_audit: "client h s = (r, s') \<Longrightarrow> au_lines s' = au_lines s"
  by (auto simp: client_def build_client_def dest: build_with_audit split: option.splits prod.splits sum.splits)

lemma open_source_audit:
  "open_source h rm c w = (r, c', w') \<Longrightarrow> au_lines w' = au_lines w \<and> dc_kind c' = dc_kind c \<and> dc_recording c' = dc_recording c \<and> dc_record c' = dc_record c"
  by (auto simp: open_source_def client_source_def Let_def dest: client_audit split: option.splits prod.splits sum.splits if_splits)

lemma enter_audit:
  assumes "cursor_enter h rm c w = (r, c1, w1)"
  shows "case r of
      None \<Rightarrow> (\<exists>line. record_open (he_ip_ok h) (qualified_name (dc_kind c)) [PStr (dc_table c), PList (map PStr (dc_fields c)), dc_where c] (dc_extra c) = Inr line \<and>
        dc_record c1 = Some line \<and> dc_recording c1 \<and> au_lines w1 = au_lines w)
    | Some e \<Rightarrow> record_open (he_ip_ok h) (qualified_name (dc_kind c)) [PStr (dc_table c), PList (map PStr (dc_fields c)), dc_where c] (dc_extra c) = Inl e \<and> au_lines w1 = au_lines w \<or>
        (\<exists>line. record_open (he_ip_ok h) (qualified_name (dc_kind c)) [PStr (dc_table c), PList (map PStr (dc_fields c)), dc_where c] (dc_extra c) = Inr line \<and>
          au_lines w1 = au_lines w @ [close_line (Some e) line])"
  using assms by (auto simp: cursor_enter_def record_close_def dest!: open_source_audit split: sum.splits prod.splits option.splits)

lemma source_iter_audit: "source_iter rm src kwargs w = (r, w') \<Longrightarrow> au_lines w' = au_lines w"
  by (auto simp: source_iter_def split: da_source.splits prod.splits)

lemma ensure_iterator_audit: "ensure_iterator rm alias c w = (r, w') \<Longrightarrow> au_lines w' = au_lines w"
  by (auto simp: ensure_iterator_def dest: source_iter_audit split: option.splits prod.splits sum.splits)

lemma cursor_next_audit: "cursor_next rm alias c w = (r, c', w') \<Longrightarrow> keeps_audit c w c' w'"
  by (auto simp: cursor_next_def keeps_audit_def set_result_shape_def dest!: ensure_iterator_audit split: option.splits prod.splits sum.splits list.splits if_splits)

lemma edit_row_audit:
  "da_update_row loads row c = (r, c') \<Longrightarrow> keeps_audit c w c' w" "da_delete_row c = (r, c') \<Longrightarrow> keeps_audit c w c' w"
  "da_insert_row loads row c = (r', c') \<Longrightarrow> keeps_audit c w c' w" "cursor_reset c = (r, c') \<Longrightarrow> keeps_audit c w c' w"
  by (auto simp: da_update_row_def da_delete_row_def da_insert_row_def cursor_reset_def keeps_audit_def
      split: option.splits sum.splits if_splits cursor_kind.splits)

lemma da_flush_audit: "da_flush rm c w = (r, c', w') \<Longrightarrow> keeps_audit c w c' w'"
  by (auto simp: da_flush_def source_edit_def clear_edits_def keeps_audit_def split: if_splits option.splits prod.splits sum.splits da_source.splits)

lemma da_step_audit: "da_step rm loads cmd c w = (c', w') \<Longrightarrow> keeps_audit c w c' w'"
proof (cases cmd)
  case (NextRow a)
  assume "da_step rm loads cmd c w = (c', w')"
  with NextRow show ?thesis using cursor_next_audit by (cases "cursor_next rm a c w") (auto simp: da_step_def split: if_splits)
next
  case FlushEdits
  assume "da_step rm loads cmd c w = (c', w')"
  with FlushEdits show ?thesis using da_flush_audit by (cases "da_flush rm c w") (auto simp: da_step_def split: if_splits)
qed (auto simp: da_step_def split: if_splits intro: edit_row_audit [OF prod.collapse [symmetric]])

lemma da_steps_audit: "da_steps rm loads cmds c w = (c', w') \<Longrightarrow> keeps_audit c w c' w'"
  by (induction cmds arbitrary: c w) (auto split: prod.splits dest: da_step_audit intro: keeps_audit_trans)

lemma same_record_set: "same_record r (Some l) \<Longrightarrow> same_record r (Some (dict_set l ''result_shape'' v))"
  by (cases r) (auto simp: same_record_def)

lemma default_shape_audit: "keeps_audit c w c1 w1 \<Longrightarrow> keeps_audit c w (default_result_shape c1) w1"
  by (auto simp: default_result_shape_def set_result_shape_def keeps_audit_def intro: same_record_set split: option.splits)

lemma close_hook_audit: "cursor_close_hook rm failure c w = (r, c', w') \<Longrightarrow> keeps_audit c w c' w'"
  by (auto simp: cursor_close_hook_def dest!: da_flush_audit split: if_splits prod.splits sum.splits intro: default_shape_audit)

lemma exit_audit:
  assumes "cursor_exit rm failure c w = (r, c', w')" "dc_record c = Some line" "dc_recording c"
  obtains line' where "same_record (Some line) (Some line')"
    "au_lines w' = au_lines w @ [close_line (if failure = None then r else failure) line']"
proof -
  obtain c1 w1 where h: "cursor_close_hook rm failure c w = (r, c1, w1)"
    and w': "w' = (case dc_record c1 of Some line \<Rightarrow> if dc_recording c1 then record_close (if failure = None then r else failure) line w1 else w1 | None \<Rightarrow> w1)"
    using assms(1) by (auto simp: cursor_exit_def split: prod.splits)
  from close_hook_audit [OF h] have k: "keeps_audit c w c1 w1" .
  then obtain line' where l: "dc_record c1 = Some line'" "same_record (Some line) (Some line')"
    using assms(2) by (cases "dc_record c1") (auto simp: keeps_audit_def same_record_def)
  show ?thesis using that [OF l(2)] w' k l(1) assms(3) by (simp add: keeps_audit_def record_close_def)
qed

lemma close_line_status:
  "get_or_none (close_line failure line) ''status'' = (if failure = None then get_or_none line ''status'' else PStr ''error'')"
  "get_or_none (close_line failure line) ''function'' = get_or_none line ''function''"
  by (auto simp: close_line_def get_or_none_def split: option.splits)

lemma record_open_fields:
  "record_open ip function args kwargs = Inr line \<Longrightarrow> get_or_none line ''status'' = PStr ''ok'' \<and> get_or_none line ''function'' = PStr function"
  by (auto simp: record_open_def foreign_def bindE_eq_Inr get_or_none_def dict_get_def split: sum.splits)

lemma same_record_get: "same_record (Some l) (Some l') \<Longrightarrow> k \<noteq> ''result_shape'' \<Longrightarrow> get_or_none l' k = get_or_none l k"
  by (simp add: same_record_def get_or_none_def)

text \<open>A cursor used as a context manager writes exactly one audit line, whatever its block does with
  it: under the name of its class, with status ok precisely when neither opening, the block nor
  the closing flush failed. Only an argument whose redaction fails raises before anything is written.\<close>

theorem cursor_writes_one_line:
  fixes w :: "('cl, 'ad, 'pr, 'x) gp_world"
  assumes "with_cursor h rm loads cmds failure c w = (res, c', w')"
    and "record_open (he_ip_ok h) (qualified_name (dc_kind c)) [PStr (dc_table c), PList (map PStr (dc_fields c)), dc_where c] (dc_extra c) = Inr line0"
  shows "\<exists>line. au_lines w' = au_lines w @ [line] \<and> get_or_none line ''function'' = PStr (qualified_name (dc_kind c)) \<and>
    get_or_none line ''status'' = (if res = None then PStr ''ok'' else PStr ''error'')"
proof -
  obtain r1 c1 w1 where en: "cursor_enter h rm c w = (r1, c1, w1)" by (metis surj_pair)
  show ?thesis
  proof (cases r1)
    case (Some e)
    then have "au_lines w' = au_lines w @ [close_line (Some e) line0]" "res = Some e"
      using assms en enter_audit [OF en] by (auto simp: with_cursor_def)
    then show ?thesis using record_open_fields [OF assms(2)] by (simp add: close_line_status)
  next
    case None
    then have c1: "dc_record c1 = Some line0" "dc_recording c1" "au_lines w1 = au_lines w" using assms(2) enter_audit [OF en] by auto
    obtain c2 w2 where st: "da_steps rm loads cmds c1 w1 = (c2, w2)" by (metis surj_pair)
    obtain r3 where ex: "cursor_exit rm failure c2 w2 = (r3, c', w')" and res: "res = (case r3 of Some e \<Rightarrow> Some e | None \<Rightarrow> failure)"
      using assms(1) en None st by (auto simp: with_cursor_def split: prod.splits)
    have k: "keeps_audit c1 w1 c2 w2" by (rule da_steps_audit [OF st])
    then obtain line2 where l2: "dc_record c2 = Some line2" "same_record (Some line0) (Some line2)" "dc_recording c2"
      using c1 by (cases "dc_record c2") (auto simp: keeps_audit_def same_record_def)
    obtain line3 where l3: "same_record (Some line2) (Some line3)"
      "au_lines w' = au_lines w2 @ [close_line (if failure = None then r3 else failure) line3]"
      by (rule exit_audit [OF ex l2(1) l2(3)])
    have "same_record (Some line0) (Some line3)" by (rule same_record_trans [OF l2(2) l3(1)])
    then have "get_or_none line3 ''status'' = PStr ''ok''" "get_or_none line3 ''function'' = PStr (qualified_name (dc_kind c))"
      using record_open_fields [OF assms(2)] by (simp_all add: same_record_get)
    moreover have "au_lines w2 = au_lines w" using k c1 by (simp add: keeps_audit_def)
    ultimately show ?thesis using l3(2) res by (auto simp: close_line_status split: option.splits)
  qed
qed

text \<open>A remote whose world is a list of features, read in order, and that takes every edit.\<close>

definition world_of :: "'x \<Rightarrow> (unit, unit, unit, 'x) gp_world" where
  "world_of x = gp_session.extend (new_session\<lparr>ss_client := Some ()\<rparr>) (gp_world.fields x)"

definition list_remote :: "(unit, da_feature list) remote" where
  "list_remote = \<lparr>rm_has_source = (\<lambda>_. True), rm_open = (\<lambda>_ _. None), rm_iter = (\<lambda>_ _ _ x. (Inr (map Inr x), x)),
     rm_editable = (\<lambda>_ _. True), rm_edit = (\<lambda>_ _ _ x. (Inr PNone, x))\<rparr>"

section \<open>What reaches the server\<close>

text \<open>\<open>recorded rm\<close> is the remote with a list of the \<open>apply_edits\<close> calls it was sent, successful or not.\<close>

definition recorded :: "('cl, 'x) remote \<Rightarrow> ('cl, 'x \<times> (string, pyval) pydict list) remote" where
  "recorded rm = \<lparr>rm_has_source = rm_has_source rm, rm_open = rm_open rm,
     rm_iter = (\<lambda>cl d q v. case rm_iter rm cl d q (fst v) of (r, x) \<Rightarrow> (r, (x, snd v))),
     rm_editable = rm_editable rm,
     rm_edit = (\<lambda>cl d q v. case rm_edit rm cl d q (fst v) of (r, x) \<Rightarrow> (r, (x, snd v @ [q])))\<rparr>"

definition calls_sent :: "('cl, 'ad, 'pr, 'x \<times> (string, pyval) pydict list) gp_world \<Rightarrow> (string, pyval) pydict list" where
  "calls_sent w = snd (gw_ext w)"

text \<open>The features the update cursor handed to the script as its current row.\<close>

definition yielded_by ::
  "('cl, 'x) remote \<Rightarrow> da_command \<Rightarrow> 'cl da_cursor \<Rightarrow> ('cl, 'ad, 'pr, 'x) gp_world \<Rightarrow> da_feature list" where
  "yielded_by rm cmd c w = (case cmd of
     NextRow alias \<Rightarrow> (case ensure_open c of Some _ \<Rightarrow> [] | None \<Rightarrow>
        (case ensure_iterator rm alias c w of (Inr (Inr f # _), _) \<Rightarrow> [f] | _ \<Rightarrow> []))
   | _ \<Rightarrow> [])"

fun yielded ::
  "('cl, 'x) remote \<Rightarrow> (string \<Rightarrow> pyval option) \<Rightarrow> da_command list \<Rightarrow> 'cl da_cursor \<Rightarrow> ('cl, 'ad, 'pr, 'x) gp_world \<Rightarrow> da_feature list" where
  "yielded rm loads [] c w = []"
| "yielded rm loads (cmd # cmds) c w = yielded_by rm cmd c w @ (case da_step rm loads cmd c w of (c1, w1) \<Rightarrow> yielded rm loads cmds c1 w1)"

definition edited_id :: "(string, pyval) pydict \<Rightarrow> pyval" where
  "edited_id payload = get_or_none (mapping_or_empty (get_or_none payload ''attributes'')) ''OBJECTID''"

definition row_id :: "da_feature set \<Rightarrow> pyval \<Rightarrow> bool" where
  "row_id Y oid \<longleftrightarrow> oid \<noteq> PNone \<and> (\<exists>f\<in>Y. extract_oid f = oid)"

text \<open>A call that only edits rows of \<open>Y\<close>.\<close>

definition edits_within :: "da_feature set \<Rightarrow> (string, pyval) pydict \<Rightarrow> bool" where
  "edits_within Y q \<longleftrightarrow> (\<exists>us ds. q = (if us = [] then [] else [(''updates'', PList (map PDict us))]) @ (if ds = [] then [] else [(''deletes'', PList ds)]) \<and>
     (\<forall>u\<in>set us. row_id Y (edited_id u)) \<and> (\<forall>oid\<in>set ds. row_id Y oid))"

definition edit_inv ::
  "da_feature set \<Rightarrow> 'cl da_cursor \<Rightarrow> ('cl, 'ad, 'pr, 'x \<times> (string, pyval) pydict list) gp_world \<Rightarrow> bool" where
  "edit_inv Y c w \<longleftrightarrow> dc_kind c = UpdateCursor \<and> (\<forall>f. dc_current c = Some f \<longrightarrow> f \<in> Y) \<and>
     (\<forall>u\<in>set (dc_updates c). row_id Y (edited_id u)) \<and> (\<forall>oid\<in>set (dc_deletes c). row_id Y oid) \<and>
     (\<forall>q\<in>set (calls_sent w). edits_within Y q)"

lemma row_id_mono: "row_id Y oid \<Longrightarrow> Y \<subseteq> Z \<Longrightarrow> row_id Z oid"
  by (auto simp: row_id_def)

lemma edits_within_mono: "edits_within Y q \<Longrightarrow> Y \<subseteq> Z \<Longrightarrow> edits_within Z q"
  unfolding edits_within_def using row_id_mono by blast

lemma edit_inv_mono: "edit_inv Y c w \<Longrightarrow> Y \<subseteq> Z \<Longrightarrow> edit_inv Z c w"
  unfolding edit_inv_def by (meson row_id_mono edits_within_mono in_mono)

lemma edited_id_set: "edited_id (set_payload_oid payload oid) = oid"
  by (simp add: edited_id_def set_payload_oid_def get_or_none_def mapping_or_empty_def)

lemma source_iter_calls: "source_iter (recorded rm) src kwargs w = (r, w') \<Longrightarrow> calls_sent w' = calls_sent w"
  by (auto simp: source_iter_def recorded_def calls_sent_def split: da_source.splits prod.splits)

lemma ensure_iterator_calls: "ensure_iterator (recorded rm) alias c w = (r, w') \<Longrightarrow> calls_sent w' = calls_sent w"
  by (auto simp: ensure_iterator_def dest: source_iter_calls split: option.splits prod.splits sum.splits)

lemma cursor_next_inv:
  assumes "edit_inv Y c w" "cursor_next (recorded rm) alias c w = (r, c', w')"
  shows "edit_inv (Y \<union> set (yielded_by (recorded rm) (NextRow alias) c w)) c' w'"
proof -
  note m = edit_inv_mono [OF assms(1), of "Y \<union> set (yielded_by (recorded rm) (NextRow alias) c w)"]
  show ?thesis using m assms(2) unfolding cursor_next_def
    by (auto simp: edit_inv_def set_result_shape_def yielded_by_def dest: ensure_iterator_calls
        split: option.splits prod.splits sum.splits list.splits if_splits)
qed

lemma edit_row_inv:
  "edit_inv Y c w \<Longrightarrow> edit_inv Y (snd (da_update_row loads row c)) w" "edit_inv Y c w \<Longrightarrow> edit_inv Y (snd (da_delete_row c)) w"
  "edit_inv Y c w \<Longrightarrow> edit_inv Y (snd (cursor_reset c)) w"
  by (auto simp: da_update_row_def da_delete_row_def cursor_reset_def edit_inv_def edited_id_set row_id_def split: option.splits sum.splits cursor_kind.splits)

lemma da_flush_calls: "da_flush (recorded rm) c w = (r, c', w') \<Longrightarrow> calls_sent w' = calls_sent w \<or> calls_sent w' = calls_sent w @ [flush_kwargs c]"
  by (auto simp: da_flush_def source_edit_def recorded_def calls_sent_def split: if_splits option.splits prod.splits sum.splits da_source.splits)

lemma flush_kwargs_within: "edit_inv Y c w \<Longrightarrow> edits_within Y (flush_kwargs c)"
  unfolding edits_within_def flush_kwargs_def edit_inv_def
  by (rule exI [of _ "dc_updates c"], rule exI [of _ "dc_deletes c"]) auto

lemma da_flush_inv:
  assumes "edit_inv Y c w" "da_flush (recorded rm) c w = (r, c', w')"
  shows "edit_inv Y c' w'"
proof -
  have "c' = c \<or> c' = clear_edits c" using assms(2) by (auto simp: da_flush_def split: if_splits prod.splits sum.splits)
  then show ?thesis using assms(1) flush_kwargs_within [OF assms(1)] da_flush_calls [OF assms(2)] by (auto simp: edit_inv_def clear_edits_def)
qed

lemma da_step_inv:
  assumes "edit_inv Y c w" "da_step (recorded rm) loads cmd c w = (c', w')"
  shows "edit_inv (Y \<union> set (yielded_by (recorded rm) cmd c w)) c' w'"
proof -
  have k: "dc_kind c = UpdateCursor" using assms(1) by (simp add: edit_inv_def)
  show ?thesis
proof (cases cmd)
    case (NextRow a)
    then show ?thesis using assms(2) k cursor_next_inv [OF assms(1), of rm a]
      by (cases "cursor_next (recorded rm) a c w") (simp add: da_step_def)
  next
    case FlushEdits
    then show ?thesis using assms(2) k da_flush_inv [OF assms(1), of rm]
      by (cases "da_flush (recorded rm) c w") (simp add: da_step_def yielded_by_def)
  qed (use assms edit_row_inv [OF assms(1)] k in \<open>auto simp: da_step_def yielded_by_def\<close>)
qed

lemma da_steps_inv:
  "edit_inv Y c w \<Longrightarrow> da_steps (recorded rm) loads cmds c w = (c', w') \<Longrightarrow> edit_inv (Y \<union> set (yielded (recorded rm) loads cmds c w)) c' w'"
proof (induction cmds arbitrary: Y c w)
  case (Cons cmd cmds)
  obtain c1 w1 where st: "da_step (recorded rm) loads cmd c w = (c1, w1)" by (metis surj_pair)
  from Cons.IH [OF da_step_inv [OF Cons.prems(1) st]] Cons.prems(2) st show ?case by (simp add: Un_assoc)
qed simp

lemma da_steps_no_flush:
  "FlushEdits \<notin> set cmds \<Longrightarrow> da_steps (recorded rm) loads cmds c w = (c', w') \<Longrightarrow> calls_sent w' = calls_sent w"
proof (induction cmds arbitrary: c w)
  case (Cons cmd cmds)
  obtain c1 w1 where st: "da_step (recorded rm) loads cmd c w = (c1, w1)" by (metis surj_pair)
  have "calls_sent w1 = calls_sent w"
  proof (cases cmd)
    case (NextRow a)
    then show ?thesis using st by (auto simp: da_step_def cursor_next_def dest: ensure_iterator_calls
      split: if_splits option.splits prod.splits sum.splits list.splits)
  qed (use st Cons.prems(1) in \<open>auto simp: da_step_def split: if_splits\<close>)
  with Cons st show ?case by simp
qed simp

lemma cursor_exit_calls:
  assumes "cursor_exit (recorded rm) failure c w = (r, c', w')" "edit_inv Y c w"
  shows "(\<forall>q\<in>set (calls_sent w'). edits_within Y q) \<and> (failure \<noteq> None \<longrightarrow> calls_sent w' = calls_sent w)"
proof -
  obtain c1 w1 where h: "cursor_close_hook (recorded rm) failure c w = (r, c1, w1)" and w': "calls_sent w' = calls_sent w1"
    using assms(1) by (auto simp: cursor_exit_def calls_sent_def record_close_def split: prod.splits option.splits if_splits)
  show ?thesis
  proof (cases "failure = None")
    case True
    obtain f c2 where "da_flush (recorded rm) c w = (f, c2, w1)"
      using h assms(2) True by (auto simp: cursor_close_hook_def edit_inv_def split: prod.splits sum.splits)
    then show ?thesis using True w' da_flush_inv [OF assms(2)] by (auto simp: edit_inv_def)
  next
    case False
    then show ?thesis using h w' assms(2) by (auto simp: cursor_close_hook_def edit_inv_def)
  qed
qed

lemma client_ext: "gw_ext (snd (client h w)) = gw_ext w"
proof -
  have b: "gw_ext (snd (build_client h w)) = gw_ext w" by (simp add: build_client_def build_with_state bootstrap_from_env_def Let_def)
  show ?thesis
  proof (cases "ss_client w")
    case None
    then show ?thesis using b by (cases "build_client h w") (auto simp: client_def split: sum.split)
  qed (simp add: client_def)
qed

lemma client_source_ext: "gw_ext (snd (client_source h rm name w)) = gw_ext w"
proof (cases "output_source_for (get_layer name w)")
  case None
  then show ?thesis using client_ext [of h w] by (cases "client h w") (auto simp: client_source_def Let_def split: sum.split)
qed (simp add: client_source_def Let_def)

lemma open_source_frame: "open_source h rm c w = (r, c', w') \<Longrightarrow> gw_ext w' = gw_ext w \<and> (c' = c \<or> (\<exists>s. c' = c\<lparr>dc_source := s\<rparr>))"
  using client_source_ext [of h rm "dc_table c" w]
  by (cases "client_source h rm (dc_table c) w") (auto simp: open_source_def split: sum.splits)

lemma enter_inv:
  assumes "cursor_enter h (recorded rm) (make_cursor UpdateCursor table names whr extra) w = (None, c1, w1)" "calls_sent w = []"
  shows "edit_inv {} c1 w1 \<and> calls_sent w1 = []"
proof -
  let ?c = "make_cursor UpdateCursor table names whr extra"
  obtain line where "open_source h (recorded rm) (?c\<lparr>dc_recording := True, dc_record := Some line, dc_entered := True\<rparr>) w = (None, c1, w1)"
    using assms(1) by (auto simp: cursor_enter_def split: sum.splits prod.splits option.splits)
  from open_source_frame [OF this] show ?thesis using assms(2) by (auto simp: edit_inv_def make_cursor_def calls_sent_def)
qed

text \<open>An update cursor touches only rows it has shown to the script: every \<open>apply_edits\<close> call a
  \<open>with\<close> block sends, flushes included, updates and deletes rows under ids of features the
  cursor yielded, none of them missing; and a block that fails without flushing itself sends nothing.\<close>

theorem update_cursor_edits_yielded_rows:
  assumes "cursor_enter h (recorded rm) (make_cursor UpdateCursor table names whr extra) w = (None, c1, w1)"
    and "da_steps (recorded rm) loads cmds c1 w1 = (c2, w2)"
    and "cursor_exit (recorded rm) failure c2 w2 = (res, c3, w3)"
    and "calls_sent w = []"
  shows "(q \<in> set (calls_sent w3) \<longrightarrow> edits_within (set (yielded (recorded rm) loads cmds c1 w1)) q) \<and>
    (failure \<noteq> None \<and> FlushEdits \<notin> set cmds \<longrightarrow> calls_sent w3 = [])"
proof -
  note en = enter_inv [OF assms(1) assms(4)]
  have "edit_inv (set (yielded (recorded rm) loads cmds c1 w1)) c2 w2" using da_steps_inv [OF _ assms(2)] en by fastforce
  from cursor_exit_calls [OF assms(3) this] da_steps_no_flush [OF _ assms(2)] en show ?thesis by auto
qed

text \<open>An update cursor on one row with OBJECTID 7.\<close>

definition demo_cursor :: "unit da_cursor" where
  "demo_cursor = make_cursor UpdateCursor ''rest/services/roads/FeatureServer/3'' (Inl ''OID@'') PNone []"

definition demo_rows :: "da_feature list" where
  "demo_rows = [DictFeature [(''attributes'', PDict [(''OBJECTID'', PInt 7)])]]"

theorem cursor_writes_one_line_witness:
  "\<exists>c w line. with_cursor quiet_host list_remote (\<lambda>_. None) [NextRow None, DeleteRow] None demo_cursor (world_of demo_rows) = (None, c, w) \<and>
     dc_deleted c = 1 \<and> au_lines w = [line] \<and> get_or_none line ''status'' = PStr ''ok''"
proof -
  let ?run = "with_cursor quiet_host list_remote (\<lambda>_. None) [NextRow None, DeleteRow] None demo_cursor (world_of demo_rows)"
  have r: "case ?run of (r, c, w) \<Rightarrow> r = None \<and> dc_deleted c = 1" by code_simp
  have o: "record_open (he_ip_ok quiet_host) (qualified_name (dc_kind demo_cursor)) [PStr (dc_table demo_cursor), PList (map PStr (dc_fields demo_cursor)), dc_where demo_cursor] (dc_extra demo_cursor) =
     Inr [(''function'', PStr ''da.UpdateCursor''), (''args'', PList [PStr ''rest/services/roads/FeatureServer/3'', PList [PStr ''OID@''], PNone]), (''kwargs'', PDict []), (''status'', PStr ''ok'')]"
    by code_simp
  have l: "au_lines (world_of demo_rows) = []" by (simp add: world_of_def gp_session.defs new_session_def)
  obtain c' w' where run: "?run = (None, c', w')" "dc_deleted c' = 1" using r by (cases ?run) auto
  from cursor_writes_one_line [OF run(1) o] show ?thesis using run l by auto
qed

theorem update_cursor_edits_yielded_rows_witness:
  "\<exists>c1 w1 c2 w2 c3 w3. cursor_enter quiet_host (recorded list_remote) demo_cursor (world_of (demo_rows, [])) = (None, c1, w1) \<and>
     da_steps (recorded list_remote) (\<lambda>_. None) [NextRow None, DeleteRow] c1 w1 = (c2, w2) \<and>
     cursor_exit (recorded list_remote) None c2 w2 = (None, c3, w3) \<and> calls_sent w3 = [[(''deletes'', PList [PInt 7])]] \<and>
     edits_within (set (yielded (recorded list_remote) (\<lambda>_. None) [NextRow None, DeleteRow] c1 w1)) [(''deletes'', PList [PInt 7])]"
proof -
  let ?cmds = "[NextRow None, DeleteRow]"
  let ?e = "cursor_enter quiet_host (recorded list_remote) demo_cursor (world_of (demo_rows, []))"
  have r: "case ?e of (r, c1, w1) \<Rightarrow> case da_steps (recorded list_remote) (\<lambda>_. None) ?cmds c1 w1 of (c2, w2) \<Rightarrow>
      case cursor_exit (recorded list_remote) None c2 w2 of (r3, c3, w3) \<Rightarrow> r = None \<and> r3 = None \<and> calls_sent w3 = [[(''deletes'', PList [PInt 7])]]"
    by code_simp
  obtain c1 w1 where e: "?e = (None, c1, w1)" using r by (auto split: prod.splits)
  obtain c2 w2 where s: "da_steps (recorded list_remote) (\<lambda>_. None) ?cmds c1 w1 = (c2, w2)" by (metis surj_pair)
  obtain c3 w3 where x: "cursor_exit (recorded list_remote) None c2 w2 = (None, c3, w3)" and q: "calls_sent w3 = [[(''deletes'', PList [PInt 7])]]"
    using r e s by (auto split: prod.splits)
  have "calls_sent (world_of (demo_rows, [])) = []" by (simp add: calls_sent_def world_of_def gp_session.defs gp_world.defs)
  from update_cursor_edits_yielded_rows [OF e [unfolded demo_cursor_def] s x this, of "[(''deletes'', PList [PInt 7])]"] q
  show ?thesis using e s x by simp
qed

end
