(* ===== verification/Gp_Manifest.thy ===== *)
theory Gp_Manifest
  imports Gp_Audit
begin

text \<open>
  \<open>_compat.py\<close>: the manifest every shim function is dispatched by. An entry keeps the fields the
  dispatch reads; the notes, replacement hints and tracking links are texts for people. The
  entries of backend \<open>not_implemented\<close> then differ in their names only.
\<close>

datatype backend = ProcessBackend | RasterBackend | SourceBackend | AdminBackend | SessionBackend | NotImplemented

datatype entry_status = Supported | Partial | Stub

record function_entry =
  fe_backend :: backend
  fe_status :: entry_status
  fe_process_id :: "string option"
  fe_param_map :: "(string, string) pydict"
  fe_positional :: "string list"
  fe_outputs :: "string list"
  fe_sources :: "string list"

definition is_supported :: "function_entry \<Rightarrow> bool" where
  "is_supported e \<longleftrightarrow> fe_status e \<in> {Supported, Partial}"

section \<open>Implemented functions\<close>

definition analysis_buffer_entry :: function_entry where
  "analysis_buffer_entry = \<lparr>fe_backend = ProcessBackend, fe_status = Partial, fe_process_id = Some ''analytics.buffer-aggregate'',
     fe_param_map = [(''in_features'', ''layerId''), (''buffer_distance_or_field'', ''distance''), (''dissolve_option'', ''dissolve''), (''dissolve_field'', ''groupByFields''), (''where_clause'', ''where'')],
     fe_positional = [''in_features'', ''out_feature_class'', ''buffer_distance_or_field'', ''line_side'', ''line_end_type'', ''dissolve_option'', ''dissolve_field'', ''method'', ''where_clause''],
     fe_outputs = [''out_feature_class''], fe_sources = [''in_features'']\<rparr>"

definition analysis_spatial_join_entry :: function_entry where
  "analysis_spatial_join_entry = \<lparr>fe_backend = ProcessBackend, fe_status = Partial, fe_process_id = Some ''analytics.spatial-join'',
     fe_param_map = [(''target_features'', ''layerId''), (''join_features'', ''joinLayerId''), (''match_option'', ''predicate''), (''search_radius'', ''distance''), (''where_clause'', ''where'')],
     fe_positional = [''target_features'', ''join_features'', ''out_feature_class'', ''join_operation'', ''join_type'', ''field_mapping'', ''match_option'', ''search_radius'', ''distance_field_name'', ''where_clause''],
     fe_outputs = [''out_feature_class''], fe_sources = [''target_features'', ''join_features'']\<rparr>"

definition management_make_feature_layer_entry :: function_entry where
  "management_make_feature_layer_entry = \<lparr>fe_backend = SessionBackend, fe_status = Supported, fe_process_id = None,
     fe_param_map = [(''in_features'', ''source''), (''out_layer'', ''layer_name''), (''where_clause'', ''where''), (''workspace'', ''workspace''), (''field_info'', ''field_info'')],
     fe_positional = [],
     fe_outputs = [], fe_sources = []\<rparr>"

definition management_select_layer_by_attribute_entry :: function_entry where
  "management_select_layer_by_attribute_entry = \<lparr>fe_backend = SourceBackend, fe_status = Partial, fe_process_id = None,
     fe_param_map = [(''in_layer_or_view'', ''layer_name''), (''selection_type'', ''selection_type''), (''where_clause'', ''where''), (''invert_where_clause'', ''invert_where_clause'')],
     fe_positional = [],
     fe_outputs = [], fe_sources = []\<rparr>"

definition management_dissolve_entry :: function_entry where
  "management_dissolve_entry = \<lparr>fe_backend = ProcessBackend, fe_status = Partial, fe_process_id = Some ''generalization.dissolve'',
     fe_param_map = [(''in_features'', ''layerId''), (''dissolve_field'', ''groupByFields''), (''where_clause'', ''where'')],
     fe_positional = [''in_features'', ''out_feature_class'', ''dissolve_field'', ''statistics_fields'', ''multi_part'', ''unsplit_lines'', ''where_clause''],
     fe_outputs = [''out_feature_class''], fe_sources = [''in_features'']\<rparr>"

definition management_project_entry :: function_entry where
  "management_project_entry = \<lparr>fe_backend = ProcessBackend, fe_status = Partial, fe_process_id = Some ''conversion.feature-project'',
     fe_param_map = [(''in_dataset'', ''layerId''), (''out_coor_system'', ''targetSrid'')],
     fe_positional = [''in_dataset'', ''out_dataset'', ''out_coor_system'', ''transform_method'', ''in_coor_system'', ''preserve_shape'', ''max_deviation'', ''vertical''],
     fe_outputs = [''out_dataset''], fe_sources = [''in_dataset'']\<rparr>"

definition management_make_table_view_entry :: function_entry where
  "management_make_table_view_entry = \<lparr>fe_backend = SessionBackend, fe_status = Supported, fe_process_id = None,
     fe_param_map = [(''in_table'', ''source''), (''out_view'', ''layer_name''), (''where_clause'', ''where''), (''workspace'', ''workspace''), (''field_info'', ''field_info'')],
     fe_positional = [],
     fe_outputs = [], fe_sources = []\<rparr>"

definition management_get_count_entry :: function_entry where
  "management_get_count_entry = \<lparr>fe_backend = SourceBackend, fe_status = Partial, fe_process_id = None,
     fe_param_map = [(''in_rows'', ''layer_name'')],
     fe_positional = [],
     fe_outputs = [], fe_sources = []\<rparr>"

definition management_list_fields_entry :: function_entry where
  "management_list_fields_entry = \<lparr>fe_backend = SourceBackend, fe_status = Partial, fe_process_id = None,
     fe_param_map = [(''dataset'', ''layer_name'')],
     fe_positional = [],
     fe_outputs = [], fe_sources = []\<rparr>"

definition management_describe_entry :: function_entry where
  "management_describe_entry = \<lparr>fe_backend = SourceBackend, fe_status = Partial, fe_process_id = None,
     fe_param_map = [(''dataset'', ''layer_name'')],
     fe_positional = [],
     fe_outputs = [], fe_sources = []\<rparr>"

definition da_search_cursor_entry :: function_entry where
  "da_search_cursor_entry = \<lparr>fe_backend = SourceBackend, fe_status = Partial, fe_process_id = None,
     fe_param_map = [(''in_table'', ''layer_name''), (''field_names'', ''fields''), (''where_clause'', ''where''), (''spatial_reference'', ''spatial_reference''), (''explode_to_points'', ''explode_to_points''), (''sql_clause'', ''sql_clause'')],
     fe_positional = [],
     fe_outputs = [], fe_sources = []\<rparr>"

definition da_update_cursor_entry :: function_entry where
  "da_update_cursor_entry = \<lparr>fe_backend = SourceBackend, fe_status = Supported, fe_process_id = None,
     fe_param_map = [(''in_table'', ''layer_name''), (''field_names'', ''fields''), (''where_clause'', ''where'')],
     fe_positional = [],
     fe_outputs = [], fe_sources = []\<rparr>"

definition da_insert_cursor_entry :: function_entry where
  "da_insert_cursor_entry = \<lparr>fe_backend = SourceBackend, fe_status = Supported, fe_process_id = None,
     fe_param_map = [(''in_table'', ''layer_name''), (''field_names'', ''fields'')],
     fe_positional = [],
     fe_outputs = [], fe_sources = []\<rparr>"

definition sa_slope_entry :: function_entry where
  "sa_slope_entry = \<lparr>fe_backend = RasterBackend, fe_status = Supported, fe_process_id = Some ''surface.slope'',
     fe_param_map = [(''units'', ''units''), (''z_factor'', ''zFactor'')],
     fe_positional = [],
     fe_outputs = [], fe_sources = []\<rparr>"

definition sa_aspect_entry :: function_entry where
  "sa_aspect_entry = \<lparr>fe_backend = RasterBackend, fe_status = Supported, fe_process_id = Some ''surface.aspect'',
     fe_param_map = [],
     fe_positional = [],
     fe_outputs = [], fe_sources = []\<rparr>"

definition sa_hillshade_entry :: function_entry where
  "sa_hillshade_entry = \<lparr>fe_backend = RasterBackend, fe_status = Supported, fe_process_id = Some ''surface.hillshade'',
     fe_param_map = [(''azimuth'', ''azimuth''), (''altitude'', ''altitude''), (''z_factor'', ''zFactor'')],
     fe_positional = [],
     fe_outputs = [], fe_sources = []\<rparr>"

definition sa_contour_entry :: function_entry where
  "sa_contour_entry = \<lparr>fe_backend = RasterBackend, fe_status = Supported, fe_process_id = Some ''surface.contour'',
     fe_param_map = [(''interval'', ''interval''), (''base'', ''base'')],
     fe_positional = [],
     fe_outputs = [], fe_sources = []\<rparr>"

definition sa_viewshed_entry :: function_entry where
  "sa_viewshed_entry = \<lparr>fe_backend = RasterBackend, fe_status = Supported, fe_process_id = Some ''surface.viewshed'',
     fe_param_map = [(''observer_x'', ''observerX''), (''observer_y'', ''observerY''), (''observer_height'', ''observerHeight''), (''target_height'', ''targetHeight''), (''max_distance'', ''maxDistance'')],
     fe_positional = [],
     fe_outputs = [], fe_sources = []\<rparr>"

definition sa_roughness_entry :: function_entry where
  "sa_roughness_entry = \<lparr>fe_backend = RasterBackend, fe_status = Partial, fe_process_id = Some ''surface.roughness'',
     fe_param_map = [(''window_radius'', ''windowRadius'')],
     fe_positional = [],
     fe_outputs = [], fe_sources = []\<rparr>"

definition sa_tpi_entry :: function_entry where
  "sa_tpi_entry = \<lparr>fe_backend = RasterBackend, fe_status = Partial, fe_process_id = Some ''surface.rugosity-tpi'',
     fe_param_map = [(''window_radius'', ''windowRadius'')],
     fe_positional = [],
     fe_outputs = [], fe_sources = []\<rparr>"

definition sa_tri_entry :: function_entry where
  "sa_tri_entry = \<lparr>fe_backend = RasterBackend, fe_status = Partial, fe_process_id = Some ''surface.rugosity-tri'',
     fe_param_map = [(''window_radius'', ''windowRadius'')],
     fe_positional = [],
     fe_outputs = [], fe_sources = []\<rparr>"

definition sa_clip_entry :: function_entry where
  "sa_clip_entry = \<lparr>fe_backend = RasterBackend, fe_status = Supported, fe_process_id = Some ''raster.clip'',
     fe_param_map = [(''boundary'', ''boundary''), (''boundary_srid'', ''boundarySrid'')],
     fe_positional = [],
     fe_outputs = [], fe_sources = []\<rparr>"

definition sa_mosaic_entry :: function_entry where
  "sa_mosaic_entry = \<lparr>fe_backend = RasterBackend, fe_status = Partial, fe_process_id = Some ''raster.mosaic'',
     fe_param_map = [(''operator'', ''operator''), (''resampling'', ''resampling'')],
     fe_positional = [],
     fe_outputs = [], fe_sources = []\<rparr>"

definition sa_reclassify_entry :: function_entry where
  "sa_reclassify_entry = \<lparr>fe_backend = RasterBackend, fe_status = Supported, fe_process_id = Some ''raster.reclassify'',
     fe_param_map = [(''remap'', ''remap''), (''default_value'', ''defaultValue''), (''data_type'', ''dataType''), (''no_data'', ''noData'')],
     fe_positional = [],
     fe_outputs = [], fe_sources = []\<rparr>"

definition sa_project_raster_entry :: function_entry where
  "sa_project_raster_entry = \<lparr>fe_backend = RasterBackend, fe_status = Supported, fe_process_id = Some ''raster.reproject'',
     fe_param_map = [(''target_srid'', ''targetSrid''), (''resampling'', ''resampling'')],
     fe_positional = [],
     fe_outputs = [], fe_sources = []\<rparr>"

definition sa_resample_entry :: function_entry where
  "sa_resample_entry = \<lparr>fe_backend = RasterBackend, fe_status = Supported, fe_process_id = Some ''raster.resample'',
     fe_param_map = [(''cell_size'', ''cellSize''), (''cell_size_y'', ''cellSizeY''), (''resampling'', ''resampling'')],
     fe_positional = [],
     fe_outputs = [], fe_sources = []\<rparr>"

definition sa_raster_calculator_entry :: function_entry where
  "sa_raster_calculator_entry = \<lparr>fe_backend = RasterBackend, fe_status = Partial, fe_process_id = Some ''raster.map-algebra'',
     fe_param_map = [(''expression'', ''expression''), (''data_type'', ''dataType''), (''no_data'', ''noData'')],
     fe_positional = [],
     fe_outputs = [], fe_sources = []\<rparr>"

definition sa_idw_entry :: function_entry where
  "sa_idw_entry = \<lparr>fe_backend = RasterBackend, fe_status = Partial, fe_process_id = Some ''raster.interpolate-idw'',
     fe_param_map = [(''z_field'', ''zField''), (''power'', ''power''), (''smoothing'', ''smoothing''), (''radius'', ''radius'')],
     fe_positional = [],
     fe_outputs = [], fe_sources = []\<rparr>"

definition sa_zonal_statistics_as_table_entry :: function_entry where
  "sa_zonal_statistics_as_table_entry = \<lparr>fe_backend = RasterBackend, fe_status = Partial, fe_process_id = Some ''raster.zonal-statistics'',
     fe_param_map = [(''band'', ''band''), (''statistics'', ''statistics'')],
     fe_positional = [],
     fe_outputs = [], fe_sources = []\<rparr>"

section \<open>The manifest\<close>

definition stub_entry :: "string option \<Rightarrow> function_entry" where
  "stub_entry process = \<lparr>fe_backend = NotImplemented, fe_status = Stub, fe_process_id = process,
     fe_param_map = [], fe_positional = [], fe_outputs = [], fe_sources = []\<rparr>"

definition stubbed_functions :: "string list" where
  "stubbed_functions =
    [''analysis.Clip'', ''analysis.Intersect'', ''analysis.Union'', ''analysis.Erase'', ''analysis.NearestNeighbor'', ''analysis.Near'',
     ''analysis.TabulateIntersection'', ''analysis.MultipleRingBuffer'', ''analysis.PointDistance'', ''analysis.SummarizeWithin'',
     ''analysis.SymmetricalDifference'', ''analysis.Update'', ''analysis.Identity'', ''management.SelectLayerByLocation'',
     ''management.CalculateField'', ''management.AddField'', ''management.DeleteField'', ''management.Append'', ''management.Merge'',
     ''management.Copy'', ''management.Delete'', ''management.Rename'', ''management.CreateFeatureclass'', ''management.CreateTable'',
     ''management.Sort'', ''da.Editor'', ''da.Walk'', ''da.TableToNumPyArray'', ''da.FeatureClassToNumPyArray'', ''da.NumPyArrayToTable'',
     ''da.NumPyArrayToFeatureClass'', ''da.ExtendTable'']"

text \<open>Stubs that name the server process they would need.\<close>

definition stubbed_processes :: "(string \<times> string) list" where
  "stubbed_processes =
    [(''sa.Kriging'', ''raster.interpolate-kriging''), (''sa.Histogram'', ''raster.histogram''), (''sa.SpectralIndex'', ''raster.spectral-index'')]"

definition implemented :: "(string, function_entry) pydict" where
  "implemented =
    [(''analysis.Buffer'', analysis_buffer_entry), (''analysis.SpatialJoin'', analysis_spatial_join_entry),
     (''management.MakeFeatureLayer'', management_make_feature_layer_entry),
     (''management.SelectLayerByAttribute'', management_select_layer_by_attribute_entry), (''management.Dissolve'', management_dissolve_entry),
     (''management.Project'', management_project_entry), (''management.MakeTableView'', management_make_table_view_entry),
     (''management.GetCount'', management_get_count_entry), (''management.ListFields'', management_list_fields_entry),
     (''management.Describe'', management_describe_entry), (''da.SearchCursor'', da_search_cursor_entry),
     (''da.UpdateCursor'', da_update_cursor_entry), (''da.InsertCursor'', da_insert_cursor_entry), (''sa.Slope'', sa_slope_entry),
     (''sa.Aspect'', sa_aspect_entry), (''sa.Hillshade'', sa_hillshade_entry), (''sa.Contour'', sa_contour_entry),
     (''sa.Viewshed'', sa_viewshed_entry), (''sa.Roughness'', sa_roughness_entry), (''sa.TPI'', sa_tpi_entry), (''sa.TRI'', sa_tri_entry),
     (''sa.Clip'', sa_clip_entry), (''sa.Mosaic'', sa_mosaic_entry), (''sa.Reclassify'', sa_reclassify_entry),
     (''sa.ProjectRaster'', sa_project_raster_entry), (''sa.Resample'', sa_resample_entry), (''sa.RasterCalculator'', sa_raster_calculator_entry),
     (''sa.Idw'', sa_idw_entry), (''sa.ZonalStatisticsAsTable'', sa_zonal_statistics_as_table_entry)]"

definition compat :: "(string, function_entry) pydict" where
  "compat = implemented @ map (\<lambda>name. (name, stub_entry None)) stubbed_functions @
     map (\<lambda>(name, process). (name, stub_entry (Some process))) stubbed_processes"

definition entry_for :: "string \<Rightarrow> function_entry option" where
  "entry_for qualified_name = dict_get compat qualified_name"

end
