(* ===== verification/Polling.thy ===== *)
theory Polling
  imports Py_Number
begin

text \<open>
  What the polling loops of the program share: a loop repeats a turn until the turn has a result.
  When every turn that goes on moves a clock forward by at least \<open>tick\<close> and no turn goes on once a
  deadline has passed, the loop ends. \<open>out\<close> is the part of the state the loop returns, \<open>cost\<close> the
  number of polls recorded in it and \<open>good\<close> what every result satisfies.
\<close>

locale polling =
  fixes turn :: "'s \<Rightarrow> 'r option \<times> 's"
    and loop :: "'s \<Rightarrow> ('r \<times> 't) option"
    and out :: "'s \<Rightarrow> 't"
    and cost :: "'t \<Rightarrow> nat"
    and good :: "'r \<Rightarrow> bool"
  assumes unfold: "loop s = (case turn s of (Some r, s') \<Rightarrow> Some (r, out s') | (None, s') \<Rightarrow> loop s')"
    and turn_cost: "turn s = (ro, s') \<Longrightarrow> cost (out s') \<le> Suc (cost (out s))"
    and turn_good: "turn s = (Some r, s') \<Longrightarrow> good r"
begin

definition on_time :: "('s \<Rightarrow> rat) \<Rightarrow> rat \<Rightarrow> rat \<Rightarrow> bool" where
  "on_time clock tick deadline \<longleftrightarrow> (\<forall>s r s'. turn s = (r, s') \<longrightarrow>
     (r = None \<longrightarrow> clock s + tick \<le> clock s' \<and> clock s < deadline) \<and> (deadline \<le> clock s \<longrightarrow> cost (out s') \<le> cost (out s)))"

lemma settles:
  assumes "on_time clock tick deadline" "deadline \<le> clock s + of_nat k * tick"
  shows "\<exists>r t. loop s = Some (r, t) \<and> good r \<and> cost t \<le> cost (out s) + k"
  using assms(2)
proof (induction k arbitrary: s)
  case 0
  obtain r s' where t: "turn s = (r, s')" by (metis surj_pair)
  moreover from t have "(r = None \<longrightarrow> clock s < deadline) \<and> (deadline \<le> clock s \<longrightarrow> cost (out s') \<le> cost (out s))"
    using assms(1) unfolding on_time_def by blast
  ultimately have "r \<noteq> None" "cost (out s') \<le> cost (out s)" using 0 by auto
  then show ?case using t turn_good [of s] by (cases r) (auto simp: unfold [of s])
next
  case (Suc k)
  obtain r s' where t: "turn s = (r, s')" by (metis surj_pair)
  show ?case
  proof (cases r)
    case None
    then have "clock s + tick \<le> clock s'" using assms(1) t unfolding on_time_def by blast
    then have "deadline \<le> clock s' + of_nat k * tick" using Suc.prems by (simp add: algebra_simps)
    then show ?thesis using Suc.IH [of s'] t None turn_cost [OF t] by (fastforce simp: unfold [of s])
  next
    case (Some x)
    then show ?thesis using t turn_cost [OF t] turn_good [of s x s'] by (auto simp: unfold [of s])
  qed
qed

end

text \<open>The number of ticks that reach a limit.\<close>

lemma enough_ticks:
  fixes limit tick :: rat
  assumes "0 \<le> limit" "0 < tick"
  obtains k where "limit \<le> of_nat k * tick" "\<And>n. n \<le> k \<Longrightarrow> of_nat n * tick < limit + tick"
proof -
  define k where "k = nat \<lceil>limit / tick\<rceil>"
  have "of_nat k = (of_int \<lceil>limit / tick\<rceil> :: rat)" using assms by (simp add: k_def)
  then have "limit / tick \<le> of_nat k" "of_nat k < limit / tick + 1" using ceiling_correct [of "limit / tick"] by simp_all
  then have k: "limit \<le> of_nat k * tick" "of_nat k * tick < limit + tick" using assms(2) by (simp_all add: field_simps)
  have "of_nat n * tick < limit + tick" if "n \<le> k" for n
  proof -
    have "of_nat n * tick \<le> of_nat k * tick" using that assms(2) by (intro mult_right_mono) simp_all
    then show ?thesis using k(2) by linarith
  qed
  with k(1) show thesis by (rule that)
qed

end
