(* ===== verification/Process_Jobs.thy ===== *)
theory Process_Jobs
  imports Gp_Audit Py_Number Polling
begin

text \<open>
  \<open>_process_jobs.py\<close>: submitting a server process and polling its job until it ends or time
  runs out.

  The processes client, the clock and the sleep are the fields of \<open>jobs_client\<close> over a world
  of any type: \<open>jc_execute\<close>, \<open>jc_job\<close>, \<open>jc_results\<close> are its methods, \<open>jc_dismiss\<close> its optional
  \<open>dismiss_job\<close>, \<open>jc_now\<close> is \<open>time.monotonic\<close>. The loop may run forever (an infinite timeout, a
  clock that stands still), so it is a partial function whose value \<open>None\<close> is not returning.
\<close>

section \<open>Documents\<close>

definition terminal_ok :: string where
  "terminal_ok = ''successful''"

definition terminal_error :: "string set" where
  "terminal_error = {''failed'', ''dismissed''}"

definition terminal_status :: "string set" where
  "terminal_status = insert terminal_ok terminal_error"

definition results_gone_statuses :: "int set" where
  "results_gone_statuses = {404, 410}"

definition default_poll_interval :: pyfloat where
  "default_poll_interval = FFinite (1 / 2)"

definition default_timeout :: pyfloat where
  "default_timeout = FFinite 600"

record job_outcome =
  jo_job_id :: string
  jo_status :: string
  jo_status_info :: "(string, pyval) pydict"
  jo_results :: "(string, pyval) pydict option"

definition job_id_of :: "(string, pyval) pydict \<Rightarrow> string option" where
  "job_id_of payload =
     (case filter (\<lambda>key. case get_or_none payload key of PStr s \<Rightarrow> s \<noteq> [] | _ \<Rightarrow> False) [''jobID'', ''jobId'', ''id''] of
        [] \<Rightarrow> None
      | key # _ \<Rightarrow> as_str (get_or_none payload key))"

definition status_of :: "(string, pyval) pydict \<Rightarrow> string" where
  "status_of payload = (case get_or_none payload ''status'' of PStr s \<Rightarrow> str_lower s | _ \<Rightarrow> [])"

section \<open>Submitting and polling\<close>

record 'x jobs_client =
  jc_execute :: "string \<Rightarrow> (string, pyval) pydict \<Rightarrow> 'x \<Rightarrow> (gp_exn + pyval) \<times> 'x"
  jc_job :: "string \<Rightarrow> 'x \<Rightarrow> (gp_exn + pyval) \<times> 'x"
  jc_results :: "string \<Rightarrow> 'x \<Rightarrow> (gp_exn + pyval) \<times> 'x"
  jc_dismiss :: "(string \<Rightarrow> 'x \<Rightarrow> gp_exn option \<times> 'x) option"
  jc_sleep :: "pyfloat \<Rightarrow> 'x \<Rightarrow> gp_exn option \<times> 'x"
  jc_now :: "'x \<Rightarrow> pyfloat"

definition finalize ::
  "'x jobs_client \<Rightarrow> string option \<Rightarrow> string \<Rightarrow> (string, pyval) pydict \<Rightarrow> 'x \<Rightarrow> (gp_exn + job_outcome) \<times> 'x" where
  "finalize jc job_id status status_info x =
     (let outcome = (\<lambda>results. \<lparr>jo_job_id = (case job_id of None \<Rightarrow> [] | Some j \<Rightarrow> j), jo_status = status,
                                 jo_status_info = status_info, jo_results = results\<rparr>) in
      if status \<in> terminal_error then (Inl (execute_error (Some status)), x)
      else (case job_id of
          None \<Rightarrow> (Inr (outcome None), x)
        | Some j \<Rightarrow> (case jc_results jc j x of
             (Inl (Foreign c (Some n)), x1) \<Rightarrow>
               (Inl (if n \<in> results_gone_statuses then execute_error (Some ''missing_output'') else Foreign c (Some n)), x1)
           | (Inl e, x1) \<Rightarrow> (Inl e, x1)
           | (Inr fetched, x1) \<Rightarrow> (Inr (outcome (case fetched of PDict d \<Rightarrow> Some d | _ \<Rightarrow> None)), x1))))"

text \<open>\<open>_try_dismiss\<close>: only an exception that is no \<open>Exception\<close> gets out.\<close>

definition try_dismiss :: "'x jobs_client \<Rightarrow> string \<Rightarrow> 'x \<Rightarrow> gp_exn option \<times> 'x" where
  "try_dismiss jc job_id x = (case jc_dismiss jc of
     None \<Rightarrow> (None, x)
   | Some dismiss \<Rightarrow> (case dismiss job_id x of (Some (Interrupt c), x1) \<Rightarrow> (Some (Interrupt c), x1) | (_, x1) \<Rightarrow> (None, x1)))"

text \<open>One turn of the \<open>while True\<close> loop: how it ends, or the world of the next turn.\<close>

definition poll_turn ::
  "'x jobs_client \<Rightarrow> pyfloat \<Rightarrow> pyfloat \<Rightarrow> string \<Rightarrow> 'x \<Rightarrow> (gp_exn + job_outcome) option \<times> 'x" where
  "poll_turn jc poll_interval deadline job_id x =
     (if fl_le deadline (jc_now jc x)
      then (case try_dismiss jc job_id x of (e, x1) \<Rightarrow> (Some (Inl (case e of None \<Rightarrow> execute_error (Some ''timeout'') | Some e \<Rightarrow> e)), x1))
      else (case jc_sleep jc poll_interval x of
          (Some e, x1) \<Rightarrow> (Some (Inl e), x1)
        | (None, x1) \<Rightarrow> (case jc_job jc job_id x1 of
             (Inl e, x2) \<Rightarrow> (Some (Inl e), x2)
           | (Inr (PDict polled), x2) \<Rightarrow>
               if status_of polled \<in> terminal_status
               then (case finalize jc (Some job_id) (status_of polled) polled x2 of (res, x3) \<Rightarrow> (Some res, x3))
               else (None, x2)
           | (Inr _, x2) \<Rightarrow> (Some (Inl (execute_error (Some ''protocol''))), x2))))"

partial_function (option) poll_loop ::
  "'x jobs_client \<Rightarrow> pyfloat \<Rightarrow> pyfloat \<Rightarrow> string \<Rightarrow> 'x \<Rightarrow> ((gp_exn + job_outcome) \<times> 'x) option" where
  [code]: "poll_loop jc poll_interval deadline job_id x =
     (case poll_turn jc poll_interval deadline job_id x of
        (Some res, x1) \<Rightarrow> Some (res, x1)
      | (None, x1) \<Rightarrow> poll_loop jc poll_interval deadline job_id x1)"

definition submit_and_wait ::
  "'x jobs_client \<Rightarrow> string \<Rightarrow> (string, pyval) pydict \<Rightarrow> pyfloat \<Rightarrow> pyfloat \<Rightarrow> 'x \<Rightarrow> ((gp_exn + job_outcome) \<times> 'x) option" where
  "submit_and_wait jc process_id inputs poll_interval timeout x =
     (case jc_execute jc process_id [(''inputs'', PDict inputs)] x of
        (Inl e, x1) \<Rightarrow> Some (Inl e, x1)
      | (Inr (PDict response), x1) \<Rightarrow>
          (let job_id = job_id_of response; status = status_of response in
           if job_id = None \<and> status = [] \<and> list_ex (\<lambda>key. str_startswith key ''output'') (dict_keys response)
           then Some (Inr \<lparr>jo_job_id = [], jo_status = terminal_ok, jo_status_info = [], jo_results = Some response\<rparr>, x1)
           else if status \<in> terminal_status then Some (finalize jc job_id status response x1)
           else (case job_id of
               None \<Rightarrow> Some (Inl (execute_error (Some ''protocol'')), x1)
             | Some j \<Rightarrow> poll_loop jc poll_interval (fl_add (jc_now jc x1) timeout) j x1))
      | (Inr _, x1) \<Rightarrow> Some (Inl (execute_error (Some ''protocol'')), x1))"

section \<open>The wait ends\<close>

text \<open>The client with the number of job documents it fetched beside its world.\<close>

definition counted :: "'x jobs_client \<Rightarrow> ('x \<times> nat) jobs_client" where
  "counted jc = \<lparr>jc_execute = (\<lambda>p q v. case jc_execute jc p q (fst v) of (r, x) \<Rightarrow> (r, (x, snd v))),
     jc_job = (\<lambda>j v. case jc_job jc j (fst v) of (r, x) \<Rightarrow> (r, (x, Suc (snd v)))),
     jc_results = (\<lambda>j v. case jc_results jc j (fst v) of (r, x) \<Rightarrow> (r, (x, snd v))),
     jc_dismiss = map_option (\<lambda>dismiss j v. case dismiss j (fst v) of (r, x) \<Rightarrow> (r, (x, snd v))) (jc_dismiss jc),
     jc_sleep = (\<lambda>d v. case jc_sleep jc d (fst v) of (r, x) \<Rightarrow> (r, (x, snd v))),
     jc_now = (\<lambda>v. jc_now jc (fst v))\<rparr>"

text \<open>A success is one the server reported.\<close>

definition reported_success :: "gp_exn + job_outcome \<Rightarrow> bool" where
  "reported_success res \<longleftrightarrow> (case res of Inl _ \<Rightarrow> True
     | Inr oc \<Rightarrow> jo_status oc = terminal_ok \<and> (jo_status_info oc = [] \<or> status_of (jo_status_info oc) = terminal_ok))"

text \<open>Every sleep moves the clock on by at least \<open>tick\<close>, and fetching a job document does not move it back.\<close>

definition clock_advances :: "'x jobs_client \<Rightarrow> ('x \<Rightarrow> rat) \<Rightarrow> rat \<Rightarrow> bool" where
  "clock_advances jc clock tick \<longleftrightarrow> 0 < tick \<and> (\<forall>x. jc_now jc x = FFinite (clock x)) \<and>
     (\<forall>d x. clock x + tick \<le> clock (snd (jc_sleep jc d x))) \<and> (\<forall>j x. clock x \<le> clock (snd (jc_job jc j x)))"

lemma finalize_result:
  "finalize jc job_id status info x = (res, x') \<Longrightarrow> status_of info = status \<Longrightarrow> status \<in> terminal_status \<Longrightarrow> reported_success res"
  by (auto simp: finalize_def reported_success_def terminal_status_def Let_def split: if_splits option.splits prod.splits sum.splits gp_exn.splits)

lemma finalize_counted: "finalize (counted jc) job_id status info (x, n) = (res, x', n') \<Longrightarrow> n' = n"
  by (auto simp: finalize_def counted_def Let_def split: if_splits option.splits prod.splits sum.splits gp_exn.splits)

lemma try_dismiss_counted: "try_dismiss (counted jc) j (x, n) = (e, x', n') \<Longrightarrow> n' = n"
  by (auto simp: try_dismiss_def counted_def split: option.splits prod.splits gp_exn.splits)

lemma poll_turn_end:
  assumes "poll_turn (counted jc) i D j (x, n) = (Some res, x', n')"
  shows "reported_success res \<and> n' \<le> Suc n \<and> (fl_le D (jc_now jc x) \<longrightarrow> n' = n)"
proof (cases "fl_le D (jc_now jc x)")
  case True
  then show ?thesis using assms
    by (auto simp: poll_turn_def counted_def [of jc] reported_success_def split: prod.splits dest!: try_dismiss_counted [unfolded counted_def])
next
  case False
  obtain e x1 where s: "jc_sleep jc i x = (e, x1)" by (metis surj_pair)
  obtain r x2 where p: "jc_job jc j x1 = (r, x2)" by (metis surj_pair)
  have now: "jc_now (counted jc) (x, n) = jc_now jc x" "jc_sleep (counted jc) i (x, n) = (e, (x1, n))" "jc_job (counted jc) j (x1, n) = (r, (x2, Suc n))"
    using s p by (simp_all add: counted_def)
  show ?thesis using assms False unfolding poll_turn_def now
    by (auto simp: reported_success_def now split: option.splits prod.splits sum.splits pyval.splits if_splits dest: finalize_counted finalize_result)
qed

lemma poll_turn_again:
  assumes "poll_turn (counted jc) i D j (x, n) = (None, x', n')" "clock_advances jc clock tick"
  shows "n' = Suc n \<and> clock x + tick \<le> clock x' \<and> \<not> fl_le D (FFinite (clock x))"
proof -
  obtain e x1 where s: "jc_sleep jc i x = (e, x1)" by (metis surj_pair)
  obtain r x2 where p: "jc_job jc j x1 = (r, x2)" by (metis surj_pair)
  have now: "jc_now (counted jc) (x, n) = FFinite (clock x)" "jc_sleep (counted jc) i (x, n) = (e, (x1, n))" "jc_job (counted jc) j (x1, n) = (r, (x2, Suc n))"
    using s p assms(2) by (simp_all add: counted_def clock_advances_def)
  have "clock x + tick \<le> clock x1" "clock x1 \<le> clock x2" using s p assms(2) unfolding clock_advances_def by (metis snd_conv)+
  then show ?thesis using assms(1) unfolding poll_turn_def now
    by (auto simp: now split: option.splits prod.splits sum.splits pyval.splits if_splits)
qed

lemma poll_turn_again_counts: "poll_turn (counted jc) i D j (x, n) = (None, x', n') \<Longrightarrow> n' \<le> Suc n"
proof -
  obtain e x1 where s: "jc_sleep jc i x = (e, x1)" by (metis surj_pair)
  obtain v x2 where p: "jc_job jc j x1 = (v, x2)" by (metis surj_pair)
  have now: "jc_now (counted jc) (x, n) = jc_now jc x" "jc_sleep (counted jc) i (x, n) = (e, (x1, n))" "jc_job (counted jc) j (x1, n) = (v, (x2, Suc n))"
    using s p by (simp_all add: counted_def)
  assume "poll_turn (counted jc) i D j (x, n) = (None, x', n')"
  then show ?thesis unfolding poll_turn_def now
    by (auto simp: now split: option.splits prod.splits sum.splits pyval.splits if_splits)
qed

lemma poll_turn_counts: "poll_turn (counted jc) i D j s = (r, s') \<Longrightarrow> snd s' \<le> Suc (snd s)"
  by (cases r; cases s; cases s') (auto dest: poll_turn_end poll_turn_again_counts)

interpretation jobs: polling "poll_turn (counted jc) i D j" "poll_loop (counted jc) i D j" "\<lambda>s. s" snd reported_success for jc i D j
proof
  show "poll_loop (counted jc) i D j s = (case poll_turn (counted jc) i D j s of (Some r, s') \<Rightarrow> Some (r, s') | (None, s') \<Rightarrow> poll_loop (counted jc) i D j s')" for s
    by (subst poll_loop.simps) simp
next
  fix s r s' assume "poll_turn (counted jc) i D j s = (Some r, s')"
  then show "reported_success r" by (cases s; cases s') (simp add: poll_turn_end)
qed (rule poll_turn_counts)

lemma poll_loop_settles:
  assumes "clock_advances jc clock tick" "fl_le D (FFinite (clock x + of_nat k * tick))"
  shows "\<exists>res x' n'. poll_loop (counted jc) i D j (x, n) = Some (res, x', n') \<and> reported_success res \<and> n' \<le> n + k"
proof -
  define d where "d = clock x + of_nat k * tick"
  have now: "jc_now jc y = FFinite (clock y)" for y using assms(1) by (simp add: clock_advances_def)
  have "jobs.on_time jc i D j (\<lambda>s. clock (fst s)) tick d"
    unfolding jobs.on_time_def
  proof (intro allI impI conjI)
    fix s r s' assume t: "poll_turn (counted jc) i D j s = (r, s')"
    { assume "r = None"
      then have a: "clock (fst s) + tick \<le> clock (fst s') \<and> \<not> fl_le D (FFinite (clock (fst s)))"
        using poll_turn_again [OF _ assms(1), of i D j "fst s" "snd s" "fst s'" "snd s'"] t by simp
      then show "clock (fst s) + tick \<le> clock (fst s')" by simp
      show "clock (fst s) < d" using a fl_le_mono [OF assms(2), of "clock (fst s)"] by (auto simp: d_def not_less [symmetric])
    }
    assume "d \<le> clock (fst s)"
    then have due: "fl_le D (FFinite (clock (fst s)))" using fl_le_mono [OF assms(2)] by (simp add: d_def)
    then have "r \<noteq> None" using poll_turn_again [OF _ assms(1), of i D j "fst s" "snd s" "fst s'" "snd s'"] t by auto
    then show "snd s' \<le> snd s" using poll_turn_end [of jc i D j "fst s" "snd s" _ "fst s'" "snd s'"] t due now by auto
  qed
  from jobs.settles [OF this, of "(x, n)" k] show ?thesis by (fastforce simp: d_def)
qed


text \<open>A server whose job runs for \<open>wait\<close> polls; its world is the clock and the polls so far.\<close>

definition demo_jobs :: "nat \<Rightarrow> (rat \<times> nat) jobs_client" where
  "demo_jobs wait = \<lparr>jc_execute = (\<lambda>_ _ x. (Inr (PDict [(''jobID'', PStr ''j1''), (''status'', PStr ''accepted'')]), x)),
     jc_job = (\<lambda>_ (t, n). (Inr (PDict [(''status'', PStr (if n < wait then ''running'' else ''Successful''))]), (t, Suc n))),
     jc_results = (\<lambda>_ x. (Inr (PDict [(''output'', PInt 5)]), x)), jc_dismiss = None,
     jc_sleep = (\<lambda>_ (t, n). (None, (t + 1, n))), jc_now = (\<lambda>(t, _). FFinite t)\<rparr>"


end
