(* ===== verification/Gp_Dispatch.thy ===== *)
theory Gp_Dispatch
  imports Da_Cursors Gp_Manifest Process_Jobs
begin

text \<open>
  \<open>_dispatch.py\<close>: binding the arguments of a shim call, projecting them onto a process payload,
  and the dispatchers of the process, admin, source and session backends around one audit record.

  \<open>pc\<close> gives the jobs client behind the session's processes client; admin calls and session
  handlers are arguments, as in the code. Each dispatcher works on the whole world of the shim.
\<close>

definition entry_or_raise :: "string \<Rightarrow> gp_exn + function_entry" where
  "entry_or_raise qualified = (case entry_for qualified of None \<Rightarrow> Inl unsupported_error | Some e \<Rightarrow> Inr e)"

text \<open>Every stub ends here: the unsupported error, after one audit line.\<close>

definition raise_unsupported ::
  "('cl, 'ad, 'pr) gp_host \<Rightarrow> string \<Rightarrow> pyval list \<Rightarrow> (string, pyval) pydict \<Rightarrow> ('cl, 'ad, 'pr, 'x) gp_world \<Rightarrow>
   (gp_exn + 'r) \<times> ('cl, 'ad, 'pr, 'x) gp_world" where
  "raise_unsupported h qualified args kwargs w =
     record_call (he_ip_ok h) qualified args kwargs (\<lambda>line w. (Inl unsupported_error, line, w)) w"

section \<open>Arguments\<close>

definition overflow_name :: "nat \<Rightarrow> string" where
  "overflow_name index = ''arg_'' @ nat_digits (Suc index)"

fun bind_positional :: "string list \<Rightarrow> nat \<Rightarrow> pyval list \<Rightarrow> (string, pyval) pydict \<Rightarrow> (string, pyval) pydict" where
  "bind_positional ordered index [] bound = bound"
| "bind_positional ordered index (v # vs) bound =
     bind_positional ordered (Suc index) vs
       (dict_set bound (if index < length ordered then ordered ! index else overflow_name index) v)"

definition bind_arguments :: "function_entry \<Rightarrow> pyval list \<Rightarrow> (string, pyval) pydict \<Rightarrow> (string, pyval) pydict" where
  "bind_arguments entry args kwargs = dict_update (bind_positional (dict_keys (fe_param_map entry)) 0 args []) kwargs"

section \<open>Projection\<close>

definition resolve_element ::
  "('cl, 'ad, 'pr) gp_host \<Rightarrow> ('cl, 'ad, 'pr, 'x) gp_world \<Rightarrow> pyval \<Rightarrow> gp_exn + pyval" where
  "resolve_element h w element = (case element of
     PStr s \<Rightarrow> bindE (resolve h w (PStr s)) (\<lambda>r. Inr (PStr (rs_source r))) | v \<Rightarrow> Inr v)"

definition resolve_source_value ::
  "('cl, 'ad, 'pr) gp_host \<Rightarrow> ('cl, 'ad, 'pr, 'x) gp_world \<Rightarrow> pyval \<Rightarrow> gp_exn + pyval" where
  "resolve_source_value h w v = (case v of
     PList xs \<Rightarrow> bindE (mapE (resolve_element h w) xs) (\<lambda>ys. Inr (PList ys))
   | PTuple xs \<Rightarrow> bindE (mapE (resolve_element h w) xs) (\<lambda>ys. Inr (PTuple ys))
   | v \<Rightarrow> resolve_element h w v)"

type_synonym alias_log = "(string \<times> layer_alias option) list"

text \<open>The loop of \<open>_project_to_process_inputs\<close>: inputs, outputs and rollback undo so far.\<close>

fun project_loop ::
  "('cl, 'ad, 'pr) gp_host \<Rightarrow> function_entry \<Rightarrow> (string \<times> pyval) list \<Rightarrow> (string, pyval) pydict \<Rightarrow> (string, pyval) pydict \<Rightarrow> alias_log \<Rightarrow>
   ('cl, 'ad, 'pr, 'x) gp_world \<Rightarrow>
   (gp_exn + (string, pyval) pydict \<times> (string, pyval) pydict) \<times> alias_log \<times> ('cl, 'ad, 'pr, 'x) gp_world" where
  "project_loop h entry [] inputs outputs undo w = (Inr (inputs, outputs), undo, w)"
| "project_loop h entry ((name, v) # rest) inputs outputs undo w =
     (let process_name = (case dict_get (fe_param_map entry) name of None \<Rightarrow> name | Some p \<Rightarrow> p) in
      if v = PNone then project_loop h entry rest inputs outputs undo w
      else if name \<in> set (fe_outputs entry)
      then (let undo1 = undo @ (case v of PStr s \<Rightarrow> [(s, get_layer s w)] | _ \<Rightarrow> []) in
        case resolve_or_register_output h w v of
          (Inl e, w1) \<Rightarrow> (Inl e, undo1, w1)
        | (Inr r, w1) \<Rightarrow> project_loop h entry rest inputs (dict_set outputs process_name (PStr (rs_source r))) undo1 w1)
      else if name \<in> set (fe_sources entry)
      then (case resolve_source_value h w v of
          Inl e \<Rightarrow> (Inl e, undo, w)
        | Inr r \<Rightarrow> project_loop h entry rest (dict_set inputs process_name r) outputs undo w)
      else project_loop h entry rest (dict_set inputs process_name v) outputs undo w)"

definition process_metadata :: "('cl, 'ad, 'pr, 'z) gp_session_scheme \<Rightarrow> (string, pyval) pydict" where
  "process_metadata s =
     (if ss_output_cs s \<noteq> PNone then [(''outputCoordinateSystem'', ss_output_cs s)] else []) @
     (if ss_workspace s \<noteq> PNone then [(''workspace'', ss_workspace s)] else []) @
     (if ss_overwrite_output s then [(''overwriteOutput'', PBool True)] else []) @
     (if ss_parallel s \<noteq> PNone then [(''parallelProcessingFactor'', ss_parallel s)] else [])"

definition process_payload ::
  "(string, pyval) pydict \<Rightarrow> (string, pyval) pydict \<Rightarrow> (string, pyval) pydict \<Rightarrow> (string, pyval) pydict" where
  "process_payload inputs outputs meta = [(''inputs'', PDict inputs)] @ (if outputs \<noteq> [] then [(''outputs'', PDict outputs)] else []) @
     (if meta \<noteq> [] then [(''metadata'', PDict [(''honuaArcpy'', PDict meta)])] else [])"

text \<open>\<open>_rollback_output_registrations\<close>, last registration first.\<close>

definition restore_alias :: "string \<times> layer_alias option \<Rightarrow> ('cl, 'ad, 'pr, 'z) gp_session_scheme \<Rightarrow> ('cl, 'ad, 'pr, 'z) gp_session_scheme" where
  "restore_alias entry s = s\<lparr>ss_layers := (case snd entry of None \<Rightarrow> dict_pop (ss_layers s) (fst entry)
     | Some prior \<Rightarrow> dict_set (ss_layers s) (fst entry) prior)\<rparr>"

definition rollback_output_registrations :: "alias_log \<Rightarrow> ('cl, 'ad, 'pr, 'z) gp_session_scheme \<Rightarrow> ('cl, 'ad, 'pr, 'z) gp_session_scheme" where
  "rollback_output_registrations undo s = fold restore_alias (rev undo) s"

section \<open>Dispatchers\<close>

text \<open>The \<open>try\<close> block of \<open>dispatch_process\<close> with the payload sent, before the rollback.\<close>

definition process_attempt ::
  "('cl, 'ad, 'pr) gp_host \<Rightarrow> ('pr \<Rightarrow> 'x jobs_client) \<Rightarrow> function_entry \<Rightarrow> (string, pyval) pydict \<Rightarrow> ('cl, 'ad, 'pr, 'x) gp_world \<Rightarrow>
   (gp_exn + (string, pyval) pydict \<times> pyval) \<times> alias_log \<times> ('cl, 'ad, 'pr, 'x) gp_world" where
  "process_attempt h pc entry bound w = (case project_loop h entry bound [] [] [] w of
     (Inl e, undo, w1) \<Rightarrow> (Inl e, undo, w1)
   | (Inr (inputs, outputs), undo, w1) \<Rightarrow>
      (let payload = process_payload inputs outputs (process_metadata w1) in
       case processes_client h w1 of
         (Inl e, w2) \<Rightarrow> (Inl e, undo, w2)
       | (Inr p, w2) \<Rightarrow> (case jc_execute (pc p) (case fe_process_id entry of None \<Rightarrow> [] | Some i \<Rightarrow> i) payload (gw_ext w2) of
           (Inl e, x) \<Rightarrow> (Inl e, undo, w2\<lparr>gw_ext := x\<rparr>)
         | (Inr result, x) \<Rightarrow> (Inr (payload, result), undo, w2\<lparr>gw_ext := x\<rparr>))))"

definition dispatch_process ::
  "('cl, 'ad, 'pr) gp_host \<Rightarrow> ('pr \<Rightarrow> 'x jobs_client) \<Rightarrow> string \<Rightarrow> pyval list \<Rightarrow> (string, pyval) pydict \<Rightarrow> ('cl, 'ad, 'pr, 'x) gp_world \<Rightarrow>
   (gp_exn + pyval) \<times> ('cl, 'ad, 'pr, 'x) gp_world" where
  "dispatch_process h pc qualified args kwargs w = (case entry_or_raise qualified of
     Inl e \<Rightarrow> (Inl e, w)
   | Inr entry \<Rightarrow>
      if fe_backend entry \<noteq> ProcessBackend then (Inl configuration_error, w)
      else record_call (he_ip_ok h) qualified args kwargs (\<lambda>line w.
        case process_attempt h pc entry (bind_arguments entry args kwargs) w of
          (Inl (Interrupt c), undo, w1) \<Rightarrow> (Inl (Interrupt c), line, w1)
        | (Inl e, undo, w1) \<Rightarrow> (Inl (wrap_source_error e), line, rollback_output_registrations undo w1)
        | (Inr (payload, result), undo, w1) \<Rightarrow>
            (Inr result, dict_set (dict_set (dict_set line ''result_shape'' (shape_of result))
               ''process_id'' (case fe_process_id entry of None \<Rightarrow> PNone | Some i \<Rightarrow> PStr i))
               ''payload_keys'' (PList (map PStr (sorted_strings (dict_keys payload)))), w1)) w)"

definition dispatch_admin ::
  "('cl, 'ad, 'pr) gp_host \<Rightarrow> ('ad \<Rightarrow> (string, pyval) pydict \<Rightarrow> 'x \<Rightarrow> (gp_exn + pyval) \<times> 'x) \<Rightarrow> string \<Rightarrow> pyval list \<Rightarrow> (string, pyval) pydict \<Rightarrow>
   ('cl, 'ad, 'pr, 'x) gp_world \<Rightarrow> (gp_exn + pyval) \<times> ('cl, 'ad, 'pr, 'x) gp_world" where
  "dispatch_admin h callable qualified args kwargs w = (case entry_or_raise qualified of
     Inl e \<Rightarrow> (Inl e, w)
   | Inr entry \<Rightarrow>
      if fe_backend entry \<noteq> AdminBackend then (Inl configuration_error, w)
      else record_call (he_ip_ok h) qualified args kwargs (\<lambda>line w.
        case admin_client h w of
          (Inl e, w1) \<Rightarrow> (Inl (wrap_source_error e), line, w1)
        | (Inr admin, w1) \<Rightarrow> (case callable admin (bind_arguments entry args kwargs) (gw_ext w1) of
            (Inl e, x) \<Rightarrow> (Inl (wrap_source_error e), line, w1\<lparr>gw_ext := x\<rparr>)
          | (Inr result, x) \<Rightarrow> (Inr result, dict_set line ''result_shape'' (shape_of result), w1\<lparr>gw_ext := x\<rparr>))) w)"

text \<open>The context manager of the source backend, around a body that gets entry, bound arguments and record.\<close>

definition dispatch_source ::
  "('cl, 'ad, 'pr) gp_host \<Rightarrow> string \<Rightarrow> pyval list \<Rightarrow> (string, pyval) pydict \<Rightarrow>
   (function_entry \<Rightarrow> (string, pyval) pydict \<Rightarrow> audit_line \<Rightarrow> ('cl, 'ad, 'pr, 'x) gp_world \<Rightarrow> (gp_exn + 'r) \<times> audit_line \<times> ('cl, 'ad, 'pr, 'x) gp_world) \<Rightarrow>
   ('cl, 'ad, 'pr, 'x) gp_world \<Rightarrow> (gp_exn + 'r) \<times> ('cl, 'ad, 'pr, 'x) gp_world" where
  "dispatch_source h qualified args kwargs body w = (case entry_or_raise qualified of
     Inl e \<Rightarrow> (Inl e, w)
   | Inr entry \<Rightarrow>
      if fe_backend entry \<noteq> SourceBackend then (Inl configuration_error, w)
      else record_call (he_ip_ok h) qualified args kwargs (\<lambda>line w.
        case body entry (bind_arguments entry args kwargs) line w of
          (Inl e, line1, w1) \<Rightarrow> (Inl (wrap_source_error e), line1, w1) | (Inr r, line1, w1) \<Rightarrow> (Inr r, line1, w1)) w)"

definition dispatch_session ::
  "('cl, 'ad, 'pr) gp_host \<Rightarrow> ('r \<Rightarrow> pyval) \<Rightarrow> (('cl, 'ad, 'pr, 'x) gp_world \<Rightarrow> (string, pyval) pydict \<Rightarrow> (gp_exn + 'r) \<times> ('cl, 'ad, 'pr, 'x) gp_world) \<Rightarrow>
   string \<Rightarrow> pyval list \<Rightarrow> (string, pyval) pydict \<Rightarrow> ('cl, 'ad, 'pr, 'x) gp_world \<Rightarrow> (gp_exn + 'r) \<times> ('cl, 'ad, 'pr, 'x) gp_world" where
  "dispatch_session h shape handler qualified args kwargs w = (case entry_or_raise qualified of
     Inl e \<Rightarrow> (Inl e, w)
   | Inr entry \<Rightarrow>
      if fe_backend entry \<noteq> SessionBackend then (Inl configuration_error, w)
      else record_call (he_ip_ok h) qualified args kwargs (\<lambda>line w.
        case handler w (bind_arguments entry args kwargs) of
          (Inl e, w1) \<Rightarrow> (Inl e, line, w1)
        | (Inr r, w1) \<Rightarrow> (Inr r, dict_set line ''result_shape'' (shape r), w1)) w)"

section \<open>A failed call leaves no output alias\<close>

definition same_layers :: "('cl, 'ad, 'pr, 'z) gp_session_scheme \<Rightarrow> ('cl, 'ad, 'pr, 'z) gp_session_scheme \<Rightarrow> bool" where
  "same_layers s t \<longleftrightarrow> (\<forall>n. get_layer n t = get_layer n s)"

lemma same_layers_refl [simp]: "same_layers s s"
  by (simp add: same_layers_def)

lemma same_layers_trans: "same_layers s t \<Longrightarrow> same_layers t u \<Longrightarrow> same_layers s u"
  by (simp add: same_layers_def)

lemma same_layers_update [simp]:
  "same_layers s (w\<lparr>gw_ext := x\<rparr>) = same_layers s w" "same_layers (w\<lparr>gw_ext := x\<rparr>) s = same_layers w s"
  by (simp_all add: same_layers_def get_layer_def)

lemma restore_alias_same: "same_layers s t \<Longrightarrow> same_layers (restore_alias entry s) (restore_alias entry t)"
  by (cases "snd entry") (auto simp: same_layers_def restore_alias_def get_layer_def)

lemma rollback_same: "same_layers s t \<Longrightarrow> same_layers (rollback_output_registrations undo s) (rollback_output_registrations undo t)"
proof -
  have "same_layers s t \<Longrightarrow> same_layers (fold restore_alias es s) (fold restore_alias es t)" for es
    by (induction es arbitrary: s t) (simp_all add: restore_alias_same)
  then show "same_layers s t \<Longrightarrow> ?thesis" by (simp add: rollback_output_registrations_def)
qed

lemma rollback_snoc: "rollback_output_registrations (undo @ [entry]) s = rollback_output_registrations undo (restore_alias entry s)"
  by (simp add: rollback_output_registrations_def)

lemma restore_after_output:
  assumes "resolve_or_register_output h w (PStr s) = (r, w')"
  shows "same_layers w (restore_alias (s, get_layer s w) w')"
proof -
  have "w' = w \<or> (\<exists>a u. w' = w\<lparr>ss_layers := dict_set (ss_layers w) s a, ss_unbound := u\<rparr>)"
    using assms by (auto simp: resolve_or_register_output_def register_layer_def split: sum.splits if_splits)
  then show ?thesis
    by (cases "get_layer s w") (auto simp: same_layers_def restore_alias_def get_layer_def)
qed

lemma output_not_text: "(\<And>s. v \<noteq> PStr s) \<Longrightarrow> resolve_or_register_output h w v = (r, w') \<Longrightarrow> w' = w"
  by (cases v) (auto simp: resolve_or_register_output_def split: sum.splits)

lemma project_loop_restores:
  assumes "same_layers w0 (rollback_output_registrations undo w)" "project_loop h entry items inputs outputs undo w = (r, undo', w')"
  shows "same_layers w0 (rollback_output_registrations undo' w')"
  using assms
proof (induction h entry items inputs outputs undo w rule: project_loop.induct)
  case (2 h entry name v rest inputs outputs undo w)
  show ?case
  proof (cases "v \<noteq> PNone \<and> name \<in> set (fe_outputs entry)")
    case True
    obtain r1 w1 where o: "resolve_or_register_output h w v = (r1, w1)" by (metis surj_pair)
    have undone: "same_layers w0 (rollback_output_registrations (undo @ (case v of PStr s \<Rightarrow> [(s, get_layer s w)] | _ \<Rightarrow> [])) w1)"
    proof (cases "\<exists>s. v = PStr s")
      case True
      then obtain s where s: "v = PStr s" by blast
      show ?thesis using same_layers_trans [OF "2.prems"(1) rollback_same [OF restore_after_output [OF o [unfolded s]]]]
        by (simp add: s rollback_snoc)
    next
      case False
      then have "w1 = w" using output_not_text [OF _ o] by blast
      with False "2.prems"(1) show ?thesis by (cases v) auto
    qed
    show ?thesis
    proof (cases r1)
      case (Inr res)
      then show ?thesis using "2.IH"(2) True o undone "2.prems"(2) by (simp add: Let_def)
    qed (use True o undone "2.prems"(2) in \<open>auto simp: Let_def\<close>)
  next
    case False
    then show ?thesis using "2.IH"(1,3,4) "2.prems" by (auto simp: Let_def split: if_splits sum.splits)
  qed
qed simp

lemma client_layers: "ss_layers (snd (client h s)) = ss_layers s"
proof -
  have b: "ss_layers (snd (build_client h s)) = ss_layers s" by (simp add: build_client_def build_with_state bootstrap_from_env_def Let_def)
  show ?thesis
  proof (cases "ss_client s")
    case None
    then show ?thesis using b by (cases "build_client h s") (auto simp: client_def split: sum.split)
  qed (simp add: client_def)
qed

lemma processes_client_layers: "ss_layers (snd (processes_client h s)) = ss_layers s"
proof (cases "ss_processes s")
  case None
  then show ?thesis using client_layers [of h s] by (cases "client h s") (auto simp: processes_client_def split: sum.split option.split)
qed (simp add: processes_client_def)

lemma process_attempt_restores:
  assumes "process_attempt h pc entry bound w = (r, undo, w')"
  shows "same_layers w (rollback_output_registrations undo w')"
proof -
  obtain p u1 w1 where p: "project_loop h entry bound [] [] [] w = (p, u1, w1)" by (metis surj_pair)
  have s: "same_layers w (rollback_output_registrations u1 w1)"
    by (rule project_loop_restores [OF _ p]) (simp add: rollback_output_registrations_def)
  obtain c w2 where c: "processes_client h w1 = (c, w2)" by (metis surj_pair)
  have "same_layers w1 w2" using processes_client_layers [of h w1] c by (simp add: same_layers_def get_layer_def)
  then have s2: "same_layers w (rollback_output_registrations u1 w2)" using s rollback_same same_layers_trans by blast
  have ext: "same_layers w (rollback_output_registrations u1 (w2\<lparr>gw_ext := x\<rparr>))" for x
    by (rule same_layers_trans [OF s2 rollback_same]) simp
  show ?thesis using assms p c s s2 ext unfolding process_attempt_def
    by (auto simp: Let_def split: sum.splits prod.splits)
qed

lemma get_layer_record_close [simp]: "get_layer n (record_close f line w) = get_layer n w"
  by (simp add: get_layer_def record_close_def)

text \<open>C20. A failed process call leaves the layer aliases of the session as they were, however far its
  projection and submission got: outputs it had registered are removed and aliases it had
  replaced are put back, so the call can be made again. Only an exception that is no
  \<open>Exception\<close> (an interrupt) escapes the rollback.\<close>

theorem failed_process_restores_layers:
  assumes "dispatch_process h pc qualified args kwargs w = (Inl e, w')" and "\<And>c. e \<noteq> Interrupt c"
  shows "get_layer name w' = get_layer name w"
proof (cases "entry_or_raise qualified")
  case (Inr entry)
  show ?thesis
  proof (cases "fe_backend entry = ProcessBackend \<and> (\<exists>line. record_open (he_ip_ok h) qualified args kwargs = Inr line)")
    case True
    then obtain line where b: "fe_backend entry = ProcessBackend" and l: "record_open (he_ip_ok h) qualified args kwargs = Inr line" by blast
    obtain r undo w1 where a: "process_attempt h pc entry (bind_arguments entry args kwargs) w = (r, undo, w1)" by (metis surj_pair)
    obtain e1 where r: "r = Inl e1" "\<And>c. e1 \<noteq> Interrupt c"
      and w': "w' = record_close (Some e) line (rollback_output_registrations undo w1)"
      using assms a Inr b l by (cases r) (auto simp: dispatch_process_def record_call_def split: gp_exn.splits prod.splits)
    then show ?thesis using process_attempt_restores [OF a] by (simp add: same_layers_def)
  next
    case False
    then show ?thesis using assms Inr by (auto simp: dispatch_process_def record_call_def split: if_splits sum.splits)
  qed
qed (use assms in \<open>simp add: dispatch_process_def\<close>)

text \<open>A processes client whose server answers nothing.\<close>

definition dead_jobs :: "'x jobs_client" where
  "dead_jobs = \<lparr>jc_execute = (\<lambda>_ _ x. (Inl (Foreign ''HonuaTransportError'' None), x)), jc_job = (\<lambda>_ x. (Inr PNone, x)), jc_results = (\<lambda>_ x. (Inr PNone, x)),
     jc_dismiss = None, jc_sleep = (\<lambda>_ x. (None, x)), jc_now = (\<lambda>_. FFinite 0)\<rparr>"

theorem failed_process_restores_layers_witness:
  "\<exists>w'. dispatch_process quiet_host (\<lambda>_. dead_jobs) ''analysis.Buffer'' [PStr ''roads''] [(''out_feature_class'', PStr ''out'')] (world_of ()) =
       (Inl (Execute ''HonuaTransportError''), w') \<and> get_layer ''out'' w' = None"
proof -
  let ?run = "dispatch_process quiet_host (\<lambda>_. dead_jobs) ''analysis.Buffer'' [PStr ''roads''] [(''out_feature_class'', PStr ''out'')] (world_of ())"
  have "fst ?run = Inl (Execute ''HonuaTransportError'')" by code_simp
  then obtain w' where r: "?run = (Inl (Execute ''HonuaTransportError''), w')" by (cases ?run) auto
  have "get_layer ''out'' (world_of ()) = None" by (simp add: get_layer_def world_of_def gp_session.defs new_session_def)
  then show ?thesis using r failed_process_restores_layers [OF r, of "''out''"] by simp
qed

end
