(* ===== verification/Gp_Management.thy ===== *)
theory Gp_Management
  imports Gp_Dispatch
begin

text \<open>
  \<open>management/__init__.py\<close>: making layer aliases, selecting rows of a layer by attribute and
  counting its rows.

  \<open>qry\<close> is the \<open>query\<close> method of the source a client gives for a descriptor, with the
  \<open>where\<close> argument if one is passed; an answer has the \<open>total_count\<close> attribute as it is and
  the number of its features, if it has any.
\<close>

section \<open>Making a layer\<close>

definition make_layer_handler ::
  "('cl, 'ad, 'pr) gp_host \<Rightarrow> ('cl, 'ad, 'pr, 'x) gp_world \<Rightarrow> (string, pyval) pydict \<Rightarrow> (gp_exn + layer_alias) \<times> ('cl, 'ad, 'pr, 'x) gp_world" where
  "make_layer_handler h w bound =
     (case (py_or (get_or_none bound ''out_layer'') (get_or_none bound ''out_view''), py_or (get_or_none bound ''in_features'') (get_or_none bound ''in_table'')) of
        (PStr (n # ns), PStr (p # ps)) \<Rightarrow> (case resolve h w (PStr (p # ps)) of
          Inl e \<Rightarrow> (Inl e, w)
        | Inr r \<Rightarrow> register_layer
            \<lparr>la_name = n # ns, la_source = rs_source r, la_where = get_or_none bound ''where_clause'', la_field_info = get_or_none bound ''field_info'',
             la_selection = [], la_workspace = py_or (py_or (get_or_none bound ''workspace'') (rs_workspace r)) (ss_workspace w),
             la_kind = (if dict_has bound ''out_view'' then ''table'' else ''layer''),
             la_output = (case get_layer (p # ps) w of None \<Rightarrow> None | Some a \<Rightarrow> la_output a)\<rparr> w)
      | _ \<Rightarrow> (Inl configuration_error, w))"

definition alias_shape :: "layer_alias \<Rightarrow> pyval" where
  "alias_shape _ = PDict [(''type'', PStr ''LayerAlias'')]"

definition make_feature_layer ::
  "('cl, 'ad, 'pr) gp_host \<Rightarrow> pyval \<Rightarrow> pyval \<Rightarrow> pyval \<Rightarrow> pyval \<Rightarrow> pyval \<Rightarrow> ('cl, 'ad, 'pr, 'x) gp_world \<Rightarrow>
   (gp_exn + layer_alias) \<times> ('cl, 'ad, 'pr, 'x) gp_world" where
  "make_feature_layer h in_features out_layer where_clause workspace field_info w =
     dispatch_session h alias_shape (make_layer_handler h) ''management.MakeFeatureLayer'' []
       [(''in_features'', in_features), (''out_layer'', out_layer), (''where_clause'', where_clause), (''workspace'', workspace), (''field_info'', field_info)] w"

definition make_table_view ::
  "('cl, 'ad, 'pr) gp_host \<Rightarrow> pyval \<Rightarrow> pyval \<Rightarrow> pyval \<Rightarrow> pyval \<Rightarrow> pyval \<Rightarrow> ('cl, 'ad, 'pr, 'x) gp_world \<Rightarrow>
   (gp_exn + layer_alias) \<times> ('cl, 'ad, 'pr, 'x) gp_world" where
  "make_table_view h in_table out_view where_clause workspace field_info w =
     dispatch_session h alias_shape (make_layer_handler h) ''management.MakeTableView'' []
       [(''in_table'', in_table), (''out_view'', out_view), (''where_clause'', where_clause), (''workspace'', workspace), (''field_info'', field_info)] w"

section \<open>Counting\<close>

record query_answer =
  qa_total :: pyval
  qa_features :: "nat option"

type_synonym ('cl, 'x) query_call = "'cl \<Rightarrow> source_descriptor \<Rightarrow> pyval option \<Rightarrow> 'x \<Rightarrow> (gp_exn + query_answer) \<times> 'x"

text \<open>\<open>isinstance(total, int)\<close> holds of a \<open>bool\<close>, which counts as 0 or 1.\<close>

definition answer_count :: "query_answer \<Rightarrow> int" where
  "answer_count a = (case qa_total a of PInt i \<Rightarrow> i | PBool b \<Rightarrow> of_bool b
     | _ \<Rightarrow> (case qa_features a of None \<Rightarrow> 0 | Some n \<Rightarrow> int n))"

definition where_argument :: "pyval \<Rightarrow> pyval option" where
  "where_argument whr = (if truthy whr then Some whr else None)"

definition query_output :: "output_artifact \<Rightarrow> pyval \<Rightarrow> gp_exn + query_answer" where
  "query_output a whr = bindE (artifact_query a (case where_argument whr of None \<Rightarrow> [] | Some v \<Rightarrow> [(''where'', v)])) (\<lambda>(rows, n).
     Inr \<lparr>qa_total = PInt (int n), qa_features = Some (length rows)\<rparr>)"

definition query_remote ::
  "('cl, 'x) query_call \<Rightarrow> 'cl \<Rightarrow> source_descriptor \<Rightarrow> pyval \<Rightarrow> ('cl, 'ad, 'pr, 'x) gp_world \<Rightarrow>
   (gp_exn + query_answer) \<times> ('cl, 'ad, 'pr, 'x) gp_world" where
  "query_remote qry c d whr w = (case qry c d (where_argument whr) (gw_ext w) of (r, x) \<Rightarrow> (r, w\<lparr>gw_ext := x\<rparr>))"

definition layer_count ::
  "('cl, 'ad, 'pr) gp_host \<Rightarrow> ('cl, 'x) remote \<Rightarrow> ('cl, 'x) query_call \<Rightarrow> layer_alias \<Rightarrow> pyval \<Rightarrow> ('cl, 'ad, 'pr, 'x) gp_world \<Rightarrow>
   (gp_exn + int) \<times> ('cl, 'ad, 'pr, 'x) gp_world" where
  "layer_count h rm qry alias whr w = (case output_source_for (Some alias) of
     Some a \<Rightarrow> (bindE (query_output a whr) (\<lambda>r. Inr (answer_count r)), w)
   | None \<Rightarrow> (case client h w of
        (Inl e, w1) \<Rightarrow> (Inl e, w1)
      | (Inr c, w1) \<Rightarrow>
          if \<not> rm_has_source rm c then (Inl configuration_error, w1)
          else (case bindE (resolve h w1 (PStr (la_name alias))) (descriptor_mapping h w1) of
              Inl e \<Rightarrow> (Inl e, w1)
            | Inr d \<Rightarrow> (case rm_open rm c d of Some e \<Rightarrow> (Inl e, w1)
                | None \<Rightarrow> (case query_remote qry c d whr w1 of (r, w2) \<Rightarrow> (bindE r (\<lambda>a. Inr (answer_count a)), w2))))))"

definition count_shape :: "pyval" where
  "count_shape = shape_of (PDict [(''count'', PInt 0)])"

definition get_count ::
  "('cl, 'ad, 'pr) gp_host \<Rightarrow> ('cl, 'x) remote \<Rightarrow> ('cl, 'x) query_call \<Rightarrow> pyval \<Rightarrow> ('cl, 'ad, 'pr, 'x) gp_world \<Rightarrow>
   (gp_exn + int) \<times> ('cl, 'ad, 'pr, 'x) gp_world" where
  "get_count h rm qry in_rows w = record_call (he_ip_ok h) ''management.GetCount'' [in_rows] [] (\<lambda>line w.
     let alias = (case in_rows of PStr name \<Rightarrow> get_layer name w | _ \<Rightarrow> None);
         whr = alias_where_of alias;
         done = (\<lambda>(r, w1). case r of Inl e \<Rightarrow> (Inl (wrap_source_error e), line, w1)
           | Inr a \<Rightarrow> (Inr (answer_count a), dict_set line ''result_shape'' count_shape, w1)) in
     case resolve h w (case alias of None \<Rightarrow> in_rows | Some a \<Rightarrow> PStr (la_name a)) of
       Inl e \<Rightarrow> (Inl e, line, w)
     | Inr resolved \<Rightarrow> (case output_source_for alias of
          Some a \<Rightarrow> done (query_output a whr, w)
        | None \<Rightarrow> (case client h w of
            (Inl e, w1) \<Rightarrow> (Inl e, line, w1)
          | (Inr c, w1) \<Rightarrow>
              if \<not> rm_has_source rm c then (Inl configuration_error, line, w1)
              else (case descriptor_mapping h w1 resolved of Inl e \<Rightarrow> (Inl e, line, w1)
                | Inr d \<Rightarrow> (case rm_open rm c d of Some e \<Rightarrow> done (Inl e, w1) | None \<Rightarrow> done (query_remote qry c d whr w1)))))) w"

section \<open>Selecting\<close>

definition selection_types :: "string set" where
  "selection_types = {''NEW_SELECTION'', ''ADD_TO_SELECTION'', ''REMOVE_FROM_SELECTION'', ''SUBSET_SELECTION'', ''CLEAR_SELECTION'', ''SWITCH_SELECTION''}"

definition clause2 :: "pyval \<Rightarrow> string \<Rightarrow> pyval \<Rightarrow> pyval" where
  "clause2 a operator b = PStr (''('' @ py_str a @ '') '' @ operator @ '' ('' @ py_str b @ '')'')"

definition apply_selection :: "pyval \<Rightarrow> string \<Rightarrow> pyval \<Rightarrow> pyval" where
  "apply_selection existing selection_type whr =
     (if selection_type = ''CLEAR_SELECTION'' then PNone
      else if \<not> truthy whr then existing
      else if selection_type = ''NEW_SELECTION'' \<or> \<not> truthy existing then whr
      else if selection_type = ''ADD_TO_SELECTION'' then clause2 existing ''OR'' whr
      else if selection_type = ''SUBSET_SELECTION'' then clause2 existing ''AND'' whr
      else if selection_type = ''REMOVE_FROM_SELECTION'' then clause2 existing ''AND NOT'' whr
      else whr)"

record selection =
  sel_layer :: string
  sel_count :: int
  sel_where :: pyval
  sel_type :: string

definition normalized_type :: "string \<Rightarrow> string" where
  "normalized_type selection_type = str_upper (if selection_type = [] then ''NEW_SELECTION'' else selection_type)"

definition effective_where :: "pyval \<Rightarrow> pyval \<Rightarrow> pyval" where
  "effective_where where_clause invert =
     (if truthy where_clause \<and> truthy invert then PStr (''NOT ('' @ py_str where_clause @ '')'') else where_clause)"

text \<open>The alias object is mutated in place; it is the value of its own name in the alias map.\<close>

definition commit_selection ::
  "layer_alias \<Rightarrow> string \<Rightarrow> pyval \<Rightarrow> bool \<Rightarrow> ('cl, 'ad, 'pr, 'x) gp_world \<Rightarrow> ('cl, 'ad, 'pr, 'x) gp_world" where
  "commit_selection alias kind candidate invert w = w\<lparr>ss_layers := dict_set (ss_layers w) (la_name alias)
     (alias\<lparr>la_where := candidate, la_selection := [(''selection_type'', PStr kind), (''where'', candidate), (''invert'', PBool invert)]\<rparr>)\<rparr>"

definition select_layer_body ::
  "('cl, 'ad, 'pr) gp_host \<Rightarrow> ('cl, 'x) remote \<Rightarrow> ('cl, 'x) query_call \<Rightarrow> pyval \<Rightarrow> string \<Rightarrow> pyval \<Rightarrow> pyval \<Rightarrow> audit_line \<Rightarrow>
   ('cl, 'ad, 'pr, 'x) gp_world \<Rightarrow> (gp_exn + selection) \<times> audit_line \<times> ('cl, 'ad, 'pr, 'x) gp_world" where
  "select_layer_body h rm qry in_layer_or_view kind where_clause invert line w =
     (case (case in_layer_or_view of PStr name \<Rightarrow> get_layer name w | _ \<Rightarrow> None) of
        None \<Rightarrow> (Inl configuration_error, line, w)
      | Some alias \<Rightarrow>
          if kind \<notin> selection_types then (Inl configuration_error, line, w)
          else (let candidate = apply_selection (la_where alias) kind (effective_where where_clause invert) in
            case layer_count h rm qry alias candidate w of
              (Inl e, w1) \<Rightarrow> (Inl (wrap_source_error e), line, w1)
            | (Inr n, w1) \<Rightarrow>
                (Inr \<lparr>sel_layer = la_name alias, sel_count = n, sel_where = candidate, sel_type = kind\<rparr>,
                 dict_set line ''result_shape'' (shape_of (PDict [(''layer'', PStr (la_name alias)), (''count'', PInt n)])),
                 commit_selection alias kind candidate (truthy invert) w1)))"

definition select_layer_by_attribute ::
  "('cl, 'ad, 'pr) gp_host \<Rightarrow> ('cl, 'x) remote \<Rightarrow> ('cl, 'x) query_call \<Rightarrow> pyval \<Rightarrow> string \<Rightarrow> pyval \<Rightarrow> pyval \<Rightarrow>
   ('cl, 'ad, 'pr, 'x) gp_world \<Rightarrow> (gp_exn + selection) \<times> ('cl, 'ad, 'pr, 'x) gp_world" where
  "select_layer_by_attribute h rm qry in_layer_or_view selection_type where_clause invert w =
     (let args = [in_layer_or_view, PStr selection_type, where_clause]; kwargs = [(''invert_where_clause'', invert)] in
      if entry_for ''management.SelectLayerByAttribute'' = None then (Inl configuration_error, w)
      else if normalized_type selection_type = ''SWITCH_SELECTION''
      then raise_unsupported h ''management.SelectLayerByAttribute(selection_type=SWITCH_SELECTION)'' args kwargs w
      else record_call (he_ip_ok h) ''management.SelectLayerByAttribute'' args kwargs
        (select_layer_body h rm qry in_layer_or_view (normalized_type selection_type) where_clause invert) w)"

section \<open>Selections as sets of rows\<close>

text \<open>
  The predicates the shim composes, their text and the rows they hold for, given the meaning of
  the clauses a script passes.
\<close>

datatype predicate = Clause string | Complement predicate | Either predicate predicate | Both predicate predicate | Without predicate predicate

fun sql_text :: "predicate \<Rightarrow> string" where
  "sql_text (Clause c) = c"
| "sql_text (Complement p) = ''NOT ('' @ sql_text p @ '')''"
| "sql_text (Either p q) = ''('' @ sql_text p @ '') OR ('' @ sql_text q @ '')''"
| "sql_text (Both p q) = ''('' @ sql_text p @ '') AND ('' @ sql_text q @ '')''"
| "sql_text (Without p q) = ''('' @ sql_text p @ '') AND NOT ('' @ sql_text q @ '')''"

fun rows_of :: "(string \<Rightarrow> 'r set) \<Rightarrow> predicate \<Rightarrow> 'r set" where
  "rows_of clause (Clause c) = clause c"
| "rows_of clause (Complement p) = - rows_of clause p"
| "rows_of clause (Either p q) = rows_of clause p \<union> rows_of clause q"
| "rows_of clause (Both p q) = rows_of clause p \<inter> rows_of clause q"
| "rows_of clause (Without p q) = rows_of clause p - rows_of clause q"

text \<open>
  The reference: a selection is a set of rows, or none; so is the clause of a call. Without a
  selection, adding and subsetting start one and removing leaves none.
\<close>

definition reference_select :: "string \<Rightarrow> 'r set option \<Rightarrow> 'r set option \<Rightarrow> 'r set option" where
  "reference_select kind current wanted =
     (if kind = ''CLEAR_SELECTION'' then None
      else (case wanted of None \<Rightarrow> current | Some W \<Rightarrow> (case current of
          None \<Rightarrow> if kind = ''REMOVE_FROM_SELECTION'' then None else Some W
        | Some S \<Rightarrow> Some (if kind = ''ADD_TO_SELECTION'' then S \<union> W else if kind = ''SUBSET_SELECTION'' then S \<inter> W
            else if kind = ''REMOVE_FROM_SELECTION'' then S - W else W))))"

definition clause_rows :: "(string \<Rightarrow> 'r set) \<Rightarrow> string option \<Rightarrow> bool \<Rightarrow> 'r set option" where
  "clause_rows clause where_clause invert = (case where_clause of
     Some (c # cs) \<Rightarrow> Some (if invert then - clause (c # cs) else clause (c # cs)) | _ \<Rightarrow> None)"

definition stands_for :: "(string \<Rightarrow> 'r set) \<Rightarrow> pyval \<Rightarrow> 'r set option \<Rightarrow> bool" where
  "stands_for clause v current \<longleftrightarrow> (case current of
     None \<Rightarrow> \<not> truthy v
   | Some S \<Rightarrow> \<exists>p. v = PStr (sql_text p) \<and> sql_text p \<noteq> [] \<and> S = rows_of clause p)"

definition text_value :: "string option \<Rightarrow> pyval" where
  "text_value t = (case t of None \<Rightarrow> PNone | Some s \<Rightarrow> PStr s)"

lemma effective_where_stands:
  "stands_for clause (effective_where (text_value where_clause) (PBool invert)) (clause_rows clause where_clause invert)"
proof (cases where_clause)
  case (Some t)
  show ?thesis
  proof (cases t)
    case (Cons c cs)
    have "\<exists>p. (if invert then ''NOT ('' @ t @ '')'' else t) = sql_text p \<and> sql_text p \<noteq> [] \<and> (if invert then - clause t else clause t) = rows_of clause p"
      by (rule exI [of _ "if invert then Complement (Clause t) else Clause t"]) (simp add: Cons)
    then show ?thesis by (auto simp: effective_where_def text_value_def clause_rows_def stands_for_def Some Cons)
  qed (simp add: effective_where_def text_value_def clause_rows_def stands_for_def Some)
qed (simp add: effective_where_def text_value_def clause_rows_def stands_for_def)

lemma apply_selection_stands:
  assumes v: "stands_for clause v current" and q: "stands_for clause q wanted"
    and kind: "kind \<in> {''NEW_SELECTION'', ''ADD_TO_SELECTION'', ''SUBSET_SELECTION'', ''REMOVE_FROM_SELECTION'', ''CLEAR_SELECTION''}"
    and "kind = ''REMOVE_FROM_SELECTION'' \<Longrightarrow> wanted = None \<or> current \<noteq> None"
  shows "stands_for clause (apply_selection v kind q) (reference_select kind current wanted)"
proof (cases wanted)
  case None
  then show ?thesis using v q by (auto simp: apply_selection_def reference_select_def stands_for_def)
next
  case (Some W)
  then obtain p where p: "q = PStr (sql_text p)" "sql_text p \<noteq> []" "W = rows_of clause p" using q by (auto simp: stands_for_def)
  show ?thesis
  proof (cases current)
    case None
    then show ?thesis using v q p Some assms(4) by (auto simp: apply_selection_def reference_select_def stands_for_def)
  next
    case (Some S)
    then obtain r where r: "v = PStr (sql_text r)" "sql_text r \<noteq> []" "S = rows_of clause r" using v by (auto simp: stands_for_def)
    have t: "clause2 v ''OR'' q = PStr (sql_text (Either r p))" "clause2 v ''AND'' q = PStr (sql_text (Both r p))"
      "clause2 v ''AND NOT'' q = PStr (sql_text (Without r p))" by (simp_all add: clause2_def p r)
    have "stands_for clause (clause2 v ''OR'' q) (Some (S \<union> W))" "stands_for clause (clause2 v ''AND'' q) (Some (S \<inter> W))"
      "stands_for clause (clause2 v ''AND NOT'' q) (Some (S - W))"
      unfolding t stands_for_def using p(3) r(3) by (auto intro: exI [of _ "Either r p"] exI [of _ "Both r p"] exI [of _ "Without r p"])
    then show ?thesis using kind p(1,2) r(1,2) q Some \<open>wanted = Some W\<close> by (auto simp: apply_selection_def reference_select_def stands_for_def)
  qed
qed

text \<open>Without a selection, removing rows selects exactly the rows to be removed.\<close>

lemma remove_without_selection_selects: "apply_selection PNone ''REMOVE_FROM_SELECTION'' (PStr (c # cs)) = PStr (c # cs)"
  by (simp add: apply_selection_def)

text \<open>The \<open>where_clause\<close> a layer was made with is its first selection, so a new selection widens the layer to all rows.\<close>

lemma new_selection_replaces_definition: "apply_selection (PStr definition_query) ''NEW_SELECTION'' (PStr (c # cs)) = PStr (c # cs)"
  by (simp add: apply_selection_def)

lemma layer_count_layers: "layer_count h rm qry alias whr w = (r, w') \<Longrightarrow> ss_layers w' = ss_layers w"
proof (cases "output_source_for (Some alias)")
  case None
  obtain c w1 where c: "client h w = (c, w1)" by (metis surj_pair)
  have l: "ss_layers w1 = ss_layers w" using client_layers [of h w] c by simp
  assume "layer_count h rm qry alias whr w = (r, w')"
  then show ?thesis using None c l by (auto simp: layer_count_def query_remote_def split: sum.splits if_splits option.splits prod.splits)
qed (auto simp: layer_count_def)


definition roads_alias :: layer_alias where
  "roads_alias = \<lparr>la_name = ''roads'', la_source = ''honua://services/roads/3'', la_where = PStr ''lanes > 2'', la_field_info = PNone, la_selection = [],
     la_workspace = PNone, la_kind = ''layer'', la_output = None\<rparr>"

text \<open>Rows are lane counts.\<close>

definition lane_rows :: "string \<Rightarrow> nat set" where
  "lane_rows clause = (if clause = ''lanes > 2'' then {n. 2 < n} else {4})"


end
