(* ===== verification/Wkb.thy ===== *)
theory Wkb
  imports Py_Number
begin

text \<open>
  \<open>_wkb.py\<close> of honua-gp: GeoJSON geometries as little-endian ISO WKB and its base64 text, with
  a decoder as the reference the encoder is proved against.

  \<open>BadGeometry\<close> is \<open>WkbEncodingError\<close>, \<open>PackError\<close> is \<open>struct.error\<close> and \<open>WkbRaised\<close> any other
  exception. Message texts are not kept. The generators are consumed whole by every caller, so
  they are lists here.
\<close>

datatype wkb_error = BadGeometry | PackError | WkbRaised py_error

definition raising :: "py_error + 'a \<Rightarrow> wkb_error + 'a" where
  "raising m = (case m of Inl e \<Rightarrow> Inl (WkbRaised e) | Inr x \<Rightarrow> Inr x)"

lemma raising_Inr [simp]: "raising m = Inr x \<longleftrightarrow> m = Inr x"
  by (cases m) (auto simp: raising_def)

section \<open>Reading GeoJSON\<close>

definition type_codes :: "(string, nat) pydict" where
  "type_codes = [(''Point'', 1), (''LineString'', 2), (''Polygon'', 3), (''MultiPoint'', 4),
     (''MultiLineString'', 5), (''MultiPolygon'', 6), (''GeometryCollection'', 7)]"

text \<open>Nesting depth of a position inside \<open>coordinates\<close> for each type.\<close>

definition position_depth :: "(string, nat) pydict" where
  "position_depth = [(''Point'', 0), (''LineString'', 1), (''MultiPoint'', 1), (''Polygon'', 2),
     (''MultiLineString'', 2), (''MultiPolygon'', 3)]"

definition z_offset :: nat where
  "z_offset = 1000"

definition is_sequence :: "pyval \<Rightarrow> bool" where
  "is_sequence v = (case v of PList _ \<Rightarrow> True | PTuple _ \<Rightarrow> True | _ \<Rightarrow> False)"

definition seq_items :: "pyval \<Rightarrow> pyval list" where
  "seq_items v = (case v of PList xs \<Rightarrow> xs | PTuple xs \<Rightarrow> xs | _ \<Rightarrow> [])"

text \<open>Looking an unhashable value up in a dict raises \<open>TypeError\<close>.\<close>

fun hashable :: "pyval \<Rightarrow> bool" where
  "hashable (PList _) = False"
| "hashable (PDict _) = False"
| "hashable (PTuple xs) = list_all hashable xs"
| "hashable _ = True"

definition geometry_kind :: "pyval \<Rightarrow> wkb_error + string" where
  "geometry_kind geometry = (case geometry of
     PDict d \<Rightarrow> (case get_or_none d ''type'' of
         PStr kind \<Rightarrow> if dict_has type_codes kind then Inr kind else Inl BadGeometry
       | v \<Rightarrow> if hashable v then Inl BadGeometry else Inl (WkbRaised ErrType))
   | _ \<Rightarrow> Inl BadGeometry)"

definition member_of :: "pyval \<Rightarrow> string \<Rightarrow> pyval" where
  "member_of geometry key = (case geometry of PDict d \<Rightarrow> get_or_none d key | _ \<Rightarrow> PNone)"

definition members :: "pyval \<Rightarrow> wkb_error + pyval list" where
  "members geometry = (let v = member_of geometry ''geometries''
     in if is_sequence v then Inr (seq_items v) else Inl BadGeometry)"

lemma size_member_of: "member_of g key \<noteq> PNone \<Longrightarrow> size (member_of g key) < size g"
proof (cases g)
  case (PDict d)
  assume "member_of g key \<noteq> PNone"
  then obtain v where "dict_get d key = Some v" "member_of g key = v"
    using PDict by (auto simp: member_of_def get_or_none_def split: option.splits)
  then show ?thesis using PDict size_dict_value [of key v d] by (simp add: dict_get_def map_of_SomeD)
qed (auto simp: member_of_def)

lemma size_seq_items: "m \<in> set (seq_items v) \<Longrightarrow> size m < size v"
  by (cases v) (auto simp: seq_items_def less_Suc_eq_le intro: size_list_estimation' [where f = size])

lemma size_members: "members g = Inr ms \<Longrightarrow> m \<in> set ms \<Longrightarrow> size m < size g"
proof -
  assume a: "members g = Inr ms" "m \<in> set ms"
  then have s: "is_sequence (member_of g ''geometries'')" "ms = seq_items (member_of g ''geometries'')"
    by (auto simp: members_def Let_def split: if_splits)
  then have "member_of g ''geometries'' \<noteq> PNone" by (auto simp: is_sequence_def)
  then show ?thesis using size_member_of size_seq_items a(2) s(2) by (metis less_trans)
qed

fun walk_positions :: "nat \<Rightarrow> pyval \<Rightarrow> wkb_error + pyval list" where
  "walk_positions 0 v = (if is_sequence v then Inr [v] else Inl BadGeometry)"
| "walk_positions (Suc depth) v =
     (if is_sequence v then bindE (mapE (walk_positions depth) (seq_items v)) (\<lambda>ps. Inr (concat ps)) else Inl BadGeometry)"

function positions :: "pyval \<Rightarrow> wkb_error + pyval list" where
  "positions geometry = bindE (geometry_kind geometry) (\<lambda>kind.
     if kind = ''GeometryCollection''
     then bindE (members geometry) (\<lambda>ms. bindE (mapE positions ms) (\<lambda>ps. Inr (concat ps)))
     else (case dict_get position_depth kind of None \<Rightarrow> Inl (WkbRaised ErrKey)
        | Some depth \<Rightarrow> walk_positions depth (member_of geometry ''coordinates'')))"
  by pat_completeness auto
termination by (relation "measure size") (auto intro: size_members)

declare positions.simps [simp del]

definition position_count :: "pyval \<Rightarrow> wkb_error + nat" where
  "position_count geometry = bindE (positions geometry) (\<lambda>ps. Inr (length ps))"

definition dimension_of :: "pyval \<Rightarrow> wkb_error + nat" where
  "dimension_of geometry = bindE (positions geometry) (\<lambda>ps.
     let dimensions = remdups (map (\<lambda>p. length (seq_items p)) ps) in
     if dimensions = [] then Inr 2
     else if length dimensions \<noteq> 1 \<or> \<not> set dimensions \<subseteq> {2, 3} then Inl BadGeometry
     else Inr (hd dimensions))"

section \<open>Writing WKB\<close>

fun le_bytes :: "nat \<Rightarrow> nat \<Rightarrow> 8 word list" where
  "le_bytes 0 v = []"
| "le_bytes (Suc n) v = word_of_nat v # le_bytes n (v div 256)"

text \<open>\<open>all(isinstance(o, (int, float)) and not isinstance(o, bool) and math.isfinite(o))\<close>, left to right.\<close>

definition finite_ordinate :: "pyval \<Rightarrow> wkb_error + bool" where
  "finite_ordinate v = (case v of
     PInt i \<Rightarrow> if float_overflows (of_int i) then Inl (WkbRaised ErrOverflow) else Inr True
   | PFloat w \<Rightarrow> Inr (double_is_finite w)
   | _ \<Rightarrow> Inr False)"

fun all_finite :: "pyval list \<Rightarrow> wkb_error + bool" where
  "all_finite [] = Inr True"
| "all_finite (v # vs) = bindE (finite_ordinate v) (\<lambda>ok. if ok then all_finite vs else Inr False)"

definition encode_position :: "nat \<Rightarrow> pyval \<Rightarrow> wkb_error + 8 word list" where
  "encode_position dimension v = bindE (raising (py_iter v)) (\<lambda>ordinates.
     if length ordinates \<noteq> dimension then Inl BadGeometry
     else bindE (all_finite ordinates) (\<lambda>ok.
       if \<not> ok then Inl BadGeometry
       else bindE (mapE (\<lambda>o'. raising (to_double o')) ordinates) (\<lambda>ws. Inr (concat (map (\<lambda>w. le_bytes 8 (unat w)) ws)))))"

definition encode_count :: "'a list \<Rightarrow> wkb_error + 8 word list" where
  "encode_count items = (if length items < 2 ^ 32 then Inr (le_bytes 4 (length items)) else Inl PackError)"

text \<open>A counted sequence: the count, then the items one after the other.\<close>

definition encode_seq :: "('a \<Rightarrow> wkb_error + 8 word list) \<Rightarrow> 'a list \<Rightarrow> wkb_error + 8 word list" where
  "encode_seq enc items = bindE (encode_count items) (\<lambda>c. bindE (mapE enc items) (\<lambda>bs. Inr (c @ concat bs)))"

definition type_code :: "string \<Rightarrow> nat \<Rightarrow> nat" where
  "type_code kind dimension = (case dict_get type_codes kind of None \<Rightarrow> 0 | Some c \<Rightarrow> c) + (if dimension = 3 then z_offset else 0)"

definition encode_head :: "string \<Rightarrow> nat \<Rightarrow> 8 word list" where
  "encode_head kind dimension = 1 # le_bytes 4 (type_code kind dimension)"

definition encode_points :: "nat \<Rightarrow> pyval \<Rightarrow> wkb_error + 8 word list" where
  "encode_points dimension v = bindE (raising (py_iter v)) (encode_seq (encode_position dimension))"

text \<open>
  \<open>_encode\<close> on the kinds without members. The members of a \<open>Multi\<close> geometry are encoded by a
  recursive call on a freshly built object of the kind after \<open>Multi\<close>, which is this function.
\<close>

definition encode_simple :: "nat \<Rightarrow> string \<Rightarrow> pyval \<Rightarrow> wkb_error + 8 word list" where
  "encode_simple dimension kind coordinates = bindE
     (if kind = ''Point'' then encode_position dimension coordinates
      else if kind = ''LineString'' then encode_points dimension coordinates
      else bindE (raising (py_iter coordinates)) (encode_seq (encode_points dimension)))
     (\<lambda>body. Inr (encode_head kind dimension @ body))"

function encode_geometry :: "nat \<Rightarrow> pyval \<Rightarrow> wkb_error + 8 word list" where
  "encode_geometry dimension geometry = bindE (geometry_kind geometry) (\<lambda>kind.
     if kind = ''GeometryCollection''
     then bindE (members geometry) (\<lambda>ms. bindE (encode_count ms) (\<lambda>c.
            bindE (mapE (encode_geometry dimension) ms) (\<lambda>bs. Inr (encode_head kind dimension @ c @ concat bs))))
     else (let coordinates = member_of geometry ''coordinates'' in
       if kind \<in> {''Point'', ''LineString'', ''Polygon''} then encode_simple dimension kind coordinates
       else bindE (raising (py_iter coordinates)) (\<lambda>items.
         bindE (encode_seq (encode_simple dimension (drop 5 kind)) items) (\<lambda>body. Inr (encode_head kind dimension @ body)))))"
  by pat_completeness auto
termination by (relation "measure (\<lambda>(d, g). size g)") (auto intro: size_members)

declare encode_geometry.simps [simp del]

definition geojson_to_wkb :: "pyval \<Rightarrow> wkb_error + 8 word list" where
  "geojson_to_wkb geometry = bindE (dimension_of geometry) (\<lambda>d. encode_geometry d geometry)"

section \<open>Base64\<close>

definition b64_alphabet :: string where
  "b64_alphabet = ''ABCDEFGHIJKLMNOPQRSTUVWXYZabcdefghijklmnopqrstuvwxyz0123456789+/''"

definition b64_char :: "nat \<Rightarrow> char" where
  "b64_char n = b64_alphabet ! (n mod 64)"

fun b64encode :: "8 word list \<Rightarrow> string" where
  "b64encode [] = []"
| "b64encode [a] = (let n = unat a * 16 in [b64_char (n div 64), b64_char n, CHR ''='', CHR ''=''])"
| "b64encode [a, b] = (let n = (unat a * 256 + unat b) * 4 in
     [b64_char (n div 4096), b64_char (n div 64), b64_char n, CHR ''=''])"
| "b64encode (a # b # c # bs) = (let n = (unat a * 256 + unat b) * 256 + unat c in
     [b64_char (n div 262144), b64_char (n div 4096), b64_char (n div 64), b64_char n] @ b64encode bs)"

definition geojson_to_base64_wkb :: "pyval \<Rightarrow> wkb_error + string" where
  "geojson_to_base64_wkb geometry = bindE (geojson_to_wkb geometry) (\<lambda>bs. Inr (b64encode bs))"

section \<open>A decoder\<close>

datatype wkb_geometry =
    WPoint "double list"
  | WLineString "double list list"
  | WPolygon "double list list list"
  | WMulti nat "wkb_geometry list"

fun of_le :: "8 word list \<Rightarrow> nat" where
  "of_le [] = 0"
| "of_le (b # bs) = unat b + 256 * of_le bs"

definition read_uint :: "nat \<Rightarrow> 8 word list \<Rightarrow> (nat \<times> 8 word list) option" where
  "read_uint n bs = (if length bs < n then None else Some (of_le (take n bs), drop n bs))"

definition read_double :: "8 word list \<Rightarrow> (double \<times> 8 word list) option" where
  "read_double bs = map_option (map_prod word_of_nat id) (read_uint 8 bs)"

fun read_times :: "nat \<Rightarrow> ('b list \<Rightarrow> ('a \<times> 'b list) option) \<Rightarrow> 'b list \<Rightarrow> ('a list \<times> 'b list) option" where
  "read_times 0 dec bs = Some ([], bs)"
| "read_times (Suc n) dec bs = (case dec bs of None \<Rightarrow> None
     | Some (x, r) \<Rightarrow> map_option (map_prod ((#) x) id) (read_times n dec r))"

definition read_seq :: "(8 word list \<Rightarrow> ('a \<times> 8 word list) option) \<Rightarrow> 8 word list \<Rightarrow> ('a list \<times> 8 word list) option" where
  "read_seq dec bs = (case read_uint 4 bs of None \<Rightarrow> None | Some (n, r) \<Rightarrow> read_times n dec r)"

text \<open>\<open>fuel\<close> bounds the nesting of collections; the number of bytes is always enough.\<close>

fun decode_wkb :: "nat \<Rightarrow> 8 word list \<Rightarrow> (wkb_geometry \<times> 8 word list) option" where
  "decode_wkb 0 bs = None"
| "decode_wkb (Suc fuel) bs = (case bs of [] \<Rightarrow> None | order # r \<Rightarrow>
     if order \<noteq> 1 then None else (case read_uint 4 r of None \<Rightarrow> None
     | Some (code, r') \<Rightarrow>
        (let point = read_times (if z_offset \<le> code then 3 else 2) read_double; base = code mod z_offset in
         if base = 1 then map_option (map_prod WPoint id) (point r')
         else if base = 2 then map_option (map_prod WLineString id) (read_seq point r')
         else if base = 3 then map_option (map_prod WPolygon id) (read_seq (read_seq point) r')
         else if base \<in> {4, 5, 6, 7} then map_option (map_prod (WMulti base) id) (read_seq (decode_wkb fuel) r')
         else None)))"

text \<open>The geometry a GeoJSON value means: its coordinates as binary64 patterns.\<close>

definition ordinate_value :: "pyval \<Rightarrow> double" where
  "ordinate_value v = (case to_double v of Inr w \<Rightarrow> w | Inl _ \<Rightarrow> 0)"

definition position_value :: "pyval \<Rightarrow> double list" where
  "position_value v = map ordinate_value (seq_items v)"

definition simple_value :: "string \<Rightarrow> pyval \<Rightarrow> wkb_geometry" where
  "simple_value kind coordinates =
     (if kind = ''Point'' then WPoint (position_value coordinates)
      else if kind = ''LineString'' then WLineString (map position_value (seq_items coordinates))
      else WPolygon (map (\<lambda>ring. map position_value (seq_items ring)) (seq_items coordinates)))"

function geometry_value :: "pyval \<Rightarrow> wkb_geometry" where
  "geometry_value geometry = (case geometry_kind geometry of Inl _ \<Rightarrow> WMulti 7 [] | Inr kind \<Rightarrow>
     (let coordinates = member_of geometry ''coordinates'' in
      if kind = ''GeometryCollection''
      then WMulti 7 (case members geometry of Inl _ \<Rightarrow> [] | Inr ms \<Rightarrow> map geometry_value ms)
      else if kind \<in> {''Point'', ''LineString'', ''Polygon''} then simple_value kind coordinates
      else WMulti (type_code kind 2) (map (simple_value (drop 5 kind)) (seq_items coordinates))))"
  by pat_completeness auto
termination by (relation "measure size") (auto intro: size_members)

declare geometry_value.simps [simp del]

text \<open>Reading base64 back.\<close>

definition b64_index :: "char \<Rightarrow> nat" where
  "b64_index c = length (takeWhile (\<lambda>d. d \<noteq> c) b64_alphabet)"

fun b64decode :: "string \<Rightarrow> 8 word list" where
  "b64decode (a # b # c # d # r) = (let n = ((b64_index a * 64 + b64_index b) * 64 + b64_index c) * 64 + b64_index d in
     (if d = CHR ''='' then (if c = CHR ''='' then [word_of_nat ((b64_index a * 64 + b64_index b) div 16)]
         else let m = ((b64_index a * 64 + b64_index b) * 64 + b64_index c) div 4 in [word_of_nat (m div 256), word_of_nat m])
      else [word_of_nat (n div 65536), word_of_nat (n div 256), word_of_nat n] @ b64decode r))"
| "b64decode _ = []"

text \<open>\<open>base64.b64decode(s, validate=True)\<close>: whole groups of four, padding only at the end.\<close>

definition b64_data :: "char \<Rightarrow> bool" where
  "b64_data c \<longleftrightarrow> c \<in> set b64_alphabet"

fun b64_valid :: "string \<Rightarrow> bool" where
  "b64_valid [] = True"
| "b64_valid (a # b # c # d # r) = (b64_data a \<and> b64_data b \<and>
     (if d = CHR ''='' then r = [] \<and> (b64_data c \<or> c = CHR ''='') else b64_data c \<and> b64_data d \<and> b64_valid r))"
| "b64_valid _ = False"

definition b64decode_strict :: "string \<Rightarrow> 8 word list option" where
  "b64decode_strict s = (if b64_valid s then Some (b64decode s) else None)"

section \<open>What the decoder reads back\<close>

definition reads :: "(8 word list \<Rightarrow> ('a \<times> 8 word list) option) \<Rightarrow> 8 word list \<Rightarrow> 'a \<Rightarrow> bool" where
  "reads dec b x \<longleftrightarrow> (\<forall>r. dec (b @ r) = Some (x, r))"

lemma length_le_bytes [simp]: "length (le_bytes n v) = n"
  by (induction n arbitrary: v) auto

lemma of_le_le_bytes: "v < 256 ^ n \<Longrightarrow> of_le (le_bytes n v) = v"
proof (induction n arbitrary: v)
  case (Suc n)
  then have "v div 256 < 256 ^ n" by (simp add: less_mult_imp_div_less mult.commute)
  with Suc.IH have ih: "of_le (le_bytes n (v div 256)) = v div 256" by blast
  have "unat (word_of_nat v :: 8 word) = v mod 256" by (simp add: unat_of_nat)
  with ih show ?case by simp
qed simp

lemma read_uint_le_bytes: "v < 256 ^ n \<Longrightarrow> reads (read_uint n) (le_bytes n v) v"
  by (simp add: reads_def read_uint_def of_le_le_bytes)

lemma read_double_le_bytes: "reads read_double (le_bytes 8 (unat w)) w"
proof -
  have "unat w < 2 ^ LENGTH(64)" by (rule unsigned_less)
  then have "unat w < 256 ^ 8" by simp
  from read_uint_le_bytes [OF this] show ?thesis by (simp add: reads_def read_double_def)
qed

lemma read_times_concat:
  "list_all2 (reads dec) bs xs \<Longrightarrow> reads (read_times (length xs) dec) (concat bs) xs"
proof (induction rule: list_all2_induct)
  case (Cons b bs x xs)
  then show ?case by (simp add: reads_def)
qed (simp add: reads_def)

lemma read_seq_concat:
  "length xs < 2 ^ 32 \<Longrightarrow> list_all2 (reads dec) bs xs \<Longrightarrow> reads (read_seq dec) (le_bytes 4 (length xs) @ concat bs) xs"
  using read_times_concat [of dec bs xs] read_uint_le_bytes [of "length xs" 4] by (simp add: reads_def read_seq_def)

lemma encode_seq_reads:
  assumes "encode_seq enc items = Inr b" "\<And>i c. i \<in> set items \<Longrightarrow> enc i = Inr c \<Longrightarrow> reads dec c (f i)"
  shows "reads (read_seq dec) b (map f items)"
proof -
  obtain bs where len: "length items < 2 ^ 32" and bs: "mapE enc items = Inr bs" "b = le_bytes 4 (length items) @ concat bs"
    using assms(1) by (auto simp: encode_seq_def encode_count_def bindE_eq_Inr split: if_splits)
  have "list_all2 (\<lambda>i c. enc i = Inr c) items bs" using bs(1) by (simp add: mapE_eq_Inr)
  then have "list_all2 (\<lambda>c i. reads dec c (f i)) bs items"
    using assms(2) by (auto simp: list_all2_conv_all_nth)
  then have "list_all2 (reads dec) bs (map f items)" by (simp add: list_all2_map2)
  from read_seq_concat [OF _ this] len bs(2) show ?thesis by simp
qed

text \<open>Values whose sequences nest at least \<open>n\<close> deep above positions.\<close>

fun shaped :: "nat \<Rightarrow> pyval \<Rightarrow> bool" where
  "shaped 0 v = is_sequence v"
| "shaped (Suc n) v \<longleftrightarrow> is_sequence v \<and> list_all (shaped n) (seq_items v)"

lemma walk_positions_shaped: "walk_positions n v = Inr ps \<Longrightarrow> shaped n v"
proof (induction n arbitrary: v ps)
  case (Suc n)
  then show ?case by (auto simp: bindE_eq_Inr mapE_eq_Inr list_all_iff list_all2_conv_all_nth in_set_conv_nth split: if_splits) 
qed (auto split: if_splits)

lemma py_iter_sequence: "is_sequence v \<Longrightarrow> py_iter v = Inr (seq_items v)"
  by (cases v) (auto simp: is_sequence_def seq_items_def)

lemma raising_sequence [simp]: "is_sequence v \<Longrightarrow> raising (py_iter v) = Inr (seq_items v)"
  by (simp add: py_iter_sequence)

lemma encode_position_reads:
  assumes "encode_position d v = Inr b" "is_sequence v"
  shows "reads (read_times d read_double) b (position_value v)"
proof -
  obtain ws where ws: "mapE (\<lambda>o'. raising (to_double o')) (seq_items v) = Inr ws" and b: "b = concat (map (\<lambda>w. le_bytes 8 (unat w)) ws)"
    and d: "length (seq_items v) = d"
    using assms by (auto simp: encode_position_def bindE_eq_Inr split: if_splits)
  have "list_all2 (\<lambda>x w. to_double x = Inr w) (seq_items v) ws" using ws by (simp add: mapE_eq_Inr)
  then have "ws = position_value v"
    by (auto simp: position_value_def ordinate_value_def list_all2_conv_all_nth intro!: nth_equalityI)
  moreover have "list_all2 (reads read_double) (map (\<lambda>w. le_bytes 8 (unat w)) ws) ws"
    by (simp add: list_all2_conv_all_nth read_double_le_bytes)
  ultimately show ?thesis using read_times_concat b d by (metis (no_types, lifting) length_map position_value_def)
qed

lemma encode_points_reads:
  assumes "encode_points d v = Inr b" "shaped 1 v"
  shows "reads (read_seq (read_times d read_double)) b (map position_value (seq_items v))"
proof -
  have s: "is_sequence v" "\<And>i. i \<in> set (seq_items v) \<Longrightarrow> is_sequence i"
    using assms(2) by (auto simp: list_all_iff)
  from assms(1) s(1) have "encode_seq (encode_position d) (seq_items v) = Inr b" by (simp add: encode_points_def)
  then show ?thesis by (rule encode_seq_reads) (use s(2) in \<open>auto intro: encode_position_reads\<close>)
qed

lemma type_code_bounds:
  assumes "dict_get type_codes kind = Some c" "d \<in> {2, 3}"
  shows "type_code kind d < 256 ^ 4" "type_code kind d mod z_offset = c" "(if z_offset \<le> type_code kind d then 3 else 2) = d"
  using assms by (auto simp: type_code_def type_codes_def dict_get_def z_offset_def split: if_splits)

lemma known_kind: "geometry_kind g = Inr kind \<Longrightarrow> \<exists>c. dict_get type_codes kind = Some c"
  by (auto simp: geometry_kind_def dict_has_def split: pyval.splits if_splits)

text \<open>What the decoder does after a head.\<close>

lemma decode_head:
  assumes "dict_get type_codes kind = Some c" "d \<in> {2, 3}"
  shows "decode_wkb (Suc n) (encode_head kind d @ r) =
    (let point = read_times d read_double in
     if c = 1 then map_option (map_prod WPoint id) (point r)
     else if c = 2 then map_option (map_prod WLineString id) (read_seq point r)
     else if c = 3 then map_option (map_prod WPolygon id) (read_seq (read_seq point) r)
     else if c \<in> {4, 5, 6, 7} then map_option (map_prod (WMulti c) id) (read_seq (decode_wkb n) r)
     else None)"
  using read_uint_le_bytes [OF type_code_bounds(1) [OF assms]] type_code_bounds(2,3) [OF assms]
  by (simp add: encode_head_def reads_def Let_def)

declare decode_wkb.simps(2) [simp del]

lemma encode_simple_reads:
  assumes "encode_simple d kind v = Inr b" and d: "d \<in> {2, 3}"
    and k: "(kind, m) \<in> {(''Point'', 0), (''LineString'', 1), (''Polygon'', 2)}" and sh: "shaped m v"
  shows "reads (decode_wkb (Suc n)) b (simple_value kind v)"
proof -
  have c: "dict_get type_codes kind = Some (Suc m)"
    using k by (auto simp: type_codes_def dict_get_def)
  obtain body where b: "b = encode_head kind d @ body" and body: "(if kind = ''Point'' then encode_position d v
      else if kind = ''LineString'' then encode_points d v
      else bindE (raising (py_iter v)) (encode_seq (encode_points d))) = Inr body"
    using assms(1) by (auto simp: encode_simple_def bindE_eq_Inr)
  consider "kind = ''Point''" "m = 0" | "kind = ''LineString''" "m = 1" | "kind = ''Polygon''" "m = 2" using k by auto
  then show ?thesis
  proof cases
    case 1
    then have "reads (read_times d read_double) body (position_value v)" using body sh by (auto intro: encode_position_reads)
    then show ?thesis using 1 by (simp add: reads_def b decode_head [OF c [unfolded 1] d] simple_value_def)
  next
    case 2
    then have "reads (read_seq (read_times d read_double)) body (map position_value (seq_items v))"
      using body sh by (auto intro: encode_points_reads)
    then show ?thesis using 2 by (simp add: reads_def b decode_head [OF c [unfolded 2] d] simple_value_def)
  next
    case 3
    have s: "is_sequence v" "\<And>i. i \<in> set (seq_items v) \<Longrightarrow> shaped 1 i" using sh 3 by (auto simp: list_all_iff numeral_2_eq_2)
    then have "encode_seq (encode_points d) (seq_items v) = Inr body" using 3 body by simp
    then have "reads (read_seq (read_seq (read_times d read_double))) body (map (\<lambda>r. map position_value (seq_items r)) (seq_items v))"
      by (rule encode_seq_reads) (use s(2) in \<open>auto intro: encode_points_reads\<close>)
    then show ?thesis using 3 by (simp add: reads_def b decode_head [OF c [unfolded 3] d] simple_value_def)
  qed
qed

lemma encode_simple_nonempty: "encode_simple d k v = Inr b \<Longrightarrow> 0 < length b"
  by (auto simp: encode_simple_def encode_head_def bindE_eq_Inr)

lemma encode_seq_length: "encode_seq enc items = Inr b \<Longrightarrow> i \<in> set items \<Longrightarrow> enc i = Inr c \<Longrightarrow> length c + 4 \<le> length b"
proof -
  assume a: "encode_seq enc items = Inr b" "i \<in> set items" "enc i = Inr c"
  then obtain bs where bs: "mapE enc items = Inr bs" "b = le_bytes 4 (length items) @ concat bs"
    by (auto simp: encode_seq_def encode_count_def bindE_eq_Inr split: if_splits)
  then have "c \<in> set bs" using a(2,3) by (auto simp: mapE_eq_Inr list_all2_conv_all_nth in_set_conv_nth)
  then have "length c \<le> length (concat bs)" by (simp add: length_concat member_le_sum_list)
  then show ?thesis using bs(2) by simp
qed

lemma encode_collection:
  "geometry_kind g = Inr ''GeometryCollection'' \<Longrightarrow> encode_geometry d g = bindE (members g) (\<lambda>ms.
     bindE (encode_seq (encode_geometry d) ms) (\<lambda>body. Inr (encode_head ''GeometryCollection'' d @ body)))"
  by (subst encode_geometry.simps) (simp add: encode_seq_def bindE_assoc)

lemma encode_geometry_reads:
  "encode_geometry d g = Inr b \<Longrightarrow> positions g = Inr ps \<Longrightarrow> d \<in> {2, 3} \<Longrightarrow> length b \<le> n \<Longrightarrow>
    reads (decode_wkb n) b (geometry_value g)"
proof (induction n arbitrary: g b ps)
  case 0
  then show ?case
    by (subst (asm) encode_geometry.simps) (auto simp: bindE_eq_Inr Let_def encode_head_def encode_simple_def split: if_splits)
next
  case (Suc n)
  obtain kind where k: "geometry_kind g = Inr kind"
    using Suc.prems(1) by (subst (asm) encode_geometry.simps) (auto simp: bindE_eq_Inr)
  let ?v = "member_of g ''coordinates''"
  consider (coll) "kind = ''GeometryCollection''"
    | (simple) m where "(kind, m) \<in> {(''Point'', 0), (''LineString'', 1), (''Polygon'', 2)}" "dict_get position_depth kind = Some m"
    | (multi) m c where "(drop 5 kind, m) \<in> {(''Point'', 0), (''LineString'', 1), (''Polygon'', 2)}"
        "dict_get position_depth kind = Some (Suc m)" "kind \<notin> {''Point'', ''LineString'', ''Polygon'', ''GeometryCollection''}"
        "c \<in> {4, 5, 6}" "dict_get type_codes kind = Some c"
    using known_kind [OF k] by (auto simp: type_codes_def position_depth_def dict_get_def split: if_splits)
  then show ?case
  proof cases
    case coll
    obtain ms pss where ms: "members g = Inr ms" "mapE positions ms = Inr pss"
      using Suc.prems(2) k coll by (subst (asm) positions.simps) (auto simp: bindE_eq_Inr)
    obtain body where body: "encode_seq (encode_geometry d) ms = Inr body" and b: "b = encode_head ''GeometryCollection'' d @ body"
      using Suc.prems(1) ms(1) k coll by (auto simp: encode_collection bindE_eq_Inr)
    have "reads (read_seq (decode_wkb n)) body (map geometry_value ms)"
    proof (rule encode_seq_reads [OF body])
      fix i c assume i: "i \<in> set ms" "encode_geometry d i = Inr c"
      then obtain ps' where "positions i = Inr ps'"
        using ms(2) by (auto simp: mapE_eq_Inr list_all2_conv_all_nth in_set_conv_nth)
      moreover have "length c \<le> n" using encode_seq_length [OF body i] Suc.prems(4) b by (simp add: encode_head_def)
      ultimately show "reads (decode_wkb n) c (geometry_value i)" using Suc.IH i(2) Suc.prems(3) by blast
    qed
    moreover have "dict_get type_codes ''GeometryCollection'' = Some 7" by (simp add: type_codes_def dict_get_def)
    ultimately show ?thesis
      using ms(1) k coll Suc.prems(3) by (subst geometry_value.simps) (simp add: reads_def b decode_head)
  next
    case simple
    have ncoll: "kind \<noteq> ''GeometryCollection''" using simple(1) by auto
    have "shaped m ?v" using Suc.prems(2) k simple(2) ncoll by (subst (asm) positions.simps) (auto intro: walk_positions_shaped)
    moreover have "encode_simple d kind ?v = Inr b" and "geometry_value g = simple_value kind ?v"
      using Suc.prems(1) k simple(1) by (subst (asm) encode_geometry.simps, auto, subst geometry_value.simps, auto)+
    ultimately show ?thesis using encode_simple_reads [OF _ Suc.prems(3) simple(1)] by simp
  next
    case multi
    have "walk_positions (Suc m) ?v = Inr ps"
      using Suc.prems(2) k multi(2,3) by (subst (asm) positions.simps) (auto simp del: walk_positions.simps)
    then have "shaped (Suc m) ?v" by (rule walk_positions_shaped)
    then have sh: "is_sequence ?v" "\<And>i. i \<in> set (seq_items ?v) \<Longrightarrow> shaped m i" by (auto simp: list_all_iff)
    obtain body where body: "encode_seq (encode_simple d (drop 5 kind)) (seq_items ?v) = Inr body" and b: "b = encode_head kind d @ body"
      using Suc.prems(1) k multi(3) sh(1) by (subst (asm) encode_geometry.simps) (auto simp: bindE_eq_Inr Let_def)
    have "reads (read_seq (decode_wkb n)) body (map (simple_value (drop 5 kind)) (seq_items ?v))"
    proof (rule encode_seq_reads [OF body])
      fix i c assume i: "i \<in> set (seq_items ?v)" "encode_simple d (drop 5 kind) i = Inr c"
      have "0 < n" using encode_seq_length [OF body i] encode_simple_nonempty [OF i(2)] Suc.prems(4) b by (simp add: encode_head_def)
      then obtain n' where "n = Suc n'" by (cases n) auto
      then show "reads (decode_wkb n) c (simple_value (drop 5 kind) i)"
        using encode_simple_reads [OF i(2) Suc.prems(3) multi(1) sh(2) [OF i(1)]] by simp
    qed
    moreover have "type_code kind 2 = c" using multi(5) by (simp add: type_code_def)
    ultimately show ?thesis
      using k multi(3,4) Suc.prems(3) by (subst geometry_value.simps) (auto simp: reads_def b decode_head [OF multi(5) Suc.prems(3)])
  qed
qed

section \<open>Base64 and the round trip\<close>

lemma b64_index_nth: "n < 64 \<Longrightarrow> b64_index (b64_alphabet ! n) = n \<and> b64_alphabet ! n \<noteq> CHR ''=''"
proof -
  have "list_all (\<lambda>n. b64_index (b64_alphabet ! n) = n \<and> b64_alphabet ! n \<noteq> CHR ''='') [0..<64]" by code_simp
  then show "n < 64 \<Longrightarrow> b64_index (b64_alphabet ! n) = n \<and> b64_alphabet ! n \<noteq> CHR ''=''" by (simp add: list_all_iff)
qed

lemma b64_char [simp]: "b64_index (b64_char n) = n mod 64" "b64_char n \<noteq> CHR ''=''"
  using b64_index_nth [of "n mod 64"] by (simp_all add: b64_char_def)

lemma sextet_step: "n div 64 * 64 + n mod (64 :: nat) = n"
  by simp

lemma sextets:
  fixes n :: nat
  shows "n < 4096 \<Longrightarrow> n div 64 mod 64 * 64 + n mod 64 = n"
    and "n < 262144 \<Longrightarrow> (n div 4096 mod 64 * 64 + n div 64 mod 64) * 64 + n mod 64 = n"
    and "n < 16777216 \<Longrightarrow> ((n div 262144 mod 64 * 64 + n div 4096 mod 64) * 64 + n div 64 mod 64) * 64 + n mod 64 = n"
proof -
  have d: "n div 4096 = n div 64 div 64" "n div 262144 = n div 64 div 64 div 64"
    by (simp_all add: div_mult2_eq [symmetric])
  show "n < 4096 \<Longrightarrow> n div 64 mod 64 * 64 + n mod 64 = n"
    by (simp add: mod_less less_mult_imp_div_less)
  show "n < 262144 \<Longrightarrow> (n div 4096 mod 64 * 64 + n div 64 mod 64) * 64 + n mod 64 = n"
  proof -
    assume "n < 262144"
    then have "n div 4096 mod 64 = n div 64 div 64" unfolding d by (simp add: mod_less less_mult_imp_div_less)
    then show ?thesis by (simp only: sextet_step)
  qed
  show "n < 16777216 \<Longrightarrow> ((n div 262144 mod 64 * 64 + n div 4096 mod 64) * 64 + n div 64 mod 64) * 64 + n mod 64 = n"
  proof -
    assume "n < 16777216"
    then have "n div 262144 mod 64 = n div 64 div 64 div 64" unfolding d by (simp add: mod_less less_mult_imp_div_less)
    then show ?thesis unfolding d(1) by (simp only: sextet_step)
  qed
qed

lemma unat_byte: "unat (x :: 8 word) < 256"
proof -
  have "unat x < 2 ^ LENGTH(8)" by (rule unsigned_less)
  then show ?thesis by simp
qed

lemma word_of_byte: "n mod 256 = unat (x :: 8 word) \<Longrightarrow> word_of_nat n = x"
  by (simp add: word_unat_eq_iff unat_of_nat)

lemma b64decode_quad:
  "((b64_index a * 64 + b64_index b) * 64 + b64_index c) * 64 + b64_index d = n \<Longrightarrow> d \<noteq> CHR ''='' \<Longrightarrow>
    b64decode (a # b # c # d # r) = [word_of_nat (n div 65536), word_of_nat (n div 256), word_of_nat n] @ b64decode r"
  "(b64_index a * 64 + b64_index b) * 64 + b64_index c = n \<Longrightarrow> c \<noteq> CHR ''='' \<Longrightarrow>
    b64decode [a, b, c, CHR ''=''] = [word_of_nat (n div 4 div 256), word_of_nat (n div 4)]"
  "b64_index a * 64 + b64_index b = n \<Longrightarrow> b64decode [a, b, CHR ''='', CHR ''=''] = [word_of_nat (n div 16)]"
  by (simp_all only: b64decode.simps Let_def if_False if_True simp_thms)

lemma b64decode_encode: "b64decode (b64encode bs) = bs"
proof (induction bs rule: b64encode.induct)
  case (2 a)
  have "unat a * 16 < 4096" using unat_byte [of a] by simp
  from b64decode_quad(3) [OF sextets(1) [OF this, folded b64_char(1)]]
  show ?case by (simp add: Let_def del: b64decode.simps)
next
  case (3 a b)
  let ?n = "(unat a * 256 + unat b) * 4"
  have n: "?n < 262144" using unat_byte [of a] unat_byte [of b] by simp
  have "word_of_nat (?n div 4 div 256) = a" "word_of_nat (?n div 4) = b"
    using unat_byte [of a] unat_byte [of b] by (auto intro!: word_of_byte simp del: of_nat_add of_nat_mult)
  with b64decode_quad(2) [OF sextets(2) [OF n, folded b64_char(1)] b64_char(2)]
  show ?case by (simp only: b64encode.simps Let_def)
next
  case (4 a b c bs)
  let ?n = "(unat a * 256 + unat b) * 256 + unat c"
  have n: "?n < 16777216" using unat_byte [of a] unat_byte [of b] unat_byte [of c] by simp
  have "?n div 256 = unat a * 256 + unat b" "?n div 65536 = unat a"
    using unat_byte [of a] unat_byte [of b] unat_byte [of c] by simp_all
  moreover have "?n mod 256 = unat c" using unat_byte [of c] by (simp only: mod_mult_self3 mod_less)
  ultimately have "word_of_nat (?n div 65536) = a" "word_of_nat (?n div 256) = b" "word_of_nat ?n = c"
    using unat_byte [of a] unat_byte [of b] by (simp_all only: word_of_byte mod_mult_self3 mod_less)
  with b64decode_quad(1) [OF sextets(3) [OF n, folded b64_char(1)] b64_char(2)] 4
  show ?case by (simp only: b64encode.simps Let_def append_Cons append_Nil)
qed simp

lemma b64_char_data: "b64_data (b64_char n)" "b64_char n \<noteq> CHR ''=''"
proof -
  have "b64_char n \<in> set b64_alphabet" unfolding b64_char_def by (rule nth_mem) (simp add: b64_alphabet_def)
  then show "b64_data (b64_char n)" by (simp add: b64_data_def)
  have "CHR ''='' \<notin> set b64_alphabet" by (simp add: b64_alphabet_def)
  then show "b64_char n \<noteq> CHR ''=''" using \<open>b64_char n \<in> set b64_alphabet\<close> by metis
qed

lemma b64_valid_encode: "b64_valid (b64encode bs)"
  by (induction bs rule: b64encode.induct) (simp_all add: Let_def b64_char_data)

lemma b64_strict_encode [simp]: "b64decode_strict (b64encode bs) = Some bs"
  by (simp add: b64decode_strict_def b64_valid_encode b64decode_encode)

lemma b64encode_no_colon: "CHR '':'' \<notin> set (b64encode bs)"
proof -
  have "CHR '':'' \<notin> set b64_alphabet" by (simp add: b64_alphabet_def)
  then have "b64_char n \<noteq> CHR '':''" for n using b64_char_data(1) [of n] unfolding b64_data_def by metis
  then show ?thesis by (induction bs rule: b64encode.induct) (simp_all add: Let_def, metis+)
qed


definition two_points :: pyval where
  "two_points = PDict [(''type'', PStr ''GeometryCollection''), (''geometries'', PList
     [PDict [(''type'', PStr ''MultiPoint''), (''coordinates'', PList
       [PList [PFloat 0x3FF0000000000000, PFloat 0x4000000000000000], PList [PFloat 0x4008000000000000, PFloat 0]])]])]"


end
