(* ===== verification/Gp_Process_Tools.thy ===== *)
theory Gp_Process_Tools
  imports Gp_Management Wkb
begin

text \<open>
  \<open>_process_tools.py\<close>: the layer-aware geoprocessing tools. A call is bound to the manifest's
  positional parameters, its options are checked, its inputs are projected onto a server process,
  the job is run to an end and the named output is bound to the job's result.

  \<open>gp_tools\<close> holds what lies outside the shim: the jobs client behind a processes client, the
  \<open>srid\<close> of a layer schema read through a client (\<open>gt_has_schema\<close> is the \<open>hasattr\<close> test), a
  fresh UUID and the decoding of a base64 JSON payload. As waiting for a job may not end, a call
  is an option, \<open>None\<close> where it never returns.
\<close>

record ('cl, 'pr, 'x) gp_tools =
  gt_jobs :: "'pr \<Rightarrow> 'x jobs_client"
  gt_has_schema :: "'cl \<Rightarrow> bool"
  gt_srid :: "'cl \<Rightarrow> string \<Rightarrow> nat \<Rightarrow> 'x \<Rightarrow> (gp_exn + pyval) \<times> 'x"
  gt_fresh :: "'x \<Rightarrow> string \<times> 'x"
  gt_decode :: "string \<Rightarrow> pyval option"

record gp_result =
  gr_output :: string
  gr_job_id :: string
  gr_status :: int
  gr_outputs :: "(string, pyval) pydict option"

definition result_item :: "gp_result \<Rightarrow> int \<Rightarrow> py_error + string" where
  "result_item r index = (if index = 0 then Inr (gr_output r) else Inl ErrIndex)"

section \<open>Arguments\<close>

definition bound_arguments :: "function_entry \<Rightarrow> pyval list \<Rightarrow> (string, pyval) pydict \<Rightarrow> (string, pyval) pydict" where
  "bound_arguments entry args kwargs =
     dict_update (bind_positional (if fe_positional entry \<noteq> [] then fe_positional entry else dict_keys (fe_param_map entry)) 0 args []) kwargs"

definition str_split_space :: "string \<Rightarrow> string list" where
  "str_split_space s = filter (\<lambda>w. w \<noteq> []) (str_split_char (CHR '' '') (map (\<lambda>c. if char_is_space c then CHR '' '' else c) s))"

definition unit_map :: "(string, string) pydict" where
  "unit_map = [(''meters'', ''meters''), (''meter'', ''meters''), (''kilometers'', ''kilometers''), (''kilometer'', ''kilometers''),
     (''feet'', ''feet''), (''foot'', ''feet''), (''miles'', ''miles''), (''mile'', ''miles'')]"

definition parse_linear_distance :: "pyval \<Rightarrow> gp_exn + double \<times> string" where
  "parse_linear_distance v = (case v of
     PInt i \<Rightarrow> bindE (foreign (to_double v)) (\<lambda>d. Inr (d, ''meters''))
   | PFloat d \<Rightarrow> Inr (d, ''meters'')
   | PStr s \<Rightarrow> (case str_split_space s of
        [] \<Rightarrow> Inl configuration_error
      | magnitude # rest \<Rightarrow> (case to_double (PStr magnitude) of
          Inl _ \<Rightarrow> Inl configuration_error
        | Inr d \<Rightarrow> (case dict_get unit_map (case rest of [] \<Rightarrow> ''meters'' | u # _ \<Rightarrow> str_lower u) of
            None \<Rightarrow> Inl configuration_error | Some u \<Rightarrow> Inr (d, u))))
   | _ \<Rightarrow> Inl configuration_error)"

definition csv_fields :: "pyval \<Rightarrow> string option" where
  "csv_fields v = (case v of PNone \<Rightarrow> None | PStr s \<Rightarrow> Some s
     | PList xs \<Rightarrow> Some (str_join '','' (map py_str xs)) | PTuple xs \<Rightarrow> Some (str_join '','' (map py_str xs)) | _ \<Rightarrow> Some (py_str v))"

definition coerce_srid :: "pyval \<Rightarrow> gp_exn + int" where
  "coerce_srid v = (case v of
     PInt i \<Rightarrow> Inr i
   | PStr s \<Rightarrow> if str_isdigit (str_strip s) then Inr (int (digits_value (str_strip s))) else Inl configuration_error
   | _ \<Rightarrow> Inl configuration_error)"

section \<open>Refused options\<close>

definition accept_if :: "bool \<Rightarrow> gp_exn + unit" where
  "accept_if b = (if b then Inr () else Inl configuration_error)"

definition reject_nondefault_token :: "pyval \<Rightarrow> string \<Rightarrow> gp_exn + unit" where
  "reject_nondefault_token v default_token = accept_if (case v of PNone \<Rightarrow> True | PStr s \<Rightarrow> str_upper (str_strip s) = default_token | _ \<Rightarrow> False)"

definition reject_if_set :: "pyval \<Rightarrow> gp_exn + unit" where
  "reject_if_set v = accept_if (case v of PNone \<Rightarrow> True | PStr s \<Rightarrow> str_strip s = [] | PList xs \<Rightarrow> xs = [] | PTuple xs \<Rightarrow> xs = [] | PDict d \<Rightarrow> d = [] | _ \<Rightarrow> False)"

definition reject_nondefault_flag :: "pyval \<Rightarrow> bool \<Rightarrow> string \<Rightarrow> string \<Rightarrow> gp_exn + unit" where
  "reject_nondefault_flag v standard true_token false_token = accept_if (case v of
     PNone \<Rightarrow> True
   | PBool b \<Rightarrow> b = standard
   | PStr s \<Rightarrow> (let token = str_upper (str_strip s) in
       if token = true_token then standard else if token = false_token then \<not> standard else False)
   | _ \<Rightarrow> False)"

definition all_accepted :: "(gp_exn + unit) list \<Rightarrow> gp_exn + unit" where
  "all_accepted checks = bindE (mapE id checks) (\<lambda>_. Inr ())"

definition validate_buffer_options :: "(string, pyval) pydict \<Rightarrow> gp_exn + unit" where
  "validate_buffer_options bound = all_accepted
     [reject_nondefault_token (get_or_none bound ''line_side'') ''FULL'', reject_nondefault_token (get_or_none bound ''line_end_type'') ''ROUND'',
      reject_nondefault_token (get_or_none bound ''method'') ''PLANAR'']"

definition validate_spatial_join_options :: "(string, pyval) pydict \<Rightarrow> gp_exn + unit" where
  "validate_spatial_join_options bound = all_accepted
     [reject_nondefault_token (get_or_none bound ''join_operation'') ''JOIN_ONE_TO_ONE'', reject_nondefault_token (get_or_none bound ''join_type'') ''KEEP_ALL'',
      reject_if_set (get_or_none bound ''field_mapping''), reject_if_set (get_or_none bound ''distance_field_name'')]"

definition validate_dissolve_options :: "(string, pyval) pydict \<Rightarrow> gp_exn + unit" where
  "validate_dissolve_options bound = all_accepted
     [reject_if_set (get_or_none bound ''statistics_fields''), reject_nondefault_flag (get_or_none bound ''multi_part'') True ''MULTI_PART'' ''SINGLE_PART'',
      reject_nondefault_flag (get_or_none bound ''unsplit_lines'') False ''UNSPLIT_LINES'' ''DISSOLVE_LINES'']"

definition validate_project_options :: "(string, pyval) pydict \<Rightarrow> gp_exn + unit" where
  "validate_project_options bound = all_accepted
     [reject_if_set (get_or_none bound ''transform_method''), reject_if_set (get_or_none bound ''in_coor_system''),
      reject_nondefault_flag (get_or_none bound ''preserve_shape'') False ''PRESERVE_SHAPE'' ''NO_PRESERVE_SHAPE'', reject_if_set (get_or_none bound ''max_deviation''),
      reject_nondefault_flag (get_or_none bound ''vertical'') False ''VERTICAL'' ''NO_VERTICAL'']"

definition unapplied_environment :: "string list" where
  "unapplied_environment = [''extent'', ''XYTolerance'', ''XYResolution'']"

definition validate_environment :: "string \<Rightarrow> ('cl, 'ad, 'pr, 'z) gp_session_scheme \<Rightarrow> gp_exn + unit" where
  "validate_environment qualified s = accept_if (\<not> (qualified \<noteq> ''management.Project'' \<and> ss_output_cs s \<noteq> PNone) \<and>
     list_all (\<lambda>name. let v = get_or_none (ss_env_options s) name in v = PNone \<or> v = PStr [])
       (unapplied_environment @ (if qualified = ''management.Project'' then [''geographicTransformations''] else [])))"

section \<open>Inputs\<close>

record projected_call =
  pj_inputs :: "(string, pyval) pydict"
  pj_output_name :: "string option"
  pj_process_id :: "string option"
  pj_origin :: "string option"
  pj_audit_inputs :: "(string, pyval) pydict option"
  pj_group_values :: "(string, (string, pyval) pydict) pydict"

definition layer_origin :: "('cl, 'ad, 'pr) gp_host \<Rightarrow> ('cl, 'ad, 'pr, 'z) gp_session_scheme \<Rightarrow> pyval \<Rightarrow> gp_exn + string option" where
  "layer_origin h s v = (case bindE (resolve h s v) (descriptor_mapping h s) of
     Inl e \<Rightarrow> if e = resolve_error then Inr None else Inl e
   | Inr d \<Rightarrow> Inr (case (sd_service d, sd_layer d) of
       (Some (c # cs), Some i) \<Rightarrow> Some (services_prefix @ (c # cs) @ ''/'' @ str_of_int i) | _ \<Rightarrow> None))"

text \<open>\<open>^honua://services/(?P<service>[^/]+)/(?P<layer>\d+)$\<close>\<close>

definition layer_uri_parts :: "string \<Rightarrow> (string \<times> nat) option" where
  "layer_uri_parts uri = (if \<not> str_startswith uri services_prefix then None
     else (case split_off (CHR ''/'') (drop (length services_prefix) uri) of (service, rest) \<Rightarrow>
       let digits = takeWhile char_is_digit rest in
       if service \<noteq> [] \<and> digits \<noteq> [] \<and> at_end (dropWhile char_is_digit rest) then Some (service, digits_value digits) else None))"

definition layer_srid ::
  "('cl, 'ad, 'pr) gp_host \<Rightarrow> ('cl, 'pr, 'x) gp_tools \<Rightarrow> string option \<Rightarrow> ('cl, 'ad, 'pr, 'x) gp_world \<Rightarrow>
   (gp_exn + int option) \<times> ('cl, 'ad, 'pr, 'x) gp_world" where
  "layer_srid h tk origin w = (case client h w of
     (Inl e, w1) \<Rightarrow> (Inl e, w1)
   | (Inr c, w1) \<Rightarrow> (case (case origin of None \<Rightarrow> None | Some uri \<Rightarrow> layer_uri_parts uri) of
        None \<Rightarrow> (Inr None, w1)
      | Some (service, layer) \<Rightarrow>
          if \<not> gt_has_schema tk c then (Inr None, w1)
          else (case gt_srid tk c service layer (gw_ext w1) of
              (Inl e, x) \<Rightarrow> (Inl e, w1\<lparr>gw_ext := x\<rparr>)
            | (Inr srid, x) \<Rightarrow> (Inr (case srid of PInt i \<Rightarrow> if 0 < i then Some i else None | _ \<Rightarrow> None), w1\<lparr>gw_ext := x\<rparr>))))"

definition selection_where :: "('cl, 'ad, 'pr, 'z) gp_session_scheme \<Rightarrow> pyval \<Rightarrow> bool \<Rightarrow> gp_exn + pyval" where
  "selection_where s v filterable =
     (let whr = alias_where_of (case v of PStr name \<Rightarrow> get_layer name s | _ \<Rightarrow> None) in
      if \<not> truthy whr then Inr PNone else if \<not> filterable then Inl configuration_error else Inr whr)"

definition reserve_output :: "('cl, 'ad, 'pr, 'z) gp_session_scheme \<Rightarrow> pyval \<Rightarrow> gp_exn + string option" where
  "reserve_output s name = (case name of
     PStr (c # cs) \<Rightarrow> if \<not> ss_overwrite_output s \<and> get_layer (c # cs) s \<noteq> None then Inl configuration_error else Inr (Some (c # cs))
   | _ \<Rightarrow> Inr None)"

text \<open>The end of every projection: origin, reserved output, and the call.\<close>

definition where_input :: "string option \<Rightarrow> (string, pyval) pydict" where
  "where_input whr = (case whr of Some (c # cs) \<Rightarrow> [(''where'', PStr (c # cs))] | _ \<Rightarrow> [])"

definition layer_call ::
  "('cl, 'ad, 'pr) gp_host \<Rightarrow> ('cl, 'ad, 'pr, 'z) gp_session_scheme \<Rightarrow> pyval \<Rightarrow> pyval \<Rightarrow> (string, pyval) pydict \<Rightarrow> gp_exn + projected_call" where
  "layer_call h s input output inputs = bindE (layer_origin h s input) (\<lambda>origin. bindE (reserve_output s output) (\<lambda>name.
     Inr \<lparr>pj_inputs = inputs, pj_output_name = name, pj_process_id = None, pj_origin = origin, pj_audit_inputs = None, pj_group_values = []\<rparr>))"

section \<open>Projections\<close>

definition project_buffer ::
  "('cl, 'ad, 'pr) gp_host \<Rightarrow> (string, pyval) pydict \<Rightarrow> ('cl, 'ad, 'pr, 'z) gp_session_scheme \<Rightarrow> gp_exn + projected_call" where
  "project_buffer h bound s =
     (let in_features = get_or_none bound ''in_features''; dissolve_option = get_or_none bound ''dissolve_option''; dissolve_field = get_or_none bound ''dissolve_field'' in
      bindE (validate_buffer_options bound) (\<lambda>_.
      bindE (resolve_layer_id h s in_features) (\<lambda>layer_id.
      bindE (parse_linear_distance (get_or_none bound ''buffer_distance_or_field'')) (\<lambda>(distance, unit).
      bindE (selection_where s in_features True) (\<lambda>selected.
        layer_call h s in_features (get_or_none bound ''out_feature_class'')
          ([(''layerId'', PInt layer_id), (''distance'', PFloat distance), (''unit'', PStr unit)] @
           (if dissolve_option \<noteq> PNone then [(''dissolve'', PBool (str_upper (py_str dissolve_option) \<noteq> ''NONE''))] else []) @
           (if truthy dissolve_field then [(''groupByFields'', text_value (csv_fields dissolve_field))] else []) @
           where_input (combine_where [selected, get_or_none bound ''where_clause''])))))))"

definition predicates :: "(string, string) pydict" where
  "predicates = [(''INTERSECT'', ''intersects''), (''CONTAINS'', ''contains''), (''WITHIN'', ''within''), (''WITHIN_A_DISTANCE'', ''dwithin''), (''CLOSEST'', ''dwithin'')]"

definition match_option_to_predicate :: "pyval \<Rightarrow> pyval \<Rightarrow> gp_exn + string \<times> double option" where
  "match_option_to_predicate match_option search_radius = (case dict_get predicates (str_upper (py_str match_option)) of
     None \<Rightarrow> Inl configuration_error
   | Some p \<Rightarrow> if p \<noteq> ''dwithin'' then Inr (p, None)
       else if search_radius = PNone then Inl configuration_error
       else bindE (parse_linear_distance search_radius) (\<lambda>(distance, _). Inr (p, Some distance)))"

definition project_spatial_join ::
  "('cl, 'ad, 'pr) gp_host \<Rightarrow> (string, pyval) pydict \<Rightarrow> ('cl, 'ad, 'pr, 'z) gp_session_scheme \<Rightarrow> gp_exn + projected_call" where
  "project_spatial_join h bound s =
     (let target = get_or_none bound ''target_features''; joined = get_or_none bound ''join_features''; match_option = get_or_none bound ''match_option'' in
      bindE (validate_spatial_join_options bound) (\<lambda>_.
      bindE (resolve_layer_id h s target) (\<lambda>layer_id.
      bindE (resolve_layer_id h s joined) (\<lambda>join_id.
      bindE (if match_option = PNone then Inr [] else bindE (match_option_to_predicate match_option (get_or_none bound ''search_radius'')) (\<lambda>(p, distance).
        Inr ([(''predicate'', PStr p)] @ (case distance of None \<Rightarrow> [] | Some d \<Rightarrow> [(''distance'', PFloat d)])))) (\<lambda>matching.
      bindE (selection_where s joined False) (\<lambda>_.
      bindE (selection_where s target True) (\<lambda>selected.
        layer_call h s target (get_or_none bound ''out_feature_class'')
          ([(''layerId'', PInt layer_id), (''joinLayerId'', PInt join_id)] @ matching @
           where_input (combine_where [selected, get_or_none bound ''where_clause''])))))))))"

definition project_project ::
  "('cl, 'ad, 'pr) gp_host \<Rightarrow> (string, pyval) pydict \<Rightarrow> ('cl, 'ad, 'pr, 'z) gp_session_scheme \<Rightarrow> gp_exn + projected_call" where
  "project_project h bound s =
     (let in_dataset = get_or_none bound ''in_dataset'' in
      bindE (validate_project_options bound) (\<lambda>_.
      bindE (resolve_layer_id h s in_dataset) (\<lambda>layer_id.
      bindE (coerce_srid (get_or_none bound ''out_coor_system'')) (\<lambda>target_srid.
      bindE (selection_where s in_dataset False) (\<lambda>_.
        layer_call h s in_dataset (get_or_none bound ''out_dataset'') [(''layerId'', PInt layer_id), (''targetSrid'', PInt target_srid)])))))"

definition project_dissolve_layer ::
  "('cl, 'ad, 'pr) gp_host \<Rightarrow> (string, pyval) pydict \<Rightarrow> ('cl, 'ad, 'pr, 'z) gp_session_scheme \<Rightarrow> gp_exn + projected_call" where
  "project_dissolve_layer h bound s =
     (let in_features = get_or_none bound ''in_features'' in
      bindE (resolve_layer_id h s in_features) (\<lambda>layer_id.
      bindE (selection_where s in_features True) (\<lambda>selected.
        layer_call h s in_features (get_or_none bound ''out_feature_class'')
          ([(''layerId'', PInt layer_id)] @
           (case csv_fields (get_or_none bound ''dissolve_field'') of Some (c # cs) \<Rightarrow> [(''groupByFields'', PStr (c # cs))] | _ \<Rightarrow> []) @
           where_input (combine_where [selected, get_or_none bound ''where_clause''])))))"

section \<open>Dissolving a job output\<close>

text \<open>\<open>json.dumps(..., default=str)\<close>: what JSON has no form for is replaced by its text first.\<close>

fun jsonable :: "pyval \<Rightarrow> pyval" where
  "jsonable (PBytes b) = PStr (py_str (PBytes b))"
| "jsonable (PList xs) = PList (map jsonable xs)"
| "jsonable (PTuple xs) = PTuple (map jsonable xs)"
| "jsonable (PDict d) = PDict (map (\<lambda>(k, v). (k, jsonable v)) d)"
| "jsonable v = v"

definition from_wkb :: "wkb_error + 'a \<Rightarrow> gp_exn + 'a" where
  "from_wkb m = (case m of
     Inl BadGeometry \<Rightarrow> Inl configuration_error
   | Inl PackError \<Rightarrow> Inl (Foreign ''error'' None)
   | Inl (WkbRaised e) \<Rightarrow> Inl (Foreign (exn_class e) None)
   | Inr x \<Rightarrow> Inr x)"

definition geometry_wkb :: "pyval \<Rightarrow> gp_exn + string" where
  "geometry_wkb geometry =
     (if geometry = PNone then Inl configuration_error
      else bindE (from_wkb (position_count geometry)) (\<lambda>n. if n = 0 then Inl configuration_error else from_wkb (geojson_to_base64_wkb geometry)))"

text \<open>The dissolve field values of a feature, and the group key they make.\<close>

definition field_values :: "string list \<Rightarrow> (string, pyval) pydict \<Rightarrow> gp_exn + (string, pyval) pydict" where
  "field_values names f = (let properties = mapping_or_empty (get_or_none f ''properties'') in
     if list_all (dict_has properties) names then Inr (foldl (\<lambda>d n. dict_set d n (get_or_none properties n)) [] names) else Inl configuration_error)"

definition group_key :: "string list \<Rightarrow> (string, pyval) pydict \<Rightarrow> gp_exn + string" where
  "group_key names row_group = foreign (json_text (jsonable (PList (map (get_or_none row_group) names))))"

text \<open>The loop over the features: WKBs, group keys and group values so far.\<close>

fun dissolve_loop ::
  "string list \<Rightarrow> (string, pyval) pydict list \<Rightarrow> string list \<Rightarrow> string list \<Rightarrow> (string, (string, pyval) pydict) pydict \<Rightarrow>
   gp_exn + string list \<times> string list \<times> (string, (string, pyval) pydict) pydict" where
  "dissolve_loop names [] wkbs keys groups = Inr (wkbs, keys, groups)"
| "dissolve_loop names (f # fs) wkbs keys groups =
     bindE (geometry_wkb (get_or_none f ''geometry'')) (\<lambda>wkb.
       if names = [] then dissolve_loop names fs (wkbs @ [wkb]) keys groups
       else bindE (field_values names f) (\<lambda>row_group. bindE (group_key names row_group) (\<lambda>key.
         dissolve_loop names fs (wkbs @ [wkb]) (keys @ [key]) (dict_setdefault groups key row_group))))"

definition dissolve_fields :: "pyval \<Rightarrow> string list" where
  "dissolve_fields v = filter (\<lambda>n. n \<noteq> []) (map str_strip (str_split_char (CHR '','') (case csv_fields v of None \<Rightarrow> [] | Some t \<Rightarrow> t)))"

definition json_array :: "string list \<Rightarrow> gp_exn + pyval" where
  "json_array ts = bindE (foreign (json_text (PList (map PStr ts)))) (\<lambda>t. Inr (PStr t))"

definition geometry_dissolve :: string where
  "geometry_dissolve = ''geometry.dissolve''"

definition project_dissolve_features ::
  "(string, pyval) pydict \<Rightarrow> output_artifact \<Rightarrow> int \<Rightarrow> ('cl, 'ad, 'pr, 'z) gp_session_scheme \<Rightarrow> gp_exn + projected_call" where
  "project_dissolve_features bound a srid s =
     (let names = dissolve_fields (get_or_none bound ''dissolve_field'') in
      bindE (dissolve_loop names (oa_features a) [] [] []) (\<lambda>(wkbs, keys, groups).
      bindE (json_array wkbs) (\<lambda>wkb_text. bindE (json_array keys) (\<lambda>key_text.
        let inputs = [(''wkbs'', wkb_text), (''srid'', PInt srid)] @ (if names \<noteq> [] then [(''groupKeys'', key_text)] else []) in
        bindE (reserve_output s (get_or_none bound ''out_feature_class'')) (\<lambda>name.
          Inr \<lparr>pj_inputs = inputs, pj_output_name = name, pj_process_id = Some geometry_dissolve, pj_origin = oa_origin a,
               pj_audit_inputs = Some (dict_set inputs ''wkbs'' (PStr ''<base64 WKB geometries of the input result>'')), pj_group_values = groups\<rparr>)))))"

definition project_dissolve_output ::
  "('cl, 'ad, 'pr) gp_host \<Rightarrow> ('cl, 'pr, 'x) gp_tools \<Rightarrow> (string, pyval) pydict \<Rightarrow> output_artifact \<Rightarrow> ('cl, 'ad, 'pr, 'x) gp_world \<Rightarrow>
   (gp_exn + projected_call) \<times> ('cl, 'ad, 'pr, 'x) gp_world" where
  "project_dissolve_output h tk bound a w =
     (case bindE (selection_where w (get_or_none bound ''in_features'') False) (\<lambda>_. bindE (reject_if_set (get_or_none bound ''where_clause'')) (\<lambda>_.
             accept_if (oa_features a \<noteq> []))) of
        Inl e \<Rightarrow> (Inl e, w)
      | Inr _ \<Rightarrow> (case (case oa_srid a of Some i \<Rightarrow> if i \<noteq> 0 then (Inr (Some i), w) else layer_srid h tk (oa_origin a) w
             | None \<Rightarrow> layer_srid h tk (oa_origin a) w) of
          (Inl e, w1) \<Rightarrow> (Inl e, w1)
        | (Inr None, w1) \<Rightarrow> (Inl configuration_error, w1)
        | (Inr (Some srid), w1) \<Rightarrow> (project_dissolve_features bound a srid w1, w1)))"

definition project_dissolve ::
  "('cl, 'ad, 'pr) gp_host \<Rightarrow> ('cl, 'pr, 'x) gp_tools \<Rightarrow> (string, pyval) pydict \<Rightarrow> ('cl, 'ad, 'pr, 'x) gp_world \<Rightarrow>
   (gp_exn + projected_call) \<times> ('cl, 'ad, 'pr, 'x) gp_world" where
  "project_dissolve h tk bound w = (case validate_dissolve_options bound of
     Inl e \<Rightarrow> (Inl e, w)
   | Inr _ \<Rightarrow> (case output_source_for (case get_or_none bound ''in_features'' of PStr name \<Rightarrow> get_layer name w | _ \<Rightarrow> None) of
        Some a \<Rightarrow> project_dissolve_output h tk bound a w
      | None \<Rightarrow> (project_dissolve_layer h bound w, w)))"

section \<open>Running a tool\<close>

type_synonym ('cl, 'ad, 'pr, 'x) projector =
  "('cl, 'ad, 'pr) gp_host \<Rightarrow> ('cl, 'pr, 'x) gp_tools \<Rightarrow> (string, pyval) pydict \<Rightarrow> ('cl, 'ad, 'pr, 'x) gp_world \<Rightarrow>
   (gp_exn + projected_call) \<times> ('cl, 'ad, 'pr, 'x) gp_world"

definition projectors :: "(string, ('cl, 'ad, 'pr, 'x) projector) pydict" where
  "projectors =
    [(''analysis.Buffer'', \<lambda>h tk bound w. (project_buffer h bound w, w)), (''analysis.SpatialJoin'', \<lambda>h tk bound w. (project_spatial_join h bound w, w)),
     (''management.Dissolve'', project_dissolve), (''management.Project'', \<lambda>h tk bound w. (project_project h bound w, w))]"

definition mark_requested_output :: "(string, pyval) pydict \<Rightarrow> ('cl, 'ad, 'pr, 'x) gp_world \<Rightarrow> ('cl, 'ad, 'pr, 'x) gp_world" where
  "mark_requested_output bound w = (case py_or (get_or_none bound ''out_feature_class'') (get_or_none bound ''out_dataset'') of
     PStr (c # cs) \<Rightarrow> if get_layer (c # cs) w = None
       then mark_unbound_output (c # cs) ''the output of a tool whose job has not completed successfully'' w else w
   | _ \<Rightarrow> w)"

definition restore_group :: "(string, (string, pyval) pydict) pydict \<Rightarrow> (string, pyval) pydict \<Rightarrow> gp_exn + (string, pyval) pydict" where
  "restore_group groups f = (let properties = mapping_or_empty (get_or_none f ''properties'') in
     case get_or_none properties ''groupKey'' of
       PStr key \<Rightarrow> (case dict_get groups key of
           None \<Rightarrow> Inl (execute_error (Some ''unreadable_output''))
         | Some row_group \<Rightarrow> Inr (dict_set f ''properties'' (PDict (dict_update properties row_group))))
     | PList _ \<Rightarrow> Inl (Foreign ''TypeError'' None) | PDict _ \<Rightarrow> Inl (Foreign ''TypeError'' None)
     | _ \<Rightarrow> Inl (execute_error (Some ''unreadable_output'')))"

definition with_group_values :: "output_artifact \<Rightarrow> (string, (string, pyval) pydict) pydict \<Rightarrow> gp_exn + output_artifact" where
  "with_group_values a groups = bindE (mapE (restore_group groups) (oa_features a)) (\<lambda>fs. Inr (a\<lparr>oa_features := fs\<rparr>))"

text \<open>The artifact of a job outcome, before it is bound.\<close>

definition job_artifact ::
  "('cl, 'pr, 'x) gp_tools \<Rightarrow> string \<Rightarrow> projected_call \<Rightarrow> job_outcome \<Rightarrow> string \<Rightarrow> gp_exn + output_artifact" where
  "job_artifact tk qualified pj outcome job_id =
     bindE (read_output_artifact (gt_decode tk) (case jo_results outcome of None \<Rightarrow> PNone | Some d \<Rightarrow> PDict d) qualified job_id) (\<lambda>a.
       let a1 = a\<lparr>oa_origin := pj_origin pj\<rparr> in if pj_group_values pj \<noteq> [] then with_group_values a1 (pj_group_values pj) else Inr a1)"

definition output_alias :: "string \<Rightarrow> output_artifact \<Rightarrow> layer_alias" where
  "output_alias name a = \<lparr>la_name = name, la_source = artifact_source a, la_where = PNone, la_field_info = PNone, la_selection = [],
     la_workspace = PNone, la_kind = ''gp-output'', la_output = Some a\<rparr>"

definition bind_output ::
  "('cl, 'pr, 'x) gp_tools \<Rightarrow> string \<Rightarrow> projected_call \<Rightarrow> job_outcome \<Rightarrow> ('cl, 'ad, 'pr, 'x) gp_world \<Rightarrow>
   (gp_exn + unit) \<times> ('cl, 'ad, 'pr, 'x) gp_world" where
  "bind_output tk qualified pj outcome w =
     (let (job_id, w1) = (if jo_job_id outcome \<noteq> [] then (jo_job_id outcome, w)
        else (case gt_fresh tk (gw_ext w) of (u, x) \<Rightarrow> (''inline-'' @ u, w\<lparr>gw_ext := x\<rparr>))) in
      case job_artifact tk qualified pj outcome job_id of
        Inl e \<Rightarrow> (Inl e, w1)
      | Inr a \<Rightarrow> (case pj_output_name pj of
          Some (c # cs) \<Rightarrow> (case register_layer (output_alias (c # cs) a) w1 of (r, w2) \<Rightarrow> (bindE r (\<lambda>_. Inr ()), w2))
        | _ \<Rightarrow> (Inr (), w1)))"

text \<open>The \<open>try\<close> block: the projected call and its outcome, with the output bound.\<close>

definition tool_attempt ::
  "('cl, 'ad, 'pr) gp_host \<Rightarrow> ('cl, 'pr, 'x) gp_tools \<Rightarrow> string \<Rightarrow> function_entry \<Rightarrow> ('cl, 'ad, 'pr, 'x) projector \<Rightarrow> (string, pyval) pydict \<Rightarrow>
   ('cl, 'ad, 'pr, 'x) gp_world \<Rightarrow> ((gp_exn + projected_call \<times> job_outcome) \<times> ('cl, 'ad, 'pr, 'x) gp_world) option" where
  "tool_attempt h tk qualified entry projector bound w =
     (let w1 = mark_requested_output bound w in case validate_environment qualified w1 of
        Inl e \<Rightarrow> Some (Inl e, w1)
      | Inr _ \<Rightarrow> (case projector h tk bound w1 of
          (Inl e, w2) \<Rightarrow> Some (Inl e, w2)
        | (Inr pj, w2) \<Rightarrow> (case processes_client h w2 of
            (Inl e, w3) \<Rightarrow> Some (Inl e, w3)
          | (Inr p, w3) \<Rightarrow>
             (case submit_and_wait (gt_jobs tk p) (case (pj_process_id pj, fe_process_id entry) of (Some i, _) \<Rightarrow> i | (None, Some i) \<Rightarrow> i | _ \<Rightarrow> [])
                     (pj_inputs pj) default_poll_interval default_timeout (gw_ext w3) of
                None \<Rightarrow> None
              | Some (Inl e, x) \<Rightarrow> Some (Inl e, w3\<lparr>gw_ext := x\<rparr>)
              | Some (Inr outcome, x) \<Rightarrow> (case bind_output tk qualified pj outcome (w3\<lparr>gw_ext := x\<rparr>) of
                  (Inl e, w4) \<Rightarrow> Some (Inl e, w4) | (Inr _, w4) \<Rightarrow> Some (Inr (pj, outcome), w4))))))"

definition finish_line :: "function_entry \<Rightarrow> projected_call \<Rightarrow> job_outcome \<Rightarrow> pyval \<Rightarrow> audit_line \<Rightarrow> audit_line" where
  "finish_line entry pj outcome inputs line =
     dict_set (dict_set (dict_set (dict_set (dict_set line
       ''process_id'' (text_value (case pj_process_id pj of Some i \<Rightarrow> Some i | None \<Rightarrow> fe_process_id entry)))
       ''process_inputs'' inputs) ''job_id'' (PStr (jo_job_id outcome))) ''job_status'' (PStr (jo_status outcome)))
       ''result_shape'' (shape_of (PDict [(''output'', PNone), (''jobId'', PNone)]))"

definition output_text :: "projected_call \<Rightarrow> string" where
  "output_text pj = (case pj_output_name pj of None \<Rightarrow> [] | Some n \<Rightarrow> n)"

definition run_layer_process ::
  "('cl, 'ad, 'pr) gp_host \<Rightarrow> ('cl, 'pr, 'x) gp_tools \<Rightarrow> string \<Rightarrow> pyval list \<Rightarrow> (string, pyval) pydict \<Rightarrow> ('cl, 'ad, 'pr, 'x) gp_world \<Rightarrow>
   ((gp_exn + gp_result) \<times> ('cl, 'ad, 'pr, 'x) gp_world) option" where
  "run_layer_process h tk qualified args kwargs w = (case (entry_for qualified, dict_get projectors qualified) of
     (Some entry, Some projector) \<Rightarrow>
       if fe_backend entry \<noteq> ProcessBackend then Some (Inl configuration_error, w)
       else (case record_open (he_ip_ok h) qualified args kwargs of
           Inl e \<Rightarrow> Some (Inl e, w)
         | Inr line \<Rightarrow> (case tool_attempt h tk qualified entry projector (bound_arguments entry args kwargs) w of
             None \<Rightarrow> None
           | Some (Inl e, w1) \<Rightarrow> Some (Inl (wrap_source_error e), record_close (Some (wrap_source_error e)) line w1)
           | Some (Inr (pj, outcome), w1) \<Rightarrow>
              (case foreign (redact_value (he_ip_ok h) (Some ''process_inputs'') (PDict (case pj_audit_inputs pj of Some i \<Rightarrow> i | None \<Rightarrow> pj_inputs pj))) of
                 Inl e \<Rightarrow> Some (Inl e, record_close (Some e) (dict_set line ''process_id'' (text_value (case pj_process_id pj of Some i \<Rightarrow> Some i | None \<Rightarrow> fe_process_id entry))) w1)
               | Inr inputs \<Rightarrow> Some (Inr \<lparr>gr_output = output_text pj, gr_job_id = jo_job_id outcome, gr_status = 4, gr_outputs = jo_results outcome\<rparr>,
                   record_close None (finish_line entry pj outcome inputs line) w1))))
   | _ \<Rightarrow> Some (Inl configuration_error, w))"

section \<open>What a tool leaves in the session\<close>

definition same_names :: "('cl, 'ad, 'pr, 'z) gp_session_scheme \<Rightarrow> ('cl, 'ad, 'pr, 'z) gp_session_scheme \<Rightarrow> bool" where
  "same_names s t \<longleftrightarrow> ss_layers t = ss_layers s \<and> ss_unbound t = ss_unbound s"

lemma same_names_refl [simp]: "same_names s s"
  by (simp add: same_names_def)

lemma same_names_trans: "same_names s t \<Longrightarrow> same_names t u \<Longrightarrow> same_names s u"
  by (simp add: same_names_def)

lemma same_names_ext [simp]: "same_names s (w\<lparr>gw_ext := x\<rparr>) = same_names s w"
  by (simp add: same_names_def)

lemma client_names: "client h s = (r, t) \<Longrightarrow> same_names s t"
proof -
  have b: "same_names s (snd (build_client h s))" by (simp add: build_client_def build_with_state bootstrap_from_env_def Let_def same_names_def)
  show "client h s = (r, t) \<Longrightarrow> ?thesis"
  proof (cases "ss_client s")
    case None
    then show "client h s = (r, t) \<Longrightarrow> ?thesis" using b by (cases "build_client h s") (auto simp: client_def same_names_def split: sum.splits)
  qed (simp add: client_def)
qed

lemma processes_client_names: "processes_client h s = (r, t) \<Longrightarrow> same_names s t"
proof (cases "ss_processes s")
  case None
  obtain c s1 where c: "client h s = (c, s1)" by (metis surj_pair)
  then show "processes_client h s = (r, t) \<Longrightarrow> ?thesis"
    using None client_names [OF c] by (auto simp: processes_client_def same_names_def split: sum.splits option.splits)
qed (simp add: processes_client_def)

lemma layer_srid_names: "layer_srid h tk origin w = (r, w') \<Longrightarrow> same_names w w'"
proof -
  obtain c w1 where c: "client h w = (c, w1)" by (metis surj_pair)
  then show "layer_srid h tk origin w = (r, w') \<Longrightarrow> ?thesis"
    using client_names [OF c] by (auto simp: layer_srid_def split: sum.splits option.splits if_splits prod.splits)
qed

lemma project_dissolve_names: "project_dissolve h tk bound w = (r, w') \<Longrightarrow> same_names w w'"
proof -
  have "project_dissolve_output h tk bound a w = (r, w') \<Longrightarrow> same_names w w'" for a
    by (auto simp: project_dissolve_output_def dest: layer_srid_names split: sum.splits option.splits if_splits prod.splits)
  then show "project_dissolve h tk bound w = (r, w') \<Longrightarrow> ?thesis"
    by (auto simp: project_dissolve_def split: sum.splits option.splits)
qed

lemma projector_names: "dict_get projectors q = Some f \<Longrightarrow> f h tk bound w = (r, w') \<Longrightarrow> same_names w w'"
  by (auto simp: projectors_def dict_get_def dest: project_dissolve_names split: if_splits)

lemma bind_output_Inl: "bind_output tk q pj outcome w = (Inl e, w') \<Longrightarrow> same_names w w'"
  by (auto simp: bind_output_def register_layer_def Let_def same_names_def split: prod.splits sum.splits option.splits list.splits if_splits)

lemma tool_attempt_Inl:
  assumes "tool_attempt h tk q entry f bound w = Some (Inl e, w')" "dict_get projectors q = Some f"
  shows "same_names (mark_requested_output bound w) w'"
proof -
  define w1 where "w1 = mark_requested_output bound w"
  obtain r2 w2 where p: "f h tk bound w1 = (r2, w2)" by (metis surj_pair)
  obtain r3 w3 where c: "processes_client h w2 = (r3, w3)" by (metis surj_pair)
  have n2: "same_names w1 w2" by (rule projector_names [OF assms(2) p])
  have n3: "same_names w1 w3" by (rule same_names_trans [OF n2 processes_client_names [OF c]])
  have n4: "bind_output tk q pj outcome (w3\<lparr>gw_ext := x\<rparr>) = (Inl e4, w4) \<Longrightarrow> same_names w1 w4" for pj outcome x e4 w4
    using same_names_trans [OF _ bind_output_Inl] n3 by (metis same_names_ext)
  show ?thesis using assms(1) p c n2 n3 unfolding tool_attempt_def w1_def [symmetric] Let_def
    by (auto split: sum.splits option.splits prod.splits dest: n4)
qed

definition requested_output :: "(string, pyval) pydict \<Rightarrow> pyval" where
  "requested_output bound = py_or (get_or_none bound ''out_feature_class'') (get_or_none bound ''out_dataset'')"

lemma mark_requested_layers: "ss_layers (mark_requested_output bound w) = ss_layers w"
  by (auto simp: mark_requested_output_def mark_unbound_output_def split: pyval.split list.split)

lemma mark_requested_unbound:
  "requested_output bound = PStr (c # cs) \<Longrightarrow> get_layer (c # cs) w = None \<Longrightarrow> unbound_output_reason (c # cs) (mark_requested_output bound w) \<noteq> None"
  by (simp add: mark_requested_output_def requested_output_def mark_unbound_output_def unbound_output_reason_def)

definition layer_tools :: "string list" where
  "layer_tools = [''analysis.Buffer'', ''analysis.SpatialJoin'', ''management.Dissolve'', ''management.Project'']"

lemma layer_tool_projector: "q \<in> set layer_tools \<Longrightarrow> \<exists>f. dict_get projectors q = Some f"
  by (auto simp: layer_tools_def projectors_def dict_get_def)

lemma layer_tool_process: "q \<in> set layer_tools \<Longrightarrow> entry_for q = Some entry \<Longrightarrow> fe_backend entry = ProcessBackend"
  by (auto simp: layer_tools_def entry_for_def compat_def implemented_def dict_get_def
      analysis_buffer_entry_def analysis_spatial_join_entry_def management_dissolve_entry_def management_project_entry_def)

definition line_added :: "('cl, 'ad, 'pr, 'x) gp_world \<Rightarrow> ('cl, 'ad, 'pr, 'x) gp_world \<Rightarrow> bool" where
  "line_added w w' \<longleftrightarrow> (\<exists>failure line. w' = record_close failure line w)"

lemma line_added_close [simp]: "line_added w (record_close failure line w)"
  by (auto simp: line_added_def)

lemma line_added_names: "line_added w w' \<Longrightarrow> same_names w w'"
  by (auto simp: line_added_def same_names_def record_close_def)

lemma run_layer_process_tool:
  assumes "q \<in> set layer_tools" "entry_for q = Some entry" "run_layer_process h tk q args kwargs w = Some (res, w')"
  shows "(\<exists>e. record_open (he_ip_ok h) q args kwargs = Inl e \<and> res = Inl e \<and> w' = w) \<or>
    (\<exists>line f. record_open (he_ip_ok h) q args kwargs = Inr line \<and> dict_get projectors q = Some f \<and>
      (\<exists>r w1. tool_attempt h tk q entry f (bound_arguments entry args kwargs) w = Some (r, w1) \<and>
        line_added w1 w' \<and>
        (case r of Inl e \<Rightarrow> res = Inl (wrap_source_error e)
         | Inr (pj, outcome) \<Rightarrow> (\<exists>c. res = Inl (Foreign c None)) \<or>
             res = Inr \<lparr>gr_output = output_text pj, gr_job_id = jo_job_id outcome, gr_status = 4, gr_outputs = jo_results outcome\<rparr>)))"
proof -
  have b: "fe_backend entry = ProcessBackend" by (rule layer_tool_process [OF assms(1,2)])
  obtain f :: "('a, 'b, 'c, 'd) projector" where f: "dict_get projectors q = Some f" using layer_tool_projector [OF assms(1)] by blast
  show ?thesis
  proof (cases "record_open (he_ip_ok h) q args kwargs")
    case (Inl e)
    then show ?thesis using assms(2,3) b f by (simp add: run_layer_process_def)
  next
    case (Inr line)
    then obtain r w1 where t: "tool_attempt h tk q entry f (bound_arguments entry args kwargs) w = Some (r, w1)"
      using assms(2,3) b f by (cases "tool_attempt h tk q entry f (bound_arguments entry args kwargs) w") (auto simp: run_layer_process_def)
    then show ?thesis using assms(2,3) b f Inr
      by (cases r) (auto simp: run_layer_process_def foreign_def split: sum.splits)
  qed
qed


lemma tool_attempt_Inr:
  assumes "tool_attempt h tk q entry f bound w = Some (Inr (pj, outcome), w')"
  shows "\<exists>w1. bind_output tk q pj outcome w1 = (Inr (), w')"
  using assms by (auto simp: tool_attempt_def Let_def split: sum.splits option.splits prod.splits)

lemma bind_output_Inr:
  assumes "bind_output tk q pj outcome w = (Inr (), w')" "output_text pj = c # cs"
  shows "\<exists>job_id a. job_artifact tk q pj outcome job_id = Inr a \<and> get_layer (c # cs) w' = Some (output_alias (c # cs) a)"
proof -
  have n: "pj_output_name pj = Some (c # cs)" using assms(2) by (auto simp: output_text_def split: option.splits)
  show ?thesis using assms(1) n
    by (auto simp: bind_output_def Let_def register_layer_def bindE_eq_Inr get_layer_def output_alias_def split: prod.splits sum.splits if_splits)
qed

text \<open>Restoring group values touches the properties of a feature only.\<close>

definition same_but_properties :: "(string, pyval) pydict \<Rightarrow> (string, pyval) pydict \<Rightarrow> bool" where
  "same_but_properties f g \<longleftrightarrow> (\<forall>k. k \<noteq> ''properties'' \<longrightarrow> dict_get g k = dict_get f k)"

lemma restore_group_same: "restore_group groups f = Inr g \<Longrightarrow> same_but_properties f g"
  by (auto simp: restore_group_def same_but_properties_def Let_def split: pyval.splits option.splits)

lemma job_artifact_features:
  assumes "job_artifact tk q pj outcome job_id = Inr a"
  shows "\<exists>a0. read_output_artifact (gt_decode tk) (case jo_results outcome of None \<Rightarrow> PNone | Some d \<Rightarrow> PDict d) q job_id = Inr a0 \<and>
    list_all2 same_but_properties (oa_features a0) (oa_features a)"
proof -
  obtain a0 where a0: "read_output_artifact (gt_decode tk) (case jo_results outcome of None \<Rightarrow> PNone | Some d \<Rightarrow> PDict d) q job_id = Inr a0"
    and a: "(if pj_group_values pj \<noteq> [] then with_group_values (a0\<lparr>oa_origin := pj_origin pj\<rparr>) (pj_group_values pj) else Inr (a0\<lparr>oa_origin := pj_origin pj\<rparr>)) = Inr a"
    using assms by (auto simp: job_artifact_def bindE_eq_Inr Let_def)
  have "list_all2 same_but_properties (oa_features a0) (oa_features a)"
  proof (cases "pj_group_values pj = []")
    case True
    then show ?thesis using a by (auto simp: same_but_properties_def list.rel_refl)
  next
    case False
    then have "mapE (restore_group (pj_group_values pj)) (oa_features a0) = Inr (oa_features a)"
      using a by (auto simp: with_group_values_def bindE_eq_Inr)
    then show ?thesis unfolding mapE_eq_Inr by (rule list_all2_mono) (rule restore_group_same)
  qed
  with a0 show ?thesis by blast
qed

lemma count_of_output:
  assumes "get_layer name w = Some (output_alias name a)" "record_open (he_ip_ok h) ''management.GetCount'' [PStr name] [] = Inr line"
  shows "fst (get_count h rm qry (PStr name) w) = Inr (int (length (oa_features a)))"
proof -
  have r: "resolve h w (PStr name) = Inr \<lparr>rs_source = artifact_source a, rs_kind = ''alias'', rs_workspace = PNone, rs_layer = Some name,
      rs_raw = Some name, rs_server_url = None\<rparr>"
    using assms(1) by (simp add: resolve_def resolve_text_def output_alias_def)
  have "query_output a PNone = Inr \<lparr>qa_total = PInt (int (length (oa_features a))), qa_features = Some (length (oa_features a))\<rparr>"
    by (simp add: query_output_def artifact_query_def check_query_def where_argument_def kwargs_without_def get_or_none_def artifact_rows_def)
  then show ?thesis using assms r
    by (simp add: get_count_def record_call_def output_source_for_def output_alias_def alias_where_of_def answer_count_def)
qed


text \<open>A server that answers every job at once with \<open>reply\<close>, and a call of the projection tool.\<close>

definition tools_with :: "((string, pyval) pydict \<Rightarrow> gp_exn + pyval) \<Rightarrow> (unit, unit, 'x) gp_tools" where
  "tools_with reply = \<lparr>gt_jobs = (\<lambda>_. dead_jobs\<lparr>jc_execute := (\<lambda>_ p x. (reply p, x))\<rparr>), gt_has_schema = (\<lambda>_. False),
     gt_srid = (\<lambda>_ _ _ x. (Inr PNone, x)), gt_fresh = (\<lambda>x. (''u'', x)), gt_decode = (\<lambda>_. None)\<rparr>"

definition project_args :: "pyval list" where
  "project_args = [PStr ''rest/services/roads/FeatureServer/3'', PStr ''out'', PInt 4326]"

definition outputs_value :: "gp_result \<Rightarrow> pyval" where
  "outputs_value r = (case gr_outputs r of None \<Rightarrow> PNone | Some d \<Rightarrow> PDict d)"

definition empty_world :: "(unit, unit, unit, da_feature list) gp_world" where
  "empty_world = world_of []"

lemma project_bound: "requested_output (bound_arguments management_project_entry project_args []) = PStr ''out''"
  by code_simp

lemma project_entry: "entry_for ''management.Project'' = Some management_project_entry"
  by code_simp



end
