(* ===== verification/Scenes.thy ===== *)
theory Scenes
  imports Core_Client
begin

text \<open>
  \<open>protocols/scenes.py\<close>: parsing of 3D scene metadata and of elevation responses. Keys are looked up
  exactly, then without regard to case; text is stripped and empty text is none.

  \<open>fromisoformat\<close> is \<open>datetime.fromisoformat\<close> (\<open>None\<close> where it raises). Names of capabilities that
  differ only in case come in the order of the set that collects them, taken here as the order of
  their first occurrence.
\<close>

datatype scene_error = SceneError | PackageError | SceneClient client_error | ScenePy py_error

definition scene_py :: "py_error + 'a \<Rightarrow> scene_error + 'a" where
  "scene_py m = (case m of Inl e \<Rightarrow> Inl (ScenePy e) | Inr x \<Rightarrow> Inr x)"

section \<open>Reading values\<close>

definition lowered_items :: "(string, pyval) pydict \<Rightarrow> (string, pyval) pydict" where
  "lowered_items d = put_all dict_set [] (map (\<lambda>(k, v). (str_lower k, v)) d)"

fun first_named :: "(string, pyval) pydict \<Rightarrow> string list \<Rightarrow> pyval" where
  "first_named d [] = PNone"
| "first_named d (n # ns) = (case dict_get d n of Some v \<Rightarrow> v
     | None \<Rightarrow> (case dict_get (lowered_items d) (str_lower n) of
          Some v \<Rightarrow> if v = PNone then first_named d ns else v | None \<Rightarrow> first_named d ns))"

definition get_value :: "pyval \<Rightarrow> string list \<Rightarrow> pyval" where
  "get_value element names = (case element of PDict d \<Rightarrow> first_named d names | _ \<Rightarrow> PNone)"

definition stripped :: "string \<Rightarrow> string option" where
  "stripped s = (if str_strip s = [] then None else Some (str_strip s))"

definition get_str :: "pyval \<Rightarrow> string list \<Rightarrow> string option" where
  "get_str element names = (case get_value element names of PStr s \<Rightarrow> stripped s | _ \<Rightarrow> None)"

definition get_bool :: "pyval \<Rightarrow> string list \<Rightarrow> bool option" where
  "get_bool element names = (case get_value element names of
     PBool b \<Rightarrow> Some b
   | PStr s \<Rightarrow> (let l = str_lower (str_strip s) in
        if l \<in> {''true'', ''1'', ''yes''} then Some True else if l \<in> {''false'', ''0'', ''no''} then Some False else None)
   | _ \<Rightarrow> None)"

definition get_float :: "pyval \<Rightarrow> string list \<Rightarrow> py_error + pyfloat option" where
  "get_float element names = (case get_value element names of
     PInt i \<Rightarrow> bindE (to_float (PInt i)) (\<lambda>f. Inr (Some f))
   | PFloat w \<Rightarrow> Inr (Some (float_of_double w))
   | PStr s \<Rightarrow> Inr (case to_float (PStr s) of Inl _ \<Rightarrow> None | Inr f \<Rightarrow> Some f)
   | _ \<Rightarrow> Inr None)"

definition get_int :: "pyval \<Rightarrow> string list \<Rightarrow> int option" where
  "get_int element names = (case get_value element names of
     PInt i \<Rightarrow> Some i
   | PFloat w \<Rightarrow> (case float_of_double w of FFinite x \<Rightarrow> if of_int \<lfloor>x\<rfloor> = x then Some \<lfloor>x\<rfloor> else None | _ \<Rightarrow> None)
   | PStr s \<Rightarrow> py_int_text s
   | _ \<Rightarrow> None)"

text \<open>A sequence that is neither text nor bytes.\<close>

definition as_seq :: "pyval \<Rightarrow> pyval list option" where
  "as_seq v = (case v of PList xs \<Rightarrow> Some xs | PTuple xs \<Rightarrow> Some xs | _ \<Rightarrow> None)"

definition stripped_items :: "pyval list \<Rightarrow> string list" where
  "stripped_items xs = List.map_filter (\<lambda>v. case v of PStr s \<Rightarrow> stripped s | _ \<Rightarrow> None) xs"

definition get_str_array :: "pyval \<Rightarrow> string list \<Rightarrow> string list" where
  "get_str_array element names = (let v = get_value element names in
     case v of PStr s \<Rightarrow> List.map_filter stripped (str_split_char (CHR '','') s)
     | _ \<Rightarrow> (case as_seq v of Some xs \<Rightarrow> stripped_items xs | None \<Rightarrow> []))"

definition aware :: "py_datetime \<Rightarrow> py_datetime" where
  "aware d = (if dt_offset d = None then d\<lparr>dt_offset := Some 0\<rparr> else d)"

definition parse_datetime :: "(string \<Rightarrow> py_datetime option) \<Rightarrow> pyval \<Rightarrow> string list \<Rightarrow> py_datetime option" where
  "parse_datetime fromisoformat element names = (case get_str element names of None \<Rightarrow> None
     | Some t \<Rightarrow> map_option aware (fromisoformat (if last t \<in> {CHR ''Z'', CHR ''z''} then butlast t @ ''+00:00'' else t)))"

section \<open>Scene models\<close>

record scene_auth =
  sa_requires :: bool
  sa_schemes :: "string list"
  sa_policy :: "string option"

record scene_coordinate =
  co_latitude :: pyfloat
  co_longitude :: pyfloat
  co_height :: "pyfloat option"

record scene_bounds =
  sb_min_longitude :: pyfloat
  sb_min_latitude :: pyfloat
  sb_max_longitude :: pyfloat
  sb_max_latitude :: pyfloat
  sb_min_height :: "pyfloat option"
  sb_max_height :: "pyfloat option"

record scene_cache_policy =
  cp_public :: "bool option"
  cp_max_age :: "int option"
  cp_stale_while_revalidate :: "int option"
  cp_no_store :: bool

record scene_access =
  ac_mode :: string
  ac_refresh_after :: "py_datetime option"
  ac_expires_at :: "py_datetime option"
  ac_cors_mode :: "string option"
  ac_cache :: scene_cache_policy
  ac_custom_headers :: bool
  ac_revocation_key :: "string option"

record scene_endpoint =
  se_kind :: string
  se_url :: string
  se_media_type :: "string option"
  se_format :: string
  se_requires_auth :: bool
  se_headers :: "(string, string) pydict"
  se_access :: "scene_access option"

record scene_link =
  sl_rel :: string
  sl_href :: string
  sl_type :: "string option"
  sl_title :: "string option"

record scene_summary =
  ss_id :: string
  ss_name :: string
  ss_description :: "string option"
  ss_bounds :: "scene_bounds option"
  ss_capabilities :: "string list"
  ss_attribution :: "string list"
  ss_auth :: scene_auth
  ss_updated_at :: "py_datetime option"
  ss_raw :: "(string, pyval) pydict"

record scene_metadata =
  sm_id :: string
  sm_name :: string
  sm_description :: "string option"
  sm_tileset :: "scene_endpoint option"
  sm_terrain :: "scene_endpoint option"
  sm_center :: "scene_coordinate option"
  sm_bounds :: "scene_bounds option"
  sm_capabilities :: "string list"
  sm_attribution :: "string list"
  sm_auth :: scene_auth
  sm_links :: "scene_link list"
  sm_updated_at :: "py_datetime option"
  sm_raw :: "(string, pyval) pydict"

record scene_resolution =
  sr_scene_id :: string
  sr_tileset_url :: "string option"
  sr_terrain_url :: "string option"
  sr_endpoints :: "scene_endpoint list"
  sr_capabilities :: "string list"
  sr_auth :: scene_auth
  sr_expires_at :: "py_datetime option"
  sr_access :: "scene_access option"
  sr_raw :: "(string, pyval) pydict"

definition three_d_tiles :: string where "three_d_tiles = ''3d-tiles''"
definition terrain_kind :: string where "terrain_kind = ''terrain''"

definition supported_access_modes :: "string set" where
  "supported_access_modes = {''public'', ''signed-url'', ''proxy'', ''headers''}"

definition is_supported_mode :: "scene_access \<Rightarrow> bool" where
  "is_supported_mode a \<longleftrightarrow> str_lower (ac_mode a) \<in> supported_access_modes"

definition is_browser_safe :: "scene_access \<Rightarrow> bool" where
  "is_browser_safe a \<longleftrightarrow> str_lower (ac_mode a) \<in> {''public'', ''signed-url'', ''proxy''}"

text \<open>\<open>a >= b\<close> on datetimes; comparing a naive with an aware one raises \<open>TypeError\<close>.\<close>

definition dt_ge :: "py_datetime \<Rightarrow> py_datetime \<Rightarrow> py_error + bool" where
  "dt_ge a b = (if (dt_offset a = None) \<noteq> (dt_offset b = None) then Inl ErrType else Inr (datetime_instant b \<le> datetime_instant a))"

definition is_past :: "py_datetime \<Rightarrow> py_datetime option \<Rightarrow> py_error + bool" where
  "is_past utc_now d = (case d of None \<Rightarrow> Inr False | Some t \<Rightarrow> dt_ge utc_now t)"

definition access_is_expired :: "scene_access \<Rightarrow> py_datetime \<Rightarrow> py_error + bool" where
  "access_is_expired a utc_now = is_past utc_now (ac_expires_at a)"

definition access_should_refresh :: "scene_access \<Rightarrow> py_datetime \<Rightarrow> py_error + bool" where
  "access_should_refresh a utc_now = is_past utc_now (ac_refresh_after a)"

section \<open>Parsing scenes\<close>

definition opt_or :: "'a option \<Rightarrow> 'a option \<Rightarrow> 'a option" where
  "opt_or a b = (case a of None \<Rightarrow> b | Some x \<Rightarrow> Some x)"

definition parse_auth :: "pyval \<Rightarrow> scene_auth" where
  "parse_auth root' =
     (let auth_element = get_value root' [''auth'']; auth = (if is_mapping auth_element then auth_element else root');
          is_public = get_bool auth [''public'', ''isPublic''];
          requires = opt_or (get_bool auth [''requiresAuthentication'', ''requiresAuth'', ''required''])
            (get_bool root' [''requiresAuthentication'', ''requiresAuth''])
      in \<lparr>sa_requires = (case requires of Some b \<Rightarrow> b | None \<Rightarrow> (case is_public of Some p \<Rightarrow> \<not> p | None \<Rightarrow> False)),
          sa_schemes = get_str_array auth [''schemes'', ''methods''], sa_policy = get_str auth [''policy'', ''policyId'']\<rparr>)"

definition normalize_access_mode :: "string \<Rightarrow> string" where
  "normalize_access_mode value = (let text' = str_replace_char (CHR ''_'') (CHR ''-'') (str_strip value); mode = str_lower text' in
     if mode \<in> {''signedurl'', ''signed-url''} then ''signed-url'' else if mode \<in> {''header'', ''headers''} then ''headers''
     else if mode \<in> {''proxy'', ''public''} then mode else text')"

definition parse_access_cache_policy :: "pyval \<Rightarrow> scene_cache_policy" where
  "parse_access_cache_policy access = (let cache = get_value access [''cache''] in
     if \<not> is_mapping cache then \<lparr>cp_public = None, cp_max_age = None, cp_stale_while_revalidate = None, cp_no_store = False\<rparr>
     else \<lparr>cp_public = get_bool cache [''public'', ''shared''], cp_max_age = get_int cache [''maxAgeSeconds'', ''maxAge''],
       cp_stale_while_revalidate = get_int cache [''staleWhileRevalidateSeconds'', ''staleWhileRevalidate''],
       cp_no_store = (get_bool cache [''noStore'', ''no-store''] = Some True)\<rparr>)"

definition parse_access_envelope :: "(string \<Rightarrow> py_datetime option) \<Rightarrow> pyval \<Rightarrow> scene_access option" where
  "parse_access_envelope iso' root' =
     (let access_element = get_value root' [''access'']; has_object = is_mapping access_element; access = (if has_object then access_element else root');
          raw_mode = (if has_object then get_str access [''mode'', ''accessMode'', ''type'']
            else opt_or (get_str access [''mode'', ''accessMode'']) (get_str root' [''accessMode'']))
      in if raw_mode = None \<and> \<not> has_object then None
         else (let mode = normalize_access_mode (case raw_mode of Some m \<Rightarrow> m | None \<Rightarrow> ''unknown'');
                   own = parse_datetime iso' access [''expiresAtUtc'', ''expiresAt'', ''expiration'', ''validUntil'']
           in Some \<lparr>ac_mode = mode, ac_refresh_after = parse_datetime iso' access [''refreshAfterUtc'', ''refreshAfter'', ''refreshAt''],
                ac_expires_at = (if own = None \<and> has_object then parse_datetime iso' root' [''expiresAt'', ''expiration'', ''validUntil''] else own),
                ac_cors_mode = get_str access [''corsMode'', ''cors''], ac_cache = parse_access_cache_policy access,
                ac_custom_headers = (case get_bool access [''customHeadersAllowed'', ''headersAllowed'', ''allowCustomHeaders''] of
                   Some b \<Rightarrow> b | None \<Rightarrow> str_lower mode = ''headers''),
                ac_revocation_key = get_str access [''revocationKey'', ''revision'', ''serverRevision'']\<rparr>))"

definition parse_headers :: "pyval \<Rightarrow> (string, string) pydict" where
  "parse_headers endpoint = (case get_value endpoint [''headers''] of
     PDict d \<Rightarrow> List.map_filter (\<lambda>(k, v). map_option (\<lambda>s. (k, s)) (as_str v)) d | _ \<Rightarrow> [])"

definition text_or :: "string option \<Rightarrow> string \<Rightarrow> string" where
  "text_or a b = (case a of None \<Rightarrow> b | Some t \<Rightarrow> t)"

definition parse_endpoint_object ::
  "(string \<Rightarrow> py_datetime option) \<Rightarrow> pyval \<Rightarrow> string \<Rightarrow> bool \<Rightarrow> scene_access option \<Rightarrow> scene_error + scene_endpoint" where
  "parse_endpoint_object iso' endpoint default_kind requires inherited = (case get_str endpoint [''url'', ''href''] of
     None \<Rightarrow> Inl SceneError
   | Some url \<Rightarrow> Inr \<lparr>se_kind = text_or (get_str endpoint [''kind'', ''type'']) default_kind, se_url = url,
        se_media_type = get_str endpoint [''mediaType'', ''contentType''], se_format = text_or (get_str endpoint [''format'']) default_kind,
        se_requires_auth = (case get_bool endpoint [''requiresAuthentication'', ''requiresAuth''] of Some b \<Rightarrow> b | None \<Rightarrow> requires),
        se_headers = parse_headers endpoint, se_access = opt_or (parse_access_envelope iso' endpoint) inherited\<rparr>)"

definition parse_endpoint ::
  "(string \<Rightarrow> py_datetime option) \<Rightarrow> pyval \<Rightarrow> string \<Rightarrow> string \<Rightarrow> string \<Rightarrow> scene_access option \<Rightarrow> scene_error + scene_endpoint option" where
  "parse_endpoint iso' root' default_kind object_property url_property inherited =
     (let requires = sa_requires (parse_auth root'); endpoint = get_value root' [object_property];
          nested = (case get_value root' [''endpoints''] of PDict d \<Rightarrow> get_value (PDict d) [object_property] | _ \<Rightarrow> PNone);
          parse = (\<lambda>e. bindE (parse_endpoint_object iso' e default_kind requires inherited) (\<lambda>x. Inr (Some x)))
      in if is_mapping endpoint then parse endpoint
         else if is_mapping nested then parse nested
         else Inr (case get_str root' [url_property] of None \<Rightarrow> None
           | Some url \<Rightarrow> Some \<lparr>se_kind = default_kind, se_url = url,
               se_media_type = (if default_kind = three_d_tiles then Some ''application/json'' else None), se_format = default_kind,
               se_requires_auth = requires, se_headers = [], se_access = inherited\<rparr>))"

definition parse_endpoint_array ::
  "(string \<Rightarrow> py_datetime option) \<Rightarrow> pyval \<Rightarrow> scene_access option \<Rightarrow> scene_error + scene_endpoint list" where
  "parse_endpoint_array iso' root' inherited = (case as_seq (get_value root' [''endpoints'']) of
     None \<Rightarrow> Inr []
   | Some xs \<Rightarrow> mapE (\<lambda>e. parse_endpoint_object iso' e (text_or (get_str e [''kind'', ''type'']) ''resource'') (sa_requires (parse_auth root')) inherited)
       (filter is_mapping xs))"

definition add_capability :: "string list \<Rightarrow> string option \<Rightarrow> string list" where
  "add_capability caps c = (case c of None \<Rightarrow> caps | Some s \<Rightarrow> if str_strip s = [] \<or> str_strip s \<in> set caps then caps else caps @ [str_strip s])"

definition advertised_names :: "pyval \<Rightarrow> string list" where
  "advertised_names value = (case value of
     PDict d \<Rightarrow> map fst (filter (\<lambda>(_, flag). flag \<noteq> PBool False) d)
   | PStr s \<Rightarrow> str_split_char (CHR '','') s
   | _ \<Rightarrow> (case as_seq value of Some xs \<Rightarrow> List.map_filter as_str xs | None \<Rightarrow> []))"

definition sorted_by_lower :: "string list \<Rightarrow> string list" where
  "sorted_by_lower xs = sort_key (\<lambda>s. map (\<lambda>c. of_char c :: nat) (str_lower s)) xs"

definition parse_capabilities :: "pyval \<Rightarrow> scene_endpoint list \<Rightarrow> string list" where
  "parse_capabilities root' endpoints = sorted_by_lower (foldl add_capability []
     (map Some (advertised_names (get_value root' [''capabilities''])) @ concat (map (\<lambda>e. [Some (se_kind e), Some (se_format e)]) endpoints)))"

definition attribution_of :: "pyval \<Rightarrow> string list option" where
  "attribution_of v = (case v of PStr s \<Rightarrow> Some (case stripped s of None \<Rightarrow> [] | Some t \<Rightarrow> [t]) | _ \<Rightarrow> map_option stripped_items (as_seq v))"

definition parse_attribution :: "pyval \<Rightarrow> string list" where
  "parse_attribution root' = (case opt_or (attribution_of (get_value root' [''attribution''])) (attribution_of (get_value root' [''attributions''])) of
     None \<Rightarrow> [] | Some xs \<Rightarrow> xs)"

text \<open>The numbers of a sequence as floats.\<close>

definition is_number :: "pyval \<Rightarrow> bool" where
  "is_number v = (case v of PInt _ \<Rightarrow> True | PFloat _ \<Rightarrow> True | _ \<Rightarrow> False)"

definition float_items :: "pyval list \<Rightarrow> py_error + pyfloat list" where
  "float_items xs = mapE to_float (filter is_number xs)"

definition mapping_bounds :: "pyval \<Rightarrow> py_error + scene_bounds option" where
  "mapping_bounds b = (if \<not> is_mapping b then Inr None else
     bindE (get_float b [''minLongitude'', ''west'', ''xmin'']) (\<lambda>min_lon.
     bindE (get_float b [''minLatitude'', ''south'', ''ymin'']) (\<lambda>min_lat.
     bindE (get_float b [''maxLongitude'', ''east'', ''xmax'']) (\<lambda>max_lon.
     bindE (get_float b [''maxLatitude'', ''north'', ''ymax'']) (\<lambda>max_lat.
     case (min_lon, min_lat, max_lon, max_lat) of
       (Some w, Some s, Some e, Some n) \<Rightarrow>
         bindE (get_float b [''minHeight'', ''zmin'']) (\<lambda>lo. bindE (get_float b [''maxHeight'', ''zmax'']) (\<lambda>hi.
         Inr (Some \<lparr>sb_min_longitude = w, sb_min_latitude = s, sb_max_longitude = e, sb_max_latitude = n, sb_min_height = lo, sb_max_height = hi\<rparr>)))
     | _ \<Rightarrow> Inr None)))))"

definition bbox_bounds :: "pyval \<Rightarrow> py_error + scene_bounds option" where
  "bbox_bounds bbox = (case as_seq bbox of None \<Rightarrow> Inr None
     | Some xs \<Rightarrow> bindE (float_items xs) (\<lambda>vs. Inr (case vs of
         a # b # c # d # e # f # _ \<Rightarrow> Some \<lparr>sb_min_longitude = a, sb_min_latitude = b, sb_max_longitude = d, sb_max_latitude = e, sb_min_height = Some c, sb_max_height = Some f\<rparr>
       | a # b # c # d # _ \<Rightarrow> Some \<lparr>sb_min_longitude = a, sb_min_latitude = b, sb_max_longitude = c, sb_max_latitude = d, sb_min_height = None, sb_max_height = None\<rparr>
       | _ \<Rightarrow> None)))"

definition parse_bounds :: "pyval \<Rightarrow> py_error + scene_bounds option" where
  "parse_bounds root' = bindE (mapping_bounds (get_value root' [''bounds''])) (\<lambda>found.
     case found of Some b \<Rightarrow> Inr (Some b) | None \<Rightarrow> bbox_bounds (get_value root' [''bbox'']))"

definition mapping_coordinate :: "pyval \<Rightarrow> py_error + scene_coordinate option" where
  "mapping_coordinate c = (if \<not> is_mapping c then Inr None else
     bindE (get_float c [''latitude'', ''lat'', ''y'']) (\<lambda>lat. bindE (get_float c [''longitude'', ''lon'', ''lng'', ''x'']) (\<lambda>lon.
     case (lat, lon) of (Some la, Some lo) \<Rightarrow> bindE (get_float c [''height'', ''z'']) (\<lambda>h. Inr (Some \<lparr>co_latitude = la, co_longitude = lo, co_height = h\<rparr>))
     | _ \<Rightarrow> Inr None)))"

definition parse_coordinate :: "pyval \<Rightarrow> string \<Rightarrow> py_error + scene_coordinate option" where
  "parse_coordinate root' property_name = (let c = get_value root' [property_name] in
     bindE (mapping_coordinate c) (\<lambda>found. case found of Some x \<Rightarrow> Inr (Some x)
       | None \<Rightarrow> (case as_seq c of None \<Rightarrow> Inr None
           | Some xs \<Rightarrow> bindE (float_items xs) (\<lambda>vs. Inr (case vs of
               lon # lat # rest \<Rightarrow> Some \<lparr>co_latitude = lat, co_longitude = lon, co_height = (case rest of h # _ \<Rightarrow> Some h | [] \<Rightarrow> None)\<rparr>
             | _ \<Rightarrow> None)))))"

definition parse_link :: "pyval \<Rightarrow> scene_error + scene_link" where
  "parse_link link = (case get_str link [''href'', ''url''] of
     None \<Rightarrow> Inl SceneError
   | Some href \<Rightarrow> Inr \<lparr>sl_rel = text_or (get_str link [''rel'']) ''related'', sl_href = href, sl_type = get_str link [''type'', ''mediaType''], sl_title = get_str link [''title'']\<rparr>)"

definition parse_links :: "pyval \<Rightarrow> scene_error + scene_link list" where
  "parse_links root' = (case as_seq (get_value root' [''links'']) of None \<Rightarrow> Inr [] | Some xs \<Rightarrow> mapE parse_link (filter is_mapping xs))"

definition enumerate_scene_items :: "pyval \<Rightarrow> scene_error + pyval list" where
  "enumerate_scene_items root' = (case as_seq root' of Some xs \<Rightarrow> Inr (filter is_mapping xs)
     | None \<Rightarrow> (case List.map_filter (\<lambda>k. as_seq (get_value root' [k])) [''scenes'', ''items'', ''features''] of
         xs # _ \<Rightarrow> Inr (filter is_mapping xs) | [] \<Rightarrow> Inl SceneError))"

definition scene_endpoints ::
  "(string \<Rightarrow> py_datetime option) \<Rightarrow> pyval \<Rightarrow> scene_access option \<Rightarrow> scene_error + scene_endpoint option \<times> scene_endpoint option" where
  "scene_endpoints iso' element access =
     bindE (parse_endpoint iso' element three_d_tiles ''tileset'' ''tilesetUrl'' access) (\<lambda>tileset.
     bindE (parse_endpoint iso' element terrain_kind ''terrain'' ''terrainUrl'' access) (\<lambda>terrain. Inr (tileset, terrain)))"

definition present :: "'a option list \<Rightarrow> 'a list" where
  "present xs = List.map_filter (\<lambda>x. x) xs"

definition parse_scene_summary :: "(string \<Rightarrow> py_datetime option) \<Rightarrow> (string, pyval) pydict \<Rightarrow> scene_error + scene_summary" where
  "parse_scene_summary iso' d = (let element = PDict d in case get_str element [''id'', ''sceneId''] of
     None \<Rightarrow> Inl SceneError
   | Some scene_id \<Rightarrow> bindE (scene_endpoints iso' element (parse_access_envelope iso' element)) (\<lambda>(tileset, terrain).
       bindE (scene_py (parse_bounds element)) (\<lambda>bounds.
       Inr \<lparr>ss_id = scene_id, ss_name = text_or (get_str element [''name'', ''title'']) scene_id, ss_description = get_str element [''description''],
         ss_bounds = bounds, ss_capabilities = parse_capabilities element (present [tileset, terrain]), ss_attribution = parse_attribution element,
         ss_auth = parse_auth element, ss_updated_at = parse_datetime iso' element [''updatedAt'', ''modifiedAt'', ''lastModified''], ss_raw = d\<rparr>)))"

definition parse_scene_metadata :: "(string \<Rightarrow> py_datetime option) \<Rightarrow> (string, pyval) pydict \<Rightarrow> scene_error + scene_metadata" where
  "parse_scene_metadata iso' d = (let element = PDict d in case get_str element [''id'', ''sceneId''] of
     None \<Rightarrow> Inl SceneError
   | Some scene_id \<Rightarrow> bindE (scene_endpoints iso' element (parse_access_envelope iso' element)) (\<lambda>(tileset, terrain).
       bindE (scene_py (parse_coordinate element ''center'')) (\<lambda>center.
       bindE (scene_py (parse_bounds element)) (\<lambda>bounds.
       bindE (parse_links element) (\<lambda>links.
       Inr \<lparr>sm_id = scene_id, sm_name = text_or (get_str element [''name'', ''title'']) scene_id, sm_description = get_str element [''description''],
         sm_tileset = tileset, sm_terrain = terrain, sm_center = center, sm_bounds = bounds,
         sm_capabilities = parse_capabilities element (present [tileset, terrain]), sm_attribution = parse_attribution element,
         sm_auth = parse_auth element, sm_links = links, sm_updated_at = parse_datetime iso' element [''updatedAt'', ''modifiedAt'', ''lastModified''], sm_raw = d\<rparr>)))))"

definition find_endpoint_url :: "scene_endpoint list \<Rightarrow> string \<Rightarrow> string option" where
  "find_endpoint_url endpoints kind =
     map_option se_url (List.find (\<lambda>e. str_lower (se_kind e) = str_lower kind \<or> str_lower (se_format e) = str_lower kind) endpoints)"

fun dedupe_endpoints :: "(string \<times> string) set \<Rightarrow> scene_endpoint list \<Rightarrow> scene_endpoint list" where
  "dedupe_endpoints seen [] = []"
| "dedupe_endpoints seen (e # es) = (if (se_kind e, se_url e) \<in> seen then dedupe_endpoints seen es
     else e # dedupe_endpoints (insert (se_kind e, se_url e) seen) es)"

definition parse_scene_resolution ::
  "(string \<Rightarrow> py_datetime option) \<Rightarrow> (string, pyval) pydict \<Rightarrow> string \<Rightarrow> scene_error + scene_resolution" where
  "parse_scene_resolution iso' d fallback_scene_id = (let element = PDict d; access = parse_access_envelope iso' element in
     bindE (scene_endpoints iso' element access) (\<lambda>(tileset, terrain).
     bindE (parse_endpoint_array iso' element access) (\<lambda>listed.
     let deduped = dedupe_endpoints {} (listed @ present [tileset, terrain]) in
     Inr \<lparr>sr_scene_id = text_or (get_str element [''sceneId'', ''id'']) fallback_scene_id,
       sr_tileset_url = opt_or (get_str element [''tilesetUrl'']) (opt_or (map_option se_url tileset) (find_endpoint_url deduped three_d_tiles)),
       sr_terrain_url = opt_or (get_str element [''terrainUrl'']) (opt_or (map_option se_url terrain) (find_endpoint_url deduped terrain_kind)),
       sr_endpoints = deduped, sr_capabilities = parse_capabilities element deduped, sr_auth = parse_auth element,
       sr_expires_at = opt_or (parse_datetime iso' element [''expiresAt'', ''expiration'', ''validUntil'']) (case access of None \<Rightarrow> None | Some a \<Rightarrow> ac_expires_at a),
       sr_access = access, sr_raw = d\<rparr>)))"

text \<open>\<open>_ensure_capabilities\<close> and the request parameters; blank entries are skipped.\<close>

definition missing_capabilities :: "string list \<Rightarrow> string list \<Rightarrow> string list" where
  "missing_capabilities available required = filter (\<lambda>r. r \<noteq> [] \<and> str_lower r \<notin> str_lower ` set available) required"

definition ensure_capabilities :: "string list \<Rightarrow> string list option \<Rightarrow> scene_error + unit" where
  "ensure_capabilities available required = (case required of None \<Rightarrow> Inr ()
     | Some rs \<Rightarrow> if missing_capabilities available rs = [] then Inr () else Inl SceneError)"

definition with_extra :: "(string, pyval) pydict \<Rightarrow> (string, pyval) pydict option \<Rightarrow> (string, pyval) pydict" where
  "with_extra defaults extra = (case extra of None \<Rightarrow> defaults | Some e \<Rightarrow> dict_update defaults e)"

definition capability_param :: "string list option \<Rightarrow> (string, pyval) pydict" where
  "capability_param caps = (case caps of Some (c # cs) \<Rightarrow> [(''capabilities'', PStr (str_join '','' (filter (\<lambda>s. s \<noteq> []) (c # cs))))] | _ \<Rightarrow> [])"

definition scene_list_params :: "string list option \<Rightarrow> bool option \<Rightarrow> string \<Rightarrow> (string, pyval) pydict option \<Rightarrow> (string, pyval) pydict" where
  "scene_list_params caps include_disabled response_format extra = with_extra ([(''f'', PStr response_format)] @ capability_param caps @
     (case include_disabled of None \<Rightarrow> [] | Some b \<Rightarrow> [(''includeDisabled'', PStr (bool_text b))])) extra"

definition scene_resolve_params :: "string list option \<Rightarrow> bool \<Rightarrow> string \<Rightarrow> (string, pyval) pydict option \<Rightarrow> (string, pyval) pydict" where
  "scene_resolve_params caps include_terrain response_format extra =
     with_extra ([(''f'', PStr response_format), (''includeTerrain'', PStr (bool_text include_terrain))] @ capability_param caps) extra"

section \<open>Elevation\<close>

record elevation_source =
  el_raster_ids :: "int list"
  el_raster_count :: int
  el_source_srid :: "int option"
  el_source_crs :: "string option"
  el_pixel_type :: "string option"
  el_no_data_value :: "pyfloat option"
  el_vertical_unit :: "string option"
  el_vertical_datum :: "string option"
  el_vertical_unit_assumption :: "string option"
  el_band :: int
  el_raw :: "(string, pyval) pydict"

record elevation_value =
  ev_dataset_id :: string
  ev_layer_id :: int
  ev_elevation :: "pyfloat option"
  ev_no_data :: bool
  ev_out_of_bounds :: bool
  ev_x :: pyfloat
  ev_y :: pyfloat
  ev_query_srid :: "int option"
  ev_mosaic_rule :: string
  ev_source :: elevation_source
  ev_raw :: "(string, pyval) pydict"

record elevation_sample =
  es_distance_meters :: pyfloat
  es_elevation :: "pyfloat option"
  es_no_data :: bool

record elevation_profile =
  ep_dataset_id :: string
  ep_layer_id :: int
  ep_sample_count :: int
  ep_line_length_meters :: pyfloat
  ep_line_srid :: int
  ep_mosaic_rule :: string
  ep_is_all_no_data :: bool
  ep_samples :: "elevation_sample list"
  ep_source :: elevation_source
  ep_raw :: "(string, pyval) pydict"

text \<open>\<open>value or default\<close> for numbers: a zero counts as missing.\<close>

definition int_or :: "int option \<Rightarrow> int \<Rightarrow> int" where
  "int_or i d = (case i of Some n \<Rightarrow> if n = 0 then d else n | None \<Rightarrow> d)"

definition float_or_zero :: "pyfloat option \<Rightarrow> pyfloat" where
  "float_or_zero f = (case f of None \<Rightarrow> FFinite 0 | Some x \<Rightarrow> x)"

definition no_elevation_source :: elevation_source where
  "no_elevation_source = \<lparr>el_raster_ids = [], el_raster_count = 0, el_source_srid = None, el_source_crs = None, el_pixel_type = None,
     el_no_data_value = None, el_vertical_unit = None, el_vertical_datum = None, el_vertical_unit_assumption = None, el_band = 1, el_raw = []\<rparr>"

definition parse_elevation_source :: "pyval \<Rightarrow> py_error + elevation_source" where
  "parse_elevation_source root' = (case get_value root' [''source''] of
     PDict d \<Rightarrow> (let source = PDict d in
       bindE (case as_seq (get_value source [''rasterIds'']) of None \<Rightarrow> Inr [] | Some xs \<Rightarrow> mapE to_int (filter is_number xs)) (\<lambda>ids.
       bindE (get_float source [''noDataValue'']) (\<lambda>no_data.
       Inr \<lparr>el_raster_ids = ids, el_raster_count = int_or (get_int source [''rasterCount'']) 0, el_source_srid = get_int source [''sourceSrid''],
         el_source_crs = get_str source [''sourceCrs''], el_pixel_type = get_str source [''pixelType''], el_no_data_value = no_data,
         el_vertical_unit = get_str source [''verticalUnit''], el_vertical_datum = get_str source [''verticalDatum''],
         el_vertical_unit_assumption = get_str source [''verticalUnitAssumption''], el_band = int_or (get_int source [''band'']) 1, el_raw = d\<rparr>)))
   | _ \<Rightarrow> Inr no_elevation_source)"

definition parse_elevation_value :: "(string, pyval) pydict \<Rightarrow> scene_error + elevation_value" where
  "parse_elevation_value d = (let element = PDict d in case get_str element [''datasetId''] of
     None \<Rightarrow> Inl SceneError
   | Some dataset_id \<Rightarrow> scene_py (
       bindE (get_float element [''elevation'']) (\<lambda>elevation. bindE (get_float element [''x'']) (\<lambda>x. bindE (get_float element [''y'']) (\<lambda>y.
       bindE (parse_elevation_source element) (\<lambda>source.
       Inr \<lparr>ev_dataset_id = dataset_id, ev_layer_id = int_or (get_int element [''layerId'']) 0, ev_elevation = elevation,
         ev_no_data = (get_bool element [''noData''] = Some True), ev_out_of_bounds = (get_bool element [''outOfBounds''] = Some True),
         ev_x = float_or_zero x, ev_y = float_or_zero y, ev_query_srid = get_int element [''querySrid''],
         ev_mosaic_rule = text_or (get_str element [''mosaicRule'']) [], ev_source = source, ev_raw = d\<rparr>))))))"

definition parse_elevation_sample :: "pyval \<Rightarrow> py_error + elevation_sample" where
  "parse_elevation_sample sample = bindE (get_float sample [''distanceMeters'']) (\<lambda>distance. bindE (get_float sample [''elevation'']) (\<lambda>elevation.
     Inr \<lparr>es_distance_meters = float_or_zero distance, es_elevation = elevation, es_no_data = (get_bool sample [''noData''] = Some True)\<rparr>))"

definition parse_elevation_profile :: "(string, pyval) pydict \<Rightarrow> scene_error + elevation_profile" where
  "parse_elevation_profile d = (let element = PDict d in case get_str element [''datasetId''] of
     None \<Rightarrow> Inl SceneError
   | Some dataset_id \<Rightarrow> scene_py (
       bindE (case as_seq (get_value element [''samples'']) of None \<Rightarrow> Inr [] | Some xs \<Rightarrow> mapE parse_elevation_sample (filter is_mapping xs)) (\<lambda>samples.
       bindE (get_float element [''lineLengthMeters'']) (\<lambda>line_length.
       bindE (parse_elevation_source element) (\<lambda>source.
       Inr \<lparr>ep_dataset_id = dataset_id, ep_layer_id = int_or (get_int element [''layerId'']) 0,
         ep_sample_count = int_or (get_int element [''sampleCount'']) (int (length samples)), ep_line_length_meters = float_or_zero line_length,
         ep_line_srid = int_or (get_int element [''lineSrid'']) 4326, ep_mosaic_rule = text_or (get_str element [''mosaicRule'']) [],
         ep_is_all_no_data = (get_bool element [''isAllNoData''] = Some True), ep_samples = samples, ep_source = source, ep_raw = d\<rparr>)))))"

definition optional_param :: "string \<Rightarrow> pyval option \<Rightarrow> (string, pyval) pydict" where
  "optional_param key v = (case v of None \<Rightarrow> [] | Some x \<Rightarrow> [(key, x)])"

definition elevation_value_params ::
  "double \<Rightarrow> double \<Rightarrow> pyval option \<Rightarrow> pyval option \<Rightarrow> (string, pyval) pydict option \<Rightarrow> (string, pyval) pydict" where
  "elevation_value_params x y srid mosaic_rule extra =
     with_extra ([(''x'', PFloat x), (''y'', PFloat y)] @ optional_param ''srid'' srid @ optional_param ''mosaicRule'' mosaic_rule) extra"

definition elevation_profile_params ::
  "string \<Rightarrow> pyval option \<Rightarrow> pyval option \<Rightarrow> pyval option \<Rightarrow> pyval option \<Rightarrow> (string, pyval) pydict option \<Rightarrow> (string, pyval) pydict" where
  "elevation_profile_params line sample_count interval srid mosaic_rule extra =
     with_extra ([(''line'', PStr line)] @ optional_param ''sampleCount'' sample_count @ optional_param ''interval'' interval @
       optional_param ''srid'' srid @ optional_param ''mosaicRule'' mosaic_rule) extra"

section \<open>Facts about parsing\<close>

lemma dedupe_endpoints_distinct:
  "distinct (map (\<lambda>e. (se_kind e, se_url e)) (dedupe_endpoints seen es)) \<and>
   (\<lambda>e. (se_kind e, se_url e)) ` set (dedupe_endpoints seen es) = (\<lambda>e. (se_kind e, se_url e)) ` set es - seen"
  by (induction es arbitrary: seen) auto

lemma ensure_capabilities_iff:
  "ensure_capabilities available (Some required) = Inr () \<longleftrightarrow> (\<forall>r \<in> set required. r \<noteq> [] \<longrightarrow> str_lower r \<in> str_lower ` set available)"
  by (auto simp: ensure_capabilities_def missing_capabilities_def filter_empty_conv)

end
