(* ===== verification/Scene_Packages.thy ===== *)
theory Scene_Packages
  imports Scenes Wkb
begin

text \<open>
  The offline scene packages of \<open>protocols/scenes.py\<close>: the manifest, its parsing and its validation.
  Message texts of issues are not kept. A manifest given as text is parsed by the caller's JSON
  parser; \<open>parse_scene_package_manifest\<close> starts from the document.
\<close>

section \<open>The manifest\<close>

record package_lod =
  pl_min_zoom :: "int option"
  pl_max_zoom :: "int option"
  pl_max_error :: "pyfloat option"

record package_budget =
  pb_max_bytes :: "int option"
  pb_declared_bytes :: "int option"

record package_asset =
  pa_key :: "string option"
  pa_type :: "string option"
  pa_role :: "string option"
  pa_path :: "string option"
  pa_content_type :: "string option"
  pa_bytes :: "int option"
  pa_sha256 :: "string option"
  pa_etag :: "string option"
  pa_required :: bool

record package_manifest =
  pm_schema_version :: "string option"
  pm_package_id :: "string option"
  pm_scene_id :: "string option"
  pm_display_name :: "string option"
  pm_edition_gate :: "string option"
  pm_server_revision :: "string option"
  pm_created_at :: "py_datetime option"
  pm_stale_after :: "py_datetime option"
  pm_offline_expires :: "py_datetime option"
  pm_auth_expires :: "py_datetime option"
  pm_extent :: "scene_bounds option"
  pm_lod :: "package_lod option"
  pm_budget :: "package_budget option"
  pm_attribution :: "string list"
  pm_assets :: "package_asset list"
  pm_raw :: "(string, pyval) pydict"

definition current_package_schema_version :: string where
  "current_package_schema_version = ''honua.scene-package.v1''"

definition supported_asset_types :: "string set" where
  "supported_asset_types = {''scene-metadata'', ''3d-tileset'', ''3d-tile-content'', ''terrain-tile'', ''texture'', ''elevation-profile'', ''license-attribution''}"

definition supported_edition_gates :: "string set" where
  "supported_edition_gates = {''community'', ''pro'', ''enterprise''}"

definition supported_in :: "string set \<Rightarrow> string option \<Rightarrow> bool" where
  "supported_in names v = (case v of None \<Rightarrow> False | Some s \<Rightarrow> str_lower s \<in> names)"

definition parse_package_bounds :: "pyval \<Rightarrow> py_error + scene_bounds option" where
  "parse_package_bounds root' = (let extent = get_value root' [''extent''] in
     if is_mapping extent then parse_bounds (PDict [(''bounds'', extent)]) else Inr None)"

definition parse_package_lod :: "pyval \<Rightarrow> py_error + package_lod option" where
  "parse_package_lod root' = (let lod = get_value root' [''lod''] in if \<not> is_mapping lod then Inr None
     else bindE (get_float lod [''maxGeometricErrorMeters'']) (\<lambda>e.
       Inr (Some \<lparr>pl_min_zoom = get_int lod [''minZoom''], pl_max_zoom = get_int lod [''maxZoom''], pl_max_error = e\<rparr>)))"

definition parse_package_budget :: "pyval \<Rightarrow> package_budget option" where
  "parse_package_budget root' = (let budget = get_value root' [''byteBudget''] in if \<not> is_mapping budget then None
     else Some \<lparr>pb_max_bytes = get_int budget [''maxPackageBytes''], pb_declared_bytes = get_int budget [''declaredBytes'']\<rparr>)"

definition parse_package_asset :: "pyval \<Rightarrow> package_asset" where
  "parse_package_asset asset = \<lparr>pa_key = get_str asset [''key''], pa_type = get_str asset [''type''], pa_role = get_str asset [''role''],
     pa_path = get_str asset [''path''], pa_content_type = get_str asset [''contentType''], pa_bytes = get_int asset [''bytes''],
     pa_sha256 = get_str asset [''sha256''], pa_etag = get_str asset [''etag'', ''eTag''], pa_required = (get_bool asset [''required''] = Some True)\<rparr>"

definition parse_scene_package_manifest :: "(string \<Rightarrow> py_datetime option) \<Rightarrow> pyval \<Rightarrow> scene_error + package_manifest" where
  "parse_scene_package_manifest iso' document = (case document of
     PDict d \<Rightarrow> scene_py (
       bindE (parse_package_lod document) (\<lambda>lod.
       bindE (parse_package_bounds document) (\<lambda>extent.
       Inr \<lparr>pm_schema_version = get_str document [''schemaVersion''], pm_package_id = get_str document [''packageId''],
         pm_scene_id = get_str document [''sceneId''], pm_display_name = get_str document [''displayName''],
         pm_edition_gate = get_str document [''editionGate''], pm_server_revision = get_str document [''serverRevision''],
         pm_created_at = parse_datetime iso' document [''createdAtUtc''], pm_stale_after = parse_datetime iso' document [''staleAfterUtc''],
         pm_offline_expires = parse_datetime iso' document [''offlineUseExpiresAtUtc''], pm_auth_expires = parse_datetime iso' document [''authExpiresAtUtc''],
         pm_extent = extent, pm_lod = lod, pm_budget = parse_package_budget document, pm_attribution = parse_attribution document,
         pm_assets = (case as_seq (get_value document [''assets'']) of None \<Rightarrow> [] | Some xs \<Rightarrow> map parse_package_asset (filter is_mapping xs)),
         pm_raw = d\<rparr>)))
   | _ \<Rightarrow> Inl PackageError)"

section \<open>Validation\<close>

datatype package_state = Ready | Stale | Expired | Partial | Invalid

datatype package_severity = SeverityWarning | SeverityError

record package_issue =
  pi_code :: string
  pi_severity :: package_severity
  pi_asset_key :: "string option"

definition package_error :: "string \<Rightarrow> package_issue" where
  "package_error code = \<lparr>pi_code = code, pi_severity = SeverityError, pi_asset_key = None\<rparr>"

definition package_warning :: "string \<Rightarrow> package_issue" where
  "package_warning code = \<lparr>pi_code = code, pi_severity = SeverityWarning, pi_asset_key = None\<rparr>"

definition asset_error :: "string \<Rightarrow> string option \<Rightarrow> package_issue" where
  "asset_error code key = \<lparr>pi_code = code, pi_severity = SeverityError, pi_asset_key = key\<rparr>"

definition issue_when :: "bool \<Rightarrow> package_issue \<Rightarrow> package_issue list" where
  "issue_when b i = (if b then [i] else [])"

record package_result =
  pr_state :: package_state
  pr_issues :: "package_issue list"

definition is_valid :: "package_result \<Rightarrow> bool" where
  "is_valid r \<longleftrightarrow> \<not> list_ex (\<lambda>i. pi_severity i = SeverityError) (pr_issues r)"

definition has_warnings :: "package_result \<Rightarrow> bool" where
  "has_warnings r \<longleftrightarrow> list_ex (\<lambda>i. pi_severity i = SeverityWarning) (pr_issues r)"

definition not_blank :: "string option \<Rightarrow> bool" where
  "not_blank v = (case v of None \<Rightarrow> False | Some s \<Rightarrow> str_strip s \<noteq> [])"

definition hex64 :: "string \<Rightarrow> bool" where
  "hex64 s \<longleftrightarrow> length s = 64 \<and> list_all (\<lambda>c. hex_value c \<noteq> None) s"

definition is_valid_sha256 :: "string option \<Rightarrow> bool" where
  "is_valid_sha256 v = (case v of None \<Rightarrow> False
     | Some s \<Rightarrow> (let value = str_strip s in value \<noteq> [] \<and>
         (hex64 value \<or> (case b64decode_strict value of None \<Rightarrow> False | Some bs \<Rightarrow> length bs = 32))))"

definition is_safe_relative_path :: "string option \<Rightarrow> bool" where
  "is_safe_relative_path v = (case v of None \<Rightarrow> False
     | Some p \<Rightarrow> str_strip p \<noteq> [] \<and> backslash \<notin> set p \<and> \<not> str_startswith p ''/'' \<and> \<not> str_contains ''://'' p \<and>
         list_all (\<lambda>s. s \<noteq> ''.'' \<and> s \<noteq> ''..'') (filter (\<lambda>s. s \<noteq> []) (str_split_char (CHR ''/'') p)))"

text \<open>Each check gives whether it failed and the issues it found.\<close>

definition validate_identity :: "package_manifest \<Rightarrow> bool \<times> package_issue list" where
  "validate_identity m = (let issues =
       issue_when (pm_schema_version m \<noteq> Some current_package_schema_version) (package_error ''unsupported-schema-version'') @
       issue_when (\<not> not_blank (pm_package_id m)) (package_error ''missing-package-id'') @
       issue_when (\<not> not_blank (pm_scene_id m)) (package_error ''missing-scene-id'') @
       issue_when (\<not> not_blank (pm_server_revision m)) (package_error ''missing-server-revision'') @
       issue_when (\<not> supported_in supported_edition_gates (pm_edition_gate m)) (package_error ''unsupported-edition-gate'')
     in (issues \<noteq> [], issues))"

definition validate_dates :: "package_manifest \<Rightarrow> py_datetime \<Rightarrow> py_error + (bool \<times> bool \<times> bool) \<times> package_issue list" where
  "validate_dates m utc_now =
     (let absent = issue_when (pm_created_at m = None) (package_error ''missing-created-at'') @
          issue_when (pm_stale_after m = None) (package_error ''missing-stale-after'') @
          issue_when (pm_offline_expires m = None) (package_error ''missing-offline-use-expiry'')
      in bindE (case (pm_stale_after m, pm_offline_expires m) of
            (Some s, Some e) \<Rightarrow> bindE (dt_ge e s) (\<lambda>ordered. Inr (\<not> ordered)) | _ \<Rightarrow> Inr False) (\<lambda>disordered.
         bindE (is_past utc_now (pm_offline_expires m)) (\<lambda>expired.
         bindE (if expired then Inr False else is_past utc_now (pm_stale_after m)) (\<lambda>stale.
         bindE (is_past utc_now (pm_auth_expires m)) (\<lambda>auth_expired.
         Inr ((absent \<noteq> [] \<or> disordered, expired, stale),
              absent @ issue_when disordered (package_error ''invalid-expiry-order'') @ issue_when expired (package_error ''offline-use-expired'') @
              issue_when stale (package_warning ''stale'') @ issue_when auth_expired (package_warning ''auth-expired'')))))))"

definition within_degrees :: "rat \<Rightarrow> pyfloat \<Rightarrow> bool" where
  "within_degrees limit v \<longleftrightarrow> fl_le (FFinite (- limit)) v \<and> fl_le v (FFinite limit)"

definition extent_ok :: "scene_bounds \<Rightarrow> bool" where
  "extent_ok e \<longleftrightarrow> within_degrees 180 (sb_min_longitude e) \<and> within_degrees 180 (sb_max_longitude e) \<and>
     within_degrees 90 (sb_min_latitude e) \<and> within_degrees 90 (sb_max_latitude e) \<and>
     \<not> fl_less (sb_max_longitude e) (sb_min_longitude e) \<and> \<not> fl_less (sb_max_latitude e) (sb_min_latitude e) \<and>
     (case (sb_min_height e, sb_max_height e) of (Some lo, Some hi) \<Rightarrow> \<not> fl_less hi lo | _ \<Rightarrow> True)"

definition validate_extent :: "scene_bounds option \<Rightarrow> bool \<times> package_issue list" where
  "validate_extent extent = (let bad = (case extent of None \<Rightarrow> True | Some e \<Rightarrow> \<not> extent_ok e) in (bad, issue_when bad (package_error ''invalid-extent'')))"

definition lod_ok :: "package_lod \<Rightarrow> bool" where
  "lod_ok l = (case (pl_min_zoom l, pl_max_zoom l) of
     (Some lo, Some hi) \<Rightarrow> 0 \<le> lo \<and> 0 \<le> hi \<and> lo \<le> hi \<and> (case pl_max_error l of None \<Rightarrow> True | Some e \<Rightarrow> \<not> fl_less e (FFinite 0))
   | _ \<Rightarrow> False)"

definition validate_lod :: "package_lod option \<Rightarrow> bool \<times> package_issue list" where
  "validate_lod lod = (let bad = (case lod of None \<Rightarrow> True | Some l \<Rightarrow> \<not> lod_ok l) in (bad, issue_when bad (package_error ''invalid-lod'')))"

text \<open>The sum of the asset sizes, \<open>None\<close> as soon as it passes the budget.\<close>

fun budget_total :: "int \<Rightarrow> int \<Rightarrow> package_asset list \<Rightarrow> int option" where
  "budget_total limit total' [] = Some total'"
| "budget_total limit total' (a # as) = (case pa_bytes a of
     None \<Rightarrow> budget_total limit total' as
   | Some b \<Rightarrow> if b \<le> 0 then budget_total limit total' as
       else if limit < b \<or> limit - b < total' then None else budget_total limit (total' + b) as)"

definition validate_byte_budget :: "package_manifest \<Rightarrow> bool \<times> package_issue list" where
  "validate_byte_budget m = (let invalid = (True, [package_error ''invalid-byte-budget'']) in
     case pm_budget m of None \<Rightarrow> invalid
     | Some b \<Rightarrow> (case (pb_max_bytes b, pb_declared_bytes b) of
          (Some limit, Some declared) \<Rightarrow>
            if limit \<le> 0 \<or> declared \<le> 0 then invalid
            else (let over = limit < declared \<or> (case budget_total limit 0 (pm_assets m) of None \<Rightarrow> True | Some t \<Rightarrow> limit < t)
              in (over, issue_when over (package_error ''over-byte-budget'')))
        | _ \<Rightarrow> invalid))"

definition validate_single_asset :: "package_asset \<Rightarrow> string set \<Rightarrow> (bool \<times> package_issue list) \<times> string set" where
  "validate_single_asset a seen =
     (let (key_issues, seen') = (case pa_key a of
            Some k \<Rightarrow> if str_strip k = [] then ([asset_error ''missing-required-asset'' (Some k)], seen)
              else if str_lower k \<in> seen then ([asset_error ''duplicate-asset-key'' (Some k)], seen) else ([], insert (str_lower k) seen)
          | None \<Rightarrow> ([asset_error ''missing-required-asset'' None], seen));
          issues = key_issues @
            issue_when (\<not> supported_in supported_asset_types (pa_type a)) (asset_error ''unsupported-asset-type'' (pa_key a)) @
            issue_when (\<not> is_safe_relative_path (pa_path a)) (asset_error ''invalid-asset-path'' (pa_key a)) @
            issue_when (case pa_bytes a of None \<Rightarrow> True | Some b \<Rightarrow> b \<le> 0) (asset_error ''invalid-asset-bytes'' (pa_key a)) @
            issue_when (\<not> is_valid_sha256 (pa_sha256 a)) (asset_error ''invalid-asset-hash'' (pa_key a))
      in ((issues \<noteq> [], issues), seen'))"

definition is_scene_metadata :: "package_asset \<Rightarrow> bool" where
  "is_scene_metadata a \<longleftrightarrow> pa_required a \<and> supported_in {''scene-metadata''} (pa_type a)"

definition missing_locally :: "string set option \<Rightarrow> package_asset \<Rightarrow> bool" where
  "missing_locally available a \<longleftrightarrow> pa_required a \<and>
     (case (available, pa_key a) of (Some keys, Some k) \<Rightarrow> str_strip k \<noteq> [] \<and> str_lower k \<notin> keys | _ \<Rightarrow> False)"

fun validate_each :: "string set option \<Rightarrow> string set \<Rightarrow> package_asset list \<Rightarrow> (bool \<times> bool) \<times> package_issue list" where
  "validate_each available seen [] = ((False, False), [])"
| "validate_each available seen (a # as) =
     (let ((bad, issues), seen') = validate_single_asset a seen; absent = missing_locally available a;
          ((bad', absent'), issues') = validate_each available seen' as
      in ((bad \<or> bad', absent \<or> absent'), issues @ issue_when absent (asset_error ''missing-required-asset'' (pa_key a)) @ issues'))"

definition validate_assets :: "package_manifest \<Rightarrow> string set option \<Rightarrow> (bool \<times> bool) \<times> package_issue list" where
  "validate_assets m available = (if pm_assets m = [] then ((True, False), [package_error ''missing-assets''])
     else (let ((bad, absent), issues) = validate_each available {} (pm_assets m); no_metadata = \<not> list_ex is_scene_metadata (pm_assets m)
       in ((bad \<or> no_metadata, absent), issues @ issue_when no_metadata (package_error ''missing-required-scene-metadata''))))"

definition validate_scene_package_manifest :: "package_manifest \<Rightarrow> py_datetime \<Rightarrow> string list option \<Rightarrow> py_error + package_result" where
  "validate_scene_package_manifest m utc_now available_keys =
     (let available = map_option (\<lambda>ks. set (map str_lower (filter (\<lambda>k. str_strip k \<noteq> []) ks))) available_keys;
          (i1, s1) = validate_identity m; (i3, s3) = validate_extent (pm_extent m); (i4, s4) = validate_lod (pm_lod m);
          (i5, s5) = validate_byte_budget m; ((i6, partial), s6) = validate_assets m available
      in bindE (validate_dates m utc_now) (\<lambda>((i2, expired, stale), s2).
         Inr \<lparr>pr_state = (if i1 \<or> i2 \<or> i3 \<or> i4 \<or> i5 \<or> i6 then Invalid else if partial then Partial else if expired then Expired else if stale then Stale else Ready),
           pr_issues = s1 @ s2 @ s3 @ s4 @ s5 @ s6\<rparr>))"

lemma str_strip_solid: "list_all (\<lambda>c. \<not> char_is_space c) s \<Longrightarrow> str_strip s = s"
proof -
  have d: "list_all (\<lambda>c. \<not> char_is_space c) s \<Longrightarrow> str_lstrip s = s" for s by (cases s) (auto simp: str_lstrip_def)
  assume "list_all (\<lambda>c. \<not> char_is_space c) s"
  then show "str_strip s = s" unfolding str_strip_def using d [of s] d [of "rev s"] by (simp add: list_all_rev)
qed

section \<open>What a valid manifest is\<close>

definition good_asset :: "package_asset \<Rightarrow> bool" where
  "good_asset a \<longleftrightarrow> not_blank (pa_key a) \<and> supported_in supported_asset_types (pa_type a) \<and> is_safe_relative_path (pa_path a) \<and>
     (\<exists>b. pa_bytes a = Some b \<and> 0 < b) \<and> is_valid_sha256 (pa_sha256 a)"

definition asset_size :: "package_asset \<Rightarrow> int" where
  "asset_size a = (case pa_bytes a of None \<Rightarrow> 0 | Some b \<Rightarrow> max 0 b)"

definition good_budget :: "package_manifest \<Rightarrow> bool" where
  "good_budget m \<longleftrightarrow> (\<exists>limit declared. pm_budget m = Some \<lparr>pb_max_bytes = Some limit, pb_declared_bytes = Some declared\<rparr> \<and>
     0 < declared \<and> declared \<le> limit \<and> sum_list (map asset_size (pm_assets m)) \<le> limit)"

definition good_manifest :: "package_manifest \<Rightarrow> bool" where
  "good_manifest m \<longleftrightarrow> pm_schema_version m = Some current_package_schema_version \<and>
     not_blank (pm_package_id m) \<and> not_blank (pm_scene_id m) \<and> not_blank (pm_server_revision m) \<and>
     supported_in supported_edition_gates (pm_edition_gate m) \<and>
     pm_created_at m \<noteq> None \<and> (\<exists>s e. pm_stale_after m = Some s \<and> pm_offline_expires m = Some e \<and> datetime_instant s \<le> datetime_instant e) \<and>
     (\<exists>e. pm_extent m = Some e \<and> extent_ok e) \<and> (\<exists>l. pm_lod m = Some l \<and> lod_ok l) \<and> good_budget m \<and>
     (\<forall>a \<in> set (pm_assets m). good_asset a) \<and> distinct (map (\<lambda>a. map_option str_lower (pa_key a)) (pm_assets m)) \<and>
     (\<exists>a \<in> set (pm_assets m). is_scene_metadata a)"

text \<open>The keys of the assets an installation lacks, and whether a date has passed.\<close>

definition lacks_required :: "package_manifest \<Rightarrow> string list option \<Rightarrow> bool" where
  "lacks_required m keys \<longleftrightarrow> (\<exists>ks. keys = Some ks \<and> (\<exists>a \<in> set (pm_assets m). pa_required a \<and>
     (\<exists>k. pa_key a = Some k \<and> str_strip k \<noteq> [] \<and> str_lower k \<notin> str_lower ` {x \<in> set ks. str_strip x \<noteq> []})))"

definition passed :: "py_datetime option \<Rightarrow> py_datetime \<Rightarrow> bool" where
  "passed d utc_now \<longleftrightarrow> (\<exists>t. d = Some t \<and> datetime_instant t \<le> datetime_instant utc_now)"

lemma budget_total_sum:
  "0 \<le> t \<Longrightarrow> t \<le> limit \<Longrightarrow> budget_total limit t as = (if t + sum_list (map asset_size as) \<le> limit then Some (t + sum_list (map asset_size as)) else None)"
proof (induction as arbitrary: t)
  case (Cons a as)
  have nonneg: "0 \<le> sum_list (map asset_size as)" by (intro sum_list_nonneg) (auto simp: asset_size_def split: option.splits)
  show ?case
  proof (cases "pa_bytes a")
    case (Some b)
    then have size: "asset_size a = (if b \<le> 0 then 0 else b)" by (simp add: asset_size_def)
    show ?thesis using Cons nonneg Some by (cases "b \<le> 0") (auto simp: size)
  next
    case None
    then have "asset_size a = 0" by (simp add: asset_size_def)
    then show ?thesis using Cons None by simp
  qed
qed simp

lemma issue_when_Nil [simp]: "issue_when b i = [] \<longleftrightarrow> \<not> b" "list_ex P (issue_when b i) \<longleftrightarrow> b \<and> P i"
  by (simp_all add: issue_when_def)

lemma validate_byte_budget_iff: "fst (validate_byte_budget m) \<longleftrightarrow> \<not> good_budget m"
proof (cases "pm_budget m")
  case (Some b)
  then show ?thesis using budget_total_sum [of 0 _ "pm_assets m"]
    by (cases b; cases "pb_max_bytes b"; cases "pb_declared_bytes b") (auto simp: validate_byte_budget_def good_budget_def Let_def split: if_splits)
qed (simp add: validate_byte_budget_def good_budget_def Let_def)

lemma validate_single_iff:
  "validate_single_asset a seen = ((bad, issues), seen') \<Longrightarrow>
   (\<not> bad \<longleftrightarrow> good_asset a \<and> (\<forall>k. pa_key a = Some k \<longrightarrow> str_lower k \<notin> seen)) \<and>
   (\<not> bad \<longrightarrow> seen' = insert (str_lower (the (pa_key a))) seen) \<and> (bad \<longleftrightarrow> list_ex (\<lambda>i. pi_severity i = SeverityError) issues)"
  by (auto simp: validate_single_asset_def good_asset_def not_blank_def Let_def asset_error_def split: option.splits if_splits prod.splits)

definition asset_name :: "package_asset \<Rightarrow> string option" where
  "asset_name a = map_option str_lower (pa_key a)"

lemma good_asset_name: "good_asset a \<Longrightarrow> asset_name a = Some (str_lower (the (pa_key a)))"
  by (cases "pa_key a") (auto simp: good_asset_def not_blank_def asset_name_def)

lemma validate_each_iff:
  "validate_each available seen as = ((bad, absent), issues) \<Longrightarrow>
   (\<not> bad \<longleftrightarrow> (\<forall>a \<in> set as. good_asset a \<and> asset_name a \<notin> Some ` seen) \<and> distinct (map asset_name as)) \<and>
   (absent \<longleftrightarrow> (\<exists>a \<in> set as. missing_locally available a)) \<and> (list_ex (\<lambda>i. pi_severity i = SeverityError) issues \<longleftrightarrow> bad \<or> absent)"
proof (induction as arbitrary: seen bad absent issues)
  case (Cons a as)
  obtain b1 i1 s1 where v: "validate_single_asset a seen = ((b1, i1), s1)" by (metis surj_pair)
  obtain b2 m2 i2 where r: "validate_each available s1 as = ((b2, m2), i2)" by (metis surj_pair)
  have res: "bad = (b1 \<or> b2)" "absent = (missing_locally available a \<or> m2)"
    "issues = i1 @ issue_when (missing_locally available a) (asset_error ''missing-required-asset'' (pa_key a)) @ i2"
    using Cons.prems by (auto simp: v r Let_def)
  note single = validate_single_iff [OF v] and rest = Cons.IH [OF r]
  have named: "(\<forall>k. pa_key a = Some k \<longrightarrow> str_lower k \<notin> seen) \<longleftrightarrow> asset_name a \<notin> Some ` seen" if "good_asset a"
    using that by (cases "pa_key a") (auto simp: asset_name_def)
  have bad: "\<not> bad \<longleftrightarrow> (\<forall>x \<in> set (a # as). good_asset x \<and> asset_name x \<notin> Some ` seen) \<and> distinct (map asset_name (a # as))"
  proof (cases b1)
    case True
    then show ?thesis using single named res(1) by auto
  next
    case False
    then have a: "good_asset a" "asset_name a \<notin> Some ` seen" "s1 = insert (str_lower (the (pa_key a))) seen" using single named by auto
    have "Some ` s1 = insert (asset_name a) (Some ` seen)" using a(1,3) by (simp add: good_asset_name)
    with rest have "\<not> b2 \<longleftrightarrow> (\<forall>x \<in> set as. good_asset x \<and> asset_name x \<notin> insert (asset_name a) (Some ` seen)) \<and> distinct (map asset_name as)"
      by (metis (no_types, lifting))
    moreover have "bad = b2" using False res(1) by simp
    ultimately show ?thesis using a(1,2)
      by (simp only: list.simps ball_simps distinct.simps set_map simp_thms insert_iff image_iff) metis
  qed
  show ?case using bad single rest by (auto simp: res asset_error_def)
qed simp

lemma missing_locally_lacks:
  "(\<exists>a \<in> set (pm_assets m). missing_locally (map_option (\<lambda>ks. set (map str_lower (filter (\<lambda>k. str_strip k \<noteq> []) ks))) keys) a) \<longleftrightarrow> lacks_required m keys"
  by (cases keys) (auto simp: missing_locally_def lacks_required_def split: option.splits)

definition aware_date :: "py_datetime option \<Rightarrow> bool" where
  "aware_date d \<longleftrightarrow> (\<forall>t. d = Some t \<longrightarrow> dt_offset t \<noteq> None)"

definition aware_dates :: "package_manifest \<Rightarrow> bool" where
  "aware_dates m \<longleftrightarrow> aware_date (pm_stale_after m) \<and> aware_date (pm_offline_expires m) \<and> aware_date (pm_auth_expires m)"

lemma is_past_aware: "aware_date d \<Longrightarrow> dt_offset utc_now \<noteq> None \<Longrightarrow> is_past utc_now d = Inr (passed d utc_now)"
  by (cases d) (auto simp: is_past_def passed_def aware_date_def dt_ge_def)

lemma validate_dates_aware:
  assumes "aware_dates m" "dt_offset utc_now \<noteq> None"
  shows "\<exists>bad issues. validate_dates m utc_now = Inr ((bad, passed (pm_offline_expires m) utc_now, \<not> passed (pm_offline_expires m) utc_now \<and> passed (pm_stale_after m) utc_now), issues) \<and>
    (\<not> bad \<longleftrightarrow> pm_created_at m \<noteq> None \<and> (\<exists>s e. pm_stale_after m = Some s \<and> pm_offline_expires m = Some e \<and> datetime_instant s \<le> datetime_instant e)) \<and>
    (list_ex (\<lambda>i. pi_severity i = SeverityError) issues \<longleftrightarrow> bad \<or> passed (pm_offline_expires m) utc_now)"
proof -
  note past = assms(1) [unfolded aware_dates_def] is_past_aware [OF _ assms(2)]
  have order: "dt_ge e s = Inr (datetime_instant s \<le> datetime_instant e)" if "pm_stale_after m = Some s" "pm_offline_expires m = Some e" for s e
    using past that by (auto simp: dt_ge_def aware_date_def)
  show ?thesis
    using past order by (cases "pm_stale_after m"; cases "pm_offline_expires m")
      (auto simp: validate_dates_def Let_def bindE_def package_error_def package_warning_def)
qed

abbreviation some_error :: "package_issue list \<Rightarrow> bool" where
  "some_error \<equiv> list_ex (\<lambda>i. pi_severity i = SeverityError)"

lemma validate_flags:
  "fst (validate_identity m) = some_error (snd (validate_identity m))"
  "fst (validate_extent (pm_extent m)) = some_error (snd (validate_extent (pm_extent m)))"
  "fst (validate_lod (pm_lod m)) = some_error (snd (validate_lod (pm_lod m)))"
  "fst (validate_byte_budget m) = some_error (snd (validate_byte_budget m))"
proof -
  show "fst (validate_identity m) = some_error (snd (validate_identity m))"
    by (simp add: validate_identity_def Let_def package_error_def)
  show "fst (validate_extent (pm_extent m)) = some_error (snd (validate_extent (pm_extent m)))"
    by (simp add: validate_extent_def Let_def package_error_def)
  show "fst (validate_lod (pm_lod m)) = some_error (snd (validate_lod (pm_lod m)))"
    by (simp add: validate_lod_def Let_def package_error_def)
  show "fst (validate_byte_budget m) = some_error (snd (validate_byte_budget m))"
    by (simp add: validate_byte_budget_def Let_def package_error_def split: option.split)
qed

lemma validate_assets_iff:
  assumes "validate_assets m available = ((bad, absent), issues)"
  shows "\<not> bad \<longleftrightarrow> (\<forall>a \<in> set (pm_assets m). good_asset a) \<and> distinct (map asset_name (pm_assets m)) \<and> (\<exists>a \<in> set (pm_assets m). is_scene_metadata a)"
    and "absent \<longleftrightarrow> (\<exists>a \<in> set (pm_assets m). missing_locally available a)" and "some_error issues \<longleftrightarrow> bad \<or> absent"
proof -
  obtain b p i where e: "validate_each available {} (pm_assets m) = ((b, p), i)" by (metis surj_pair)
  note f = validate_each_iff [OF e]
  have m: "list_ex is_scene_metadata (pm_assets m) \<longleftrightarrow> (\<exists>a \<in> set (pm_assets m). is_scene_metadata a)" by (simp add: list_ex_iff)
  have "pm_assets m \<noteq> [] \<Longrightarrow> bad = (b \<or> \<not> list_ex is_scene_metadata (pm_assets m)) \<and> absent = p \<and>
      issues = i @ issue_when (\<not> list_ex is_scene_metadata (pm_assets m)) (package_error ''missing-required-scene-metadata'')"
    using assms by (simp add: validate_assets_def e Let_def)
  moreover have "pm_assets m = [] \<Longrightarrow> bad \<and> \<not> absent \<and> issues = [package_error ''missing-assets'']"
    using assms by (simp add: validate_assets_def)
  ultimately show "\<not> bad \<longleftrightarrow> (\<forall>a \<in> set (pm_assets m). good_asset a) \<and> distinct (map asset_name (pm_assets m)) \<and> (\<exists>a \<in> set (pm_assets m). is_scene_metadata a)"
    "absent \<longleftrightarrow> (\<exists>a \<in> set (pm_assets m). missing_locally available a)" "some_error issues \<longleftrightarrow> bad \<or> absent"
    using f m by (cases "pm_assets m = []"; simp add: package_error_def; blast)+
qed

lemma validate_decides:
  assumes "aware_dates m" "dt_offset utc_now \<noteq> None"
  shows "\<exists>r. validate_scene_package_manifest m utc_now keys = Inr r \<and>
    pr_state r = (if \<not> good_manifest m then Invalid else if lacks_required m keys then Partial
      else if passed (pm_offline_expires m) utc_now then Expired else if passed (pm_stale_after m) utc_now then Stale else Ready) \<and>
    (is_valid r \<longleftrightarrow> pr_state r \<in> {Ready, Stale})"
proof -
  obtain i1 s1 where v1: "validate_identity m = (i1, s1)" by (metis surj_pair)
  obtain i3 s3 where v3: "validate_extent (pm_extent m) = (i3, s3)" by (metis surj_pair)
  obtain i4 s4 where v4: "validate_lod (pm_lod m) = (i4, s4)" by (metis surj_pair)
  obtain i5 s5 where v5: "validate_byte_budget m = (i5, s5)" by (metis surj_pair)
  let ?available = "map_option (\<lambda>ks. set (map str_lower (filter (\<lambda>k. str_strip k \<noteq> []) ks))) keys"
  obtain i6 p6 s6 where v6: "validate_assets m ?available = ((i6, p6), s6)" by (metis surj_pair)
  have one: "i1 = some_error s1" "i3 = some_error s3" "i4 = some_error s4" "i5 = some_error s5"
    using validate_flags [of m] by (simp_all add: v1 v3 v4 v5)
  have four: "\<not> i1 \<longleftrightarrow> pm_schema_version m = Some current_package_schema_version \<and> not_blank (pm_package_id m) \<and> not_blank (pm_scene_id m) \<and>
      not_blank (pm_server_revision m) \<and> supported_in supported_edition_gates (pm_edition_gate m)"
    "\<not> i3 \<longleftrightarrow> (\<exists>e. pm_extent m = Some e \<and> extent_ok e)" "\<not> i4 \<longleftrightarrow> (\<exists>l. pm_lod m = Some l \<and> lod_ok l)" "\<not> i5 \<longleftrightarrow> good_budget m"
    using v1 v3 v4 v5 validate_byte_budget_iff [of m]
    by (auto simp: validate_identity_def validate_extent_def validate_lod_def Let_def split: option.splits)
  have six: "\<not> i6 \<longleftrightarrow> (\<forall>a \<in> set (pm_assets m). good_asset a) \<and> distinct (map asset_name (pm_assets m)) \<and> (\<exists>a \<in> set (pm_assets m). is_scene_metadata a)"
    "p6 \<longleftrightarrow> lacks_required m keys" "some_error s6 \<longleftrightarrow> i6 \<or> p6"
    using validate_assets_iff [OF v6] unfolding missing_locally_lacks by blast+
  obtain i2 s2 where v2: "validate_dates m utc_now = Inr ((i2, passed (pm_offline_expires m) utc_now, \<not> passed (pm_offline_expires m) utc_now \<and> passed (pm_stale_after m) utc_now), s2)"
    and two: "\<not> i2 \<longleftrightarrow> pm_created_at m \<noteq> None \<and> (\<exists>s e. pm_stale_after m = Some s \<and> pm_offline_expires m = Some e \<and> datetime_instant s \<le> datetime_instant e)"
    "some_error s2 \<longleftrightarrow> i2 \<or> passed (pm_offline_expires m) utc_now"
    using validate_dates_aware [OF assms] by blast
  have good: "good_manifest m \<longleftrightarrow> \<not> (i1 \<or> i2 \<or> i3 \<or> i4 \<or> i5 \<or> i6)"
    using four six(1) two(1) unfolding good_manifest_def asset_name_def [abs_def, symmetric] by blast
  show ?thesis
    using v1 v2 v3 v4 v5 v6 one six(2,3) two(2) good
    by (auto simp: validate_scene_package_manifest_def Let_def is_valid_def split: if_splits)
qed

text \<open>C27. The validator decides what the manifest rules say: it returns for aware datetimes, and the state it
  gives is the one the rules define - invalid unless every rule holds (identity, dates in order, extent,
  zoom range, the asset sizes within the budget, every asset well-formed under a key of its own, a
  required scene-metadata asset), else partial, expired, stale or ready in this order - and the
  result counts as valid exactly when the package is ready or stale.\<close>

theorem package_state_decided:
  assumes "aware_dates m" "dt_offset utc_now \<noteq> None"
  shows "\<exists>r. validate_scene_package_manifest m utc_now keys = Inr r \<and>
    pr_state r = (if \<not> good_manifest m then Invalid else if lacks_required m keys then Partial
      else if passed (pm_offline_expires m) utc_now then Expired else if passed (pm_stale_after m) utc_now then Stale else Ready) \<and>
    (is_valid r \<longleftrightarrow> pr_state r \<in> {Ready, Stale})"
  by (rule validate_decides [OF assms])

section \<open>A package\<close>

text \<open>Midnight of a day of January 2026 in UTC, and a package with one asset of twelve bytes.\<close>

definition january :: "rat \<Rightarrow> py_datetime" where
  "january d = \<lparr>dt_clock = 1767225600 + (d - 1) * 86400, dt_offset = Some 0\<rparr>"

definition sample_asset :: package_asset where
  "sample_asset = \<lparr>pa_key = Some ''scene-metadata'', pa_type = Some ''scene-metadata'', pa_role = None, pa_path = Some ''meta/scene.json'',
     pa_content_type = None, pa_bytes = Some 12, pa_sha256 = Some (replicate 64 (CHR ''a'')), pa_etag = None, pa_required = True\<rparr>"

definition sample_manifest :: package_manifest where
  "sample_manifest = \<lparr>pm_schema_version = Some ''honua.scene-package.v1'', pm_package_id = Some ''p'', pm_scene_id = Some ''s'', pm_display_name = None,
     pm_edition_gate = Some ''Pro'', pm_server_revision = Some ''r1'', pm_created_at = Some (january 1), pm_stale_after = Some (january 10),
     pm_offline_expires = Some (january 20), pm_auth_expires = None,
     pm_extent = Some \<lparr>sb_min_longitude = FFinite (- 10), sb_min_latitude = FFinite 0, sb_max_longitude = FFinite 10, sb_max_latitude = FFinite 5,
       sb_min_height = None, sb_max_height = None\<rparr>,
     pm_lod = Some \<lparr>pl_min_zoom = Some 0, pl_max_zoom = Some 3, pl_max_error = None\<rparr>,
     pm_budget = Some \<lparr>pb_max_bytes = Some 100, pb_declared_bytes = Some 12\<rparr>, pm_attribution = [], pm_assets = [sample_asset], pm_raw = []\<rparr>"

lemma sample_hex: "hex_value (CHR ''a'') \<noteq> None \<and> \<not> char_is_space (CHR ''a'')"
  by code_simp

lemma sample_good: "good_manifest sample_manifest"
proof -
  have "str_lower ''Pro'' = ''pro''" "str_lower ''scene-metadata'' = ''scene-metadata''" by code_simp+
  moreover have "is_safe_relative_path (Some ''meta/scene.json'')" by code_simp
  moreover have "is_valid_sha256 (Some (replicate 64 (CHR ''a'')))"
    by (simp add: is_valid_sha256_def hex64_def list_all_iff str_strip_solid sample_hex del: not_None_eq)
  moreover have "str_strip ''p'' \<noteq> []" "str_strip ''s'' \<noteq> []" "str_strip ''r1'' \<noteq> []" "str_strip ''scene-metadata'' \<noteq> []" by code_simp+
  moreover have "extent_ok (the (pm_extent sample_manifest))" "lod_ok (the (pm_lod sample_manifest))" by code_simp+
  ultimately show ?thesis
    by (simp add: good_manifest_def sample_manifest_def sample_asset_def current_package_schema_version_def not_blank_def supported_in_def
      supported_edition_gates_def supported_asset_types_def good_asset_def good_budget_def asset_size_def is_scene_metadata_def january_def datetime_instant_def)
qed

lemma package_state_decided_witness:
  "(\<exists>r. validate_scene_package_manifest sample_manifest (january 12) (Some [''SCENE-METADATA'']) = Inr r \<and> pr_state r = Stale \<and> is_valid r) \<and>
   (\<exists>r. validate_scene_package_manifest sample_manifest (january 2) (Some [''other'']) = Inr r \<and> pr_state r = Partial \<and> \<not> is_valid r)"
proof -
  have aware: "aware_dates sample_manifest" "dt_offset (january d) \<noteq> None" for d
    by (simp_all add: aware_dates_def aware_date_def sample_manifest_def january_def)
  have low: "str_lower ''SCENE-METADATA'' = ''scene-metadata''" "str_lower ''scene-metadata'' = ''scene-metadata''" "str_lower ''other'' = ''other''"
    "str_strip ''SCENE-METADATA'' \<noteq> []" "str_strip ''scene-metadata'' \<noteq> []" "str_strip ''other'' \<noteq> []" by code_simp+
  have "\<not> lacks_required sample_manifest (Some [''SCENE-METADATA''])" "lacks_required sample_manifest (Some [''other''])"
    using low by (auto simp: lacks_required_def sample_manifest_def sample_asset_def image_iff)
  moreover have "\<not> passed (pm_offline_expires sample_manifest) (january 12)" "passed (pm_stale_after sample_manifest) (january 12)"
    by (simp_all add: passed_def sample_manifest_def january_def datetime_instant_def)
  ultimately show ?thesis
    using package_state_decided [OF aware(1) aware(2), of 12 "Some [''SCENE-METADATA'']"]
      package_state_decided [OF aware(1) aware(2), of 2 "Some [''other'']"] sample_good by auto
qed

text \<open>The place of a relative path below a directory, and what it cannot be.\<close>

definition resolve_path :: "string list \<Rightarrow> string \<Rightarrow> string list" where
  "resolve_path dir p = foldl (\<lambda>here s. if s = [] \<or> s = ''.'' then here else if s = ''..'' then butlast here else here @ [s]) dir (str_split_char (CHR ''/'') p)"

lemma resolve_safe:
  "list_all (\<lambda>s. s \<noteq> ''.'' \<and> s \<noteq> ''..'') (filter (\<lambda>s. s \<noteq> []) ss) \<Longrightarrow>
   foldl (\<lambda>here s. if s = [] \<or> s = ''.'' then here else if s = ''..'' then butlast here else here @ [s]) dir ss = dir @ filter (\<lambda>s. s \<noteq> []) ss"
  by (induction ss arbitrary: dir) auto

lemma split_lead_in: "str_split_char c s = w # ws \<Longrightarrow> (\<exists>x \<in> set (str_split_char c s). x \<noteq> []) \<longleftrightarrow> (\<exists>x \<in> set s. x \<noteq> c)"
proof (induction s arbitrary: w ws)
  case (Cons a s)
  obtain v vs where v: "str_split_char c s = v # vs" by (cases "str_split_char c s") (cases s; auto split: if_splits list.splits)+
  show ?case using Cons.IH [OF v] v by auto
qed auto

lemma safe_path_inside:
  assumes "is_safe_relative_path (Some p)"
  shows "\<exists>segments. segments \<noteq> [] \<and> [] \<notin> set segments \<and> ''..'' \<notin> set segments \<and> resolve_path dir p = dir @ segments"
proof -
  have p: "\<not> str_startswith p ''/''" "str_strip p \<noteq> []" and segs: "list_all (\<lambda>s. s \<noteq> ''.'' \<and> s \<noteq> ''..'') (filter (\<lambda>s. s \<noteq> []) (str_split_char (CHR ''/'') p))"
    using assms by (simp_all add: is_safe_relative_path_def)
  obtain c cs where c: "p = c # cs" using p(2) by (cases p) (auto simp: str_strip_def str_lstrip_def)
  have "c \<noteq> CHR ''/''" using p(1) c by (auto simp: str_startswith_def)
  moreover obtain w ws where w: "str_split_char (CHR ''/'') p = w # ws" by (cases "str_split_char (CHR ''/'') p") (auto simp: c split: if_splits list.splits)
  ultimately have "\<exists>x \<in> set (str_split_char (CHR ''/'') p). x \<noteq> []" using split_lead_in [OF w] c by auto
  then have "filter (\<lambda>s. s \<noteq> []) (str_split_char (CHR ''/'') p) \<noteq> []" by (auto simp: filter_empty_conv)
  moreover have "[] \<notin> set (filter (\<lambda>s. s \<noteq> []) (str_split_char (CHR ''/'') p))" by simp
  moreover have "''..'' \<notin> set (filter (\<lambda>s. s \<noteq> []) (str_split_char (CHR ''/'') p))" using segs by (auto simp: list_all_iff)
  ultimately show ?thesis using resolve_safe [OF segs, of dir] unfolding resolve_path_def by blast
qed



end
