(* ===== verification/Geoprocessing.thy ===== *)
theory Geoprocessing
  imports Core_Client Wkb Polling
begin

text \<open>
  \<open>geoprocessing.py\<close> and the output selectors of \<open>raster.py\<close>: the geoprocessing client over OGC
  API Processes. Inputs are references to layers and rasters; an execution gives a job, which is
  polled to a terminal status and whose results document is read by the kind of its output.

  \<open>process_env\<close> holds what lies outside: the JSON parser, the check of a bracketed host, the
  monotonic clock, sleeping and a fresh UUID. As polling may not end, calls that wait are options,
  \<open>None\<close> where they never return. The conversions of a raster or a feature collection to the
  objects of optional packages are left as the bytes and the collection they are given.
\<close>

datatype process_error = ClientRaised client_error | SdkError | JobFailed string | TimedOut | PythonRaised py_error

record 'w process_env =
  pe_loads :: "8 word list \<Rightarrow> pyval option"
  pe_ip_ok :: "string \<Rightarrow> bool"
  pe_now :: "'w \<Rightarrow> pyfloat"
  pe_sleep :: "pyfloat \<Rightarrow> 'w \<Rightarrow> py_error option \<times> 'w"
  pe_hex :: "'w \<Rightarrow> string \<times> 'w"

definition python :: "py_error + 'a \<Rightarrow> process_error + 'a" where
  "python m = (case m of Inl e \<Rightarrow> Inl (PythonRaised e) | Inr x \<Rightarrow> Inr x)"

definition from_client :: "(client_error + 'a) \<times> 'w \<Rightarrow> (process_error + 'a) \<times> 'w" where
  "from_client res = (case res of (Inl e, w) \<Rightarrow> (Inl (ClientRaised e), w) | (Inr x, w) \<Rightarrow> (Inr x, w))"

section \<open>References and inputs\<close>

record layer_reference =
  lr_kind :: string
  lr_geojson :: "(string, pyval) pydict option"
  lr_query_result_id :: "string option"
  lr_where :: "string option"

definition from_geojson :: "(string, pyval) pydict \<Rightarrow> layer_reference" where
  "from_geojson collection = \<lparr>lr_kind = ''inlineGeoJson'', lr_geojson = Some collection, lr_query_result_id = None, lr_where = None\<rparr>"

definition from_query_result :: "pyval \<Rightarrow> string option \<Rightarrow> layer_reference" where
  "from_query_result query_result_id whr = \<lparr>lr_kind = ''queryResult'', lr_geojson = None, lr_query_result_id = Some (py_str query_result_id), lr_where = whr\<rparr>"

definition layer_to_inputs :: "layer_reference \<Rightarrow> py_error + (string, pyval) pydict" where
  "layer_to_inputs r =
     bindE (if lr_kind r = ''inlineGeoJson''
       then (case lr_geojson r of None \<Rightarrow> Inl ErrValue
         | Some d \<Rightarrow> bindE (json_dumps (PDict d)) (\<lambda>t. Inr [(''inputGeoJson'', PStr t)]))
       else if lr_kind r = ''queryResult''
       then (case lr_query_result_id r of Some (c # cs) \<Rightarrow> Inr [(''queryResultId'', PStr (c # cs))] | _ \<Rightarrow> Inl ErrValue)
       else Inl ErrValue) (\<lambda>inputs.
     Inr (case lr_where r of Some (c # cs) \<Rightarrow> dict_set inputs ''where'' (PStr (c # cs)) | _ \<Rightarrow> inputs))"

record raster_reference =
  rr_kind :: string
  rr_source_base64 :: "string option"
  rr_layer_id :: "string option"
  rr_raster_id :: "string option"

text \<open>The constructor with its \<open>__post_init__\<close>.\<close>

definition make_raster_reference :: "string \<Rightarrow> string option \<Rightarrow> string option \<Rightarrow> string option \<Rightarrow> py_error + raster_reference" where
  "make_raster_reference kind source layer_id raster_id =
     (if length (filter (\<lambda>v. v \<noteq> None) [source, layer_id, raster_id]) \<noteq> 1 then Inl ErrValue
      else Inr \<lparr>rr_kind = kind, rr_source_base64 = source, rr_layer_id = layer_id, rr_raster_id = raster_id\<rparr>)"

definition from_geotiff_bytes :: "pyval \<Rightarrow> py_error + raster_reference" where
  "from_geotiff_bytes v = (case v of PBytes bs \<Rightarrow> make_raster_reference ''source'' (Some (b64encode bs)) None None | _ \<Rightarrow> Inl ErrType)"

definition from_layer_id :: "pyval \<Rightarrow> py_error + raster_reference" where
  "from_layer_id v = make_raster_reference ''layerId'' None (Some (py_str v)) None"

definition from_raster_id :: "pyval \<Rightarrow> py_error + raster_reference" where
  "from_raster_id v = make_raster_reference ''rasterId'' None None (Some (py_str v))"

definition carrier :: "string \<Rightarrow> string option \<Rightarrow> py_error + (string, pyval) pydict" where
  "carrier key v = (case v of Some (c # cs) \<Rightarrow> Inr [(key, PStr (c # cs))] | _ \<Rightarrow> Inl ErrValue)"

definition raster_to_inputs :: "raster_reference \<Rightarrow> py_error + (string, pyval) pydict" where
  "raster_to_inputs r =
     (if rr_kind r = ''source'' then carrier ''source'' (rr_source_base64 r)
      else if rr_kind r = ''layerId'' then carrier ''layerId'' (rr_layer_id r)
      else if rr_kind r = ''rasterId'' then carrier ''rasterId'' (rr_raster_id r)
      else Inl ErrValue)"

definition stringify :: "pyval \<Rightarrow> string" where
  "stringify v = (case v of PBool b \<Rightarrow> if b then ''true'' else ''false'' | _ \<Rightarrow> py_str v)"

definition put_parameters :: "(string, pyval) pydict \<Rightarrow> (string, pyval) pydict option \<Rightarrow> (string, pyval) pydict" where
  "put_parameters inputs parameters = (case parameters of None \<Rightarrow> inputs
     | Some ps \<Rightarrow> put_all dict_set inputs (map (\<lambda>(k, v). (k, PStr (stringify v))) ps))"

definition layer_inputs :: "layer_reference \<Rightarrow> (string, pyval) pydict option \<Rightarrow> py_error + (string, pyval) pydict" where
  "layer_inputs reference parameters = bindE (layer_to_inputs reference) (\<lambda>inputs. Inr (put_parameters inputs parameters))"

definition plan_inputs :: "(string, pyval) pydict \<Rightarrow> (string, pyval) pydict" where
  "plan_inputs plan = [(''plan'', PDict plan)]"

text \<open>\<open>str.encode("utf-8")\<close>, for characters below 256.\<close>

definition utf8_bytes :: "string \<Rightarrow> 8 word list" where
  "utf8_bytes s = concat (map (\<lambda>c. let n = (of_char c :: nat) in
     if n < 128 then [word_of_nat n] else [word_of_nat (192 + n div 64), word_of_nat (128 + n mod 64)]) s)"

definition zone_inputs :: "layer_reference \<Rightarrow> py_error + (string, pyval) pydict" where
  "zone_inputs zones = (if lr_kind zones \<noteq> ''inlineGeoJson'' then Inl ErrValue
     else (case lr_geojson zones of None \<Rightarrow> Inl ErrValue
       | Some d \<Rightarrow> bindE (json_dumps (PDict d)) (\<lambda>t. Inr [(''zones'', PStr (b64encode (utf8_bytes t)))])))"

definition raster_process_inputs ::
  "raster_reference \<Rightarrow> layer_reference option \<Rightarrow> (string, pyval) pydict option \<Rightarrow> py_error + (string, pyval) pydict" where
  "raster_process_inputs raster zones parameters =
     bindE (raster_to_inputs raster) (\<lambda>inputs.
     bindE (case zones of None \<Rightarrow> Inr inputs | Some z \<Rightarrow> bindE (zone_inputs z) (\<lambda>zs. Inr (dict_update inputs zs))) (\<lambda>inputs.
     Inr (put_parameters inputs parameters)))"

definition raster_plan :: "string \<Rightarrow> (string, pyval) pydict \<Rightarrow> string \<Rightarrow> (string, pyval) pydict" where
  "raster_plan process_id inputs plan_id =
     [(''planId'', PStr plan_id),
      (''steps'', PList [PDict [(''stepId'', PStr ''s1''), (''kind'', PStr ''geoprocess''), (''processId'', PStr process_id), (''inputs'', PDict inputs)]])]"

definition default_plan_id :: "'w process_env \<Rightarrow> string \<Rightarrow> 'w \<Rightarrow> string \<times> 'w" where
  "default_plan_id env process_id w = (case pe_hex env w of (h, w1) \<Rightarrow> (''raster-'' @ process_id @ ''-'' @ take 12 h, w1))"

section \<open>Payloads\<close>

definition is_data_uri :: "string \<Rightarrow> bool" where
  "is_data_uri s = str_startswith s ''data:''"

definition data_uri_bytes :: "string \<Rightarrow> process_error + 8 word list option" where
  "data_uri_bytes uri = (if \<not> is_data_uri uri then Inr None
     else (case split_off (CHR '','') uri of (header, data) \<Rightarrow>
       if str_contains '';base64'' header
       then (case b64decode_strict data of None \<Rightarrow> Inl SdkError | Some bs \<Rightarrow> Inr (Some bs))
       else Inr (Some (utf8_bytes (url_unquote data)))))"

definition looks_json :: "string \<Rightarrow> bool" where
  "looks_json s \<longleftrightarrow> take 1 (str_strip s) \<in> {''{'', ''[''}"

definition output_json_bytes :: "(string, pyval) pydict \<Rightarrow> process_error + 8 word list option" where
  "output_json_bytes member = (case get_or_none member ''value'' of
     PStr v \<Rightarrow> bindE (data_uri_bytes v) (\<lambda>decoded.
       if decoded \<noteq> None then Inr decoded else if looks_json v then Inr (Some (utf8_bytes v)) else Inr None)
   | _ \<Rightarrow> (case get_or_none member ''href'' of PStr (c # cs) \<Rightarrow> data_uri_bytes (c # cs) | _ \<Rightarrow> Inr None))"

section \<open>Output members\<close>

definition looks_output_member :: "pyval \<Rightarrow> bool" where
  "looks_output_member v = (case v of PDict d \<Rightarrow> dict_has d ''kind'' | _ \<Rightarrow> False)"

definition member_candidates :: "pyval \<Rightarrow> (string, pyval) pydict list" where
  "member_candidates v = (case v of PDict m \<Rightarrow> List.map_filter as_dict (filter looks_output_member [PDict m, get_or_none m ''value'']) | _ \<Rightarrow> [])"

definition output_members :: "(string, pyval) pydict \<Rightarrow> (string, pyval) pydict list" where
  "output_members results = (if looks_output_member (PDict results) then [results] else []) @ concat (map (\<lambda>(_, v). member_candidates v) results)"

definition primary_output_member :: "(string, pyval) pydict \<Rightarrow> (string, pyval) pydict option" where
  "primary_output_member results = (case output_members results of [] \<Rightarrow> None | m # _ \<Rightarrow> Some m)"

definition carries_payload :: "pyval \<Rightarrow> bool" where
  "carries_payload v = (case v of PDict d \<Rightarrow> dict_has d ''value'' \<or> dict_has d ''href'' | _ \<Rightarrow> False)"

definition sniff_output_member :: "(string, pyval) pydict \<Rightarrow> (string, pyval) pydict option" where
  "sniff_output_member results = (if carries_payload (PDict results) then Some results
     else (case List.map_filter as_dict (filter carries_payload (map snd results)) of [] \<Rightarrow> None | m # _ \<Rightarrow> Some m))"

definition results_kind :: "(string, pyval) pydict \<Rightarrow> string option" where
  "results_kind results = (case primary_output_member results of None \<Rightarrow> None | Some m \<Rightarrow> as_str (get_or_none m ''kind''))"

definition is_feature_collection :: "pyval \<Rightarrow> bool" where
  "is_feature_collection v = (case v of
     PDict d \<Rightarrow> get_or_none d ''type'' = PStr ''FeatureCollection'' \<and> (case get_or_none d ''features'' of PList _ \<Rightarrow> True | _ \<Rightarrow> False)
   | _ \<Rightarrow> False)"

text \<open>The values a selector looks at, in order: the document, then each member and what it wraps.\<close>

definition wrapped_value :: "pyval \<Rightarrow> pyval" where
  "wrapped_value v = (case v of PDict m \<Rightarrow> get_or_none m ''value'' | _ \<Rightarrow> PNone)"

definition document_values :: "(string, pyval) pydict \<Rightarrow> pyval list" where
  "document_values results = PDict results # concat (map (\<lambda>(_, v). [v, wrapped_value v]) results)"

definition first_mapping :: "(pyval \<Rightarrow> bool) \<Rightarrow> pyval list \<Rightarrow> process_error + (string, pyval) pydict" where
  "first_mapping p vs = (case List.map_filter as_dict (filter p vs) of [] \<Rightarrow> Inl SdkError | d # _ \<Rightarrow> Inr d)"

definition feature_collection_from_results :: "(string, pyval) pydict \<Rightarrow> process_error + (string, pyval) pydict" where
  "feature_collection_from_results results = first_mapping is_feature_collection (document_values results)"

definition loads :: "'w process_env \<Rightarrow> 8 word list \<Rightarrow> process_error + pyval" where
  "loads env bs = (case pe_loads env bs of None \<Rightarrow> Inl (PythonRaised ErrValue) | Some v \<Rightarrow> Inr v)"

definition feature_collection_from_output :: "'w process_env \<Rightarrow> (string, pyval) pydict \<Rightarrow> process_error + (string, pyval) pydict option" where
  "feature_collection_from_output env results =
     bindE (case primary_output_member results of None \<Rightarrow> Inr None
       | Some m \<Rightarrow> bindE (output_json_bytes m) (\<lambda>data. case data of None \<Rightarrow> Inr None
           | Some bs \<Rightarrow> bindE (loads env bs) (\<lambda>v. Inr (if is_feature_collection v then as_dict v else None)))) (\<lambda>found.
     Inr (case found of Some d \<Rightarrow> Some d
       | None \<Rightarrow> (case feature_collection_from_results results of Inl _ \<Rightarrow> None | Inr d \<Rightarrow> Some d)))"

section \<open>Raster outputs\<close>

definition looks_raster_media :: "pyval \<Rightarrow> bool" where
  "looks_raster_media v = (case v of PStr s \<Rightarrow> list_ex (\<lambda>hint. str_contains hint (str_lower s)) [''tiff'', ''geotiff'', ''cog''] | _ \<Rightarrow> False)"

definition looks_raster_href :: "pyval \<Rightarrow> bool" where
  "looks_raster_href v = (case v of
     PStr s \<Rightarrow> (let path = str_lower (fst (split_off (CHR ''#'') (fst (split_off (CHR ''?'') s)))) in str_endswith path ''.tif'' \<or> str_endswith path ''.tiff'')
   | _ \<Rightarrow> False)"

definition is_raster_member :: "pyval \<Rightarrow> bool" where
  "is_raster_member v = (case v of
     PDict d \<Rightarrow> (let media = py_or (get_or_none d ''mediaType'') (get_or_none d ''type''); href = get_or_none d ''href'' in
       (is_str href \<and> (looks_raster_media media \<or> looks_raster_href href)) \<or> (is_str (get_or_none d ''value'') \<and> looks_raster_media media))
   | _ \<Rightarrow> False)"

definition find_raster_output :: "(string, pyval) pydict \<Rightarrow> process_error + (string, pyval) pydict" where
  "find_raster_output results = first_mapping is_raster_member (document_values results)"

text \<open>A \<open>data:\<close> value without a comma raises \<open>IndexError\<close>.\<close>

definition inline_raster_bytes :: "(string, pyval) pydict \<Rightarrow> process_error + 8 word list option" where
  "inline_raster_bytes member = (case get_or_none member ''value'' of
     PStr v \<Rightarrow> bindE (if is_data_uri v then (case str_split1 (CHR '','') v of [_, data] \<Rightarrow> Inr data | _ \<Rightarrow> Inl (PythonRaised ErrIndex)) else Inr v)
       (\<lambda>payload. case b64decode_strict payload of None \<Rightarrow> Inl SdkError | Some bs \<Rightarrow> Inr (Some bs))
   | _ \<Rightarrow> Inr None)"

definition raster_href :: "(string, pyval) pydict \<Rightarrow> string option" where
  "raster_href member = as_str (get_or_none member ''href'')"

section \<open>Result links\<close>

definition href_path_and_params :: "('h, 'w) http_lib \<Rightarrow> honua_client \<Rightarrow> 'v process_env \<Rightarrow> string \<Rightarrow> process_error + string \<times> (string, pyval) pydict" where
  "href_path_and_params lib c env href = bindE (python (urlsplit (pe_ip_ok env) href)) (\<lambda>u.
     let params = put_all dict_set [] (map (\<lambda>(k, v). (k, PStr v)) (parse_qsl (up_query u))) in
     if up_netloc u \<noteq> [] \<and> up_scheme u = [] then Inl SdkError
     else if up_scheme u \<noteq> [] \<or> up_netloc u \<noteq> []
     then (case ensure_same_origin_continuation (hl_url lib href) (cl_base_url c) of
         Inl _ \<Rightarrow> Inl SdkError | Inr _ \<Rightarrow> Inr (if up_path u = [] then ''/'' else up_path u, params))
     else Inr (if up_path u = [] then href else up_path u, params))"

text \<open>\<open>self.client._request("GET", path, params=params).content\<close>\<close>

definition fetch_href ::
  "('h, 'w) http_lib \<Rightarrow> honua_client \<Rightarrow> 'w process_env \<Rightarrow> string \<Rightarrow> 'w \<Rightarrow> (process_error + 8 word list) \<times> 'w" where
  "fetch_href lib c env href w = (case href_path_and_params lib c env href of
     Inl e \<Rightarrow> (Inl e, w)
   | Inr (path, params) \<Rightarrow> (case from_client (client_request lib c (prepared ''GET'' path (Some params)) None no_options w) of
        (r, w1) \<Rightarrow> (bindE r (\<lambda>(_, content). Inr content), w1)))"

definition result_raster_bytes ::
  "('h, 'w) http_lib \<Rightarrow> honua_client \<Rightarrow> 'w process_env \<Rightarrow> (string, pyval) pydict \<Rightarrow> 'w \<Rightarrow> (process_error + 8 word list) \<times> 'w" where
  "result_raster_bytes lib c env results w =
     (case bindE (find_raster_output results) (\<lambda>m. bindE (inline_raster_bytes m) (\<lambda>inline. Inr (m, inline))) of
        Inl e \<Rightarrow> (Inl e, w)
      | Inr (m, Some bs) \<Rightarrow> (Inr bs, w)
      | Inr (m, None) \<Rightarrow> (case raster_href m of
           Some (h # hs) \<Rightarrow> (case data_uri_bytes (h # hs) of
               Inl e \<Rightarrow> (Inl e, w)
             | Inr (Some bs) \<Rightarrow> (Inr bs, w)
             | Inr None \<Rightarrow> fetch_href lib c env (h # hs) w)
         | _ \<Rightarrow> (Inl SdkError, w)))"

text \<open>A fetchable link: a non-empty \<open>href\<close> that is no \<open>data:\<close> URI.\<close>

definition fetchable_href :: "(string, pyval) pydict \<Rightarrow> string option" where
  "fetchable_href member = (case get_or_none member ''href'' of
     PStr (h # hs) \<Rightarrow> if is_data_uri (h # hs) then None else Some (h # hs) | _ \<Rightarrow> None)"

definition json_member :: "(string, pyval) pydict \<Rightarrow> (string, pyval) pydict" where
  "json_member results = (case primary_output_member results of Some (x # xs) \<Rightarrow> x # xs
     | _ \<Rightarrow> (case sniff_output_member results of Some (x # xs) \<Rightarrow> x # xs | _ \<Rightarrow> results))"

definition result_json_value ::
  "('h, 'w) http_lib \<Rightarrow> honua_client \<Rightarrow> 'w process_env \<Rightarrow> (string, pyval) pydict \<Rightarrow> 'w \<Rightarrow> (process_error + pyval) \<times> 'w" where
  "result_json_value lib c env results w =
     (let m = json_member results in case output_json_bytes m of
        Inl e \<Rightarrow> (Inl e, w)
      | Inr (Some bs) \<Rightarrow> (loads env bs, w)
      | Inr None \<Rightarrow> (case fetchable_href m of
          Some href \<Rightarrow> (case fetch_href lib c env href w of (r, w1) \<Rightarrow> (bindE r (loads env), w1))
        | None \<Rightarrow> ((case get_or_none m ''value'' of PDict d \<Rightarrow> Inr (PDict d) | PList xs \<Rightarrow> Inr (PList xs) | _ \<Rightarrow> Inl SdkError), w)))"

definition result_feature_collection ::
  "('h, 'w) http_lib \<Rightarrow> honua_client \<Rightarrow> 'w process_env \<Rightarrow> (string, pyval) pydict \<Rightarrow> 'w \<Rightarrow> (process_error + (string, pyval) pydict) \<times> 'w" where
  "result_feature_collection lib c env results w = (case feature_collection_from_output env results of
     Inl e \<Rightarrow> (Inl e, w)
   | Inr (Some d) \<Rightarrow> (Inr d, w)
   | Inr None \<Rightarrow> (case (case primary_output_member results of None \<Rightarrow> None | Some m \<Rightarrow> fetchable_href m) of
        None \<Rightarrow> (Inl SdkError, w)
      | Some href \<Rightarrow> (case fetch_href lib c env href w of
          (r, w1) \<Rightarrow> (bindE r (\<lambda>bs. bindE (loads env bs) (\<lambda>v. first_mapping is_feature_collection [v])), w1))))"

datatype consumed = RasterData "8 word list" | FeatureData "(string, pyval) pydict" | JsonData pyval

definition consume_result ::
  "('h, 'w) http_lib \<Rightarrow> honua_client \<Rightarrow> 'w process_env \<Rightarrow> (string, pyval) pydict \<Rightarrow> 'w \<Rightarrow> (process_error + consumed) \<times> 'w" where
  "consume_result lib c env results w =
     (let raster = (\<lambda>w. case result_raster_bytes lib c env results w of (r, w1) \<Rightarrow> (bindE r (\<lambda>b. Inr (RasterData b)), w1));
          features = (\<lambda>w. case result_feature_collection lib c env results w of (r, w1) \<Rightarrow> (bindE r (\<lambda>d. Inr (FeatureData d)), w1));
          json = (\<lambda>w. case result_json_value lib c env results w of (r, w1) \<Rightarrow> (bindE r (\<lambda>v. Inr (JsonData v)), w1))
      in case results_kind results of
        Some k \<Rightarrow> if k = ''Raster'' then raster w else if k = ''FeatureLayer'' then features w
          else if k = ''Table'' \<or> k = ''Scalar'' then json w else (Inl SdkError, w)
      | None \<Rightarrow> (case find_raster_output results of
          Inr _ \<Rightarrow> raster w
        | Inl _ \<Rightarrow> (case feature_collection_from_output env results of
            Inl e \<Rightarrow> (Inl e, w) | Inr (Some _) \<Rightarrow> features w | Inr None \<Rightarrow> json w)))"

section \<open>Jobs\<close>

record geoprocessing_job =
  gj_job_id :: string
  gj_status :: string
  gj_process_id :: pyval
  gj_message :: pyval
  gj_progress :: pyval
  gj_created :: pyval
  gj_updated :: pyval
  gj_links :: "(string, pyval) pydict list"
  gj_raw :: "(string, pyval) pydict"
  gj_inline_results :: "(string, pyval) pydict option"

definition text_or_empty :: "pyval \<Rightarrow> string" where
  "text_or_empty v = (if truthy v then py_str v else [])"

definition job_from_status_info :: "(string, pyval) pydict \<Rightarrow> geoprocessing_job" where
  "job_from_status_info payload =
     \<lparr>gj_job_id = text_or_empty (py_or (get_or_none payload ''jobID'') (get_or_none payload ''jobId'')),
      gj_status = text_or_empty (get_or_none payload ''status''),
      gj_process_id = py_or (get_or_none payload ''processID'') (get_or_none payload ''processId''),
      gj_message = get_or_none payload ''message'',
      gj_progress = (case get_or_none payload ''progress'' of PInt i \<Rightarrow> PInt i | PBool b \<Rightarrow> PBool b | _ \<Rightarrow> PNone),
      gj_created = get_or_none payload ''created'', gj_updated = get_or_none payload ''updated'',
      gj_links = dicts_of (get_or_none payload ''links''), gj_raw = payload, gj_inline_results = None\<rparr>"

definition terminal_job_statuses :: "string list" where
  "terminal_job_statuses = [''successful'', ''failed'', ''dismissed'']"

definition is_terminal :: "geoprocessing_job \<Rightarrow> bool" where
  "is_terminal j \<longleftrightarrow> gj_status j \<in> set terminal_job_statuses"

definition succeeded :: "geoprocessing_job \<Rightarrow> bool" where
  "succeeded j \<longleftrightarrow> gj_status j = ''successful''"

definition execute_payload :: "(string, pyval) pydict \<Rightarrow> string option \<Rightarrow> (string, pyval) pydict" where
  "execute_payload inputs response_mode = (''inputs'', PDict inputs) # (case response_mode of None \<Rightarrow> [] | Some m \<Rightarrow> [(''response'', PStr m)])"

definition job_id_from_location :: "(string \<Rightarrow> bool) \<Rightarrow> string option \<Rightarrow> py_error + string option" where
  "job_id_from_location ip_ok location = (case location of
     Some (c # cs) \<Rightarrow> bindE (urlsplit ip_ok (c # cs)) (\<lambda>u.
       let path = str_rstrip_chars {CHR ''/''} (up_path u); segment = last (str_split_char (CHR ''/'') path) in
       Inr (if path = [] \<or> url_unquote segment = [] then None else Some (url_unquote segment)))
   | _ \<Rightarrow> Inr None)"

definition has_outputs :: "(string, pyval) pydict \<Rightarrow> bool" where
  "has_outputs body \<longleftrightarrow> body \<noteq> [] \<and> list_all (\<lambda>(_, m). is_feature_collection m \<or> carries_payload m) body"

definition job_from_response :: "(string \<Rightarrow> bool) \<Rightarrow> http_response \<Rightarrow> process_error + geoprocessing_job" where
  "job_from_response ip_ok r =
     (case (if has_content r then body_json r else Some (PDict [])) of
        None \<Rightarrow> Inl (PythonRaised ErrValue)
      | Some (PDict body) \<Rightarrow> bindE (python (job_id_from_location ip_ok (header_get r ''Location''))) (\<lambda>location_id.
          let located = (case location_id of None \<Rightarrow> [] | Some i \<Rightarrow> i) in
          if status_code r = 200 \<and> \<not> is_str (get_or_none body ''status'')
          then (if is_feature_collection (PDict body) \<or> has_outputs body
            then Inr ((job_from_status_info [])\<lparr>gj_job_id := located, gj_status := ''successful'', gj_raw := body, gj_inline_results := Some body\<rparr>)
            else Inl SdkError)
          else (let job = job_from_status_info body; job = (if gj_job_id job = [] \<and> located \<noteq> [] then job\<lparr>gj_job_id := located\<rparr> else job) in
            if gj_job_id job = [] then Inl SdkError else Inr job))
      | Some _ \<Rightarrow> Inl SdkError)"

section \<open>Calls\<close>

definition processes_root :: string where
  "processes_root = ''/ogc/processes''"

definition processes_path :: string where
  "processes_path = processes_root @ ''/processes''"

definition process_path :: "string \<Rightarrow> string" where
  "process_path process_id = processes_path @ ''/'' @ encode_path_segment process_id"

definition execution_path :: "string \<Rightarrow> string" where
  "execution_path process_id = process_path process_id @ ''/execution''"

definition job_path :: "string \<Rightarrow> string" where
  "job_path job_id = processes_root @ ''/jobs/'' @ encode_path_segment job_id"

definition job_results_path :: "string \<Rightarrow> string" where
  "job_results_path job_id = job_path job_id @ ''/results''"

definition get_json ::
  "('h, 'w) http_lib \<Rightarrow> honua_client \<Rightarrow> string \<Rightarrow> string \<Rightarrow> 'w \<Rightarrow> (process_error + (string, pyval) pydict) \<times> 'w" where
  "get_json lib c verb path w = from_client (client_request_json lib c (prepared verb path None) None no_options w)"

definition list_processes where "list_processes lib c = get_json lib c ''GET'' processes_path"
definition describe_process where "describe_process lib c process_id = get_json lib c ''GET'' (process_path process_id)"
definition list_jobs where "list_jobs lib c = get_json lib c ''GET'' (processes_root @ ''/jobs'')"

definition submit_raw ::
  "('h, 'w) http_lib \<Rightarrow> honua_client \<Rightarrow> 'w process_env \<Rightarrow> string \<Rightarrow> (string, pyval) pydict \<Rightarrow> bool \<Rightarrow> 'w \<Rightarrow> (process_error + geoprocessing_job) \<times> 'w" where
  "submit_raw lib c env process_id body respond_async w =
     (case from_client (client_request lib c \<lparr>pq_verb = ''POST'', pq_path = execution_path process_id, pq_params = None, pq_json = Some body,
            pq_headers = (if respond_async then Some [(''Prefer'', ''respond-async'')] else None)\<rparr> None no_options w) of
        (r, w1) \<Rightarrow> (bindE r (\<lambda>(resp, _). job_from_response (pe_ip_ok env) resp), w1))"

definition submit_inputs ::
  "('h, 'w) http_lib \<Rightarrow> honua_client \<Rightarrow> 'w process_env \<Rightarrow> string \<Rightarrow> (string, pyval) pydict \<Rightarrow> string option \<Rightarrow> bool \<Rightarrow> 'w \<Rightarrow>
   (process_error + geoprocessing_job) \<times> 'w" where
  "submit_inputs lib c env process_id inputs response_mode = submit_raw lib c env process_id (execute_payload inputs response_mode)"

definition submit_layer ::
  "('h, 'w) http_lib \<Rightarrow> honua_client \<Rightarrow> 'w process_env \<Rightarrow> string \<Rightarrow> layer_reference \<Rightarrow> (string, pyval) pydict option \<Rightarrow> bool \<Rightarrow> 'w \<Rightarrow>
   (process_error + geoprocessing_job) \<times> 'w" where
  "submit_layer lib c env process_id reference parameters respond_async w = (case layer_inputs reference parameters of
     Inl e \<Rightarrow> (Inl (PythonRaised e), w) | Inr inputs \<Rightarrow> submit_inputs lib c env process_id inputs (Some ''document'') respond_async w)"

definition canonical_process_id :: string where
  "canonical_process_id = ''honua-geoprocessing''"

definition submit_plan ::
  "('h, 'w) http_lib \<Rightarrow> honua_client \<Rightarrow> 'w process_env \<Rightarrow> (string, pyval) pydict \<Rightarrow> bool \<Rightarrow> 'w \<Rightarrow> (process_error + geoprocessing_job) \<times> 'w" where
  "submit_plan lib c env plan = submit_inputs lib c env canonical_process_id (plan_inputs plan) (Some ''document'')"

definition raster_process_plan ::
  "'w process_env \<Rightarrow> string \<Rightarrow> raster_reference \<Rightarrow> layer_reference option \<Rightarrow> (string, pyval) pydict option \<Rightarrow> string option \<Rightarrow> 'w \<Rightarrow>
   (process_error + (string, pyval) pydict) \<times> 'w" where
  "raster_process_plan env process_id raster zones parameters plan_id w = (case raster_process_inputs raster zones parameters of
     Inl e \<Rightarrow> (Inl (PythonRaised e), w)
   | Inr inputs \<Rightarrow> (case plan_id of
        Some (c # cs) \<Rightarrow> (Inr (raster_plan process_id inputs (c # cs)), w)
      | _ \<Rightarrow> (case default_plan_id env process_id w of (i, w1) \<Rightarrow> (Inr (raster_plan process_id inputs i), w1))))"

definition submit_raster_process ::
  "('h, 'w) http_lib \<Rightarrow> honua_client \<Rightarrow> 'w process_env \<Rightarrow> string \<Rightarrow> raster_reference \<Rightarrow> layer_reference option \<Rightarrow> (string, pyval) pydict option \<Rightarrow>
   string option \<Rightarrow> bool \<Rightarrow> 'w \<Rightarrow> (process_error + geoprocessing_job) \<times> 'w" where
  "submit_raster_process lib c env process_id raster zones parameters plan_id respond_async w =
     (case raster_process_plan env process_id raster zones parameters plan_id w of
        (Inl e, w1) \<Rightarrow> (Inl e, w1) | (Inr plan, w1) \<Rightarrow> submit_plan lib c env plan respond_async w1)"

definition get_job ::
  "('h, 'w) http_lib \<Rightarrow> honua_client \<Rightarrow> string \<Rightarrow> 'w \<Rightarrow> (process_error + geoprocessing_job) \<times> 'w" where
  "get_job lib c job_id w = (case get_json lib c ''GET'' (job_path job_id) w of (r, w1) \<Rightarrow> (bindE r (\<lambda>d. Inr (job_from_status_info d)), w1))"

definition results_of_id ::
  "('h, 'w) http_lib \<Rightarrow> honua_client \<Rightarrow> string \<Rightarrow> 'w \<Rightarrow> (process_error + (string, pyval) pydict) \<times> 'w" where
  "results_of_id lib c job_id w = (if job_id = [] then (Inl (PythonRaised ErrValue), w) else get_json lib c ''GET'' (job_results_path job_id) w)"

definition job_results ::
  "('h, 'w) http_lib \<Rightarrow> honua_client \<Rightarrow> geoprocessing_job \<Rightarrow> 'w \<Rightarrow> (process_error + (string, pyval) pydict) \<times> 'w" where
  "job_results lib c job w = (case gj_inline_results job of Some d \<Rightarrow> (Inr d, w) | None \<Rightarrow> results_of_id lib c (gj_job_id job) w)"

definition dismiss_job ::
  "('h, 'w) http_lib \<Rightarrow> honua_client \<Rightarrow> string \<Rightarrow> 'w \<Rightarrow> (process_error + (string, pyval) pydict) \<times> 'w" where
  "dismiss_job lib c job_id = get_json lib c ''DELETE'' (job_path job_id)"

definition safe_dismiss :: "('h, 'w) http_lib \<Rightarrow> honua_client \<Rightarrow> string \<Rightarrow> 'w \<Rightarrow> 'w" where
  "safe_dismiss lib c job_id w = (if job_id = [] then w else snd (dismiss_job lib c job_id w))"

section \<open>Waiting\<close>

definition max_poll_interval :: pyfloat where
  "max_poll_interval = FFinite 10"

text \<open>Python's \<open>min(a, b)\<close> and \<open>max(a, b)\<close>.\<close>

definition py_min :: "pyfloat \<Rightarrow> pyfloat \<Rightarrow> pyfloat" where
  "py_min a b = (if fl_less b a then b else a)"

definition py_max :: "pyfloat \<Rightarrow> pyfloat \<Rightarrow> pyfloat" where
  "py_max a b = (if fl_less a b then b else a)"

definition initial_poll_delay :: "pyfloat \<Rightarrow> pyfloat" where
  "initial_poll_delay poll_interval = py_min (py_max (FFinite 0) poll_interval) max_poll_interval"

definition next_poll_delay :: "pyfloat \<Rightarrow> pyfloat" where
  "next_poll_delay current = (if fl_le current (FFinite 0) then FFinite 0 else py_min (fl_mul current (FFinite 2)) max_poll_interval)"

record poll_state =
  ps_job :: geoprocessing_job
  ps_delay :: pyfloat

text \<open>One turn of the loop of \<open>wait\<close>: how it ends, or the job and the delay of the next turn.\<close>

definition wait_turn ::
  "('h, 'w) http_lib \<Rightarrow> honua_client \<Rightarrow> 'w process_env \<Rightarrow> pyfloat option \<Rightarrow> string \<Rightarrow> poll_state \<Rightarrow> 'w \<Rightarrow>
   (process_error + geoprocessing_job) option \<times> poll_state \<times> 'w" where
  "wait_turn lib c env deadline job_id s w =
     (if is_terminal (ps_job s) then (Some (Inr (ps_job s)), s, w)
      else (let remaining = map_option (\<lambda>d. fl_sub d (pe_now env w)) deadline in
        if (case remaining of None \<Rightarrow> False | Some r \<Rightarrow> fl_le r (FFinite 0)) then (Some (Inl TimedOut), s, safe_dismiss lib c job_id w)
        else (case pe_sleep env (case remaining of None \<Rightarrow> ps_delay s | Some r \<Rightarrow> py_min (ps_delay s) r) w of
            (Some e, w1) \<Rightarrow> (Some (Inl (PythonRaised e)), s, w1)
          | (None, w1) \<Rightarrow> (case get_job lib c job_id w1 of
               (Inl e, w2) \<Rightarrow> (Some (Inl e), s, w2)
             | (Inr job, w2) \<Rightarrow> (None, \<lparr>ps_job = job, ps_delay = next_poll_delay (ps_delay s)\<rparr>, w2)))))"

partial_function (option) wait_loop ::
  "('h, 'w) http_lib \<Rightarrow> honua_client \<Rightarrow> 'w process_env \<Rightarrow> pyfloat option \<Rightarrow> string \<Rightarrow> poll_state \<Rightarrow> 'w \<Rightarrow>
   ((process_error + geoprocessing_job) \<times> 'w) option" where
  [code]: "wait_loop lib c env deadline job_id s w = (case wait_turn lib c env deadline job_id s w of
     (Some res, _, w1) \<Rightarrow> Some (res, w1)
   | (None, s1, w1) \<Rightarrow> wait_loop lib c env deadline job_id s1 w1)"

definition wait_for_job ::
  "('h, 'w) http_lib \<Rightarrow> honua_client \<Rightarrow> 'w process_env \<Rightarrow> geoprocessing_job \<Rightarrow> pyfloat \<Rightarrow> pyfloat option \<Rightarrow> 'w \<Rightarrow>
   ((process_error + geoprocessing_job) \<times> 'w) option" where
  "wait_for_job lib c env job poll_interval timeout w =
     wait_loop lib c env (map_option (fl_add (pe_now env w)) timeout) (gj_job_id job) \<lparr>ps_job = job, ps_delay = initial_poll_delay poll_interval\<rparr> w"

definition wait_for_id ::
  "('h, 'w) http_lib \<Rightarrow> honua_client \<Rightarrow> 'w process_env \<Rightarrow> string \<Rightarrow> pyfloat \<Rightarrow> pyfloat option \<Rightarrow> 'w \<Rightarrow>
   ((process_error + geoprocessing_job) \<times> 'w) option" where
  "wait_for_id lib c env job_id poll_interval timeout w = (case get_job lib c job_id w of
     (Inl e, w1) \<Rightarrow> Some (Inl e, w1)
   | (Inr job, w1) \<Rightarrow> wait_loop lib c env (map_option (fl_add (pe_now env w1)) timeout) job_id \<lparr>ps_job = job, ps_delay = initial_poll_delay poll_interval\<rparr> w1)"

section \<open>Running to completion\<close>

text \<open>The common end of the \<open>execute\<close> calls: wait, raise for a job that did not succeed, fetch the results.\<close>

definition run_job ::
  "('h, 'w) http_lib \<Rightarrow> honua_client \<Rightarrow> 'w process_env \<Rightarrow> pyfloat \<Rightarrow> pyfloat option \<Rightarrow> bool \<Rightarrow> (process_error + geoprocessing_job) \<times> 'w \<Rightarrow>
   ((process_error + (string, pyval) pydict) \<times> 'w) option" where
  "run_job lib c env poll_interval timeout raise_on_failure submitted = (case submitted of
     (Inl e, w) \<Rightarrow> Some (Inl e, w)
   | (Inr job, w) \<Rightarrow> (case wait_for_job lib c env job poll_interval timeout w of
        None \<Rightarrow> None
      | Some (Inl e, w1) \<Rightarrow> Some (Inl e, w1)
      | Some (Inr terminal, w1) \<Rightarrow>
          if raise_on_failure \<and> \<not> succeeded terminal then Some (Inl (JobFailed (gj_job_id terminal)), w1)
          else Some (job_results lib c terminal w1)))"

definition execute_geometry where
  "execute_geometry lib c env process_id inputs poll_interval timeout raise_on_failure w =
     run_job lib c env poll_interval timeout raise_on_failure (submit_inputs lib c env process_id inputs (Some ''document'') True w)"

definition execute_layer where
  "execute_layer lib c env process_id reference parameters poll_interval timeout raise_on_failure w =
     run_job lib c env poll_interval timeout raise_on_failure (submit_layer lib c env process_id reference parameters True w)"

definition execute_plan where
  "execute_plan lib c env plan poll_interval timeout raise_on_failure w =
     run_job lib c env poll_interval timeout raise_on_failure (submit_plan lib c env plan True w)"

definition execute_raster_process where
  "execute_raster_process lib c env process_id raster zones parameters plan_id poll_interval timeout raise_on_failure w =
     run_job lib c env poll_interval timeout raise_on_failure (submit_raster_process lib c env process_id raster zones parameters plan_id True w)"

section \<open>Waiting ends\<close>

text \<open>The environment beside a log of sent requests.\<close>

definition logged_env :: "'w process_env \<Rightarrow> ('w \<times> 'h wire_request list) process_env" where
  "logged_env env = \<lparr>pe_loads = pe_loads env, pe_ip_ok = pe_ip_ok env, pe_now = (\<lambda>(w, sent). pe_now env w),
     pe_sleep = (\<lambda>d (w, sent). case pe_sleep env d w of (e, w1) \<Rightarrow> (e, w1, sent)),
     pe_hex = (\<lambda>(w, sent). case pe_hex env w of (h, w1) \<Rightarrow> (h, w1, sent))\<rparr>"

definition polls :: "'h wire_request list \<Rightarrow> nat" where
  "polls sent = length (filter (\<lambda>q. wr_verb q = ''GET'') sent)"

text \<open>The clock never goes back, and a request takes at least \<open>tick\<close>.\<close>

definition takes_time :: "('h, 'w) http_lib \<Rightarrow> 'w process_env \<Rightarrow> ('w \<Rightarrow> rat) \<Rightarrow> rat \<Rightarrow> bool" where
  "takes_time lib env clock tick \<longleftrightarrow> 0 < tick \<and> (\<forall>w. pe_now env w = FFinite (clock w)) \<and>
     (\<forall>d w. clock w \<le> clock (snd (pe_sleep env d w))) \<and> (\<forall>p w. clock w \<le> clock (snd (hl_provider lib p w))) \<and>
     (\<forall>s q w. clock w + tick \<le> clock (snd (hl_send lib s q w)))"

definition ended :: "process_error + geoprocessing_job \<Rightarrow> bool" where
  "ended res \<longleftrightarrow> (case res of Inl _ \<Rightarrow> True | Inr job \<Rightarrow> is_terminal job)"

lemma client_request_polls:
  "client_request (logged lib) c prep key opts (w, sent) = (r, w', sent') \<Longrightarrow> polls sent' \<le> polls sent + (if pq_verb prep = ''GET'' then 1 else 0)"
  by (auto simp: client_request_def logged_def [of lib] polls_def split: sum.splits prod.splits if_splits
      dest!: request_hook_log [unfolded logged_def])

lemma request_hook_clock:
  "request_hook (logged lib) s url h (w, sent) = (r, w', sent') \<Longrightarrow> takes_time lib env clock tick \<Longrightarrow> clock w \<le> clock w'"
  by (auto simp: request_hook_def logged_def Let_def takes_time_def split: http_session.splits option.splits prod.splits if_splits)
     (metis snd_conv)+

lemma client_request_clock:
  assumes "client_request (logged lib) c prep key opts (w, sent) = (r, w', sent')" "takes_time lib env clock tick"
  shows "clock w \<le> clock w' \<and> (r = Inr x \<longrightarrow> clock w + tick \<le> clock w')"
proof (cases "request_target (logged lib) c (pq_path prep)")
  case (Inr target)
  obtain url tg where t: "target = (url, tg)" by (cases target)
  obtain h w1 s1 where hook: "request_hook (logged lib) (cl_session c) url (hl_headers (logged lib) (merge_request_headers (pq_headers prep) (co_extra_headers opts) key)) (w, sent) = (h, w1, s1)"
    by (metis surj_pair)
  have a: "clock w \<le> clock w1" by (rule request_hook_clock [OF hook assms(2)])
  have b: "clock w1 + tick \<le> clock (snd (hl_send lib s q w1))" for s q using assms(2) by (simp add: takes_time_def)
  have p: "0 < tick" using assms(2) by (simp add: takes_time_def)
  show ?thesis
  proof (cases h)
    case (Inl e)
    then show ?thesis using assms(1) a Inr t hook by (auto simp: client_request_def)
  next
    case (Inr h')
    define q where "q = \<lparr>wr_verb = pq_verb prep, wr_url = url, wr_target = tg, wr_params = pq_params prep, wr_headers = h', wr_json = pq_json prep,
                 wr_timeout = (if co_timeout opts \<noteq> None then co_timeout opts else cl_options_timeout c), wr_max_retries = cl_options_max_retries c\<rparr>"
    obtain m w2 where snd2: "hl_send lib (cl_session c) q w1 = (m, w2)" by (metis surj_pair)
    have l: "hl_send (logged lib) (cl_session c) q (w1, s1) = (m, w2, s1 @ [q])" using snd2 by (simp add: logged_def)
    have "snd (client_request (logged lib) c prep key opts (w, sent)) = (w2, s1 @ [q])"
      unfolding client_request_def \<open>request_target _ _ _ = Inr target\<close> t sum.case prod.case hook Inr q_def [symmetric] l by (simp split: sum.split prod.split)
    then have "w' = w2" using assms(1) by simp
    then show ?thesis using a b [of "cl_session c" q] snd2 p by simp
  qed
qed (use assms in \<open>auto simp: client_request_def\<close>)


lemma get_job_log:
  assumes "get_job (logged lib) c j (w, sent) = (r, w', sent')"
  shows "polls sent' \<le> Suc (polls sent)"
  using assms by (auto simp: get_job_def get_json_def from_client_def client_request_json_def prepared_def
      split: prod.splits sum.splits dest!: client_request_polls)

lemma get_job_clock:
  assumes "get_job (logged lib) c j (w, sent) = (r, w', sent')" "takes_time lib env clock tick"
  shows "clock w \<le> clock w'" "r = Inr job \<Longrightarrow> clock w + tick \<le> clock w'"
proof -
  obtain m w1 s1 where m: "client_request (logged lib) c (prepared ''GET'' (job_path j) None) None no_options (w, sent) = (m, w1, s1)"
    by (metis surj_pair)
  have w: "w' = w1 \<and> (r = Inr job \<longrightarrow> (\<exists>x. m = Inr x))" using assms(1) m
    by (auto simp: get_job_def get_json_def from_client_def client_request_json_def split: sum.splits prod.splits)
  show "clock w \<le> clock w'" using client_request_clock [OF m assms(2)] w by simp
  show "r = Inr job \<Longrightarrow> clock w + tick \<le> clock w'" using client_request_clock [OF m assms(2)] w by auto
qed

lemma safe_dismiss_log: "polls (snd (safe_dismiss (logged lib) c j (w, sent))) \<le> Suc (polls sent) \<and>
    polls (snd (safe_dismiss (logged lib) c j (w, sent))) \<le> polls sent"
  by (auto simp: safe_dismiss_def dismiss_job_def get_json_def from_client_def client_request_json_def prepared_def
      split: prod.splits sum.splits if_splits dest!: client_request_polls)

abbreviation wait_from :: "('h, 'w) http_lib \<Rightarrow> honua_client \<Rightarrow> 'w process_env \<Rightarrow> pyfloat option \<Rightarrow> string \<Rightarrow>
    poll_state \<times> 'w \<times> 'h wire_request list \<Rightarrow> (process_error + geoprocessing_job) option \<times> poll_state \<times> 'w \<times> 'h wire_request list" where
  "wait_from lib c env deadline j \<equiv> (\<lambda>(s, w). wait_turn (logged lib) c (logged_env env) deadline j s w)"

lemma wait_turn_polls:
  "wait_from lib c env deadline j s = (r, s') \<Longrightarrow> polls (snd (snd s')) \<le> Suc (polls (snd (snd s)))"
  by (cases s) (auto simp: wait_turn_def logged_env_def [of env] Let_def safe_dismiss_log split: if_splits option.splits prod.splits sum.splits
      dest!: get_job_log)

lemma wait_turn_ended: "wait_turn lib c env deadline j s w = (Some r, s', w') \<Longrightarrow> ended r"
  by (auto simp: wait_turn_def ended_def Let_def split: if_splits option.splits prod.splits sum.splits)

interpretation wait: polling "wait_from lib c env deadline j" "\<lambda>(s, w). wait_loop (logged lib) c (logged_env env) deadline j s w" snd
    "\<lambda>w. polls (snd w)" ended for lib c env deadline j
proof
  show "(\<lambda>(s, w). wait_loop (logged lib) c (logged_env env) deadline j s w) s = (case wait_from lib c env deadline j s of
      (Some r, s') \<Rightarrow> Some (r, snd s') | (None, s') \<Rightarrow> (\<lambda>(s, w). wait_loop (logged lib) c (logged_env env) deadline j s w) s')" for s
    by (cases s) (subst wait_loop.simps, auto split: prod.splits option.splits)
qed (auto simp: wait_turn_polls wait_turn_ended)


lemma wait_turn_again:
  assumes "wait_turn (logged lib) c (logged_env env) deadline j s (w, sent) = (None, s', w', sent')" "takes_time lib env clock tick"
  shows "clock w + tick \<le> clock w'"
proof -
  define d where "d = (case map_option (\<lambda>d. fl_sub d (pe_now (logged_env env) (w, sent))) deadline of None \<Rightarrow> ps_delay s | Some r \<Rightarrow> py_min (ps_delay s) r)"
  obtain e w1 where sl: "pe_sleep env d w = (e, w1)" by (metis surj_pair)
  then have sl': "pe_sleep (logged_env env) d (w, sent) = (e, w1, sent)" by (simp add: logged_env_def)
  obtain r w2 s2 where g: "get_job (logged lib) c j (w1, sent) = (r, w2, s2)" by (metis surj_pair)
  have "\<exists>job. r = Inr job \<and> w' = w2"
    using assms(1) [unfolded wait_turn_def Let_def d_def [symmetric] sl' prod.case g]
    by (cases e) (auto split: if_splits sum.splits)
  moreover have "clock w \<le> clock w1" using assms(2) sl by (metis takes_time_def snd_conv)
  ultimately show ?thesis using get_job_clock(2) [OF g assms(2)] by force
qed

lemma wait_turn_due:
  assumes "wait_turn (logged lib) c (logged_env env) (Some d) j s (w, sent) = (r, s', w', sent')" "fl_le d (pe_now env w)" "pe_now env w = FFinite t"
  shows "r \<noteq> None \<and> polls sent' \<le> polls sent"
proof -
  have "fl_le (fl_sub d (pe_now (logged_env env) (w, sent))) (FFinite 0)" using fl_le_sub [OF assms(2)] assms(3) by (simp add: logged_env_def)
  then show ?thesis using assms(1) safe_dismiss_log [of lib c j w sent] by (auto simp: wait_turn_def Let_def split: if_splits)
qed

text \<open>C26. Waiting with a timeout ends: when the clock never goes back and a request takes at least \<open>tick\<close>,
  \<open>wait\<close> returns a job in a terminal status or raises, after fewer than \<open>limit / tick + 1\<close> requests for
  the job, where the deadline lies at most \<open>limit\<close> ahead.\<close>

theorem wait_for_job_ends:
  assumes "takes_time lib env clock tick" "0 \<le> limit" "fl_le (fl_add (pe_now env w) timeout) (FFinite (clock w + limit))"
  shows "\<exists>res w' sent. wait_for_job (logged lib) c (logged_env env) job poll_interval (Some timeout) (w, []) = Some (res, w', sent) \<and>
    ended res \<and> of_nat (polls sent) * tick < limit + tick"
proof -
  have t: "0 < tick" "\<And>v. pe_now env v = FFinite (clock v)" using assms(1) by (simp_all add: takes_time_def)
  obtain k where k: "limit \<le> of_nat k * tick" "\<And>n. n \<le> k \<Longrightarrow> of_nat n * tick < limit + tick"
    using enough_ticks [OF assms(2) t(1)] by blast
  let ?D = "fl_add (pe_now env w) timeout" and ?d = "clock w + limit" and ?clock = "\<lambda>(s, w, sent). clock w"
  have "wait.on_time lib c env (Some ?D) (gj_job_id job) ?clock tick ?d"
    unfolding wait.on_time_def
  proof (intro allI impI)
    fix s r s' assume turn: "wait_from lib c env (Some ?D) (gj_job_id job) s = (r, s')"
    obtain p v sent p' v' sent' where s: "s = (p, v, sent)" "s' = (p', v', sent')" by (metis surj_pair)
    have due: "r \<noteq> None \<and> polls sent' \<le> polls sent" if "?d \<le> clock v"
      using wait_turn_due [of lib c env ?D _ p v sent] turn s t(2) fl_le_mono [OF assms(3) that] by simp
    have "clock v + tick \<le> clock v'" if "r = None"
      using wait_turn_again [OF _ assms(1)] turn s that by simp
    then show "(r = None \<longrightarrow> ?clock s + tick \<le> ?clock s' \<and> ?clock s < ?d) \<and> (?d \<le> ?clock s \<longrightarrow> polls (snd (snd s')) \<le> polls (snd (snd s)))"
      using due s by (auto simp: not_le [symmetric])
  qed
  from wait.settles [OF this, of "(\<lparr>ps_job = job, ps_delay = initial_poll_delay poll_interval\<rparr>, w, [])" k] k
  show ?thesis by (fastforce simp: wait_for_job_def logged_env_def polls_def)
qed

section \<open>What an execution sends\<close>

definition sent_calls :: "'h wire_request list \<Rightarrow> (string \<times> string) list" where
  "sent_calls sent = map (\<lambda>q. (wr_verb q, wr_target q)) sent"

definition call_target :: "honua_client \<Rightarrow> string \<Rightarrow> string" where
  "call_target c path = encode_request_path (join_base_path (cl_base_path c) path)"

text \<open>A path from the root of the server is no absolute URL.\<close>

definition rooted_relative :: "('h, 'w) http_lib \<Rightarrow> bool" where
  "rooted_relative lib \<longleftrightarrow> (\<forall>p. \<not> hl_absolute lib (''/ogc/processes/'' @ p))"

lemma client_request_calls:
  assumes "client_request (logged lib) c prep key opts (w, sent) = (Inr x, w', sent')" "\<not> hl_absolute lib (pq_path prep)"
  shows "sent_calls sent' = sent_calls sent @ [(pq_verb prep, call_target c (pq_path prep))]"
  using assms
  by (auto simp: client_request_def request_target_def logged_def [of lib] sent_calls_def call_target_def split: sum.splits prod.splits if_splits
      dest!: request_hook_log [unfolded logged_def])

lemma processes_paths:
  assumes "rooted_relative lib"
  shows "\<not> hl_absolute lib (execution_path p)" "\<not> hl_absolute lib (job_path j)" "\<not> hl_absolute lib (job_results_path j)"
proof -
  have "execution_path p = ''/ogc/processes/'' @ (''processes/'' @ encode_path_segment p @ ''/execution'')"
    "job_path j = ''/ogc/processes/'' @ (''jobs/'' @ encode_path_segment j)"
    "job_results_path j = ''/ogc/processes/'' @ (''jobs/'' @ encode_path_segment j @ ''/results'')"
    by (simp_all add: execution_path_def process_path_def processes_path_def processes_root_def job_path_def job_results_path_def)
  then show "\<not> hl_absolute lib (execution_path p)" "\<not> hl_absolute lib (job_path j)" "\<not> hl_absolute lib (job_results_path j)"
    using assms by (simp_all add: rooted_relative_def del: append.simps)
qed

lemma get_json_calls:
  assumes "get_json (logged lib) c verb path (w, sent) = (Inr x, w', sent')" "\<not> hl_absolute lib path"
  shows "sent_calls sent' = sent_calls sent @ [(verb, call_target c path)]"
  using assms
  by (auto simp: get_json_def from_client_def client_request_json_def prepared_def split: prod.splits sum.splits
      dest!: client_request_calls)

lemma get_job_calls:
  assumes "get_job (logged lib) c j (w, sent) = (Inr job, w', sent')" "rooted_relative lib"
  shows "sent_calls sent' = sent_calls sent @ [(''GET'', call_target c (job_path j))] \<and> gj_inline_results job = None"
  using assms by (auto simp: get_job_def bindE_eq_Inr job_from_status_info_def split: prod.splits dest: get_json_calls processes_paths)

lemma wait_turn_calls:
  assumes "wait_turn (logged lib) c (logged_env env) deadline j s (w, sent) = (r, s', w', sent')" "rooted_relative lib"
  shows "(r = None \<longrightarrow> sent_calls sent' = sent_calls sent @ [(''GET'', call_target c (job_path j))] \<and> gj_inline_results (ps_job s') = None) \<and>
    (\<forall>job. r = Some (Inr job) \<longrightarrow> sent' = sent \<and> job = ps_job s \<and> is_terminal job)"
  using assms by (auto simp: wait_turn_def logged_env_def [of env] Let_def split: if_splits option.splits prod.splits sum.splits dest!: get_job_calls)

text \<open>What a call of \<open>wait\<close> that returned has sent.\<close>

definition waited :: "honua_client \<Rightarrow> string \<Rightarrow> poll_state \<Rightarrow> 'w \<times> 'h wire_request list \<Rightarrow>
    (process_error + geoprocessing_job) \<times> 'w \<times> 'h wire_request list \<Rightarrow> bool" where
  "waited c j s w y \<longleftrightarrow> (\<forall>job. fst y = Inr job \<longrightarrow> (\<exists>n. sent_calls (snd (snd y)) = sent_calls (snd w) @ replicate n (''GET'', call_target c (job_path j)) \<and>
     is_terminal job \<and> (if n = 0 then job = ps_job s else gj_inline_results job = None)))"

lemma wait_loop_calls:
  assumes "wait_loop (logged lib) c (logged_env env) deadline j s w = Some y" "rooted_relative lib"
  shows "waited c j s w y"
proof -
  have "l = logged lib \<longrightarrow> e = logged_env env \<longrightarrow> waited c j s w y" if "wait_loop l c e deadline j s w = Some y"
    for l c e deadline j s w y
  proof (rule wait_loop.raw_induct [where P = "\<lambda>l c e deadline j s w y. l = logged lib \<longrightarrow> e = logged_env env \<longrightarrow> waited c j s w y", OF _ that])
    fix wl l c e deadline j s w y
    assume ih: "\<And>l c e deadline j s w y. wl l c e deadline j s w = Some y \<Longrightarrow> l = logged lib \<longrightarrow> e = logged_env env \<longrightarrow> waited c j s w y"
      and turn: "(case wait_turn l c e deadline j s w of (None, s1, w1) \<Rightarrow> wl l c e deadline j s1 w1 | (Some res, _, w1) \<Rightarrow> Some (res, w1)) = Some y"
    show "l = logged lib \<longrightarrow> e = logged_env env \<longrightarrow> waited c j s w y"
    proof (intro impI)
      assume l: "l = logged lib" "e = logged_env env"
      obtain r s1 w1 sent1 where t: "wait_turn l c e deadline j s w = (r, s1, w1, sent1)" by (metis surj_pair)
      note f = wait_turn_calls [OF _ assms(2), of c env deadline j s "fst w" "snd w" r s1 w1 sent1]
      show "waited c j s w y"
      proof (cases r)
        case (Some res)
        then have "y = (res, w1, sent1)" using turn t by simp
        then show ?thesis using f t l Some by (auto simp: waited_def intro!: exI [of _ 0])
      next
        case None
        then have "wl l c e deadline j s1 (w1, sent1) = Some y" using turn t by simp
        from ih [OF this] have i: "waited c j s1 (w1, sent1) y" using l by simp
        have one: "sent_calls sent1 = sent_calls (snd w) @ [(''GET'', call_target c (job_path j))]" "gj_inline_results (ps_job s1) = None"
          using f t l None by simp_all
        show ?thesis unfolding waited_def
        proof (intro allI impI)
          fix job assume "fst y = Inr job"
          then obtain n where n: "sent_calls (snd (snd y)) = sent_calls sent1 @ replicate n (''GET'', call_target c (job_path j))"
            "is_terminal job" "if n = 0 then job = ps_job s1 else gj_inline_results job = None" using i by (auto simp: waited_def)
          then show "\<exists>n. sent_calls (snd (snd y)) = sent_calls (snd w) @ replicate n (''GET'', call_target c (job_path j)) \<and>
              is_terminal job \<and> (if n = 0 then job = ps_job s else gj_inline_results job = None)"
            using one by (intro exI [of _ "Suc n"]) (auto split: if_splits)
        qed
      qed
    qed
  qed
  then show ?thesis using assms(1) by simp
qed

lemma submit_inputs_calls:
  assumes "submit_inputs (logged lib) c env p inputs m a (w, sent) = (Inr job, w', sent')" "rooted_relative lib"
  shows "sent_calls sent' = sent_calls sent @ [(''POST'', call_target c (execution_path p))]"
  using assms by (auto simp: submit_inputs_def submit_raw_def from_client_def bindE_eq_Inr split: prod.splits sum.splits
      dest!: client_request_calls simp: processes_paths)

text \<open>What running a layer process sends: when it returns results, its requests were, in this order,
  the execution, any number of reads of the submitted job, and at most one read of results, which is
  left out exactly when the job carries them inline; and the job the results belong to had succeeded.\<close>

theorem execute_layer_requests:
  assumes "execute_layer (logged lib) c (logged_env env) process_id reference parameters poll_interval timeout True (w, []) = Some (Inr results, w', sent)"
    and "rooted_relative lib"
  shows "\<exists>job w1 terminal w2 n.
    submit_layer (logged lib) c (logged_env env) process_id reference parameters True (w, []) = (Inr job, w1) \<and>
    wait_for_job (logged lib) c (logged_env env) job poll_interval timeout w1 = Some (Inr terminal, w2) \<and> succeeded terminal \<and>
    sent_calls sent = (''POST'', call_target c (execution_path process_id)) # replicate n (''GET'', call_target c (job_path (gj_job_id job))) @
      (case gj_inline_results terminal of Some _ \<Rightarrow> [] | None \<Rightarrow> [(''GET'', call_target c (job_results_path (gj_job_id terminal)))]) \<and>
    (gj_inline_results terminal \<noteq> None \<longrightarrow> n = 0 \<and> gj_inline_results terminal = Some results)"
proof -
  obtain job w1 s1 where j: "submit_layer (logged lib) c (logged_env env) process_id reference parameters True (w, []) = (Inr job, w1, s1)"
    using assms(1) by (auto simp: execute_layer_def run_job_def split: prod.splits sum.splits)
  then obtain terminal w2 s2 where t: "wait_for_job (logged lib) c (logged_env env) job poll_interval timeout (w1, s1) = Some (Inr terminal, w2, s2)"
    "succeeded terminal" "job_results (logged lib) c terminal (w2, s2) = (Inr results, w', sent)"
    using assms(1) by (auto simp: execute_layer_def run_job_def split: prod.splits sum.splits option.splits if_splits)
  have p: "sent_calls s1 = [(''POST'', call_target c (execution_path process_id))]"
    using j assms(2) by (auto simp: submit_layer_def sent_calls_def [of "[]"] split: sum.splits dest!: submit_inputs_calls)
  obtain n where n: "sent_calls s2 = sent_calls s1 @ replicate n (''GET'', call_target c (job_path (gj_job_id job)))"
    "if n = 0 then terminal = job else gj_inline_results terminal = None"
    using wait_loop_calls [OF t(1) [unfolded wait_for_job_def] assms(2)] by (auto simp: waited_def split: if_splits)
  show ?thesis
  proof (cases "gj_inline_results terminal")
    case None
    then have "sent_calls sent = sent_calls s2 @ [(''GET'', call_target c (job_results_path (gj_job_id terminal)))]"
      using t(3) assms(2) by (auto simp: job_results_def results_of_id_def processes_paths split: if_splits dest!: get_json_calls)
    then show ?thesis using j t n p None by (intro exI conjI) auto
  next
    case (Some d)
    then have "sent = s2" "d = results" "n = 0" using t(3) n(2) by (auto simp: job_results_def split: if_splits)
    then show ?thesis using j t n p Some by (intro exI conjI) auto
  qed
qed


section \<open>A job server\<close>

text \<open>A server that accepts every execution as job \<open>j1\<close> and then answers with its success; a request
  takes one second.\<close>

definition job_document :: "string \<Rightarrow> (string, pyval) pydict" where
  "job_document verb = [(''jobID'', PStr ''j1''), (''status'', PStr (if verb = ''POST'' then ''accepted'' else ''successful''))]"

definition job_lib :: "((string, string) pydict, nat) http_lib" where
  "job_lib = \<lparr>hl_url = (\<lambda>_. site), hl_path = (\<lambda>_. ''/''), hl_absolute = (\<lambda>_. False), hl_ops = dict_header_ops,
     hl_headers = (\<lambda>h. case h of None \<Rightarrow> [] | Some d \<Rightarrow> d), hl_provider = (\<lambda>_ w. (Inr [], w)),
     hl_send = (\<lambda>_ q w. (Inr (json_answer (job_document (wr_verb q)), []), Suc w)), hl_env = (\<lambda>_. plain_env),
     hl_ip6_loopback = (\<lambda>_. False), hl_insecure_env = None\<rparr>"

definition job_env :: "nat process_env" where
  "job_env = \<lparr>pe_loads = (\<lambda>_. None), pe_ip_ok = (\<lambda>_. True), pe_now = (\<lambda>w. FFinite (of_nat w)), pe_sleep = (\<lambda>_ w. (None, w)), pe_hex = (\<lambda>w. ([], w))\<rparr>"

lemma job_lib_request:
  "\<exists>q. client_request (logged job_lib) key_client prep None no_options (w, sent) = (Inr (json_answer (job_document (pq_verb prep)), []), Suc w, sent @ [q])"
proof -
  obtain h' where hook: "request_hook (logged job_lib) (cl_session key_client) site (hl_headers (logged job_lib) (merge_request_headers (pq_headers prep) None None)) (w, sent) = (Inr h', w, sent)"
    by (auto simp: request_hook_def built_client_def key_init_def apply_sensitive_auth_headers_def job_lib_def logged_def site_lib_def Let_def bindE_def)
  have target: "request_target (logged job_lib) key_client path = Inr (site, encode_request_path (join_base_path (cl_base_path key_client) path))" for path
    by (simp add: request_target_def job_lib_def logged_def site_lib_def built_client_def Let_def)
  have send: "hl_send (logged job_lib) s q' (w, sent) = (Inr (json_answer (job_document (wr_verb q')), []), Suc w, sent @ [q'])" for s q'
    by (simp add: job_lib_def logged_def)
  have "status_code (json_answer d) = 200" for d by (simp add: json_answer_def answer_of_def)
  then show ?thesis using hook by (simp add: client_request_def target send)
qed

lemma job_lib_json:
  "\<exists>q. get_json (logged job_lib) key_client verb path (w, sent) = (Inr (job_document verb), Suc w, sent @ [q])"
proof -
  obtain q where q: "client_request (logged job_lib) key_client (prepared verb path None) None no_options (w, sent) = (Inr (json_answer (job_document verb), []), Suc w, sent @ [q])"
    using job_lib_request [of "prepared verb path None"] by (auto simp: prepared_def)
  have "raise_for_geoservices_error env r (job_document verb) = Inr ()" for env r
    by (simp add: raise_for_geoservices_error_def job_document_def get_or_none_def dict_get_def)
  then have "parse_json_response_body env (json_answer (job_document verb)) = Inr (job_document verb)" for env
    by (simp add: parse_json_response_body_def json_answer_def bindE_def)
  then show ?thesis using q by (auto simp: get_json_def client_request_json_def from_client_def)
qed

lemma job_lib_job:
  "\<exists>q. get_job (logged job_lib) key_client j (w, sent) = (Inr (job_from_status_info (job_document ''GET'')), Suc w, sent @ [q])"
  using job_lib_json [of "''GET''" "job_path j" w sent] by (auto simp: get_job_def bindE_def)

theorem wait_for_job_ends_witness:
  "\<exists>res w' sent. wait_for_job (logged job_lib) key_client (logged_env job_env) (job_from_status_info (job_document ''POST'')) (FFinite 0) (Some (FFinite 120)) (0, []) =
     Some (res, w', sent) \<and> ended res \<and> of_nat (polls sent) * (1 :: rat) < 120 + 1"
proof (rule wait_for_job_ends)
  show "takes_time job_lib job_env of_nat 1" by (simp add: takes_time_def job_lib_def job_env_def)
  have "fl_add (pe_now job_env 0) (FFinite 120) = FFinite 120" using fl_of_int [of 120] by (simp add: job_env_def)
  then show "fl_le (fl_add (pe_now job_env 0) (FFinite 120)) (FFinite (of_nat 0 + 120))" by simp
qed simp

theorem execute_layer_requests_witness:
  "\<exists>results w' sent. execute_layer (logged job_lib) key_client (logged_env job_env) ''buffer'' (from_query_result (PStr ''q'') None) None (FFinite 0) None True (0, []) =
     Some (Inr results, w', sent) \<and> (''POST'', call_target key_client (execution_path ''buffer'')) \<in> set (sent_calls sent)"
proof -
  let ?job = "\<lambda>verb. job_from_status_info (job_document verb)"
  have id: "gj_job_id (?job verb) = ''j1''" "is_terminal (?job verb) = (verb \<noteq> ''POST'')" "succeeded (?job ''GET'')" for verb
    by (simp_all add: job_from_status_info_def job_document_def get_or_none_def dict_get_def py_or_def text_or_empty_def is_terminal_def succeeded_def terminal_job_statuses_def)
  have inline: "gj_inline_results (?job ''GET'') = None" by (simp add: job_from_status_info_def)
  let ?l = "from_query_result (PStr ''q'') None"
  have "layer_inputs ?l None = Inr [(''queryResultId'', PStr ''q'')]" by code_simp
  then have "\<exists>q. submit_layer (logged job_lib) key_client (logged_env job_env) ''buffer'' ?l None True (0, []) = (job_from_response (\<lambda>_. True) (json_answer (job_document ''POST'')), 1, [q])"
    using job_lib_request [of "\<lparr>pq_verb = ''POST'', pq_path = execution_path ''buffer'', pq_params = None,
        pq_json = Some (execute_payload [(''queryResultId'', PStr ''q'')] (Some ''document'')), pq_headers = Some [(''Prefer'', ''respond-async'')]\<rparr>" 0 "[]"]
    by (auto simp: submit_layer_def submit_inputs_def submit_raw_def from_client_def bindE_def logged_env_def job_env_def)
  moreover have "job_from_response (\<lambda>_. True) (json_answer (job_document ''POST'')) = Inr (?job ''POST'')" by code_simp
  ultimately obtain q1 where s: "submit_layer (logged job_lib) key_client (logged_env job_env) ''buffer'' ?l None True (0, []) = (Inr (?job ''POST''), 1, [q1])"
    by auto
  obtain q2 where g: "get_job (logged job_lib) key_client ''j1'' (1, [q1]) = (Inr (?job ''GET''), 2, [q1, q2])"
    using job_lib_job [of "''j1''" 1 "[q1]"] by (auto simp: numeral_2_eq_2)
  have w: "wait_for_job (logged job_lib) key_client (logged_env job_env) (?job ''POST'') (FFinite 0) None (1, [q1]) = Some (Inr (?job ''GET''), 2, [q1, q2])"
  proof -
    let ?s = "\<lambda>v d. \<lparr>ps_job = ?job v, ps_delay = d\<rparr>"
    have "wait_turn (logged job_lib) key_client (logged_env job_env) None ''j1'' (?s ''POST'' d) (1, [q1]) = (None, ?s ''GET'' (next_poll_delay d), 2, [q1, q2])" for d
      by (simp add: wait_turn_def id logged_env_def job_env_def g [unfolded One_nat_def])
    moreover have "wait_turn (logged job_lib) key_client (logged_env job_env) None ''j1'' (?s ''GET'' d) w = (Some (Inr (?job ''GET'')), ?s ''GET'' d, w)" for d w
      by (simp add: wait_turn_def id)
    ultimately show ?thesis
      by (simp add: wait_for_job_def id wait_loop.simps [of _ _ _ _ _ _ "(Suc 0, [q1])"] wait_loop.simps [of _ _ _ _ _ _ "(2, [q1, q2])"])
  qed
  obtain q3 where r: "job_results (logged job_lib) key_client (?job ''GET'') (2, [q1, q2]) = (Inr (job_document ''GET''), 3, [q1, q2, q3])"
    using job_lib_json [of "''GET''" "job_results_path ''j1''" 2 "[q1, q2]"] by (auto simp: job_results_def results_of_id_def id inline numeral_3_eq_3 numeral_2_eq_2)
  have e: "execute_layer (logged job_lib) key_client (logged_env job_env) ''buffer'' ?l None (FFinite 0) None True (0, []) =
      Some (Inr (job_document ''GET''), 3, [q1, q2, q3])"
    by (simp add: execute_layer_def run_job_def s w [unfolded One_nat_def] r id)
  have "rooted_relative job_lib" by (simp add: rooted_relative_def job_lib_def)
  from execute_layer_requests [OF e this] show ?thesis using e by auto
qed

section \<open>Raster bytes\<close>

text \<open>Raster bytes survive the trip: what \<open>RasterReference.from_geotiff_bytes\<close> puts into the inputs of
  a process decodes strictly to the bytes it was given (an empty raster is refused), and a raster
  returned inline, as Base64 text or as a \<open>data:\<close> URI, is read back as its bytes without a request.\<close>

theorem raster_bytes_round_trip:
  "(case bindE (from_geotiff_bytes (PBytes bs)) raster_to_inputs of
      Inl e \<Rightarrow> bs = [] \<and> e = ErrValue
    | Inr inputs \<Rightarrow> bs \<noteq> [] \<and> (\<exists>s. inputs = [(''source'', PStr s)] \<and> b64decode_strict s = Some bs)) \<and>
   inline_raster_bytes (dict_set member ''value'' (PStr (b64encode bs))) = Inr (Some bs) \<and>
   inline_raster_bytes (dict_set member ''value'' (PStr (''data:image/tiff;base64,'' @ b64encode bs))) = Inr (Some bs)"
proof (intro conjI)
  have "b64encode bs = [] \<longleftrightarrow> bs = []" by (cases bs rule: b64encode.cases) (simp_all add: Let_def)
  then show "case bindE (from_geotiff_bytes (PBytes bs)) raster_to_inputs of
      Inl e \<Rightarrow> bs = [] \<and> e = ErrValue
    | Inr inputs \<Rightarrow> bs \<noteq> [] \<and> (\<exists>s. inputs = [(''source'', PStr s)] \<and> b64decode_strict s = Some bs)"
    using b64_strict_encode [of bs]
    by (cases "b64encode bs") (simp_all add: from_geotiff_bytes_def make_raster_reference_def bindE_def raster_to_inputs_def carrier_def)
  have v: "get_or_none (dict_set member ''value'' v) ''value'' = v" for v by (simp add: get_or_none_def)
  have "\<not> is_data_uri (b64encode bs)"
  proof
    assume "is_data_uri (b64encode bs)"
    then have "CHR '':'' \<in> set (take 5 (b64encode bs))" by (simp add: is_data_uri_def str_startswith_def eval_nat_numeral)
    then show False using b64encode_no_colon in_set_takeD by metis
  qed
  then show "inline_raster_bytes (dict_set member ''value'' (PStr (b64encode bs))) = Inr (Some bs)"
    by (simp add: inline_raster_bytes_def v bindE_def)
  show "inline_raster_bytes (dict_set member ''value'' (PStr (''data:image/tiff;base64,'' @ b64encode bs))) = Inr (Some bs)"
    by (simp add: inline_raster_bytes_def v bindE_def is_data_uri_def str_startswith_def str_split1_def)
qed


text \<open>A link to another server is refused before anything is sent.\<close>

lemma foreign_href_refused:
  assumes "urlsplit (pe_ip_ok env) href = Inr u" "up_scheme u \<noteq> []"
    and "extract_trusted_authority (hl_url lib href) \<noteq> extract_trusted_authority (cl_base_url c)"
  shows "fetch_href lib c env href w = (Inl SdkError, w)"
  using assms by (simp add: fetch_href_def href_path_and_params_def python_def bindE_def Let_def ensure_same_origin_continuation_def)

text \<open>An absolute link below the base path is requested with the base path twice.\<close>

lemma absolute_href_repeats_base_path:
  assumes "urlsplit (pe_ip_ok env) href = Inr u" "up_scheme u \<noteq> []" "up_path u = base @ p" "str_rstrip_chars {CHR ''/''} base = base"
    and "extract_trusted_authority (hl_url lib href) = extract_trusted_authority (cl_base_url c)" "cl_base_path c = base" "base = CHR ''/'' # b"
  shows "\<exists>params. href_path_and_params lib c env href = Inr (base @ p, params) \<and> encode_request_path (join_base_path (cl_base_path c) (base @ p)) = encode_request_path (base @ base @ p)"
  using assms by (auto simp: href_path_and_params_def python_def bindE_def Let_def ensure_same_origin_continuation_def join_base_path_def)

text \<open>A \<open>data:\<close> value without a comma raises \<open>IndexError\<close>, not an SDK error.\<close>

lemma comma_less_data_uri:
  assumes "get_or_none member ''value'' = PStr v" "is_data_uri v" "CHR '','' \<notin> set v"
  shows "inline_raster_bytes member = Inl (PythonRaised ErrIndex)"
proof -
  have "dropWhile (\<lambda>x. x \<noteq> CHR '','') v = []" unfolding dropWhile_eq_Nil_conv using assms(3) by metis
  then have "str_split1 (CHR '','') v = [v]" by (simp only: str_split1_def list.case)
  then show ?thesis using assms(1,2) by (simp add: inline_raster_bytes_def bindE_def)
qed

end
