(* ===== verification/Scene_Build.thy ===== *)
theory Scene_Build
  imports Scene_Packages Geoprocessing
begin

text \<open>
  The tilesets, the offline packages and the clients of \<open>protocols/scenes.py\<close>: walking a 3D Tiles
  document, downloading what it refers to, and bundling it under a manifest.

  \<open>scene_env\<close> holds what lies outside: the JSON parser (\<open>None\<close> where the bytes do not parse), the
  check of a bracketed host, \<open>datetime.fromisoformat\<close> and the wall clock. SHA-256 is written out.
  Python's limit on the depth of recursion is not modelled.
\<close>

section \<open>SHA-256\<close>

text \<open>\<open>hashlib.sha256(content).hexdigest()\<close>: the message is padded to blocks of 64 bytes, each block
  is expanded to 64 words and mixed into eight words of state.\<close>

definition sha_k :: "32 word list" where
  "sha_k = [1116352408, 1899447441, 3049323471, 3921009573, 961987163, 1508970993, 2453635748, 2870763221,
     3624381080, 310598401, 607225278, 1426881987, 1925078388, 2162078206, 2614888103, 3248222580,
     3835390401, 4022224774, 264347078, 604807628, 770255983, 1249150122, 1555081692, 1996064986,
     2554220882, 2821834349, 2952996808, 3210313671, 3336571891, 3584528711, 113926993, 338241895,
     666307205, 773529912, 1294757372, 1396182291, 1695183700, 1986661051, 2177026350, 2456956037,
     2730485921, 2820302411, 3259730800, 3345764771, 3516065817, 3600352804, 4094571909, 275423344,
     430227734, 506948616, 659060556, 883997877, 958139571, 1322822218, 1537002063, 1747873779,
     1955562222, 2024104815, 2227730452, 2361852424, 2428436474, 2756734187, 3204031479, 3329325298]"

definition sha_start :: "32 word list" where
  "sha_start = [0x6a09e667, 0xbb67ae85, 0x3c6ef372, 0xa54ff53a, 0x510e527f, 0x9b05688c, 0x1f83d9ab, 0x5be0cd19]"


definition sha_pad :: "8 word list \<Rightarrow> 8 word list" where
  "sha_pad m = (let n = length m in
     m @ [0x80] @ replicate ((119 - n mod 64) mod 64) 0 @ map (\<lambda>i. word_of_int (int n * 8 div 256 ^ i)) [7, 6, 5, 4, 3, 2, 1, 0])"

fun sha_words :: "8 word list \<Rightarrow> 32 word list" where
  "sha_words (a # b # c # d # r) = (push_bit 24 (ucast a) OR push_bit 16 (ucast b) OR push_bit 8 (ucast c) OR ucast d) # sha_words r"
| "sha_words _ = []"

text \<open>The schedule, kept with its latest word first.\<close>

definition sha_expand :: "32 word list \<Rightarrow> 32 word list" where
  "sha_expand block = rev (((\<lambda>w. let a = w ! 14; b = w ! 1;
       s0 = word_rotr 7 a XOR word_rotr 18 a XOR drop_bit 3 a; s1 = word_rotr 17 b XOR word_rotr 19 b XOR drop_bit 10 b
     in (w ! 15 + s0 + w ! 6 + s1) # w) ^^ 48) (rev block))"

definition sha_round :: "32 word list \<Rightarrow> 32 word \<times> 32 word \<Rightarrow> 32 word list" where
  "sha_round st kw = (case st of [a, b, c, d, e, f, g, h] \<Rightarrow>
     (let s1 = word_rotr 6 e XOR word_rotr 11 e XOR word_rotr 25 e; ch = (e AND f) XOR (NOT e AND g);
          t1 = h + s1 + ch + fst kw + snd kw;
          s0 = word_rotr 2 a XOR word_rotr 13 a XOR word_rotr 22 a; maj = (a AND b) XOR (a AND c) XOR (b AND c)
      in [t1 + s0 + maj, a, b, c, d + t1, e, f, g]) | _ \<Rightarrow> st)"

definition sha_block :: "32 word list \<Rightarrow> 32 word list \<Rightarrow> 32 word list" where
  "sha_block st block = map2 (+) st (foldl sha_round st (zip sha_k (sha_expand block)))"

fun sha_blocks :: "nat \<Rightarrow> 32 word list \<Rightarrow> 32 word list \<Rightarrow> 32 word list" where
  "sha_blocks 0 st ws = st"
| "sha_blocks (Suc n) st ws = sha_blocks n (sha_block st (take 16 ws)) (drop 16 ws)"

definition sha_hex :: "32 word \<Rightarrow> string" where
  "sha_hex w = map (\<lambda>i. hex_digit (unat (drop_bit (4 * i) w AND 15))) [7, 6, 5, 4, 3, 2, 1, 0]"

definition sha256_hex :: "8 word list \<Rightarrow> string" where
  "sha256_hex content = (let ws = sha_words (sha_pad content) in concat (map sha_hex (sha_blocks (length ws div 16) sha_start ws)))"

section \<open>Tilesets\<close>

record tileset_content =
  tc_uri :: string
  tc_resolved :: string
  tc_is_tileset :: bool

definition is_external_tileset_uri :: "(string \<Rightarrow> bool) \<Rightarrow> string \<Rightarrow> py_error + bool" where
  "is_external_tileset_uri ip_ok uri = bindE (urlsplit ip_ok uri) (\<lambda>u. Inr (str_endswith (str_lower (up_path u)) ''.json''))"

text \<open>\<open>posixpath.dirname\<close>, \<open>join\<close> and \<open>normpath\<close>\<close>

definition posix_dirname :: "string \<Rightarrow> string" where
  "posix_dirname p = (let head = rev (dropWhile (\<lambda>c. c \<noteq> CHR ''/'') (rev p)) in
     if list_all (\<lambda>c. c = CHR ''/'') head then head else str_rstrip_chars {CHR ''/''} head)"

definition posix_join :: "string \<Rightarrow> string \<Rightarrow> string" where
  "posix_join a b = (if str_startswith b ''/'' then b else if a = [] \<or> last a = CHR ''/'' then a @ b else a @ ''/'' @ b)"

definition norm_step :: "bool \<Rightarrow> string list \<Rightarrow> string \<Rightarrow> string list" where
  "norm_step rooted comps c = (if c = [] \<or> c = ''.'' then comps
     else if c \<noteq> ''..'' \<or> (\<not> rooted \<and> comps = []) \<or> (comps \<noteq> [] \<and> last comps = ''..'') then comps @ [c]
     else butlast comps)"

definition posix_normpath :: "string \<Rightarrow> string" where
  "posix_normpath p = (let slashes = (if \<not> str_startswith p ''/'' then 0 else if str_startswith p ''//'' \<and> \<not> str_startswith p ''///'' then 2 else 1 :: nat);
     r = replicate slashes (CHR ''/'') @ str_join ''/'' (foldl (norm_step (slashes \<noteq> 0)) [] (str_split_char (CHR ''/'') p))
     in if p = [] \<or> r = [] then ''.'' else r)"

definition resolve_tileset_relative_path :: "(string \<Rightarrow> bool) \<Rightarrow> string \<Rightarrow> string \<Rightarrow> py_error + string" where
  "resolve_tileset_relative_path ip_ok base_path uri = bindE (urlsplit ip_ok uri) (\<lambda>u.
     if up_scheme u \<noteq> [] \<or> up_netloc u \<noteq> [] \<or> str_startswith uri ''/'' then Inr uri
     else (let combined = (if up_path u \<noteq> [] then posix_normpath (posix_join (posix_dirname base_path) (up_path u)) else base_path)
       in Inr (if up_query u \<noteq> [] then combined @ ''?'' @ up_query u else combined)))"

definition node_contents :: "pyval \<Rightarrow> pyval list" where
  "node_contents node = (let single = get_value node [''content''] in (if is_mapping single then [single] else []) @
     (case as_seq (get_value node [''contents'']) of None \<Rightarrow> [] | Some xs \<Rightarrow> filter is_mapping xs))"

text \<open>The results so far and the resolved paths seen.\<close>

type_synonym walk_state = "tileset_content list \<times> string set"

definition content_of :: "(string \<Rightarrow> bool) \<Rightarrow> string \<Rightarrow> pyval \<Rightarrow> py_error + tileset_content option" where
  "content_of ip_ok base_path content = (case get_str content [''uri'', ''url''] of None \<Rightarrow> Inr None
     | Some uri \<Rightarrow> bindE (resolve_tileset_relative_path ip_ok base_path uri) (\<lambda>resolved. bindE (is_external_tileset_uri ip_ok uri) (\<lambda>external.
         Inr (Some \<lparr>tc_uri = uri, tc_resolved = resolved, tc_is_tileset = external\<rparr>))))"

definition note_content :: "tileset_content option \<Rightarrow> walk_state \<Rightarrow> walk_state" where
  "note_content c st = (case c of None \<Rightarrow> st | Some t \<Rightarrow> if tc_resolved t \<in> snd st then st else (fst st @ [t], insert (tc_resolved t) (snd st)))"

fun add_contents :: "(string \<Rightarrow> bool) \<Rightarrow> string \<Rightarrow> pyval list \<Rightarrow> walk_state \<Rightarrow> py_error + walk_state" where
  "add_contents ip_ok base_path [] st = Inr st"
| "add_contents ip_ok base_path (c # cs) st = bindE (content_of ip_ok base_path c) (\<lambda>t. add_contents ip_ok base_path cs (note_content t st))"

definition node_children :: "pyval \<Rightarrow> pyval list" where
  "node_children node = (case as_seq (get_value node [''children'']) of None \<Rightarrow> [] | Some xs \<Rightarrow> xs)"

lemma dict_set_items: "(k, v) \<in> set (dict_set d a b) \<Longrightarrow> (k, v) = (a, b) \<or> (k, v) \<in> set d"
  unfolding dict_set_def by (induction d) (auto split: if_splits)

lemma put_all_items: "(k, v) \<in> set (put_all dict_set acc xs) \<Longrightarrow> (k, v) \<in> set acc \<or> (k, v) \<in> set xs"
  by (induction xs arbitrary: acc) (fastforce simp: put_all_def dest: dict_set_items)+

lemma first_named_member: "first_named d ns = PNone \<or> (\<exists>k. (k, first_named d ns) \<in> set d)"
proof (induction ns)
  case (Cons n ns)
  have low: "dict_get (lowered_items d) k = Some v \<Longrightarrow> \<exists>k'. (k', v) \<in> set d" for k v
    using put_all_items [of k v "[]"] by (fastforce simp: lowered_items_def dict_get_def dest: map_of_SomeD)
  show ?case
  proof (cases "dict_get d n")
    case None
    then show ?thesis using Cons low by (auto split: option.splits)
  next
    case (Some v)
    then show ?thesis by (auto simp: dict_get_def dest: map_of_SomeD)
  qed
qed simp

lemma size_get_value: "size (get_value node names) < size node \<or> get_value node names = PNone"
proof (cases node)
  case (PDict d)
  then show ?thesis using first_named_member [of d names] size_dict_value [of _ "first_named d names" d] by (auto simp: get_value_def)
qed (simp_all add: get_value_def)

lemma size_node_children: "2 * size_list size (node_children node) + 1 < 2 * size node \<or> node_children node = []"
  using size_get_value [of node "[''children'']"] by (cases "get_value node [''children'']") (auto simp: node_children_def as_seq_def)

text \<open>A node gives its contents first, then those of its children from left to right.\<close>

function walk_tileset_node :: "(string \<Rightarrow> bool) \<Rightarrow> string \<Rightarrow> pyval \<Rightarrow> walk_state \<Rightarrow> py_error + walk_state"
  and walk_tileset_nodes :: "(string \<Rightarrow> bool) \<Rightarrow> string \<Rightarrow> pyval list \<Rightarrow> walk_state \<Rightarrow> py_error + walk_state" where
  "walk_tileset_node ip_ok base_path node st = (if \<not> is_mapping node then Inr st
     else bindE (add_contents ip_ok base_path (node_contents node) st) (walk_tileset_nodes ip_ok base_path (node_children node)))"
| "walk_tileset_nodes ip_ok base_path [] st = Inr st"
| "walk_tileset_nodes ip_ok base_path (n # ns) st =
     bindE (walk_tileset_node ip_ok base_path n st) (walk_tileset_nodes ip_ok base_path ns)"
  by pat_completeness auto
termination
proof (relation "measure (case_sum (\<lambda>(_, _, node, _). 2 * size node) (\<lambda>(_, _, ns, _). 2 * size_list size ns + 1))", goal_cases)
  case (2 ip_ok base_path node st x)
  then show ?case using size_node_children [of node] by (cases node) (auto simp: is_mapping_def)
qed auto

definition enumerate_tileset_contents :: "(string \<Rightarrow> bool) \<Rightarrow> pyval \<Rightarrow> string \<Rightarrow> py_error + tileset_content list" where
  "enumerate_tileset_contents ip_ok tileset base_path =
     bindE (walk_tileset_node ip_ok base_path (get_value tileset [''root'']) ([], {})) (\<lambda>st. Inr (fst st))"

section \<open>Package assets\<close>

record 'w scene_env =
  sv_loads :: "8 word list \<Rightarrow> pyval option"
  sv_ip_ok :: "string \<Rightarrow> bool"
  sv_iso :: "string \<Rightarrow> py_datetime option"
  sv_now :: "'w \<Rightarrow> py_datetime"

record build_asset =
  ba_asset :: package_asset
  ba_content :: "8 word list"

record build_result =
  br_manifest :: package_manifest
  br_assets :: "build_asset list"

definition total_bytes :: "build_result \<Rightarrow> nat" where
  "total_bytes b = sum_list (map (\<lambda>a. length (ba_content a)) (br_assets b))"

definition asset_for :: "build_result \<Rightarrow> string \<Rightarrow> build_asset option" where
  "asset_for b key = List.find (\<lambda>a. case pa_key (ba_asset a) of Some (c # cs) \<Rightarrow> str_lower (c # cs) = str_lower (str_strip key) | _ \<Rightarrow> False) (br_assets b)"

text \<open>\<open>sort_keys=True\<close>: mappings at every depth in the order of their keys.\<close>

function sort_keys :: "pyval \<Rightarrow> pyval" where
  "sort_keys v = (case v of
     PDict d \<Rightarrow> PDict (sort_key (\<lambda>(k, _). map (\<lambda>c. of_char c :: nat) k) (map (\<lambda>(k, x). (k, sort_keys x)) d))
   | PList xs \<Rightarrow> PList (map sort_keys xs) | PTuple xs \<Rightarrow> PTuple (map sort_keys xs) | _ \<Rightarrow> v)"
  by pat_completeness auto
termination by (relation "measure size") (use size_dict_value size_item in \<open>auto simp del: pyval.size\<close>)

declare sort_keys.simps [simp del]

definition scene_metadata_bytes :: "scene_metadata \<Rightarrow> py_error + 8 word list" where
  "scene_metadata_bytes s = bindE (json_dumps (sort_keys (PDict (if sm_raw s \<noteq> [] then sm_raw s
     else [(''id'', PStr (sm_id s)), (''name'', PStr (sm_name s))])))) (\<lambda>t. Inr (utf8_bytes t))"

definition initial_tileset_queue :: "'w scene_env \<Rightarrow> 8 word list \<Rightarrow> scene_error + tileset_content list" where
  "initial_tileset_queue env tileset_bytes = (case sv_loads env tileset_bytes of
     Some (PDict d) \<Rightarrow> scene_py (enumerate_tileset_contents (sv_ip_ok env) (PDict d) ''tileset.json'') | _ \<Rightarrow> Inl SceneError)"

definition tile_asset_type :: "tileset_content \<Rightarrow> string" where
  "tile_asset_type t = (if tc_is_tileset t then ''3d-tileset'' else ''3d-tile-content'')"

definition tile_asset_key :: "(string \<Rightarrow> bool) \<Rightarrow> string \<Rightarrow> py_error + string" where
  "tile_asset_key ip_ok resolved_path = bindE (urlsplit ip_ok resolved_path) (\<lambda>u. Inr (if up_path u \<noteq> [] then up_path u else resolved_path))"

definition content_type_for_path :: "(string \<Rightarrow> bool) \<Rightarrow> string \<Rightarrow> py_error + string" where
  "content_type_for_path ip_ok path = bindE (urlsplit ip_ok path) (\<lambda>u.
     Inr (if str_endswith (str_lower (up_path u)) ''.json'' then ''application/json'' else ''application/octet-stream''))"

definition build_manifest_asset ::
  "(string \<Rightarrow> bool) \<Rightarrow> string \<Rightarrow> string \<Rightarrow> string \<Rightarrow> 8 word list \<Rightarrow> string option \<Rightarrow> bool \<Rightarrow> py_error + package_asset" where
  "build_manifest_asset ip_ok key asset_type path content role required = bindE (content_type_for_path ip_ok path) (\<lambda>media.
     Inr \<lparr>pa_key = Some key, pa_type = Some asset_type, pa_role = role, pa_path = Some path, pa_content_type = Some media,
       pa_bytes = Some (int (length content)), pa_sha256 = Some (sha256_hex content), pa_etag = None, pa_required = required\<rparr>)"

definition build_asset_of ::
  "(string \<Rightarrow> bool) \<Rightarrow> string \<Rightarrow> string \<Rightarrow> string \<Rightarrow> 8 word list \<Rightarrow> string option \<Rightarrow> bool \<Rightarrow> py_error + build_asset" where
  "build_asset_of ip_ok key asset_type path content role required =
     bindE (build_manifest_asset ip_ok key asset_type path content role required) (\<lambda>a. Inr \<lparr>ba_asset = a, ba_content = content\<rparr>)"

definition tile_build_asset :: "(string \<Rightarrow> bool) \<Rightarrow> tileset_content \<Rightarrow> 8 word list \<Rightarrow> py_error + build_asset" where
  "tile_build_asset ip_ok t payload = bindE (tile_asset_key ip_ok (tc_resolved t)) (\<lambda>path.
     build_asset_of ip_ok path (tile_asset_type t) path payload None False)"

record package_context =
  pc_package_id :: string
  pc_edition_gate :: string
  pc_server_revision :: string
  pc_created_at :: py_datetime
  pc_stale_after :: py_datetime
  pc_offline_expires :: py_datetime
  pc_auth_expires :: "py_datetime option"
  pc_max_package_bytes :: "int option"
  pc_max_tilesets :: int

definition package_of :: "scene_metadata \<Rightarrow> package_context \<Rightarrow> build_asset list \<Rightarrow> package_manifest" where
  "package_of scene pc assets = (let declared = int (sum_list (map (\<lambda>a. length (ba_content a)) assets)) in
     \<lparr>pm_schema_version = Some current_package_schema_version, pm_package_id = Some (pc_package_id pc), pm_scene_id = Some (sm_id scene),
       pm_display_name = Some (sm_name scene), pm_edition_gate = Some (pc_edition_gate pc), pm_server_revision = Some (pc_server_revision pc),
       pm_created_at = Some (pc_created_at pc), pm_stale_after = Some (pc_stale_after pc), pm_offline_expires = Some (pc_offline_expires pc),
       pm_auth_expires = pc_auth_expires pc, pm_extent = sm_bounds scene, pm_lod = Some \<lparr>pl_min_zoom = Some 0, pl_max_zoom = Some 0, pl_max_error = None\<rparr>,
       pm_budget = Some \<lparr>pb_max_bytes = Some (case pc_max_package_bytes pc of None \<Rightarrow> declared | Some b \<Rightarrow> b), pb_declared_bytes = Some declared\<rparr>,
       pm_attribution = sm_attribution scene, pm_assets = map ba_asset assets, pm_raw = []\<rparr>)"

definition assemble_scene_package ::
  "(string \<Rightarrow> bool) \<Rightarrow> scene_metadata \<Rightarrow> 8 word list \<Rightarrow> 8 word list \<Rightarrow> build_asset list \<Rightarrow> package_context \<Rightarrow> py_error + build_result" where
  "assemble_scene_package ip_ok scene metadata_bytes tileset_bytes tiles pc =
     bindE (build_asset_of ip_ok ''scene-metadata'' ''scene-metadata'' ''scene.json'' metadata_bytes (Some ''scene-metadata'') True) (\<lambda>metadata_asset.
     bindE (build_asset_of ip_ok ''tileset'' ''3d-tileset'' ''tileset.json'' tileset_bytes (Some ''primary-tileset'') True) (\<lambda>tileset_asset.
     let assets = metadata_asset # tileset_asset # tiles in
     Inr \<lparr>br_manifest = package_of scene pc assets, br_assets = assets\<rparr>))"

text \<open>Datetimes: adding seconds (beyond the year 9999 raises), the difference of an aware one and another
  and its half in whole microseconds, and \<open>strftime("%Y%m%d%H%M%S")\<close>.\<close>

definition dt_add :: "py_datetime \<Rightarrow> rat \<Rightarrow> py_error + py_datetime" where
  "dt_add d s = (let c = dt_clock d + s in if c < - 62135596800 \<or> 253402300800 \<le> c then Inl ErrOverflow else Inr (d\<lparr>dt_clock := c\<rparr>))"

definition dt_diff :: "py_datetime \<Rightarrow> py_datetime \<Rightarrow> py_error + rat" where
  "dt_diff a b = (if (dt_offset a = None) \<noteq> (dt_offset b = None) then Inl ErrType else Inr (datetime_instant a - datetime_instant b))"

definition half_micros :: "rat \<Rightarrow> rat" where
  "half_micros s = of_int (round_even (s * 1000000 / 2)) / 1000000"

definition civil_date :: "int \<Rightarrow> int \<times> int \<times> int" where
  "civil_date days = (let z = days + 719468; era = z div 146097; doe = z mod 146097;
       yoe = (doe - doe div 1460 + doe div 36524 - doe div 146096) div 365; doy = doe - (365 * yoe + yoe div 4 - yoe div 100);
       mp = (5 * doy + 2) div 153; m = (if mp < 10 then mp + 3 else mp - 9)
     in (yoe + era * 400 + (if m \<le> 2 then 1 else 0), m, doy - (153 * mp + 2) div 5 + 1))"

definition dt_stamp :: "py_datetime \<Rightarrow> string" where
  "dt_stamp d = (let s = \<lfloor>dt_clock d\<rfloor>; t = s mod 86400; (y, m, day) = civil_date (s div 86400) in
     str_of_int y @ concat (map (\<lambda>n. pad2 (nat n)) [m, day, t div 3600, t div 60 mod 60, t mod 60]))"

definition require_id :: "string \<Rightarrow> scene_error + string" where
  "require_id i = (if str_strip i = [] then Inl (ScenePy ErrValue) else Inr (str_strip i))"

record build_options =
  bo_package_id :: "string option"
  bo_edition_gate :: string
  bo_server_revision :: "string option"
  bo_created_at :: "py_datetime option"
  bo_stale_after :: "py_datetime option"
  bo_offline_expires :: "py_datetime option"
  bo_auth_expires :: "py_datetime option"
  bo_max_package_bytes :: "int option"
  bo_max_tilesets :: int

definition nonempty_text :: "string option \<Rightarrow> string option" where
  "nonempty_text v = (case v of Some (c # cs) \<Rightarrow> Some (c # cs) | _ \<Rightarrow> None)"

definition resolve_package_context :: "string \<Rightarrow> build_options \<Rightarrow> py_datetime \<Rightarrow> scene_error + package_context" where
  "resolve_package_context scene_id opts now =
     (if \<not> supported_in supported_edition_gates (Some (bo_edition_gate opts)) \<or> bo_max_tilesets opts \<le> 0 then Inl (ScenePy ErrValue)
      else (let created = aware (case bo_created_at opts of None \<Rightarrow> now | Some d \<Rightarrow> d) in
        bindE (case bo_offline_expires opts of Some e \<Rightarrow> Inr e | None \<Rightarrow> scene_py (dt_add created (30 * 86400))) (\<lambda>expires.
        bindE (case bo_stale_after opts of Some s \<Rightarrow> Inr s
          | None \<Rightarrow> scene_py (bindE (dt_diff expires created) (\<lambda>d. dt_add created (half_micros d)))) (\<lambda>stale.
        bindE (case nonempty_text (bo_package_id opts) of Some i \<Rightarrow> Inr i
          | None \<Rightarrow> bindE (require_id scene_id) (\<lambda>i. Inr (''pkg_'' @ i @ ''_'' @ str_of_int (Py_Number.truncate (datetime_instant created))))) (\<lambda>package_id.
        Inr \<lparr>pc_package_id = package_id, pc_edition_gate = bo_edition_gate opts,
          pc_server_revision = (case nonempty_text (bo_server_revision opts) of Some r \<Rightarrow> r | None \<Rightarrow> dt_stamp created),
          pc_created_at = created, pc_stale_after = stale, pc_offline_expires = expires, pc_auth_expires = bo_auth_expires opts,
          pc_max_package_bytes = bo_max_package_bytes opts, pc_max_tilesets = bo_max_tilesets opts\<rparr>)))))"

section \<open>The scene client\<close>

definition default_scene_root :: string where "default_scene_root = ''/api/scenes''"
definition default_tileset_root :: string where "default_tileset_root = ''/scenes''"
definition default_elevation_root :: string where "default_elevation_root = ''/elevation''"

definition tileset_path :: "string \<Rightarrow> string" where
  "tileset_path scene_id = default_tileset_root @ ''/'' @ encode_path_segment scene_id @ ''/tileset.json''"

definition scene_asset_path :: "(string \<Rightarrow> bool) \<Rightarrow> string \<Rightarrow> string \<Rightarrow> py_error + string" where
  "scene_asset_path ip_ok scene_id asset_path = (let cleaned = str_strip asset_path in
     if cleaned = [] then Inl ErrValue
     else bindE (urlsplit ip_ok cleaned) (\<lambda>u.
       let (path, query) = (if up_query u \<noteq> [] then (up_path u, ''?'' @ up_query u) else (cleaned, []));
           segments = str_join ''/'' (map encode_path_segment (filter (\<lambda>s. s \<noteq> []) (str_split_char (CHR ''/'') path)))
       in Inr (default_tileset_root @ ''/'' @ encode_path_segment scene_id @ ''/'' @ segments @ query)))"

definition scene_client :: "(client_error + 'a) \<times> 'w \<Rightarrow> (scene_error + 'a) \<times> 'w" where
  "scene_client res = (case res of (Inl e, w) \<Rightarrow> (Inl (SceneClient e), w) | (Inr x, w) \<Rightarrow> (Inr x, w))"

definition scene_json ::
  "('h, 'w) http_lib \<Rightarrow> honua_client \<Rightarrow> call_options \<Rightarrow> string \<Rightarrow> (string, pyval) pydict option \<Rightarrow> 'w \<Rightarrow> (scene_error + (string, pyval) pydict) \<times> 'w" where
  "scene_json lib c opts path params w = scene_client (client_request_json lib c (prepared ''GET'' path params) None opts w)"

record binary_response =
  bi_content :: "8 word list"
  bi_content_type :: "string option"
  bi_cache_control :: "string option"
  bi_etag :: "string option"
  bi_last_modified :: "string option"
  bi_expires :: "string option"
  bi_headers :: "(string \<times> string) list"
  bi_status_code :: int

definition binary_from_httpx :: "http_response \<times> 8 word list \<Rightarrow> binary_response" where
  "binary_from_httpx rc = (case rc of (r, content) \<Rightarrow> \<lparr>bi_content = content, bi_content_type = header_get r ''content-type'',
     bi_cache_control = header_get r ''cache-control'', bi_etag = header_get r ''etag'', bi_last_modified = header_get r ''last-modified'',
     bi_expires = header_get r ''expires'', bi_headers = header_items r, bi_status_code = status_code r\<rparr>)"

definition list_scenes ::
  "('h, 'w) http_lib \<Rightarrow> honua_client \<Rightarrow> 'w scene_env \<Rightarrow> string list option \<Rightarrow> bool option \<Rightarrow> string \<Rightarrow> (string, pyval) pydict option \<Rightarrow> call_options \<Rightarrow> 'w \<Rightarrow>
   (scene_error + scene_summary list) \<times> 'w" where
  "list_scenes lib c env caps include_disabled response_format extra opts w =
     (case scene_json lib c opts default_scene_root (Some (scene_list_params caps include_disabled response_format extra)) w of
        (r, w1) \<Rightarrow> (bindE r (\<lambda>d. bindE (enumerate_scene_items (PDict d)) (\<lambda>items.
          mapE (parse_scene_summary (sv_iso env)) (List.map_filter as_dict items))), w1))"

definition get_scene ::
  "('h, 'w) http_lib \<Rightarrow> honua_client \<Rightarrow> 'w scene_env \<Rightarrow> string \<Rightarrow> call_options \<Rightarrow> 'w \<Rightarrow> (scene_error + scene_metadata) \<times> 'w" where
  "get_scene lib c env scene_id opts w = (case require_id scene_id of
     Inl e \<Rightarrow> (Inl e, w)
   | Inr i \<Rightarrow> (case scene_json lib c opts (default_scene_root @ ''/'' @ encode_path_segment i) (Some [(''f'', PStr ''json'')]) w of
        (r, w1) \<Rightarrow> (bindE r (parse_scene_metadata (sv_iso env)), w1)))"

definition resolve_scene ::
  "('h, 'w) http_lib \<Rightarrow> honua_client \<Rightarrow> 'w scene_env \<Rightarrow> string \<Rightarrow> string list option \<Rightarrow> bool \<Rightarrow> string \<Rightarrow> (string, pyval) pydict option \<Rightarrow> call_options \<Rightarrow> 'w \<Rightarrow>
   (scene_error + scene_resolution) \<times> 'w" where
  "resolve_scene lib c env scene_id caps include_terrain response_format extra opts w = (case require_id scene_id of
     Inl e \<Rightarrow> (Inl e, w)
   | Inr i \<Rightarrow> (case scene_json lib c opts (default_scene_root @ ''/'' @ encode_path_segment i @ ''/resolve'')
            (Some (scene_resolve_params caps include_terrain response_format extra)) w of
        (r, w1) \<Rightarrow> (bindE r (\<lambda>d. bindE (parse_scene_resolution (sv_iso env) d i) (\<lambda>res.
          bindE (ensure_capabilities (sr_capabilities res) caps) (\<lambda>_. Inr res))), w1)))"

definition get_tileset ::
  "('h, 'w) http_lib \<Rightarrow> honua_client \<Rightarrow> string \<Rightarrow> call_options \<Rightarrow> 'w \<Rightarrow> (scene_error + (string, pyval) pydict) \<times> 'w" where
  "get_tileset lib c scene_id opts w = (case require_id scene_id of Inl e \<Rightarrow> (Inl e, w) | Inr i \<Rightarrow> scene_json lib c opts (tileset_path i) None w)"

definition fetch_tile ::
  "('h, 'w) http_lib \<Rightarrow> honua_client \<Rightarrow> 'w scene_env \<Rightarrow> string \<Rightarrow> string \<Rightarrow> call_options \<Rightarrow> 'w \<Rightarrow> (scene_error + binary_response) \<times> 'w" where
  "fetch_tile lib c env scene_id asset_path opts w =
     (case bindE (require_id scene_id) (\<lambda>i. scene_py (scene_asset_path (sv_ip_ok env) i asset_path)) of
        Inl e \<Rightarrow> (Inl e, w)
      | Inr path \<Rightarrow> (case scene_client (client_request lib c (prepared ''GET'' path None) None opts w) of
           (r, w1) \<Rightarrow> (bindE r (\<lambda>rc. Inr (binary_from_httpx rc)), w1)))"

text \<open>
  The download loop of \<open>build_offline_package\<close>: what is pending, the paths seen, the tilesets read so
  far and the assets built, each beside the reference it was built for. A nested tileset beyond
  the first \<open>limit\<close> is downloaded but not read.
\<close>

function fetch_contents ::
  "(string \<Rightarrow> 'w \<Rightarrow> (scene_error + 8 word list) \<times> 'w) \<Rightarrow> 'v scene_env \<Rightarrow> int \<Rightarrow> tileset_content list \<Rightarrow> string set \<Rightarrow> int \<Rightarrow>
   (tileset_content \<times> build_asset) list \<Rightarrow> 'w \<Rightarrow> (scene_error + (tileset_content \<times> build_asset) list \<times> int) \<times> 'w" where
  "fetch_contents fetch env limit [] seen n done' w = (Inr (done', n), w)"
| "fetch_contents fetch env limit (t # pending) seen n done' w =
     (if tc_resolved t \<in> seen then fetch_contents fetch env limit pending seen n done' w
      else (case fetch (tc_resolved t) w of
          (Inl e, w1) \<Rightarrow> (Inl e, w1)
        | (Inr content, w1) \<Rightarrow> (case scene_py (tile_build_asset (sv_ip_ok env) t content) of
             Inl e \<Rightarrow> (Inl e, w1)
           | Inr a \<Rightarrow>
               if tc_is_tileset t \<and> n < limit
               then (case bindE (case sv_loads env content of None \<Rightarrow> Inl ErrValue | Some v \<Rightarrow> Inr v) (\<lambda>v. enumerate_tileset_contents (sv_ip_ok env) v (tc_resolved t)) of
                   Inl e \<Rightarrow> (Inl (ScenePy e), w1)
                 | Inr found \<Rightarrow> fetch_contents fetch env limit (pending @ found) (insert (tc_resolved t) seen) (n + 1) (done' @ [(t, a)]) w1)
               else fetch_contents fetch env limit pending (insert (tc_resolved t) seen) n (done' @ [(t, a)]) w1)))"
  by pat_completeness auto
termination
  by (relation "measures [\<lambda>(_, _, limit, _, _, n, _). nat (limit - n), \<lambda>(_, _, _, pending, _). length pending]") auto

definition tile_bytes ::
  "('h, 'w) http_lib \<Rightarrow> honua_client \<Rightarrow> 'w scene_env \<Rightarrow> string \<Rightarrow> call_options \<Rightarrow> string \<Rightarrow> 'w \<Rightarrow> (scene_error + 8 word list) \<times> 'w" where
  "tile_bytes lib c env scene_id opts path w = (case fetch_tile lib c env scene_id path opts w of (r, w1) \<Rightarrow> (bindE r (\<lambda>b. Inr (bi_content b)), w1))"

definition build_offline_package ::
  "('h, 'w) http_lib \<Rightarrow> honua_client \<Rightarrow> 'w scene_env \<Rightarrow> string \<Rightarrow> build_options \<Rightarrow> call_options \<Rightarrow> 'w \<Rightarrow> (scene_error + build_result) \<times> 'w" where
  "build_offline_package lib c env scene_id bopts opts w =
     (case bindE (require_id scene_id) (\<lambda>i. bindE (resolve_package_context i bopts (sv_now env w)) (\<lambda>pc. Inr (i, pc))) of
        Inl e \<Rightarrow> (Inl e, w)
      | Inr (i, pc) \<Rightarrow> (case get_scene lib c env i opts w of
           (Inl e, w1) \<Rightarrow> (Inl e, w1)
         | (Inr scene, w1) \<Rightarrow> (case scene_metadata_bytes scene of
              Inl e \<Rightarrow> (Inl (ScenePy e), w1)
            | Inr metadata_bytes \<Rightarrow> (case tile_bytes lib c env i opts ''tileset.json'' w1 of
                 (Inl e, w2) \<Rightarrow> (Inl e, w2)
               | (Inr tileset_bytes, w2) \<Rightarrow> (case initial_tileset_queue env tileset_bytes of
                    Inl e \<Rightarrow> (Inl e, w2)
                  | Inr pending \<Rightarrow> (case fetch_contents (tile_bytes lib c env i opts) env (pc_max_tilesets pc) pending {} 1 [] w2 of
                       (r, w3) \<Rightarrow> (bindE r (\<lambda>(tiles, _). scene_py (assemble_scene_package (sv_ip_ok env) scene metadata_bytes tileset_bytes (map snd tiles) pc)), w3)))))))"

section \<open>The elevation client\<close>

definition elevation_at ::
  "('h, 'w) http_lib \<Rightarrow> honua_client \<Rightarrow> string \<Rightarrow> double \<Rightarrow> double \<Rightarrow> pyval option \<Rightarrow> pyval option \<Rightarrow> (string, pyval) pydict option \<Rightarrow> call_options \<Rightarrow> 'w \<Rightarrow>
   (scene_error + elevation_value) \<times> 'w" where
  "elevation_at lib c dataset_id x y srid mosaic_rule extra opts w = (case require_id dataset_id of
     Inl e \<Rightarrow> (Inl e, w)
   | Inr i \<Rightarrow> (case scene_json lib c opts (default_elevation_root @ ''/'' @ encode_path_segment i @ ''/value'') (Some (elevation_value_params x y srid mosaic_rule extra)) w of
        (r, w1) \<Rightarrow> (bindE r parse_elevation_value, w1)))"

definition elevation_along ::
  "('h, 'w) http_lib \<Rightarrow> honua_client \<Rightarrow> string \<Rightarrow> string \<Rightarrow> pyval option \<Rightarrow> pyval option \<Rightarrow> pyval option \<Rightarrow> pyval option \<Rightarrow> (string, pyval) pydict option \<Rightarrow>
   call_options \<Rightarrow> 'w \<Rightarrow> (scene_error + elevation_profile) \<times> 'w" where
  "elevation_along lib c dataset_id line sample_count interval srid mosaic_rule extra opts w = (case require_id dataset_id of
     Inl e \<Rightarrow> (Inl e, w)
   | Inr i \<Rightarrow> (case scene_json lib c opts (default_elevation_root @ ''/'' @ encode_path_segment i @ ''/profile'')
          (Some (elevation_profile_params line sample_count interval srid mosaic_rule extra)) w of
        (r, w1) \<Rightarrow> (bindE r parse_elevation_profile, w1)))"

section \<open>The digest\<close>

lemma all_digits: "list_all (\<lambda>n. hex_value (hex_digit n) \<noteq> None \<and> \<not> char_is_space (hex_digit n)) [0..<16]"
  by (simp add: upt_rec hex_digit_def hex_value_def char_is_space_def char_is_digit_def char_lower_def Let_def)

lemma hex_digit_value: "n < 16 \<Longrightarrow> hex_value (hex_digit n) \<noteq> None \<and> \<not> char_is_space (hex_digit n)"
  using all_digits by (simp add: list_all_iff del: not_None_eq)

lemma sha_hex_digits: "list_all (\<lambda>c. hex_value c \<noteq> None \<and> \<not> char_is_space c) (map (\<lambda>i. hex_digit (unat (drop_bit (4 * i) w AND (15 :: 32 word)))) is)"
proof -
  have "unat (x AND 15 :: 32 word) < 16" for x
    using word_and_le1 [of x 15] by (simp add: word_le_nat_alt)
  then show ?thesis by (simp add: list_all_iff hex_digit_value del: not_None_eq)
qed

lemma length_sha_round: "length st = 8 \<Longrightarrow> length (sha_round st kw) = 8"
  by (auto simp: sha_round_def Let_def split: list.splits)

lemma length_sha_fold: "length st = 8 \<Longrightarrow> length (foldl sha_round st kws) = 8"
  by (induction kws arbitrary: st) (simp_all add: length_sha_round)

lemma length_sha_blocks: "length st = 8 \<Longrightarrow> length (sha_blocks n st ws) = 8"
  by (induction n arbitrary: st ws) (simp_all add: sha_block_def length_sha_fold)

lemma list_all_concat: "(\<And>x. list_all P (f x)) \<Longrightarrow> list_all P (concat (map f xs))"
  by (induction xs) simp_all

lemma sha256_digits: "length (sha256_hex content) = 64" "list_all (\<lambda>c. hex_value c \<noteq> None \<and> \<not> char_is_space c) (sha256_hex content)"
proof -
  define st where "st = sha_blocks (length (sha_words (sha_pad content)) div 16) sha_start (sha_words (sha_pad content))"
  have st: "length st = 8" by (simp add: st_def length_sha_blocks sha_start_def)
  have hex: "sha256_hex content = concat (map sha_hex st)" by (simp add: sha256_hex_def Let_def st_def)
  have "length (sha_hex w) = 8" for w by (simp add: sha_hex_def)
  then show "length (sha256_hex content) = 64" using st by (simp add: hex length_concat comp_def sum_list_triv)
  show "list_all (\<lambda>c. hex_value c \<noteq> None \<and> \<not> char_is_space c) (sha256_hex content)"
    using sha_hex_digits [of _ "[7, 6, 5, 4, 3, 2, 1, 0]"] unfolding hex sha_hex_def by (rule list_all_concat)
qed

lemma sha256_valid [simp]: "is_valid_sha256 (Some (sha256_hex content))"
proof -
  have "str_strip (sha256_hex content) = sha256_hex content"
    by (rule str_strip_solid) (use sha256_digits(2) [of content] in \<open>simp add: list_all_iff\<close>)
  moreover have "hex64 (sha256_hex content)"
    using sha256_digits [of content] by (simp add: hex64_def list_all_iff)
  moreover have "sha256_hex content \<noteq> []" using sha256_digits(1) [of content] by auto
  ultimately show ?thesis by (simp add: is_valid_sha256_def Let_def)
qed

section \<open>When the built package is valid\<close>

lemma build_asset_of_Inr:
  "build_asset_of ip_ok key asset_type path content role required = Inr a \<Longrightarrow>
   ba_content a = content \<and> pa_key (ba_asset a) = Some key \<and> pa_type (ba_asset a) = Some asset_type \<and> pa_path (ba_asset a) = Some path \<and>
   pa_bytes (ba_asset a) = Some (int (length content)) \<and> pa_sha256 (ba_asset a) = Some (sha256_hex content) \<and> pa_required (ba_asset a) = required"
  by (auto simp: build_asset_of_def build_manifest_asset_def bindE_eq_Inr)

text \<open>What every asset of a package is: its manifest entry has the size and the digest of its bytes.\<close>

definition faithful_asset :: "build_asset \<Rightarrow> bool" where
  "faithful_asset a \<longleftrightarrow> pa_bytes (ba_asset a) = Some (int (length (ba_content a))) \<and> pa_sha256 (ba_asset a) = Some (sha256_hex (ba_content a))"

definition is_tile_asset :: "build_asset \<Rightarrow> bool" where
  "is_tile_asset a \<longleftrightarrow> faithful_asset a \<and> \<not> pa_required (ba_asset a) \<and> pa_key (ba_asset a) = pa_path (ba_asset a) \<and> pa_path (ba_asset a) \<noteq> None \<and>
     (pa_type (ba_asset a) = Some ''3d-tileset'' \<or> pa_type (ba_asset a) = Some ''3d-tile-content'')"

lemma tile_build_asset_Inr: "tile_build_asset ip_ok t payload = Inr a \<Longrightarrow> is_tile_asset a \<and> ba_content a = payload"
  by (cases "tc_is_tileset t") (auto simp: tile_build_asset_def bindE_eq_Inr is_tile_asset_def faithful_asset_def tile_asset_type_def dest!: build_asset_of_Inr)

lemma assemble_Inr:
  assumes "assemble_scene_package ip_ok scene metadata_bytes tileset_bytes tiles pc = Inr b"
  obtains m t where "br_assets b = m # t # tiles" "ba_content m = metadata_bytes" "ba_content t = tileset_bytes"
    "faithful_asset m" "faithful_asset t" "pa_key (ba_asset m) = Some ''scene-metadata''" "pa_key (ba_asset t) = Some ''tileset''"
    "pa_path (ba_asset m) = Some ''scene.json''" "pa_path (ba_asset t) = Some ''tileset.json''"
    "pa_type (ba_asset m) = Some ''scene-metadata''" "pa_type (ba_asset t) = Some ''3d-tileset''" "pa_required (ba_asset m)"
    "br_manifest b = package_of scene pc (br_assets b)"
proof -
  obtain m t where mt: "build_asset_of ip_ok ''scene-metadata'' ''scene-metadata'' ''scene.json'' metadata_bytes (Some ''scene-metadata'') True = Inr m"
    "build_asset_of ip_ok ''tileset'' ''3d-tileset'' ''tileset.json'' tileset_bytes (Some ''primary-tileset'') True = Inr t"
    and b: "b = \<lparr>br_manifest = package_of scene pc (m # t # tiles), br_assets = m # t # tiles\<rparr>"
    using assms by (auto simp: assemble_scene_package_def bindE_eq_Inr Let_def)
  show ?thesis by (rule that [of m t]) (use mt [THEN build_asset_of_Inr] b in \<open>auto simp: faithful_asset_def\<close>)
qed



section \<open>What a package holds\<close>

text \<open>One turn of the download loop, and what every turn keeps holds of the result.\<close>

inductive fetch_turn :: "(string \<Rightarrow> 'w \<Rightarrow> (scene_error + 8 word list) \<times> 'w) \<Rightarrow> 'v scene_env \<Rightarrow> int \<Rightarrow> tileset_content list \<times> string set \<times> int \<times> (tileset_content \<times> build_asset) list \<Rightarrow>
    tileset_content list \<times> string set \<times> int \<times> (tileset_content \<times> build_asset) list \<Rightarrow> bool" for fetch env limit where
  skip: "tc_resolved t \<in> s \<Longrightarrow> fetch_turn fetch env limit (t # p, s, n, d) (p, s, n, d)"
| leaf: "tc_resolved t \<notin> s \<Longrightarrow> fetch (tc_resolved t) w = (Inr content, w') \<Longrightarrow> tile_build_asset (sv_ip_ok env) t content = Inr a \<Longrightarrow> \<not> (tc_is_tileset t \<and> n < limit) \<Longrightarrow>
    fetch_turn fetch env limit (t # p, s, n, d) (p, insert (tc_resolved t) s, n, d @ [(t, a)])"
| nested: "tc_resolved t \<notin> s \<Longrightarrow> fetch (tc_resolved t) w = (Inr content, w') \<Longrightarrow> tile_build_asset (sv_ip_ok env) t content = Inr a \<Longrightarrow> tc_is_tileset t \<Longrightarrow> n < limit \<Longrightarrow>
    sv_loads env content = Some v \<Longrightarrow> enumerate_tileset_contents (sv_ip_ok env) v (tc_resolved t) = Inr found \<Longrightarrow>
    fetch_turn fetch env limit (t # p, s, n, d) (p @ found, insert (tc_resolved t) s, n + 1, d @ [(t, a)])"

lemma fetch_contents_turns:
  "fetch_contents fetch env limit pending seen n done' w = (Inr (r, n'), w') \<Longrightarrow>
   \<exists>s. (fetch_turn fetch env limit)\<^sup>*\<^sup>* (pending, seen, n, done') ([], s, n', r)"
proof (induction fetch env limit pending seen n done' w rule: fetch_contents.induct)
  case (2 fetch env limit t pending seen n done' w)
  show ?case
  proof (cases "tc_resolved t \<in> seen")
    case True
    then have "\<exists>s. (fetch_turn fetch env limit)\<^sup>*\<^sup>* (pending, seen, n, done') ([], s, n', r)" using 2(1) 2(4) by simp
    then show ?thesis using fetch_turn.skip [OF True, of fetch env limit pending n done'] by (meson converse_rtranclp_into_rtranclp)
  next
    case False
    then obtain content w1 a where f: "fetch (tc_resolved t) w = (Inr content, w1)" and a: "scene_py (tile_build_asset (sv_ip_ok env) t content) = Inr a"
      using 2(4) by (auto split: sum.splits prod.splits)
    then have tile: "tile_build_asset (sv_ip_ok env) t content = Inr a" by (auto simp: scene_py_def split: sum.splits)
    show ?thesis
    proof (cases "tc_is_tileset t \<and> n < limit")
      case True
      then obtain found where e: "bindE (case sv_loads env content of None \<Rightarrow> Inl ErrValue | Some v \<Rightarrow> Inr v) (\<lambda>v. enumerate_tileset_contents (sv_ip_ok env) v (tc_resolved t)) = Inr found"
        using 2(4) False f a by (auto split: sum.splits)
      then obtain v where v: "sv_loads env content = Some v" "enumerate_tileset_contents (sv_ip_ok env) v (tc_resolved t) = Inr found"
        by (auto simp: bindE_eq_Inr split: option.splits)
      have "\<exists>s. (fetch_turn fetch env limit)\<^sup>*\<^sup>* (pending @ found, insert (tc_resolved t) seen, n + 1, done' @ [(t, a)]) ([], s, n', r)"
        using 2(2) [OF False f [symmetric] refl a True e] 2(4) False f a e True by simp
      then show ?thesis using fetch_turn.nested [where fetch = fetch and p = pending and d = done', OF False f tile conjunct1 [OF True] conjunct2 [OF True] v]
        by (meson converse_rtranclp_into_rtranclp)
    next
      case no: False
      have "\<exists>s. (fetch_turn fetch env limit)\<^sup>*\<^sup>* (pending, insert (tc_resolved t) seen, n, done' @ [(t, a)]) ([], s, n', r)"
        using 2(3) [OF False f [symmetric] refl a no] 2(4) False f a no by simp
      then show ?thesis using fetch_turn.leaf [where fetch = fetch and p = pending and d = done', OF False f tile no] by (meson converse_rtranclp_into_rtranclp)
    qed
  qed
qed auto


definition tilesets_of :: "(tileset_content \<times> build_asset) list \<Rightarrow> nat" where
  "tilesets_of d = length (filter (\<lambda>(t, _). tc_is_tileset t) d)"

definition tile_names :: "(tileset_content \<times> build_asset) list \<Rightarrow> string list" where
  "tile_names d = map (\<lambda>(t, _). tc_resolved t) d"

text \<open>The references a document makes, read as a tileset at \<open>path\<close>, are among \<open>names\<close>.\<close>

definition refers_within :: "'v scene_env \<Rightarrow> 8 word list \<Rightarrow> string \<Rightarrow> string set \<Rightarrow> bool" where
  "refers_within env content path names \<longleftrightarrow> (\<exists>v found. sv_loads env content = Some v \<and> enumerate_tileset_contents (sv_ip_ok env) v path = Inr found \<and>
     tc_resolved ` set found \<subseteq> names)"

lemma refers_within_mono: "refers_within env content path names \<Longrightarrow> names \<subseteq> names' \<Longrightarrow> refers_within env content path names'"
  unfolding refers_within_def by blast

text \<open>A tile and the file made of it: the bytes the server gave for its path, under this path without its query.\<close>

definition fetched_tile :: "(string \<Rightarrow> 'w \<Rightarrow> (scene_error + 8 word list) \<times> 'w) \<Rightarrow> 'v scene_env \<Rightarrow> tileset_content \<times> build_asset \<Rightarrow> bool" where
  "fetched_tile fetch env ta \<longleftrightarrow> is_tile_asset (snd ta) \<and> tile_asset_key (sv_ip_ok env) (tc_resolved (fst ta)) = Inr (the (pa_path (ba_asset (snd ta)))) \<and>
     (\<exists>w w'. fetch (tc_resolved (fst ta)) w = (Inr (ba_content (snd ta)), w'))"

definition turn_invariant ::
  "(string \<Rightarrow> 'w \<Rightarrow> (scene_error + 8 word list) \<times> 'w) \<Rightarrow> 'v scene_env \<Rightarrow> int \<Rightarrow> string set \<Rightarrow>
   tileset_content list \<times> string set \<times> int \<times> (tileset_content \<times> build_asset) list \<Rightarrow> bool" where
  "turn_invariant fetch env limit start st = (case st of (p, s, n, d) \<Rightarrow>
     s = set (tile_names d) \<and> distinct (tile_names d) \<and> n \<le> 1 + int (tilesets_of d) \<and> start \<subseteq> s \<union> tc_resolved ` set p \<and>
     (\<forall>ta \<in> set d. fetched_tile fetch env ta) \<and>
     (limit < 1 + int (tilesets_of d) \<or>
      (\<forall>(t, a) \<in> set d. tc_is_tileset t \<longrightarrow> refers_within env (ba_content a) (tc_resolved t) (s \<union> tc_resolved ` set p))))"

lemma turn_invariantD:
  assumes "turn_invariant fetch env limit start (p, s, n, d)"
  shows "s = set (tile_names d)" "distinct (tile_names d)" "n \<le> 1 + int (tilesets_of d)" "start \<subseteq> s \<union> tc_resolved ` set p"
    "\<forall>ta \<in> set d. fetched_tile fetch env ta" "limit < 1 + int (tilesets_of d) \<or>
      (\<forall>(t', a) \<in> set d. tc_is_tileset t' \<longrightarrow> refers_within env (ba_content a) (tc_resolved t') (s \<union> tc_resolved ` set p))"
  using assms unfolding turn_invariant_def prod.case by - (elim conjE, assumption)+

lemma tile_build_fetched:
  "tile_build_asset (sv_ip_ok env) t content = Inr a \<Longrightarrow> fetch (tc_resolved t) w = (Inr content, w') \<Longrightarrow> fetched_tile fetch env (t, a)"
  using tile_build_asset_Inr [of "sv_ip_ok env" t content a]
  by (auto simp: fetched_tile_def tile_build_asset_def bindE_eq_Inr dest!: build_asset_of_Inr)

lemma turn_keeps:
  assumes "fetch_turn fetch env limit st st'" "turn_invariant fetch env limit start st"
  shows "turn_invariant fetch env limit start st'"
  using assms
proof (cases rule: fetch_turn.cases)
  case (skip t s p n d)
  then have "insert (tc_resolved t) s = s" by auto
  then show ?thesis using assms(2) skip by (auto simp: turn_invariant_def insert_absorb)
next
  case (leaf t s w content w' a n p d)
  have old: "s = set (tile_names d)" "distinct (tile_names d)" "n \<le> 1 + int (tilesets_of d)" "start \<subseteq> s \<union> tc_resolved ` set (t # p)"
    "\<forall>ta \<in> set d. fetched_tile fetch env ta" "limit < 1 + int (tilesets_of d) \<or>
      (\<forall>(t', a) \<in> set d. tc_is_tileset t' \<longrightarrow> refers_within env (ba_content a) (tc_resolved t') (s \<union> tc_resolved ` set (t # p)))"
    by (fact turn_invariantD [OF assms(2) [unfolded leaf(1)]])+
  have names: "s \<union> tc_resolved ` set (t # p) = insert (tc_resolved t) s \<union> tc_resolved ` set p" by auto
  have tile: "fetched_tile fetch env (t, a)" by (rule tile_build_fetched [where fetch = fetch, OF leaf(5) leaf(4)])
  have count: "tilesets_of (d @ [(t, a)]) = tilesets_of d + (if tc_is_tileset t then 1 else 0)" by (simp add: tilesets_of_def)
  have read: "limit < 1 + int (tilesets_of (d @ [(t, a)])) \<or>
      (\<forall>(t', a) \<in> set (d @ [(t, a)]). tc_is_tileset t' \<longrightarrow> refers_within env (ba_content a) (tc_resolved t') (insert (tc_resolved t) s \<union> tc_resolved ` set p))"
    using old(3,6) leaf(6) unfolding names count by auto
  show ?thesis using old(1-5) leaf(2,3) tile count read names by (simp add: turn_invariant_def tile_names_def)
next
  case (nested t s w content w' a n v found p d)
  have old: "s = set (tile_names d)" "distinct (tile_names d)" "n \<le> 1 + int (tilesets_of d)" "start \<subseteq> s \<union> tc_resolved ` set (t # p)"
    "\<forall>ta \<in> set d. fetched_tile fetch env ta" "limit < 1 + int (tilesets_of d) \<or>
      (\<forall>(t', a) \<in> set d. tc_is_tileset t' \<longrightarrow> refers_within env (ba_content a) (tc_resolved t') (s \<union> tc_resolved ` set (t # p)))"
    by (fact turn_invariantD [OF assms(2) [unfolded nested(1)]])+
  let ?names = "insert (tc_resolved t) s \<union> tc_resolved ` set (p @ found)"
  have tile: "fetched_tile fetch env (t, a)" "ba_content a = content"
    using tile_build_fetched [where fetch = fetch, OF nested(5) nested(4)] tile_build_asset_Inr [OF nested(5)] by simp_all
  have count: "tilesets_of (d @ [(t, a)]) = tilesets_of d + 1" using nested(6) by (simp add: tilesets_of_def)
  have new: "refers_within env (ba_content a) (tc_resolved t) ?names"
    unfolding refers_within_def tile(2) using nested(8,9) by auto
  have sub: "s \<union> tc_resolved ` set (t # p) \<subseteq> ?names" by auto
  have "limit < 1 + int (tilesets_of (d @ [(t, a)])) \<or>
      (\<forall>(t', a) \<in> set (d @ [(t, a)]). tc_is_tileset t' \<longrightarrow> refers_within env (ba_content a) (tc_resolved t') ?names)"
    using old(6) new refers_within_mono [OF _ sub] unfolding count by fastforce
  moreover have "start \<subseteq> ?names" using old(4) sub by (rule subset_trans)
  ultimately show ?thesis using old(1-3,5) nested(2,3) tile(1) count by (simp add: turn_invariant_def tile_names_def)
qed

lemma fetch_contents_keeps:
  assumes "fetch_contents fetch env limit pending {} 1 [] w = (Inr (r, n'), w')"
  shows "distinct (tile_names r)" "tc_resolved ` set pending \<subseteq> set (tile_names r)" "\<And>ta. ta \<in> set r \<Longrightarrow> fetched_tile fetch env ta"
    "int (tilesets_of r) < limit \<Longrightarrow> \<forall>(t, a) \<in> set r. tc_is_tileset t \<longrightarrow> refers_within env (ba_content a) (tc_resolved t) (set (tile_names r))"
proof -
  let ?start = "tc_resolved ` set pending"
  obtain s where turns: "(fetch_turn fetch env limit)\<^sup>*\<^sup>* (pending, {}, 1, []) ([], s, n', r)" using fetch_contents_turns [OF assms] by blast
  have "turn_invariant fetch env limit ?start (pending, {}, 1, [])" by (simp add: turn_invariant_def tile_names_def tilesets_of_def)
  with turns have "turn_invariant fetch env limit ?start ([], s, n', r)" by (induction rule: rtranclp_induct) (auto intro: turn_keeps)
  then show "distinct (tile_names r)" "?start \<subseteq> set (tile_names r)" "\<And>ta. ta \<in> set r \<Longrightarrow> fetched_tile fetch env ta"
    "int (tilesets_of r) < limit \<Longrightarrow> \<forall>(t, a) \<in> set r. tc_is_tileset t \<longrightarrow> refers_within env (ba_content a) (tc_resolved t) (set (tile_names r))"
    by (auto simp: turn_invariant_def)
qed

text \<open>The steps of a build that succeeded.\<close>

lemma resolve_package_context_Inr:
  "resolve_package_context i opts now = Inr pc \<Longrightarrow> supported_in supported_edition_gates (Some (pc_edition_gate pc)) \<and>
   pc_max_package_bytes pc = bo_max_package_bytes opts \<and> pc_max_tilesets pc = bo_max_tilesets opts"
  by (auto simp: resolve_package_context_def bindE_eq_Inr Let_def split: if_splits)

lemma scene_py_eq_Inr [simp]: "scene_py m = Inr x \<longleftrightarrow> m = Inr x"
  by (simp add: scene_py_def split: sum.split)

lemma require_id_Inr: "require_id i = Inr j \<Longrightarrow> j = str_strip i"
  by (simp add: require_id_def split: if_splits)

lemma build_offline_package_Inr:
  assumes "build_offline_package lib c env scene_id bopts opts w = (Inr b, w')"
  obtains pc scene w1 mb tb w2 d found tiles n where
    "resolve_package_context (str_strip scene_id) bopts (sv_now env w) = Inr pc" "get_scene lib c env (str_strip scene_id) opts w = (Inr scene, w1)"
    "tile_bytes lib c env (str_strip scene_id) opts ''tileset.json'' w1 = (Inr tb, w2)" "sv_loads env tb = Some (PDict d)"
    "enumerate_tileset_contents (sv_ip_ok env) (PDict d) ''tileset.json'' = Inr found"
    "fetch_contents (tile_bytes lib c env (str_strip scene_id) opts) env (bo_max_tilesets bopts) found {} 1 [] w2 = (Inr (tiles, n), w')"
    "assemble_scene_package (sv_ip_ok env) scene mb tb (map snd tiles) pc = Inr b"
proof -
  obtain i pc where ctx: "bindE (require_id scene_id) (\<lambda>i. bindE (resolve_package_context i bopts (sv_now env w)) (\<lambda>pc. Inr (i, pc))) = Inr (i, pc)"
    using assms by (auto simp: build_offline_package_def split: sum.splits prod.splits)
  then have i: "i = str_strip scene_id" and pc: "resolve_package_context i bopts (sv_now env w) = Inr pc"
    by (auto simp: bindE_eq_Inr dest: require_id_Inr)
  obtain scene w1 where scene: "get_scene lib c env i opts w = (Inr scene, w1)"
    using assms unfolding build_offline_package_def ctx by (auto split: sum.splits prod.splits)
  obtain mb where mb: "scene_metadata_bytes scene = Inr mb"
    using assms unfolding build_offline_package_def ctx by (auto simp: scene split: sum.splits prod.splits)
  obtain tb w2 where tb: "tile_bytes lib c env i opts ''tileset.json'' w1 = (Inr tb, w2)"
    using assms unfolding build_offline_package_def ctx by (auto simp: scene mb split: sum.splits prod.splits)
  obtain found where q: "initial_tileset_queue env tb = Inr found"
    using assms unfolding build_offline_package_def ctx by (auto simp: scene mb tb split: sum.splits prod.splits)
  obtain r w3 where r: "fetch_contents (tile_bytes lib c env i opts) env (pc_max_tilesets pc) found {} 1 [] w2 = (r, w3)" by (metis surj_pair)
  have "bindE r (\<lambda>(tiles, _). scene_py (assemble_scene_package (sv_ip_ok env) scene mb tb (map snd tiles) pc)) = Inr b" "w' = w3"
    using assms unfolding build_offline_package_def ctx by (simp_all add: scene mb tb q r)
  then obtain tiles n where tiles: "r = Inr (tiles, n)" "assemble_scene_package (sv_ip_ok env) scene mb tb (map snd tiles) pc = Inr b" "w' = w3"
    by (auto simp: bindE_eq_Inr)
  obtain d where d: "sv_loads env tb = Some (PDict d)" "enumerate_tileset_contents (sv_ip_ok env) (PDict d) ''tileset.json'' = Inr found"
    using q by (auto simp: initial_tileset_queue_def split: option.splits pyval.splits)
  show ?thesis
    by (rule that [OF pc [unfolded i] scene [unfolded i] tb [unfolded i] d _ tiles(2)])
      (use r tiles resolve_package_context_Inr [OF pc] in \<open>simp add: i\<close>)
qed

lemma offline_package_files:
  assumes "build_offline_package lib c env scene_id bopts opts w = (Inr b, w')"
  shows "\<exists>document primary tiles. br_assets b = document # primary # map snd tiles \<and> distinct (tile_names tiles) \<and>
    refers_within env (ba_content primary) ''tileset.json'' (set (tile_names tiles)) \<and>
    (\<forall>ta \<in> set tiles. fetched_tile (tile_bytes lib c env (str_strip scene_id) opts) env ta) \<and>
    (int (tilesets_of tiles) < bo_max_tilesets bopts \<longrightarrow>
      (\<forall>(t, a) \<in> set tiles. tc_is_tileset t \<longrightarrow> refers_within env (ba_content a) (tc_resolved t) (set (tile_names tiles))))"
  using assms
proof (rule build_offline_package_Inr)
  fix pc scene w1 mb tb w2 d found tiles n
  assume d: "sv_loads env tb = Some (PDict d)" "enumerate_tileset_contents (sv_ip_ok env) (PDict d) ''tileset.json'' = Inr found"
    and r: "fetch_contents (tile_bytes lib c env (str_strip scene_id) opts) env (bo_max_tilesets bopts) found {} 1 [] w2 = (Inr (tiles, n), w')"
    and b: "assemble_scene_package (sv_ip_ok env) scene mb tb (map snd tiles) pc = Inr b"
  note keeps = fetch_contents_keeps [OF r]
  obtain m t where "br_assets b = m # t # map snd tiles" "ba_content t = tb" using assemble_Inr [OF b] by metis
  moreover have "refers_within env tb ''tileset.json'' (set (tile_names tiles))" using d keeps(2) by (auto simp: refers_within_def)
  ultimately show ?thesis using keeps(1,3,4) by blast
qed

section \<open>When the built package is valid\<close>

lemma built_types: "supported_in supported_asset_types (Some ''scene-metadata'')" "supported_in supported_asset_types (Some ''3d-tileset'')"
    "supported_in supported_asset_types (Some ''3d-tile-content'')" "supported_in {''scene-metadata''} (Some ''scene-metadata'')"
    "not_blank (Some ''scene-metadata'')" "not_blank (Some ''tileset'')" "is_safe_relative_path (Some ''scene.json'')" "is_safe_relative_path (Some ''tileset.json'')"
proof -
  have "str_lower ''scene-metadata'' = ''scene-metadata''" "str_lower ''3d-tileset'' = ''3d-tileset''" "str_lower ''3d-tile-content'' = ''3d-tile-content''" by code_simp+
  then show "supported_in supported_asset_types (Some ''scene-metadata'')" "supported_in supported_asset_types (Some ''3d-tileset'')"
    "supported_in supported_asset_types (Some ''3d-tile-content'')" "supported_in {''scene-metadata''} (Some ''scene-metadata'')"
    by (simp_all add: supported_in_def supported_asset_types_def)
  show "not_blank (Some ''scene-metadata'')" "not_blank (Some ''tileset'')" "is_safe_relative_path (Some ''scene.json'')" "is_safe_relative_path (Some ''tileset.json'')"
    by code_simp+
qed

lemma good_tile: "is_tile_asset a \<Longrightarrow> good_asset (ba_asset a) \<longleftrightarrow> is_safe_relative_path (pa_path (ba_asset a)) \<and> ba_content a \<noteq> []"
  using built_types(2,3) by (auto simp: is_tile_asset_def faithful_asset_def good_asset_def is_safe_relative_path_def not_blank_def)

lemma good_own:
  "faithful_asset a \<Longrightarrow> pa_key (ba_asset a) = Some k \<Longrightarrow> not_blank (Some k) \<Longrightarrow> supported_in supported_asset_types (pa_type (ba_asset a)) \<Longrightarrow>
   is_safe_relative_path (pa_path (ba_asset a)) \<Longrightarrow> good_asset (ba_asset a) \<longleftrightarrow> ba_content a \<noteq> []"
  by (auto simp: faithful_asset_def good_asset_def)

lemma faithful_size: "faithful_asset a \<Longrightarrow> asset_size (ba_asset a) = int (length (ba_content a))"
  by (simp add: faithful_asset_def asset_size_def)

lemma sum_faithful: "\<forall>a \<in> set as. faithful_asset a \<Longrightarrow> sum_list (map asset_size (map ba_asset as)) = int (sum_list (map (\<lambda>a. length (ba_content a)) as))"
  by (induction as) (simp_all add: faithful_size)

lemma good_budget_of_package:
  assumes "\<forall>a \<in> set as. faithful_asset a"
  shows "good_budget (package_of scene pc as) \<longleftrightarrow> 0 < sum_list (map (\<lambda>a. length (ba_content a)) as) \<and>
    (\<forall>limit. pc_max_package_bytes pc = Some limit \<longrightarrow> int (sum_list (map (\<lambda>a. length (ba_content a)) as)) \<le> limit)"
  using sum_faithful [OF assms] by (auto simp: good_budget_def package_of_def Let_def split: option.splits)

lemma built_package_rules:
  assumes "build_offline_package lib c env scene_id bopts opts w = (Inr b, w')"
  shows "pm_assets (br_manifest b) = map ba_asset (br_assets b) \<and> (\<forall>a \<in> set (br_assets b). faithful_asset a) \<and>
    (good_manifest (br_manifest b) \<longleftrightarrow>
      not_blank (pm_package_id (br_manifest b)) \<and> not_blank (pm_scene_id (br_manifest b)) \<and> not_blank (pm_server_revision (br_manifest b)) \<and>
      (\<exists>s e. pm_stale_after (br_manifest b) = Some s \<and> pm_offline_expires (br_manifest b) = Some e \<and> datetime_instant s \<le> datetime_instant e) \<and>
      (\<exists>e. pm_extent (br_manifest b) = Some e \<and> extent_ok e) \<and>
      (\<forall>limit. bo_max_package_bytes bopts = Some limit \<longrightarrow> int (total_bytes b) \<le> limit) \<and>
      (\<forall>a \<in> set (br_assets b). ba_content a \<noteq> []) \<and> (\<forall>a \<in> set (drop 2 (br_assets b)). is_safe_relative_path (pa_path (ba_asset a))) \<and>
      distinct (map (asset_name \<circ> ba_asset) (br_assets b)))"
  using assms
proof (rule build_offline_package_Inr)
  fix pc scene w1 mb tb w2 d found tiles n
  assume pc: "resolve_package_context (str_strip scene_id) bopts (sv_now env w) = Inr pc"
    and r: "fetch_contents (tile_bytes lib c env (str_strip scene_id) opts) env (bo_max_tilesets bopts) found {} 1 [] w2 = (Inr (tiles, n), w')"
    and b: "assemble_scene_package (sv_ip_ok env) scene mb tb (map snd tiles) pc = Inr b"
  obtain m t where mt: "br_assets b = m # t # map snd tiles" "faithful_asset m" "faithful_asset t"
      "pa_key (ba_asset m) = Some ''scene-metadata''" "pa_key (ba_asset t) = Some ''tileset''"
      "pa_path (ba_asset m) = Some ''scene.json''" "pa_path (ba_asset t) = Some ''tileset.json''"
      "pa_type (ba_asset m) = Some ''scene-metadata''" "pa_type (ba_asset t) = Some ''3d-tileset''" "pa_required (ba_asset m)"
    and man: "br_manifest b = package_of scene pc (br_assets b)"
    using assemble_Inr [OF b] by metis
  have tiles: "\<forall>a \<in> set (map snd tiles). is_tile_asset a" using fetch_contents_keeps(3) [OF r] by (auto simp: fetched_tile_def)
  then have faithful: "\<forall>a \<in> set (br_assets b). faithful_asset a" using mt(1-3) by (auto simp: is_tile_asset_def)
  have assets: "pm_assets (br_manifest b) = map ba_asset (br_assets b)" by (simp add: man package_of_def Let_def)
  note ctx = resolve_package_context_Inr [OF pc]
  have metadata: "\<exists>a \<in> set (pm_assets (br_manifest b)). is_scene_metadata a"
    using mt(1,8,10) built_types(4) by (auto simp: assets is_scene_metadata_def)
  have good: "(\<forall>a \<in> set (pm_assets (br_manifest b)). good_asset a) \<longleftrightarrow>
      (\<forall>a \<in> set (br_assets b). ba_content a \<noteq> []) \<and> (\<forall>a \<in> set (drop 2 (br_assets b)). is_safe_relative_path (pa_path (ba_asset a)))"
    using good_own [OF mt(2,4)] good_own [OF mt(3,5)] built_types mt tiles good_tile by (simp add: assets) blast
  have positive: "(\<forall>a \<in> set (br_assets b). ba_content a \<noteq> []) \<Longrightarrow> 0 < total_bytes b" by (simp add: mt(1) total_bytes_def)
  have budget: "good_budget (br_manifest b) \<longleftrightarrow> 0 < total_bytes b \<and> (\<forall>limit. bo_max_package_bytes bopts = Some limit \<longrightarrow> int (total_bytes b) \<le> limit)"
    using good_budget_of_package [OF faithful, of scene pc] ctx by (simp add: man total_bytes_def)
  have always: "supported_in supported_edition_gates (pm_edition_gate (br_manifest b))" "pm_created_at (br_manifest b) \<noteq> None"
    "pm_schema_version (br_manifest b) = Some current_package_schema_version" "\<exists>l. pm_lod (br_manifest b) = Some l \<and> lod_ok l"
    using ctx by (simp_all add: man package_of_def Let_def lod_ok_def)
  have keys: "map (\<lambda>a. map_option str_lower (pa_key a)) (pm_assets (br_manifest b)) = map (asset_name \<circ> ba_asset) (br_assets b)"
    by (simp add: assets asset_name_def)
  show ?thesis
    by (intro conjI assets faithful, unfold good_manifest_def budget keys good, simp only: always metadata simp_thms) (use positive in blast)
qed


text \<open>C30. What is missing for a built package to be valid: the manifest lists the files of the package with
  their true sizes and SHA-256 digests, and it satisfies the manifest rules exactly when the
  identifiers are not blank, it goes stale no later than it expires, the scene has legal bounds, the
  files fit a given maximum and none is empty, every tile lies at a relative path, and no two keys
  are the same, letter case ignored. The other rules always hold.\<close>

theorem built_package_valid_iff:
  assumes "build_offline_package lib c env scene_id bopts opts w = (Inr b, w')"
  shows "pm_assets (br_manifest b) = map ba_asset (br_assets b) \<and> (\<forall>a \<in> set (br_assets b). faithful_asset a) \<and>
    (good_manifest (br_manifest b) \<longleftrightarrow>
      not_blank (pm_package_id (br_manifest b)) \<and> not_blank (pm_scene_id (br_manifest b)) \<and> not_blank (pm_server_revision (br_manifest b)) \<and>
      (\<exists>s e. pm_stale_after (br_manifest b) = Some s \<and> pm_offline_expires (br_manifest b) = Some e \<and> datetime_instant s \<le> datetime_instant e) \<and>
      (\<exists>e. pm_extent (br_manifest b) = Some e \<and> extent_ok e) \<and>
      (\<forall>limit. bo_max_package_bytes bopts = Some limit \<longrightarrow> int (total_bytes b) \<le> limit) \<and>
      (\<forall>a \<in> set (br_assets b). ba_content a \<noteq> []) \<and> (\<forall>a \<in> set (drop 2 (br_assets b)). is_safe_relative_path (pa_path (ba_asset a))) \<and>
      distinct (map (asset_name \<circ> ba_asset) (br_assets b)))"
  using assms by (rule built_package_rules)

section \<open>A scene\<close>

text \<open>A server that answers every request with one document of a scene without bounds and a body of one
  byte, which reads as a tileset with one tile.\<close>

definition scene_document :: "(string, pyval) pydict" where
  "scene_document = [(''id'', PStr ''s1''), (''name'', PStr ''Harbour'')]"

definition tileset_document :: pyval where
  "tileset_document = PDict [(''root'', PDict [(''content'', PDict [(''uri'', PStr ''a.b3dm'')])])]"

definition scene_lib :: "((string, string) pydict, unit) http_lib" where
  "scene_lib = \<lparr>hl_url = (\<lambda>_. site), hl_path = (\<lambda>_. ''/''), hl_absolute = (\<lambda>_. False), hl_ops = dict_header_ops,
     hl_headers = (\<lambda>h. case h of None \<Rightarrow> [] | Some d \<Rightarrow> d), hl_provider = (\<lambda>_ w. (Inr [], w)),
     hl_send = (\<lambda>_ _ w. (Inr (json_answer scene_document, [7]), w)), hl_env = (\<lambda>_. plain_env),
     hl_ip6_loopback = (\<lambda>_. False), hl_insecure_env = None\<rparr>"

definition scene_env_of :: "unit scene_env" where
  "scene_env_of = \<lparr>sv_loads = (\<lambda>_. Some tileset_document), sv_ip_ok = (\<lambda>_. True), sv_iso = (\<lambda>_. None), sv_now = (\<lambda>_. january 1)\<rparr>"

definition scene_options :: build_options where
  "scene_options = \<lparr>bo_package_id = Some ''p'', bo_edition_gate = ''community'', bo_server_revision = Some ''r'', bo_created_at = None,
     bo_stale_after = Some (january 5), bo_offline_expires = Some (january 9), bo_auth_expires = None, bo_max_package_bytes = None, bo_max_tilesets = 64\<rparr>"

lemma scene_lib_request: "client_request scene_lib key_client prep None no_options () = (Inr (json_answer scene_document, [7]), ())"
proof -
  obtain h' where hook: "request_hook scene_lib (cl_session key_client) site (hl_headers scene_lib (merge_request_headers (pq_headers prep) None None)) () = (Inr h', ())"
    by (auto simp: request_hook_def built_client_def key_init_def apply_sensitive_auth_headers_def scene_lib_def site_lib_def Let_def bindE_def)
  have target: "request_target scene_lib key_client path = Inr (site, encode_request_path (join_base_path (cl_base_path key_client) path))" for path
    by (simp add: request_target_def scene_lib_def site_lib_def built_client_def Let_def)
  have send: "hl_send scene_lib s q' () = (Inr (json_answer scene_document, [7]), ())" for s q' by (simp add: scene_lib_def)
  have "status_code (json_answer d) = 200" for d by (simp add: json_answer_def answer_of_def)
  then show ?thesis using hook by (simp add: client_request_def target send)
qed

lemma scene_lib_scene:
  "get_scene scene_lib key_client scene_env_of ''s1'' no_options () = (parse_scene_metadata (\<lambda>_. None) scene_document, ())"
proof -
  have "raise_for_geoservices_error env r scene_document = Inr ()" for env r
    by (simp add: raise_for_geoservices_error_def scene_document_def get_or_none_def dict_get_def)
  then have "parse_json_response_body env (json_answer scene_document) = Inr scene_document" for env
    by (simp add: parse_json_response_body_def json_answer_def bindE_def)
  moreover have "require_id ''s1'' = Inr ''s1''" by code_simp
  ultimately show ?thesis
    by (simp add: get_scene_def scene_json_def scene_client_def client_request_json_def prepared_def scene_lib_request bindE_def scene_env_of_def)
qed

lemma scene_lib_tile:
  assumes "path = ''tileset.json'' \<or> path = ''a.b3dm''"
  shows "tile_bytes scene_lib key_client scene_env_of ''s1'' no_options path () = (Inr [7], ())"
proof -
  have "require_id ''s1'' = Inr ''s1''" by code_simp
  moreover have "\<exists>p. scene_asset_path (\<lambda>_. True) ''s1'' path = Inr p"
  proof -
    have "str_strip ''tileset.json'' = ''tileset.json''" "str_strip ''a.b3dm'' = ''a.b3dm''"
      "case urlsplit (\<lambda>_. True) ''tileset.json'' of Inl _ \<Rightarrow> False | Inr _ \<Rightarrow> True" "case urlsplit (\<lambda>_. True) ''a.b3dm'' of Inl _ \<Rightarrow> False | Inr _ \<Rightarrow> True" by code_simp+
    then show ?thesis using assms by (auto simp: scene_asset_path_def bindE_def Let_def split: sum.splits prod.splits)
  qed
  ultimately show ?thesis
    by (auto simp: tile_bytes_def fetch_tile_def scene_py_def scene_client_def prepared_def scene_lib_request bindE_def scene_env_of_def binary_from_httpx_def)
qed


lemma scene_parsed: "case parse_scene_metadata (\<lambda>_. None) scene_document of Inr m \<Rightarrow> sm_bounds m = None \<and> sm_raw m = scene_document \<and> sm_id m = ''s1'' | Inl _ \<Rightarrow> False"
  by code_simp

lemma scene_tiles: "enumerate_tileset_contents (\<lambda>_. True) tileset_document ''tileset.json'' = Inr [\<lparr>tc_uri = ''a.b3dm'', tc_resolved = ''a.b3dm'', tc_is_tileset = False\<rparr>]"
  by code_simp

lemma scene_built:
  "\<exists>b. build_offline_package scene_lib key_client scene_env_of ''s1'' scene_options no_options () = (Inr b, ()) \<and> pm_extent (br_manifest b) = None"
proof -
  have id: "require_id ''s1'' = Inr ''s1''" by code_simp
  have "case resolve_package_context ''s1'' scene_options (january 1) of Inr _ \<Rightarrow> True | Inl _ \<Rightarrow> False" by code_simp
  then obtain pc where pc: "resolve_package_context ''s1'' scene_options (january 1) = Inr pc" by (auto split: sum.splits)
  obtain m where m: "parse_scene_metadata (\<lambda>_. None) scene_document = Inr m" "sm_bounds m = None" "sm_raw m = scene_document"
    using scene_parsed by (auto split: sum.splits)
  have "case json_dumps (sort_keys (PDict scene_document)) of Inr _ \<Rightarrow> True | Inl _ \<Rightarrow> False" by code_simp
  then obtain mb where mb: "scene_metadata_bytes m = Inr mb"
    using m(3) by (auto simp: scene_metadata_bytes_def scene_document_def bindE_def split: sum.splits)
  let ?t = "\<lparr>tc_uri = ''a.b3dm'', tc_resolved = ''a.b3dm'', tc_is_tileset = False\<rparr>"
  have q: "initial_tileset_queue scene_env_of [7] = Inr [?t]"
    using scene_tiles by (simp add: initial_tileset_queue_def scene_env_of_def tileset_document_def)
  have url: "case urlsplit (\<lambda>_. True) p of Inr _ \<Rightarrow> True | Inl _ \<Rightarrow> False" if "p \<in> {''a.b3dm'', ''scene.json'', ''tileset.json''}" for p
    using that by (elim insertE emptyE; hypsubst) code_simp+
  have key: "case tile_asset_key (\<lambda>_. True) ''a.b3dm'' of Inr p \<Rightarrow> p = ''a.b3dm'' | Inl _ \<Rightarrow> False" by code_simp
  have asset: "\<exists>a. build_asset_of (\<lambda>_. True) k ty p c role req = Inr a" if "p \<in> {''a.b3dm'', ''scene.json'', ''tileset.json''}" for k ty p c role req
    using url [OF that] by (auto simp: build_asset_of_def build_manifest_asset_def content_type_for_path_def bindE_def split: sum.splits)
  obtain a where a: "tile_build_asset (\<lambda>_. True) ?t [7] = Inr a"
    using key asset [of "''a.b3dm''" "''a.b3dm''" "tile_asset_type ?t" "[7]" None False]
    by (auto simp: tile_build_asset_def bindE_def split: sum.splits)
  obtain x y where xy: "build_asset_of (\<lambda>_. True) ''scene-metadata'' ''scene-metadata'' ''scene.json'' mb (Some ''scene-metadata'') True = Inr x"
    "build_asset_of (\<lambda>_. True) ''tileset'' ''3d-tileset'' ''tileset.json'' [7] (Some ''primary-tileset'') True = Inr y"
    using asset by (metis insertI1 insertI2)
  have "assemble_scene_package (\<lambda>_. True) m mb [7] [a] pc = Inr \<lparr>br_manifest = package_of m pc [x, y, a], br_assets = [x, y, a]\<rparr>"
    by (simp add: assemble_scene_package_def xy bindE_def Let_def)
  moreover have "fetch_contents (tile_bytes scene_lib key_client scene_env_of ''s1'' no_options) scene_env_of limit [?t] {} 1 [] () = (Inr ([(?t, a)], 1), ())" for limit
    using scene_lib_tile [of "''a.b3dm''"] a by (simp add: scene_env_of_def scene_py_def)
  ultimately have "build_offline_package scene_lib key_client scene_env_of ''s1'' scene_options no_options () = (Inr \<lparr>br_manifest = package_of m pc [x, y, a], br_assets = [x, y, a]\<rparr>, ())"
    using scene_lib_scene scene_lib_tile [of "''tileset.json''"] q mb m pc id by (simp add: build_offline_package_def bindE_def scene_env_of_def scene_py_def)
  then show ?thesis using m(2) by (auto simp: package_of_def Let_def)
qed


lemma built_package_valid_iff_witness:
  "\<exists>b. build_offline_package scene_lib key_client scene_env_of ''s1'' scene_options no_options () = (Inr b, ()) \<and> \<not> good_manifest (br_manifest b) \<and>
     (\<exists>a \<in> set (br_assets b). faithful_asset a)"
proof -
  obtain b where b: "build_offline_package scene_lib key_client scene_env_of ''s1'' scene_options no_options () = (Inr b, ())" "pm_extent (br_manifest b) = None"
    using scene_built by blast
  moreover have "br_assets b \<noteq> []" using offline_package_files [OF b(1)] by auto
  ultimately show ?thesis using built_package_valid_iff [OF b(1)] by (metis list.set_intros(1) list.exhaust option.distinct(1))
qed

section \<open>Corners\<close>

text \<open>A slash in the query of a nested tileset moves the tiles it refers to.\<close>

lemma slash_in_query: "resolve_tileset_relative_path (\<lambda>_. True) ''sub/tileset.json?k=a/b'' ''t.b3dm'' = Inr ''sub/tileset.json?k=a/t.b3dm''"
  by code_simp

text \<open>A tile may be stored under the path of the metadata file, with another key, so that both pass the
  validator.\<close>

lemma tile_over_metadata:
  "tile_build_asset (\<lambda>_. True) \<lparr>tc_uri = ''scene.json'', tc_resolved = ''scene.json'', tc_is_tileset = True\<rparr> payload = Inr a \<Longrightarrow>
   pa_path (ba_asset a) = Some ''scene.json'' \<and> asset_name (ba_asset a) \<noteq> Some ''scene-metadata''"
proof -
  assume a: "tile_build_asset (\<lambda>_. True) \<lparr>tc_uri = ''scene.json'', tc_resolved = ''scene.json'', tc_is_tileset = True\<rparr> payload = Inr a"
  have "case tile_asset_key (\<lambda>_. True) ''scene.json'' of Inr p \<Rightarrow> p = ''scene.json'' | Inl _ \<Rightarrow> False" "str_lower ''scene.json'' = ''scene.json''" by code_simp+
  then show ?thesis using a by (auto simp: tile_build_asset_def bindE_def asset_name_def split: sum.splits dest!: build_asset_of_Inr)
qed

end
