(* ===== verification/Admin_Models.thy ===== *)
theory Admin_Models
  imports Core_Client Gp_Session
begin

text \<open>
  The data models of the admin package (\<open>honua_admin/_models.py\<close>): the names of members on the wire, how
  a model is read from a document and written back, the model classes, and the check of a server's
  compatibility contract. A class is its fields with their defaults and the steps its \<open>from_dict\<close> takes;
  reading and writing are one function each, as the code's share \<open>_snake_keys\<close>, \<open>_extract_fields\<close>,
  \<open>_model_list\<close> and \<open>_dataclass_to_camel_dict\<close>.
\<close>

section \<open>Names on the wire\<close>

definition is_upper :: "char \<Rightarrow> bool" where
  "is_upper c \<longleftrightarrow> 65 \<le> (of_char c :: nat) \<and> of_char c \<le> (90 :: nat)"

definition is_lower :: "char \<Rightarrow> bool" where
  "is_lower c \<longleftrightarrow> 97 \<le> (of_char c :: nat) \<and> of_char c \<le> (122 :: nat)"

text \<open>The first substitution separates the last capital of a run from the run when a small letter
  follows, the second a capital from the small letter or digit before it.\<close>

fun split_acronyms :: "string \<Rightarrow> string" where
  "split_acronyms (a # b # c # r) = (if is_upper a \<and> is_upper b \<and> is_lower c then a # CHR ''_'' # split_acronyms (b # c # r) else a # split_acronyms (b # c # r))"
| "split_acronyms s = s"

fun split_words :: "string \<Rightarrow> string" where
  "split_words (a # b # r) = (if (is_lower a \<or> char_is_digit a) \<and> is_upper b then a # CHR ''_'' # split_words (b # r) else a # split_words (b # r))"
| "split_words s = s"

definition to_snake :: "string \<Rightarrow> string" where
  "to_snake n = str_lower (split_words (split_acronyms n))"

definition str_capitalize :: "string \<Rightarrow> string" where
  "str_capitalize s = (case s of [] \<Rightarrow> [] | c # cs \<Rightarrow> char_upper c # str_lower cs)"

definition to_camel :: "string \<Rightarrow> string" where
  "to_camel n = (case str_split_char (CHR ''_'') n of [] \<Rightarrow> [] | p # ps \<Rightarrow> p @ concat (map str_capitalize ps))"

definition camel_keys :: "(string, pyval) pydict \<Rightarrow> (string, pyval) pydict" where
  "camel_keys d = put_all dict_set [] (map (\<lambda>(k, v). (to_camel k, v)) d)"

section \<open>Classes and instances\<close>

text \<open>A field of an instance holds a plain value, an instance, or a list of which some items are instances.\<close>

datatype model_val = Plain pyval | Obj string "(string \<times> model_val) list" | Several "model_val list"

text \<open>
  A class has fields, each with its default or none, and the steps of its \<open>from_dict\<close>: \<open>SetDefault\<close> is
  \<open>setdefault\<close>; \<open>ReadModel\<close> reads a mapping as a class and takes another value as it is;
  \<open>ReadModelOr\<close> puts a given value in place of what is not a mapping; \<open>ReadModels\<close> is
  \<open>_model_list\<close>, \<open>ReadOptModels\<close> the same but for \<open>None\<close>; \<open>ReadEach\<close> reads every item of an
  iterable, \<open>ReadDicts\<close> its mappings; \<open>DropNonList\<close> drops a value that is not a list and \<open>ListOrEmpty\<close>
  replaces it; \<open>CopyKey\<close> copies a member to another name unless that is there.
\<close>

datatype model_class = ModelClass (class_name: string) (class_fields: "(string \<times> model_val option) list") (class_steps: "read_step list")
  and read_step = SetDefault string pyval
  | ReadModel string model_class
  | ReadModelOr string model_class model_val
  | ReadModels string model_class
  | ReadOptModels string model_class
  | ReadEach string model_class
  | ReadDicts string model_class
  | DropNonList string
  | ListOrEmpty string
  | CopyKey string string

definition needed :: "string \<Rightarrow> string \<times> model_val option" where
  "needed n = (n, None)"

definition optional :: "string \<Rightarrow> pyval \<Rightarrow> string \<times> model_val option" where
  "optional n v = (n, Some (Plain v))"

text \<open>\<open>_snake_keys\<close>: a mapping with its keys in snake case; \<open>items\<close> is not there on another value.\<close>

definition snake_keys :: "pyval \<Rightarrow> py_error + (string, model_val) pydict" where
  "snake_keys data = (case data of PDict d \<Rightarrow> Inr (put_all dict_set [] (map (\<lambda>(k, v). (to_snake k, Plain v)) d)) | _ \<Rightarrow> Inl ErrAttribute)"

text \<open>\<open>cls(**_extract_fields(cls, d))\<close>\<close>

definition construct :: "string \<Rightarrow> (string \<times> model_val option) list \<Rightarrow> (string, model_val) pydict \<Rightarrow> py_error + model_val" where
  "construct name fs d = bindE (mapE (\<lambda>(n, default'). case dict_get d n of Some v \<Rightarrow> Inr (n, v)
     | None \<Rightarrow> (case default' of Some v \<Rightarrow> Inr (n, v) | None \<Rightarrow> Inl ErrType)) fs) (\<lambda>items. Inr (Obj name items))"

text \<open>What a \<open>for\<close> loop runs over.\<close>

definition iterate :: "pyval \<Rightarrow> py_error + pyval list" where
  "iterate v = (case v of PList xs \<Rightarrow> Inr xs | PTuple xs \<Rightarrow> Inr xs | PStr s \<Rightarrow> Inr (map (\<lambda>c. PStr [c]) s)
     | PBytes bs \<Rightarrow> Inr (map (\<lambda>b. PInt (uint b)) bs) | PDict d \<Rightarrow> Inr (map (\<lambda>(k, _). PStr k) d) | _ \<Rightarrow> Inl ErrType)"

definition plain_of :: "model_val option \<Rightarrow> pyval \<Rightarrow> pyval" where
  "plain_of v default' = (case v of Some (Plain p) \<Rightarrow> p | _ \<Rightarrow> default')"

definition plain_is_list :: "pyval \<Rightarrow> bool" where
  "plain_is_list v = (case v of PList _ \<Rightarrow> True | _ \<Rightarrow> False)"

definition list_items :: "pyval \<Rightarrow> pyval list" where
  "list_items v = (case v of PList xs \<Rightarrow> xs | _ \<Rightarrow> [])"

lemma mapE_step_cong [fundef_cong]:
  "xs = ys \<Longrightarrow> (\<And>x. x \<in> set ys \<Longrightarrow> f x = g x) \<Longrightarrow> mapE f xs = mapE g ys"
  by (rule mapE_cong)


section \<open>Reading a model\<close>

text \<open>The value of a member a step looks at; steps look at members no step has read.\<close>

fun from_dict :: "model_class \<Rightarrow> pyval \<Rightarrow> py_error + model_val"
  and run_steps :: "read_step list \<Rightarrow> (string, model_val) pydict \<Rightarrow> py_error + (string, model_val) pydict"
  and run_step :: "read_step \<Rightarrow> (string, model_val) pydict \<Rightarrow> py_error + (string, model_val) pydict" where
  "from_dict (ModelClass name fs steps) data = bindE (snake_keys data) (\<lambda>d. bindE (run_steps steps d) (construct name fs))"
| "run_steps [] d = Inr d"
| "run_steps (s # ss) d = bindE (run_step s d) (run_steps ss)"
| "run_step (SetDefault n v) d = Inr (dict_setdefault d n (Plain v))"
| "run_step (ReadModel n c) d = (let v = plain_of (dict_get d n) PNone in
     if is_mapping v then bindE (from_dict c v) (\<lambda>m. Inr (dict_set d n m)) else Inr (dict_set d n (Plain v)))"
| "run_step (ReadModelOr n c other) d = (let v = plain_of (dict_get d n) PNone in
     if is_mapping v then bindE (from_dict c v) (\<lambda>m. Inr (dict_set d n m)) else Inr (dict_set d n other))"
| "run_step (ReadModels n c) d =
     bindE (mapE (\<lambda>item. if is_mapping item then from_dict c item else Inr (Plain item)) (list_items (plain_of (dict_get d n) (PList []))))
       (\<lambda>ms. Inr (dict_set d n (Several ms)))"
| "run_step (ReadOptModels n c) d = (let v = plain_of (dict_get d n) PNone in
     if v = PNone then Inr (dict_set d n (Plain PNone))
     else bindE (mapE (\<lambda>item. if is_mapping item then from_dict c item else Inr (Plain item)) (list_items v)) (\<lambda>ms. Inr (dict_set d n (Several ms))))"
| "run_step (ReadEach n c) d = bindE (iterate (plain_of (dict_get d n) (PList []))) (\<lambda>xs. bindE (mapE (from_dict c) xs) (\<lambda>ms. Inr (dict_set d n (Several ms))))"
| "run_step (ReadDicts n c) d =
     bindE (iterate (plain_of (dict_get d n) (PList []))) (\<lambda>xs. bindE (mapE (from_dict c) (filter is_mapping xs)) (\<lambda>ms. Inr (dict_set d n (Several ms))))"
| "run_step (DropNonList n) d = Inr (if plain_is_list (plain_of (dict_get d n) PNone) then d else dict_pop d n)"
| "run_step (ListOrEmpty n) d = Inr (if plain_is_list (plain_of (dict_get d n) PNone) then d else dict_set d n (Plain (PList [])))"
| "run_step (CopyKey a b) d = Inr (case dict_get d a of None \<Rightarrow> d | Some v \<Rightarrow> dict_setdefault d b v)"

section \<open>Writing a model\<close>

text \<open>\<open>_dataclass_to_camel_dict\<close> and \<open>_to_dict_value\<close>: fields that are \<open>None\<close> are left out.\<close>

fun to_dict_value :: "model_val \<Rightarrow> pyval" where
  "to_dict_value (Plain v) = v"
| "to_dict_value (Several ms) = PList (map to_dict_value ms)"
| "to_dict_value (Obj name fs) = PDict (put_all dict_set [] (map (\<lambda>(n, v). (to_camel n, to_dict_value v)) (filter (\<lambda>(n, v). v \<noteq> Plain PNone) fs)))"

definition to_camel_dict :: "model_val \<Rightarrow> (string, pyval) pydict" where
  "to_camel_dict m = (case to_dict_value m of PDict d \<Rightarrow> d | _ \<Rightarrow> [])"

text \<open>The members that identify an artifact are moved to the front; \<open>pop\<close> raises where one is missing.\<close>

definition identified_first :: "string list \<Rightarrow> (string, pyval) pydict \<Rightarrow> py_error + (string, pyval) pydict" where
  "identified_first names d = bindE (mapE (\<lambda>n. case dict_get d n of None \<Rightarrow> Inl ErrKey | Some v \<Rightarrow> Inr (n, v)) names)
     (\<lambda>front. Inr (front @ foldl dict_pop d names))"

definition attr :: "model_val \<Rightarrow> string \<Rightarrow> model_val option" where
  "attr m n = (case m of Obj _ fs \<Rightarrow> map_of fs n | _ \<Rightarrow> None)"

definition plain_attr :: "model_val \<Rightarrow> string \<Rightarrow> pyval" where
  "plain_attr m n = plain_of (attr m n) PNone"

section \<open>Response models\<close>

definition default_instance :: "model_class \<Rightarrow> model_val" where
  "default_instance c = Obj (class_name c) (map (\<lambda>(n, v). (n, case v of Some x \<Rightarrow> x | None \<Rightarrow> Plain PNone)) (class_fields c))"

definition admin_service_summary :: model_class where
  "admin_service_summary = ModelClass ''AdminServiceSummary''
     [needed ''service_name'', needed ''description'', needed ''layer_count'', needed ''enabled_protocols'']
     [SetDefault ''enabled_protocols'' (PList [])]"

definition import_result :: model_class where
  "import_result = ModelClass ''ImportResult''
     [needed ''success'', needed ''table_name'', needed ''format'', optional ''feature_count'' (PInt 0),
      optional ''physical_table_name'' PNone, optional ''schema'' PNone, optional ''source_kind'' (PStr ''file''),
      optional ''source_url'' PNone, optional ''upload_id'' PNone, optional ''cloud_file_id'' PNone, optional ''detected_srid'' PNone,
      optional ''error_message'' PNone, optional ''error_code'' PNone, optional ''validation_errors'' (PList []),
      optional ''repaired_geometry_count'' (PInt 0), optional ''duration'' PNone, optional ''warnings'' (PList [])]
     []"

definition background_import_response :: model_class where
  "background_import_response = ModelClass ''BackgroundImportResponse''
     [needed ''job_id'', needed ''message'', needed ''status_url'', needed ''cancel_url'', optional ''upload_id'' PNone,
      optional ''operation_instance_id'' PNone, optional ''correlation_id'' PNone, optional ''audit_id'' PNone,
      optional ''proposal_id'' PNone]
     []"

definition access_policy_response :: model_class where
  "access_policy_response = ModelClass ''AccessPolicyResponse''
     [needed ''allow_anonymous'', needed ''allow_anonymous_write'', needed ''allowed_roles'', needed ''allowed_write_roles'']
     [SetDefault ''allowed_roles'' (PList []), SetDefault ''allowed_write_roles'' (PList [])]"

definition time_info_response :: model_class where
  "time_info_response = ModelClass ''TimeInfoResponse''
     [needed ''start_time_field'', needed ''end_time_field'', needed ''track_id_field'']
     []"

definition map_server_settings :: model_class where
  "map_server_settings = ModelClass ''MapServerSettings''
     [needed ''max_image_width'', needed ''max_image_height'', needed ''default_image_width'', needed ''default_image_height'',
      needed ''default_dpi'', needed ''default_format'', needed ''default_transparent'', needed ''max_features_per_layer'']
     []"

definition service_settings_response :: model_class where
  "service_settings_response = ModelClass ''ServiceSettingsResponse''
     [needed ''service_name'', needed ''enabled_protocols'', needed ''available_protocols'', needed ''access_policy'',
      needed ''time_info'', needed ''map_server'']
     [SetDefault ''enabled_protocols'' (PList []), SetDefault ''available_protocols'' (PList []),
      ReadModelOr ''access_policy'' access_policy_response (Plain PNone), ReadModelOr ''time_info'' time_info_response (Plain PNone),
      ReadModelOr ''map_server'' map_server_settings (Plain PNone)]"

definition secure_connection_summary :: model_class where
  "secure_connection_summary = ModelClass ''SecureConnectionSummary''
     [needed ''connection_id'', needed ''name'', needed ''description'', needed ''host'', needed ''port'', needed ''database_name'',
      needed ''username'', needed ''ssl_required'', needed ''ssl_mode'', needed ''storage_type'', needed ''is_active'',
      needed ''health_status'', needed ''last_health_check'', needed ''created_at'', needed ''created_by'']
     []"

definition secure_connection_detail :: model_class where
  "secure_connection_detail = ModelClass ''SecureConnectionDetail''
     [needed ''connection_id'', needed ''name'', needed ''description'', needed ''host'', needed ''port'', needed ''database_name'',
      needed ''username'', needed ''ssl_required'', needed ''ssl_mode'', needed ''storage_type'', needed ''is_active'',
      needed ''health_status'', needed ''last_health_check'', needed ''created_at'', needed ''created_by'',
      needed ''credential_reference'', needed ''encryption_version'', needed ''updated_at'']
     []"

definition connection_test_result :: model_class where
  "connection_test_result = ModelClass ''ConnectionTestResult''
     [needed ''connection_id'', needed ''connection_name'', needed ''is_healthy'', needed ''tested_at'', needed ''message'']
     []"

definition encryption_validation_result :: model_class where
  "encryption_validation_result = ModelClass ''EncryptionValidationResult''
     [needed ''is_valid'', needed ''current_key_version'', needed ''validated_at'', needed ''message'']
     []"

definition key_rotation_result :: model_class where
  "key_rotation_result = ModelClass ''KeyRotationResult''
     [needed ''previous_key_version'', needed ''new_key_version'', needed ''rotated_at'', needed ''message'']
     []"

definition operation_proposal_summary :: model_class where
  "operation_proposal_summary = ModelClass ''OperationProposalSummary''
     [needed ''proposal_id'', needed ''kind'', needed ''status'', needed ''summary'', needed ''risk_level'',
      optional ''created_at'' PNone, optional ''updated_at'' PNone, optional ''requested_by'' PNone,
      optional ''requested_by_agent'' PNone, optional ''finding_id'' PNone, optional ''autonomy_rule'' PNone,
      optional ''action_discriminator'' PNone]
     []"

definition operation_proposal_detail :: model_class where
  "operation_proposal_detail = ModelClass ''OperationProposalDetail''
     [needed ''proposal_id'', needed ''kind'', needed ''status'', needed ''summary'', needed ''risk_level'',
      optional ''diff'' (PList []), optional ''dry_run'' (PList []), optional ''blocking_reasons'' (PList []),
      optional ''warnings'' (PList []), optional ''created_at'' PNone, optional ''updated_at'' PNone, optional ''requested_by'' PNone,
      optional ''requested_by_agent'' PNone, optional ''finding_id'' PNone, optional ''autonomy_rule'' PNone,
      optional ''action_discriminator'' PNone, optional ''guardrail_tier'' PNone, optional ''resolved_by'' PNone,
      optional ''resolution_reason'' PNone, optional ''execution_operation_id'' PNone, optional ''resolved_at'' PNone]
     [DropNonList ''diff'', DropNonList ''dry_run'', DropNonList ''blocking_reasons'', DropNonList ''warnings'']"

definition resource_metadata :: model_class where
  "resource_metadata = ModelClass ''ResourceMetadata''
     [needed ''id'', needed ''name'', needed ''namespace'', needed ''labels'', needed ''annotations'', needed ''resource_version'',
      needed ''generation'', needed ''created_at'', needed ''updated_at'']
     [SetDefault ''id'' PNone, SetDefault ''labels'' (PDict []), SetDefault ''annotations'' (PDict []),
      SetDefault ''resource_version'' PNone, SetDefault ''generation'' PNone, SetDefault ''created_at'' PNone,
      SetDefault ''updated_at'' PNone]"

definition metadata_resource :: model_class where
  "metadata_resource = ModelClass ''MetadataResource''
     [needed ''api_version'', needed ''kind'', needed ''metadata'', needed ''spec'', needed ''status'']
     [ReadModel ''metadata'' resource_metadata, SetDefault ''spec'' (PDict []), SetDefault ''status'' PNone]"

definition metadata_resource_identifier :: model_class where
  "metadata_resource_identifier = ModelClass ''MetadataResourceIdentifier''
     [needed ''kind'', needed ''namespace'', needed ''name'']
     []"

definition manifest_apply_summary :: model_class where
  "manifest_apply_summary = ModelClass ''ManifestApplySummary''
     [needed ''created'', needed ''updated'', needed ''deleted'', needed ''skipped'']
     []"

definition manifest_apply_entry :: model_class where
  "manifest_apply_entry = ModelClass ''ManifestApplyEntry''
     [needed ''action'', needed ''resource'', needed ''message'']
     [ReadModel ''resource'' metadata_resource_identifier]"

definition manifest_apply_result :: model_class where
  "manifest_apply_result = ModelClass ''ManifestApplyResult''
     [needed ''dry_run'', needed ''summary'', needed ''entries'']
     [ReadModel ''summary'' manifest_apply_summary, ReadEach ''entries'' manifest_apply_entry]"

definition metadata_manifest :: model_class where
  "metadata_manifest = ModelClass ''MetadataManifest''
     [needed ''api_version'', needed ''generated_at'', needed ''resources'', needed ''drifted_resources'', needed ''manifest_hash'']
     [ReadEach ''resources'' metadata_resource, ReadEach ''drifted_resources'' metadata_resource_identifier]"

definition admin_version_response :: model_class where
  "admin_version_response = ModelClass ''AdminVersionResponse''
     [needed ''version'', needed ''metadata_api_version'', needed ''server_time'']
     []"

definition admin_control_plane_api_compatibility :: model_class where
  "admin_control_plane_api_compatibility = ModelClass ''AdminControlPlaneApiCompatibility''
     [optional ''major'' (PInt 0), optional ''base_path'' (PStr []), optional ''deprecated'' (PBool False)]
     []"

definition admin_metadata_schema_compatibility :: model_class where
  "admin_metadata_schema_compatibility = ModelClass ''AdminMetadataSchemaCompatibility''
     [needed ''version'', optional ''deprecated'' (PBool False)]
     []"

definition admin_compatibility_feature_flags :: model_class where
  "admin_compatibility_feature_flags = ModelClass ''AdminCompatibilityFeatureFlags''
     [optional ''metadata_resources'' (PBool False), optional ''manifest_export'' (PBool False),
      optional ''manifest_apply'' (PBool False), optional ''manifest_dry_run'' (PBool False), optional ''manifest_prune'' (PBool False)]
     [SetDefault ''metadata_resources'' (PBool False), SetDefault ''manifest_export'' (PBool False),
      SetDefault ''manifest_apply'' (PBool False), SetDefault ''manifest_dry_run'' (PBool False),
      SetDefault ''manifest_prune'' (PBool False)]"

definition admin_compatibility_metadata :: model_class where
  "admin_compatibility_metadata = ModelClass ''AdminCompatibilityMetadata''
     [optional ''server_version'' (PStr []), optional ''release_channel'' (PStr []),
      (''control_plane_api'', Some (default_instance admin_control_plane_api_compatibility)), optional ''metadata_schemas'' (PList []),
      (''features'', Some (default_instance admin_compatibility_feature_flags))]
     [ReadModelOr ''control_plane_api'' admin_control_plane_api_compatibility (default_instance admin_control_plane_api_compatibility),
      ReadDicts ''metadata_schemas'' admin_metadata_schema_compatibility,
      ReadModelOr ''features'' admin_compatibility_feature_flags (default_instance admin_compatibility_feature_flags)]"

definition admin_capabilities_response :: model_class where
  "admin_capabilities_response = ModelClass ''AdminCapabilitiesResponse''
     [optional ''metadata_api_versions'' (PList []), optional ''resource_kinds'' (PList []),
      optional ''manifest_supported'' (PBool False), optional ''manifest_dry_run_supported'' (PBool False),
      optional ''manifest_prune_supported'' (PBool False), optional ''compatibility'' PNone]
     [SetDefault ''metadata_api_versions'' (PList []), SetDefault ''resource_kinds'' (PList []),
      SetDefault ''manifest_supported'' (PBool False), SetDefault ''manifest_dry_run_supported'' (PBool False),
      SetDefault ''manifest_prune_supported'' (PBool False), ReadModelOr ''compatibility'' admin_compatibility_metadata (Plain PNone)]"

definition column_info :: model_class where
  "column_info = ModelClass ''ColumnInfo''
     [needed ''name'', needed ''data_type'', needed ''is_nullable'', needed ''is_primary_key'', optional ''max_length'' PNone]
     []"

definition table_info :: model_class where
  "table_info = ModelClass ''TableInfo''
     [needed ''schema'', needed ''table'', optional ''geometry_column'' PNone, optional ''geometry_type'' PNone,
      optional ''srid'' PNone, optional ''estimated_rows'' PNone, optional ''columns'' (PList [])]
     [ReadEach ''columns'' column_info]"

definition table_discovery_response :: model_class where
  "table_discovery_response = ModelClass ''TableDiscoveryResponse''
     [needed ''tables'']
     [ReadEach ''tables'' table_info]"

definition published_layer_summary :: model_class where
  "published_layer_summary = ModelClass ''PublishedLayerSummary''
     [needed ''layer_id'', needed ''layer_name'', needed ''schema'', needed ''table'', needed ''description'',
      needed ''geometry_type'', needed ''srid'', needed ''primary_key'', needed ''field_count'', needed ''enabled'',
      needed ''service_name'']
     []"

definition layer_style_response :: model_class where
  "layer_style_response = ModelClass ''LayerStyleResponse''
     [needed ''map_libre_style'', needed ''drawing_info'']
     []"

definition ogc_style_link :: model_class where
  "ogc_style_link = ModelClass ''OgcStyleLink''
     [needed ''href'', optional ''rel'' PNone, optional ''type'' PNone, optional ''title'' PNone]
     []"

definition ogc_style_summary :: model_class where
  "ogc_style_summary = ModelClass ''OgcStyleSummary''
     [needed ''style_id'', optional ''title'' PNone, optional ''links'' (PList [])]
     [CopyKey ''id'' ''style_id'', ReadModels ''links'' ogc_style_link]"

definition ogc_styles_list :: model_class where
  "ogc_styles_list = ModelClass ''OgcStylesList''
     [optional ''styles'' (PList []), optional ''default'' PNone, optional ''links'' (PList [])]
     [ReadModels ''styles'' ogc_style_summary, ReadModels ''links'' ogc_style_link]"

definition ogc_style_metadata :: model_class where
  "ogc_style_metadata = ModelClass ''OgcStyleMetadata''
     [needed ''style_id'', optional ''title'' PNone, optional ''description'' PNone, optional ''keywords'' (PList []),
      optional ''license'' PNone, optional ''version'' PNone, optional ''links'' (PList [])]
     [CopyKey ''id'' ''style_id'', ListOrEmpty ''keywords'', ReadModels ''links'' ogc_style_link]"

definition create_secure_connection_request :: model_class where
  "create_secure_connection_request = ModelClass ''CreateSecureConnectionRequest''
     [needed ''name'', optional ''description'' PNone, optional ''host'' (PStr []), optional ''port'' (PInt 5432),
      optional ''database_name'' (PStr []), optional ''username'' (PStr []), optional ''password'' PNone,
      optional ''secret_reference'' PNone, optional ''secret_type'' PNone, optional ''ssl_required'' (PBool False),
      optional ''ssl_mode'' PNone]
     []"

definition update_secure_connection_request :: model_class where
  "update_secure_connection_request = ModelClass ''UpdateSecureConnectionRequest''
     [optional ''description'' PNone, optional ''host'' PNone, optional ''port'' PNone, optional ''database_name'' PNone,
      optional ''username'' PNone, optional ''password'' PNone, optional ''ssl_required'' PNone, optional ''ssl_mode'' PNone,
      optional ''is_active'' PNone]
     []"

definition publish_layer_request :: model_class where
  "publish_layer_request = ModelClass ''PublishLayerRequest''
     [optional ''schema'' (PStr ''public''), optional ''table'' (PStr []), optional ''layer_name'' PNone,
      optional ''description'' PNone, optional ''geometry_column'' PNone, optional ''geometry_type'' PNone, optional ''srid'' PNone,
      optional ''primary_key'' PNone, optional ''fields_list'' PNone, optional ''service_name'' PNone, optional ''enabled'' (PBool True)]
     []"

definition manifest_apply_request :: model_class where
  "manifest_apply_request = ModelClass ''ManifestApplyRequest''
     [optional ''resources'' (PList []), optional ''dry_run'' (PBool False), optional ''prune'' (PBool False)]
     []"

definition layer_style_update_request :: model_class where
  "layer_style_update_request = ModelClass ''LayerStyleUpdateRequest''
     [optional ''map_libre_style'' PNone, optional ''drawing_info'' PNone]
     []"

section \<open>Request models\<close>

text \<open>\<open>CreateSecureConnectionRequest\<close> and \<open>UpdateSecureConnectionRequest\<close>: fields that are set, as they are.\<close>

definition set_fields :: "model_val \<Rightarrow> (string \<times> pyval) list" where
  "set_fields m = (case m of Obj _ fs \<Rightarrow> map (\<lambda>(n, v). (n, to_dict_value v)) (filter (\<lambda>(_, v). v \<noteq> Plain PNone) fs) | _ \<Rightarrow> [])"

definition connection_request_to_dict :: "model_val \<Rightarrow> (string, pyval) pydict" where
  "connection_request_to_dict m = put_all dict_set [] (map (\<lambda>(n, v). (to_camel n, v)) (set_fields m))"

definition publish_layer_request_to_dict :: "model_val \<Rightarrow> (string, pyval) pydict" where
  "publish_layer_request_to_dict m = put_all dict_set [] (map (\<lambda>(n, v). (to_camel (if n = ''fields_list'' then ''fields'' else n), v)) (set_fields m))"

definition member_unless_none :: "string \<Rightarrow> pyval \<Rightarrow> (string, pyval) pydict" where
  "member_unless_none k v = (if v = PNone then [] else [(k, v)])"

definition metadata_resource_to_dict :: "model_val \<Rightarrow> py_error + (string, pyval) pydict" where
  "metadata_resource_to_dict m = (case attr m ''metadata'' of
     Some (Obj c fs) \<Rightarrow> (let md = Obj c fs; own = plain_attr md in Inr (
       [(''apiVersion'', plain_attr m ''api_version''), (''kind'', plain_attr m ''kind''),
        (''metadata'', PDict ([(''name'', own ''name''), (''namespace'', own ''namespace''), (''labels'', own ''labels''), (''annotations'', own ''annotations'')] @
           member_unless_none ''id'' (own ''id'') @ member_unless_none ''resourceVersion'' (own ''resource_version'') @ member_unless_none ''generation'' (own ''generation'') @
           member_unless_none ''createdAt'' (own ''created_at'') @ member_unless_none ''updatedAt'' (own ''updated_at''))),
        (''spec'', plain_attr m ''spec'')] @ member_unless_none ''status'' (plain_attr m ''status'')))
   | _ \<Rightarrow> Inl ErrAttribute)"

definition manifest_apply_request_to_dict :: "model_val list \<Rightarrow> bool \<Rightarrow> bool \<Rightarrow> py_error + (string, pyval) pydict" where
  "manifest_apply_request_to_dict resources dry_run prune = bindE (mapE metadata_resource_to_dict resources) (\<lambda>rs.
     Inr [(''resources'', PList (map PDict rs)), (''dryRun'', PBool dry_run), (''prune'', PBool prune)])"

definition layer_style_update_to_dict :: "pyval \<Rightarrow> pyval \<Rightarrow> (string, pyval) pydict" where
  "layer_style_update_to_dict map_libre_style drawing_info = member_unless_none ''mapLibreStyle'' map_libre_style @ member_unless_none ''drawingInfo'' drawing_info"

section \<open>Stylesheets\<close>

definition style_encoding_media_types :: "(string \<times> string) list" where
  "style_encoding_media_types = [(''mapbox-style'', ''application/vnd.mapbox.style+json''), (''sld-1.0'', ''application/vnd.ogc.sld+xml;version=1.0''),
     (''sld-1.1'', ''application/vnd.ogc.sld+xml;version=1.1'')]"

definition default_style_encoding :: string where "default_style_encoding = ''mapbox-style''"

definition style_encoding_media_type :: "string \<Rightarrow> py_error + string" where
  "style_encoding_media_type encoding = (case map_of style_encoding_media_types encoding of None \<Rightarrow> Inl ErrValue | Some t \<Rightarrow> Inr t)"

record ogc_stylesheet =
  os_style_id :: string
  os_encoding :: string
  os_media_type :: string
  os_content :: string

definition stylesheet_as_json :: "(string \<Rightarrow> pyval option) \<Rightarrow> ogc_stylesheet \<Rightarrow> py_error + (string, pyval) pydict" where
  "stylesheet_as_json loads s = (case loads (os_content s) of Some (PDict d) \<Rightarrow> Inr d | _ \<Rightarrow> Inl ErrValue)"

section \<open>Compatibility of a server\<close>

definition minimum_supported_server_version :: string where "minimum_supported_server_version = ''2026.1.0-0''"
definition minimum_supported_control_plane_api_major :: int where "minimum_supported_control_plane_api_major = 1"
definition minimum_supported_control_plane_base_path :: string where "minimum_supported_control_plane_base_path = ''/api/v1/admin''"
definition minimum_supported_release_channel :: string where "minimum_supported_release_channel = ''preview''"

definition release_channel_order :: "(string \<times> int) list" where
  "release_channel_order = [(''nightly'', 0), (''dev'', 1), (''alpha'', 2), (''preview'', 3), (''beta'', 4), (''rc'', 5), (''stable'', 6), (''lts'', 7)]"

text \<open>\<open>findall\<close> of runs of digits, and the first three as numbers.\<close>

fun digit_runs :: "int option \<Rightarrow> string \<Rightarrow> int list" where
  "digit_runs run [] = (case run of None \<Rightarrow> [] | Some n \<Rightarrow> [n])"
| "digit_runs run (c # cs) = (if char_is_digit c
     then digit_runs (Some ((case run of None \<Rightarrow> 0 | Some n \<Rightarrow> 10 * n) + (of_char c - 48))) cs
     else (case run of None \<Rightarrow> [] | Some n \<Rightarrow> [n]) @ digit_runs None cs)"

definition parse_version_components :: "pyval \<Rightarrow> py_error + (int \<times> int \<times> int) option" where
  "parse_version_components v = (if \<not> truthy v then Inr None else case v of
     PStr s \<Rightarrow> Inr (case digit_runs None s of a # b # c # _ \<Rightarrow> Some (a, b, c) | _ \<Rightarrow> None) | _ \<Rightarrow> Inl ErrType)"

definition version_less :: "int \<times> int \<times> int \<Rightarrow> int \<times> int \<times> int \<Rightarrow> bool" where
  "version_less v w = (case (v, w) of ((a, b, c), (a', b', c')) \<Rightarrow> a < a' \<or> (a = a' \<and> (b < b' \<or> (b = b' \<and> c < c'))))"

definition release_channel_rank :: "pyval \<Rightarrow> py_error + int option" where
  "release_channel_rank channel = (case channel of PNone \<Rightarrow> Inr None | PStr s \<Rightarrow> Inr (map_of release_channel_order (str_lower s)) | _ \<Rightarrow> Inl ErrAttribute)"

record compatibility_baseline =
  cb_server_version :: string
  cb_api_major :: int
  cb_base_path :: string
  cb_release_channel :: string

definition default_baseline :: compatibility_baseline where
  "default_baseline = \<lparr>cb_server_version = minimum_supported_server_version, cb_api_major = minimum_supported_control_plane_api_major,
     cb_base_path = minimum_supported_control_plane_base_path, cb_release_channel = minimum_supported_release_channel\<rparr>"

datatype compatibility_reason = NoContract | VersionNotParsed | BaselineNotParsed | VersionTooLow | ApiMajorDiffers | BasePathDiffers | ChannelUnknown | ChannelTooLow

record compatibility_check =
  cc_supported :: bool
  cc_reasons :: "compatibility_reason list"
  cc_warned_deprecated :: bool

definition reason_when :: "bool \<Rightarrow> compatibility_reason \<Rightarrow> compatibility_reason list" where
  "reason_when b r = (if b then [r] else [])"

definition version_reasons :: "(int \<times> int \<times> int) option \<Rightarrow> (int \<times> int \<times> int) option \<Rightarrow> compatibility_reason list" where
  "version_reasons actual minimum = (case actual of None \<Rightarrow> [VersionNotParsed]
     | Some v \<Rightarrow> (case minimum of None \<Rightarrow> [BaselineNotParsed] | Some m \<Rightarrow> reason_when (version_less v m) VersionTooLow))"

definition channel_reasons :: "int option \<Rightarrow> int option \<Rightarrow> compatibility_reason list" where
  "channel_reasons actual minimum = (case actual of None \<Rightarrow> [ChannelUnknown]
     | Some r \<Rightarrow> reason_when (case minimum of None \<Rightarrow> True | Some m \<Rightarrow> r < m) ChannelTooLow)"

definition evaluate_admin_compatibility :: "model_val option \<Rightarrow> compatibility_baseline option \<Rightarrow> py_error + compatibility_check" where
  "evaluate_admin_compatibility compatibility chosen = (let baseline = (case chosen of None \<Rightarrow> default_baseline | Some b \<Rightarrow> b) in
     case compatibility of None \<Rightarrow> Inr \<lparr>cc_supported = False, cc_reasons = [NoContract], cc_warned_deprecated = False\<rparr>
   | Some c \<Rightarrow> (let api = (case attr c ''control_plane_api'' of Some a \<Rightarrow> a | None \<Rightarrow> Plain PNone) in
       bindE (parse_version_components (plain_attr c ''server_version'')) (\<lambda>actual.
       bindE (parse_version_components (PStr (cb_server_version baseline))) (\<lambda>minimum.
       bindE (release_channel_rank (plain_attr c ''release_channel'')) (\<lambda>rank.
       bindE (release_channel_rank (PStr (cb_release_channel baseline))) (\<lambda>minimum_rank.
       let reasons = version_reasons actual minimum @
         reason_when (\<not> py_eq (plain_attr api ''major'') (PInt (cb_api_major baseline))) ApiMajorDiffers @
         reason_when (\<not> py_eq (plain_attr api ''base_path'') (PStr (cb_base_path baseline))) BasePathDiffers @ channel_reasons rank minimum_rank
       in Inr \<lparr>cc_supported = (reasons = []), cc_reasons = reasons, cc_warned_deprecated = truthy (plain_attr api ''deprecated'')\<rparr>))))))"

text \<open>\<open>AdminCompatibilityFeatureFlags.supports\<close> asks for an attribute of the instance: its methods and
  what every object has (\<open>inherited\<close>) count as well.\<close>

definition flags_support :: "(string \<Rightarrow> bool) \<Rightarrow> model_val \<Rightarrow> string \<Rightarrow> bool" where
  "flags_support inherited flags feature = (let n = str_replace_char (CHR ''-'') (CHR ''_'') (to_snake feature) in
     case attr flags n of Some v \<Rightarrow> truthy (plain_of (Some v) PNone) | None \<Rightarrow> n \<in> {''supports'', ''from_dict''} \<or> inherited n)"


section \<open>What a model read from a document is\<close>

text \<open>The member a step writes, and those it looks at.\<close>

fun step_writes :: "read_step \<Rightarrow> string" where
  "step_writes (SetDefault n v) = n" | "step_writes (ReadModel n c) = n" | "step_writes (ReadModelOr n c v) = n" | "step_writes (ReadModels n c) = n"
| "step_writes (ReadOptModels n c) = n" | "step_writes (ReadEach n c) = n" | "step_writes (ReadDicts n c) = n" | "step_writes (DropNonList n) = n"
| "step_writes (ListOrEmpty n) = n" | "step_writes (CopyKey a b) = b"

fun step_uses :: "read_step \<Rightarrow> string set" where
  "step_uses (CopyKey a b) = {a, b}" | "step_uses s = {step_writes s}"

fun separate_steps :: "read_step list \<Rightarrow> bool" where
  "separate_steps [] = True"
| "separate_steps (s # ss) \<longleftrightarrow> (\<forall>t \<in> set ss. step_writes s \<notin> step_uses t) \<and> separate_steps ss"

text \<open>The classes within a class.\<close>

fun sound_class :: "model_class \<Rightarrow> bool" and sound_step :: "read_step \<Rightarrow> bool" where
  "sound_class (ModelClass name fs steps) \<longleftrightarrow> separate_steps steps \<and> (\<forall>s \<in> set steps. sound_step s)"
| "sound_step (ReadModel n c) = sound_class c" | "sound_step (ReadModelOr n c v) = sound_class c" | "sound_step (ReadModels n c) = sound_class c"
| "sound_step (ReadOptModels n c) = sound_class c" | "sound_step (ReadEach n c) = sound_class c" | "sound_step (ReadDicts n c) = sound_class c" | "sound_step s = True"

definition is_plain :: "model_val \<Rightarrow> bool" where
  "is_plain v \<longleftrightarrow> (\<exists>p. v = Plain p)"

text \<open>An instance of a class has its fields in their order; a field a step reads as instances holds those,
  or what the step leaves or puts in their place, and every other field a plain value or its default.\<close>

fun typed_model :: "model_class \<Rightarrow> model_val \<Rightarrow> bool" and typed_by :: "read_step \<Rightarrow> model_val \<Rightarrow> bool" where
  "typed_model (ModelClass name fs steps) m \<longleftrightarrow> (\<exists>items. m = Obj name items \<and> map fst items = map fst fs \<and>
     (\<forall>(k, v) \<in> set items. (k, Some v) \<in> set fs \<or> ((\<forall>s \<in> set steps. step_writes s = k \<longrightarrow> typed_by s v) \<and> (k \<notin> step_writes ` set steps \<longrightarrow> is_plain v))))"
| "typed_by (ReadModel n c) v \<longleftrightarrow> typed_model c v \<or> (\<exists>p. v = Plain p \<and> \<not> is_mapping p)"
| "typed_by (ReadModelOr n c other) v \<longleftrightarrow> typed_model c v \<or> v = other"
| "typed_by (ReadModels n c) v \<longleftrightarrow> (\<exists>ms. v = Several ms \<and> (\<forall>m \<in> set ms. typed_model c m \<or> (\<exists>p. m = Plain p \<and> \<not> is_mapping p)))"
| "typed_by (ReadOptModels n c) v \<longleftrightarrow> v = Plain PNone \<or> (\<exists>ms. v = Several ms \<and> (\<forall>m \<in> set ms. typed_model c m \<or> (\<exists>p. m = Plain p \<and> \<not> is_mapping p)))"
| "typed_by (ReadEach n c) v \<longleftrightarrow> (\<exists>ms. v = Several ms \<and> (\<forall>m \<in> set ms. typed_model c m))"
| "typed_by (ReadDicts n c) v \<longleftrightarrow> (\<exists>ms. v = Several ms \<and> (\<forall>m \<in> set ms. typed_model c m))"
| "typed_by s v \<longleftrightarrow> is_plain v"

lemma mapE_all: "mapE f xs = Inr ys \<Longrightarrow> (\<And>x y. x \<in> set xs \<Longrightarrow> f x = Inr y \<Longrightarrow> P y) \<Longrightarrow> \<forall>y \<in> set ys. P y"
proof (induction xs arbitrary: ys)
  case (Cons x xs)
  then obtain z zs where z: "f x = Inr z" "mapE f xs = Inr zs" "ys = z # zs" by (auto simp: bindE_eq_Inr)
  have "P z" using Cons.prems(2) [of x z] z(1) by simp
  moreover have "\<forall>y \<in> set zs. P y" by (rule Cons.IH [OF z(2)]) (use Cons.prems(2) in auto)
  ultimately show ?case by (simp add: z(3))
qed simp

definition plain_at :: "string set \<Rightarrow> (string, model_val) pydict \<Rightarrow> bool" where
  "plain_at ks d \<longleftrightarrow> (\<forall>k \<in> ks. \<forall>v. dict_get d k = Some v \<longrightarrow> is_plain v)"

text \<open>One step changes its member only, and leaves it typed.\<close>

lemma run_step_typed:
  assumes "run_step s d = Inr d'" "plain_at (step_uses s) d"
    and sub: "\<And>n c data m. s \<in> {ReadModel n c, ReadModels n c, ReadOptModels n c, ReadEach n c, ReadDicts n c} \<or> (\<exists>v. s = ReadModelOr n c v) \<Longrightarrow>
      from_dict c data = Inr m \<Longrightarrow> typed_model c m"
  shows "(\<forall>j. j \<noteq> step_writes s \<longrightarrow> dict_get d' j = dict_get d j) \<and> (\<forall>v. dict_get d' (step_writes s) = Some v \<longrightarrow> typed_by s v)"
proof (cases s)
  case (SetDefault n v)
  with assms(1,2) show ?thesis by (auto simp: plain_at_def is_plain_def split: option.splits if_splits)
next
  case (ReadModel n c)
  with assms(1) sub [of n c] show ?thesis by (auto simp: Let_def bindE_eq_Inr split: if_splits)
next
  case (ReadModelOr n c v)
  with assms(1) sub [of n c] show ?thesis by (auto simp: Let_def bindE_eq_Inr split: if_splits)
next
  case (ReadModels n c)
  then obtain ms where ms: "mapE (\<lambda>item. if is_mapping item then from_dict c item else Inr (Plain item)) (list_items (plain_of (dict_get d n) (PList []))) = Inr ms"
    "d' = dict_set d n (Several ms)" using assms(1) by (auto simp: bindE_eq_Inr)
  have "\<forall>m \<in> set ms. typed_model c m \<or> (\<exists>p. m = Plain p \<and> \<not> is_mapping p)"
    by (rule mapE_all [OF ms(1)]) (use sub [of n c] ReadModels in \<open>auto split: if_splits\<close>)
  then show ?thesis using ms(2) ReadModels by auto
next
  case (ReadOptModels n c)
  show ?thesis
  proof (cases "plain_of (dict_get d n) PNone = PNone")
    case True
    then show ?thesis using assms(1) ReadOptModels by auto
  next
    case False
    then obtain ms where ms: "mapE (\<lambda>item. if is_mapping item then from_dict c item else Inr (Plain item)) (list_items (plain_of (dict_get d n) PNone)) = Inr ms"
      "d' = dict_set d n (Several ms)" using assms(1) ReadOptModels by (auto simp: bindE_eq_Inr Let_def)
    have "\<forall>m \<in> set ms. typed_model c m \<or> (\<exists>p. m = Plain p \<and> \<not> is_mapping p)"
      by (rule mapE_all [OF ms(1)]) (use sub [of n c] ReadOptModels in \<open>auto split: if_splits\<close>)
    then show ?thesis using ms(2) ReadOptModels by auto
  qed
next
  case (ReadEach n c)
  then obtain xs ms where ms: "mapE (from_dict c) xs = Inr ms" "d' = dict_set d n (Several ms)" using assms(1) by (auto simp: bindE_eq_Inr)
  have "\<forall>m \<in> set ms. typed_model c m" by (rule mapE_all [OF ms(1)]) (use sub [of n c] ReadEach in auto)
  then show ?thesis using ms(2) ReadEach by auto
next
  case (ReadDicts n c)
  then obtain xs ms where ms: "mapE (from_dict c) xs = Inr ms" "d' = dict_set d n (Several ms)" using assms(1) by (auto simp: bindE_eq_Inr)
  have "\<forall>m \<in> set ms. typed_model c m" by (rule mapE_all [OF ms(1)]) (use sub [of n c] ReadDicts in auto)
  then show ?thesis using ms(2) ReadDicts by auto
next
  case (DropNonList n)
  with assms(1,2) show ?thesis by (auto simp: plain_at_def split: if_splits)
next
  case (ListOrEmpty n)
  with assms(1,2) show ?thesis by (auto simp: plain_at_def is_plain_def split: if_splits)
next
  case (CopyKey a b)
  with assms(1,2) show ?thesis by (auto simp: plain_at_def split: option.splits if_splits)
qed

definition reads_typed :: "read_step \<Rightarrow> bool" where
  "reads_typed s \<longleftrightarrow> (\<forall>n c data m. (s \<in> {ReadModel n c, ReadModels n c, ReadOptModels n c, ReadEach n c, ReadDicts n c} \<or> (\<exists>v. s = ReadModelOr n c v)) \<longrightarrow>
     from_dict c data = Inr m \<longrightarrow> typed_model c m)"

lemma run_steps_typed:
  "run_steps steps d = Inr d' \<Longrightarrow> separate_steps steps \<Longrightarrow> \<forall>s \<in> set steps. reads_typed s \<Longrightarrow> plain_at (\<Union> (step_uses ` set steps)) d \<Longrightarrow>
   (\<forall>s \<in> set steps. \<forall>v. dict_get d' (step_writes s) = Some v \<longrightarrow> typed_by s v) \<and> (\<forall>j. j \<notin> step_writes ` set steps \<longrightarrow> dict_get d' j = dict_get d j)"
proof (induction steps arbitrary: d)
  case (Cons s ss)
  obtain d1 where d1: "run_step s d = Inr d1" "run_steps ss d1 = Inr d'" using Cons.prems(1) by (auto simp: bindE_eq_Inr)
  have one: "(\<forall>j. j \<noteq> step_writes s \<longrightarrow> dict_get d1 j = dict_get d j) \<and> (\<forall>v. dict_get d1 (step_writes s) = Some v \<longrightarrow> typed_by s v)"
  proof (rule run_step_typed [OF d1(1)])
    show "plain_at (step_uses s) d" using Cons.prems(4) by (auto simp: plain_at_def)
    show "typed_model c m" if "s \<in> {ReadModel n c, ReadModels n c, ReadOptModels n c, ReadEach n c, ReadDicts n c} \<or> (\<exists>v. s = ReadModelOr n c v)" "from_dict c data = Inr m" for n c data m
    proof -
      have "reads_typed s" using Cons.prems(3) by simp
      then show ?thesis using that unfolding reads_typed_def by blast
    qed
  qed
  have apart: "\<forall>t \<in> set ss. step_writes s \<notin> step_uses t" using Cons.prems(2) by simp
  have "plain_at (\<Union> (step_uses ` set ss)) d1"
    using Cons.prems(4) one apart unfolding plain_at_def by (metis (no_types, lifting) UN_iff list.set_intros(2))
  then have rest: "(\<forall>s \<in> set ss. \<forall>v. dict_get d' (step_writes s) = Some v \<longrightarrow> typed_by s v) \<and> (\<forall>j. j \<notin> step_writes ` set ss \<longrightarrow> dict_get d' j = dict_get d1 j)"
    using Cons.IH [OF d1(2)] Cons.prems(2,3) by simp
  have writes: "step_writes t \<in> step_uses t" for t by (cases t) auto
  then have "step_writes s \<notin> step_writes ` set ss" using apart by auto
  then show ?case using one rest by auto
qed simp

lemma construct_typed:
  assumes "construct name fs d = Inr m"
  shows "\<exists>items. m = Obj name items \<and> map fst items = map fst fs \<and> (\<forall>(k, v) \<in> set items. (k, Some v) \<in> set fs \<or> dict_get d k = Some v)"
proof -
  let ?f = "\<lambda>(n, default'). case dict_get d n of Some v \<Rightarrow> Inr (n, v) | None \<Rightarrow> (case default' of Some v \<Rightarrow> Inr (n, v) | None \<Rightarrow> Inl ErrType)"
  obtain items where items: "mapE ?f fs = Inr items" "m = Obj name items" using assms by (auto simp: construct_def bindE_eq_Inr)
  have "mapE ?f gs = Inr xs \<Longrightarrow> set gs \<subseteq> set fs \<Longrightarrow> map fst xs = map fst gs \<and> (\<forall>(k, v) \<in> set xs. (k, Some v) \<in> set fs \<or> dict_get d k = Some v)" for gs xs
    by (induction gs arbitrary: xs) (auto simp: bindE_eq_Inr split: option.splits)
  from this [OF items(1)] show ?thesis using items(2) by blast
qed

lemma put_all_plain:
  "\<forall>k v. dict_get e k = Some v \<longrightarrow> is_plain v \<Longrightarrow> \<forall>(k, v) \<in> set xs. is_plain v \<Longrightarrow> dict_get (put_all dict_set e xs) k = Some v \<Longrightarrow> is_plain v"
proof (induction xs arbitrary: e)
  case (Cons x xs)
  obtain a b where x: "x = (a, b)" by (cases x)
  have "\<forall>k v. dict_get (dict_set e a b) k = Some v \<longrightarrow> is_plain v" using Cons.prems(1,2) x by simp
  then show ?case using Cons.IH [of "dict_set e a b"] Cons.prems(2,3) x by (simp add: put_all_def)
qed (simp add: put_all_def)

lemma snake_keys_plain: "snake_keys data = Inr d \<Longrightarrow> dict_get d k = Some v \<Longrightarrow> is_plain v"
proof -
  assume a: "snake_keys data = Inr d" "dict_get d k = Some v"
  then obtain e where e: "data = PDict e" by (cases data) (simp_all add: snake_keys_def)
  show "is_plain v"
    by (rule put_all_plain [of "[]" "map (\<lambda>(k, v). (to_snake k, Plain v)) e" k v]) (use a e in \<open>auto simp: snake_keys_def is_plain_def dict_get_def\<close>)
qed

lemma from_dict_typed:
  "sound_class c \<Longrightarrow> \<forall>data m. from_dict c data = Inr m \<longrightarrow> typed_model c m" "sound_step s \<Longrightarrow> reads_typed s"
proof (induction c and s rule: sound_class_sound_step.induct)
  case (1 name fs steps)
  have sound: "separate_steps steps" "\<forall>s \<in> set steps. reads_typed s" using 1 by auto
  show ?case
  proof (intro allI impI)
    fix data m
    assume "from_dict (ModelClass name fs steps) data = Inr m"
    then obtain d d' where d: "snake_keys data = Inr d" "run_steps steps d = Inr d'" "construct name fs d' = Inr m" by (auto simp: bindE_eq_Inr)
    have "plain_at (\<Union> (step_uses ` set steps)) d" using snake_keys_plain [OF d(1)] by (auto simp: plain_at_def)
    from run_steps_typed [OF d(2) sound this] have run: "\<forall>s \<in> set steps. \<forall>v. dict_get d' (step_writes s) = Some v \<longrightarrow> typed_by s v"
      "\<forall>j. j \<notin> step_writes ` set steps \<longrightarrow> dict_get d' j = dict_get d j" by auto
    obtain items where items: "m = Obj name items" "map fst items = map fst fs" "\<forall>(k, v) \<in> set items. (k, Some v) \<in> set fs \<or> dict_get d' k = Some v"
      using construct_typed [OF d(3)] by blast
    have "(k, Some v) \<in> set fs \<or> ((\<forall>s \<in> set steps. step_writes s = k \<longrightarrow> typed_by s v) \<and> (k \<notin> step_writes ` set steps \<longrightarrow> is_plain v))"
      if kv: "(k, v) \<in> set items" for k v
    proof (cases "(k, Some v) \<in> set fs")
      case False
      then have v: "dict_get d' k = Some v" using items(3) kv by auto
      have "\<forall>s \<in> set steps. step_writes s = k \<longrightarrow> typed_by s v" using run(1) v by blast
      moreover have "k \<notin> step_writes ` set steps \<longrightarrow> is_plain v" using run(2) v snake_keys_plain [OF d(1)] by metis
      ultimately show ?thesis by blast
    qed simp
    then show "typed_model (ModelClass name fs steps) m" using items(1,2) by auto
  qed
qed (auto simp: reads_typed_def)

section \<open>The decision on a server\<close>

lemma default_version: "digit_runs None minimum_supported_server_version = [2026, 1, 0, 0]"
  by (simp add: minimum_supported_server_version_def char_is_digit_def)

lemma digit_runs_nonneg: "(case run of None \<Rightarrow> True | Some n \<Rightarrow> 0 \<le> n) \<Longrightarrow> list_all (\<lambda>k. 0 \<le> k) (digit_runs run s)"
proof (induction run s rule: digit_runs.induct)
  case (2 run c cs)
  show ?case
  proof (cases "char_is_digit c")
    case True
    then have "48 \<le> (of_char c :: nat)" by (simp add: char_is_digit_def Let_def)
    then have "0 \<le> (of_char c :: int) - 48" by (metis diff_ge_0_iff_ge of_nat_numeral of_nat_of_char zle_int)
    then have "0 \<le> (case run of None \<Rightarrow> 0 | Some n \<Rightarrow> 10 * n) + (of_char c - 48 :: int)"
      using 2(3) by (simp split: option.splits)
    then show ?thesis using 2(1) True by simp
  next
    case False
    then show ?thesis using 2(2,3) by (simp split: option.splits)
  qed
qed (simp split: option.splits)

lemma py_eq_int [simp]: "py_eq (PInt a) (PInt b) \<longleftrightarrow> a = b"
  by (simp add: py_eq.simps numeric_value_def)

lemma py_eq_str [simp]: "py_eq (PStr a) (PStr b) \<longleftrightarrow> a = b"
  by (simp add: py_eq.simps numeric_value_def)

definition enough_version :: "string \<Rightarrow> bool" where
  "enough_version v \<longleftrightarrow> (\<exists>a b c rest. digit_runs None v = a # b # c # rest \<and> (2026 < a \<or> (a = 2026 \<and> 1 \<le> b)))"

lemma version_decided: "parse_version_components (PStr v) = Inr actual \<Longrightarrow> version_reasons actual (Some (2026, 1, 0)) = [] \<longleftrightarrow> enough_version v"
proof -
  assume a: "parse_version_components (PStr v) = Inr actual"
  show ?thesis
  proof (cases "\<exists>a b c rest. digit_runs None v = a # b # c # rest")
    case True
    then obtain a b c rest where r: "digit_runs None v = a # b # c # rest" by blast
    have "0 \<le> c" using digit_runs_nonneg [of None v] r by simp
    moreover have "actual = Some (a, b, c)" using a r by (cases v) (auto simp: parse_version_components_def)
    ultimately show ?thesis using r by (auto simp: version_reasons_def version_less_def reason_when_def enough_version_def)
  next
    case False
    then have "actual = None" using a by (auto simp: parse_version_components_def split: if_splits list.splits)
    then show ?thesis using False by (auto simp: version_reasons_def enough_version_def)
  qed
qed

lemma rank_decided: "channel_reasons (map_of release_channel_order ch) (Some 3) = [] \<longleftrightarrow> ch \<in> {''preview'', ''beta'', ''rc'', ''stable'', ''lts''}"
  by (auto simp: channel_reasons_def release_channel_order_def reason_when_def split: if_splits)

text \<open>C33. The compatibility check admits exactly the servers it names: for a contract whose fields have
  their types, the check returns, and the server is supported - no reason is given - exactly when its
  version has three numbers that are at least 2026.1.0, the control-plane API has major 1 at
  \<open>/api/v1/admin\<close>, and the release channel is preview or a more stable one, letter case ignored.\<close>

theorem compatibility_decided:
  assumes "plain_attr m ''server_version'' = PStr v" "plain_attr m ''release_channel'' = PStr ch" "attr m ''control_plane_api'' = Some api"
    "plain_attr api ''major'' = PInt major" "plain_attr api ''base_path'' = PStr path"
  shows "\<exists>r. evaluate_admin_compatibility (Some m) None = Inr r \<and> (cc_supported r \<longleftrightarrow> cc_reasons r = []) \<and>
    (cc_supported r \<longleftrightarrow> enough_version v \<and> major = 1 \<and> path = ''/api/v1/admin'' \<and> str_lower ch \<in> {''preview'', ''beta'', ''rc'', ''stable'', ''lts''})"
proof -
  obtain actual where actual: "parse_version_components (PStr v) = Inr actual" by (cases "v = []") (auto simp: parse_version_components_def)
  have min: "parse_version_components (PStr minimum_supported_server_version) = Inr (Some (2026, 1, 0))"
    using default_version by (simp add: parse_version_components_def minimum_supported_server_version_def)
  have rank: "release_channel_rank (PStr minimum_supported_release_channel) = Inr (Some 3)" by code_simp
  show ?thesis
    using version_decided [OF actual] rank_decided [of "str_lower ch"]
    by (auto simp: evaluate_admin_compatibility_def assms actual min rank bindE_def Let_def release_channel_rank_def [of "PStr ch"] default_baseline_def
      minimum_supported_control_plane_api_major_def minimum_supported_control_plane_base_path_def reason_when_def)
qed

lemma compatibility_decided_witness:
  "\<exists>r. evaluate_admin_compatibility (Some (Obj ''AdminCompatibilityMetadata'' [(''server_version'', Plain (PStr ''2026.2.1'')), (''release_channel'', Plain (PStr ''Stable'')),
     (''control_plane_api'', Obj ''AdminControlPlaneApiCompatibility'' [(''major'', Plain (PInt 1)), (''base_path'', Plain (PStr ''/api/v1/admin''))])])) None = Inr r \<and> cc_supported r"
proof -
  let ?api = "Obj ''AdminControlPlaneApiCompatibility'' [(''major'', Plain (PInt 1)), (''base_path'', Plain (PStr ''/api/v1/admin''))]"
  let ?m = "Obj ''AdminCompatibilityMetadata'' [(''server_version'', Plain (PStr ''2026.2.1'')), (''release_channel'', Plain (PStr ''Stable'')), (''control_plane_api'', ?api)]"
  have "plain_attr ?m ''server_version'' = PStr ''2026.2.1''" "plain_attr ?m ''release_channel'' = PStr ''Stable''" "attr ?m ''control_plane_api'' = Some ?api"
    "plain_attr ?api ''major'' = PInt 1" "plain_attr ?api ''base_path'' = PStr ''/api/v1/admin''" by (simp_all add: plain_attr_def attr_def plain_of_def)
  from compatibility_decided [OF this] obtain r where r: "evaluate_admin_compatibility (Some ?m) None = Inr r"
    "cc_supported r \<longleftrightarrow> enough_version ''2026.2.1'' \<and> str_lower ''Stable'' \<in> {''preview'', ''beta'', ''rc'', ''stable'', ''lts''}" by auto
  have "enough_version ''2026.2.1''" by (simp add: enough_version_def char_is_digit_def)
  moreover have "str_lower ''Stable'' = ''stable''" by code_simp
  ultimately show ?thesis using r by auto
qed

end
