(* ===== verification/Admin_Migration.thy ===== *)
theory Admin_Migration
  imports Admin_Models
begin

text \<open>
  The artifacts of the migration toolkit and the toolbox translation (\<open>honua_admin/_models.py\<close>, from line
  1081): their classes, the order in which an artifact is written, and what reading back a written
  model gives.
\<close>

section \<open>Migration models\<close>

definition migration_source_identity :: model_class where
  "migration_source_identity = ModelClass ''MigrationSourceIdentity''
     [needed ''display_name'', needed ''base_url'', optional ''product'' PNone, optional ''version'' PNone, optional ''build'' PNone,
      optional ''service_type'' PNone]
     [SetDefault ''product'' PNone, SetDefault ''version'' PNone, SetDefault ''build'' PNone, SetDefault ''service_type'' PNone]"

definition migration_inventory_auth_posture :: model_class where
  "migration_inventory_auth_posture = ModelClass ''MigrationInventoryAuthPosture''
     [needed ''mode'', optional ''credentials_supplied'' (PBool False), optional ''access_confirmed'' (PBool False),
      optional ''notes'' (PList [])]
     [SetDefault ''credentials_supplied'' (PBool False), SetDefault ''access_confirmed'' (PBool False), SetDefault ''notes'' (PList [])]"

definition migration_inventory_completeness :: model_class where
  "migration_inventory_completeness = ModelClass ''MigrationInventoryCompleteness''
     [needed ''status'', optional ''warnings'' (PList []), optional ''missing_artifacts'' (PList [])]
     [SetDefault ''warnings'' (PList []), SetDefault ''missing_artifacts'' (PList [])]"

definition migration_inventory_summary :: model_class where
  "migration_inventory_summary = ModelClass ''MigrationInventorySummary''
     [optional ''container_count'' (PInt 0), optional ''resource_count'' (PInt 0), optional ''style_count'' (PInt 0),
      optional ''external_dependency_count'' (PInt 0), optional ''compatible_count'' (PInt 0),
      optional ''partially_compatible_count'' (PInt 0), optional ''incompatible_count'' (PInt 0)]
     [SetDefault ''container_count'' (PInt 0), SetDefault ''resource_count'' (PInt 0), SetDefault ''style_count'' (PInt 0),
      SetDefault ''external_dependency_count'' (PInt 0), SetDefault ''compatible_count'' (PInt 0),
      SetDefault ''partially_compatible_count'' (PInt 0), SetDefault ''incompatible_count'' (PInt 0)]"

definition migration_compatibility_assessment :: model_class where
  "migration_compatibility_assessment = ModelClass ''MigrationCompatibilityAssessment''
     [needed ''level'', needed ''reason'', optional ''code'' PNone, optional ''warnings'' (PList []),
      optional ''manual_steps'' (PList [])]
     [SetDefault ''code'' PNone, SetDefault ''warnings'' (PList []), SetDefault ''manual_steps'' (PList [])]"

definition migration_inventory_coded_value :: model_class where
  "migration_inventory_coded_value = ModelClass ''MigrationInventoryCodedValue''
     [needed ''code'', needed ''name'']
     []"

definition migration_spatial_reference_info :: model_class where
  "migration_spatial_reference_info = ModelClass ''MigrationSpatialReferenceInfo''
     [needed ''role'', optional ''source_value'' PNone, optional ''srid'' PNone, optional ''crs_uri'' PNone, optional ''datum'' PNone,
      optional ''unit'' PNone, optional ''axis_order'' PNone, optional ''is_geographic'' PNone]
     [SetDefault ''source_value'' PNone, SetDefault ''srid'' PNone, SetDefault ''crs_uri'' PNone, SetDefault ''datum'' PNone,
      SetDefault ''unit'' PNone, SetDefault ''axis_order'' PNone, SetDefault ''is_geographic'' PNone]"

definition migration_inventory_field :: model_class where
  "migration_inventory_field = ModelClass ''MigrationInventoryField''
     [needed ''name'', needed ''field_type'', optional ''alias'' PNone, optional ''nullable'' PNone, optional ''domain_type'' PNone,
      optional ''domain_name'' PNone, optional ''domain_values'' PNone]
     [SetDefault ''alias'' PNone, SetDefault ''nullable'' PNone, SetDefault ''domain_type'' PNone, SetDefault ''domain_name'' PNone,
      ReadOptModels ''domain_values'' migration_inventory_coded_value]"

definition migration_inventory_container :: model_class where
  "migration_inventory_container = ModelClass ''MigrationInventoryContainer''
     [needed ''id'', needed ''kind'', needed ''name'', needed ''compatibility'', optional ''title'' PNone,
      optional ''description'' PNone, optional ''is_default'' PNone]
     [ReadModel ''compatibility'' migration_compatibility_assessment, SetDefault ''title'' PNone, SetDefault ''description'' PNone,
      SetDefault ''is_default'' PNone]"

definition migration_inventory_resource :: model_class where
  "migration_inventory_resource = ModelClass ''MigrationInventoryResource''
     [needed ''id'', needed ''container_id'', needed ''kind'', needed ''name'', needed ''compatibility'', optional ''title'' PNone,
      optional ''description'' PNone, optional ''geometry_type'' PNone, optional ''feature_count'' PNone,
      optional ''has_attachments'' PNone, optional ''capabilities'' (PList []), optional ''spatial_references'' (PList []),
      optional ''fields'' (PList []), optional ''style_ids'' (PList []), optional ''external_dependency_ids'' (PList [])]
     [ReadModel ''compatibility'' migration_compatibility_assessment, SetDefault ''title'' PNone, SetDefault ''description'' PNone,
      SetDefault ''geometry_type'' PNone, SetDefault ''feature_count'' PNone, SetDefault ''has_attachments'' PNone,
      SetDefault ''capabilities'' (PList []), ReadModels ''spatial_references'' migration_spatial_reference_info,
      ReadModels ''fields'' migration_inventory_field, SetDefault ''style_ids'' (PList []),
      SetDefault ''external_dependency_ids'' (PList [])]"

definition migration_inventory_style :: model_class where
  "migration_inventory_style = ModelClass ''MigrationInventoryStyle''
     [needed ''id'', needed ''container_id'', needed ''kind'', needed ''name'', needed ''compatibility'', optional ''format'' PNone,
      optional ''resource_ids'' (PList []), optional ''external_dependency_ids'' (PList []), optional ''metadata'' (PDict [])]
     [ReadModel ''compatibility'' migration_compatibility_assessment, SetDefault ''format'' PNone,
      SetDefault ''resource_ids'' (PList []), SetDefault ''external_dependency_ids'' (PList []), SetDefault ''metadata'' (PDict [])]"

definition migration_external_dependency :: model_class where
  "migration_external_dependency = ModelClass ''MigrationExternalDependency''
     [needed ''id'', needed ''container_id'', needed ''kind'', needed ''name'', needed ''compatibility'',
      optional ''resource_id'' PNone, optional ''dependency_type'' PNone, optional ''address'' PNone, optional ''metadata'' (PDict []),
      optional ''spatial_references'' (PList [])]
     [ReadModel ''compatibility'' migration_compatibility_assessment, SetDefault ''resource_id'' PNone,
      SetDefault ''dependency_type'' PNone, SetDefault ''address'' PNone, SetDefault ''metadata'' (PDict []),
      ReadModels ''spatial_references'' migration_spatial_reference_info]"

definition migration_source_inventory_artifact :: model_class where
  "migration_source_inventory_artifact = ModelClass ''MigrationSourceInventoryArtifact''
     [needed ''source_kind'', needed ''source'', needed ''auth_posture'', needed ''scan_completeness'', needed ''summary'',
      needed ''overall_compatibility'', optional ''containers'' (PList []), optional ''resources'' (PList []),
      optional ''styles'' (PList []), optional ''external_dependencies'' (PList []),
      optional ''artifact_kind'' (PStr ''honua.migration.source-inventory''), optional ''artifact_version'' (PStr ''1.0'')]
     [ReadModel ''source'' migration_source_identity, ReadModel ''auth_posture'' migration_inventory_auth_posture,
      ReadModel ''scan_completeness'' migration_inventory_completeness, ReadModel ''summary'' migration_inventory_summary,
      ReadModel ''overall_compatibility'' migration_compatibility_assessment, ReadModels ''containers'' migration_inventory_container,
      ReadModels ''resources'' migration_inventory_resource, ReadModels ''styles'' migration_inventory_style,
      ReadModels ''external_dependencies'' migration_external_dependency,
      SetDefault ''artifact_kind'' (PStr ''honua.migration.source-inventory''), SetDefault ''artifact_version'' (PStr ''1.0'')]"

definition migration_manifest_summary :: model_class where
  "migration_manifest_summary = ModelClass ''MigrationManifestSummary''
     [optional ''source_resource_count'' (PInt 0), optional ''target_resource_count'' (PInt 0),
      optional ''style_action_count'' (PInt 0), optional ''manual_review_count'' (PInt 0), optional ''unsupported_count'' (PInt 0)]
     [SetDefault ''source_resource_count'' (PInt 0), SetDefault ''target_resource_count'' (PInt 0),
      SetDefault ''style_action_count'' (PInt 0), SetDefault ''manual_review_count'' (PInt 0), SetDefault ''unsupported_count'' (PInt 0)]"

definition migration_manifest_target_resource :: model_class where
  "migration_manifest_target_resource = ModelClass ''MigrationManifestTargetResource''
     [needed ''source_resource_id'', needed ''source_kind'', needed ''action'', needed ''target_service_name'',
      needed ''target_resource_name'', needed ''compatibility'', optional ''geometry_type'' PNone, optional ''fields'' (PList []),
      optional ''capabilities'' (PList []), optional ''spatial_references'' (PList []), optional ''style_ids'' (PList []),
      optional ''external_dependency_ids'' (PList [])]
     [ReadModel ''compatibility'' migration_compatibility_assessment, SetDefault ''geometry_type'' PNone,
      ReadModels ''fields'' migration_inventory_field, SetDefault ''capabilities'' (PList []),
      ReadModels ''spatial_references'' migration_spatial_reference_info, SetDefault ''style_ids'' (PList []),
      SetDefault ''external_dependency_ids'' (PList [])]"

definition migration_manifest_style_action :: model_class where
  "migration_manifest_style_action = ModelClass ''MigrationManifestStyleAction''
     [needed ''source_style_id'', needed ''action'', needed ''compatibility'', optional ''format'' PNone,
      optional ''resource_ids'' (PList []), optional ''external_dependency_ids'' (PList [])]
     [ReadModel ''compatibility'' migration_compatibility_assessment, SetDefault ''format'' PNone,
      SetDefault ''resource_ids'' (PList []), SetDefault ''external_dependency_ids'' (PList [])]"

definition migration_manifest_review_item :: model_class where
  "migration_manifest_review_item = ModelClass ''MigrationManifestReviewItem''
     [needed ''source_id'', needed ''kind'', needed ''code'', needed ''severity'', needed ''reason'',
      optional ''manual_steps'' (PList []), optional ''warnings'' (PList [])]
     [SetDefault ''manual_steps'' (PList []), SetDefault ''warnings'' (PList [])]"

definition migration_manifest_artifact :: model_class where
  "migration_manifest_artifact = ModelClass ''MigrationManifestArtifact''
     [needed ''source_kind'', needed ''source'', needed ''summary'', optional ''target_resources'' (PList []),
      optional ''style_actions'' (PList []), optional ''manual_review_items'' (PList []), optional ''unsupported_items'' (PList []),
      optional ''artifact_kind'' (PStr ''honua.migration.manifest''), optional ''artifact_version'' (PStr ''1.0''),
      optional ''source_artifact_kind'' (PStr ''honua.migration.source-inventory''), optional ''source_artifact_version'' (PStr ''1.0'')]
     [ReadModel ''source'' migration_source_identity, ReadModel ''summary'' migration_manifest_summary,
      ReadModels ''target_resources'' migration_manifest_target_resource, ReadModels ''style_actions'' migration_manifest_style_action,
      ReadModels ''manual_review_items'' migration_manifest_review_item,
      ReadModels ''unsupported_items'' migration_manifest_review_item,
      SetDefault ''artifact_kind'' (PStr ''honua.migration.manifest''), SetDefault ''artifact_version'' (PStr ''1.0''),
      SetDefault ''source_artifact_kind'' (PStr ''honua.migration.source-inventory''),
      SetDefault ''source_artifact_version'' (PStr ''1.0'')]"

definition migration_parity_evidence_item :: model_class where
  "migration_parity_evidence_item = ModelClass ''MigrationParityEvidenceItem''
     [needed ''id'', needed ''state'', needed ''summary'', optional ''evidence'' (PList []), optional ''remediation'' (PList []),
      optional ''related_ids'' (PList [])]
     [SetDefault ''evidence'' (PList []), SetDefault ''remediation'' (PList []), SetDefault ''related_ids'' (PList [])]"

definition migration_parity_evidence_section :: model_class where
  "migration_parity_evidence_section = ModelClass ''MigrationParityEvidenceSection''
     [needed ''id'', needed ''title'', needed ''state'', optional ''items'' (PList [])]
     [ReadModels ''items'' migration_parity_evidence_item]"

definition migration_cutover_readiness_item :: model_class where
  "migration_cutover_readiness_item = ModelClass ''MigrationCutoverReadinessItem''
     [needed ''id'', needed ''title'', needed ''state'', optional ''evidence'' (PList []), optional ''remediation'' (PList []),
      optional ''owner'' PNone]
     [SetDefault ''evidence'' (PList []), SetDefault ''remediation'' (PList []), SetDefault ''owner'' PNone]"

definition migration_cutover_readiness_summary :: model_class where
  "migration_cutover_readiness_summary = ModelClass ''MigrationCutoverReadinessSummary''
     [needed ''state'', optional ''items'' (PList [])]
     [ReadModels ''items'' migration_cutover_readiness_item]"

definition migration_readiness_attestation_item :: model_class where
  "migration_readiness_attestation_item = ModelClass ''MigrationReadinessAttestationItem''
     [needed ''id'', needed ''state'', optional ''evidence'' (PList []), optional ''owner'' PNone]
     [SetDefault ''evidence'' (PList []), SetDefault ''owner'' PNone]"

definition migration_readiness_attestation :: model_class where
  "migration_readiness_attestation = ModelClass ''MigrationReadinessAttestation''
     [optional ''items'' (PList [])]
     [ReadModels ''items'' migration_readiness_attestation_item]"

definition migration_parity_evidence_artifact :: model_class where
  "migration_parity_evidence_artifact = ModelClass ''MigrationParityEvidenceArtifact''
     [needed ''source_kind'', needed ''source'', needed ''overall_state'', needed ''summary'', needed ''cutover_readiness'',
      optional ''manifest_available'' (PBool False), optional ''sections'' (PList []),
      optional ''artifact_kind'' (PStr ''honua.migration.parity-evidence-pack''), optional ''artifact_version'' (PStr ''1.0'')]
     [ReadModel ''source'' migration_source_identity, ReadModel ''cutover_readiness'' migration_cutover_readiness_summary,
      SetDefault ''manifest_available'' (PBool False), ReadModels ''sections'' migration_parity_evidence_section,
      SetDefault ''artifact_kind'' (PStr ''honua.migration.parity-evidence-pack''), SetDefault ''artifact_version'' (PStr ''1.0'')]"

definition toolbox_parameter_binding :: model_class where
  "toolbox_parameter_binding = ModelClass ''ToolboxParameterBinding''
     [needed ''source_name'', needed ''target_parameter'', needed ''value_type'', optional ''required'' (PBool False)]
     []"

definition toolbox_translation_issue :: model_class where
  "toolbox_translation_issue = ModelClass ''ToolboxTranslationIssue''
     [needed ''code'', needed ''message'', optional ''parameter_name'' PNone]
     []"

definition toolbox_tool_translation :: model_class where
  "toolbox_tool_translation = ModelClass ''ToolboxToolTranslation''
     [needed ''tool_name'', needed ''classification'', optional ''process_id'' PNone, optional ''parameter_bindings'' (PList []),
      optional ''issues'' (PList [])]
     [ReadModels ''parameter_bindings'' toolbox_parameter_binding, ReadModels ''issues'' toolbox_translation_issue]"

definition toolbox_translation_summary :: model_class where
  "toolbox_translation_summary = ModelClass ''ToolboxTranslationSummary''
     [optional ''tool_count'' (PInt 0), optional ''translated_count'' (PInt 0), optional ''partially_translated_count'' (PInt 0),
      optional ''unsupported_count'' (PInt 0)]
     []"

definition toolbox_translation_report :: model_class where
  "toolbox_translation_report = ModelClass ''ToolboxTranslationReport''
     [needed ''toolbox_name'', needed ''source_format'', (''summary'', Some (default_instance toolbox_translation_summary)),
      optional ''tools'' (PList []), optional ''artifact_kind'' PNone, optional ''artifact_version'' PNone]
     [ReadModelOr ''summary'' toolbox_translation_summary (default_instance toolbox_translation_summary),
      ReadModels ''tools'' toolbox_tool_translation]"

definition toolbox_parameter_mapping :: model_class where
  "toolbox_parameter_mapping = ModelClass ''ToolboxParameterMapping''
     [needed ''source_name'', needed ''target_parameter'', optional ''source_data_type'' PNone]
     []"

definition toolbox_tool_descriptor :: model_class where
  "toolbox_tool_descriptor = ModelClass ''ToolboxToolDescriptor''
     [needed ''tool_name'', optional ''display_name'' PNone, optional ''target_process_id'' PNone,
      optional ''parameter_mappings'' (PList []), optional ''unsupported_constructs'' (PList [])]
     []"

definition toolbox_translation_manifest :: model_class where
  "toolbox_translation_manifest = ModelClass ''ToolboxTranslationManifest''
     [needed ''toolbox_name'', needed ''source_format'', optional ''source_label'' PNone, optional ''tools'' (PList []),
      optional ''artifact_kind'' (PStr ''honua.migration.toolbox-translation''), optional ''artifact_version'' (PStr ''1.0'')]
     []"

definition migration_inventory_scan_request :: model_class where
  "migration_inventory_scan_request = ModelClass ''MigrationInventoryScanRequest''
     [needed ''source_kind'', needed ''source_url'', optional ''username'' PNone, optional ''password'' PNone,
      optional ''timeout_seconds'' PNone, optional ''include_style_content'' PNone]
     []"

section \<open>Writing artifacts\<close>

definition source_inventory_to_dict :: "model_val \<Rightarrow> py_error + (string, pyval) pydict" where
  "source_inventory_to_dict m = identified_first [''artifactKind'', ''artifactVersion''] (to_camel_dict m)"

definition migration_manifest_to_dict :: "model_val \<Rightarrow> py_error + (string, pyval) pydict" where
  "migration_manifest_to_dict m = identified_first [''artifactKind'', ''artifactVersion'', ''sourceArtifactKind'', ''sourceArtifactVersion''] (to_camel_dict m)"

definition parity_evidence_to_dict :: "model_val \<Rightarrow> py_error + (string, pyval) pydict" where
  "parity_evidence_to_dict m = identified_first [''artifactKind'', ''artifactVersion''] (to_camel_dict m)"

definition toolbox_manifest_to_dict :: "model_val \<Rightarrow> py_error + (string, pyval) pydict" where
  "toolbox_manifest_to_dict m = identified_first [''artifactKind'', ''artifactVersion''] (to_camel_dict m)"

definition toolbox_report_to_dict :: "model_val \<Rightarrow> (string, pyval) pydict" where
  "toolbox_report_to_dict m = (let d = to_camel_dict m; names = filter (dict_has d) [''artifactKind'', ''artifactVersion''] in
     List.map_filter (\<lambda>n. map_option (Pair n) (dict_get d n)) names @ foldl dict_pop d names)"

section \<open>Reading back what was written\<close>

text \<open>The classes this works for: every step reads one field as one kind of thing, and the names of the
  fields survive the change of case.\<close>

fun round_class :: "model_class \<Rightarrow> bool" and round_step :: "read_step \<Rightarrow> bool" where
  "round_class (ModelClass name fs steps) \<longleftrightarrow> separate_steps steps \<and> distinct (map fst fs) \<and> (\<forall>k \<in> set (map fst fs). to_snake (to_camel k) = k) \<and>
     (\<forall>s \<in> set steps. round_step s \<and> step_writes s \<in> set (map fst fs))"
| "round_step (SetDefault n v) = True" | "round_step (ReadModel n c) = round_class c" | "round_step (ReadModelOr n c v) = round_class c"
| "round_step (ReadModels n c) = round_class c" | "round_step (ReadOptModels n c) = round_class c" | "round_step s = False"

text \<open>An instance as its annotations say: instances where the class reads instances, and \<open>None\<close> only
  where a field that is not there is read as \<open>None\<close>.\<close>

definition reads_none :: "(string \<times> model_val option) list \<Rightarrow> read_step list \<Rightarrow> string \<Rightarrow> bool" where
  "reads_none fs steps k \<longleftrightarrow> (\<exists>c. ReadOptModels k c \<in> set steps) \<or> SetDefault k PNone \<in> set steps \<or>
     (k \<notin> step_writes ` set steps \<and> (k, Some (Plain PNone)) \<in> set fs)"

fun fits :: "model_class \<Rightarrow> model_val \<Rightarrow> bool" and fits_by :: "read_step \<Rightarrow> model_val \<Rightarrow> bool" where
  "fits (ModelClass name fs steps) m \<longleftrightarrow> (\<exists>items. m = Obj name items \<and> map fst items = map fst fs \<and>
     (\<forall>(k, v) \<in> set items. (\<forall>s \<in> set steps. step_writes s = k \<longrightarrow> fits_by s v) \<and> (k \<notin> step_writes ` set steps \<longrightarrow> is_plain v) \<and>
        (v = Plain PNone \<longrightarrow> reads_none fs steps k)))"
| "fits_by (SetDefault n d) v \<longleftrightarrow> is_plain v"
| "fits_by (ReadModel n c) v \<longleftrightarrow> fits c v"
| "fits_by (ReadModelOr n c other) v \<longleftrightarrow> fits c v"
| "fits_by (ReadModels n c) v \<longleftrightarrow> (\<exists>ms. v = Several ms \<and> (\<forall>m \<in> set ms. fits c m))"
| "fits_by (ReadOptModels n c) v \<longleftrightarrow> v = Plain PNone \<or> (\<exists>ms. v = Several ms \<and> (\<forall>m \<in> set ms. fits c m))"
| "fits_by s v \<longleftrightarrow> False"

lemma dict_set_fresh: "a \<notin> fst ` set acc \<Longrightarrow> dict_set acc a b = acc @ [(a, b)]"
  by (induction acc) (auto simp: dict_set_def)

lemma put_all_fresh: "distinct (map fst (acc @ xs)) \<Longrightarrow> put_all dict_set acc xs = acc @ xs"
proof (induction xs arbitrary: acc)
  case (Cons x xs)
  obtain a b where x: "x = (a, b)" by (cases x)
  have "dict_set acc a b = acc @ [(a, b)]" using Cons.prems x by (simp add: dict_set_fresh)
  then show ?case using Cons.IH [of "acc @ [x]"] Cons.prems x by (simp add: put_all_def)
qed (simp add: put_all_def)

lemma put_all_get: "distinct (map fst xs) \<Longrightarrow> dict_get (put_all dict_set [] xs) k = map_of xs k"
  using put_all_fresh [of "[]" xs] by (simp add: dict_get_def)

lemma fits_mapping: "fits c m \<Longrightarrow> is_mapping (to_dict_value m)"
  by (cases c) (auto simp: is_mapping_def)

definition reads_back :: "read_step \<Rightarrow> bool" where
  "reads_back s \<longleftrightarrow> (\<forall>n c m. (s \<in> {ReadModel n c, ReadModels n c, ReadOptModels n c} \<or> (\<exists>v. s = ReadModelOr n c v)) \<longrightarrow>
     fits c m \<longrightarrow> from_dict c (to_dict_value m) = Inr m)"

lemma mapE_back:
  "\<forall>m \<in> set ms. fits c m \<and> from_dict c (to_dict_value m) = Inr m \<Longrightarrow>
   mapE (\<lambda>item. if is_mapping item then from_dict c item else Inr (Plain item)) (map to_dict_value ms) = Inr ms"
  using fits_mapping by (induction ms) auto

text \<open>What a document shows of a field, and what a step makes of it.\<close>

definition shown_as :: "model_val \<Rightarrow> model_val option" where
  "shown_as v = (if v = Plain PNone then None else Some (Plain (to_dict_value v)))"

lemma run_step_round:
  assumes "reads_back s" "fits_by s v" "dict_get d (step_writes s) = shown_as v"
    and none: "v = Plain PNone \<Longrightarrow> (\<exists>n c. s = ReadOptModels n c) \<or> (\<exists>n. s = SetDefault n PNone)"
  shows "\<exists>d'. run_step s d = Inr d' \<and> (\<forall>j. dict_get d' j = (if j = step_writes s then Some v else dict_get d j))"
proof (cases s)
  case (SetDefault n x)
  then show ?thesis using assms by (auto simp: shown_as_def is_plain_def split: option.splits)
next
  case (ReadModel n c)
  then have v: "fits c v" "from_dict c (to_dict_value v) = Inr v" using assms(1,2) by (auto simp: reads_back_def)
  moreover have "v \<noteq> Plain PNone" using v(1) by (cases c) auto
  ultimately show ?thesis using assms(3) fits_mapping [OF v(1)] ReadModel by (simp add: Let_def shown_as_def plain_of_def)
next
  case (ReadModelOr n c x)
  then have v: "fits c v" "from_dict c (to_dict_value v) = Inr v" using assms(1,2) by (auto simp: reads_back_def)
  moreover have "v \<noteq> Plain PNone" using v(1) by (cases c) auto
  ultimately show ?thesis using assms(3) fits_mapping [OF v(1)] ReadModelOr by (simp add: Let_def shown_as_def plain_of_def)
next
  case (ReadModels n c)
  then obtain ms where ms: "v = Several ms" "\<forall>m \<in> set ms. fits c m \<and> from_dict c (to_dict_value m) = Inr m"
    using assms(1,2) by (auto simp: reads_back_def)
  then show ?thesis using assms(3) mapE_back [OF ms(2)] ReadModels by (simp add: shown_as_def plain_of_def list_items_def)
next
  case (ReadOptModels n c)
  show ?thesis
  proof (cases "v = Plain PNone")
    case True
    then show ?thesis using assms(3) ReadOptModels by (simp add: shown_as_def plain_of_def)
  next
    case False
    then obtain ms where ms: "v = Several ms" "\<forall>m \<in> set ms. fits c m \<and> from_dict c (to_dict_value m) = Inr m"
      using assms(1,2) ReadOptModels by (auto simp: reads_back_def)
    then show ?thesis using assms(3) mapE_back [OF ms(2)] ReadOptModels by (simp add: shown_as_def plain_of_def list_items_def Let_def)
  qed
qed (use assms(2) in simp_all)

lemma run_steps_round:
  assumes "separate_steps steps" "\<forall>s \<in> set steps. reads_back s \<and> fits_by s (val (step_writes s)) \<and> dict_get d (step_writes s) = shown_as (val (step_writes s)) \<and>
      (val (step_writes s) = Plain PNone \<longrightarrow> (\<exists>n c. s = ReadOptModels n c) \<or> (\<exists>n. s = SetDefault n PNone))"
  shows "\<exists>d'. run_steps steps d = Inr d' \<and> (\<forall>j. dict_get d' j = (if j \<in> step_writes ` set steps then Some (val j) else dict_get d j))"
  using assms
proof (induction steps arbitrary: d)
  case (Cons s ss)
  obtain d1 where d1: "run_step s d = Inr d1" "\<forall>j. dict_get d1 j = (if j = step_writes s then Some (val (step_writes s)) else dict_get d j)"
    using run_step_round [of s "val (step_writes s)" d] Cons.prems(2) by auto
  have "step_writes t \<in> step_uses t" for t by (cases t) auto
  then have apart: "\<forall>t \<in> set ss. step_writes t \<noteq> step_writes s" using Cons.prems(1) by (metis separate_steps.simps(2))
  have "\<exists>d'. run_steps ss d1 = Inr d' \<and> (\<forall>j. dict_get d' j = (if j \<in> step_writes ` set ss then Some (val j) else dict_get d1 j))"
    by (rule Cons.IH) (use Cons.prems apart d1(2) in auto)
  then show ?case using d1 by auto
qed simp

lemma construct_round:
  assumes "\<forall>(k, v) \<in> set items. dict_get d k = Some v \<or> (dict_get d k = None \<and> (k, Some v) \<in> set fs)" "map fst items = map fst fs" "distinct (map fst fs)"
  shows "construct name fs d = Inr (Obj name items)"
proof -
  let ?f = "\<lambda>(n, default'). case dict_get d n of Some v \<Rightarrow> Inr (n, v) | None \<Rightarrow> (case default' of Some v \<Rightarrow> Inr (n, v) | None \<Rightarrow> Inl ErrType)"
  have "map fst its = map fst gs \<Longrightarrow> set gs \<subseteq> set fs \<Longrightarrow> set its \<subseteq> set items \<Longrightarrow> mapE ?f gs = Inr its" for its gs
  proof (induction gs arbitrary: its)
    case (Cons g gs)
    obtain k x v its' where g: "g = (k, x)" "its = (k, v) # its'" using Cons.prems(1) by (cases g; cases its) auto
    have "dict_get d k = Some v \<or> (dict_get d k = None \<and> (k, Some v) \<in> set fs)" using assms(1) Cons.prems(3) g by auto
    moreover have "x = Some v" if "(k, Some v) \<in> set fs" using eq_key_imp_eq_value [OF assms(3)] that Cons.prems(2) g by auto
    ultimately have "?f g = Inr (k, v)" using g by auto
    then show ?case using Cons g by simp
  qed simp
  from this [OF assms(2)] show ?thesis by (simp add: construct_def)
qed

lemma snake_shown:
  assumes "distinct (map fst items)" "\<forall>k \<in> set (map fst items). to_snake (to_camel k) = k" "distinct (map fst e)"
    "set e = set (map (\<lambda>(n, v). (to_camel n, to_dict_value v)) (filter (\<lambda>(n, v). v \<noteq> Plain PNone) items))"
  shows "\<exists>d. snake_keys (PDict e) = Inr d \<and> (\<forall>(k, v) \<in> set items. dict_get d k = shown_as v)"
proof -
  let ?m = "map (\<lambda>(k, v). (to_snake k, Plain v)) e"
  have member: "(n, x) \<in> set e \<longleftrightarrow> (\<exists>k v. (k, v) \<in> set items \<and> v \<noteq> Plain PNone \<and> n = to_camel k \<and> x = to_dict_value v)" for n x
    using assms(4) by auto
  have "to_camel (to_snake n) = n" if "n \<in> fst ` set e" for n using that member assms(2) by fastforce
  then have "inj_on to_snake (fst ` set e)" by (rule inj_on_inverseI)
  then have dist: "distinct (map fst ?m)" using assms(3) by (simp add: comp_def case_prod_unfold distinct_map inj_on_def)
  have "dict_get (put_all dict_set [] ?m) k = shown_as v" if "(k, v) \<in> set items" for k v
  proof (cases "v = Plain PNone")
    case True
    have "map_of ?m k = None"
    proof (rule ccontr)
      assume "map_of ?m k \<noteq> None"
      then obtain n x where "(n, x) \<in> set e" "k = to_snake n" by (auto dest!: map_of_SomeD)
      then obtain j u where "(j, u) \<in> set items" "u \<noteq> Plain PNone" "k = j" using member assms(2) by fastforce
      then show False using that True eq_key_imp_eq_value [OF assms(1)] by metis
    qed
    then show ?thesis using put_all_get [OF dist] True by (simp add: shown_as_def)
  next
    case False
    then have "(to_camel k, to_dict_value v) \<in> set e" using member that by blast
    then have "(k, Plain (to_dict_value v)) \<in> set ?m" using assms(2) that by force
    then have "map_of ?m k = Some (Plain (to_dict_value v))" using dist by simp
    then show ?thesis using put_all_get [OF dist] False by (simp add: shown_as_def)
  qed
  then show ?thesis by (auto simp: snake_keys_def)
qed


lemma separate_unique: "separate_steps steps \<Longrightarrow> s \<in> set steps \<Longrightarrow> t \<in> set steps \<Longrightarrow> step_writes s = step_writes t \<Longrightarrow> s = t"
proof (induction steps)
  case (Cons a steps)
  have "step_writes r \<in> step_uses r" for r by (cases r) auto
  then have "\<forall>r \<in> set steps. step_writes r \<noteq> step_writes a" using Cons.prems(1) by (metis separate_steps.simps(2))
  then show ?case using Cons by auto
qed simp

lemma distinct_put_all: "distinct (map fst d) \<Longrightarrow> distinct (map fst (put_all dict_set d xs))"
  by (induction xs arbitrary: d) (auto simp: put_all_def dict_set_def distinct_update)

lemma written_self:
  "fits c m \<Longrightarrow> (\<And>e. distinct (map fst e) \<Longrightarrow> set e = set (to_camel_dict m) \<Longrightarrow> from_dict c (PDict e) = Inr m) \<Longrightarrow> from_dict c (to_dict_value m) = Inr m"
proof -
  assume m: "fits c m" and again: "\<And>e. distinct (map fst e) \<Longrightarrow> set e = set (to_camel_dict m) \<Longrightarrow> from_dict c (PDict e) = Inr m"
  obtain n items where "m = Obj n items" using m by (cases c) auto
  then have "to_dict_value m = PDict (to_camel_dict m)" "distinct (map fst (to_camel_dict m))" by (simp_all add: to_camel_dict_def distinct_put_all)
  then show ?thesis using again [of "to_camel_dict m"] by simp
qed

lemma written_back:
  "round_class c \<Longrightarrow> \<forall>m e. fits c m \<longrightarrow> distinct (map fst e) \<longrightarrow> set e = set (to_camel_dict m) \<longrightarrow> from_dict c (PDict e) = Inr m" "round_step s \<Longrightarrow> reads_back s"
proof (induction c and s rule: round_class_round_step.induct)
  case (1 name fs steps)
  have rules: "separate_steps steps" "distinct (map fst fs)" "\<forall>k \<in> set (map fst fs). to_snake (to_camel k) = k" "\<forall>s \<in> set steps. step_writes s \<in> set (map fst fs)"
    "\<forall>s \<in> set steps. reads_back s" using 1 by auto
  show ?case
  proof (intro allI impI)
    fix m e
    assume m: "fits (ModelClass name fs steps) m" and e: "distinct (map fst e)" "set e = set (to_camel_dict m)"
    obtain items where items: "m = Obj name items" "map fst items = map fst fs" and "\<forall>(k, v) \<in> set items. (\<forall>s \<in> set steps. step_writes s = k \<longrightarrow> fits_by s v) \<and>
        (k \<notin> step_writes ` set steps \<longrightarrow> is_plain v) \<and> (v = Plain PNone \<longrightarrow> reads_none fs steps k)"
      using m by (simp only: fits.simps) blast
    then have each: "(\<forall>s \<in> set steps. step_writes s = k \<longrightarrow> fits_by s v) \<and> (k \<notin> step_writes ` set steps \<longrightarrow> is_plain v) \<and> (v = Plain PNone \<longrightarrow> reads_none fs steps k)"
      if "(k, v) \<in> set items" for k v using that by blast
    have dist: "distinct (map fst items)" "\<forall>k \<in> set (map fst items). to_snake (to_camel k) = k" using rules(2,3) items(2) by simp_all
    let ?shown = "map (\<lambda>(n, v). (to_camel n, to_dict_value v)) (filter (\<lambda>(n, v). v \<noteq> Plain PNone) items)"
    have "inj_on to_camel (set (map fst items))" using dist(2) by (metis inj_on_inverseI)
    then have "distinct (map fst ?shown)" using dist(1)
      by (auto simp: comp_def case_prod_unfold distinct_map inj_on_def intro!: inj_onI)
    then have "set e = set ?shown" using e(2) items(1) put_all_fresh [of "[]" ?shown] by (simp add: to_camel_dict_def)
    then obtain d where d: "snake_keys (PDict e) = Inr d" "\<forall>(k, v) \<in> set items. dict_get d k = shown_as v"
      using snake_shown [OF dist e(1)] by blast
    define val where "val k = the (map_of items k)" for k
    have val: "val k = v" if "(k, v) \<in> set items" for k v using that dist(1) by (simp add: val_def)
    have has: "\<exists>v. (k, v) \<in> set items" if "k \<in> set (map fst fs)" for k using that items(2) by (metis (no_types, lifting) fst_conv imageE list.set_map surj_pair)
    have unique: "s = t" if "s \<in> set steps" "t \<in> set steps" "step_writes s = step_writes t" for s t
      using rules(1) that separate_unique by blast
    have "\<exists>d'. run_steps steps d = Inr d' \<and> (\<forall>j. dict_get d' j = (if j \<in> step_writes ` set steps then Some (val j) else dict_get d j))"
    proof (rule run_steps_round [OF rules(1)], intro ballI conjI impI)
      fix s assume s: "s \<in> set steps"
      obtain v where v: "(step_writes s, v) \<in> set items" using has rules(4) s by blast
      show "reads_back s" using rules(5) s by blast
      show "fits_by s (val (step_writes s))" using each [OF v] s by (simp add: val [OF v])
      show "dict_get d (step_writes s) = shown_as (val (step_writes s))" using d(2) v by (auto simp: val [OF v])
      assume "val (step_writes s) = Plain PNone"
      then have "reads_none fs steps (step_writes s)" using each [OF v] by (simp add: val [OF v])
      then obtain t where t: "t \<in> set steps" "step_writes t = step_writes s" "(\<exists>n c. t = ReadOptModels n c) \<or> (\<exists>n. t = SetDefault n PNone)"
        using s unfolding reads_none_def by (metis imageI step_writes.simps(1,5))
      then have "t = s" using unique [OF t(1) s] by simp
      then show "(\<exists>n c. s = ReadOptModels n c) \<or> (\<exists>n. s = SetDefault n PNone)" using t(3) by simp
    qed
    then obtain d' where d': "run_steps steps d = Inr d'" "\<And>j. dict_get d' j = (if j \<in> step_writes ` set steps then Some (val j) else dict_get d j)" by blast
    have "construct name fs d' = Inr (Obj name items)"
    proof (rule construct_round [OF _ items(2) rules(2)], intro ballI, clarify)
      fix k v assume kv: "(k, v) \<in> set items" "\<not> (dict_get d' k = None \<and> (k, Some v) \<in> set fs)"
      show "dict_get d' k = Some v"
      proof (cases "k \<in> step_writes ` set steps")
        case True
        then show ?thesis using d'(2) val [OF kv(1)] by simp
      next
        case False
        then have g: "dict_get d' k = shown_as v" "is_plain v" using d'(2) d(2) kv(1) each [OF kv(1)] by auto
        have "v \<noteq> Plain PNone"
        proof
          assume "v = Plain PNone"
          then have "(k, Some v) \<in> set fs" "dict_get d' k = None"
            using each [OF kv(1)] g(1) False by (auto simp: reads_none_def shown_as_def) (metis imageI step_writes.simps(1,5))+
          then show False using kv(2) by simp
        qed
        then show ?thesis using g by (auto simp: shown_as_def is_plain_def)
      qed
    qed
    then show "from_dict (ModelClass name fs steps) (PDict e) = Inr m" using d(1) d'(1) items(1) by simp
  qed
qed (auto simp: reads_back_def written_self)

definition toolkit_classes :: "model_class list" where
  "toolkit_classes = [migration_source_identity, migration_inventory_auth_posture, migration_inventory_completeness, migration_inventory_summary,
     migration_compatibility_assessment, migration_inventory_coded_value, migration_spatial_reference_info, migration_inventory_field,
     migration_inventory_container, migration_inventory_resource, migration_inventory_style, migration_external_dependency,
     migration_source_inventory_artifact, migration_manifest_summary, migration_manifest_target_resource, migration_manifest_style_action,
     migration_manifest_review_item, migration_manifest_artifact, migration_parity_evidence_item, migration_parity_evidence_section,
     migration_cutover_readiness_item, migration_cutover_readiness_summary, migration_readiness_attestation_item, migration_readiness_attestation,
     migration_parity_evidence_artifact, toolbox_parameter_binding, toolbox_translation_issue, toolbox_tool_translation, toolbox_translation_summary,
     toolbox_translation_report]"

text \<open>Letters by their bits, for evaluation.\<close>

lemma letter_bits [code]:
  "is_lower (Char b0 b1 b2 b3 b4 b5 b6 b7) \<longleftrightarrow> \<not> b7 \<and> b6 \<and> b5 \<and> (b0 \<or> b1 \<or> b2 \<or> b3 \<or> b4) \<and> \<not> (b4 \<and> b3 \<and> (b2 \<or> (b1 \<and> b0)))"
  by (cases b0; cases b1; cases b2; cases b3; cases b4; cases b5; cases b6; cases b7) (simp_all add: is_lower_def)

lemma capital_bits [code]:
  "is_upper (Char b0 b1 b2 b3 b4 b5 b6 b7) \<longleftrightarrow> \<not> b7 \<and> b6 \<and> \<not> b5 \<and> (b0 \<or> b1 \<or> b2 \<or> b3 \<or> b4) \<and> \<not> (b4 \<and> b3 \<and> (b2 \<or> (b1 \<and> b0)))"
  by (cases b0; cases b1; cases b2; cases b3; cases b4; cases b5; cases b6; cases b7) (simp_all add: is_upper_def)

lemma lower_bits [code]: "char_lower (Char b0 b1 b2 b3 b4 b5 b6 b7) = Char b0 b1 b2 b3 b4 (b5 \<or> is_upper (Char b0 b1 b2 b3 b4 b5 b6 b7)) b6 b7"
  by (cases b0; cases b1; cases b2; cases b3; cases b4; cases b5; cases b6; cases b7) (simp_all add: is_upper_def char_lower_def char_of_def Let_def bit_Suc_0_iff)

lemma upper_bits [code]: "char_upper (Char b0 b1 b2 b3 b4 b5 b6 b7) = Char b0 b1 b2 b3 b4 (b5 \<and> \<not> is_lower (Char b0 b1 b2 b3 b4 b5 b6 b7)) b6 b7"
  by (cases b0; cases b1; cases b2; cases b3; cases b4; cases b5; cases b6; cases b7) (simp_all add: is_lower_def char_upper_def char_of_def Let_def bit_Suc_0_iff)

lemma digit_bits [code]: "char_is_digit (Char b0 b1 b2 b3 b4 b5 b6 b7) \<longleftrightarrow> \<not> b7 \<and> \<not> b6 \<and> b5 \<and> b4 \<and> \<not> (b3 \<and> (b2 \<or> b1))"
  by (cases b0; cases b1; cases b2; cases b3; cases b4; cases b5; cases b6; cases b7) (simp_all add: char_is_digit_def)

lemma toolkit_rounds: "list_all round_class toolkit_classes"
  by code_simp

lemma popped: "dict_get (foldl dict_pop d names) k = (if k \<in> set names then None else dict_get d k)"
  by (induction names arbitrary: d) auto

lemma distinct_pop: "distinct (map fst d) \<Longrightarrow> distinct (map fst (foldl dict_pop d names)) \<and> fst ` set (foldl dict_pop d names) \<subseteq> fst ` set d - set names"
proof (induction names arbitrary: d)
  case (Cons a names)
  have "distinct (map fst (dict_pop d a))" "fst ` set (dict_pop d a) \<subseteq> fst ` set d - {a}"
    using Cons.prems by (auto simp: dict_pop_def AList.delete_eq distinct_map_filter)
  moreover have "fst ` set (foldl dict_pop (dict_pop d a) names) \<subseteq> fst ` set (dict_pop d a) - set names" "distinct (map fst (foldl dict_pop (dict_pop d a) names))"
    using Cons.IH [of "dict_pop d a"] calculation(1) by simp_all
  ultimately show ?case unfolding foldl.simps list.set by blast
qed simp

lemma member_iff_get: "distinct (map fst d) \<Longrightarrow> (k, v) \<in> set d \<longleftrightarrow> dict_get d k = Some v"
  by (simp add: dict_get_def)

lemma moved_front:
  assumes "distinct (map fst d)" "distinct names" "\<forall>n \<in> set names. dict_get d n = Some (f n)"
  shows "distinct (map fst (map (\<lambda>n. (n, f n)) names @ foldl dict_pop d names)) \<and> set (map (\<lambda>n. (n, f n)) names @ foldl dict_pop d names) = set d"
proof
  note p = distinct_pop [OF assms(1), of names]
  show "distinct (map fst (map (\<lambda>n. (n, f n)) names @ foldl dict_pop d names))" using p assms(2) by (auto simp: comp_def)
  have "(k, v) \<in> set (map (\<lambda>n. (n, f n)) names @ foldl dict_pop d names) \<longleftrightarrow> (k, v) \<in> set d" for k v
    using assms(3) member_iff_get [OF assms(1)] member_iff_get [of "foldl dict_pop d names"] p by (auto simp: popped)
  then show "set (map (\<lambda>n. (n, f n)) names @ foldl dict_pop d names) = set d" by auto
qed

lemma identified_first_same:
  assumes "identified_first names d = Inr e" "distinct (map fst d)" "distinct names"
  shows "distinct (map fst e) \<and> set e = set d"
proof -
  obtain front where front: "mapE (\<lambda>n. case dict_get d n of None \<Rightarrow> Inl ErrKey | Some v \<Rightarrow> Inr (n, v)) names = Inr front" "e = front @ foldl dict_pop d names"
    using assms(1) by (auto simp: identified_first_def bindE_eq_Inr)
  have "mapE (\<lambda>n. case dict_get d n of None \<Rightarrow> Inl ErrKey | Some v \<Rightarrow> Inr (n, v)) ns = Inr fr \<Longrightarrow>
      fr = map (\<lambda>n. (n, the (dict_get d n))) ns \<and> (\<forall>n \<in> set ns. dict_get d n = Some (the (dict_get d n)))" for ns fr
    by (induction ns arbitrary: fr) (auto simp: bindE_eq_Inr split: option.splits)
  from this [OF front(1)] show ?thesis using moved_front [OF assms(2,3), of "\<lambda>n. the (dict_get d n)"] front(2) by simp
qed

lemma to_camel_dict_distinct: "fits c m \<Longrightarrow> distinct (map fst (to_camel_dict m))"
  by (cases c) (auto simp: to_camel_dict_def distinct_put_all)

lemma report_same: "fits c m \<Longrightarrow> distinct (map fst (toolbox_report_to_dict m)) \<and> set (toolbox_report_to_dict m) = set (to_camel_dict m)"
proof -
  assume m: "fits c m"
  let ?d = "to_camel_dict m" let ?names = "filter (dict_has ?d) [''artifactKind'', ''artifactVersion'']"
  have get: "\<forall>n \<in> set ?names. dict_get ?d n = Some (the (dict_get ?d n))" by (auto simp: dict_has_def)
  have "List.map_filter (\<lambda>n. map_option (Pair n) (dict_get ?d n)) ns = map (\<lambda>n. (n, the (dict_get ?d n))) ns" if "\<forall>n \<in> set ns. dict_get ?d n = Some (the (dict_get ?d n))" for ns
    using that by (induction ns) (auto simp: List.map_filter_def)
  from this [OF get] have "toolbox_report_to_dict m = map (\<lambda>n. (n, the (dict_get ?d n))) ?names @ foldl dict_pop ?d ?names"
    unfolding toolbox_report_to_dict_def Let_def by simp
  then show ?thesis using moved_front [OF to_camel_dict_distinct [OF m] _ get] by simp
qed

text \<open>C31. Artifacts survive being written and read back: for every class of the migration toolkit and the
  toolbox report, an instance as its class says is read back from what \<open>to_dict\<close> wrote - the plain
  form, the form of an artifact with its identity first, or the form of a report - with every field
  equal, those left out for being \<open>None\<close> included.\<close>

theorem artifacts_round_trip:
  assumes "c \<in> set toolkit_classes" "fits c m"
  shows "from_dict c (to_dict_value m) = Inr m \<and> from_dict c (PDict (toolbox_report_to_dict m)) = Inr m \<and>
    (\<forall>write e. write \<in> {source_inventory_to_dict, migration_manifest_to_dict, parity_evidence_to_dict} \<longrightarrow> write m = Inr e \<longrightarrow> from_dict c (PDict e) = Inr m)"
proof -
  have "round_class c" using toolkit_rounds assms(1) by (simp add: list_all_iff)
  from written_back(1) [OF this] have again: "from_dict c (PDict e) = Inr m" if "distinct (map fst e)" "set e = set (to_camel_dict m)" for e
    using assms(2) that by blast
  have "from_dict c (to_dict_value m) = Inr m" by (rule written_self [OF assms(2) again])
  moreover have "from_dict c (PDict (toolbox_report_to_dict m)) = Inr m" using again report_same [OF assms(2)] by blast
  moreover have "from_dict c (PDict e) = Inr m" if "identified_first names (to_camel_dict m) = Inr e" "distinct names" for names e
    using again identified_first_same [OF that(1) to_camel_dict_distinct [OF assms(2)] that(2)] by blast
  ultimately show ?thesis
    by (auto simp: source_inventory_to_dict_def migration_manifest_to_dict_def parity_evidence_to_dict_def)
qed

definition sample_tool :: model_val where
  "sample_tool = Obj ''ToolboxToolTranslation'' [(''tool_name'', Plain (PStr ''Clip'')), (''classification'', Plain (PStr ''translated'')), (''process_id'', Plain PNone),
     (''parameter_bindings'', Several [Obj ''ToolboxParameterBinding'' [(''source_name'', Plain (PStr ''in'')), (''target_parameter'', Plain (PStr ''input'')),
       (''value_type'', Plain (PStr ''layer'')), (''required'', Plain (PBool True))]]), (''issues'', Several [])]"

lemma artifacts_round_trip_witness: "from_dict toolbox_tool_translation (to_dict_value sample_tool) = Inr sample_tool \<and> sample_tool \<noteq> Plain PNone"
proof -
  have "toolbox_tool_translation \<in> set toolkit_classes" by (simp add: toolkit_classes_def)
  moreover have "fits toolbox_tool_translation sample_tool"
    by (simp add: toolbox_tool_translation_def sample_tool_def toolbox_parameter_binding_def needed_def optional_def is_plain_def reads_none_def)
  ultimately show ?thesis using artifacts_round_trip [of toolbox_tool_translation sample_tool] by (simp add: sample_tool_def)
qed

section \<open>Every response is an instance\<close>

definition response_classes :: "model_class list" where
  "response_classes = [admin_service_summary, import_result, background_import_response, access_policy_response, time_info_response, map_server_settings,
     service_settings_response, secure_connection_summary, secure_connection_detail, connection_test_result, encryption_validation_result,
     key_rotation_result, operation_proposal_summary, operation_proposal_detail, resource_metadata, metadata_resource, metadata_resource_identifier,
     manifest_apply_summary, manifest_apply_entry, manifest_apply_result, metadata_manifest, admin_version_response, admin_capabilities_response,
     admin_control_plane_api_compatibility, admin_metadata_schema_compatibility, admin_compatibility_feature_flags, admin_compatibility_metadata,
     column_info, table_info, table_discovery_response, published_layer_summary, layer_style_response, ogc_style_link, ogc_style_summary,
     ogc_styles_list, ogc_style_metadata]"

lemma classes_sound: "list_all sound_class (response_classes @ toolkit_classes)"
  by code_simp



end
