(* ===== verification/Admin_Client.thy ===== *)
theory Admin_Client
  imports Admin_Migration
begin

text \<open>
  The admin client (\<open>honua_admin/_async_client.py\<close>, from which the sync client is generated, with
  \<open>_endpoints.py\<close> and \<open>_catalog.py\<close>): its construction, requests, the envelope of answers and every
  operation. Awaits are dropped: an operation is the sequence of its requests.

  \<open>admin_lib\<close> extends the HTTP library of the core client by sending a request with any JSON body or a file, the
  headers a supplied HTTP client has of its own, and fresh keys.
\<close>

section \<open>Construction\<close>

text \<open>The constructor, \<open>with_options\<close> and \<open>close\<close> are those of the core client, line for line.\<close>

definition make_admin_client ::
  "('h, 'w) http_lib \<Rightarrow> client_init \<Rightarrow> (nat \<times> http_url \<times> string) option \<Rightarrow> resources \<Rightarrow> (auth_error + honua_client) \<times> resources" where
  "make_admin_client = make_client"

definition admin_with_options ::
  "('h, 'w) http_lib \<Rightarrow> honua_client \<Rightarrow> pyfloat option \<Rightarrow> int option \<Rightarrow> string option \<Rightarrow> resources \<Rightarrow> (auth_error + honua_client) \<times> resources" where
  "admin_with_options = with_options"

definition close_admin_client :: "honua_client \<Rightarrow> resources \<Rightarrow> resources" where
  "close_admin_client = close_client"

section \<open>Requests\<close>

record upload =
  ul_filename :: string
  ul_content :: "8 word list"
  ul_content_type :: string
  ul_table_name :: string

record admin_request =
  ar_verb :: string
  ar_path :: string
  ar_params :: "(string, string) pydict option"
  ar_json :: "pyval option"
  ar_upload :: "upload option"
  ar_headers :: "(string, string) pydict option"
  ar_idempotency_key :: "string option"

record 'h admin_wire =
  aw_verb :: string
  aw_url :: http_url
  aw_target :: string
  aw_params :: "(string, string) pydict option"
  aw_json :: "pyval option"
  aw_upload :: "upload option"
  aw_headers :: 'h
  aw_timeout :: "pyfloat option"
  aw_max_retries :: "int option"

record ('h, 'w) admin_lib =
  al_http :: "('h, 'w) http_lib"
  al_send :: "http_session \<Rightarrow> 'h admin_wire \<Rightarrow> 'w \<Rightarrow> (httpx_exn \<times> string \<times> string option + http_response \<times> 8 word list) \<times> 'w"
  al_own_content_type :: "http_session \<Rightarrow> bool"
  al_uuid :: "'w \<Rightarrow> string \<times> 'w"

definition ask :: "string \<Rightarrow> string \<Rightarrow> admin_request" where
  "ask verb path = \<lparr>ar_verb = verb, ar_path = path, ar_params = None, ar_json = None, ar_upload = None, ar_headers = None, ar_idempotency_key = None\<rparr>"

definition idempotency_headers ::
  "('h, 'w) admin_lib \<Rightarrow> honua_client \<Rightarrow> string option \<Rightarrow> (string, string) pydict option \<Rightarrow> 'w \<Rightarrow> (string, string) pydict option \<times> 'w" where
  "idempotency_headers al c key extra w = (let (fresh, w1) = (if key = None \<and> ''POST'' \<in> cl_retry_methods c then al_uuid al w else ([], w))
     in (build_idempotency_headers key (cl_retry_methods c) extra fresh, w1))"

definition declares_content_type :: "(string, string) pydict option \<Rightarrow> bool" where
  "declares_content_type headers = (case headers of None \<Rightarrow> False | Some h \<Rightarrow> list_ex (\<lambda>(k, _). str_lower k = ''content-type'') h)"

definition admin_send ::
  "('h, 'w) admin_lib \<Rightarrow> honua_client \<Rightarrow> admin_request \<Rightarrow> call_options \<Rightarrow> 'w \<Rightarrow> (client_error + http_response \<times> 8 word list) \<times> 'w" where
  "admin_send al c req opts w =
     (let lib = al_http al; target = encode_request_path (join_base_path (cl_base_path c) (ar_path req));
          merged = merge_request_headers (ar_headers req) (co_extra_headers opts) (ar_idempotency_key req) in
      if ar_upload req \<noteq> None \<and> (al_own_content_type al (cl_session c) \<or> declares_content_type merged) then (Inl (CodeError ErrValue), w)
      else (case request_hook lib (cl_session c) (cl_base_url c) (hl_headers lib merged) w of
          (Inl e, w1) \<Rightarrow> (Inl (AuthRaised e), w1)
        | (Inr headers, w1) \<Rightarrow>
           (case al_send al (cl_session c)
                \<lparr>aw_verb = ar_verb req, aw_url = cl_base_url c, aw_target = target, aw_params = ar_params req, aw_json = ar_json req, aw_upload = ar_upload req,
                 aw_headers = headers, aw_timeout = (if co_timeout opts \<noteq> None then co_timeout opts else cl_options_timeout c),
                 aw_max_retries = cl_options_max_retries c\<rparr> w1 of
              (Inl (e, etext, request_url), w2) \<Rightarrow> (Inl (TransportRaised (to_transport_error e etext request_url)), w2)
            | (Inr (r, content), w2) \<Rightarrow>
                if 200 \<le> status_code r \<and> status_code r < 300 then (Inr (r, content), w2) else (Inl (HttpRaised (to_http_error (hl_env lib w2) r)), w2))))"

text \<open>Answers come in an envelope whose \<open>data\<close> is the payload.\<close>

definition unwrap_envelope :: "http_response \<Rightarrow> pyval" where
  "unwrap_envelope r = (if \<not> has_content r then PNone else case body_json r of
     None \<Rightarrow> PStr (body_text r)
   | Some (PDict d) \<Rightarrow> (case dict_get d ''data'' of Some v \<Rightarrow> v | None \<Rightarrow> PDict d)
   | Some v \<Rightarrow> v)"

definition admin_json :: "('h, 'w) admin_lib \<Rightarrow> honua_client \<Rightarrow> admin_request \<Rightarrow> call_options \<Rightarrow> 'w \<Rightarrow> (client_error + pyval) \<times> 'w" where
  "admin_json al c req opts w = (case admin_send al c req opts w of (r, w1) \<Rightarrow> (bindE r (\<lambda>(r, _). Inr (unwrap_envelope r)), w1))"

definition code_result :: "py_error + 'a \<Rightarrow> client_error + 'a" where
  "code_result m = (case m of Inl e \<Rightarrow> Inl (CodeError e) | Inr x \<Rightarrow> Inr x)"

definition read_as :: "model_class \<Rightarrow> (client_error + pyval) \<times> 'w \<Rightarrow> (client_error + model_val) \<times> 'w" where
  "read_as cls res = (case res of (r, w) \<Rightarrow> (bindE r (\<lambda>data. code_result (from_dict cls data)), w))"

definition read_list :: "model_class \<Rightarrow> (client_error + pyval) \<times> 'w \<Rightarrow> (client_error + model_val list) \<times> 'w" where
  "read_list cls res = (case res of (r, w) \<Rightarrow> (bindE r (\<lambda>data. case data of PList xs \<Rightarrow> code_result (mapE (from_dict cls) xs) | _ \<Rightarrow> Inr []), w))"

section \<open>Pages of a catalog\<close>

definition blank_to_none :: "string option \<Rightarrow> string option" where
  "blank_to_none v = (case v of None \<Rightarrow> None | Some s \<Rightarrow> if str_strip s = [] then None else Some (str_strip s))"

definition max_catalog_page_size :: int where "max_catalog_page_size = 100"
definition max_catalog_name_query_length :: nat where "max_catalog_name_query_length = 200"
definition default_catalog_page :: int where "default_catalog_page = 1"

definition admin_catalog_params ::
  "int \<Rightarrow> int \<Rightarrow> string option \<Rightarrow> (string \<times> string option) list \<Rightarrow> py_error + (string, string) pydict" where
  "admin_catalog_params page page_size name_query extra =
     (if page < 1 \<or> page_size < 1 \<or> max_catalog_page_size < page_size \<or>
         (case blank_to_none name_query of None \<Rightarrow> False | Some n \<Rightarrow> max_catalog_name_query_length < length n) then Inl ErrValue
      else Inr (put_all dict_set ([(''page'', str_of_int page), (''pageSize'', str_of_int page_size)] @
            (case blank_to_none name_query of None \<Rightarrow> [] | Some n \<Rightarrow> [(''q'', n)]))
          (List.map_filter (\<lambda>(k, v). map_option (Pair k) (blank_to_none v)) extra)))"

record list_query =
  lq_page :: int
  lq_page_size :: int
  lq_name_query :: "string option"
  lq_scope :: "string option"

definition first_page :: list_query where
  "first_page = \<lparr>lq_page = 1, lq_page_size = 100, lq_name_query = None, lq_scope = None\<rparr>"

record catalog_page =
  cp_items :: "model_val list"
  cp_page :: int
  cp_page_size :: int
  cp_total :: int

definition page_int :: "pyval \<Rightarrow> int \<Rightarrow> py_error + int" where
  "page_int v default' = (if v = PNone then Inr default' else to_int v)"

definition require_page :: "pyval \<Rightarrow> py_error + (string, model_val) pydict" where
  "require_page data = (case data of PNone \<Rightarrow> Inr [] | PDict _ \<Rightarrow> snake_keys data | _ \<Rightarrow> Inl ErrValue)"

definition page_items :: "pyval \<Rightarrow> model_class \<Rightarrow> py_error + model_val list" where
  "page_items raw cls = (case raw of PNone \<Rightarrow> Inr [] | PList xs \<Rightarrow> if list_all is_mapping xs then mapE (from_dict cls) xs else Inl ErrValue | _ \<Rightarrow> Inl ErrValue)"

text \<open>\<open>ServiceListPage.from_dict\<close> and \<open>PublishedLayerPage.from_dict\<close>; the first reads a total of layers as well.\<close>

definition catalog_page_from :: "model_class \<Rightarrow> pyval \<Rightarrow> py_error + catalog_page" where
  "catalog_page_from cls data = bindE (require_page data) (\<lambda>d. let member = (\<lambda>n. plain_of (dict_get d n) PNone) in
     bindE (page_int (member ''page'') 1) (\<lambda>page. bindE (page_int (member ''page_size'') 100) (\<lambda>page_size. bindE (page_int (member ''total'') 0) (\<lambda>n.
     bindE (page_items (member ''items'') cls) (\<lambda>items.
     Inr \<lparr>cp_items = items, cp_page = page, cp_page_size = page_size, cp_total = n\<rparr>)))))"

definition service_list_page_from :: "pyval \<Rightarrow> py_error + catalog_page \<times> int" where
  "service_list_page_from data = bindE (catalog_page_from admin_service_summary data) (\<lambda>p. bindE (require_page data) (\<lambda>d.
     bindE (page_int (plain_of (dict_get d ''layer_total'') PNone) 0) (\<lambda>layers. Inr (p, layers))))"

definition is_last_catalog_page :: "nat \<Rightarrow> int \<Rightarrow> int \<Rightarrow> nat \<Rightarrow> bool" where
  "is_last_catalog_page item_count page_size n collected \<longleftrightarrow> item_count = 0 \<or> n \<le> int collected \<or> int item_count < page_size"

definition advance_catalog_page :: "model_val list \<Rightarrow> catalog_page \<Rightarrow> model_val list \<times> int option" where
  "advance_catalog_page collected p = (let all = collected @ cp_items p in
     (all, if is_last_catalog_page (length (cp_items p)) (cp_page_size p) (cp_total p) (length all) then None else Some (cp_page p + 1)))"

text \<open>The loop of \<open>list_services\<close> and \<open>list_layers\<close>: it ends where a page is the last.\<close>

partial_function (option) catalog_walk ::
  "(int \<Rightarrow> 'w \<Rightarrow> (client_error + catalog_page) \<times> 'w) \<Rightarrow> model_val list \<Rightarrow> int \<Rightarrow> 'w \<Rightarrow> ((client_error + model_val list) \<times> 'w) option" where
  "catalog_walk fetch collected page w = (case fetch page w of
     (Inl e, w1) \<Rightarrow> Some (Inl e, w1)
   | (Inr p, w1) \<Rightarrow> (case advance_catalog_page collected p of
        (all, None) \<Rightarrow> Some (Inr all, w1)
      | (all, Some page') \<Rightarrow> catalog_walk fetch all page' w1))"

section \<open>Services\<close>

definition service_path :: "string \<Rightarrow> string \<Rightarrow> string" where
  "service_path name tail = ''/api/v1/admin/services/'' @ encode_path_segment name @ tail"

definition admin_list_services_page ::
  "('h, 'w) admin_lib \<Rightarrow> honua_client \<Rightarrow> list_query option \<Rightarrow> call_options \<Rightarrow> 'w \<Rightarrow> (client_error + catalog_page \<times> int) \<times> 'w" where
  "admin_list_services_page al c q opts w =
     (let selected = (case q of None \<Rightarrow> first_page | Some x \<Rightarrow> x) in
      case admin_catalog_params (lq_page selected) (lq_page_size selected) (lq_name_query selected) [(''folderId'', lq_scope selected)] of
        Inl e \<Rightarrow> (Inl (CodeError e), w)
      | Inr params \<Rightarrow> (case admin_json al c ((ask ''GET'' ''/api/v1/admin/services/'')\<lparr>ar_params := Some params\<rparr>) opts w of
          (r, w1) \<Rightarrow> (bindE r (\<lambda>data. code_result (service_list_page_from data)), w1)))"

definition services_fetch ::
  "('h, 'w) admin_lib \<Rightarrow> honua_client \<Rightarrow> call_options \<Rightarrow> int \<Rightarrow> 'w \<Rightarrow> (client_error + catalog_page) \<times> 'w" where
  "services_fetch al c opts page w = (case admin_list_services_page al c (Some (first_page\<lparr>lq_page := page\<rparr>)) opts w of
     (r, w1) \<Rightarrow> (bindE r (\<lambda>(p, _). Inr p), w1))"

definition admin_list_services ::
  "('h, 'w) admin_lib \<Rightarrow> honua_client \<Rightarrow> call_options \<Rightarrow> 'w \<Rightarrow> ((client_error + model_val list) \<times> 'w) option" where
  "admin_list_services al c opts w = catalog_walk (services_fetch al c opts) [] default_catalog_page w"

definition get_service_settings ::
  "('h, 'w) admin_lib \<Rightarrow> honua_client \<Rightarrow> string \<Rightarrow> call_options \<Rightarrow> 'w \<Rightarrow> (client_error + model_val) \<times> 'w" where
  "get_service_settings al c name opts w =
     read_as service_settings_response (admin_json al c (ask ''GET'' (service_path name ''/settings'')) opts w)"

definition update_protocols ::
  "('h, 'w) admin_lib \<Rightarrow> honua_client \<Rightarrow> string \<Rightarrow> string list \<Rightarrow> string option \<Rightarrow> call_options \<Rightarrow> 'w \<Rightarrow> (client_error + model_val) \<times> 'w" where
  "update_protocols al c name names key opts w =
     read_as service_settings_response (admin_json al c ((ask ''PUT'' (service_path name ''/protocols''))\<lparr>ar_json := Some (PList (map PStr names)), ar_idempotency_key := key\<rparr>) opts w)"

definition members_given :: "(string \<times> pyval option) list \<Rightarrow> (string, pyval) pydict" where
  "members_given xs = List.map_filter (\<lambda>(k, v). map_option (Pair k) v) xs"

definition update_access_policy ::
  "('h, 'w) admin_lib \<Rightarrow> honua_client \<Rightarrow> string \<Rightarrow> bool option \<Rightarrow> bool option \<Rightarrow> string list option \<Rightarrow> string list option \<Rightarrow> string option \<Rightarrow> call_options \<Rightarrow> 'w \<Rightarrow> (client_error + model_val) \<times> 'w" where
  "update_access_policy al c name anonymous anonymous_write roles write_roles key opts w =
     (let body = members_given [(''allowAnonymous'', map_option PBool anonymous), (''allowAnonymousWrite'', map_option PBool anonymous_write),
        (''allowedRoles'', map_option (\<lambda>rs. PList (map PStr rs)) roles), (''allowedWriteRoles'', map_option (\<lambda>rs. PList (map PStr rs)) write_roles)] in
      read_as service_settings_response (admin_json al c ((ask ''PUT'' (service_path name ''/access-policy''))\<lparr>ar_json := Some (PDict body), ar_idempotency_key := key\<rparr>) opts w))"

text \<open>The explicit settings are named in snake case; further ones are added where their name is new, then
  all names are put in camel case.\<close>

definition mapserver_settings_body :: "(string, pyval) pydict \<Rightarrow> (string, pyval) pydict \<Rightarrow> (string, pyval) pydict" where
  "mapserver_settings_body explicit extra = camel_keys (put_all dict_setdefault (filter (\<lambda>(_, v). v \<noteq> PNone) explicit) extra)"

definition update_mapserver_settings ::
  "('h, 'w) admin_lib \<Rightarrow> honua_client \<Rightarrow> string \<Rightarrow> (string, pyval) pydict \<Rightarrow> (string, pyval) pydict \<Rightarrow> string option \<Rightarrow> call_options \<Rightarrow> 'w \<Rightarrow> (client_error + model_val) \<times> 'w" where
  "update_mapserver_settings al c name explicit extra key opts w =
     read_as service_settings_response (admin_json al c ((ask ''PUT'' (service_path name ''/mapserver''))\<lparr>ar_json := Some (PDict (mapserver_settings_body explicit extra)), ar_idempotency_key := key\<rparr>) opts w)"

section \<open>Metadata resources and manifests\<close>

definition resources_path :: string where "resources_path = ''/api/v1/admin/metadata/resources''"

definition resource_path :: "string \<Rightarrow> string \<Rightarrow> string \<Rightarrow> string" where
  "resource_path kind ns name = resources_path @ ''/'' @ encode_path_segment kind @ ''/'' @ encode_path_segment ns @ ''/'' @ encode_path_segment name"

definition present_params :: "(string \<times> string option) list \<Rightarrow> (string, string) pydict option" where
  "present_params xs = (let params = List.map_filter (\<lambda>(k, v). map_option (Pair k) v) xs in if params = [] then None else Some params)"

definition if_match_header :: "string option \<Rightarrow> (string, string) pydict option" where
  "if_match_header etag = map_option (\<lambda>t. [(''If-Match'', t)]) etag"

text \<open>A body built by \<open>to_dict\<close>, which may raise, comes before the request.\<close>

definition with_body :: "py_error + (string, pyval) pydict \<Rightarrow> 'w \<Rightarrow> (pyval \<Rightarrow> (client_error + 'a) \<times> 'w) \<Rightarrow> (client_error + 'a) \<times> 'w" where
  "with_body body w send = (case body of Inl e \<Rightarrow> (Inl (CodeError e), w) | Inr d \<Rightarrow> send (PDict d))"

definition list_metadata_resources ::
  "('h, 'w) admin_lib \<Rightarrow> honua_client \<Rightarrow> string option \<Rightarrow> string option \<Rightarrow> call_options \<Rightarrow> 'w \<Rightarrow> (client_error + model_val list) \<times> 'w" where
  "list_metadata_resources al c kind ns opts w =
     read_list metadata_resource (admin_json al c ((ask ''GET'' resources_path)\<lparr>ar_params := present_params [(''kind'', kind), (''namespace'', ns)]\<rparr>) opts w)"

text \<open>\<open>response.json()\<close> fails on a body that is not JSON, an empty one included: the error raised then
  is built from the status and the text alone, without the headers.\<close>

definition decode_failure :: "http_env \<Rightarrow> http_response \<Rightarrow> http_raised" where
  "decode_failure env r =
     (let body = PStr (body_text r) in
      case http_failure_receipt (ht_str_of env) (ht_decode env) (status_code r) body [] None None None of
        Inl e \<Rightarrow> ReceiptError e
      | Inr receipt \<Rightarrow> HttpFailure
          \<lparr>he_class = HonuaHttpError, he_status_code = status_code r, he_message = ''Failed to decode metadata resource JSON response'',
           he_body = body, he_request_id = None, he_headers = [], he_error_code = None, he_receipt = receipt\<rparr>)"

definition get_metadata_resource ::
  "('h, 'w) admin_lib \<Rightarrow> honua_client \<Rightarrow> string \<Rightarrow> string \<Rightarrow> string \<Rightarrow> call_options \<Rightarrow> 'w \<Rightarrow> (client_error + model_val \<times> string option) \<times> 'w" where
  "get_metadata_resource al c kind ns name opts w =
     (case admin_send al c (ask ''GET'' (resource_path kind ns name)) opts w of
        (Inl e, w1) \<Rightarrow> (Inl e, w1)
      | (Inr (r, _), w1) \<Rightarrow> (case body_json r of
           None \<Rightarrow> (Inl (HttpRaised (decode_failure (hl_env (al_http al) w1) r)), w1)
         | Some payload \<Rightarrow> (bindE (code_result (from_dict metadata_resource (case payload of PDict d \<Rightarrow> (case dict_get d ''data'' of Some v \<Rightarrow> v | None \<Rightarrow> payload) | _ \<Rightarrow> payload)))
             (\<lambda>m. Inr (m, header_get r ''etag'')), w1)))"

definition create_metadata_resource ::
  "('h, 'w) admin_lib \<Rightarrow> honua_client \<Rightarrow> model_val \<Rightarrow> string option \<Rightarrow> call_options \<Rightarrow> 'w \<Rightarrow> (client_error + model_val) \<times> 'w" where
  "create_metadata_resource al c resource key opts w =
     with_body (metadata_resource_to_dict resource) w (\<lambda>body. read_as metadata_resource (admin_json al c ((ask ''POST'' resources_path)\<lparr>ar_json := Some body, ar_idempotency_key := key\<rparr>) opts w))"

definition update_metadata_resource ::
  "('h, 'w) admin_lib \<Rightarrow> honua_client \<Rightarrow> string \<Rightarrow> string \<Rightarrow> string \<Rightarrow> model_val \<Rightarrow> string option \<Rightarrow> string option \<Rightarrow> call_options \<Rightarrow> 'w \<Rightarrow> (client_error + model_val) \<times> 'w" where
  "update_metadata_resource al c kind ns name resource etag key opts w =
     with_body (metadata_resource_to_dict resource) w (\<lambda>body. read_as metadata_resource (admin_json al c
       ((ask ''PUT'' (resource_path kind ns name))\<lparr>ar_json := Some body, ar_headers := if_match_header etag, ar_idempotency_key := key\<rparr>) opts w))"

definition no_answer :: "(client_error + 'a) \<times> 'w \<Rightarrow> (client_error + unit) \<times> 'w" where
  "no_answer res = (case res of (r, w) \<Rightarrow> (bindE r (\<lambda>_. Inr ()), w))"

definition delete_metadata_resource ::
  "('h, 'w) admin_lib \<Rightarrow> honua_client \<Rightarrow> string \<Rightarrow> string \<Rightarrow> string \<Rightarrow> string option \<Rightarrow> string option \<Rightarrow> call_options \<Rightarrow> 'w \<Rightarrow> (client_error + unit) \<times> 'w" where
  "delete_metadata_resource al c kind ns name etag key opts w =
     no_answer (admin_send al c ((ask ''DELETE'' (resource_path kind ns name))\<lparr>ar_headers := if_match_header etag, ar_idempotency_key := key\<rparr>) opts w)"

definition get_version ::
  "('h, 'w) admin_lib \<Rightarrow> honua_client \<Rightarrow> call_options \<Rightarrow> 'w \<Rightarrow> (client_error + model_val) \<times> 'w" where
  "get_version al c opts w =
     read_as admin_version_response (admin_json al c (ask ''GET'' ''/api/v1/admin/version'') opts w)"

definition get_capabilities ::
  "('h, 'w) admin_lib \<Rightarrow> honua_client \<Rightarrow> call_options \<Rightarrow> 'w \<Rightarrow> (client_error + model_val) \<times> 'w" where
  "get_capabilities al c opts w =
     read_as admin_capabilities_response (admin_json al c (ask ''GET'' ''/api/v1/admin/capabilities'') opts w)"

definition compatibility_of :: "model_val \<Rightarrow> model_val option" where
  "compatibility_of m = (case attr m ''compatibility'' of Some (Plain PNone) \<Rightarrow> None | other \<Rightarrow> other)"

definition get_capability_flags ::
  "('h, 'w) admin_lib \<Rightarrow> honua_client \<Rightarrow> call_options \<Rightarrow> 'w \<Rightarrow> (client_error + model_val) \<times> 'w" where
  "get_capability_flags al c opts w =
     (case get_capabilities al c opts w of (r, w1) \<Rightarrow> (bindE r (\<lambda>m. case compatibility_of m of
        None \<Rightarrow> Inr (default_instance admin_compatibility_feature_flags)
      | Some x \<Rightarrow> (case attr x ''features'' of Some f \<Rightarrow> Inr f | None \<Rightarrow> Inl (CodeError ErrAttribute))), w1))"

definition check_compatibility ::
  "('h, 'w) admin_lib \<Rightarrow> honua_client \<Rightarrow> call_options \<Rightarrow> 'w \<Rightarrow> (client_error + compatibility_check) \<times> 'w" where
  "check_compatibility al c opts w =
     (case get_capabilities al c opts w of (r, w1) \<Rightarrow> (bindE r (\<lambda>m. code_result (evaluate_admin_compatibility (compatibility_of m) (Some default_baseline))), w1))"

definition get_manifest ::
  "('h, 'w) admin_lib \<Rightarrow> honua_client \<Rightarrow> string option \<Rightarrow> call_options \<Rightarrow> 'w \<Rightarrow> (client_error + model_val) \<times> 'w" where
  "get_manifest al c ns opts w =
     read_as metadata_manifest (admin_json al c ((ask ''GET'' ''/api/v1/admin/manifest'')\<lparr>ar_params := map_option (\<lambda>n. [(''namespace'', n)]) ns\<rparr>) opts w)"

text \<open>A post with the key of the caller or, where the transport retries posts, a fresh one.\<close>

definition post_once ::
  "('h, 'w) admin_lib \<Rightarrow> honua_client \<Rightarrow> string option \<Rightarrow> admin_request \<Rightarrow> call_options \<Rightarrow> 'w \<Rightarrow> (client_error + pyval) \<times> 'w" where
  "post_once al c key req opts w = (case idempotency_headers al c key None w of (headers, w1) \<Rightarrow> admin_json al c (req\<lparr>ar_headers := headers\<rparr>) opts w1)"

definition apply_manifest ::
  "('h, 'w) admin_lib \<Rightarrow> honua_client \<Rightarrow> model_val list \<Rightarrow> bool \<Rightarrow> bool \<Rightarrow> string option \<Rightarrow> call_options \<Rightarrow> 'w \<Rightarrow> (client_error + model_val) \<times> 'w" where
  "apply_manifest al c resources dry_run prune key opts w =
     with_body (manifest_apply_request_to_dict resources dry_run prune) w (\<lambda>body.
       read_as manifest_apply_result (post_once al c key ((ask ''POST'' ''/api/v1/admin/manifest/apply'')\<lparr>ar_json := Some body\<rparr>) opts w))"

section \<open>Migration toolkit\<close>

definition scan_migration_source ::
  "('h, 'w) admin_lib \<Rightarrow> honua_client \<Rightarrow> model_val \<Rightarrow> bool \<Rightarrow> string option \<Rightarrow> call_options \<Rightarrow> 'w \<Rightarrow> (client_error + model_val) \<times> 'w" where
  "scan_migration_source al c request export_json key opts w =
     read_as migration_source_inventory_artifact (post_once al c key ((ask ''POST'' ''/api/v1/admin/import/scan'')
       \<lparr>ar_params := (if export_json then Some [(''export'', ''json'')] else None), ar_json := Some (PDict (to_camel_dict request))\<rparr>) opts w)"

definition validate_toolbox_translation ::
  "('h, 'w) admin_lib \<Rightarrow> honua_client \<Rightarrow> model_val \<Rightarrow> string option \<Rightarrow> call_options \<Rightarrow> 'w \<Rightarrow> (client_error + model_val) \<times> 'w" where
  "validate_toolbox_translation al c manifest key opts w =
     with_body (toolbox_manifest_to_dict manifest) w (\<lambda>body.
       read_as toolbox_translation_report (post_once al c key ((ask ''POST'' ''/api/v1/admin/import/toolbox/translation/validate'')\<lparr>ar_json := Some body\<rparr>) opts w))"

text \<open>Uploading a file: what can be refused before the request is, and the status of the answer tells a
  finished import from an accepted one.\<close>

definition upload_file ::
  "('h, 'w) admin_lib \<Rightarrow> honua_client \<Rightarrow> upload \<Rightarrow> string option \<Rightarrow> call_options \<Rightarrow> 'w \<Rightarrow> (client_error + model_val) \<times> 'w" where
  "upload_file al c file key opts w =
     (if str_strip (ul_filename file) = [] \<or> str_strip (ul_table_name file) = [] \<or> ul_content file = [] then (Inl (CodeError ErrValue), w)
      else (case idempotency_headers al c key (co_extra_headers opts) w of (headers, w1) \<Rightarrow>
        (case admin_send al c ((ask ''POST'' ''/api/v1/admin/import/upload'')\<lparr>ar_upload := Some file, ar_headers := headers\<rparr>) (opts\<lparr>co_extra_headers := None\<rparr>) w1 of
           (Inl e, w2) \<Rightarrow> (Inl e, w2)
         | (Inr (r, _), w2) \<Rightarrow> (code_result (from_dict (if status_code r = 202 then background_import_response else import_result) (unwrap_envelope r)), w2))))"

section \<open>Connections and layers\<close>

definition connections_path :: string where "connections_path = ''/api/v1/admin/connections''"

definition connection_path :: "string \<Rightarrow> string \<Rightarrow> string" where
  "connection_path conn_id tail = connections_path @ ''/'' @ encode_path_segment conn_id @ tail"

definition list_connections ::
  "('h, 'w) admin_lib \<Rightarrow> honua_client \<Rightarrow> call_options \<Rightarrow> 'w \<Rightarrow> (client_error + model_val list) \<times> 'w" where
  "list_connections al c opts w =
     read_list secure_connection_summary (admin_json al c (ask ''GET'' connections_path) opts w)"

definition get_connection ::
  "('h, 'w) admin_lib \<Rightarrow> honua_client \<Rightarrow> string \<Rightarrow> call_options \<Rightarrow> 'w \<Rightarrow> (client_error + model_val) \<times> 'w" where
  "get_connection al c conn_id opts w =
     read_as secure_connection_detail (admin_json al c (ask ''GET'' (connection_path conn_id [])) opts w)"

definition create_connection ::
  "('h, 'w) admin_lib \<Rightarrow> honua_client \<Rightarrow> model_val \<Rightarrow> string option \<Rightarrow> call_options \<Rightarrow> 'w \<Rightarrow> (client_error + model_val) \<times> 'w" where
  "create_connection al c request key opts w =
     read_as secure_connection_summary (post_once al c key ((ask ''POST'' connections_path)\<lparr>ar_json := Some (PDict (connection_request_to_dict request))\<rparr>) opts w)"

definition test_draft_connection ::
  "('h, 'w) admin_lib \<Rightarrow> honua_client \<Rightarrow> model_val \<Rightarrow> string option \<Rightarrow> call_options \<Rightarrow> 'w \<Rightarrow> (client_error + model_val) \<times> 'w" where
  "test_draft_connection al c request key opts w =
     read_as connection_test_result (admin_json al c ((ask ''POST'' (connections_path @ ''/test''))
       \<lparr>ar_json := Some (PDict (connection_request_to_dict request)), ar_idempotency_key := key\<rparr>) opts w)"

definition update_connection ::
  "('h, 'w) admin_lib \<Rightarrow> honua_client \<Rightarrow> string \<Rightarrow> model_val \<Rightarrow> string option \<Rightarrow> call_options \<Rightarrow> 'w \<Rightarrow> (client_error + model_val) \<times> 'w" where
  "update_connection al c conn_id request key opts w =
     read_as secure_connection_summary (admin_json al c ((ask ''PUT'' (connection_path conn_id []))
       \<lparr>ar_json := Some (PDict (connection_request_to_dict request)), ar_idempotency_key := key\<rparr>) opts w)"

definition test_connection ::
  "('h, 'w) admin_lib \<Rightarrow> honua_client \<Rightarrow> string \<Rightarrow> string option \<Rightarrow> call_options \<Rightarrow> 'w \<Rightarrow> (client_error + model_val) \<times> 'w" where
  "test_connection al c conn_id key opts w =
     read_as connection_test_result (admin_json al c ((ask ''POST'' (connection_path conn_id ''/test''))\<lparr>ar_idempotency_key := key\<rparr>) opts w)"

definition delete_connection ::
  "('h, 'w) admin_lib \<Rightarrow> honua_client \<Rightarrow> string \<Rightarrow> string option \<Rightarrow> call_options \<Rightarrow> 'w \<Rightarrow> (client_error + unit) \<times> 'w" where
  "delete_connection al c conn_id key opts w =
     no_answer (admin_send al c ((ask ''DELETE'' (connection_path conn_id []))\<lparr>ar_idempotency_key := key\<rparr>) opts w)"

definition validate_encryption ::
  "('h, 'w) admin_lib \<Rightarrow> honua_client \<Rightarrow> string option \<Rightarrow> call_options \<Rightarrow> 'w \<Rightarrow> (client_error + model_val) \<times> 'w" where
  "validate_encryption al c key opts w =
     read_as encryption_validation_result (admin_json al c ((ask ''POST'' (connections_path @ ''/encryption/validate''))\<lparr>ar_idempotency_key := key\<rparr>) opts w)"

definition rotate_encryption_key ::
  "('h, 'w) admin_lib \<Rightarrow> honua_client \<Rightarrow> string option \<Rightarrow> call_options \<Rightarrow> 'w \<Rightarrow> (client_error + model_val) \<times> 'w" where
  "rotate_encryption_key al c key opts w =
     read_as key_rotation_result (admin_json al c ((ask ''POST'' (connections_path @ ''/encryption/rotate-key''))\<lparr>ar_idempotency_key := key\<rparr>) opts w)"

definition admin_list_layers_page ::
  "('h, 'w) admin_lib \<Rightarrow> honua_client \<Rightarrow> string \<Rightarrow> list_query option \<Rightarrow> call_options \<Rightarrow> 'w \<Rightarrow> (client_error + catalog_page) \<times> 'w" where
  "admin_list_layers_page al c conn_id q opts w =
     (let selected = (case q of None \<Rightarrow> first_page | Some x \<Rightarrow> x) in
      case admin_catalog_params (lq_page selected) (lq_page_size selected) (lq_name_query selected) [(''serviceName'', lq_scope selected)] of
        Inl e \<Rightarrow> (Inl (CodeError e), w)
      | Inr params \<Rightarrow> (case admin_json al c ((ask ''GET'' (connection_path conn_id ''/layers''))\<lparr>ar_params := Some params\<rparr>) opts w of
          (r, w1) \<Rightarrow> (bindE r (\<lambda>data. code_result (catalog_page_from published_layer_summary data)), w1)))"

definition admin_list_layers ::
  "('h, 'w) admin_lib \<Rightarrow> honua_client \<Rightarrow> string \<Rightarrow> string option \<Rightarrow> call_options \<Rightarrow> 'w \<Rightarrow> ((client_error + model_val list) \<times> 'w) option" where
  "admin_list_layers al c conn_id service_name opts w =
     catalog_walk (\<lambda>page. admin_list_layers_page al c conn_id (Some (first_page\<lparr>lq_page := page, lq_scope := service_name\<rparr>)) opts) [] default_catalog_page w"

definition publish_layer ::
  "('h, 'w) admin_lib \<Rightarrow> honua_client \<Rightarrow> string \<Rightarrow> model_val \<Rightarrow> string option \<Rightarrow> call_options \<Rightarrow> 'w \<Rightarrow> (client_error + model_val) \<times> 'w" where
  "publish_layer al c conn_id request key opts w =
     read_as published_layer_summary (post_once al c key ((ask ''POST'' (connection_path conn_id ''/layers''))\<lparr>ar_json := Some (PDict (publish_layer_request_to_dict request))\<rparr>) opts w)"

definition set_layer_enabled ::
  "('h, 'w) admin_lib \<Rightarrow> honua_client \<Rightarrow> string \<Rightarrow> int \<Rightarrow> bool \<Rightarrow> string option \<Rightarrow> string option \<Rightarrow> call_options \<Rightarrow> 'w \<Rightarrow> (client_error + model_val) \<times> 'w" where
  "set_layer_enabled al c conn_id layer_id enabled service_name key opts w =
     read_as published_layer_summary (admin_json al c ((ask ''PUT'' (connection_path conn_id (''/layers/'' @ str_of_int layer_id @ ''/enabled'')))
       \<lparr>ar_params := map_option (\<lambda>s. [(''serviceName'', s)]) service_name, ar_json := Some (PDict [(''enabled'', PBool enabled)]), ar_idempotency_key := key\<rparr>) opts w)"

definition set_service_layers_enabled ::
  "('h, 'w) admin_lib \<Rightarrow> honua_client \<Rightarrow> string \<Rightarrow> bool \<Rightarrow> string option \<Rightarrow> string option \<Rightarrow> call_options \<Rightarrow> 'w \<Rightarrow> (client_error + model_val list) \<times> 'w" where
  "set_service_layers_enabled al c conn_id enabled service_name key opts w =
     read_list published_layer_summary (admin_json al c ((ask ''PUT'' (connection_path conn_id ''/layers/enabled''))
       \<lparr>ar_params := map_option (\<lambda>s. [(''serviceName'', s)]) service_name, ar_json := Some (PDict [(''enabled'', PBool enabled)]), ar_idempotency_key := key\<rparr>) opts w)"

definition discover_tables ::
  "('h, 'w) admin_lib \<Rightarrow> honua_client \<Rightarrow> string \<Rightarrow> call_options \<Rightarrow> 'w \<Rightarrow> (client_error + model_val) \<times> 'w" where
  "discover_tables al c conn_id opts w =
     read_as table_discovery_response (admin_json al c (ask ''GET'' (connection_path conn_id ''/tables'')) opts w)"

section \<open>Styles\<close>

definition style_path :: "string \<Rightarrow> string \<Rightarrow> string" where
  "style_path style_id tail = ''/ogc/styles/'' @ encode_path_segment style_id @ tail"

text \<open>\<open>_json_object\<close>: an answer that is not JSON raises, another value than a mapping counts as empty.\<close>

definition json_object :: "http_response \<Rightarrow> py_error + pyval" where
  "json_object r = (if \<not> has_content r then Inr (PDict []) else case body_json r of None \<Rightarrow> Inl ErrValue | Some (PDict d) \<Rightarrow> Inr (PDict d) | Some _ \<Rightarrow> Inr (PDict []))"

definition read_object :: "model_class \<Rightarrow> (client_error + http_response \<times> 8 word list) \<times> 'w \<Rightarrow> (client_error + model_val) \<times> 'w" where
  "read_object cls res = (case res of (r, w) \<Rightarrow> (bindE r (\<lambda>(r, _). code_result (bindE (json_object r) (from_dict cls))), w))"

definition list_styles ::
  "('h, 'w) admin_lib \<Rightarrow> honua_client \<Rightarrow> call_options \<Rightarrow> 'w \<Rightarrow> (client_error + model_val) \<times> 'w" where
  "list_styles al c opts w =
     read_object ogc_styles_list (admin_send al c ((ask ''GET'' ''/ogc/styles'')\<lparr>ar_params := Some [(''f'', ''json'')]\<rparr>) opts w)"

definition get_stylesheet ::
  "('h, 'w) admin_lib \<Rightarrow> honua_client \<Rightarrow> string \<Rightarrow> string \<Rightarrow> call_options \<Rightarrow> 'w \<Rightarrow> (client_error + ogc_stylesheet) \<times> 'w" where
  "get_stylesheet al c style_id encoding opts w =
     (case style_encoding_media_type encoding of
        Inl e \<Rightarrow> (Inl (CodeError e), w)
      | Inr accept \<Rightarrow> (case admin_send al c ((ask ''GET'' (style_path style_id []))\<lparr>ar_headers := Some [(''Accept'', accept)]\<rparr>) opts w of
          (r, w1) \<Rightarrow> (bindE r (\<lambda>(r, _). Inr \<lparr>os_style_id = style_id, os_encoding = encoding,
             os_media_type = (case header_get r ''content-type'' of None \<Rightarrow> accept | Some t \<Rightarrow> t), os_content = body_text r\<rparr>), w1)))"

definition get_style_metadata ::
  "('h, 'w) admin_lib \<Rightarrow> honua_client \<Rightarrow> string \<Rightarrow> call_options \<Rightarrow> 'w \<Rightarrow> (client_error + model_val) \<times> 'w" where
  "get_style_metadata al c style_id opts w =
     read_object ogc_style_metadata (admin_send al c ((ask ''GET'' (style_path style_id ''/metadata''))\<lparr>ar_params := Some [(''f'', ''json'')]\<rparr>) opts w)"

definition update_style ::
  "('h, 'w) admin_lib \<Rightarrow> honua_client \<Rightarrow> string \<Rightarrow> (string, pyval) pydict \<Rightarrow> bool \<Rightarrow> string option \<Rightarrow> call_options \<Rightarrow> 'w \<Rightarrow> (client_error + unit) \<times> 'w" where
  "update_style al c style_id style strict key opts w =
     (case style_encoding_media_type ''mapbox-style'' of
        Inl e \<Rightarrow> (Inl (CodeError e), w)
      | Inr media \<Rightarrow> no_answer (admin_send al c ((ask ''PUT'' (style_path style_id []))\<lparr>ar_json := Some (PDict style),
          ar_headers := Some ([(''Content-Type'', media)] @ (if strict then [(''Prefer'', ''handling=strict'')] else [])), ar_idempotency_key := key\<rparr>) opts w))"

definition layer_style_path :: "int \<Rightarrow> string" where
  "layer_style_path layer_id = ''/api/v1/admin/metadata/layers/'' @ str_of_int layer_id @ ''/style''"

definition get_layer_style ::
  "('h, 'w) admin_lib \<Rightarrow> honua_client \<Rightarrow> int \<Rightarrow> call_options \<Rightarrow> 'w \<Rightarrow> (client_error + model_val) \<times> 'w" where
  "get_layer_style al c layer_id opts w =
     read_as layer_style_response (admin_json al c (ask ''GET'' (layer_style_path layer_id)) opts w)"

definition update_layer_style ::
  "('h, 'w) admin_lib \<Rightarrow> honua_client \<Rightarrow> int \<Rightarrow> pyval \<Rightarrow> pyval \<Rightarrow> string option \<Rightarrow> call_options \<Rightarrow> 'w \<Rightarrow> (client_error + model_val) \<times> 'w" where
  "update_layer_style al c layer_id map_libre_style drawing_info key opts w =
     read_as layer_style_response (admin_json al c ((ask ''PUT'' (layer_style_path layer_id))
       \<lparr>ar_json := Some (PDict (layer_style_update_to_dict map_libre_style drawing_info)), ar_idempotency_key := key\<rparr>) opts w)"

section \<open>Proposals and configuration\<close>

definition proposal_path :: "string \<Rightarrow> string \<Rightarrow> string" where
  "proposal_path proposal_id tail = ''/api/v1/admin/proposals/'' @ encode_path_segment proposal_id @ tail"

definition proposal_rows :: "pyval \<Rightarrow> pyval list" where
  "proposal_rows data = (case data of PDict d \<Rightarrow> (case get_or_none d ''proposals'' of PList rows \<Rightarrow> filter is_mapping rows | _ \<Rightarrow> []) | _ \<Rightarrow> [])"

definition list_proposals ::
  "('h, 'w) admin_lib \<Rightarrow> honua_client \<Rightarrow> string option \<Rightarrow> string option \<Rightarrow> string option \<Rightarrow> call_options \<Rightarrow> 'w \<Rightarrow> (client_error + model_val list) \<times> 'w" where
  "list_proposals al c status kind requested_by opts w =
     (case admin_json al c ((ask ''GET'' ''/api/v1/admin/proposals'')\<lparr>ar_params := present_params [(''status'', status), (''kind'', kind), (''requestedBy'', requested_by)]\<rparr>) opts w of
        (r, w1) \<Rightarrow> (bindE r (\<lambda>data. code_result (mapE (from_dict operation_proposal_summary) (proposal_rows data))), w1))"

definition get_proposal ::
  "('h, 'w) admin_lib \<Rightarrow> honua_client \<Rightarrow> string \<Rightarrow> call_options \<Rightarrow> 'w \<Rightarrow> (client_error + model_val) \<times> 'w" where
  "get_proposal al c proposal_id opts w =
     read_as operation_proposal_detail (admin_json al c (ask ''GET'' (proposal_path proposal_id [])) opts w)"

definition approve_proposal ::
  "('h, 'w) admin_lib \<Rightarrow> honua_client \<Rightarrow> string \<Rightarrow> string option \<Rightarrow> call_options \<Rightarrow> 'w \<Rightarrow> (client_error + model_val) \<times> 'w" where
  "approve_proposal al c proposal_id key opts w =
     read_as operation_proposal_detail (admin_json al c ((ask ''POST'' (proposal_path proposal_id ''/approve''))\<lparr>ar_idempotency_key := key\<rparr>) opts w)"

definition reject_proposal ::
  "('h, 'w) admin_lib \<Rightarrow> honua_client \<Rightarrow> string \<Rightarrow> string \<Rightarrow> string option \<Rightarrow> call_options \<Rightarrow> 'w \<Rightarrow> (client_error + model_val) \<times> 'w" where
  "reject_proposal al c proposal_id reason key opts w =
     read_as operation_proposal_detail (admin_json al c ((ask ''POST'' (proposal_path proposal_id ''/reject''))
       \<lparr>ar_json := Some (PDict [(''reason'', PStr reason)]), ar_idempotency_key := key\<rparr>) opts w)"

definition get_config ::
  "('h, 'w) admin_lib \<Rightarrow> honua_client \<Rightarrow> call_options \<Rightarrow> 'w \<Rightarrow> (client_error + (string, pyval) pydict) \<times> 'w" where
  "get_config al c opts w =
     (case admin_json al c (ask ''GET'' ''/api/v1/admin/config'') opts w of (r, w1) \<Rightarrow> (bindE r (\<lambda>data. Inr (case data of PDict d \<Rightarrow> d | _ \<Rightarrow> [])), w1))"


section \<open>The walk over a catalog\<close>

text \<open>A fetch that counts its requests.\<close>

definition counted_fetch :: "(int \<Rightarrow> 'w \<Rightarrow> 'r \<times> 'w) \<Rightarrow> int \<Rightarrow> 'w \<times> nat \<Rightarrow> 'r \<times> 'w \<times> nat" where
  "counted_fetch fetch page s = (case fetch page (fst s) of (r, w) \<Rightarrow> (r, w, Suc (snd s)))"

text \<open>What a page must be for the walk to go on.\<close>

lemma advance_cases:
  obtains (last) "advance_catalog_page xs p = (xs @ cp_items p, None)"
      "cp_items p = [] \<or> cp_total p \<le> int (length (xs @ cp_items p)) \<or> int (length (cp_items p)) < cp_page_size p"
    | (more) "advance_catalog_page xs p = (xs @ cp_items p, Some (cp_page p + 1))"
      "cp_items p \<noteq> []" "int (length (xs @ cp_items p)) < cp_total p" "cp_page_size p \<le> int (length (cp_items p))"
  by (cases "is_last_catalog_page (length (cp_items p)) (cp_page_size p) (cp_total p) (length (xs @ cp_items p))")
     (auto simp: advance_catalog_page_def is_last_catalog_page_def Let_def)

lemma catalog_walk_failed: "fetch page w = (Inl e, w1) \<Longrightarrow> catalog_walk fetch xs page w = Some (Inl e, w1)"
  by (subst catalog_walk.simps) simp

lemma catalog_walk_last:
  "fetch page w = (Inr p, w1) \<Longrightarrow> advance_catalog_page xs p = (ys, None) \<Longrightarrow> catalog_walk fetch xs page w = Some (Inr ys, w1)"
  by (subst catalog_walk.simps) simp

lemma catalog_walk_more:
  "fetch page w = (Inr p, w1) \<Longrightarrow> advance_catalog_page xs p = (ys, Some page') \<Longrightarrow> catalog_walk fetch xs page w = catalog_walk fetch ys page' w1"
  by (subst catalog_walk.simps) simp

lemma counted_fetch_apply: "fetch page w = (r, w1) \<Longrightarrow> counted_fetch fetch page (w, k) = (r, w1, Suc k)"
  by (simp add: counted_fetch_def)

lemma walk_room: "(a :: nat) < b \<Longrightarrow> b < n \<Longrightarrow> Suc k + max 1 (n - b) \<le> k + max 1 (n - a)"
  by arith

lemma walk_ends:
  assumes bounded: "\<And>page w p w'. fetch page w = (Inr p, w') \<Longrightarrow> cp_total p \<le> int N"
  shows "\<exists>r w' n. catalog_walk fetch xs page w = Some (r, w') \<and>
    catalog_walk (counted_fetch fetch) xs page (w, k) = Some (r, w', n) \<and> n \<le> k + max 1 (N - length xs)"
proof (induction "N - length xs" arbitrary: xs page w k rule: less_induct)
  case less
  obtain r w1 where f: "fetch page w = (r, w1)" by fastforce
  note c = counted_fetch_apply [where fetch = fetch, OF f, of k]
  show ?case
  proof (cases r)
    case (Inl e)
    then show ?thesis using f c by (simp add: catalog_walk_failed)
  next
    case (Inr p)
    note f = f [unfolded Inr] and c = c [unfolded Inr]
    show ?thesis
    proof (cases rule: advance_cases [of xs p])
      case last
      then show ?thesis using f c by (simp add: catalog_walk_last)
    next
      case more
      let ?ys = "xs @ cp_items p"
      have s: "length xs < length ?ys" "length ?ys < N" using more bounded [OF f] by auto
      then have "N - length ?ys < N - length xs" by (intro diff_less_mono2) auto
      from less [OF this, of "cp_page p + 1" w1 "Suc k"] obtain r' w' n where
        walked: "catalog_walk fetch ?ys (cp_page p + 1) w1 = Some (r', w')"
        "catalog_walk (counted_fetch fetch) ?ys (cp_page p + 1) (w1, Suc k) = Some (r', w', n)" and "n \<le> Suc k + max 1 (N - length ?ys)"
        by blast
      moreover have "Suc k + max 1 (N - length ?ys) \<le> k + max 1 (N - length xs)" by (rule walk_room [OF s])
      ultimately have "n \<le> k + max 1 (N - length xs)" by (meson le_trans)
      with walked show ?thesis
        by (simp add: catalog_walk_more [where fetch = fetch, OF f more(1)] catalog_walk_more [where fetch = "counted_fetch fetch", OF c more(1)])
    qed
  qed
qed

text \<open>A server that cuts a catalog into pages of one size and reports the page asked for and the true total.\<close>

definition honest_page :: "nat \<Rightarrow> model_val list \<Rightarrow> nat \<Rightarrow> catalog_page" where
  "honest_page size' all i = \<lparr>cp_items = take size' (drop (size' * i) all), cp_page = int (Suc i), cp_page_size = int size', cp_total = int (length all)\<rparr>"

lemma walk_reads_all:
  assumes size: "0 < s"
    and honest: "\<And>i w. i = 0 \<or> s * i < length all \<Longrightarrow> \<exists>w'. fetch (int (Suc i)) w = (Inr (honest_page s all i), w')"
    and start: "i = 0 \<or> s * i < length all"
  shows "\<exists>w'. catalog_walk fetch (take (s * i) all) (int (Suc i)) w = Some (Inr all, w')"
  using start
proof (induction "length all - s * i" arbitrary: i w rule: less_induct)
  case less
  obtain w1 where f: "fetch (int (Suc i)) w = (Inr (honest_page s all i), w1)" using honest less.prems by blast
  let ?p = "honest_page s all i"
  have ys: "take (s * i) all @ cp_items ?p = take (s * Suc i) all" by (simp add: honest_page_def take_add add.commute [of s])
  show ?case
  proof (cases rule: advance_cases [of "take (s * i) all" ?p])
    case last
    have "length all \<le> s * Suc i" using last(2) size unfolding ys by (auto simp: honest_page_def min_def split: if_splits simp flip: of_nat_mult)
    with catalog_walk_last [where fetch = fetch, OF f last(1)] show ?thesis by (simp add: ys del: mult_Suc_right)
  next
    case more
    have m: "s * Suc i < length all" using more(3) unfolding ys by (auto simp: honest_page_def min_def split: if_splits)
    have "length all - s * Suc i < length all - s * i" using m size by simp
    from less.hyps [OF this disjI2 [OF m], of w1] show ?thesis
      unfolding catalog_walk_more [where fetch = fetch, OF f more(1)] ys by (simp add: honest_page_def del: mult_Suc_right)
  qed
qed

section \<open>Paths\<close>

lemma quoted_no_slash: "CHR ''/'' \<notin> set (encode_path_segment s)"
  using url_quote_set [of "CHR ''/''" s]
  by (auto simp: encode_path_segment_def quote_safe_def char_is_alpha_def char_is_digit_def char_lower_def)

definition dot_segments :: "string set" where
  "dot_segments = {[], ''.'', ''..''}"

lemma quoted_dots: "encode_path_segment [] = []" "encode_path_segment ''.'' = ''.''" "encode_path_segment ''..'' = ''..''"
  by (simp_all add: encode_path_segment_def url_quote_def quote_safe_def Let_def)

lemma quoted_eq: "encode_path_segment s = encode_path_segment t \<longleftrightarrow> s = t"
  by (simp add: encode_path_segment_def url_quote_inj)

lemma quoted_not_dots: "encode_path_segment s \<in> dot_segments \<longleftrightarrow> s \<in> dot_segments"
proof -
  have "encode_path_segment s \<in> dot_segments \<longleftrightarrow> encode_path_segment s \<in> encode_path_segment ` dot_segments"
    by (simp add: dot_segments_def quoted_dots)
  then show ?thesis by (auto simp: quoted_eq)
qed

lemma ascii_path: "list_all (\<lambda>c. (of_char c :: nat) < 128) p \<Longrightarrow> encode_request_path p = p"
  by (induction p) (simp_all add: encode_request_path_def Let_def)

lemma safe_ascii: "quote_safe c \<Longrightarrow> (of_char c :: nat) < 128"
  using of_char_less [of c]
  by (auto simp: quote_safe_def char_is_alpha_def char_is_digit_def char_lower_def Let_def split: if_splits)

lemma quoted_ascii: "list_all (\<lambda>c. (of_char c :: nat) < 128) (encode_path_segment s)"
  using url_quote_set [of _ s] safe_ascii by (fastforce simp: list_all_iff encode_path_segment_def)

lemma split_last_three:
  assumes "c \<notin> set a" "c \<notin> set b" "c \<notin> set d"
  shows "str_split_char c (p @ c # a @ c # b @ c # d) = str_split_char c p @ [a, b, d]"
proof -
  have ne: "str_split_char c q \<noteq> []" for q
    by (induction q) (auto split: list.splits)
  have "str_split_char c (p @ c # t) = str_split_char c p @ str_split_char c t" for t
    by (induction p) (use ne in \<open>auto split: list.splits\<close>)
  then show ?thesis using assms by (simp add: str_split_char_append str_split_char_none)
qed

lemma resource_path_parts: "resource_path kind ns name = resources_path @ CHR ''/'' # encode_path_segment kind @ CHR ''/'' # encode_path_segment ns @ CHR ''/'' # encode_path_segment name"
  by (simp add: resource_path_def)

lemma resource_path_split: "str_split_char (CHR ''/'') (resource_path kind ns name) =
    str_split_char (CHR ''/'') resources_path @ [encode_path_segment kind, encode_path_segment ns, encode_path_segment name]"
  unfolding resource_path_parts by (rule split_last_three; rule quoted_no_slash)

lemma resource_path_eq: "resource_path kind ns name = resource_path kind' ns' name' \<longleftrightarrow> kind = kind' \<and> ns = ns' \<and> name = name'"
  by (metis resource_path_split append_same_eq same_append_eq list.inject quoted_eq)

lemma resource_path_ascii: "encode_request_path (resource_path kind ns name) = resource_path kind ns name"
  by (rule ascii_path) (simp add: resource_path_def resources_path_def quoted_ascii)



text \<open>An identifier \<open>..\<close> is left as it is, so that the path is one of another resource once the segments are resolved.\<close>

lemma dot_dot_kept: "resource_path ''..'' ''..'' ''config'' = resources_path @ ''/../../'' @ encode_path_segment ''config''"
  by (simp add: resource_path_def quoted_dots)

section \<open>Reading a catalog to its end\<close>

lemma services_walk: "admin_list_services al c opts w = catalog_walk (services_fetch al c opts) [] default_catalog_page w"
  by (simp add: admin_list_services_def)

lemma services_fetch_Inr: "services_fetch al c opts page w = (Inr p, w') \<longleftrightarrow>
    (\<exists>l. admin_list_services_page al c (Some (first_page\<lparr>lq_page := page\<rparr>)) opts w = (Inr (p, l), w'))"
  by (auto simp: services_fetch_def bindE_def split: prod.splits sum.splits)

text \<open>C35. \<open>list_services\<close> ends whatever the server answers, as long as the totals it reports are bounded:
  with totals of at most \<open>N\<close> it reads at most \<open>N\<close> pages, and one where \<open>N\<close> is zero. A server that repeats
  pages, leaves out the page number or changes the total between answers is covered.\<close>

theorem service_walk_bounded:
  assumes "\<And>page w p l w'. admin_list_services_page al c (Some (first_page\<lparr>lq_page := page\<rparr>)) opts w = (Inr (p, l), w') \<Longrightarrow> cp_total p \<le> int N"
  shows "\<exists>r w' n. admin_list_services al c opts w = Some (r, w') \<and>
    catalog_walk (counted_fetch (services_fetch al c opts)) [] default_catalog_page (w, 0) = Some (r, w', n) \<and> n \<le> max 1 N"
proof -
  have "cp_total p \<le> int N" if "services_fetch al c opts page w = (Inr p, w')" for page w p w'
    using that assms by (auto simp: services_fetch_Inr)
  from walk_ends [where fetch = "services_fetch al c opts" and N = N and xs = "[]" and page = default_catalog_page and w = w and k = 0, OF this]
  show ?thesis by (simp add: services_walk)
qed



text \<open>A server with one service.\<close>

definition roads_service :: pyval where
  "roads_service = PDict [(''serviceName'', PStr ''roads''), (''description'', PNone), (''layerCount'', PInt 4), (''enabledProtocols'', PList [PStr ''FeatureServer''])]"

definition catalog_answer :: http_response where
  "catalog_answer = json_answer [(''data'', PDict [(''items'', PList [roads_service]), (''page'', PInt 1), (''pageSize'', PInt 100), (''total'', PInt 1), (''layerTotal'', PInt 4)])]"

definition catalog_lib :: "((string, string) pydict, unit) admin_lib" where
  "catalog_lib = \<lparr>al_http = site_lib, al_send = (\<lambda>_ _ w. (Inr (catalog_answer, []), w)), al_own_content_type = (\<lambda>_. False), al_uuid = (\<lambda>w. ([], w))\<rparr>"

definition roads_model :: model_val where
  "roads_model = (case from_dict admin_service_summary roads_service of Inr m \<Rightarrow> m | Inl _ \<Rightarrow> Plain PNone)"

lemma catalog_json: "ar_upload req = None \<Longrightarrow> admin_json catalog_lib key_client req opts () = (Inr (unwrap_envelope catalog_answer), ())"
  by (auto simp: admin_json_def admin_send_def catalog_lib_def request_hook_def built_client_def key_init_def apply_sensitive_auth_headers_def site_lib_def
      catalog_answer_def json_answer_def answer_of_def Let_def bindE_def)

lemma catalog_page_read: "service_list_page_from (unwrap_envelope catalog_answer) = Inr (honest_page 100 [roads_model] 0, 4)"
  by code_simp

lemma catalog_page_answer: "admin_list_services_page catalog_lib key_client (Some (first_page\<lparr>lq_page := page\<rparr>)) opts w =
    (if page < 1 then (Inl (CodeError ErrValue), ()) else (Inr (honest_page 100 [roads_model] 0, 4), ()))"
  by (simp add: admin_list_services_page_def admin_catalog_params_def first_page_def max_catalog_page_size_def blank_to_none_def ask_def
      catalog_json catalog_page_read code_result_def bindE_def)

theorem service_walk_bounded_witness:
  "\<exists>r w' n. admin_list_services catalog_lib key_client no_options () = Some (r, w') \<and>
    catalog_walk (counted_fetch (services_fetch catalog_lib key_client no_options)) [] default_catalog_page ((), 0) = Some (r, w', n) \<and> n \<le> max 1 1"
  by (rule service_walk_bounded) (auto simp: catalog_page_answer honest_page_def split: if_splits)


end
