(* ===== verification/Job_Diagnostics.thy ===== *)
theory Job_Diagnostics
  imports Core_Client Gp_Resolve Wkb
begin

text \<open>
  \<open>gp_diagnostics.py\<close>: the diagnostics of a job as a document, read from the server or projected from a local
  run receipt, its pages of events behind cursors, its rendering, the redaction of secrets, and the command that
  prints it.

  A document is its dict; the view classes are the functions that read it. The file system is the record
  \<open>receipt_fs\<close> over paths as their parts; the clock is read once per document. The regular expressions of the
  redaction are written out as scanners: each has one match at a position, so backtracking adds none. A page
  generator runs together with the consumer of its pages and may go on for ever, so it is a partial function.
\<close>

section \<open>Redaction\<close>

definition redacted_mark :: string where
  "redacted_mark = ''[REDACTED]''"

definition word_char :: "char \<Rightarrow> bool" where
  "word_char c \<longleftrightarrow> char_is_alpha c \<or> char_is_digit c \<or> c = CHR ''_''"

text \<open>\<open>\b\<close> before \<open>s\<close>, after the character \<open>prev\<close>.\<close>

definition word_edge :: "char option \<Rightarrow> string \<Rightarrow> bool" where
  "word_edge prev s \<longleftrightarrow> (case prev of None \<Rightarrow> False | Some c \<Rightarrow> word_char c) \<noteq> (case s of [] \<Rightarrow> False | c # _ \<Rightarrow> word_char c)"

text \<open>Substitution from left to right: \<open>m\<close> gives the replacement and the length of a match at a position, and
  \<open>skip\<close> is how much of the last match is still to pass.\<close>

fun scan_sub :: "(char option \<Rightarrow> string \<Rightarrow> (string \<times> nat) option) \<Rightarrow> char option \<Rightarrow> nat \<Rightarrow> string \<Rightarrow> string" where
  "scan_sub m prev skip [] = []"
| "scan_sub m prev (Suc skip) (c # cs) = scan_sub m (Some c) skip cs"
| "scan_sub m prev 0 (c # cs) = (case m prev (c # cs) of
     Some (out, Suc n) \<Rightarrow> out @ scan_sub m (Some c) n cs
   | _ \<Rightarrow> c # scan_sub m (Some c) 0 cs)"

definition str_replace :: "string \<Rightarrow> string \<Rightarrow> string \<Rightarrow> string" where
  "str_replace old new = scan_sub (\<lambda>_ s. if str_startswith s old then Some (new, length old) else None) None 0"

text \<open>A keyword, letter case ignored, that ends at a word edge.\<close>

definition keyword_at :: "string list \<Rightarrow> string \<Rightarrow> nat option" where
  "keyword_at ks s = map_option length (find (\<lambda>k. str_startswith (str_lower s) k \<and> (case drop (length k) s of [] \<Rightarrow> True | c # _ \<Rightarrow> \<not> word_char c)) ks)"

definition secret_keywords :: "string list" where
  "secret_keywords = [''apikey'', ''api-key'', ''api_key'', ''password'', ''passwd'', ''secret'', ''token'', ''authorization'']"

definition scheme_keywords :: "string list" where
  "scheme_keywords = [''bearer'', ''basic'']"

definition assignment_at :: "char option \<Rightarrow> string \<Rightarrow> (string \<times> nat) option" where
  "assignment_at prev s = (if \<not> word_edge prev s then None else case keyword_at secret_keywords s of None \<Rightarrow> None
   | Some k \<Rightarrow> (case dropWhile char_is_space (drop k s) of [] \<Rightarrow> None
      | sep # after \<Rightarrow> (let v = dropWhile char_is_space after; taken = takeWhile (\<lambda>c. \<not> char_is_space c) v; lead = length s - length v in
          if sep \<notin> {CHR ''='', CHR '':''} \<or> keyword_at scheme_keywords v \<noteq> None \<or> taken = [] then None
          else Some (take lead s @ redacted_mark, lead + length taken))))"

definition bearer_at :: "char option \<Rightarrow> string \<Rightarrow> (string \<times> nat) option" where
  "bearer_at prev s = (if \<not> word_edge prev s then None else case keyword_at scheme_keywords s of None \<Rightarrow> None
   | Some k \<Rightarrow> (let v = dropWhile char_is_space (drop k s); taken = takeWhile (\<lambda>c. \<not> char_is_space c) v; lead = length s - length v in
       if lead = k \<or> taken = [] then None else Some (take lead s @ redacted_mark, lead + length taken)))"

definition scheme_char :: "char \<Rightarrow> bool" where
  "scheme_char c \<longleftrightarrow> char_is_alpha c \<or> char_is_digit c \<or> c \<in> {CHR ''+'', CHR ''.'', CHR ''-''}"

definition userinfo_at :: "char option \<Rightarrow> string \<Rightarrow> (string \<times> nat) option" where
  "userinfo_at prev s = (case s of [] \<Rightarrow> None | c # _ \<Rightarrow>
     if \<not> word_edge prev s \<or> \<not> char_is_alpha c then None
     else (let after = dropWhile scheme_char s in
       if \<not> str_startswith after ''://'' then None
       else (let user = takeWhile (\<lambda>c. \<not> char_is_space c \<and> c \<noteq> CHR ''/'' \<and> c \<noteq> CHR ''@'') (drop 3 after);
                 rest = drop (3 + length user) after in
         if CHR '':'' \<notin> set (butlast (tl user)) then None
         else (case rest of sign # host \<Rightarrow> (let h = takeWhile (\<lambda>c. \<not> char_is_space c) host in
             if sign \<noteq> CHR ''@'' \<or> h = [] then None else Some (redacted_mark, length s - length host + length h))
           | [] \<Rightarrow> None))))"

definition redact_tokens :: "string \<Rightarrow> string" where "redact_tokens = scan_sub bearer_at None 0"
definition redact_assignments :: "string \<Rightarrow> string" where "redact_assignments = scan_sub assignment_at None 0"
definition redact_userinfo :: "string \<Rightarrow> string" where "redact_userinfo = scan_sub userinfo_at None 0"

definition redact_secrets :: "string list \<Rightarrow> string \<Rightarrow> string" where
  "redact_secrets secrets t = fold (\<lambda>secret s. if secret \<noteq> [] \<and> secret \<noteq> redacted_mark then str_replace secret redacted_mark s else s) secrets
     (redact_userinfo (redact_assignments (redact_tokens t)))"

fun redact_json :: "string list \<Rightarrow> pyval \<Rightarrow> pyval" where
  "redact_json secrets (PStr s) = PStr (redact_secrets secrets s)"
| "redact_json secrets (PList xs) = PList (map (redact_json secrets) xs)"
| "redact_json secrets (PDict d) = PDict (map (\<lambda>(k, v). (k, redact_json secrets v)) d)"
| "redact_json secrets v = v"


section \<open>Failures\<close>

text \<open>The exceptions the module tells apart; an HTTP error has its status and message.\<close>

datatype diag_exn = UsageError string | ContractError string | StreamInterrupted string | ValueRaised string
  | AuthFailed int string | HttpFailed int string | TransportFailed string | SdkFailed string | OtherFailed

definition exit_ok :: int where "exit_ok = 0"
definition exit_error :: int where "exit_error = 1"
definition exit_usage :: int where "exit_usage = 2"
definition exit_unauthorized :: int where "exit_unauthorized = 3"
definition exit_missing :: int where "exit_missing = 4"
definition exit_expired :: int where "exit_expired = 5"
definition exit_interrupted :: int where "exit_interrupted = 6"

abbreviation newline :: string where "newline \<equiv> [CHR 0x0A]"

definition error_line :: "string \<Rightarrow> string" where
  "error_line message = (let t = (if str_startswith message ''error:'' then message else ''error: '' @ message) in if str_endswith t newline then t else t @ newline)"

definition http_failure :: "int \<Rightarrow> string \<Rightarrow> string list \<Rightarrow> int \<times> string" where
  "http_failure status message secrets = (let detail = redact_secrets secrets message; st = str_of_int status in
     if status \<in> {401, 403} then (exit_unauthorized, error_line (''unauthorized (HTTP '' @ st @ ''): '' @ detail))
     else if status = 404 then (exit_missing, error_line (''job not found (HTTP '' @ st @ ''): '' @ detail))
     else if status = 410 \<or> str_contains ''expired'' (str_lower detail) then (exit_expired, error_line (''expired (HTTP '' @ st @ ''): '' @ detail))
     else (exit_error, error_line (''HTTP '' @ st @ '': '' @ detail)))"

definition diagnostics_failure :: "diag_exn \<Rightarrow> bool \<Rightarrow> string list \<Rightarrow> int \<times> string" where
  "diagnostics_failure e stream_started secrets = (let other = (\<lambda>m. if stream_started
       then (exit_interrupted, error_line (''log stream interrupted: '' @ redact_secrets secrets m)) else (exit_error, error_line (redact_secrets secrets m))) in
     case e of UsageError m \<Rightarrow> (exit_usage, error_line (redact_secrets secrets m))
   | ValueRaised m \<Rightarrow> (exit_usage, error_line (redact_secrets secrets m))
   | AuthFailed status m \<Rightarrow> (exit_unauthorized, error_line (''unauthorized (HTTP '' @ str_of_int status @ ''): '' @ redact_secrets secrets m))
   | HttpFailed status m \<Rightarrow> http_failure status m secrets
   | StreamInterrupted m \<Rightarrow> (exit_interrupted, error_line (''log stream interrupted: '' @ redact_secrets secrets m))
   | TransportFailed m \<Rightarrow> other m | SdkFailed m \<Rightarrow> other m | ContractError m \<Rightarrow> other m
   | OtherFailed \<Rightarrow> (exit_error, error_line ''job diagnostics failed''))"


section \<open>A page of diagnostics\<close>

type_synonym document = "(string, pyval) pydict"

definition schema_id :: string where "schema_id = ''honua.job-diagnostics/v1''"
definition default_event_limit :: int where "default_event_limit = 50"
definition max_event_limit :: int where "max_event_limit = 500"

definition text_member :: "document \<Rightarrow> string \<Rightarrow> string" where
  "text_member raw k = (case get_or_none raw k of PStr s \<Rightarrow> s | _ \<Rightarrow> [])"

definition optional_text :: "pyval \<Rightarrow> string option" where
  "optional_text v = (case v of PStr (c # cs) \<Rightarrow> Some (c # cs) | _ \<Rightarrow> None)"

definition flag_member :: "document \<Rightarrow> string \<Rightarrow> bool" where
  "flag_member raw k = (case get_or_none raw k of PBool b \<Rightarrow> b | _ \<Rightarrow> False)"

definition int_value :: "pyval \<Rightarrow> int option" where
  "int_value v = (case v of PInt i \<Rightarrow> Some i | _ \<Rightarrow> None)"

definition required_count :: "pyval \<Rightarrow> int" where
  "required_count v = (case int_value v of Some i \<Rightarrow> i | None \<Rightarrow> 0)"

definition string_tuple :: "pyval \<Rightarrow> string list" where
  "string_tuple v = (case v of PList xs \<Rightarrow> List.map_filter (\<lambda>x. case x of PStr s \<Rightarrow> Some s | _ \<Rightarrow> None) xs | _ \<Rightarrow> [])"

definition doc_section :: "document \<Rightarrow> string \<Rightarrow> document" where
  "doc_section d k = (case get_or_none d k of PDict m \<Rightarrow> m | _ \<Rightarrow> [])"

text \<open>The views: each reads its part of the document.\<close>

definition entry_timestamp :: "document \<Rightarrow> string" where "entry_timestamp raw = text_member raw ''timestamp''"
definition entry_level :: "document \<Rightarrow> string" where "entry_level raw = text_member raw ''level''"
definition entry_message :: "document \<Rightarrow> string" where "entry_message raw = text_member raw ''message''"
definition entry_phase :: "document \<Rightarrow> string option" where "entry_phase raw = optional_text (get_or_none raw ''phase'')"

definition page_failure :: "document \<Rightarrow> document option" where
  "page_failure d = (case get_or_none d ''failure'' of PDict m \<Rightarrow> Some m | _ \<Rightarrow> None)"

definition failure_message :: "document \<Rightarrow> string" where "failure_message raw = text_member raw ''message''"
definition failure_classification :: "document \<Rightarrow> string" where "failure_classification raw = text_member raw ''classification''"
definition failure_phase :: "document \<Rightarrow> string option" where "failure_phase raw = optional_text (get_or_none raw ''phase'')"
definition failure_recovery :: "document \<Rightarrow> string" where "failure_recovery raw = text_member raw ''recovery''"
definition failure_step_ordinal :: "document \<Rightarrow> int option" where "failure_step_ordinal raw = int_value (get_or_none raw ''stepOrdinal'')"

definition attempt_number :: "document \<Rightarrow> int" where "attempt_number d = required_count (get_or_none (doc_section d ''attempt'') ''number'')"
definition attempt_maximum :: "document \<Rightarrow> int option" where "attempt_maximum d = int_value (get_or_none (doc_section d ''attempt'') ''maxAttempts'')"
definition attempt_retry :: "document \<Rightarrow> document" where "attempt_retry d = doc_section (doc_section d ''attempt'') ''retry''"
definition retry_allowed :: "document \<Rightarrow> bool" where "retry_allowed raw = flag_member raw ''allowed''"
definition retry_disabled_reason :: "document \<Rightarrow> string option" where "retry_disabled_reason raw = optional_text (get_or_none raw ''disabledReason'')"
definition retry_would_repeat :: "document \<Rightarrow> string" where "retry_would_repeat raw = text_member raw ''wouldRepeat''"

definition event_items :: "document \<Rightarrow> document list" where
  "event_items d = (case get_or_none (doc_section d ''events'') ''items'' of
     PList xs \<Rightarrow> List.map_filter (\<lambda>x. case x of PDict e \<Rightarrow> Some e | _ \<Rightarrow> None) xs | _ \<Rightarrow> [])"

definition event_total :: "document \<Rightarrow> int" where
  "event_total d = (case int_value (get_or_none (doc_section d ''events'') ''totalCount'') of Some n \<Rightarrow> n | None \<Rightarrow> int (length (event_items d)))"

definition event_limit :: "document \<Rightarrow> int" where
  "event_limit d = (case int_value (get_or_none (doc_section d ''events'') ''limit'') of Some n \<Rightarrow> n | None \<Rightarrow> int (length (event_items d)))"

definition events_truncated :: "document \<Rightarrow> bool" where "events_truncated d = flag_member (doc_section d ''events'') ''truncated''"
definition first_cursor :: "document \<Rightarrow> string option" where "first_cursor d = optional_text (get_or_none (doc_section d ''events'') ''firstCursor'')"
definition next_cursor :: "document \<Rightarrow> string option" where "next_cursor d = optional_text (get_or_none (doc_section d ''events'') ''nextCursor'')"
definition event_mode :: "document \<Rightarrow> string" where "event_mode d = text_member (doc_section d ''events'') ''mode''"

definition evidence_of :: "document \<Rightarrow> string \<Rightarrow> string list" where
  "evidence_of d k = string_tuple (get_or_none (doc_section d ''evidence'') k)"

definition artifact_count :: "document \<Rightarrow> string \<Rightarrow> int" where
  "artifact_count d k = required_count (get_or_none (doc_section d ''artifacts'') k)"

text \<open>\<open>parse_job_diagnostics\<close>\<close>

definition require_mapping :: "document \<Rightarrow> string \<Rightarrow> diag_exn + document" where
  "require_mapping d k = (case get_or_none d k of PDict m \<Rightarrow> Inr m | _ \<Rightarrow> Inl (ContractError (k @ '' must be an object'')))"

definition require_bool :: "document \<Rightarrow> string \<Rightarrow> string \<Rightarrow> diag_exn + unit" where
  "require_bool d k label = (case get_or_none d k of PBool _ \<Rightarrow> Inr () | _ \<Rightarrow> Inl (ContractError (label @ '' must be a boolean'')))"

definition require_strings :: "document \<Rightarrow> string \<Rightarrow> string \<Rightarrow> diag_exn + unit" where
  "require_strings d k label = (case get_or_none d k of PList xs \<Rightarrow> if list_all is_str xs then Inr () else Inl (ContractError (label @ '' must be an array of strings''))
     | _ \<Rightarrow> Inl (ContractError (label @ '' must be an array of strings'')))"

definition parse_job_diagnostics :: "pyval \<Rightarrow> diag_exn + document" where
  "parse_job_diagnostics v = (case v of PDict d \<Rightarrow>
     if get_or_none d ''schema'' \<noteq> PStr schema_id then Inl (ContractError (''job diagnostics schema must be '' @ schema_id))
     else if optional_text (get_or_none d ''jobId'') = None then Inl (ContractError ''job diagnostics jobId is required'')
     else bindE (require_mapping d ''lifecycle'') (\<lambda>_. bindE (require_mapping d ''attempt'') (\<lambda>_.
       bindE (require_mapping d ''events'') (\<lambda>events. bindE (require_mapping d ''evidence'') (\<lambda>evidence.
       bindE (require_mapping d ''artifacts'') (\<lambda>_. bindE (require_bool events ''truncated'' ''events.truncated'') (\<lambda>_.
       bindE (require_strings evidence ''missing'' ''evidence.missing'') (\<lambda>_. bindE (require_strings evidence ''truncated'' ''evidence.truncated'') (\<lambda>_.
       bindE (require_strings evidence ''notes'' ''evidence.notes'') (\<lambda>_.
       if get_or_none d ''failure'' = PNone then Inr d else bindE (require_mapping d ''failure'') (\<lambda>_. Inr d))))))))))
   | _ \<Rightarrow> Inl (ContractError ''job diagnostics document must be an object''))"

section \<open>Rendering\<close>

definition lead_line :: "document \<Rightarrow> string" where
  "lead_line d = (let failure = page_failure d;
       phase = (case failure of None \<Rightarrow> text_member (doc_section d ''lifecycle'') ''phase''
         | Some f \<Rightarrow> (case failure_phase f of Some p \<Rightarrow> p | None \<Rightarrow> text_member (doc_section d ''lifecycle'') ''phase''))
     in (if failure = None then ''phase'' else ''failing phase'') @ '' '' @ phase @ '', attempt '' @ str_of_int (attempt_number d) @
        (case attempt_maximum d of None \<Rightarrow> [] | Some m \<Rightarrow> '' of '' @ str_of_int m))"

definition next_action :: "document \<Rightarrow> string" where
  "next_action d = (let retry = attempt_retry d; repeat' = retry_would_repeat retry;
       recovery = (case page_failure d of None \<Rightarrow> [] | Some f \<Rightarrow> failure_recovery f) in
     if recovery \<noteq> [] then recovery
     else if retry_allowed retry \<and> repeat' \<noteq> [] then repeat'
     else (case retry_disabled_reason retry of Some r \<Rightarrow> r
       | None \<Rightarrow> if repeat' \<noteq> [] then repeat' else ''read evidence.missing and evidence.truncated before deciding what to run next''))"

definition events_line :: "document \<Rightarrow> string" where
  "events_line d = ''events: '' @ event_mode d @ '' '' @ str_of_int (int (length (event_items d))) @ '' of '' @ str_of_int (event_total d) @
     '', truncated='' @ (if events_truncated d then ''true'' else ''false'') @
     (case first_cursor d of Some c \<Rightarrow> '', firstCursor='' @ c | None \<Rightarrow> '', firstCursor=absent'') @
     (case next_cursor d of Some c \<Rightarrow> '', nextCursor='' @ c | None \<Rightarrow> [])"

definition marker_block :: "string \<Rightarrow> string list \<Rightarrow> string list" where
  "marker_block title items = (if items = [] then [] else (title @ '':'') # map (\<lambda>i. ''  '' @ i) items)"

definition str_rstrip :: "string \<Rightarrow> string" where
  "str_rstrip s = rev (str_lstrip (rev s))"

definition format_job_diagnostics :: "document \<Rightarrow> string" where
  "format_job_diagnostics d = (let worker = doc_section d ''worker''; lines =
      [lead_line d, ''next: '' @ next_action d, [], ''job: '' @ text_member d ''jobId'',
       ''status: '' @ text_member (doc_section d ''lifecycle'') ''status'', ''lifecycle phase: '' @ text_member (doc_section d ''lifecycle'') ''phase'',
       ''worker: '' @ text_member worker ''liveness'' @ '' ('' @ text_member worker ''livenessReason'' @ '')'',
       ''release: '' @ text_member (doc_section d ''release'') ''state'',
       ''artifacts: '' @ text_member (doc_section d ''artifacts'') ''state'' @ '' (expired '' @ str_of_int (artifact_count d ''expiredCount'') @
         '', available '' @ str_of_int (artifact_count d ''availableCount'') @ '', unavailable '' @ str_of_int (artifact_count d ''unavailableCount'') @ '')'',
       events_line d] @
      (case page_failure d of None \<Rightarrow> [] | Some f \<Rightarrow> [''failure: '' @ failure_classification f @ '': '' @ failure_message f]) @
      marker_block ''missing evidence'' (evidence_of d ''missing'') @ marker_block ''truncated'' (evidence_of d ''truncated'') @ marker_block ''notes'' (evidence_of d ''notes'')
     in str_rstrip (str_join newline lines) @ newline)"

definition format_event_line :: "document \<Rightarrow> string" where
  "format_event_line e = entry_timestamp e @ '' '' @ entry_level e @ (case entry_phase e of None \<Rightarrow> [] | Some p \<Rightarrow> '' '' @ p) @ '' '' @ entry_message e"

definition append_unique :: "'a \<Rightarrow> 'a list \<Rightarrow> 'a list" where
  "append_unique x xs = (if x \<in> set xs then xs else xs @ [x])"

definition disclose_page :: "document \<Rightarrow> string list \<times> string list \<Rightarrow> string list \<times> string list" where
  "disclose_page d st = (case st of (lines, missing) \<Rightarrow>
     let lines' = fold (\<lambda>i. append_unique (''truncated: '' @ i)) (evidence_of d ''truncated'') lines;
         bits = (case first_cursor d of Some c \<Rightarrow> [''firstCursor='' @ c] | None \<Rightarrow> []) @ (case next_cursor d of Some c \<Rightarrow> [''nextCursor='' @ c] | None \<Rightarrow> [])
     in (if events_truncated d \<and> bits \<noteq> [] then append_unique (''truncated: '' @ str_join '', '' bits) lines' else lines',
         fold append_unique (evidence_of d ''missing'') missing))"

definition log_disclosure_lines :: "document list \<Rightarrow> string list" where
  "log_disclosure_lines pages = (case fold disclose_page pages ([], []) of (lines, missing) \<Rightarrow> lines @ marker_block ''missing evidence'' missing)"


section \<open>Cursors\<close>

definition ascii_bytes :: "string \<Rightarrow> 8 word list" where
  "ascii_bytes = map (\<lambda>c. word_of_nat (of_char c))"

definition encode_cursor :: "nat \<Rightarrow> string" where
  "encode_cursor offset = str_rstrip_chars {CHR ''=''} (str_replace_char (CHR ''/'') (CHR ''_'') (str_replace_char (CHR ''+'') (CHR ''-'')
     (b64encode (ascii_bytes (''v1:'' @ nat_digits offset)))))"

text \<open>The lenient \<open>base64.b64decode\<close>: characters outside the alphabet are passed over, padding after two or more
  characters of a group of four ends the data, and data that ends inside a group is refused.\<close>

fun b64_lenient :: "nat \<Rightarrow> nat \<Rightarrow> nat \<Rightarrow> string \<Rightarrow> 8 word list option" where
  "b64_lenient quad left pads [] = (if quad = 0 then Some [] else None)"
| "b64_lenient quad left pads (c # cs) =
     (if c = CHR ''='' then (if 2 \<le> quad then (if 4 \<le> quad + Suc pads then Some [] else b64_lenient quad left (Suc pads) cs) else b64_lenient quad left pads cs)
      else if \<not> b64_data c then b64_lenient quad left pads cs
      else (let v = b64_index c in
        if quad = 0 then b64_lenient 1 v 0 cs
        else if quad = 1 then map_option ((#) (word_of_nat (left * 4 + v div 16))) (b64_lenient 2 (v mod 16) 0 cs)
        else if quad = 2 then map_option ((#) (word_of_nat (left * 16 + v div 4))) (b64_lenient 3 (v mod 4) 0 cs)
        else map_option ((#) (word_of_nat (left * 64 + v))) (b64_lenient 0 0 0 cs)))"

definition invalid_cursor :: diag_exn where
  "invalid_cursor = UsageError ''Invalid diagnostic event cursor.''"

definition decode_cursor :: "string \<Rightarrow> diag_exn + nat" where
  "decode_cursor cursor = (let padded = cursor @ replicate ((4 - length cursor mod 4) mod 4) (CHR ''='') in
     case b64_lenient 0 0 0 (str_replace_char (CHR ''_'') (CHR ''/'') (str_replace_char (CHR ''-'') (CHR ''+'') padded)) of None \<Rightarrow> Inl invalid_cursor
   | Some bs \<Rightarrow> if list_ex (\<lambda>b. 128 \<le> b) bs then Inl invalid_cursor
       else (case str_split1 (CHR '':'') (map (\<lambda>b. char_of (unat b)) bs) of
           [prefix', raw] \<Rightarrow> (case py_int_text raw of None \<Rightarrow> Inl invalid_cursor
              | Some i \<Rightarrow> if prefix' \<noteq> ''v1'' \<or> i < 0 then Inl invalid_cursor else Inr (nat i))
         | _ \<Rightarrow> Inl invalid_cursor))"

text \<open>The records of a page, the number of all records, the cursor after the page and its mode.\<close>

definition select_records :: "'a list \<Rightarrow> nat \<Rightarrow> string option \<Rightarrow> diag_exn + 'a list \<times> nat \<times> string option \<times> string" where
  "select_records records limit cursor = (let n = length records in
     case cursor of None \<Rightarrow> Inr (drop (n - limit) records, n, None, ''tail'')
   | Some c \<Rightarrow> bindE (if c = ''start'' then Inr 0 else decode_cursor c) (\<lambda>start.
       if n < start then Inl invalid_cursor
       else (let selected = take limit (drop start records); after = start + length selected in
         Inr (selected, n, if after < n then Some (encode_cursor after) else None, ''page''))))"

section \<open>Local receipts\<close>

datatype read_outcome = ReadFailed | Undecodable string | ReadText string

text \<open>The file system, over paths as their parts; \<open>fs_resolve\<close> follows links. The parsed journal lines and
  receipts come from \<open>fs_json\<close>.\<close>

record receipt_fs =
  fs_exists :: "string list \<Rightarrow> bool"
  fs_is_file :: "string list \<Rightarrow> bool"
  fs_is_dir :: "string list \<Rightarrow> bool"
  fs_read :: "string list \<Rightarrow> read_outcome"
  fs_resolve :: "string list \<Rightarrow> string list"
  fs_json :: "string \<Rightarrow> pyval option"
  fs_expand :: "string \<Rightarrow> string"
  fs_now :: string

definition path_parts :: "string \<Rightarrow> string list" where
  "path_parts s = (if str_startswith s ''//'' \<and> \<not> str_startswith s ''///'' then [''//''] else if str_startswith s ''/'' then [''/''] else []) @
     filter (\<lambda>p. p \<noteq> [] \<and> p \<noteq> ''.'') (str_split_char (CHR ''/'') s)"

definition path_name :: "string list \<Rightarrow> string" where
  "path_name ps = (if ps = [] \<or> last ps \<in> {''/'', ''//''} then [] else last ps)"

definition path_text :: "string list \<Rightarrow> string" where
  "path_text ps = (case ps of [] \<Rightarrow> ''.'' | p # rest \<Rightarrow> if p \<in> {''/'', ''//''} then p @ str_join ''/'' rest else str_join ''/'' ps)"

definition receipt_directory :: "receipt_fs \<Rightarrow> string list \<Rightarrow> diag_exn + string list" where
  "receipt_directory fs path =
     (if fs_is_file fs path \<and> path_name path = ''receipt.json'' then Inr (butlast path)
      else if fs_is_dir fs path \<and> fs_is_file fs (path @ [''receipt.json'']) then Inr path
      else Inl (UsageError (path_text path @ '' is not a local receipt directory'')))"

definition local_receipt_directory :: "receipt_fs \<Rightarrow> string \<Rightarrow> diag_exn + string list option" where
  "local_receipt_directory fs target = (let path = path_parts (fs_expand fs target);
       looks_like_path = (case target of c # _ \<Rightarrow> c \<in> {CHR ''/'', CHR ''.'', CHR ''~''} | [] \<Rightarrow> False) \<or> CHR ''/'' \<in> set target \<or> backslash \<in> set target in
     if looks_like_path
     then (if \<not> fs_exists fs path then Inl (UsageError (''local receipt path does not exist: '' @ target)) else bindE (receipt_directory fs path) (\<lambda>d. Inr (Some d)))
     else if fs_is_dir fs path \<or> (fs_is_file fs path \<and> path_name path = ''receipt.json'') then bindE (receipt_directory fs path) (\<lambda>d. Inr (Some d))
     else Inr None)"

definition read_json_object :: "receipt_fs \<Rightarrow> string list \<Rightarrow> diag_exn + document" where
  "read_json_object fs path = (case fs_read fs path of
     ReadFailed \<Rightarrow> Inl (UsageError (''could not read '' @ path_name path))
   | Undecodable m \<Rightarrow> Inl (ValueRaised m)
   | ReadText t \<Rightarrow> (case fs_json fs t of None \<Rightarrow> Inl (UsageError (''could not read '' @ path_name path))
       | Some (PDict d) \<Rightarrow> Inr d | Some _ \<Rightarrow> Inl (UsageError (path_name path @ '' must be a JSON object''))))"

definition artifact_file :: "receipt_fs \<Rightarrow> string list \<Rightarrow> string \<Rightarrow> string list option" where
  "artifact_file fs directory relative =
     (if relative = [] \<or> str_startswith relative ''/'' \<or> str_startswith relative [backslash] \<or> ''..'' \<in> set (path_parts relative) then None
      else (let candidate = fs_resolve fs (directory @ path_parts relative); base = fs_resolve fs directory in
        if take (length base) candidate = base \<and> fs_is_file fs candidate then Some candidate else None))"

definition line_end :: "char \<Rightarrow> bool" where
  "line_end c \<longleftrightarrow> (let n = (of_char c :: nat) in (10 \<le> n \<and> n \<le> 13) \<or> (28 \<le> n \<and> n \<le> 30))"

fun split_lines :: "string \<Rightarrow> string \<Rightarrow> string list" where
  "split_lines line [] = (if line = [] then [] else [rev line])"
| "split_lines line (c # cs) = (if \<not> line_end c then split_lines (c # line) cs
     else rev line # (case cs of d # ds \<Rightarrow> if c = CHR 0x0D \<and> d = CHR 0x0A then split_lines [] ds else split_lines [] cs | [] \<Rightarrow> []))"

definition journal_record :: "pyval option \<Rightarrow> document option" where
  "journal_record v = (case v of Some (PDict d) \<Rightarrow> if py_eq (get_or_none d ''v'') (PInt 1) \<and> is_str (get_or_none d ''kind'') then Some d else None | _ \<Rightarrow> None)"

definition read_journal :: "receipt_fs \<Rightarrow> string list \<Rightarrow> document \<Rightarrow> diag_exn + document list \<times> nat" where
  "read_journal fs directory receipt =
     (case artifact_file fs directory (case optional_text (get_or_none receipt ''events'') of Some n \<Rightarrow> n | None \<Rightarrow> ''events.jsonl'') of
        None \<Rightarrow> Inr ([], 0)
      | Some path \<Rightarrow> (case fs_read fs path of ReadFailed \<Rightarrow> Inl OtherFailed | Undecodable m \<Rightarrow> Inl (ValueRaised m)
          | ReadText t \<Rightarrow> (let found = map (\<lambda>l. journal_record (fs_json fs l)) (filter (\<lambda>l. str_strip l \<noteq> []) (split_lines [] t)) in
              Inr (List.map_filter id found, length (filter (\<lambda>r. r = None) found)))))"


section \<open>The projection of a receipt\<close>

definition record_time :: "string \<Rightarrow> document option \<Rightarrow> string" where
  "record_time now r = (case r of None \<Rightarrow> now | Some d \<Rightarrow> (case get_or_none d ''at'' of PStr s \<Rightarrow> s | _ \<Rightarrow> now))"

definition elapsed_ms :: "document option \<Rightarrow> int option" where
  "elapsed_ms r = (case r of None \<Rightarrow> None | Some d \<Rightarrow> int_value (get_or_none d ''elapsedMs''))"

definition first_of_list :: "'a list \<Rightarrow> 'a option" where
  "first_of_list xs = (case xs of [] \<Rightarrow> None | x # _ \<Rightarrow> Some x)"

definition generated_at :: "string \<Rightarrow> document list \<Rightarrow> string" where
  "generated_at now records = record_time now (first_of_list (rev records))"

definition last_of_kind :: "string \<Rightarrow> document list \<Rightarrow> document option" where
  "last_of_kind k records = find (\<lambda>r. get_or_none r ''kind'' = PStr k) (rev records)"

definition optional_member :: "string \<Rightarrow> pyval option \<Rightarrow> document" where
  "optional_member k v = (case v of None \<Rightarrow> [] | Some x \<Rightarrow> [(k, x)])"

definition receipt_status :: "document \<Rightarrow> string" where
  "receipt_status receipt = (case optional_text (get_or_none receipt ''status'') of Some s \<Rightarrow> s | None \<Rightarrow> [])"

definition strings_value :: "string list \<Rightarrow> pyval" where
  "strings_value ss = PList (map PStr ss)"

definition not_recorded :: "string \<Rightarrow> string" where
  "not_recorded what = what @ '': not recorded on the local receipt''"

text \<open>Each part comes with what it adds to the list of missing evidence.\<close>

definition local_identity :: "document \<Rightarrow> document \<times> string list" where
  "local_identity receipt = (let run = (case optional_text (get_or_none receipt ''runId'') of Some s \<Rightarrow> s | None \<Rightarrow> ''local'') in
     ([(''kind'', PStr ''local''), (''backend'', PStr (case optional_text (get_or_none receipt ''executionMode'') of Some s \<Rightarrow> s | None \<Rightarrow> ''local'')),
       (''targetKind'', PStr ''local''), (''workloadName'', PStr (case optional_text (get_or_none receipt ''entrypoint'') of Some s \<Rightarrow> s | None \<Rightarrow> run)),
       (''resourceRefs'', PList [])],
      [not_recorded ''identity.priority'', not_recorded ''identity.contractVersion'']))"

definition release_absent :: "string list" where
  "release_absent = map (\<lambda>n. ''release.'' @ n) [''runtime'', ''sourceRepository'', ''sourceRef'', ''dependencyManifest'', ''serverVersion'']"

definition local_release :: "document \<Rightarrow> document \<times> string list" where
  "local_release receipt = (let entrypoint = optional_text (get_or_none receipt ''entrypoint'') in
     ([(''state'', PStr (if entrypoint = None then ''unavailable'' else ''partial'')), (''processDefinitions'', PList []), (''missing'', strings_value release_absent)] @
       optional_member ''entrypoint'' (map_option PStr entrypoint), map not_recorded release_absent))"

definition canonical_status :: "string \<Rightarrow> string \<times> string" where
  "canonical_status status = (case map_of [(''succeeded'', (''Succeeded'', ''completed'')), (''failed'', (''Failed'', ''failed'')),
      (''setupFailed'', (''Failed'', ''failed'')), (''cancelled'', (''Cancelled'', ''cancelled''))] status of
     Some p \<Rightarrow> p | None \<Rightarrow> (if status = [] then ''unknown'' else status, ''unknown''))"

definition local_lifecycle :: "string \<Rightarrow> document \<Rightarrow> document list \<Rightarrow> document" where
  "local_lifecycle now receipt records = (let canonical = canonical_status (receipt_status receipt); terminal = last_of_kind ''terminal'' records in
     [(''status'', PStr (fst canonical)), (''phase'', PStr (snd canonical)),
      (''createdAt'', PStr (record_time now (first_of_list records))), (''updatedAt'', PStr (record_time now (first_of_list (rev records)))),
      (''timingSource'', PStr (if elapsed_ms (first_of_list records) \<noteq> None \<and> terminal \<noteq> None \<and> terminal \<noteq> Some [] then ''measured'' else ''inferred''))] @
     optional_member ''currentPhase'' (map_option PStr (optional_text (get_or_none receipt ''failedPhase''))) @
     (if terminal = None then [] else (''completedAt'', PStr (record_time now terminal)) # optional_member ''durationMs'' (map_option PInt (elapsed_ms terminal))))"

definition attempt_token :: "document list \<Rightarrow> string" where
  "attempt_token records = (case find (\<lambda>v. v \<noteq> PNone) (map (\<lambda>r. get_or_none r ''attempt'') records) of Some v \<Rightarrow> py_str v | None \<Rightarrow> ''local'')"

definition local_attempt :: "document list \<Rightarrow> document \<times> string list" where
  "local_attempt records = (let token = attempt_token records in
     ([(''number'', PInt (if str_isdigit token then int (digits_value token) else 1)),
       (''retry'', PDict [(''allowed'', PBool False), (''disabledReason'', PStr ''local receipt; the server retry route was not called''),
          (''requiresApproval'', PBool False),
          (''wouldRepeat'', PStr ''re-running the same local command repeats this attempt on this machine; no server retry is recorded'')])],
      if str_isdigit token then [] else [''journal attempt identity: '' @ token]))"

definition terminal_statuses :: "string list" where
  "terminal_statuses = [''succeeded'', ''failed'', ''setupFailed'', ''cancelled'']"

definition local_worker :: "document \<Rightarrow> document \<times> string list" where
  "local_worker receipt =
     ((if receipt_status receipt \<in> set terminal_statuses
       then [(''liveness'', PStr ''finished''), (''livenessReason'', PStr ''local receipt has no heartbeat; the run already reached a terminal status'')]
       else [(''liveness'', PStr ''unknown''), (''livenessReason'', PStr ''local receipt has no heartbeat and no terminal status'')]),
      [not_recorded ''worker.heartbeatIntervalSeconds'', not_recorded ''worker.heartbeatTimeoutSeconds''])"

definition local_recovery :: "string \<Rightarrow> string" where
  "local_recovery status = (if status = ''cancelled'' then ''the local run was cancelled; re-run the local command to repeat it''
     else ''fix the reported error and re-run the local command; this receipt cannot be retried on a server'')"

text \<open>\<open>isinstance(v, int)\<close> holds of a bool.\<close>

definition int_or_bool :: "pyval \<Rightarrow> pyval option" where
  "int_or_bool v = (case v of PInt _ \<Rightarrow> Some v | PBool _ \<Rightarrow> Some v | _ \<Rightarrow> None)"

definition receipt_error_message :: "document \<Rightarrow> string \<Rightarrow> string" where
  "receipt_error_message receipt status = (let m = text_member (doc_section receipt ''error'') ''message'' in
     redact_secrets [] (if m \<noteq> [] then m else if status = ''cancelled'' then ''local run cancelled'' else ''local run failed''))"

definition local_failure :: "document \<Rightarrow> document list \<Rightarrow> document option" where
  "local_failure receipt records = (let status = receipt_status receipt in
     if status \<notin> {''failed'', ''setupFailed'', ''cancelled''} then None
     else (let message = receipt_error_message receipt status in Some (
       [(''message'', PStr message),
        (''classification'', PStr (if str_contains ''timeout'' (str_lower message) then ''timeout'' else if status = ''cancelled'' then ''cancelled'' else ''execution_failed'')),
        (''recovery'', PStr (local_recovery status))] @
       optional_member ''phase'' (map_option PStr (optional_text (get_or_none receipt ''failedPhase''))) @
       optional_member ''stepOrdinal'' (case last_of_kind ''failure'' records of None \<Rightarrow> None | Some r \<Rightarrow> int_or_bool (get_or_none r ''seq'')) @
       optional_member ''nativeExitCode'' (map_option PInt (int_value (get_or_none receipt ''exitCode''))) @
       optional_member ''stderrExcerpt'' (if message = [] then None else Some (PStr message)))))"

definition local_step :: "string \<Rightarrow> string option \<Rightarrow> nat \<times> document \<Rightarrow> document option \<Rightarrow> document" where
  "local_step now failed indexed following = (case indexed of (i, r) \<Rightarrow>
     let phase = text_member r ''phase'' in
     [(''ordinal'', case int_or_bool (get_or_none r ''seq'') of Some v \<Rightarrow> v | None \<Rightarrow> PInt (int i)), (''phase'', PStr phase),
      (''status'', PStr (if Some phase = failed then ''failed'' else ''completed'')), (''startedAt'', PStr (record_time now (Some r))), (''message'', PStr phase)] @
     (case (elapsed_ms (Some r), elapsed_ms following) of
        (Some a, Some b) \<Rightarrow> [(''timingSource'', PStr ''measured''), (''durationMs'', PInt (b - a))]
      | _ \<Rightarrow> [(''timingSource'', PStr ''inferred'')]))"

definition local_steps :: "string \<Rightarrow> document list \<Rightarrow> document \<Rightarrow> pyval" where
  "local_steps now records receipt = (let phases = filter (\<lambda>r. get_or_none r ''kind'' = PStr ''phase'' \<and> is_str (get_or_none r ''phase'')) records;
       failed = optional_text (get_or_none receipt ''failedPhase'') in
     PList (map (\<lambda>i. PDict (local_step now failed (i, phases ! i) (if Suc i < length phases then Some (phases ! Suc i) else None))) [0..<length phases]))"

definition simple_kind_message :: "string \<Rightarrow> document \<Rightarrow> string option" where
  "simple_kind_message k r =
     (if k = ''terminal'' then Some (''terminal '' @ py_str (get_or_none r ''status''))
      else if k = ''truncated'' then Some (''truncated dropped='' @ py_str (get_or_none r ''dropped''))
      else if k = ''artifact'' then Some (''artifact '' @ (case get_or_none r ''artifact'' of PDict a \<Rightarrow> py_str (get_or_none a ''name'') | _ \<Rightarrow> ''artifact''))
      else if k = ''progress'' then Some (''progress '' @ py_str (get_or_none r ''percent'')) else None)"

definition failure_record_message :: "document \<Rightarrow> string" where
  "failure_record_message r = (case get_or_none r ''error'' of PDict e \<Rightarrow> (case get_or_none e ''message'' of PStr m \<Rightarrow> m | _ \<Rightarrow> ''failure'') | _ \<Rightarrow> ''failure'')"

definition record_message :: "document \<Rightarrow> string" where
  "record_message r = (let k = get_or_none r ''kind''; kt = py_str k in
     if kt = ''log'' \<and> is_str (get_or_none r ''message'') then text_member r ''message''
     else if kt = ''failure'' then failure_record_message r
     else (case simple_kind_message kt r of Some m \<Rightarrow> m
       | None \<Rightarrow> (case get_or_none r ''phase'' of PStr p \<Rightarrow> p | _ \<Rightarrow> kt)))"

definition event_from_record :: "string \<Rightarrow> document \<Rightarrow> document" where
  "event_from_record now r = (let k = (case get_or_none r ''kind'' of PStr (c # cs) \<Rightarrow> c # cs | v \<Rightarrow> if truthy v then py_str v else ''log'');
       level = (if k = ''failure'' \<or> (k = ''terminal'' \<and> get_or_none r ''status'' \<noteq> PStr ''succeeded'') then ''Error''
         else if k = ''truncated'' \<or> (k = ''log'' \<and> get_or_none r ''level'' = PStr ''warning'') then ''Warning'' else ''Info'');
       kept = List.map_filter (\<lambda>n. if get_or_none r n = PNone then None else Some (''honua.event.'' @ n, PStr (py_str (get_or_none r n)))) [''kind'', ''seq'', ''attempt'', ''elapsedMs''] in
     [(''timestamp'', PStr (record_time now (Some r))), (''level'', PStr level), (''message'', PStr (redact_secrets [] (record_message r)))] @
     optional_member ''phase'' (map_option PStr (optional_text (get_or_none r ''phase''))) @
     optional_member ''metadata'' (if kept = [] then None else Some (PDict kept)))"

definition local_events :: "string \<Rightarrow> document list \<times> nat \<times> string option \<times> string \<Rightarrow> nat \<Rightarrow> document \<times> string list" where
  "local_events now page limit = (case page of (selected, n, after, mode) \<Rightarrow>
     ([(''state'', PStr (if 0 < n \<or> selected \<noteq> [] then ''available'' else ''unavailable'')), (''items'', PList (map (\<lambda>r. PDict (event_from_record now r)) selected)),
       (''totalCount'', PInt (int n)), (''limit'', PInt (int limit)), (''mode'', PStr mode), (''truncated'', PBool (length selected < n))] @
      (if 0 < n then [(''firstCursor'', PStr ''start'')] else []) @ optional_member ''nextCursor'' (map_option PStr after),
      if length selected < n
      then [''events: '' @ nat_digits (length selected) @ '' of '' @ nat_digits n @ '' returned; use firstCursor to start paging and nextCursor to continue''] else []))"

definition one_artifact :: "receipt_fs \<Rightarrow> string list \<Rightarrow> document \<Rightarrow> document" where
  "one_artifact fs directory a = (let name = (case get_or_none a ''name'' of PStr s \<Rightarrow> s | _ \<Rightarrow> ''artifact'');
       relative = (case get_or_none a ''path'' of PStr s \<Rightarrow> s | _ \<Rightarrow> name) in
     [(''artifactId'', PStr (case get_or_none a ''sha256'' of PStr s \<Rightarrow> s | _ \<Rightarrow> name)),
      (''availability'', PStr (case artifact_file fs directory relative of None \<Rightarrow> ''Unavailable'' | Some _ \<Rightarrow> ''Available'')),
      (''label'', PStr name)] @ optional_member ''sizeBytes'' (map_option PInt (int_value (get_or_none a ''sizeBytes''))))"

definition local_artifacts :: "receipt_fs \<Rightarrow> string list \<Rightarrow> document \<Rightarrow> document \<times> string list" where
  "local_artifacts fs directory receipt =
     (let items = (case get_or_none receipt ''artifacts'' of PList xs \<Rightarrow> List.map_filter (\<lambda>x. case x of PDict a \<Rightarrow> Some (one_artifact fs directory a) | _ \<Rightarrow> None) xs | _ \<Rightarrow> []);
          available = length (filter (\<lambda>a. get_or_none a ''availability'' = PStr ''Available'') items); unavailable = length items - available in
      ([(''state'', PStr (if items = [] then ''none'' else if unavailable = 0 then ''complete'' else if 0 < available then ''partial'' else ''unavailable'')),
        (''items'', PList (map PDict items)), (''availableCount'', PInt (int available)), (''expiredCount'', PInt 0), (''unavailableCount'', PInt (int unavailable))],
       if 0 < unavailable then [''artifacts: '' @ nat_digits unavailable @ '' artifact reference(s) could not be resolved''] else []))"

definition local_links :: "document \<Rightarrow> document \<times> string list" where
  "local_links receipt = (let journal = PStr (case optional_text (get_or_none receipt ''events'') of Some n \<Rightarrow> n | None \<Rightarrow> ''events.jsonl'') in
     ([(''self'', PStr ''receipt.json''), (''logs'', journal), (''artifacts'', PStr ''artifacts''), (''steps'', journal)], [''links: local receipt has no admin job routes'']))"

definition journal_truncation :: "document \<Rightarrow> string list" where
  "journal_truncation receipt = (if get_or_none receipt ''eventsTruncated'' = PBool True
     then [''events: receipt eventsTruncated is true; '' @ str_of_int (required_count (get_or_none receipt ''eventsDropped'')) @ '' records were dropped by the journal cap''] else [])"

definition validate_events :: "int \<Rightarrow> diag_exn + int" where
  "validate_events events = (if events < 1 \<or> max_event_limit < events then Inl (ValueRaised ''events must be an integer between 1 and 500'') else Inr events)"

definition skipped_note :: "nat \<Rightarrow> string list" where
  "skipped_note skipped = (if skipped = 0 then [] else [nat_digits skipped @ '' journal lines were not honua.gp.events/v1 records and were not read as events''])"

text \<open>The document of a receipt whose records and page are known.\<close>

definition receipt_document ::
  "receipt_fs \<Rightarrow> string list \<Rightarrow> document \<Rightarrow> string \<Rightarrow> document list \<times> nat \<Rightarrow> nat \<Rightarrow> document list \<times> nat \<times> string option \<times> string \<Rightarrow> document" where
  "receipt_document fs directory receipt run_id journal limit page = (case journal of (records, skipped) \<Rightarrow>
     let now = fs_now fs; (identity, m1) = local_identity receipt; (release, m2) = local_release receipt; (attempt, n1) = local_attempt records;
         (worker, m3) = local_worker receipt; (events, t1) = local_events now page limit; (artifacts, m4) = local_artifacts fs directory receipt;
         (links, m5) = local_links receipt in
     [(''schema'', PStr schema_id), (''jobId'', PStr run_id), (''generatedAt'', PStr (generated_at now records)), (''view'', PStr ''owner''),
      (''identity'', PDict identity), (''release'', PDict release), (''lifecycle'', PDict (local_lifecycle now receipt records)), (''attempt'', PDict attempt),
      (''worker'', PDict worker), (''steps'', local_steps now records receipt), (''events'', PDict events), (''artifacts'', PDict artifacts),
      (''evidence'', PDict [(''missing'', strings_value (m1 @ m2 @ m3 @ m4 @ m5)), (''truncated'', strings_value (t1 @ journal_truncation receipt)),
         (''notes'', strings_value ([''local receipt; no server authorization view was consulted and no credentials were read''] @ skipped_note skipped @ n1))]),
      (''links'', PDict links)] @ optional_member ''failure'' (map_option PDict (local_failure receipt records)))"

definition local_document :: "receipt_fs \<Rightarrow> string list \<Rightarrow> int \<Rightarrow> string option \<Rightarrow> diag_exn + document" where
  "local_document fs path events cursor =
     bindE (receipt_directory fs path) (\<lambda>directory. bindE (read_json_object fs (directory @ [''receipt.json''])) (\<lambda>receipt.
     bindE (validate_events events) (\<lambda>limit. bindE (read_journal fs directory receipt) (\<lambda>journal.
     bindE (select_records (fst journal) (nat limit) cursor) (\<lambda>page.
     case optional_text (get_or_none receipt ''runId'') of None \<Rightarrow> Inl (UsageError ''local receipt is missing runId'')
     | Some run_id \<Rightarrow> Inr (receipt_document fs directory receipt run_id journal (nat limit) page))))))"

definition load_local_receipt :: "receipt_fs \<Rightarrow> string list \<Rightarrow> int \<Rightarrow> string option \<Rightarrow> diag_exn + document" where
  "load_local_receipt fs path events cursor = bindE (local_document fs path events cursor) (\<lambda>d. parse_job_diagnostics (PDict d))"


section \<open>Pages of events\<close>

definition remember_cursor :: "string option \<Rightarrow> string list \<Rightarrow> diag_exn + string list" where
  "remember_cursor cursor seen = (case cursor of None \<Rightarrow> Inr seen
     | Some c \<Rightarrow> if c \<in> set seen then Inl (StreamInterrupted ''event stream repeated a cursor instead of ending'') else Inr (c # seen))"

text \<open>\<open>iter_event_pages\<close> with the consumer of its pages: \<open>emit\<close> gives what is written for a page. The value is the pages, what
  was written, the exception that ended the stream, if any, and the world.\<close>

partial_function (option) page_walk ::
  "(string option \<Rightarrow> 'w \<Rightarrow> (diag_exn + document) \<times> 'w) \<Rightarrow> (document \<Rightarrow> diag_exn + string list) \<Rightarrow> string option \<Rightarrow> string list \<Rightarrow> 'w
    \<Rightarrow> (document list \<times> string list \<times> diag_exn option \<times> 'w) option" where
  "page_walk fetch emit cursor seen w = (case remember_cursor cursor seen of Inl e \<Rightarrow> Some ([], [], Some e, w)
   | Inr seen' \<Rightarrow> (case fetch cursor w of (Inl e, w1) \<Rightarrow> Some ([], [], Some e, w1)
      | (Inr page, w1) \<Rightarrow> (case emit page of Inl e \<Rightarrow> Some ([page], [], Some e, w1)
         | Inr out \<Rightarrow> (case next_cursor page of None \<Rightarrow> Some ([page], out, None, w1)
            | Some c \<Rightarrow> Option.bind (page_walk fetch emit (Some c) seen' w1) (\<lambda>(pages, outs, e, w2). Some (page # pages, out @ outs, e, w2))))))"

definition local_fetch :: "receipt_fs \<Rightarrow> string list \<Rightarrow> int \<Rightarrow> string option \<Rightarrow> 'w \<Rightarrow> (diag_exn + document) \<times> 'w" where
  "local_fetch fs directory events cursor w = (load_local_receipt fs directory events cursor, w)"

definition iter_local_event_pages ::
  "receipt_fs \<Rightarrow> string list \<Rightarrow> int \<Rightarrow> string option \<Rightarrow> (document \<Rightarrow> diag_exn + string list) \<Rightarrow> 'w
    \<Rightarrow> (document list \<times> string list \<times> diag_exn option \<times> 'w) option" where
  "iter_local_event_pages fs path events cursor emit w = (case receipt_directory fs path of Inl e \<Rightarrow> Some ([], [], Some e, w)
     | Inr directory \<Rightarrow> page_walk (local_fetch fs directory events) emit cursor [] w)"

text \<open>A client is the request it makes on a path with parameters.\<close>

type_synonym 'w diag_client = "string \<Rightarrow> document \<Rightarrow> 'w \<Rightarrow> (diag_exn + pyval) \<times> 'w"

definition diagnostics_path :: "string \<Rightarrow> diag_exn + string" where
  "diagnostics_path job_id = (if str_strip job_id = [] then Inl (ValueRaised ''job_id is required'')
     else Inr (''/api/v1/admin/jobs/'' @ encode_path_segment job_id @ ''/diagnostics''))"

definition diagnostics_params :: "int \<Rightarrow> string option \<Rightarrow> diag_exn + document" where
  "diagnostics_params events cursor = bindE (validate_events events) (\<lambda>n. case cursor of None \<Rightarrow> Inr [(''events'', PInt n)]
     | Some c \<Rightarrow> if c = [] then Inl (ValueRaised ''event_cursor must be a non-empty string'') else Inr [(''events'', PInt n), (''eventCursor'', PStr c)])"

definition gp_diagnostics :: "'w diag_client \<Rightarrow> string \<Rightarrow> int \<Rightarrow> string option \<Rightarrow> 'w \<Rightarrow> (diag_exn + document) \<times> 'w" where
  "gp_diagnostics remote job_id events cursor w = (case bindE (diagnostics_path job_id) (\<lambda>p. bindE (diagnostics_params events cursor) (\<lambda>ps. Inr (p, ps))) of
     Inl e \<Rightarrow> (Inl e, w)
   | Inr (path, params) \<Rightarrow> (case remote path params w of (r, w1) \<Rightarrow> (bindE r parse_job_diagnostics, w1)))"

definition iter_event_pages ::
  "'w diag_client \<Rightarrow> string \<Rightarrow> int \<Rightarrow> string option \<Rightarrow> (document \<Rightarrow> diag_exn + string list) \<Rightarrow> 'w \<Rightarrow> (document list \<times> string list \<times> diag_exn option \<times> 'w) option" where
  "iter_event_pages remote job_id events cursor emit w = page_walk (gp_diagnostics remote job_id events) emit cursor [] w"

section \<open>The command\<close>

record gp_args =
  ga_inspect :: bool
  ga_job :: string
  ga_json :: bool
  ga_events :: int
  ga_event_cursor :: "string option"
  ga_base_url :: "string option"
  ga_api_key :: "string option"

text \<open>Indented JSON, as \<open>json.dump(document, indent=2)\<close> writes it.\<close>

definition json_newline :: "nat \<Rightarrow> string" where
  "json_newline k = newline @ replicate (2 * k) (CHR '' '')"

fun json_pretty :: "nat \<Rightarrow> pyval \<Rightarrow> py_error + string" where
  "json_pretty k (PList xs) = (if xs = [] then Inr ''[]'' else bindE (mapE (json_pretty (Suc k)) xs)
     (\<lambda>ts. Inr (''['' @ json_newline (Suc k) @ str_join ('','' @ json_newline (Suc k)) ts @ json_newline k @ '']'')))"
| "json_pretty k (PTuple xs) = (if xs = [] then Inr ''[]'' else bindE (mapE (json_pretty (Suc k)) xs)
     (\<lambda>ts. Inr (''['' @ json_newline (Suc k) @ str_join ('','' @ json_newline (Suc k)) ts @ json_newline k @ '']'')))"
| "json_pretty k (PDict d) = (if d = [] then Inr ''{}'' else bindE (mapE (\<lambda>(n, v). bindE (json_pretty (Suc k) v) (\<lambda>t. Inr (json_string n @ '': '' @ t))) d)
     (\<lambda>ts. Inr (''{'' @ json_newline (Suc k) @ str_join ('','' @ json_newline (Suc k)) ts @ json_newline k @ ''}'')))"
| "json_pretty k v = json_dumps v"

definition json_output :: "py_error + string \<Rightarrow> diag_exn + string list" where
  "json_output m = (case m of Inl _ \<Rightarrow> Inl OtherFailed | Inr t \<Rightarrow> Inr [t @ newline])"

definition write_inspect :: "document \<Rightarrow> bool \<Rightarrow> string list \<Rightarrow> diag_exn + string list" where
  "write_inspect page as_json secrets = (if as_json then json_output (json_pretty 0 (redact_json secrets (PDict page)))
     else Inr [redact_secrets secrets (format_job_diagnostics page)])"

definition write_log_page :: "document \<Rightarrow> string list \<Rightarrow> diag_exn + string list" where
  "write_log_page page secrets = json_output (json_dumps (redact_json secrets (PDict [(''jobId'', PStr (text_member page ''jobId'')),
     (''events'', get_or_none page ''events''), (''evidence'', get_or_none page ''evidence'')])))"

definition write_log_lines :: "document \<Rightarrow> string list \<Rightarrow> diag_exn + string list" where
  "write_log_lines page secrets = Inr (map (\<lambda>e. redact_secrets secrets (format_event_line e) @ newline) (event_items page))"

definition cli_secrets :: "(string \<Rightarrow> string option) \<Rightarrow> gp_args \<Rightarrow> string list" where
  "cli_secrets environ args = filter (\<lambda>s. s \<noteq> []) ((case ga_api_key args of None \<Rightarrow> [] | Some k \<Rightarrow> [k]) @ (case environ ''HONUA_API_KEY'' of None \<Rightarrow> [] | Some k \<Rightarrow> [k]))"

definition require_base_url :: "(string \<Rightarrow> string option) \<Rightarrow> gp_args \<Rightarrow> diag_exn + unit" where
  "require_base_url environ args = (if (case ga_base_url args of Some (_ # _) \<Rightarrow> True | _ \<Rightarrow> False) \<or> (case environ ''HONUA_BASE_URL'' of Some (_ # _) \<Rightarrow> True | _ \<Rightarrow> False)
     then Inr () else Inl (UsageError ''a base URL is required (pass --base-url or set HONUA_BASE_URL)''))"

record 'w diag_env =
  de_fs :: receipt_fs
  de_environ :: "string \<Rightarrow> string option"
  de_client :: "gp_args \<Rightarrow> 'w \<Rightarrow> (diag_exn + 'w diag_client) \<times> 'w"

definition open_client :: "'w diag_env \<Rightarrow> gp_args \<Rightarrow> 'w \<Rightarrow> (diag_exn + 'w diag_client) \<times> 'w" where
  "open_client env args w = (case require_base_url (de_environ env) args of Inl e \<Rightarrow> (Inl e, w) | Inr _ \<Rightarrow> de_client env args w)"

definition inspect_page :: "'w diag_env \<Rightarrow> gp_args \<Rightarrow> string list option \<Rightarrow> 'w \<Rightarrow> (diag_exn + document) \<times> 'w" where
  "inspect_page env args local' w = (case local' of
     Some d \<Rightarrow> (load_local_receipt (de_fs env) d (ga_events args) (ga_event_cursor args), w)
   | None \<Rightarrow> (case open_client env args w of (Inl e, w1) \<Rightarrow> (Inl e, w1)
      | (Inr remote, w1) \<Rightarrow> gp_diagnostics remote (ga_job args) (ga_events args) (ga_event_cursor args) w1))"

definition log_pages :: "'w diag_env \<Rightarrow> gp_args \<Rightarrow> string list option \<Rightarrow> (document \<Rightarrow> diag_exn + string list) \<Rightarrow> 'w
    \<Rightarrow> (document list \<times> string list \<times> diag_exn option \<times> 'w) option" where
  "log_pages env args local' emit w = (let cursor = (case ga_event_cursor args of None \<Rightarrow> Some ''start'' | c \<Rightarrow> c) in case local' of
     Some d \<Rightarrow> iter_local_event_pages (de_fs env) d (ga_events args) cursor emit w
   | None \<Rightarrow> (case open_client env args w of (Inl e, w1) \<Rightarrow> Some ([], [], Some e, w1)
      | (Inr remote, w1) \<Rightarrow> iter_event_pages remote (ga_job args) (ga_events args) cursor emit w1))"

text \<open>A run: the exit code, what went to the standard output and to the error output.\<close>

definition stream_logs :: "'w diag_env \<Rightarrow> gp_args \<Rightarrow> string list option \<Rightarrow> string list \<Rightarrow> 'w \<Rightarrow> (int \<times> string list \<times> string list \<times> 'w) option" where
  "stream_logs env args local' secrets w =
     Option.bind (log_pages env args local' (\<lambda>page. if ga_json args then write_log_page page secrets else write_log_lines page secrets) w)
       (\<lambda>(pages, outs, e, w1). Some (case e of
          Some x \<Rightarrow> (case diagnostics_failure x (pages \<noteq> []) secrets of (code, line) \<Rightarrow> (code, outs, [line], w1))
        | None \<Rightarrow> (exit_ok, outs @ (if ga_json args then [] else map (\<lambda>l. redact_secrets secrets l @ newline) (log_disclosure_lines pages)), [], w1)))"

definition run_gp_diagnostics :: "'w diag_env \<Rightarrow> gp_args \<Rightarrow> 'w \<Rightarrow> (int \<times> string list \<times> string list \<times> 'w) option" where
  "run_gp_diagnostics env args w = (let secrets = cli_secrets (de_environ env) args;
       failed = (\<lambda>e w1. case diagnostics_failure e False secrets of (code, line) \<Rightarrow> Some (code, [], [line], w1)) in
     case validate_events (ga_events args) of Inl (ValueRaised m) \<Rightarrow> Some (exit_usage, [], [error_line m], w) | Inl e \<Rightarrow> failed e w
   | Inr _ \<Rightarrow> (case local_receipt_directory (de_fs env) (ga_job args) of Inl e \<Rightarrow> failed e w
      | Inr local' \<Rightarrow> if ga_inspect args
          then (case inspect_page env args local' w of (Inl e, w1) \<Rightarrow> failed e w1
            | (Inr page, w1) \<Rightarrow> (case write_inspect page (ga_json args) secrets of Inl e \<Rightarrow> failed e w1 | Inr outs \<Rightarrow> Some (exit_ok, outs, [], w1)))
          else stream_logs env args local' secrets w))"

section \<open>What redaction leaves\<close>

text \<open>A secret free of brackets that is no part of the mark is not made by putting the mark in place of something.\<close>

definition plain_secret :: "string \<Rightarrow> bool" where
  "plain_secret s \<longleftrightarrow> s \<noteq> [] \<and> CHR ''['' \<notin> set s \<and> CHR '']'' \<notin> set s \<and> \<not> str_contains s ''REDACTED''"

lemma contains_split: "c \<notin> set x \<Longrightarrow> str_contains x (u @ c # v) \<Longrightarrow> str_contains x u \<or> str_contains x v"
proof -
  assume c: "c \<notin> set x" and "str_contains x (u @ c # v)"
  then obtain a b where ab: "u @ c # v = a @ x @ b" by (auto simp: str_contains_iff)
  then obtain us where "u = a @ us \<and> us @ c # v = x @ b \<or> u @ us = a \<and> c # v = us @ x @ b"
    by (auto simp: append_eq_append_conv2)
  then show ?thesis
  proof
    assume h: "u = a @ us \<and> us @ c # v = x @ b"
    then obtain vs where "us = x @ vs \<and> vs @ c # v = b \<or> us @ vs = x \<and> c # v = vs @ b"
      by (auto simp: append_eq_append_conv2)
    then show ?thesis
    proof
      assume "us @ vs = x \<and> c # v = vs @ b"
      then show ?thesis using c h by (cases vs) (auto simp: str_contains_iff intro: exI [of _ "[]"])
    qed (use h in \<open>auto simp: str_contains_iff\<close>)
  next
    assume h: "u @ us = a \<and> c # v = us @ x @ b"
    then show ?thesis
    proof (cases us)
      case Nil
      then show ?thesis using h c by (cases x) (auto simp: str_contains_iff intro: exI [of _ "[]"])
    qed (auto simp: str_contains_iff)
  qed
qed

lemma contains_mark: "plain_secret x \<Longrightarrow> str_contains x (redacted_mark @ t) \<Longrightarrow> str_contains x t"
proof -
  assume p: "plain_secret x" and "str_contains x (redacted_mark @ t)"
  then have "str_contains x ([] @ CHR ''['' # ''REDACTED'' @ CHR '']'' # t)" by (simp add: redacted_mark_def)
  then have "str_contains x [] \<or> str_contains x (''REDACTED'' @ CHR '']'' # t)"
    using p by (intro contains_split) (auto simp: plain_secret_def)
  moreover have "\<not> str_contains x []" using p by (auto simp: plain_secret_def str_contains_iff)
  ultimately have "str_contains x ''REDACTED'' \<or> str_contains x t"
    using p by (metis contains_split plain_secret_def)
  then show ?thesis using p by (simp add: plain_secret_def)
qed

text \<open>Substitutions that put the mark, alone, in place of their matches.\<close>

definition marking :: "(char option \<Rightarrow> string \<Rightarrow> (string \<times> nat) option) \<Rightarrow> bool" where
  "marking m \<longleftrightarrow> (\<forall>prev s out n. m prev s = Some (out, n) \<longrightarrow> out = redacted_mark)"

lemma scan_prefix:
  assumes "marking m" "CHR ''['' \<notin> set x" "scan_sub m prev 0 s = x @ t"
  shows "\<exists>r. s = x @ r"
  using assms(2,3)
proof (induction x arbitrary: prev s)
  case (Cons a x)
  then obtain c cs where s: "s = c # cs" by (cases s) auto
  show ?case
  proof (cases "\<exists>out n. m prev (c # cs) = Some (out, Suc n)")
    case True
    then obtain out n where o: "m prev (c # cs) = Some (out, Suc n)" by blast
    then have "out = redacted_mark" using assms(1) unfolding marking_def by blast
    with o Cons.prems s show ?thesis by (simp add: redacted_mark_def)
  next
    case False
    then have "scan_sub m prev 0 s = c # scan_sub m (Some c) 0 cs" using s by (auto split: option.splits prod.splits nat.splits)
    then have "c = a" "scan_sub m (Some c) 0 cs = x @ t" using Cons.prems by auto
    moreover from Cons.IH [OF _ this(2)] Cons.prems obtain r where "cs = x @ r" by auto
    ultimately show ?thesis using s by simp
  qed
qed simp

lemma contains_Cons: "str_contains x (c # s) \<longleftrightarrow> (\<exists>r. c # s = x @ r) \<or> str_contains x s"
  unfolding str_contains_iff by (metis append_Cons append_Nil append_eq_Cons_conv)

lemma scan_match: "m prev (c # cs) = Some (out, Suc n) \<Longrightarrow> scan_sub m prev 0 (c # cs) = out @ scan_sub m (Some c) n cs"
  by simp

lemma scan_no_match: "\<nexists>out n. m prev (c # cs) = Some (out, Suc n) \<Longrightarrow> scan_sub m prev 0 (c # cs) = c # scan_sub m (Some c) 0 cs"
  by (auto split: option.splits prod.splits nat.splits)

lemma scan_contains:
  assumes "marking m" "plain_secret x" "str_contains x (scan_sub m prev skip s)"
  shows "str_contains x s"
  using assms(3)
proof (induction s arbitrary: prev skip)
  case (Cons c cs)
  show ?case
  proof (cases skip)
    case (Suc k)
    then show ?thesis using Cons by (auto simp: contains_Cons)
  next
    case 0
    show ?thesis
    proof (cases "\<exists>out n. m prev (c # cs) = Some (out, Suc n)")
      case True
      then obtain out n where o: "m prev (c # cs) = Some (out, Suc n)" by blast
      then have "out = redacted_mark" using assms(1) unfolding marking_def by blast
      then have "str_contains x (redacted_mark @ scan_sub m (Some c) n cs)" using Cons.prems scan_match [where m = m, OF o] 0 by simp
      from Cons.IH [OF contains_mark [OF assms(2) this]] show ?thesis by (simp add: contains_Cons)
    next
      case False
      note n = scan_no_match [where m = m, OF False]
      have "str_contains x (c # scan_sub m (Some c) 0 cs)" using Cons.prems n 0 by simp
      then consider r where "c # scan_sub m (Some c) 0 cs = x @ r" | "str_contains x (scan_sub m (Some c) 0 cs)"
        unfolding contains_Cons by blast
      then show ?thesis
      proof cases
        case 1
        have "\<exists>r. c # cs = x @ r" by (rule scan_prefix [OF assms(1)]) (use assms(2) n 1 in \<open>auto simp: plain_secret_def\<close>)
        then show ?thesis unfolding contains_Cons by blast
      next
        case 2
        from Cons.IH [OF this] show ?thesis by (simp add: contains_Cons)
      qed
    qed
  qed
qed simp

lemma marking_replace: "marking (\<lambda>_ s. if str_startswith s old then Some (redacted_mark, length old) else None)"
  by (auto simp: marking_def split: if_splits)

lemma replaced_contains: "plain_secret x \<Longrightarrow> str_contains x (str_replace old redacted_mark s) \<Longrightarrow> str_contains x s"
  unfolding str_replace_def by (rule scan_contains [OF marking_replace])

lemma replaced_absent:
  assumes "plain_secret x"
  shows "\<not> str_contains x (str_replace x redacted_mark s)"
proof -
  let ?m = "\<lambda>_ s. if str_startswith s x then Some (redacted_mark, length x) else None"
  have "\<not> str_contains x (scan_sub ?m prev skip s)" for prev skip
  proof (induction s arbitrary: prev skip)
    case Nil
    then show ?case using assms by (auto simp: plain_secret_def str_contains_iff)
  next
    case (Cons c cs)
    show ?case
    proof (cases skip)
      case 0
      show ?thesis
      proof (cases "str_startswith (c # cs) x")
        case True
        obtain n where "length x = Suc n" using assms by (cases x) (auto simp: plain_secret_def)
        then have "scan_sub ?m prev 0 (c # cs) = redacted_mark @ scan_sub ?m (Some c) n cs" using True by simp
        then show ?thesis using contains_mark [OF assms] Cons.IH 0 by metis
      next
        case False
        then have n: "scan_sub ?m prev 0 (c # cs) = c # scan_sub ?m (Some c) 0 cs" by simp
        have "\<nexists>r. c # scan_sub ?m (Some c) 0 cs = x @ r"
        proof
          assume "\<exists>r. c # scan_sub ?m (Some c) 0 cs = x @ r"
          then have "\<exists>r. c # cs = x @ r" unfolding n [symmetric]
            using scan_prefix [OF marking_replace, of x x prev "c # cs"] assms by (auto simp: plain_secret_def)
          then show False using False by (simp add: str_startswith_iff)
        qed
        then show ?thesis unfolding 0 n contains_Cons using Cons.IH by blast
      qed
    qed (use Cons.IH in simp)
  qed
  then show ?thesis by (simp add: str_replace_def)
qed

lemma mark_not_plain: "\<not> plain_secret redacted_mark"
  by (simp add: plain_secret_def redacted_mark_def)

text \<open>Whatever the text, a secret given to \<open>redact_secrets\<close> does not occur in what it
  returns - not as it was, and not put together by the replacement of another secret. The secret has no brackets and
  is no part of the word the mark is made of.\<close>

lemma redacted_absent:
  assumes "x \<in> set secrets" "plain_secret x"
  shows "\<not> str_contains x (redact_secrets secrets t)"
proof -
  let ?f = "\<lambda>secret s. if secret \<noteq> [] \<and> secret \<noteq> redacted_mark then str_replace secret redacted_mark s else s"
  have keep: "\<not> str_contains x (fold ?f ss s)" if "\<not> str_contains x s" for ss s
    using that replaced_contains [OF assms(2)] by (induction ss arbitrary: s) auto
  obtain as bs where ss: "secrets = as @ x # bs" using assms(1) by (meson split_list)
  have "x \<noteq> []" "x \<noteq> redacted_mark" using assms(2) mark_not_plain by (auto simp: plain_secret_def)
  then show ?thesis using keep [OF replaced_absent [OF assms(2)]] by (simp add: redact_secrets_def ss)
qed

text \<open>What the patterns do not see: a longer name, a value that starts with a scheme's name, a quoted name.\<close>

lemma compound_names_kept: "redact_secrets [] ''client_secret=abc'' = ''client_secret=abc''"
  by code_simp

lemma scheme_like_values_kept: "redact_secrets [] ''token=basic-abc'' = ''token=basic-abc''"
  by code_simp

lemma quoted_names_kept: "redact_secrets [] ([CHR 0x22] @ ''token'' @ [CHR 0x22] @ '': abc'') = [CHR 0x22] @ ''token'' @ [CHR 0x22] @ '': abc''"
  by code_simp

section \<open>Base64 read back\<close>

lemma b64_data_char [simp]: "b64_data (b64_char n)"
proof -
  have "n mod 64 < length b64_alphabet" by (simp add: b64_alphabet_def)
  then show ?thesis unfolding b64_data_def b64_char_def by (rule nth_mem)
qed

lemma b64_shape: "\<exists>core k. b64encode bs = core @ replicate k (CHR ''='') \<and> list_all b64_data core \<and> k \<le> 2 \<and> 4 dvd length core + k"
proof (induction bs rule: b64encode.induct)
  case (4 a b c bs)
  then obtain core k where "b64encode bs = core @ replicate k (CHR ''='')" "list_all b64_data core" "k \<le> 2" "4 dvd length core + k" by blast
  then show ?case
    by (intro exI [of _ "take 4 (b64encode (a # b # c # bs)) @ core"] exI [of _ k]) (simp add: Let_def, presburger)
next
  case 1
  then show ?case by (intro exI [of _ "[]"] exI [of _ 0]) simp
next
  case (2 a)
  let ?n = "unat a * 16"
  show ?case by (intro exI [of _ "[b64_char (?n div 64), b64_char ?n]"] exI [of _ 2]) (simp add: Let_def numeral_2_eq_2, presburger)
next
  case (3 a b)
  let ?n = "(unat a * 256 + unat b) * 4"
  show ?case by (intro exI [of _ "[b64_char (?n div 4096), b64_char (?n div 64), b64_char ?n]"] exI [of _ 1]) (simp add: Let_def, presburger)
qed

lemma digit_join:
  fixes q :: nat
  assumes "b * a = c" "q div b = q'" "q mod b = r"
  shows "q' mod a * b + r = q mod c"
  unfolding assms(1) [symmetric] assms(2,3) [symmetric] by (subst mod_mult2_eq) (simp only: mult.commute)

lemma mod_part: "b * a = c \<Longrightarrow> 0 < b \<Longrightarrow> m mod c div b = m div b mod (a :: nat)"
  using mod_mult2_eq [of m b a] by auto

lemma sextet_bytes:
  fixes m :: nat
  shows "m div 64 mod 64 * 4 + m mod 64 div 16 = m div 16 mod 256"
    "m div 64 mod 64 mod 16 * 16 + m mod 64 div 4 = m div 4 mod 256"
    "m div 64 mod 64 mod 4 * 64 + m mod 64 = m mod 256"
proof -
  have d: "m div 16 div 4 = m div 64" "m div 4 div 16 = m div 64" by (simp_all add: div_mult2_eq [symmetric])
  have r: "m mod 64 div 16 = m div 16 mod 4" "m mod 64 div 4 = m div 4 mod 16" by (rule mod_part; simp)+
  show "m div 64 mod 64 * 4 + m mod 64 div 16 = m div 16 mod 256" by (rule digit_join [OF _ d(1) r(1) [symmetric]]) simp
  have e: "m div 64 mod 64 mod 16 = m div 64 mod 16" "m div 64 mod 64 mod 4 = m div 64 mod 4"
    by (rule mod_mod_cancel, simp)+
  show "m div 64 mod 64 mod 16 * 16 + m mod 64 div 4 = m div 4 mod 256"
    unfolding e by (rule digit_join [OF _ d(2) r(2) [symmetric]]) simp
  show "m div 64 mod 64 mod 4 * 64 + m mod 64 = m mod 256"
    unfolding e by (rule digit_join [OF _ refl refl]) simp
qed

lemma byte_mod: "(word_of_nat (m mod 256) :: 8 word) = word_of_nat m"
  by (simp add: word_of_nat_eq_iff take_bit_eq_mod)

lemma lenient_steps:
  "b64_lenient 0 l p (b64_char u # r) = b64_lenient (Suc 0) (u mod 64) 0 r"
  "b64_lenient (Suc 0) l p (b64_char u # r) = map_option ((#) (word_of_nat (l * 4 + u mod 64 div 16))) (b64_lenient 2 (u mod 64 mod 16) 0 r)"
  "b64_lenient 2 l p (b64_char u # r) = map_option ((#) (word_of_nat (l * 16 + u mod 64 div 4))) (b64_lenient 3 (u mod 64 mod 4) 0 r)"
  "b64_lenient 3 l p (b64_char u # r) = map_option ((#) (word_of_nat (l * 64 + u mod 64))) (b64_lenient 0 0 0 r)"
  by (simp_all add: Let_def del: of_nat_add of_nat_mult of_nat_numeral)

lemma lenient_pads: "b64_lenient 2 l 0 ''=='' = Some []" "b64_lenient 3 l 0 ''='' = Some []"
  by simp_all

lemma last_byte: "(word_of_nat (m * 256 + unat b) :: 8 word) = b"
  using unat_byte [of b] by (intro word_of_byte) simp

lemma lenient_encode: "b64_lenient 0 0 0 (b64encode bs) = Some bs"
proof (induction bs rule: b64encode.induct)
  case (2 a)
  show ?case
    by (simp only: b64encode.simps Let_def lenient_steps lenient_pads sextet_bytes [of "unat a * 16"] byte_mod option.map nonzero_mult_div_cancel_right) simp
next
  case (3 a b)
  let ?n = "(unat a * 256 + unat b) * 4"
  have m: "?n div 4096 = ?n div 64 div 64" by (simp only: div_mult2_eq [symmetric]) simp
  have d: "?n div 64 div 16 = unat a" "?n div 4 = unat a * 256 + unat b"
    using unat_byte [of b] by (simp_all add: div_mult2_eq [symmetric])
  show ?case
    by (simp only: b64encode.simps Let_def m lenient_steps lenient_pads sextet_bytes [of "?n div 64"] sextet_bytes [of ?n] byte_mod option.map d last_byte) simp
next
  case (4 a b c bs)
  let ?n = "(unat a * 256 + unat b) * 256 + unat c"
  have m: "?n div 262144 = ?n div 64 div 64 div 64" "?n div 4096 = ?n div 64 div 64" by (simp_all only: div_mult2_eq [symmetric]) simp_all
  have d: "?n div 64 div 64 div 16 = unat a" "?n div 64 div 4 = unat a * 256 + unat b"
    using unat_byte [of b] unat_byte [of c] by (simp_all add: div_mult2_eq [symmetric])
  have "b64_lenient 0 0 0 (b64encode bs) = Some bs" by (rule 4 [OF refl])
  then show ?case
    by (simp only: b64encode.simps Let_def append_Cons append_Nil m lenient_steps sextet_bytes [of "?n div 64 div 64"] sextet_bytes [of "?n div 64"] sextet_bytes [of ?n] byte_mod option.map d last_byte)
       simp
qed simp

section \<open>Cursors read back\<close>

lemma index_data: "b64_data c \<Longrightarrow> c \<noteq> CHR ''='' \<and> c \<noteq> CHR ''-'' \<and> c \<noteq> CHR ''_''"
  by (auto simp: b64_data_def b64_alphabet_def)

lemma safe_and_back: "list_all b64_data core \<Longrightarrow>
    str_replace_char (CHR ''_'') (CHR ''/'') (str_replace_char (CHR ''-'') (CHR ''+'')
      (str_replace_char (CHR ''/'') (CHR ''_'') (str_replace_char (CHR ''+'') (CHR ''-'') core))) = core"
  by (induction core) (auto simp: str_replace_char_def dest: index_data)

lemma pads_stripped: "list_all (\<lambda>c. c \<noteq> CHR ''='') s \<Longrightarrow> str_rstrip_chars {CHR ''=''} (s @ replicate k (CHR ''='')) = s"
proof -
  assume "list_all (\<lambda>c. c \<noteq> CHR ''='') s"
  then have "dropWhile (\<lambda>c. c \<in> {CHR ''=''}) (rev s) = rev s"
    by (cases s rule: rev_cases) (auto simp: list_all_iff)
  moreover have "dropWhile (\<lambda>c. c \<in> {CHR ''=''}) (replicate k (CHR ''='') @ rev s) = dropWhile (\<lambda>c. c \<in> {CHR ''=''}) (rev s)"
    by (induction k) auto
  ultimately show ?thesis by (simp add: str_rstrip_chars_def)
qed

lemma ascii_text: "list_all (\<lambda>c. (of_char c :: nat) < 128) s \<Longrightarrow> map (\<lambda>b. char_of (unat b)) (ascii_bytes s) = s \<and> \<not> list_ex (\<lambda>b. 128 \<le> b) (ascii_bytes s)"
  by (induction s) (auto simp: ascii_bytes_def unat_of_nat word_le_nat_alt)

lemma pad_count: "k \<le> 2 \<Longrightarrow> 4 dvd (l :: nat) + k \<Longrightarrow> (4 - l mod 4) mod 4 = k"
proof -
  assume a: "k \<le> 2" "4 dvd l + k"
  obtain r where r: "l mod 4 = r" "r < 4" by simp
  have "(r + k) mod 4 = 0" using a(2) unfolding r(1) [symmetric] by (simp add: mod_add_left_eq dvd_eq_mod_eq_0)
  moreover have "r = 0 \<or> r = 1 \<or> r = 2 \<or> r = 3" "k = 0 \<or> k = 1 \<or> k = 2" using r(2) a(1) by linarith+
  ultimately show ?thesis unfolding r(1) by (auto; presburger)
qed

lemma cursor_read_back: "decode_cursor (encode_cursor n) = Inr n"
proof -
  let ?t = "''v1:'' @ nat_digits n"
  obtain core k where e: "b64encode (ascii_bytes ?t) = core @ replicate k (CHR ''='')" "list_all b64_data core" "k \<le> 2" "4 dvd length core + k"
    using b64_shape by blast
  let ?safe = "str_replace_char (CHR ''/'') (CHR ''_'') (str_replace_char (CHR ''+'') (CHR ''-'') core)"
  have "list_all (\<lambda>c. c \<noteq> CHR ''='') ?safe" using e(2) by (auto simp: list_all_iff str_replace_char_def dest: index_data)
  then have s: "encode_cursor n = ?safe"
    unfolding encode_cursor_def e(1) using pads_stripped [of ?safe k] by (simp add: str_replace_char_def)
  have len: "length ?safe = length core" by (simp add: str_replace_char_def)
  have k: "(4 - length core mod 4) mod 4 = k" by (rule pad_count [OF e(3,4)])
  have undone: "str_replace_char (CHR ''_'') (CHR ''/'') (str_replace_char (CHR ''-'') (CHR ''+'') (?safe @ replicate k (CHR ''=''))) = core @ replicate k (CHR ''='')"
    using safe_and_back [OF e(2)] by (simp add: str_replace_char_def)
  have "list_all (\<lambda>c. (of_char c :: nat) < 128) ?t"
    using nat_digits_isdigit [of n] by (auto simp: list_all_iff char_is_digit_def Let_def)
  note t = ascii_text [OF this]
  have colon: "str_split1 (CHR '':'') ?t = [''v1'', nat_digits n]"
    by (simp add: str_split1_def)
  have bytes: "\<not> list_ex (\<lambda>b. 128 \<le> b) (ascii_bytes ?t)" and chars: "map (\<lambda>b. char_of (unat b)) (ascii_bytes ?t) = ?t"
    using t by blast+
  have "decode_cursor ?safe = (case str_split1 (CHR '':'') ?t of
           [prefix', raw] \<Rightarrow> (case py_int_text raw of None \<Rightarrow> Inl invalid_cursor
              | Some i \<Rightarrow> if prefix' \<noteq> ''v1'' \<or> i < 0 then Inl invalid_cursor else Inr (nat i))
         | _ \<Rightarrow> Inl invalid_cursor)"
    unfolding decode_cursor_def Let_def len k undone e(1) [symmetric] lenient_encode option.case chars using bytes by (simp only: if_False)
  also have "\<dots> = Inr n" unfolding colon list.case py_int_text_nat_digits option.case by simp
  finally show ?thesis unfolding s .
qed


section \<open>Streams of pages\<close>

text \<open>A source that serves a fixed sequence of events in pages of \<open>size'\<close> behind cursors: the page after the last has no
  cursor, and the cursors of different offsets differ.\<close>

locale cursor_paging =
  fixes fetch :: "string option \<Rightarrow> 'w \<Rightarrow> (diag_exn + document) \<times> 'w"
    and cursor_at :: "nat \<Rightarrow> string"
    and page_at :: "nat \<Rightarrow> document"
    and items :: "document \<Rightarrow> 'a list"
    and all :: "'a list"
    and size' :: nat
  assumes answers: "k \<le> length all \<Longrightarrow> fetch (Some (cursor_at k)) w = (Inr (page_at k), w)"
    and holds: "k \<le> length all \<Longrightarrow> items (page_at k) = take size' (drop k all)"
    and continues: "k \<le> length all \<Longrightarrow> next_cursor (page_at k) = (if k + size' < length all then Some (cursor_at (k + size')) else None)"
    and apart: "j \<le> length all \<Longrightarrow> k \<le> length all \<Longrightarrow> cursor_at j = cursor_at k \<Longrightarrow> j = k"
    and moves: "0 < size'"
begin

lemma walk_from:
  assumes "k \<le> length all" "\<And>j. j \<le> length all \<Longrightarrow> k \<le> j \<Longrightarrow> cursor_at j \<notin> set seen"
  shows "\<exists>pages. page_walk fetch (\<lambda>p. Inr (out p)) (Some (cursor_at k)) seen w = Some (pages, concat (map out pages), None, w) \<and>
    concat (map items pages) = drop k all"
  using assms
proof (induction "length all - k" arbitrary: k seen rule: less_induct)
  case less
  have r: "remember_cursor (Some (cursor_at k)) seen = Inr (cursor_at k # seen)"
    using less.prems(2) [OF less.prems(1) order_refl] by (simp add: remember_cursor_def)
  note step = page_walk.simps [of fetch "\<lambda>p. Inr (out p)" "Some (cursor_at k)" seen w] r answers [OF less.prems(1), of w] continues [OF less.prems(1)]
  show ?case
  proof (cases "k + size' < length all")
    case True
    have "length all - (k + size') < length all - k" using True moves by simp
    moreover have "cursor_at j \<notin> set (cursor_at k # seen)" if "j \<le> length all" "k + size' \<le> j" for j
      using that less.prems(2) [of j] apart [OF that(1) less.prems(1)] moves by auto
    ultimately obtain pages where p:
      "page_walk fetch (\<lambda>p. Inr (out p)) (Some (cursor_at (k + size'))) (cursor_at k # seen) w = Some (pages, concat (map out pages), None, w)"
      "concat (map items pages) = drop (k + size') all"
      using less.hyps [of "k + size'" "cursor_at k # seen"] True by auto
    have "take size' (drop k all) @ drop (k + size') all = drop k all"
      by (metis append_take_drop_id drop_drop add.commute)
    then show ?thesis using p True step holds [OF less.prems(1)]
      by (intro exI [of _ "page_at k # pages"]) simp
  next
    case False
    then have "take size' (drop k all) = drop k all" by simp
    then show ?thesis using False step holds [OF less.prems(1)]
      by (intro exI [of _ "[page_at k]"]) simp
  qed
qed

lemma reads_all:
  "\<exists>pages. page_walk fetch (\<lambda>p. Inr (out p)) (Some (cursor_at 0)) [] w = Some (pages, concat (map out pages), None, w) \<and> concat (map items pages) = all"
  using walk_from [of 0 "[]" out w] by simp

end

section \<open>The pages of a receipt\<close>

definition receipt_cursor :: "nat \<Rightarrow> string" where
  "receipt_cursor k = (if k = 0 then ''start'' else encode_cursor k)"

text \<open>The pages of a receipt that has been read.\<close>

definition journal_page :: "receipt_fs \<Rightarrow> string list \<Rightarrow> document \<Rightarrow> string \<Rightarrow> document list \<times> nat \<Rightarrow> nat \<Rightarrow> string option \<Rightarrow> 'w \<Rightarrow> (diag_exn + document) \<times> 'w" where
  "journal_page fs d receipt run journal limit cursor w =
     (bindE (select_records (fst journal) limit cursor) (\<lambda>page. Inr (receipt_document fs d receipt run journal limit page)), w)"

definition journal_page_at :: "receipt_fs \<Rightarrow> string list \<Rightarrow> document \<Rightarrow> string \<Rightarrow> document list \<times> nat \<Rightarrow> nat \<Rightarrow> nat \<Rightarrow> document" where
  "journal_page_at fs d receipt run journal limit k = receipt_document fs d receipt run journal limit
     (take limit (drop k (fst journal)), length (fst journal), if k + limit < length (fst journal) then Some (encode_cursor (k + limit)) else None, ''page'')"

lemma start_no_cursor: "encode_cursor k \<noteq> ''start''"
proof
  assume "encode_cursor k = ''start''"
  then have "decode_cursor ''start'' = Inr k" using cursor_read_back [of k] by simp
  moreover have "(case decode_cursor ''start'' of Inr _ \<Rightarrow> False | Inl _ \<Rightarrow> True)" by code_simp
  ultimately show False by simp
qed

lemma encode_cursor_nonempty: "encode_cursor k \<noteq> []"
proof
  assume "encode_cursor k = []"
  then have "decode_cursor [] = Inr k" using cursor_read_back [of k] by simp
  moreover have "(case decode_cursor [] of Inr _ \<Rightarrow> False | Inl _ \<Rightarrow> True)" by code_simp
  ultimately show False by simp
qed

lemma receipt_cursor_eq: "receipt_cursor j = receipt_cursor k \<longleftrightarrow> j = k"
  by (auto simp: receipt_cursor_def start_no_cursor start_no_cursor [symmetric] dest: arg_cong [of _ _ decode_cursor] simp: cursor_read_back)

lemma select_at: "k \<le> length records \<Longrightarrow> select_records records limit (Some (receipt_cursor k)) =
    Inr (take limit (drop k records), length records, if k + limit < length records then Some (encode_cursor (k + limit)) else None, ''page'')"
  by (auto simp: select_records_def receipt_cursor_def start_no_cursor cursor_read_back min_def Let_def)

lemma document_sections:
  "doc_section (receipt_document fs d receipt run journal limit page) ''events'' = fst (local_events (fs_now fs) page limit)"
  unfolding receipt_document_def Let_def case_prod_beta append_Cons by (simp add: doc_section_def get_or_none_def dict_get_Cons)

lemma receipt_cursor_Suc: "receipt_cursor (k + Suc l) = encode_cursor (k + Suc l)"
  by (simp add: receipt_cursor_def)

lemma page_reads:
  "event_items (receipt_document fs d receipt run journal limit (selected, n, after, mode)) = map (event_from_record (fs_now fs)) selected"
  "after \<noteq> Some [] \<Longrightarrow> next_cursor (receipt_document fs d receipt run journal limit (selected, n, after, mode)) = after"
proof -
  let ?p = "receipt_document fs d receipt run journal limit (selected, n, after, mode)"
  have e: "doc_section ?p ''events'' = fst (local_events (fs_now fs) (selected, n, after, mode) limit)" by (rule document_sections)
  show "event_items ?p = map (event_from_record (fs_now fs)) selected"
    unfolding event_items_def e by (simp add: local_events_def get_or_none_def dict_get_def map_filter_map_filter comp_def map_filter_def)
  show "next_cursor ?p = after" if "after \<noteq> Some []"
    unfolding next_cursor_def e using that
    by (cases after; cases "the after") (auto simp: local_events_def get_or_none_def dict_get_def optional_member_def optional_text_def)
qed

interpretation jp: cursor_paging "journal_page fs d receipt run journal (Suc l)" receipt_cursor "journal_page_at fs d receipt run journal (Suc l)" event_items
    "map (event_from_record (fs_now fs)) (fst journal)" "Suc l"
  for fs d receipt run journal l
proof unfold_locales
  fix k w
  assume k: "k \<le> length (map (event_from_record (fs_now fs)) (fst journal))"
  then show "journal_page fs d receipt run journal (Suc l) (Some (receipt_cursor k)) w = (Inr (journal_page_at fs d receipt run journal (Suc l) k), w)"
    by (simp add: journal_page_def journal_page_at_def select_at)
qed (simp_all add: journal_page_at_def page_reads take_map drop_map receipt_cursor_Suc [simplified] encode_cursor_nonempty receipt_cursor_eq)

text \<open>The document made of a receipt has the form that \<open>parse_job_diagnostics\<close> asks of a server's.\<close>

lemma document_members:
  "get_or_none (receipt_document fs d receipt run journal limit page) ''schema'' = PStr schema_id"
  "get_or_none (receipt_document fs d receipt run journal limit page) ''jobId'' = PStr run"
  "get_or_none (receipt_document fs d receipt run journal limit page) ''lifecycle'' = PDict (local_lifecycle (fs_now fs) receipt (fst journal))"
  "get_or_none (receipt_document fs d receipt run journal limit page) ''attempt'' = PDict (fst (local_attempt (fst journal)))"
  "get_or_none (receipt_document fs d receipt run journal limit page) ''events'' = PDict (fst (local_events (fs_now fs) page limit))"
  "get_or_none (receipt_document fs d receipt run journal limit page) ''artifacts'' = PDict (fst (local_artifacts fs d receipt))"
  "get_or_none (receipt_document fs d receipt run journal limit page) ''failure'' =
     (case local_failure receipt (fst journal) of None \<Rightarrow> PNone | Some f \<Rightarrow> PDict f)"
  unfolding receipt_document_def Let_def case_prod_beta append_Cons
  by (simp_all add: get_or_none_def dict_get_Cons optional_member_def split: option.split)

lemma document_evidence:
  "\<exists>m t n. get_or_none (receipt_document fs d receipt run journal limit page) ''evidence'' =
     PDict [(''missing'', strings_value m), (''truncated'', strings_value t), (''notes'', strings_value n)]"
  unfolding receipt_document_def Let_def case_prod_beta append_Cons
  by (simp add: get_or_none_def dict_get_Cons) (intro exI conjI, (rule refl)+)

lemma receipt_document_valid: "run \<noteq> [] \<Longrightarrow> parse_job_diagnostics (PDict (receipt_document fs d receipt run journal limit page)) = Inr (receipt_document fs d receipt run journal limit page)"
proof -
  assume run: "run \<noteq> []"
  let ?d = "receipt_document fs d receipt run journal limit page"
  obtain m t n where e: "get_or_none ?d ''evidence'' = PDict [(''missing'', strings_value m), (''truncated'', strings_value t), (''notes'', strings_value n)]"
    using document_evidence by blast
  have s: "require_strings [(''missing'', strings_value m), (''truncated'', strings_value t), (''notes'', strings_value n)] k label = Inr ()"
    if "k \<in> {''missing'', ''truncated'', ''notes''}" for k label
    using that by (auto simp: require_strings_def get_or_none_def dict_get_Cons strings_value_def list_all_iff is_str_def)
  have b: "require_bool (fst (local_events (fs_now fs) page limit)) ''truncated'' label = Inr ()" for label
    by (cases page) (simp add: require_bool_def local_events_def get_or_none_def dict_get_Cons)
  have j: "optional_text (PStr run) \<noteq> None" using run by (cases run) (simp_all add: optional_text_def)
  have f: "get_or_none ?d ''failure'' = PNone \<or> (\<exists>f. get_or_none ?d ''failure'' = PDict f)"
    unfolding document_members by (cases "local_failure receipt (fst journal)") simp_all
  show ?thesis
    using j f by (auto simp: parse_job_diagnostics_def document_members(1-6) e s b require_mapping_def)
qed

text \<open>C40. A local receipt is projected into the server's contract: whatever the receipt and its journal hold, the document
  \<open>_local_document\<close> makes is accepted by \<open>parse_job_diagnostics\<close> and comes back unchanged, so that reading a receipt
  never ends in a contract error.\<close>

theorem local_projection_valid:
  assumes "local_document fs path events cursor = Inr d"
  shows "load_local_receipt fs path events cursor = Inr d \<and> parse_job_diagnostics (PDict d) = Inr d"
proof -
  obtain fs' dir receipt run journal limit page where "d = receipt_document fs' dir receipt run journal limit page" "run \<noteq> []"
    using assms by (auto simp: local_document_def bindE_eq_Inr optional_text_def split: option.splits pyval.splits list.splits)
  with receipt_document_valid have "parse_job_diagnostics (PDict d) = Inr d" by blast
  then show ?thesis using assms by (simp add: load_local_receipt_def)
qed

text \<open>A receipt directory whose files can be read.\<close>

definition readable_receipt :: "receipt_fs \<Rightarrow> string list \<Rightarrow> string list \<Rightarrow> document \<Rightarrow> string \<Rightarrow> document list \<times> nat \<Rightarrow> bool" where
  "readable_receipt fs path d receipt run journal \<longleftrightarrow> receipt_directory fs path = Inr d \<and> receipt_directory fs d = Inr d \<and>
     read_json_object fs (d @ [''receipt.json'']) = Inr receipt \<and> read_journal fs d receipt = Inr journal \<and> optional_text (get_or_none receipt ''runId'') = Some run"

lemma readable_run: "readable_receipt fs path d receipt run journal \<Longrightarrow> run \<noteq> []"
  by (auto simp: readable_receipt_def optional_text_def split: pyval.splits list.splits)

lemma local_load:
  assumes "readable_receipt fs path d receipt run journal" "1 \<le> events" "events \<le> max_event_limit"
  shows "local_fetch fs d events cursor w = journal_page fs d receipt run journal (nat events) cursor w"
  using assms receipt_document_valid [OF readable_run [OF assms(1)]]
  by (cases "select_records (fst journal) (nat events) cursor")
     (simp_all add: local_fetch_def load_local_receipt_def local_document_def journal_page_def readable_receipt_def validate_events_def)

text \<open>C37. The log of a local receipt is complete: paging from the start, with any page size the command admits, ends without an
  error, and the events of the pages, put together, are those of all journal records, each once and in order; the
  consumer of the pages has been given every one of them.\<close>

theorem local_log_complete:
  assumes "readable_receipt fs path d receipt run (records, skipped)" "1 \<le> events" "events \<le> max_event_limit"
  shows "\<exists>pages. iter_local_event_pages fs path events (Some ''start'') (\<lambda>p. Inr (out p)) w = Some (pages, concat (map out pages), None, w) \<and>
    concat (map event_items pages) = map (event_from_record (fs_now fs)) records"
proof -
  obtain l where l: "nat events = Suc l" using assms(2) by (cases "nat events") auto
  have f: "local_fetch fs d events = journal_page fs d receipt run (records, skipped) (Suc l)"
    unfolding l [symmetric] by (intro ext local_load [OF assms])
  have "receipt_directory fs path = Inr d" using assms(1) by (simp add: readable_receipt_def)
  then show ?thesis
    using jp.reads_all [of fs d receipt run "(records, skipped)" l out w] by (simp add: iter_local_event_pages_def f receipt_cursor_def)
qed

text \<open>A stream whose cursors come from a finite set.\<close>

lemma page_walk_stops:
  "remember_cursor cursor seen = Inl e \<Longrightarrow> page_walk fetch emit cursor seen w = Some ([], [], Some e, w)"
  "remember_cursor cursor seen = Inr seen' \<Longrightarrow> fetch cursor w = (Inl e, w1) \<Longrightarrow> page_walk fetch emit cursor seen w = Some ([], [], Some e, w1)"
  "remember_cursor cursor seen = Inr seen' \<Longrightarrow> fetch cursor w = (Inr p, w1) \<Longrightarrow> emit p = Inl e \<Longrightarrow> page_walk fetch emit cursor seen w = Some ([p], [], Some e, w1)"
  "remember_cursor cursor seen = Inr seen' \<Longrightarrow> fetch cursor w = (Inr p, w1) \<Longrightarrow> emit p = Inr out \<Longrightarrow> next_cursor p = None \<Longrightarrow>
    page_walk fetch emit cursor seen w = Some ([p], out, None, w1)"
  by (subst page_walk.simps; simp)+

lemma page_walk_goes_on:
  "remember_cursor cursor seen = Inr seen' \<Longrightarrow> fetch cursor w = (Inr p, w1) \<Longrightarrow> emit p = Inr out \<Longrightarrow> next_cursor p = Some c \<Longrightarrow>
    page_walk fetch emit (Some c) seen' w1 = Some (pages, outs, e, w') \<Longrightarrow> page_walk fetch emit cursor seen w = Some (p # pages, out @ outs, e, w')"
  by (subst page_walk.simps) simp

lemma page_walk_step:
  assumes "remember_cursor cursor seen = Inr seen'"
    "\<And>p w1 c. fetch cursor w = (Inr p, w1) \<Longrightarrow> next_cursor p = Some c \<Longrightarrow>
       \<exists>pages outs e w'. page_walk fetch emit (Some c) seen' w1 = Some (pages, outs, e, w') \<and> length pages \<le> n"
  shows "\<exists>pages outs e w'. page_walk fetch emit cursor seen w = Some (pages, outs, e, w') \<and> length pages \<le> Suc n"
proof -
  note r = assms(1)
  obtain a w1 where f: "fetch cursor w = (a, w1)" by fastforce
  show ?thesis
  proof (cases a)
    case (Inl e)
    then show ?thesis using page_walk_stops(2) [where fetch = fetch, OF r f [unfolded Inl]] by simp
  next
    case (Inr p)
    note f = f [unfolded Inr]
    show ?thesis
    proof (cases "emit p")
      case (Inl e)
      then show ?thesis using page_walk_stops(3) [where fetch = fetch and emit = emit, OF r f Inl] by simp
    next
      case (Inr out)
      show ?thesis
      proof (cases "next_cursor p")
        case None
        then show ?thesis using page_walk_stops(4) [where fetch = fetch and emit = emit, OF r f Inr None] by simp
      next
        case (Some c)
        then obtain pages outs e w' where "page_walk fetch emit (Some c) seen' w1 = Some (pages, outs, e, w')" "length pages \<le> n"
          using assms(2) [OF f Some] by blast
        then show ?thesis using page_walk_goes_on [where fetch = fetch and emit = emit, OF r f Inr Some] by auto
      qed
    qed
  qed
qed

lemma known_stream_ends:
  assumes "finite C" and closed: "\<And>cursor w p w' c. fetch cursor w = (Inr p, w') \<Longrightarrow> next_cursor p = Some c \<Longrightarrow> c \<in> C"
  shows "c \<in> C \<Longrightarrow> \<exists>pages outs e w'. page_walk fetch emit (Some c) seen w = Some (pages, outs, e, w') \<and> length pages \<le> card (C - set seen)"
proof (induction "card (C - set seen)" arbitrary: seen c w rule: less_induct)
  case less
  show ?case
  proof (cases "c \<in> set seen")
    case True
    then have "remember_cursor (Some c) seen = Inl (StreamInterrupted ''event stream repeated a cursor instead of ending'')"
      by (simp add: remember_cursor_def)
    from page_walk_stops(1) [where fetch = fetch and emit = emit and w = w, OF this] show ?thesis by simp
  next
    case False
    then have r: "remember_cursor (Some c) seen = Inr (c # seen)" by (simp add: remember_cursor_def)
    have "C - set (c # seen) = (C - set seen) - {c}" by auto
    moreover have "c \<in> C - set seen" using less.prems False by blast
    ultimately have n: "card (C - set seen) = Suc (card (C - set (c # seen)))"
      using card_Suc_Diff1 [of "C - set seen" c] assms(1) by (metis finite_Diff)
    show ?thesis unfolding n
    proof (rule page_walk_step [OF r])
      fix p w1 c'
      assume "fetch (Some c) w = (Inr p, w1)" "next_cursor p = Some c'"
      then have "c' \<in> C" by (rule closed)
      then show "\<exists>pages outs e w'. page_walk fetch emit (Some c') (c # seen) w1 = Some (pages, outs, e, w') \<and> length pages \<le> card (C - set (c # seen))"
        by (rule less.hyps [rotated]) (simp only: n lessI)
    qed
  qed
qed

text \<open>C38. A remote log ends: a server that hands out finitely many cursors is left after at most one page more than
  there are cursors, as a cursor that comes back ends the stream with an error and is not followed again.\<close>

theorem remote_log_ends:
  assumes "finite C" "\<And>cursor w p w' c. gp_diagnostics remote job_id events cursor w = (Inr p, w') \<Longrightarrow> next_cursor p = Some c \<Longrightarrow> c \<in> C"
  shows "\<exists>pages outs e w'. iter_event_pages remote job_id events cursor emit w = Some (pages, outs, e, w') \<and> length pages \<le> Suc (card C)"
proof -
  obtain seen where r: "remember_cursor cursor [] = Inr seen" by (cases cursor) (auto simp: remember_cursor_def)
  show ?thesis unfolding iter_event_pages_def
  proof (rule page_walk_step [OF r])
    fix p w1 c
    assume "gp_diagnostics remote job_id events cursor w = (Inr p, w1)" "next_cursor p = Some c"
    then have c: "c \<in> C" by (rule assms(2))
    have "\<exists>pages outs e w'. page_walk (gp_diagnostics remote job_id events) emit (Some c) seen w1 = Some (pages, outs, e, w') \<and> length pages \<le> card (C - set seen)"
      by (rule known_stream_ends [OF assms(1) _ c]) (rule assms(2))
    then
    obtain pages outs e w' where "page_walk (gp_diagnostics remote job_id events) emit (Some c) seen w1 = Some (pages, outs, e, w')" "length pages \<le> card (C - set seen)"
      by blast
    moreover have "card (C - set seen) \<le> card C" using assms(1) by (simp add: card_mono)
    ultimately show "\<exists>pages outs e w'. page_walk (gp_diagnostics remote job_id events) emit (Some c) seen w1 = Some (pages, outs, e, w') \<and> length pages \<le> card C"
      by (meson le_trans)
  qed
qed

section \<open>What is printed\<close>

lemma page_walk_outputs:
  fixes w :: 'w
  assumes "page_walk fetch emit cursor seen w = Some r" "\<And>p out. emit p = Inr out \<Longrightarrow> list_all ok out"
  shows "list_all ok (fst (snd r))"
proof -
  let ?P = "\<lambda>(fetch :: string option \<Rightarrow> 'w \<Rightarrow> (diag_exn + document) \<times> 'w) (emit :: document \<Rightarrow> diag_exn + string list) (cursor :: string option) (seen :: string list) (w :: 'w) (r :: document list \<times> string list \<times> diag_exn option \<times> 'w). (\<forall>p out. emit p = Inr out \<longrightarrow> list_all ok out) \<longrightarrow> list_all ok (fst (snd r))"
  have "?P fetch emit cursor seen w r"
  proof (rule page_walk.raw_induct [where P = ?P, OF _ assms(1)], intro impI)
    fix walk fetch and emit :: "document \<Rightarrow> diag_exn + string list" and cursor seen w r
    assume ih: "\<And>fetch emit cursor seen w r. walk fetch emit cursor seen w = Some r \<Longrightarrow> ?P fetch emit cursor seen w r"
      and e: "\<forall>p out. emit p = Inr out \<longrightarrow> list_all ok out"
    assume "(case remember_cursor cursor seen of Inl e \<Rightarrow> Some ([], [], Some e, w)
      | Inr seen' \<Rightarrow> (case fetch cursor w of (Inl e, w1) \<Rightarrow> Some ([], [], Some e, w1)
        | (Inr page, w1) \<Rightarrow> (case emit page of Inl e \<Rightarrow> Some ([page], [], Some e, w1)
          | Inr out \<Rightarrow> (case next_cursor page of None \<Rightarrow> Some ([page], out, None, w1)
            | Some c \<Rightarrow> Option.bind (walk fetch emit (Some c) seen' w1) (\<lambda>(pages, outs, e, w2). Some (page # pages, out @ outs, e, w2)))))) = Some r"
    then show "list_all ok (fst (snd r))"
      using e by (auto split: sum.splits option.splits prod.splits simp: bind_eq_Some_conv dest!: ih)
  qed
  then show ?thesis using assms(2) by blast
qed

text \<open>A line that is redacted and then ended holds no secret of one line.\<close>

lemma ended_line_clean: "plain_secret x \<Longrightarrow> CHR 0x0A \<notin> set x \<Longrightarrow> x \<in> set secrets \<Longrightarrow> \<not> str_contains x (redact_secrets secrets t @ newline)"
  using contains_split [of "CHR 0x0A" x "redact_secrets secrets t" "[]"] redacted_absent [of x secrets t]
  by (auto simp: plain_secret_def str_contains_iff)

lemma log_lines_clean:
  assumes "plain_secret x" "CHR 0x0A \<notin> set x" "x \<in> set secrets" "stream_logs env args local' secrets w = Some (code, outs, errs, w')" "\<not> ga_json args"
  shows "list_all (\<lambda>line. \<not> str_contains x line) outs"
proof -
  note clean = ended_line_clean [OF assms(1-3)]
  let ?emit = "\<lambda>page. if ga_json args then write_log_page page secrets else write_log_lines page secrets"
  have emit: "list_all (\<lambda>line. \<not> str_contains x line) out" if "?emit p = Inr out" for p out
    using that clean assms(5) by (auto simp: write_log_lines_def list_all_iff)
  have outputs: "list_all (\<lambda>line. \<not> str_contains x line) (fst (snd r))" if "page_walk fetch ?emit cursor seen v = Some r" for fetch cursor seen v r
    by (rule page_walk_outputs [OF that emit])
  have pages: "list_all (\<lambda>line. \<not> str_contains x line) (fst (snd r))" if "log_pages env args local' ?emit w = Some r" for r
    using that unfolding log_pages_def iter_local_event_pages_def iter_event_pages_def Let_def
    by (auto split: option.splits sum.splits prod.splits dest!: outputs)
  obtain pages outs1 e w1 where l: "log_pages env args local' ?emit w = Some (pages, outs1, e, w1)"
    using assms(4) by (auto simp: stream_logs_def bind_eq_Some_conv)
  have "list_all (\<lambda>line. \<not> str_contains x line) outs1" using pages [OF l] by simp
  then show ?thesis using assms(4,5) l clean
    by (auto simp: stream_logs_def list_all_iff split: option.splits prod.splits)
qed


section \<open>Instances\<close>

text \<open>A run directory with a receipt and a journal of four lines, the last of them no record.\<close>

definition sample_receipt :: document where
  "sample_receipt = [(''runId'', PStr ''r1''), (''status'', PStr ''failed''), (''failedPhase'', PStr ''load''),
     (''error'', PDict [(''message'', PStr ''token=abc refused'')])]"

definition sample_records :: "document list" where
  "sample_records =
     [[(''v'', PInt 1), (''kind'', PStr ''phase''), (''phase'', PStr ''load''), (''at'', PStr ''t1''), (''seq'', PInt 0)],
      [(''v'', PInt 1), (''kind'', PStr ''log''), (''message'', PStr ''password: hunter2''), (''at'', PStr ''t2''), (''seq'', PInt 1)],
      [(''v'', PInt 1), (''kind'', PStr ''terminal''), (''status'', PStr ''failed''), (''at'', PStr ''t3''), (''seq'', PInt 2)]]"

definition sample_fs :: receipt_fs where
  "sample_fs = \<lparr>fs_exists = (\<lambda>p. p \<in> {[''run''], [''run'', ''receipt.json''], [''run'', ''events.jsonl'']}),
     fs_is_file = (\<lambda>p. p \<in> {[''run'', ''receipt.json''], [''run'', ''events.jsonl'']}), fs_is_dir = (\<lambda>p. p = [''run'']),
     fs_read = (\<lambda>p. if p = [''run'', ''receipt.json''] then ReadText ''R'' else if p = [''run'', ''events.jsonl'']
       then ReadText (''0'' @ newline @ ''1'' @ newline @ ''2'' @ newline @ ''x'' @ newline) else ReadFailed),
     fs_resolve = id, fs_json = (\<lambda>s. if s = ''R'' then Some (PDict sample_receipt) else if s = ''0'' then Some (PDict (sample_records ! 0))
       else if s = ''1'' then Some (PDict (sample_records ! 1)) else if s = ''2'' then Some (PDict (sample_records ! 2)) else None),
     fs_expand = id, fs_now = ''now''\<rparr>"

lemma sample_readable: "readable_receipt sample_fs [''run''] [''run''] sample_receipt ''r1'' (sample_records, 1)"
  by code_simp

theorem local_projection_valid_witness:
  "\<exists>d. load_local_receipt sample_fs [''run''] 2 None = Inr d \<and> parse_job_diagnostics (PDict d) = Inr d"
proof -
  have "case local_document sample_fs [''run''] 2 None of Inl _ \<Rightarrow> False | Inr _ \<Rightarrow> True" by code_simp
  then obtain d where "local_document sample_fs [''run''] 2 None = Inr d" by (auto split: sum.splits)
  from local_projection_valid [OF this] show ?thesis by blast
qed

theorem local_log_complete_witness:
  "\<exists>pages. iter_local_event_pages sample_fs [''run''] 2 (Some ''start'') (\<lambda>p. Inr (map entry_message (event_items p))) () =
     Some (pages, concat (map (\<lambda>p. map entry_message (event_items p)) pages), None, ()) \<and>
     concat (map event_items pages) = map (event_from_record (fs_now sample_fs)) sample_records"
  by (rule local_log_complete [OF sample_readable]) (simp_all add: max_event_limit_def)

text \<open>A server whose every page points to the same next page and carries a key in its event.\<close>

definition sample_page :: document where
  "sample_page = [(''schema'', PStr schema_id), (''jobId'', PStr ''j''), (''lifecycle'', PDict []), (''attempt'', PDict []), (''artifacts'', PDict []),
     (''events'', PDict [(''truncated'', PBool True), (''nextCursor'', PStr ''c1''),
        (''items'', PList [PDict [(''timestamp'', PStr ''t''), (''level'', PStr ''Info''), (''message'', PStr ''sent k-12345 on'')]])]),
     (''evidence'', PDict [(''missing'', PList []), (''truncated'', PList []), (''notes'', PList [])])]"

definition sample_remote :: "unit diag_client" where
  "sample_remote path params w = (Inr (PDict sample_page), w)"

lemma sample_page_parsed:
  "parse_job_diagnostics (PDict sample_page) = Inr sample_page"
  "next_cursor sample_page = Some ''c1''"
  by code_simp+

lemma sample_page_read: "gp_diagnostics sample_remote job events cursor w = (Inr p, w') \<Longrightarrow> next_cursor p = Some ''c1''"
  by (auto simp: gp_diagnostics_def sample_remote_def sample_page_parsed split: sum.splits prod.splits)

theorem remote_log_ends_witness:
  "\<exists>pages outs e w'. iter_event_pages sample_remote ''j'' 50 (Some ''start'') (\<lambda>p. Inr [text_member p ''jobId'']) () = Some (pages, outs, e, w') \<and>
     length pages \<le> Suc (card {''c1''})"
  by (rule remote_log_ends) (auto dest: sample_page_read)

definition sample_env :: "unit diag_env" where
  "sample_env = \<lparr>de_fs = sample_fs, de_environ = (\<lambda>_. None), de_client = (\<lambda>_ w. (Inr sample_remote, w))\<rparr>"

definition sample_args :: gp_args where
  "sample_args = \<lparr>ga_inspect = False, ga_job = ''j'', ga_json = False, ga_events = 50, ga_event_cursor = None, ga_base_url = Some ''http://h'', ga_api_key = Some ''k-12345''\<rparr>"

lemma sample_read: "gp_diagnostics sample_remote ''j'' 50 (Some (c # cs)) w = (Inr sample_page, w)"
  by (simp add: gp_diagnostics_def diagnostics_path_def diagnostics_params_def validate_events_def max_event_limit_def sample_remote_def str_strip_def str_lstrip_def char_is_space_def sample_page_parsed)

lemma sample_walk:
  assumes "emit sample_page = Inr out"
  shows "page_walk (gp_diagnostics sample_remote ''j'' 50) emit (Some ''start'') [] () =
    Some ([sample_page, sample_page], out @ out, Some (StreamInterrupted ''event stream repeated a cursor instead of ending''), ())"
proof -
  let ?f = "gp_diagnostics sample_remote ''j'' 50"
  have "page_walk ?f emit (Some ''c1'') [''c1'', ''start''] () = Some ([], [], Some (StreamInterrupted ''event stream repeated a cursor instead of ending''), ())"
    by (rule page_walk_stops(1)) (simp add: remember_cursor_def)
  then have "page_walk ?f emit (Some ''c1'') [''start''] () = Some (sample_page # [], out @ [], Some (StreamInterrupted ''event stream repeated a cursor instead of ending''), ())"
    by (rule page_walk_goes_on [where fetch = ?f and emit = emit, OF _ sample_read assms sample_page_parsed(2), rotated]) (simp add: remember_cursor_def)
  then have "page_walk ?f emit (Some ''start'') [] () = Some (sample_page # [sample_page], out @ (out @ []), Some (StreamInterrupted ''event stream repeated a cursor instead of ending''), ())"
    by (rule page_walk_goes_on [where fetch = ?f and emit = emit and cursor = "Some ''start''" and seen = "[]", OF _ sample_read assms sample_page_parsed(2), rotated])
      (simp add: remember_cursor_def)
  then show ?thesis by simp
qed

lemma sample_run: "map_option (\<lambda>(code, outs, _). (code, outs)) (run_gp_diagnostics sample_env sample_args ()) =
    Some (6, [''t Info sent [REDACTED] on'' @ newline, ''t Info sent [REDACTED] on'' @ newline])"
proof -
  have secrets: "cli_secrets (de_environ sample_env) sample_args = [''k-12345'']" by code_simp
  have remote: "local_receipt_directory (de_fs sample_env) (ga_job sample_args) = Inr None" by code_simp
  have lines: "write_log_lines sample_page [''k-12345''] = Inr [''t Info sent [REDACTED] on'' @ newline]" by code_simp
  have walk: "log_pages sample_env sample_args None emit () = page_walk (gp_diagnostics sample_remote ''j'' 50) emit (Some ''start'') [] ()" for emit
    by (simp add: log_pages_def open_client_def require_base_url_def sample_env_def sample_args_def iter_event_pages_def)
  have args: "ga_events sample_args = 50" "\<not> ga_inspect sample_args" "\<not> ga_json sample_args" by (simp_all add: sample_args_def)
  show ?thesis unfolding run_gp_diagnostics_def Let_def secrets remote
    by (simp add: args validate_events_def max_event_limit_def stream_logs_def walk sample_walk [where emit = "\<lambda>page. write_log_lines page [''k-12345'']", OF lines] diagnostics_failure_def exit_interrupted_def)
qed


end
