(* ===== verification/Spec2Isabelle.thy ===== *)
theory Spec2Isabelle
  imports Core_Client Cursors Gp_Process_Tools Scene_Build Admin_Client Job_Diagnostics
begin

text \<open>
  A model of the Honua Python SDK: \<open>packages/honua-sdk\<close> (the client library), \<open>packages/honua-admin\<close>
  (the control-plane client) and \<open>packages/honua-gp\<close> (a shim that runs geoprocessing scripts over both).
  Paths below are relative to those packages' source directories.

  \<^bold>\<open>Ground.\<close> \<open>Py_Prelude\<close> has Python's dynamic values (\<open>pyval\<close>), dicts as association lists in insertion
  order, strings, and raised exceptions as the left of a sum (\<open>bindE\<close>, \<open>mapE\<close>). \<open>Py_Number\<close> has binary64
  with rounding, \<open>float\<close>, \<open>int\<close>, \<open>str\<close> and \<open>json.dumps\<close>; \<open>Py_Text\<close> has searching, splitting and the parts of
  \<open>urllib.parse\<close> in use. Strings hold ASCII characters.

  \<^bold>\<open>HTTP.\<close> \<open>Http_Base\<close>, \<open>Http_Client\<close> (\<open>_http.py\<close>), \<open>Failures\<close> (\<open>errors.py\<close>), \<open>Auth\<close> (\<open>auth.py\<close>) and \<open>Retry\<close>
  (\<open>_retry_core.py\<close>, \<open>_retry.py\<close>) are what every request passes through: headers are merged, the trust rule
  strips credentials from foreign authorities, the transport retries, and a failure becomes an exception with a
  receipt. Their lemmas bound the attempts and fix their order, keep credentials and sensitive metadata in, and
  describe the token store as a state machine whose reachable states serve valid tokens only.

  \<^bold>\<open>Queries.\<close> \<open>Protocols\<close> (\<open>models/_protocols.py\<close>), \<open>Features\<close> (\<open>models/_features.py\<close>), \<open>Geoservices_Query\<close>
  (\<open>_geoservices_query.py\<close>) and \<open>Query\<close> (\<open>_query.py\<close>) turn arguments into parameters and payloads into features.
  \<open>Paging\<close> has the page generators of the five protocols as walks, a request and a reception for each; a walk is
  run with fuel one more than the page limit, which is enough as every step counts a page. \<open>Dispatch\<close>
  (\<open>_query_dispatch.py\<close>) collects the pages behind one \<open>query\<close>, and \<open>Core_Client\<close> (\<open>client.py\<close>, \<open>_endpoints.py\<close>,
  \<open>models/_discovery.py\<close>) is the client itself with the ownership of its transports. The properties say that
  walks end, emit every item of an honest server in order, respect limits and never truncate silently, and that
  requests stay at the configured origin. \<open>Edit_Buffer\<close> is the contract of the write cursors, a locale
  interpreted on both of them: \<open>Cursors\<close> (\<open>cursors.py\<close>, \<open>models/_edits.py\<close>) and \<open>Da_Cursors\<close> (\<open>da\<close>).

  \<^bold>\<open>Geoprocessing.\<close> \<open>Geoprocessing\<close> (\<open>geoprocessing.py\<close>, \<open>raster.py\<close>) has inputs, submission, polling and result
  documents of OGC API Processes, \<open>Wkb\<close> (\<open>_wkb.py\<close>) the binary geometries, with a decoder of its own for the round
  trip. \<open>Polling\<close> is the locale of the polling loops: waiting is a partial function, \<open>None\<close> where it never returns,
  and the lemmas show that it returns once the clock moves by a fixed amount each turn.

  \<^bold>\<open>Shim.\<close> \<open>Gp_Manifest\<close> (\<open>_compat.py\<close>), \<open>Gp_Audit\<close> (\<open>_audit.py\<close>, \<open>_errors.py\<close>, the admin package's \<open>_redaction.py\<close>),
  \<open>Gp_Session\<close> (\<open>_session.py\<close>, \<open>env.py\<close>), \<open>Gp_Resolve\<close> (\<open>_resolve.py\<close>), \<open>Process_Jobs\<close>, \<open>Output_Artifact\<close>,
  \<open>Gp_Dispatch\<close> (\<open>_dispatch.py\<close>), \<open>Gp_Management\<close> (\<open>management\<close>) and \<open>Gp_Process_Tools\<close> (\<open>_process_tools.py\<close>). One
  record extends another: audit state, session, world, so that a tool is a step on the whole shim. The properties
  are about what the audit log may hold, what a failed process or tool leaves behind, and selections.

  \<^bold>\<open>Scenes.\<close> \<open>Scenes\<close> has the models of \<open>protocols/scenes.py\<close>, \<open>Scene_Packages\<close> the manifest of an offline package
  with its validation, \<open>Scene_Build\<close> tilesets, SHA-256, building a package and the clients. What is built is shown to
  validate, to be complete and to stay inside its directory. The walk of a tileset recurses over the document.

  \<^bold>\<open>Administration.\<close> \<open>Admin_Models\<close> and \<open>Admin_Migration\<close> (\<open>_models.py\<close>): a dataclass is a value of \<open>model_class\<close>, its
  fields with their defaults and the steps of its \<open>from_dict\<close>, and reading and writing are one function each; the
  typing theorem and the round trip are proved once for classes whose steps do not touch each other's members, and
  hold of each class by evaluation. \<open>Admin_Client\<close> (\<open>_async_client.py\<close>, \<open>_endpoints.py\<close>, \<open>_catalog.py\<close>) has every
  operation as a request and a reading of its answer; the walk over a catalog is a partial function that is shown to
  end.

  \<^bold>\<open>Diagnostics of jobs.\<close> \<open>Job_Diagnostics\<close> (\<open>gp_diagnostics.py\<close>) has the redaction of secrets, the document of a job's
  diagnostics, its projection from a local run receipt, the pages of events behind cursors and the commands that print
  them. The locale \<open>cursor_paging\<close> is the contract of a source of pages, interpreted on local receipts; reading pages is a
  partial function. A local log is complete, a remote one ends, a projected receipt is a document the reader of
  server documents accepts, and printed text holds no configured secret.

  \<^bold>\<open>Parameters.\<close> The HTTP library, URL parsing, header stores, JSON parsing, clocks, sleeping, random numbers, UUIDs,
  \<open>fromisoformat\<close> and the check of an IPv6 host are fields of records the definitions take (\<open>http_lib\<close>, \<open>admin_lib\<close>,
  \<open>transport_env\<close>, \<open>process_env\<close>, \<open>scene_env\<close>, \<open>jobs_client\<close>), over a world of any type. Laws about them are
  hypotheses of the properties that need them.

  \<^bold>\<open>Not modelled.\<close> Message texts of exceptions, log records and warnings; the asynchronous twins, which await the
  same steps (where an await lets other calls in between, as in the cursors, the steps are split there); the depth of
  Python's recursion; text beyond ASCII. Conversions of third-party geometry, raster and data-frame objects, the
  gRPC stubs and their adapter, the other command lines, the report of the environment, the evaluation corpus, scripts, examples and
  tests are left out.
\<close>

end
